(* ===== verification/Prelude.thy ===== *)
theory Prelude
  imports Complex_Main "HOL-Library.Multiset"
begin

text \<open>
  What the theories of the development share: the return codes of the code
  (\<^verbatim>\<open>src/zrtypes.h\<close>), C++ exceptions as values, programs as state transformers that
  return a value or an exception, the triples over them, 64-bit range checks, the
  record of the third-party functions the code calls, and generic lemmas on lists.
\<close>

section \<open>Fact collections\<close>

named_theorems prog_defs \<open>equations that unfold a program applied to a state\<close>
named_theorems keep_intros \<open>rules that derive preservation of an invariant by a program\<close>
named_theorems text_simps \<open>equations on strings, tokens and number formats\<close>

section \<open>Return codes and exceptions\<close>

datatype RetVal = ZR_FAILURE | ZR_SUCCESS | ZR_FINISH

text \<open>
  Ways in which the code leaves the C++ language, or never goes on: the model stops there with a
  value that no handler catches.
\<close>

datatype ub =
    Dangling_pointer
  | Uninitialised
  | Null_pointer
  | Signed_overflow
  | Float_conversion
  | Invalid_iterator
  | Index_out_of_range
  | Sql_injection
  | Aborted
  | Deadlock

text \<open>
  \<open>Runtime_error\<close> is \<^verbatim>\<open>std::runtime_error\<close> with its text, \<open>Bad_rational\<close> is
  \<^verbatim>\<open>boost::bad_rational\<close> (a \<^verbatim>\<open>std::domain_error\<close>), \<open>Out_of_range\<close> is
  \<^verbatim>\<open>std::out_of_range\<close>; the last two are \<^verbatim>\<open>std::logic_error\<close>s, so a handler for
  \<^verbatim>\<open>std::runtime_error\<close> lets them pass.
\<close>

datatype exn = Runtime_error string | Bad_rational | Out_of_range | Undefined ub

fun catch_runtime_error :: "exn \<Rightarrow> bool" where
  "catch_runtime_error (Runtime_error _) = True"
| "catch_runtime_error _ = False"

fun catch_exception :: "exn \<Rightarrow> bool" where
  "catch_exception (Undefined _) = False"
| "catch_exception _ = True"

lemma catch_runtime_error_imp: "catch_runtime_error e \<Longrightarrow> catch_exception e"
  by (cases e) auto

definition ebind :: "exn + 'a \<Rightarrow> ('a \<Rightarrow> exn + 'b) \<Rightarrow> exn + 'b" where
  "ebind r f = (case r of Inl e \<Rightarrow> Inl e | Inr x \<Rightarrow> f x)"

lemma ebind_simps [simp]: "ebind (Inl e) f = Inl e" "ebind (Inr x) f = f x"
  by (simp_all add: ebind_def)

lemma ebind_eq_Inr: "ebind r f = Inr y \<longleftrightarrow> (\<exists>x. r = Inr x \<and> f x = Inr y)"
  by (cases r) auto

fun efold :: "('a \<Rightarrow> 'b \<Rightarrow> exn + 'b) \<Rightarrow> 'a list \<Rightarrow> 'b \<Rightarrow> exn + 'b" where
  "efold f [] b = Inr b"
| "efold f (x # xs) b = ebind (f x b) (efold f xs)"

section \<open>Programs\<close>

text \<open>
  A member function with effects is a function from the global state to an outcome (an
  exception or a value) and the state it leaves: a state changed before a
  \<^verbatim>\<open>throw\<close> stays changed, as in the code.
\<close>

type_synonym ('s, 'a) prog = "'s \<Rightarrow> (exn + 'a) \<times> 's"

definition ret :: "'a \<Rightarrow> ('s, 'a) prog" where
  "ret x s = (Inr x, s)"

definition throw :: "exn \<Rightarrow> ('s, 'a) prog" where
  "throw e s = (Inl e, s)"

definition bnd :: "('s, 'a) prog \<Rightarrow> ('a \<Rightarrow> ('s, 'b) prog) \<Rightarrow> ('s, 'b) prog" where
  "bnd m f s = (case m s of (Inl e, t) \<Rightarrow> (Inl e, t) | (Inr x, t) \<Rightarrow> f x t)"

definition thn :: "('s, 'a) prog \<Rightarrow> ('s, 'b) prog \<Rightarrow> ('s, 'b) prog" where
  "thn m k = bnd m (\<lambda>_. k)"

definition try_catch :: "(exn \<Rightarrow> bool) \<Rightarrow> ('s, 'a) prog \<Rightarrow> (exn \<Rightarrow> ('s, 'a) prog) \<Rightarrow> ('s, 'a) prog" where
  "try_catch c m h s =
     (case m s of (Inl e, t) \<Rightarrow> if c e then h e t else (Inl e, t) | (Inr x, t) \<Rightarrow> (Inr x, t))"

definition gets :: "('s \<Rightarrow> 'a) \<Rightarrow> ('s, 'a) prog" where
  "gets f s = (Inr (f s), s)"

definition modify :: "('s \<Rightarrow> 's) \<Rightarrow> ('s, unit) prog" where
  "modify f s = (Inr (), f s)"

definition lift :: "exn + 'a \<Rightarrow> ('s, 'a) prog" where
  "lift r s = (r, s)"

definition whn :: "bool \<Rightarrow> ('s, unit) prog \<Rightarrow> ('s, unit) prog" where
  "whn b m = (if b then m else ret ())"

text \<open>Reading through a pointer: a freed or never allocated address is undefined behaviour.\<close>

definition deref :: "('s \<Rightarrow> 'r \<Rightarrow> 'v option) \<Rightarrow> 'r \<Rightarrow> ('s, 'v) prog" where
  "deref h r s = (case h s r of None \<Rightarrow> (Inl (Undefined Dangling_pointer), s) | Some v \<Rightarrow> (Inr v, s))"

text \<open>A member that was never assigned, or a pointer that may be null.\<close>

definition need :: "ub \<Rightarrow> 'a option \<Rightarrow> ('s, 'a) prog" where
  "need u v s = (case v of None \<Rightarrow> (Inl (Undefined u), s) | Some x \<Rightarrow> (Inr x, s))"

fun for_each :: "'a list \<Rightarrow> ('a \<Rightarrow> ('s, unit) prog) \<Rightarrow> ('s, unit) prog" where
  "for_each [] f = ret ()"
| "for_each (x # xs) f = thn (f x) (for_each xs f)"

lemma prog_apply [prog_defs]:
  "ret x s = (Inr x, s)"
  "throw e s = (Inl e, s)"
  "gets f s = (Inr (f s), s)"
  "modify g s = (Inr (), g s)"
  "lift r s = (r, s)"
  by (simp_all add: ret_def throw_def gets_def modify_def lift_def)

lemmas prog_unfold [prog_defs] = bnd_def thn_def try_catch_def deref_def need_def whn_def

lemma bnd_Inr: "m s = (Inr x, t) \<Longrightarrow> bnd m f s = f x t"
  by (simp add: bnd_def)

lemma bnd_Inl: "m s = (Inl e, t) \<Longrightarrow> bnd m f s = (Inl e, t)"
  by (simp add: bnd_def)

lemma thn_Inr: "m s = (Inr x, t) \<Longrightarrow> thn m k s = k t"
  by (simp add: thn_def bnd_def)

lemma thn_Inl: "m s = (Inl e, t) \<Longrightarrow> thn m k s = (Inl e, t)"
  by (simp add: thn_def bnd_def)

lemma bnd_step: "m s = (Inr x, t) \<Longrightarrow> f x t = r \<Longrightarrow> bnd m f s = r"
  by (simp add: bnd_def)

lemma bnd_lift: "v = Inr x \<Longrightarrow> f x s = r \<Longrightarrow> bnd (lift v) f s = r"
  by (simp add: bnd_def lift_def)

lemma try_catch_Inr: "m s = (Inr x, t) \<Longrightarrow> try_catch c m h s = (Inr x, t)"
  by (simp add: try_catch_def)

lemma bnd_ret [simp]: "bnd (ret x) f = f x"
  by (rule ext) (simp add: prog_defs)

lemma bnd_ret_right [simp]: "bnd m ret = m"
  by (rule ext) (auto simp: prog_defs split: prod.splits sum.splits)

lemma bnd_assoc: "bnd (bnd m f) g = bnd m (\<lambda>x. bnd (f x) g)"
  by (rule ext) (auto simp: prog_defs split: prod.splits sum.splits)

text \<open>Running a program step by step, the rest of it as the continuation.\<close>

lemma prog_step:
  "bnd (gets f) k s = k (f s) s"
  "bnd (modify g) j s = j () (g s)"
  "bnd (ret x) k' = k' x"
  "bnd (throw e) l s = (Inl e, s)"
  "bnd (lift r) l s = (case r of Inl e \<Rightarrow> (Inl e, s) | Inr x \<Rightarrow> l x s)"
  "bnd (bnd m n) k'' = bnd m (\<lambda>x. bnd (n x) k'')"
  "bnd (if b then p else q) h s = (if b then bnd p h s else bnd q h s)"
  "bnd (whn b p') h' s = (if b then bnd p' h' s else h' () s)"
  "thn m' o' = bnd m' (\<lambda>_. o')"
  by (simp_all add: bnd_def ret_def gets_def modify_def throw_def lift_def whn_def thn_def fun_eq_iff
      split: prod.splits sum.splits)

lemma for_each_append: "for_each (xs @ ys) f = thn (for_each xs f) (for_each ys f)"
  by (induction xs) (auto simp: thn_def bnd_assoc)

section \<open>Triples\<close>

text \<open>
  \<open>triple P m Q X\<close>: from a state with \<open>P\<close>, a normal return satisfies \<open>Q\<close> and an
  exception leaves a state with \<open>X\<close>. Programs are total functions, so nothing is said
  about a run that does not end: there is none.
\<close>

definition triple ::
  "('s \<Rightarrow> bool) \<Rightarrow> ('s, 'a) prog \<Rightarrow> ('a \<Rightarrow> 's \<Rightarrow> bool) \<Rightarrow> (exn \<Rightarrow> 's \<Rightarrow> bool) \<Rightarrow> bool" where
  "triple P m Q X \<longleftrightarrow>
     (\<forall>s. P s \<longrightarrow> (case m s of (Inl e, t) \<Rightarrow> X e t | (Inr x, t) \<Rightarrow> Q x t))"

definition keeps :: "('s \<Rightarrow> bool) \<Rightarrow> ('s, 'a) prog \<Rightarrow> bool" where
  "keeps I m \<longleftrightarrow> (\<forall>s. I s \<longrightarrow> I (snd (m s)))"

lemma keepsI: "(\<And>s. I s \<Longrightarrow> I (snd (m s))) \<Longrightarrow> keeps I m"
  by (simp add: keeps_def)

lemma keepsD: "keeps I m \<Longrightarrow> I s \<Longrightarrow> m s = (r, t) \<Longrightarrow> I t"
  by (auto simp: keeps_def dest: spec [of _ s])

lemma keeps_snd: "keeps I m \<Longrightarrow> I s \<Longrightarrow> I (snd (m s))"
  by (simp add: keeps_def)

lemma keeps_ret [keep_intros]: "keeps I (ret x)"
  and keeps_throw [keep_intros]: "keeps I (throw e)"
  and keeps_gets [keep_intros]: "keeps I (gets f)"
  and keeps_lift [keep_intros]: "keeps I (lift r)"
  and keeps_deref [keep_intros]: "keeps I (deref h p)"
  and keeps_need [keep_intros]: "keeps I (need u v)"
  by (auto simp: keeps_def prog_defs split: option.splits)

lemma keeps_bnd [keep_intros]:
  "keeps I m \<Longrightarrow> (\<And>x. keeps I (f x)) \<Longrightarrow> keeps I (bnd m f)"
  by (fastforce simp: keeps_def prog_defs split: prod.splits sum.splits)

lemma keeps_thn [keep_intros]: "keeps I m \<Longrightarrow> keeps I k \<Longrightarrow> keeps I (thn m k)"
  by (simp add: thn_def keeps_bnd)

lemma keeps_try [keep_intros]:
  "keeps I m \<Longrightarrow> (\<And>e. keeps I (h e)) \<Longrightarrow> keeps I (try_catch c m h)"
  by (fastforce simp: keeps_def prog_defs split: prod.splits sum.splits)

lemma keeps_if [keep_intros]:
  "(b \<Longrightarrow> keeps I m) \<Longrightarrow> (\<not> b \<Longrightarrow> keeps I k) \<Longrightarrow> keeps I (if b then m else k)"
  by simp

lemma keeps_whn [keep_intros]: "(b \<Longrightarrow> keeps I m) \<Longrightarrow> keeps I (whn b m)"
  by (simp add: whn_def keeps_ret)

lemma keeps_for_each [keep_intros]: "(\<And>x. keeps I (f x)) \<Longrightarrow> keeps I (for_each xs f)"
  by (induction xs) (auto intro: keep_intros)

lemma keeps_modify: "(\<And>s. I s \<Longrightarrow> I (g s)) \<Longrightarrow> keeps I (modify g)"
  by (simp add: keeps_def prog_defs)

section \<open>64-bit signed integers\<close>

text \<open>
  \<^verbatim>\<open>int64_t\<close> and \<^verbatim>\<open>qint64\<close> values are integers in this range; an
  operation whose exact result leaves it is undefined behaviour in C++.
\<close>

definition in_i64 :: "int \<Rightarrow> bool" where
  "in_i64 v \<longleftrightarrow> - (2 ^ 63) \<le> v \<and> v < 2 ^ 63"

definition i64 :: "int \<Rightarrow> exn + int" where
  "i64 v = (if in_i64 v then Inr v else Inl (Undefined Signed_overflow))"

lemma i64_simps [simp]: "in_i64 v \<Longrightarrow> i64 v = Inr v"
  "\<not> in_i64 v \<Longrightarrow> i64 v = Inl (Undefined Signed_overflow)"
  by (simp_all add: i64_def)

section \<open>Lists\<close>

text \<open>The first element with a property, and the list without it: loops with a \<^verbatim>\<open>break\<close>.\<close>

fun remove_first :: "('a \<Rightarrow> bool) \<Rightarrow> 'a list \<Rightarrow> 'a list" where
  "remove_first p [] = []"
| "remove_first p (x # xs) = (if p x then xs else x # remove_first p xs)"

lemma find_None_iff': "List.find p xs = None \<longleftrightarrow> (\<forall>x\<in>set xs. \<not> p x)"
  by (induction xs) auto

lemma find_Some_in: "List.find p xs = Some x \<Longrightarrow> x \<in> set xs \<and> p x"
  by (induction xs) (auto split: if_splits)

lemma remove_first_id [simp]: "\<forall>x\<in>set xs. \<not> p x \<Longrightarrow> remove_first p xs = xs"
  by (induction xs) auto

lemma set_remove_first_subset: "set (remove_first p xs) \<subseteq> set xs"
  by (induction xs) auto

lemma distinct_map_remove_first:
  "distinct (map f xs) \<Longrightarrow> distinct (map f (remove_first p xs))"
  by (induction xs) (use set_remove_first_subset in fastforce)+

lemma remove_first_filter:
  "distinct (map f xs) \<Longrightarrow> remove_first (\<lambda>x. f x = k) xs = filter (\<lambda>x. f x \<noteq> k) xs"
proof (induction xs)
  case (Cons a xs)
  then have "\<forall>x\<in>set xs. f x \<noteq> f a" by (auto simp: image_iff)
  with Cons show ?case
    by (cases "f a = k") (auto intro!: filter_True [symmetric])
qed simp

lemma set_map_remove_first_key:
  "distinct (map f xs) \<Longrightarrow> f ` set (remove_first (\<lambda>x. f x = k) xs) = f ` set xs - {k}"
  by (simp add: remove_first_filter) auto

lemma mset_remove_first:
  "List.find p xs = Some x \<Longrightarrow> mset (remove_first p xs) = mset xs - {#x#}"
proof (induction xs)
  case Nil
  then show ?case by simp
next
  case (Cons a xs)
  show ?case
  proof (cases "p a")
    case True
    with Cons.prems show ?thesis by simp
  next
    case False
    with Cons.prems have f: "List.find p xs = Some x" by simp
    then have "x \<in> set xs" by (simp add: find_Some_in)
    with False Cons.IH [OF f] show ?thesis by simp
  qed
qed

end
