(* ===== verification/ZrTypes.thy ===== *)
theory ZrTypes
  imports Prelude
begin

text \<open>
  The number and string types of \<^verbatim>\<open>src/zrtypes.h\<close>. \<open>ZR_Number\<close> derives from
  \<^verbatim>\<open>boost::rational<int64_t>\<close>, which keeps an exact normalised fraction: the model
  takes the exact rationals for it. The conversions the class adds itself are translated
  with the 64-bit ranges of their intermediate values. What boost, the C++ streams, Qt,
  sqlite, the SHA library and the Bitcoin client compute is not under \<^verbatim>\<open>src/\<close>; it
  is collected in the record \<open>ext\<close>, an argument of the definitions that use it.
\<close>

section \<open>Names and numbers\<close>

type_synonym ZR_Number = rat
type_synonym VirtualAddress = string
type_synonym TransactionId = string
type_synonym PeerAddress = string
type_synonym BitcoinAddress = string
type_synonym BitcoinTxHex = string
type_synonym oref = nat

text \<open>The constructor from two integers, and division: boost refuses a zero denominator.\<close>

definition zr_make :: "int \<Rightarrow> int \<Rightarrow> exn + ZR_Number" where
  "zr_make n d = (if d = 0 then Inl Bad_rational else Inr (of_int n / of_int d))"

definition zr_div :: "ZR_Number \<Rightarrow> ZR_Number \<Rightarrow> exn + ZR_Number" where
  "zr_div a b = (if b = 0 then Inl Bad_rational else Inr (a / b))"

text \<open>
  The conversion of a \<^verbatim>\<open>double\<close> to \<open>ZR_Number\<close> by the implicit integer constructor
  truncates towards zero.
\<close>

definition zr_of_double_implicit :: "rat \<Rightarrow> ZR_Number" where
  "zr_of_double_implicit d = of_int (if d < 0 then - \<lfloor>- d\<rfloor> else \<lfloor>d\<rfloor>)"

text \<open>
  The product of a number and a \<^verbatim>\<open>double\<close>: of the operators of \<^verbatim>\<open>boost::rational<int64_t>\<close> the one with an
  \<^verbatim>\<open>int64_t\<close> on the right is the better match, so the factor is first cut to an integer. A factor below
  one becomes 0.
\<close>

definition zr_times_double :: "ZR_Number \<Rightarrow> rat \<Rightarrow> ZR_Number" where
  "zr_times_double a d = a * zr_of_double_implicit d"

lemma zr_times_fraction: "\<bar>d\<bar> < 1 \<Longrightarrow> zr_times_double a d = 0"
proof -
  assume d: "\<bar>d\<bar> < 1"
  have "\<lfloor>d\<rfloor> = 0" if "0 \<le> d" using that d by (simp add: floor_eq_iff)
  moreover have "\<lfloor>- d\<rfloor> = 0" if "d < 0" using that d by (simp add: floor_eq_iff)
  ultimately show ?thesis by (simp add: zr_times_double_def zr_of_double_implicit_def)
qed

lemma zr_times_tenth [simp]: "zr_times_double a (1 / 10) = 0"
  by (rule zr_times_fraction) simp

section \<open>Third-party functions and the build\<close>

text \<open>
  The first field is the build: \<^verbatim>\<open>ZeroReserve.pro\<close> defines \<^verbatim>\<open>ZR_TESTNET\<close>, other builds
  leave it out. The others stand for code outside the repository:
  \<^item> \<open>x_show_rat\<close>, \<open>x_read_rat\<close>: the stream operators of \<^verbatim>\<open>boost::rational\<close>, the
    second started on the value 0 as \<^verbatim>\<open>fromFractionString\<close> does;
  \<^item> \<open>x_show_double\<close>: \<^verbatim>\<open>rational_cast<double>\<close> written to a stream;
  \<^item> \<open>x_number_g8\<close>: \<^verbatim>\<open>QString::number(d, 'g', 8)\<close>;
  \<^item> \<open>x_sql_text\<close>: the text sqlite returns for a column written from a numeric literal;
  \<^item> \<open>x_sql_ok\<close>: whether the n-th statement of the process succeeds;
  \<^item> \<open>x_qsort\<close>: Qt's \<^verbatim>\<open>qSort\<close> with a comparison, on a list of pointers;
  \<^item> \<open>x_digest\<close>: radix-64 of the SHA-256 digest of a text;
  \<^item> \<open>x_own_id\<close>, \<open>x_peer_name\<close>: RetroShare's id of this node, and its name for a friend;
  \<^item> \<open>x_new_address\<close>, \<open>x_order_address\<close>, \<open>x_mk_raw_tx\<close>, \<open>x_confirmations\<close>, \<open>x_btc_info\<close>: the
    answers of the Bitcoin client behind the interface \<^verbatim>\<open>ZR::Bitcoin\<close>, which depend on when
    it is asked (the first argument counts the requests of the process).
\<close>

datatype build = Testnet | Prodnet

record BtcInfo =
  bi_version :: nat
  bi_testnet :: bool
  bi_balance :: ZR_Number
  bi_connections :: nat

record ext =
  x_build :: build
  x_show_rat :: "ZR_Number \<Rightarrow> string"
  x_read_rat :: "string \<Rightarrow> exn + ZR_Number"
  x_show_double :: "ZR_Number \<Rightarrow> string"
  x_number_g8 :: "rat \<Rightarrow> string"
  x_sql_text :: "string \<Rightarrow> string"
  x_sql_ok :: "nat \<Rightarrow> bool"
  x_qsort :: "(oref \<Rightarrow> oref \<Rightarrow> bool) \<Rightarrow> oref list \<Rightarrow> oref list"
  x_digest :: "string \<Rightarrow> string"
  x_own_id :: PeerAddress
  x_peer_name :: "PeerAddress \<Rightarrow> string"
  x_new_address :: "nat \<Rightarrow> BitcoinAddress"
  x_order_address :: "nat \<Rightarrow> ZR_Number \<Rightarrow> BitcoinAddress"
  x_mk_raw_tx :: "nat \<Rightarrow> ZR_Number \<Rightarrow> BitcoinAddress \<Rightarrow> BitcoinAddress
                    \<Rightarrow> BitcoinAddress \<times> (BitcoinTxHex \<times> TransactionId) option"
  x_confirmations :: "nat \<Rightarrow> TransactionId \<Rightarrow> nat"
  x_btc_info :: "nat \<Rightarrow> BtcInfo option"

definition fromFractionString :: "ext \<Rightarrow> string \<Rightarrow> exn + ZR_Number" where
  "fromFractionString E s_num = x_read_rat E s_num"

definition toStdString :: "ext \<Rightarrow> ZR_Number \<Rightarrow> string" where
  "toStdString E a = x_show_rat E a"

definition zr_length :: "ext \<Rightarrow> ZR_Number \<Rightarrow> nat" where
  "zr_length E a = length (toStdString E a)"

definition toDecimalStdString :: "ext \<Rightarrow> ZR_Number \<Rightarrow> string" where
  "toDecimalStdString E a = x_show_double E a"

section \<open>Characters, \<^verbatim>\<open>getline\<close> and \<^verbatim>\<open>strtoll\<close>\<close>

definition is_digit :: "char \<Rightarrow> bool" where
  "is_digit c \<longleftrightarrow> 48 \<le> (of_char c :: nat) \<and> (of_char c :: nat) \<le> 57"

definition is_space :: "char \<Rightarrow> bool" where
  "is_space c \<longleftrightarrow> (of_char c :: nat) = 32 \<or> (9 \<le> (of_char c :: nat) \<and> (of_char c :: nat) \<le> 13)"

text \<open>
  \<^verbatim>\<open>std::getline\<close> with a delimiter: the characters before it, and what the stream
  holds after it.
\<close>

definition getline :: "char \<Rightarrow> string \<Rightarrow> string \<times> string" where
  "getline d s = (takeWhile (\<lambda>c. c \<noteq> d) s, drop 1 (dropWhile (\<lambda>c. c \<noteq> d) s))"

definition digits_value :: "string \<Rightarrow> int" where
  "digits_value ds = foldl (\<lambda>a c. 10 * a + (of_char c - 48)) 0 ds"

definition clamp_i64 :: "int \<Rightarrow> int" where
  "clamp_i64 v = (if v < - (2 ^ 63) then - (2 ^ 63) else if v \<ge> 2 ^ 63 then 2 ^ 63 - 1 else v)"

text \<open>\<^verbatim>\<open>strtoll(s, NULL, 10)\<close>: leading white space, a sign, digits; saturating.\<close>

fun strtoll_signed :: "string \<Rightarrow> int" where
  "strtoll_signed [] = 0"
| "strtoll_signed (c # cs) =
     (if c = CHR ''-'' then - digits_value (takeWhile is_digit cs)
      else if c = CHR ''+'' then digits_value (takeWhile is_digit cs)
      else digits_value (takeWhile is_digit (c # cs)))"

definition strtoll :: "string \<Rightarrow> int" where
  "strtoll s = clamp_i64 (strtoll_signed (dropWhile is_space s))"

text \<open>\<^verbatim>\<open>(int64_t)pow(10, n)\<close>: exact up to \<open>n = 18\<close>, out of range from 19 on.\<close>

definition pow10_i64 :: "nat \<Rightarrow> exn + int" where
  "pow10_i64 n = (if n \<le> 18 then Inr (10 ^ n) else Inl (Undefined Float_conversion))"

section \<open>\<^verbatim>\<open>fromDecimalString\<close>\<close>

definition decimal_number :: "bool \<Rightarrow> string \<Rightarrow> string \<Rightarrow> exn + ZR_Number" where
  "decimal_number is_negative sIntPart sFracPart =
     ebind (pow10_i64 (length sFracPart)) (\<lambda>factor.
     ebind (if is_negative then i64 (- strtoll sFracPart) else Inr (strtoll sFracPart)) (\<lambda>fracPart.
     ebind (i64 (strtoll sIntPart * factor)) (\<lambda>scaled.
     ebind (i64 (scaled + fracPart)) (\<lambda>n. zr_make n factor))))"

definition fromDecimalString :: "string \<Rightarrow> exn + ZR_Number" where
  "fromDecimalString s_num =
     (case dropWhile (\<lambda>c. c = CHR '' '') s_num of
        [] \<Rightarrow> Inl Out_of_range
      | c # cs \<Rightarrow>
          (let s_num_trimmed = c # cs;
               is_negative = (c = CHR ''-'');
               delim = (if CHR '','' \<in> set s_num_trimmed then CHR '','' else CHR ''.'');
               (sIntPart, rest) = getline delim s_num_trimmed;
               (sFracPart, _) = getline delim rest
           in decimal_number is_negative sIntPart sFracPart))"

text \<open>\<^verbatim>\<open>fromDouble\<close> goes through the text of eight significant digits.\<close>

definition fromDouble :: "ext \<Rightarrow> rat \<Rightarrow> exn + ZR_Number" where
  "fromDouble E d = fromDecimalString (x_number_g8 E d)"

text \<open>The decimal text of an integer, as the streams write it.\<close>

fun show_nat :: "nat \<Rightarrow> string" where
  "show_nat n = (if n < 10 then [char_of (48 + n)] else show_nat (n div 10) @ [char_of (48 + n mod 10)])"

declare show_nat.simps [simp del]

definition show_int :: "int \<Rightarrow> string" where
  "show_int k = (if k < 0 then CHR ''-'' # show_nat (nat (- k)) else show_nat (nat k))"

section \<open>Facts\<close>

lemma digit_not_special:
  "is_digit c \<Longrightarrow> c \<noteq> CHR ''-'' \<and> c \<noteq> CHR ''+'' \<and> c \<noteq> CHR '','' \<and> c \<noteq> CHR ''.''
     \<and> c \<noteq> CHR '' '' \<and> \<not> is_space c"
  by (auto simp: is_digit_def is_space_def)

lemma digits_value_snoc [text_simps]:
  "digits_value (ds @ [c]) = 10 * digits_value ds + (of_char c - 48)"
  by (simp add: digits_value_def)

lemma digits_value_Nil [simp]: "digits_value [] = 0"
  by (simp add: digits_value_def)

lemma digits_value_bounds:
  "\<forall>c\<in>set ds. is_digit c \<Longrightarrow> 0 \<le> digits_value ds \<and> digits_value ds < 10 ^ length ds"
proof (induction ds rule: rev_induct)
  case (snoc c ds)
  have c: "0 \<le> (of_char c - 48 :: int)" "(of_char c - 48 :: int) \<le> 9"
  proof -
    have "48 \<le> (of_char c :: nat)" "(of_char c :: nat) \<le> 57"
      using snoc.prems by (auto simp: is_digit_def)
    moreover have "(of_char c :: int) = int (of_char c :: nat)"
      by (simp add: of_char_def)
    ultimately show "0 \<le> (of_char c - 48 :: int)" "(of_char c - 48 :: int) \<le> 9"
      by linarith+
  qed
  have ih: "0 \<le> digits_value ds" "digits_value ds < 10 ^ length ds"
    using snoc by auto
  have "10 * digits_value ds + 9 < 10 * 10 ^ length ds"
    using ih by linarith
  with c ih show ?case
    by (simp add: digits_value_snoc)
qed simp

lemma takeWhile_digits [simp]: "\<forall>c\<in>set ds. is_digit c \<Longrightarrow> takeWhile is_digit ds = ds"
  by (simp add: takeWhile_eq_all_conv)

lemma dropWhile_space_digits [simp]: "\<forall>c\<in>set ds. is_digit c \<Longrightarrow> dropWhile is_space ds = ds"
  by (cases ds) (auto dest: digit_not_special)

lemma strtoll_signed_digits [simp]:
  "\<forall>c\<in>set ds. is_digit c \<Longrightarrow> strtoll_signed ds = digits_value ds"
proof (cases ds)
  case (Cons c cs)
  assume ds: "\<forall>c\<in>set ds. is_digit c"
  with Cons have "is_digit c" by simp
  with Cons ds show ?thesis
    using digit_not_special [of c] by (simp add: takeWhile_eq_all_conv)
qed simp

lemma clamp_id [simp]: "in_i64 v \<Longrightarrow> clamp_i64 v = v"
  by (auto simp: in_i64_def clamp_i64_def)

lemma strtoll_digits [text_simps]:
  "\<forall>c\<in>set ds. is_digit c \<Longrightarrow> in_i64 (digits_value ds) \<Longrightarrow> strtoll ds = digits_value ds"
  by (simp add: strtoll_def)

lemma strtoll_minus_digits [text_simps]:
  "\<forall>c\<in>set ds. is_digit c \<Longrightarrow> in_i64 (- digits_value ds) \<Longrightarrow>
     strtoll (CHR ''-'' # ds) = - digits_value ds"
  by (simp add: strtoll_def is_space_def)

lemma getline_at [text_simps]: "d \<notin> set s \<Longrightarrow> getline d (s @ d # t) = (s, t)"
  by (auto simp: getline_def takeWhile_eq_all_conv takeWhile_append dropWhile_append)

lemma getline_none [text_simps]: "d \<notin> set s \<Longrightarrow> getline d s = (s, [])"
proof -
  assume "d \<notin> set s"
  then have "\<forall>c\<in>set s. c \<noteq> d" by auto
  then have "dropWhile (\<lambda>c. c \<noteq> d) s = []" and "takeWhile (\<lambda>c. c \<noteq> d) s = s"
    using dropWhile_eq_Nil_conv [of "\<lambda>c. c \<noteq> d" s] takeWhile_eq_all_conv [of "\<lambda>c. c \<noteq> d" s]
    by blast+
  then show ?thesis by (simp only: getline_def) simp
qed

lemma getline_length: "length (snd (getline d s)) \<le> length s"
  using length_dropWhile_le [of "\<lambda>c. c \<noteq> d" s] by (simp add: getline_def)

lemma decimal_number_digits:
  assumes ip: "\<forall>c\<in>set ip. is_digit c" and fp: "\<forall>c\<in>set fp. is_digit c"
    and len: "length fp \<le> 18"
    and rng: "in_i64 (digits_value ip * 10 ^ length fp + digits_value fp)"
  shows "decimal_number neg (if neg then CHR ''-'' # ip else ip) fp =
    Inr ((if neg then - 1 else 1) * (of_int (digits_value ip) + of_int (digits_value fp) / 10 ^ length fp))"
proof -
  let ?p = "10 ^ length fp :: int"
  have b: "0 \<le> digits_value ip" "0 \<le> digits_value fp" "digits_value fp < ?p"
    using digits_value_bounds [OF ip] digits_value_bounds [OF fp] by auto
  have p1: "1 \<le> ?p" by simp
  then have le: "digits_value ip \<le> digits_value ip * ?p"
    using b(1) by (simp add: mult_le_cancel_left1)
  have mp: "0 \<le> digits_value ip * ?p" using b(1) by simp
  have r: "in_i64 (digits_value ip)" "in_i64 (- digits_value ip)" "in_i64 (digits_value fp)"
    "in_i64 (- digits_value fp)" "in_i64 (digits_value ip * ?p)" "in_i64 (- (digits_value ip * ?p))"
    "in_i64 (- (digits_value ip * ?p) - digits_value fp)"
    using b le mp rng by (auto simp: in_i64_def)
  have f: "strtoll fp = digits_value fp" using fp r by (simp add: text_simps)
  have eq: "of_int (a * ?p + b) / of_int ?p = (of_int a + of_int b / 10 ^ length fp :: rat)" for a b
    by (simp add: field_simps)
  show ?thesis
  proof (cases neg)
    case True
    have i: "strtoll (CHR ''-'' # ip) = - digits_value ip" using ip r by (simp add: text_simps)
    show ?thesis
      using True len r eq [of "- digits_value ip" "- digits_value fp"]
      by (simp add: decimal_number_def pow10_i64_def zr_make_def i f)
  next
    case False
    have i: "strtoll ip = digits_value ip" using ip r by (simp add: text_simps)
    show ?thesis
      using False len r rng eq [of "digits_value ip" "digits_value fp"]
      by (simp add: decimal_number_def pow10_i64_def zr_make_def i f)
  qed
qed

text \<open>
  A decimal text (any leading spaces, an optional minus sign, digits, a point or a
  comma, at most 18 further digits) denotes exactly its value, whatever the sign and also
  when the integer part is empty, as long as the scaled value fits 64 bits.
\<close>

theorem fromDecimalString_decimal:
  assumes "\<forall>c\<in>set ip. is_digit c" and "\<forall>c\<in>set fp. is_digit c" and "length fp \<le> 18"
    and "in_i64 (digits_value ip * 10 ^ length fp + digits_value fp)"
    and "d \<in> {CHR ''.'', CHR '',''}"
  shows "fromDecimalString (replicate k CHR '' '' @ (if neg then CHR ''-'' # ip else ip) @ d # fp) =
    Inr ((if neg then - 1 else 1) * (of_int (digits_value ip) + of_int (digits_value fp) / 10 ^ length fp))"
proof -
  let ?ip = "if neg then CHR ''-'' # ip else ip"
  have nod: "d \<notin> set ?ip" "CHR '','' \<notin> set ?ip" "CHR '','' \<notin> set fp" "d \<notin> set fp"
    using assms(1,2,5) by (auto dest: digit_not_special)
  have ns: "\<And>c cs. ?ip @ d # fp = c # cs \<Longrightarrow> c \<noteq> CHR '' '' \<and> (c = CHR ''-'') = neg"
    using assms(1,5) by (cases ip) (auto dest: digit_not_special split: if_splits)
  obtain c cs where cs: "?ip @ d # fp = c # cs" by (cases "?ip @ d # fp") auto
  have drop: "dropWhile (\<lambda>c. c = CHR '' '') (replicate k CHR '' '' @ ?ip @ d # fp) = c # cs"
    using ns [OF cs] by (simp add: dropWhile_append cs)
  have del: "(if CHR '','' \<in> set (c # cs) then CHR '','' else CHR ''.'') = d"
    using assms(5) nod unfolding cs [symmetric] by auto
  have g: "getline d (c # cs) = (?ip, fp)"
    using getline_at [OF nod(1)] cs by metis
  have "fromDecimalString (replicate k CHR '' '' @ ?ip @ d # fp) = decimal_number neg ?ip fp"
    unfolding fromDecimalString_def drop list.case Let_def del g case_prod_conv
      getline_none [OF nod(4)]
    using ns [OF cs] by simp
  also have "\<dots> = Inr ((if neg then - 1 else 1) *
      (of_int (digits_value ip) + of_int (digits_value fp) / 10 ^ length fp))"
    by (rule decimal_number_digits [OF assms(1-4)])
  finally show ?thesis .
qed

theorem fromDecimalString_decimal_witness:
  "fromDecimalString ''  -.25'' = Inr (- (1 / 4)) \<and> fromDecimalString ''12,5'' = Inr (25 / 2)"
  using fromDecimalString_decimal [of "''''" "''25''" "CHR ''.''" 2 True]
    fromDecimalString_decimal [of "''12''" "''5''" "CHR '',''" 0 False]
  by (simp add: is_digit_def in_i64_def digits_value_def numeral_2_eq_2)

text \<open>
  The conversion throws \<^verbatim>\<open>std::out_of_range\<close> exactly on texts without a character
  other than a space; every other failure is an arithmetic one.
\<close>

theorem fromDecimalString_blank:
  "fromDecimalString s = Inl Out_of_range \<longleftrightarrow> set s \<subseteq> {CHR '' ''}"
proof -
  have *: "decimal_number neg a b \<noteq> Inl Out_of_range" for neg a b
    by (auto simp: decimal_number_def pow10_i64_def i64_def zr_make_def ebind_def)
  show ?thesis
  proof (cases "dropWhile (\<lambda>c. c = CHR '' '') s")
    case Nil
    then have "\<forall>c\<in>set s. c = CHR '' ''"
      using dropWhile_eq_Nil_conv [of "\<lambda>c. c = CHR '' ''" s] by simp
    then have "set s \<subseteq> {CHR '' ''}" by blast
    then show ?thesis unfolding fromDecimalString_def Nil by simp
  next
    case (Cons c cs)
    then have "\<not> (\<forall>c\<in>set s. c = CHR '' '')"
      using dropWhile_eq_Nil_conv [of "\<lambda>c. c = CHR '' ''" s] by simp
    then have "\<not> set s \<subseteq> {CHR '' ''}" by blast
    then show ?thesis using * Cons by (simp add: fromDecimalString_def Let_def split: prod.split)
  qed
qed

end
