(* ===== verification/Instance.thy ===== *)
theory Instance
  imports ZrTypes
begin

text \<open>
  What the properties assume of the third-party functions, as predicates that state their
  documented behaviour, and one concrete instance that satisfies them all: the witnesses
  evaluate the model on it.
\<close>

section \<open>Documented behaviour\<close>

text \<open>
  A number fits when its normalised numerator and denominator are \<^verbatim>\<open>int64_t\<close> values.
  The stream operators of \<^verbatim>\<open>boost::rational\<close> write numerator, slash, denominator, and
  read such a text back; no colon is written.
\<close>

definition zr_fits :: "ZR_Number \<Rightarrow> bool" where
  "zr_fits q \<longleftrightarrow> in_i64 (fst (quotient_of q)) \<and> in_i64 (snd (quotient_of q))"

definition frac_io :: "ext \<Rightarrow> bool" where
  "frac_io E \<longleftrightarrow>
     (\<forall>q. zr_fits q \<longrightarrow> x_read_rat E (x_show_rat E q) = Inr q) \<and>
     (\<forall>q. CHR '':'' \<notin> set (x_show_rat E q) \<and> x_show_rat E q \<noteq> [])"

text \<open>\<^verbatim>\<open>qSort\<close> permutes its range and leaves no pair out of order for the comparison.\<close>

definition sorts :: "ext \<Rightarrow> bool" where
  "sorts E \<longleftrightarrow>
     (\<forall>lt xs. mset (x_qsort E lt xs) = mset xs) \<and>
     (\<forall>lt xs. (\<forall>x\<in>set xs. \<forall>y\<in>set xs. \<forall>z\<in>set xs. \<not> lt y x \<longrightarrow> \<not> lt z y \<longrightarrow> \<not> lt z x) \<longrightarrow>
              (\<forall>x\<in>set xs. \<forall>y\<in>set xs. lt x y \<longrightarrow> \<not> lt y x) \<longrightarrow>
              sorted_wrt (\<lambda>x y. \<not> lt y x) (x_qsort E lt xs))"

lemma sorts_mset: "sorts E \<Longrightarrow> mset (x_qsort E lt xs) = mset xs"
  unfolding sorts_def by (elim conjE allE)

lemma sorts_sorted:
  assumes "sorts E"
    and "\<forall>x\<in>set xs. \<forall>y\<in>set xs. \<forall>z\<in>set xs. \<not> lt y x \<longrightarrow> \<not> lt z y \<longrightarrow> \<not> lt z x"
    and "\<forall>x\<in>set xs. \<forall>y\<in>set xs. lt x y \<longrightarrow> \<not> lt y x"
  shows "sorted_wrt (\<lambda>x y. \<not> lt y x) (x_qsort E lt xs)"
  by (rule assms(1) [unfolded sorts_def, THEN conjunct2, THEN spec, THEN spec, THEN mp, THEN mp, OF assms(2,3)])

text \<open>
  The value the database gives back for a number that was written as a \<^verbatim>\<open>double\<close> to a
  decimal column; a number survives when it is that value.
\<close>

definition db_value :: "ext \<Rightarrow> ZR_Number \<Rightarrow> exn + ZR_Number" where
  "db_value E v = fromDecimalString (x_sql_text E (x_show_double E v))"

definition db_exact :: "ext \<Rightarrow> ZR_Number \<Rightarrow> bool" where
  "db_exact E v \<longleftrightarrow> db_value E v = Inr v"

section \<open>A concrete instance\<close>

definition demo_show_rat :: "rat \<Rightarrow> string" where
  "demo_show_rat q = show_int (fst (quotient_of q)) @ CHR ''/'' # show_int (snd (quotient_of q))"

definition demo_read_rat :: "string \<Rightarrow> exn + rat" where
  "demo_read_rat s = (case getline CHR ''/'' s of (n, d) \<Rightarrow> zr_make (strtoll n) (strtoll d))"

fun insert_by :: "('a \<Rightarrow> 'a \<Rightarrow> bool) \<Rightarrow> 'a \<Rightarrow> 'a list \<Rightarrow> 'a list" where
  "insert_by lt x [] = [x]"
| "insert_by lt x (y # ys) = (if lt y x then y # insert_by lt x ys else x # y # ys)"

definition demo_qsort :: "('a \<Rightarrow> 'a \<Rightarrow> bool) \<Rightarrow> 'a list \<Rightarrow> 'a list" where
  "demo_qsort lt xs = foldr (insert_by lt) xs []"

definition demo :: ext where
  "demo = \<lparr>x_build = Testnet, x_show_rat = demo_show_rat, x_read_rat = demo_read_rat,
     x_show_double = (\<lambda>q. show_int \<lfloor>q\<rfloor>),
     x_number_g8 = (\<lambda>d. show_int \<lfloor>d\<rfloor>), x_sql_text = (\<lambda>t. t), x_sql_ok = (\<lambda>n. True),
     x_qsort = demo_qsort, x_digest = (\<lambda>t. t), x_own_id = ''me'', x_peer_name = (\<lambda>p. p),
     x_new_address = (\<lambda>n. ''addr''), x_order_address = (\<lambda>n a. ''oaddr''),
     x_mk_raw_tx = (\<lambda>n a s r. (s, Some (''hex'', ''txid''))), x_confirmations = (\<lambda>n t. 6),
     x_btc_info = (\<lambda>n. None)\<rparr>"

lemmas demo_simps =
  demo_def ext.select_convs

lemma show_nat_digits: "\<forall>c\<in>set (show_nat n). is_digit c"
proof (induction n rule: show_nat.induct)
  case (1 n)
  have d: "is_digit (char_of (48 + k))" if "k < (10 :: nat)" for k
    using that by (simp add: is_digit_def)
  show ?case
    using 1 d by (subst show_nat.simps) auto
qed

lemma digits_value_show_nat: "digits_value (show_nat n) = int n"
proof (induction n rule: show_nat.induct)
  case (1 n)
  have d: "(of_char (char_of (48 + k)) :: int) = 48 + int k" if "k < (10 :: nat)" for k
  proof -
    have "(of_char (char_of (48 + k)) :: int) = int (of_char (char_of (48 + k) :: char))"
      by (simp add: of_char_def)
    then show ?thesis using that by simp
  qed
  show ?case
  proof (cases "n < 10")
    case True
    then show ?thesis using d [of n] by (subst show_nat.simps) (simp add: digits_value_def)
  next
    case False
    with 1 d [of "n mod 10"] show ?thesis
      by (subst show_nat.simps) (simp add: digits_value_snoc zdiv_int zmod_int)
  qed
qed

lemma show_nat_nonempty [simp]: "show_nat n \<noteq> []"
  by (subst show_nat.simps) simp

lemma strtoll_show_int: "in_i64 k \<Longrightarrow> strtoll (show_int k) = k"
  using show_nat_digits [of "nat k"] show_nat_digits [of "nat (- k)"]
  by (auto simp: show_int_def strtoll_digits strtoll_minus_digits digits_value_show_nat)

lemma show_int_chars: "c \<in> set (show_int k) \<Longrightarrow> is_digit c \<or> c = CHR ''-''"
  using show_nat_digits by (auto simp: show_int_def split: if_splits)

lemma show_int_free [simp]:
  "CHR ''/'' \<notin> set (show_int k)" "CHR '':'' \<notin> set (show_int k)" "CHR ''.'' \<notin> set (show_int k)"
  "CHR '','' \<notin> set (show_int k)" "CHR '' '' \<notin> set (show_int k)"
  by (auto dest!: show_int_chars simp: is_digit_def)

lemma show_int_nonempty [simp]: "show_int k \<noteq> []"
  by (simp add: show_int_def)

lemma fromDecimalString_show_int:
  assumes "in_i64 k"
  shows "fromDecimalString (show_int k) = Inr (of_int k)"
proof -
  obtain c cs where cs: "show_int k = c # cs" by (cases "show_int k") auto
  have c: "c \<noteq> CHR '' ''" using cs show_int_free(5) [of k] by auto
  have g: "getline CHR ''.'' (c # cs) = (c # cs, [])"
    using getline_none [OF show_int_free(3) [of k]] unfolding cs .
  have nc: "CHR '','' \<notin> set (c # cs)" using show_int_free(4) [of k] cs by simp
  have s: "strtoll (c # cs) = k" using strtoll_show_int [OF assms] cs by simp
  have "strtoll [] = 0" by (simp add: strtoll_def clamp_i64_def)
  then have "decimal_number b (c # cs) [] = Inr (of_int k)" for b
    using s assms by (simp add: decimal_number_def pow10_i64_def zr_make_def in_i64_def i64_def)
  then show ?thesis
    using c nc unfolding cs fromDecimalString_def
    by (simp add: g Let_def getline_none [of "CHR ''.''" "[]", simplified] del: list.set)
qed

lemma demo_frac_io: "frac_io demo"
proof -
  have "demo_read_rat (demo_show_rat q) = Inr q" if "zr_fits q" for q
  proof -
    have "snd (quotient_of q) \<noteq> 0" using quotient_of_denom_pos' [of q] by simp
    moreover have "of_int (fst (quotient_of q)) / of_int (snd (quotient_of q)) = q"
      by (metis prod.collapse quotient_of_div)
    ultimately show ?thesis
      using that by (simp add: demo_read_rat_def demo_show_rat_def getline_at strtoll_show_int
          zr_make_def zr_fits_def)
  qed
  then show ?thesis by (auto simp: frac_io_def demo_def demo_show_rat_def)
qed

lemma mset_insert_by: "mset (insert_by lt x ys) = add_mset x (mset ys)"
  by (induction lt x ys rule: insert_by.induct) auto

lemma mset_demo_qsort: "mset (demo_qsort lt xs) = mset xs"
  by (induction xs) (auto simp: demo_qsort_def mset_insert_by)

lemma set_insert_by: "set (insert_by lt x ys) = insert x (set ys)"
  using mset_insert_by [of lt x ys] by (metis set_mset_add_mset_insert set_mset_mset)

lemma set_demo_qsort: "set (demo_qsort lt xs) = set xs"
  using mset_demo_qsort [of lt xs] by (metis set_mset_mset)

lemma sorted_insert_by:
  assumes t: "\<forall>a\<in>insert x (set ys). \<forall>b\<in>insert x (set ys). \<forall>c\<in>insert x (set ys).
      \<not> lt b a \<longrightarrow> \<not> lt c b \<longrightarrow> \<not> lt c a"
    and a: "\<forall>a\<in>insert x (set ys). \<forall>b\<in>insert x (set ys). lt a b \<longrightarrow> \<not> lt b a"
    and s: "sorted_wrt (\<lambda>a b. \<not> lt b a) ys"
  shows "sorted_wrt (\<lambda>a b. \<not> lt b a) (insert_by lt x ys)"
  using assms
proof (induction ys)
  case Nil
  show ?case by simp
next
  case (Cons y ys)
  have sub: "insert x (set ys) \<subseteq> insert x (set (y # ys))" by auto
  have tys: "\<forall>a\<in>insert x (set ys). \<forall>b\<in>insert x (set ys). \<forall>c\<in>insert x (set ys).
      \<not> lt b a \<longrightarrow> \<not> lt c b \<longrightarrow> \<not> lt c a"
    using Cons.prems(1) sub by blast
  have ays: "\<forall>a\<in>insert x (set ys). \<forall>b\<in>insert x (set ys). lt a b \<longrightarrow> \<not> lt b a"
    using Cons.prems(2) sub by blast
  have ys: "sorted_wrt (\<lambda>a b. \<not> lt b a) ys" "\<forall>z\<in>set ys. \<not> lt z y"
    using Cons.prems(3) by simp_all
  show ?case
  proof (cases "lt y x")
    case True
    have r: "sorted_wrt (\<lambda>a b. \<not> lt b a) (insert_by lt x ys)"
      using Cons.IH [OF tys ays ys(1)] .
    have "y \<in> insert x (set (y # ys))" "x \<in> insert x (set (y # ys))" by simp_all
    then have "\<not> lt x y" using Cons.prems(2) True by blast
    then have "\<forall>z\<in>set (insert_by lt x ys). \<not> lt z y" using ys(2) by (simp add: set_insert_by)
    with r True show ?thesis by simp
  next
    case False
    have "\<not> lt z x" if z: "z \<in> set ys" for z
    proof -
      have "x \<in> insert x (set (y # ys))" "y \<in> insert x (set (y # ys))"
        "z \<in> insert x (set (y # ys))" using z by simp_all
      moreover have "\<not> lt z y" using ys(2) z by blast
      ultimately show ?thesis using Cons.prems(1) False by blast
    qed
    with False ys show ?thesis by simp
  qed
qed

lemma sorted_demo_qsort:
  assumes "\<forall>x\<in>set xs. \<forall>y\<in>set xs. \<forall>z\<in>set xs. \<not> lt y x \<longrightarrow> \<not> lt z y \<longrightarrow> \<not> lt z x"
    and "\<forall>x\<in>set xs. \<forall>y\<in>set xs. lt x y \<longrightarrow> \<not> lt y x"
  shows "sorted_wrt (\<lambda>x y. \<not> lt y x) (demo_qsort lt xs)"
  using assms
proof (induction xs)
  case Nil
  show ?case by (simp add: demo_qsort_def)
next
  case (Cons x xs)
  have "set xs \<subseteq> set (x # xs)" by auto
  then have "\<forall>x\<in>set xs. \<forall>y\<in>set xs. \<forall>z\<in>set xs. \<not> lt y x \<longrightarrow> \<not> lt z y \<longrightarrow> \<not> lt z x"
    "\<forall>x\<in>set xs. \<forall>y\<in>set xs. lt x y \<longrightarrow> \<not> lt y x"
    using Cons.prems by blast+
  then have ih: "sorted_wrt (\<lambda>x y. \<not> lt y x) (demo_qsort lt xs)" by (rule Cons.IH)
  have e: "insert x (set (demo_qsort lt xs)) = set (x # xs)" by (simp add: set_demo_qsort)
  have "sorted_wrt (\<lambda>x y. \<not> lt y x) (insert_by lt x (demo_qsort lt xs))"
    using Cons.prems ih by (intro sorted_insert_by) (unfold e, assumption+)
  then show ?case by (simp add: demo_qsort_def)
qed

lemma demo_qsort_field: "x_qsort demo = demo_qsort"
  by (simp add: demo_def)

lemma demo_sorts: "sorts demo"
  unfolding sorts_def demo_qsort_field
  by (intro conjI allI impI mset_demo_qsort sorted_demo_qsort)

lemma demo_db_exact: "in_i64 k \<Longrightarrow> db_exact demo (of_int k)"
  by (simp add: db_exact_def db_value_def demo_def fromDecimalString_show_int)

end
