(* ===== verification/Plugin.thy ===== *)
theory Plugin
  imports Instance
begin

text \<open>
  The state every component reaches through \<^verbatim>\<open>g_ZeroReservePlugin\<close>
  (\<^verbatim>\<open>src/ZeroReservePlugin.cpp\<close>): the queue of messages for the user,
  with what the process sees of its surroundings (the clock, the friends online, the number
  of requests made to the Bitcoin client). The records of the other components extend this
  one, so an operation on a component applies to the state of the whole node and leaves the
  fields it does not name alone.
\<close>

record world =
  w_now :: int
  w_online :: "PeerAddress list"
  w_rpc :: nat
  w_messages :: "string list"

definition placeMsg :: "string \<Rightarrow> ('z world_scheme, unit) prog" where
  "placeMsg msg = modify (\<lambda>w. w\<lparr>w_messages := w_messages w @ [msg]\<rparr>)"

text \<open>Every queued message is shown in a box, oldest first, and erased; the boxes are returned.\<close>

definition displayMsg :: "('z world_scheme, string list) prog" where
  "displayMsg = bnd (gets w_messages) (\<lambda>ms. thn (modify (\<lambda>w. w\<lparr>w_messages := []\<rparr>)) (ret ms))"

text \<open>The text of an exception as the handlers for \<^verbatim>\<open>std::runtime_error\<close> see it.\<close>

fun what :: "exn \<Rightarrow> string" where
  "what (Runtime_error t) = t"
| "what Bad_rational = ''bad rational: zero denominator''"
| "what Out_of_range = ''basic_string::substr''"
| "what (Undefined _) = []"

text \<open>
  The handlers \<^verbatim>\<open>catch( std::exception e )\<close> copy the base part of the exception only:
  its text is that of the base class.
\<close>

definition what_sliced :: "exn \<Rightarrow> string" where
  "what_sliced e = ''std::exception''"

text \<open>A request to the Bitcoin client: the request counter advances.\<close>

definition rpc_call :: "(nat \<Rightarrow> 'a) \<Rightarrow> ('z world_scheme, 'a) prog" where
  "rpc_call f = bnd (gets w_rpc) (\<lambda>n. thn (modify (\<lambda>w. w\<lparr>w_rpc := Suc n\<rparr>)) (ret (f n)))"

lemma placeMsg_apply [prog_defs]: "placeMsg m s = (Inr (), s\<lparr>w_messages := w_messages s @ [m]\<rparr>)"
  by (simp add: placeMsg_def prog_defs)

lemma rpc_call_apply [prog_defs]: "rpc_call f s = (Inr (f (w_rpc s)), s\<lparr>w_rpc := Suc (w_rpc s)\<rparr>)"
  by (simp add: rpc_call_def prog_defs)

text \<open>A state for the witnesses.\<close>

definition demo_world :: world where
  "demo_world = \<lparr>w_now = 0, w_online = [], w_rpc = 0, w_messages = []\<rparr>"

lemma displayMsg_apply: "displayMsg s = (Inr (w_messages s), s\<lparr>w_messages := []\<rparr>)"
  by (simp add: displayMsg_def prog_defs)

end
