(* ===== verification/Currency.thy ===== *)
theory Currency
  imports Plugin
begin

text \<open>
  \<^verbatim>\<open>src/Currency.h\<close> and \<^verbatim>\<open>src/Currency.cpp\<close>: the enumeration of the currencies, the
  tables of their names and symbols in both builds, and the two lookups. A value of the C++
  enumeration is the index of its enumerator; \<open>INVALID\<close> is the index after the last one.
\<close>

section \<open>The tables\<close>

definition enumerators_testnet :: "string list" where
  "enumerators_testnet = [
    ''FAU'', ''GPM'', ''TBC'', ''ZWD'']"

definition enumerators_prod1 :: "string list" where
  "enumerators_prod1 = [
    ''AED'', ''AFN'', ''ALL'', ''AMD'', ''ANG'', ''AOA'', ''ARS'', ''AUD'', ''AWG'', ''AZN'',
    ''BAM'', ''BBD'', ''BDT'', ''BGN'', ''BHD'', ''BIF'', ''BMD'', ''BND'', ''BOB'', ''BRL'',
    ''BSD'', ''BTC'', ''BTN'', ''BWP'', ''BYR'', ''BZD'', ''CAD'', ''CDF'', ''CHF'', ''CLP'',
    ''CNY'', ''COP'', ''CRC'', ''CUC'', ''CUP'', ''CVE'', ''CZK'', ''DJF'', ''DKK'', ''DOP'',
    ''DZD'', ''EGP'', ''ERN'', ''ETB'', ''EUR'', ''FJD'', ''FKP'', ''GBP'', ''GEL'', ''GGP'',
    ''GHS'', ''GIP'', ''GMD'', ''XAU'', ''GNF'', ''GTQ'', ''GYD'', ''HKD'', ''HNL'', ''HRK'',
    ''HTG'', ''HUF'', ''IDR'', ''ILS'', ''IMP'', ''INR'', ''IQD'', ''IRR'', ''ISK'', ''JEP'',
    ''JMD'', ''JOD'', ''JPY'', ''KES'', ''XKW'', ''KGS'', ''KHR'', ''KMF'', ''KPW'', ''KRW'',
    ''KWD'', ''KYD'', ''KZT'', ''LAK'', ''LBP'']"

definition enumerators_prod2 :: "string list" where
  "enumerators_prod2 = [
    ''LKR'', ''LRD'', ''LSL'', ''LTC'', ''LTL'', ''LVL'', ''LYD'', ''MAD'', ''MDL'', ''MGA'',
    ''MKD'', ''MMK'', ''MNT'', ''MOP'', ''MRO'', ''MUR'', ''MVR'', ''MWK'', ''MXN'', ''MYR'',
    ''MZN'', ''NAD'', ''NGN'', ''NIO'', ''NMC'', ''NOK'', ''NPR'', ''NZD'', ''OMR'', ''PAB'',
    ''PEN'', ''PGK'', ''PHP'', ''PKR'', ''PLN'', ''PYG'', ''QAR'', ''RON'', ''RSD'', ''RUB'',
    ''RWF'', ''SAR'', ''SBD'', ''SCR'', ''SDG'', ''SEK'', ''SGD'', ''SHP'', ''SLL'', ''XAG'',
    ''SOS'', ''SPL'', ''SRD'', ''STD'', ''SVC'', ''SYP'', ''SZL'', ''THB'', ''TJS'', ''TMT'',
    ''TND'', ''TOP'', ''TRY'', ''TTD'', ''TVD'', ''TWD'', ''TZS'', ''UAH'', ''UGX'', ''USD'',
    ''UYU'', ''UZS'', ''VEF'', ''VND'', ''VUV'', ''WST'', ''XAF'', ''XCD'', ''XDR'', ''XOF'',
    ''XPF'', ''YER'', ''ZAR'', ''ZMW'']"

definition currencyNames_testnet :: "string list" where
  "currencyNames_testnet = [
    ''Fools Gold (ug)'', ''German Papiermark (1923)'', ''Testnet Bitcoin'', ''Zimbabwe Dollar'']"

definition currencyNames_prod1 :: "string list" where
  "currencyNames_prod1 = [
    ''UAE Dirham'', ''Afghanistan Afghani'', ''Albania Lek'', ''Armenia Dram'',
    ''Netherlands Antilles Guilder'', ''Angola Kwanza'', ''Argentina Peso'',
    ''Australia Dollar'', ''Aruba Guilder'', ''Azerbaijan New Manat'',
    ''Bosnia and Herzegovina Convertible Marka'', ''Barbados Dollar'', ''Bangladesh Taka'',
    ''Bulgaria Lev'', ''Bahrain Dinar'', ''Burundi Franc'', ''Bermuda Dollar'',
    ''Brunei Darussalam Dollar'', ''Bolivia Boliviano'', ''Brazil Real'', ''Bahamas Dollar'',
    ''Bitcoin'', ''Bhutan Ngultrum'', ''Botswana Pula'', ''Belarus Ruble'', ''Belize Dollar'',
    ''Canada Dollar'', ''Congo/Kinshasa Franc'', ''Switzerland Franc'', ''Chile Peso'',
    ''China Yuan Renminbi'', ''Colombia Peso'', ''Costa Rica Colon'', ''Cuba Convertible Peso'',
    ''Cuba Peso'', ''Cape Verde Escudo'', ''Czech Republic Koruna'', ''Djibouti Franc'',
    ''Denmark Krone'', ''Dominican Republic Peso'', ''Algeria Dinar'', ''Egypt Pound'',
    ''Eritrea Nakfa'', ''Ethiopia Birr'', ''Euro'', ''Fiji Dollar'',
    ''Falkland/Malvinas Pound'', ''United Kingdom Pound'', ''Georgia Lari'', ''Guernsey Pound'',
    ''Ghana Cedi'', ''Gibraltar Pound'', ''Gambia Dalasi'', ''Gold (troy ounce)'',
    ''Guinea Franc'', ''Guatemala Quetzal'', ''Guyana Dollar'', ''Hong Kong Dollar'',
    ''Honduras Lempira'', ''Croatia Kuna'', ''Haiti Gourde'', ''Hungary Forint'',
    ''Indonesia Rupiah'', ''Israel Shekel'', ''Isle of Man Pound'', ''India Rupee'',
    ''Iraq Dinar'', ''Iran Rial'', ''Iceland Krona'', ''Jersey Pound'', ''Jamaica Dollar'',
    ''Jordan Dinar'', ''Japan Yen'', ''Kenya Shilling'', ''Kilowatt Hours'', ''Kyrgyzstan Som'',
    ''Cambodia Riel'', ''Comoros Franc'', ''Korea (North) Won'', ''Korea (South) Won'',
    ''Kuwait Dinar'', ''Cayman Islands Dollar'', ''Kazakhstan Tenge'', ''Laos Kip'',
    ''Lebanon Pound'']"

definition currencyNames_prod2 :: "string list" where
  "currencyNames_prod2 = [
    ''Sri Lanka Rupee'', ''Liberia Dollar'', ''Lesotho Loti'', ''Litecoin'',
    ''Lithuania Litas'', ''Latvia Lat'', ''Libya Dinar'', ''Morocco Dirham'', ''Moldova Leu'',
    ''Madagascar Ariary'', ''Macedonia Denar'', ''Myanmar (Burma) Kyat'', ''Mongolia Tughrik'',
    ''Macau Pataca'', ''Mauritania Ouguiya'', ''Mauritius Rupee'', ''Maldives Rufiyaa'',
    ''Malawi Kwacha'', ''Mexico Peso'', ''Malaysia Ringgit'', ''Mozambique Metical'',
    ''Namibia Dollar'', ''Nigeria Naira'', ''Nicaragua Cordoba'', ''Namecoin'',
    ''Norway Krone'', ''Nepal Rupee'', ''New Zealand Dollar'', ''Oman Rial'', ''Panama Balboa'',
    ''Peru Nuevo Sol'', ''Papua New Guinea Kina'', ''Philippines Peso'', ''Pakistan Rupee'',
    ''Poland Zloty'', ''Paraguay Guarani'', ''Qatar Riyal'', ''Romania New Leu'',
    ''Serbia Dinar'', ''Russia Ruble'', ''Rwanda Franc'', ''Saudi Arabia Riyal'',
    ''Solomon Islands Dollar'', ''Seychelles Rupee'', ''Sudan Pound'', ''Sweden Krona'',
    ''Singapore Dollar'', ''Saint Helena Pound'', ''Sierra Leone Leone'',
    ''Silver (Troy Ounce)'', ''Somalia Shilling'', ''Seborga Luigino'', ''Suriname Dollar'',
    (''S'' @ [CHR 0xC3] @ [CHR 0xA3] @ ''o Tom'' @ [CHR 0xC3] @ [CHR 0xA9] @ '' and Pr'' @ [CHR 0xC3] @ [CHR 0xAD] @ ''ncipe Dobra''),
    ''El Salvador Colon'', ''Syria Pound'', ''Swaziland Lilangeni'', ''Thailand Baht'',
    ''Tajikistan Somoni'', ''Turkmenistan Manat'', ''Tunisia Dinar'',
    (''Tonga Pa'' @ [CHR 0x27] @ ''anga''), ''Turkey Lira'', ''Trinidad and Tobago Dollar'',
    ''Tuvalu Dollar'', ''Taiwan New Dollar'', ''Tanzania Shilling'', ''Ukraine Hryvna'',
    ''Uganda Shilling'', ''United States Dollar'', ''Uruguay Peso'', ''Uzbekistan Som'',
    ''Venezuela Bolivar'', ''Viet Nam Dong'', ''Vanuatu Vatu'', ''Samoa Tala'',
    ''CFA Franc BEAC'', ''East Caribbean Dollar'', ''IMF Special Drawing Rights'',
    ''BCEAO Franc'', ''CFP Franc'', ''Yemen Rial'', ''South Africa Rand'', ''Zambia Kwacha'']"

definition currencySymbols_testnet :: "string list" where
  "currencySymbols_testnet = [
    ''FAU'', ''GPM'', ''TBC'', ''ZWD'']"

definition currencySymbols_prod1 :: "string list" where
  "currencySymbols_prod1 = [
    ''AED'', ''AFN'', ''ALL'', ''AMD'', ''ANG'', ''AOA'', ''ARS'', ''AUD'', ''AWG'', ''AZN'',
    ''BAM'', ''BBD'', ''BDT'', ''BGN'', ''BHD'', ''BIF'', ''BMD'', ''BND'', ''BOB'', ''BRL'',
    ''BSD'', ''BTC'', ''BTN'', ''BWP'', ''BYR'', ''BZD'', ''CAD'', ''CDF'', ''CHF'', ''CLP'',
    ''CNY'', ''COP'', ''CRC'', ''CUC'', ''CUP'', ''CVE'', ''CZK'', ''DJF'', ''DKK'', ''DOP'',
    ''DZD'', ''EGP'', ''ERN'', ''ETB'', ''EUR'', ''FJD'', ''FKP'', ''GBP'', ''GEL'', ''GGP'',
    ''GHS'', ''GIP'', ''GMD'', ''XAU'', ''GNF'', ''GTQ'', ''GYD'', ''HKD'', ''HNL'', ''HRK'',
    ''HTG'', ''HUF'', ''IDR'', ''ILS'', ''IMP'', ''INR'', ''IQD'', ''IRR'', ''ISK'', ''JEP'',
    ''JMD'', ''JOD'', ''JPY'', ''KES'', ''XKW'', ''KGS'', ''KHR'', ''KMF'', ''KPW'', ''KRW'',
    ''KWD'', ''KYD'', ''KZT'', ''LAK'', ''LBP'']"

definition currencySymbols_prod2 :: "string list" where
  "currencySymbols_prod2 = [
    ''LKR'', ''LRD'', ''LSL'', ''LTC'', ''LTL'', ''LVL'', ''LYD'', ''MAD'', ''MDL'', ''MGA'',
    ''MKD'', ''MMK'', ''MNT'', ''MOP'', ''MRO'', ''MUR'', ''MVR'', ''MWK'', ''MXN'', ''MYR'',
    ''MZN'', ''NAD'', ''NGN'', ''NIO'', ''NMC'', ''NOK'', ''NPR'', ''NZD'', ''OMR'', ''PAB'',
    ''PEN'', ''PGK'', ''PHP'', ''PKR'', ''PLN'', ''PYG'', ''QAR'', ''RON'', ''RSD'', ''RUB'',
    ''RWF'', ''SAR'', ''SBD'', ''SCR'', ''SDG'', ''SEK'', ''SGD'', ''SHP'', ''SLL'', ''XAG'',
    ''SOS'', ''SPL'', ''SRD'', ''STD'', ''SVC'', ''SYP'', ''SZL'', ''THB'', ''TJS'', ''TMT'',
    ''TND'', ''TOP'', ''TRY'', ''TTD'', ''TVD'', ''TWD'', ''TZS'', ''UAH'', ''UGX'', ''USD'',
    ''UYU'', ''UZS'', ''VEF'', ''VND'', ''VUV'', ''WST'', ''XAF'', ''XCD'', ''XDR'', ''XOF'',
    ''XPF'', ''YER'', ''ZAR'', ''ZMW'']"


fun enumerators :: "build \<Rightarrow> string list" where
  "enumerators Testnet = enumerators_testnet"
| "enumerators Prodnet = enumerators_prod1 @ enumerators_prod2"

fun currencyNames :: "build \<Rightarrow> string list" where
  "currencyNames Testnet = currencyNames_testnet"
| "currencyNames Prodnet = currencyNames_prod1 @ currencyNames_prod2"

fun currencySymbols :: "build \<Rightarrow> string list" where
  "currencySymbols Testnet = currencySymbols_testnet"
| "currencySymbols Prodnet = currencySymbols_prod1 @ currencySymbols_prod2"

type_synonym CurrencySymbol = nat

definition INVALID :: "build \<Rightarrow> CurrencySymbol" where
  "INVALID b = length (enumerators b)"

section \<open>The lookups\<close>

text \<open>The loop over a null-terminated table: the index of the first equal entry.\<close>

fun table_index :: "nat \<Rightarrow> string list \<Rightarrow> string \<Rightarrow> nat option" where
  "table_index index [] currency = None"
| "table_index index (t # ts) currency =
     (if currency = t then Some index else table_index (Suc index) ts currency)"

definition getCurrencyBySymbol :: "ext \<Rightarrow> string \<Rightarrow> ('z world_scheme, CurrencySymbol) prog" where
  "getCurrencyBySymbol E currency =
     (case table_index 0 (currencySymbols (x_build E)) currency of
        Some index \<Rightarrow> ret index
      | None \<Rightarrow> thn (placeMsg (''Currency Symbol '' @ currency @ '' not found''))
                    (ret (INVALID (x_build E))))"

definition getCurrencyByName :: "ext \<Rightarrow> string \<Rightarrow> ('z world_scheme, CurrencySymbol) prog" where
  "getCurrencyByName E currency =
     (case table_index 0 (currencyNames (x_build E)) currency of
        Some index \<Rightarrow> ret index
      | None \<Rightarrow> thn (placeMsg (''Currency Symbol '' @ currency @ '' not found''))
                    (ret (INVALID (x_build E))))"

text \<open>
  Indexing the symbol table with an enumerator; \<open>INVALID\<close> reads the terminating null
  pointer, from which no string can be made.
\<close>

definition symbol_of :: "ext \<Rightarrow> CurrencySymbol \<Rightarrow> ('z world_scheme, string) prog" where
  "symbol_of E i =
     (if i < length (currencySymbols (x_build E)) then ret (currencySymbols (x_build E) ! i)
      else throw (Undefined Null_pointer))"

section \<open>Facts\<close>

lemma table_index_None: "table_index n ts c = None \<longleftrightarrow> c \<notin> set ts"
  by (induction n ts c rule: table_index.induct) auto

lemma table_index_nth:
  "distinct ts \<Longrightarrow> i < length ts \<Longrightarrow> table_index n ts (ts ! i) = Some (n + i)"
proof (induction ts arbitrary: n i)
  case (Cons t ts)
  then show ?case by (cases i) (auto simp: nth_Cons')
qed simp

lemma table_index_Some:
  "table_index n ts c = Some k \<Longrightarrow> n \<le> k \<and> k < n + length ts \<and> ts ! (k - n) = c"
proof (induction n ts c rule: table_index.induct)
  case (2 index t ts currency)
  then show ?case by (auto split: if_splits simp: nth_Cons' Suc_diff_Suc)
qed simp

text \<open>
  Distinct entries by distinct numbers read off a few of their characters, sorted first:
  fewer comparisons to evaluate than between all pairs of entries.
\<close>

definition char_at :: "nat \<Rightarrow> string \<Rightarrow> int" where
  "char_at i s = (case drop i s of [] \<Rightarrow> 0 | c # _ \<Rightarrow> of_char c)"

definition entry_code :: "nat list \<Rightarrow> string \<Rightarrow> int" where
  "entry_code is s = foldl (\<lambda>a i. 256 * a + char_at i s) 0 is"

lemma distinct_by_code: "successively (<) (sort (map (entry_code is) xs)) \<Longrightarrow> distinct xs"
proof -
  assume "successively (<) (sort (map (entry_code is) xs))"
  then have "sorted_wrt (<) (sort (map (entry_code is) xs))"
    by (simp add: successively_conv_sorted_wrt)
  then have "distinct (sort (map (entry_code is) xs))" by (simp add: strict_sorted_iff)
  then have "distinct (map (entry_code is) xs)" by simp
  then show "distinct xs" by (simp add: distinct_map)
qed

lemma distinct_symbols_testnet: "distinct (currencySymbols Testnet)"
  by (rule distinct_by_code [of "[0, 1, 2]"]) code_simp

lemma distinct_symbols_prodnet: "distinct (currencySymbols Prodnet)"
  by (rule distinct_by_code [of "[0, 1, 2]"]) code_simp

lemma distinct_symbols: "distinct (currencySymbols b)"
  by (cases b) (simp_all only: distinct_symbols_testnet distinct_symbols_prodnet)

lemma distinct_names_testnet: "distinct (currencyNames Testnet)"
  by (rule distinct_by_code [of "[0, 2, 3, 7]"]) code_simp

lemma distinct_names_prodnet: "distinct (currencyNames Prodnet)"
  by (rule distinct_by_code [of "[0, 2, 3, 7]"]) code_simp

lemma distinct_names: "distinct (currencyNames b)"
  by (cases b) (simp_all only: distinct_names_testnet distinct_names_prodnet)

lemma tables_aligned_testnet: "enumerators Testnet = currencySymbols Testnet"
  by code_simp

lemma tables_aligned_prodnet: "enumerators Prodnet = currencySymbols Prodnet"
  by code_simp

lemma tables_aligned: "enumerators b = currencySymbols b"
  by (cases b) (simp_all only: tables_aligned_testnet tables_aligned_prodnet)

lemma table_lengths_testnet: "length (currencyNames Testnet) = length (currencySymbols Testnet)"
  by code_simp

lemma table_lengths_prodnet: "length (currencyNames Prodnet) = length (currencySymbols Prodnet)"
  by code_simp

lemma table_lengths: "length (currencyNames b) = length (currencySymbols b)"
  by (cases b) (simp_all only: table_lengths_testnet table_lengths_prodnet)

lemma symbols_three_letters_testnet: "list_all (\<lambda>s. length s = 3) (currencySymbols Testnet)"
  by code_simp

lemma symbols_three_letters_prodnet: "list_all (\<lambda>s. length s = 3) (currencySymbols Prodnet)"
  by code_simp

lemma symbols_three_letters: "list_all (\<lambda>s. length s = 3) (currencySymbols b)"
  by (cases b) (simp_all only: symbols_three_letters_testnet symbols_three_letters_prodnet)

text \<open>
  The two lookups invert indexing the tables, in both builds: the symbol table lists each
  enumerator's own name at its index, and every enumerator is found again from its symbol and
  from its name, without a message.
\<close>

theorem currency_lookup_roundtrip:
  assumes "i < INVALID (x_build E)"
  shows "getCurrencyBySymbol E (currencySymbols (x_build E) ! i) s = (Inr i, s) \<and>
    getCurrencyByName E (currencyNames (x_build E) ! i) s = (Inr i, s) \<and>
    currencySymbols (x_build E) ! i = enumerators (x_build E) ! i"
proof -
  have "i < length (currencySymbols (x_build E))" "i < length (currencyNames (x_build E))"
    using assms by (simp_all add: INVALID_def tables_aligned table_lengths)
  then show ?thesis
    by (simp add: getCurrencyBySymbol_def getCurrencyByName_def table_index_nth distinct_symbols
        distinct_names tables_aligned prog_defs)
qed

theorem currency_lookup_roundtrip_witness:
  "getCurrencyBySymbol demo ''GPM'' demo_world = (Inr 1, demo_world)"
proof -
  have "1 < INVALID (x_build demo)" by (simp add: INVALID_def demo_def enumerators_testnet_def)
  moreover have "currencySymbols (x_build demo) ! 1 = ''GPM''"
    by (simp add: demo_def currencySymbols_testnet_def)
  ultimately show ?thesis using currency_lookup_roundtrip [of 1 demo demo_world] by metis
qed

lemma getCurrencyBySymbol_cases:
  "getCurrencyBySymbol E c s =
     (if c \<in> set (currencySymbols (x_build E))
      then (Inr (the (table_index 0 (currencySymbols (x_build E)) c)), s)
      else (Inr (INVALID (x_build E)),
            s\<lparr>w_messages := w_messages s @ [''Currency Symbol '' @ c @ '' not found'']\<rparr>))"
  by (auto simp: getCurrencyBySymbol_def table_index_None prog_defs split: option.splits)
    (auto simp: table_index_None [of 0, symmetric])

lemma table_index_valid:
  "table_index 0 (currencySymbols b) c = Some i \<Longrightarrow> i < INVALID b \<and> currencySymbols b ! i = c"
  using table_index_Some [of 0 "currencySymbols b" c i]
  by (simp add: INVALID_def tables_aligned)

end
