(* ===== verification/Routing.thy ===== *)
theory Routing
  imports Plugin
begin

text \<open>
  \<^verbatim>\<open>src/Router.h\<close>, \<^verbatim>\<open>src/TraceRouter.h\<close>, \<^verbatim>\<open>src/TraceRouter.cpp\<close>: the routing table, from a
  virtual address to the friend it was last heard from, and the tunnels, from a virtual
  address to the hops towards the coordinator and towards the payee. Both are
  \<^verbatim>\<open>std::map\<close>s, whose \<^verbatim>\<open>operator[]\<close> assignment replaces an entry.
\<close>

record router =
  routingTable :: "VirtualAddress \<rightharpoonup> PeerAddress"
  m_Tunnels :: "VirtualAddress \<rightharpoonup> PeerAddress \<times> PeerAddress"

record netw = world +
  n_router :: router

definition TraceRouter_addRoute :: "VirtualAddress \<Rightarrow> PeerAddress \<Rightarrow> router \<Rightarrow> router" where
  "TraceRouter_addRoute dest gateway r = r\<lparr>routingTable := (routingTable r)(dest \<mapsto> gateway)\<rparr>"

definition TraceRouter_nextHop :: "router \<Rightarrow> VirtualAddress \<Rightarrow> PeerAddress" where
  "TraceRouter_nextHop r dest = (case routingTable r dest of Some g \<Rightarrow> g | None \<Rightarrow> [])"

definition TraceRouter_hasRoute :: "router \<Rightarrow> VirtualAddress \<Rightarrow> bool" where
  "TraceRouter_hasRoute r dest = (case routingTable r dest of None \<Rightarrow> False | Some _ \<Rightarrow> True)"

definition Router_addTunnel :: "VirtualAddress \<Rightarrow> PeerAddress \<times> PeerAddress \<Rightarrow> router \<Rightarrow> router" where
  "Router_addTunnel dest gateways r = r\<lparr>m_Tunnels := (m_Tunnels r)(dest \<mapsto> gateways)\<rparr>"

text \<open>The second argument is the caller's variable: it keeps its value on failure.\<close>

definition Router_getTunnel ::
  "router \<Rightarrow> VirtualAddress \<Rightarrow> PeerAddress \<times> PeerAddress \<Rightarrow> RetVal \<times> (PeerAddress \<times> PeerAddress)" where
  "Router_getTunnel r dest gateways =
     (case m_Tunnels r dest of None \<Rightarrow> (ZR_FAILURE, gateways) | Some g \<Rightarrow> (ZR_SUCCESS, g))"

section \<open>The contract of a route store\<close>

text \<open>
  What the callers rely on: the last gateway recorded for an address is the one returned,
  other addresses are left alone, and an address has a route once one was recorded.
\<close>

locale route_store =
  fixes add :: "'k \<Rightarrow> 'v \<Rightarrow> 's \<Rightarrow> 's"
    and look :: "'s \<Rightarrow> 'k \<Rightarrow> 'v"
    and has :: "'s \<Rightarrow> 'k \<Rightarrow> bool"
  assumes look_add: "look (add k v s) k' = (if k' = k then v else look s k')"
    and has_add: "has (add k v s) k' \<longleftrightarrow> k' = k \<or> has s k'"
begin

definition add_all :: "('k \<times> 'v) list \<Rightarrow> 's \<Rightarrow> 's" where
  "add_all = fold (\<lambda>(k, v). add k v)"

lemma add_all_simps [simp]:
  "add_all [] s = s"
  "add_all (kv # kvs) s = add_all kvs (add (fst kv) (snd kv) s)"
  by (simp_all add: add_all_def case_prod_beta)

lemma has_add_all: "has (add_all kvs s) k \<longleftrightarrow> k \<in> fst ` set kvs \<or> has s k"
  by (induction kvs arbitrary: s) (auto simp: has_add)

lemma look_add_all: "look (add_all kvs s) k = (case map_of (rev kvs) k of Some v \<Rightarrow> v | None \<Rightarrow> look s k)"
  by (induction kvs arbitrary: s) (auto simp: look_add map_add_def split: option.splits)

end

interpretation trace: route_store TraceRouter_addRoute TraceRouter_nextHop TraceRouter_hasRoute
  by unfold_locales
    (auto simp: TraceRouter_addRoute_def TraceRouter_nextHop_def TraceRouter_hasRoute_def
      split: option.splits)

interpretation tunnel: route_store Router_addTunnel "\<lambda>r d. snd (Router_getTunnel r d ([], []))"
  "\<lambda>r d. fst (Router_getTunnel r d ([], [])) = ZR_SUCCESS"
  by unfold_locales
    (auto simp: Router_addTunnel_def Router_getTunnel_def split: option.splits)

section \<open>Properties\<close>

text \<open>
  After any sequence of recorded gateways, the next hop of an address is the gateway
  recorded last for it, or what it was before when none was; it has a route exactly when one
  was recorded; tunnels are not touched.
\<close>

theorem route_last_recorded:
  "TraceRouter_nextHop (fold (\<lambda>(d, g). TraceRouter_addRoute d g) hops r) dest =
     (case map_of (rev hops) dest of Some g \<Rightarrow> g | None \<Rightarrow> TraceRouter_nextHop r dest) \<and>
   (TraceRouter_hasRoute (fold (\<lambda>(d, g). TraceRouter_addRoute d g) hops r) dest \<longleftrightarrow>
     dest \<in> fst ` set hops \<or> TraceRouter_hasRoute r dest) \<and>
   Router_getTunnel (fold (\<lambda>(d, g). TraceRouter_addRoute d g) hops r) dest gws =
     Router_getTunnel r dest gws"
proof (intro conjI)
  show "Router_getTunnel (fold (\<lambda>(d, g). TraceRouter_addRoute d g) hops r) dest gws =
      Router_getTunnel r dest gws"
    by (induction hops arbitrary: r) (auto simp: Router_getTunnel_def TraceRouter_addRoute_def)
qed (rule trace.look_add_all trace.has_add_all [unfolded trace.add_all_def] |
     simp only: trace.look_add_all [unfolded trace.add_all_def])+

end
