(* ===== verification/Records.thy ===== *)
theory Records
  imports Currency Routing
begin

text \<open>
  The data the components exchange: the classes \<open>Order\<close> (\<^verbatim>\<open>src/OrderBook.h\<close>),
  \<open>Credit\<close> (\<^verbatim>\<open>src/Credit.h\<close>) and \<open>BtcContract\<close> (\<^verbatim>\<open>src/BtcContract.h\<close>), whose headers
  include one another in a cycle. Enumerations that are read from the wire or the database
  have a constructor for the codes outside the enumeration: the C++ casts keep them.
\<close>

section \<open>Orders\<close>

datatype OrderType = BID | ASK | OrderType_other nat

datatype Purpose = NEW | CANCEL | FILLED | PARTLY_FILLED | SELL | Purpose_other nat

fun OrderType_code :: "OrderType \<Rightarrow> nat" where
  "OrderType_code BID = 0"
| "OrderType_code ASK = 1"
| "OrderType_code (OrderType_other n) = n"

definition OrderType_of :: "nat \<Rightarrow> OrderType" where
  "OrderType_of n = (if n = 0 then BID else if n = 1 then ASK else OrderType_other n)"

fun Purpose_code :: "Purpose \<Rightarrow> nat" where
  "Purpose_code NEW = 0"
| "Purpose_code CANCEL = 1"
| "Purpose_code FILLED = 2"
| "Purpose_code PARTLY_FILLED = 3"
| "Purpose_code SELL = 4"
| "Purpose_code (Purpose_other n) = n"

definition Purpose_of :: "nat \<Rightarrow> Purpose" where
  "Purpose_of n = (if n = 0 then NEW else if n = 1 then CANCEL else if n = 2 then FILLED
     else if n = 3 then PARTLY_FILLED else if n = 4 then SELL else Purpose_other n)"

lemma OrderType_code_of [simp]: "OrderType_code (OrderType_of n) = n"
  by (simp add: OrderType_of_def)

lemma Purpose_code_of [simp]: "Purpose_code (Purpose_of n) = n"
  by (simp add: Purpose_of_def)

lemma OrderType_of_code: "(\<And>n. t = OrderType_other n \<Longrightarrow> 1 < n) \<Longrightarrow> OrderType_of (OrderType_code t) = t"
  by (cases t) (auto simp: OrderType_of_def)

lemma Purpose_of_code: "(\<And>n. t = Purpose_other n \<Longrightarrow> 4 < n) \<Longrightarrow> Purpose_of (Purpose_code t) = t"
  by (cases t) (auto simp: Purpose_of_def)

record Order =
  o_order_id :: string
  o_isMyOrder :: bool
  o_orderType :: OrderType
  o_amount :: ZR_Number
  o_price :: ZR_Number
  o_currency :: CurrencySymbol
  o_timeStamp :: int
  o_purpose :: Purpose
  o_commitment :: ZR_Number
  o_btcAddr :: BitcoinAddress
  o_locked :: bool
  o_ignored :: bool
  o_matched :: "string set"

text \<open>What the constructor sets; the other members have the values their creator gives.\<close>

definition new_Order ::
  "bool \<Rightarrow> string \<Rightarrow> OrderType \<Rightarrow> ZR_Number \<Rightarrow> ZR_Number \<Rightarrow> CurrencySymbol \<Rightarrow> int \<Rightarrow> Purpose \<Rightarrow> Order" where
  "new_Order mine oid typ amount price currency time purpose =
     \<lparr>o_order_id = oid, o_isMyOrder = mine, o_orderType = typ, o_amount = amount, o_price = price,
      o_currency = currency, o_timeStamp = time, o_purpose = purpose, o_commitment = 0,
      o_btcAddr = [], o_locked = False, o_ignored = False, o_matched = {}\<rparr>"

section \<open>Credits\<close>

record Credit =
  c_id :: PeerAddress
  c_currency :: string
  c_our_credit :: ZR_Number
  c_credit :: ZR_Number
  c_balance :: ZR_Number
  c_allocated :: ZR_Number
  c_fee :: ZR_Number

definition new_Credit :: "ext \<Rightarrow> PeerAddress \<Rightarrow> string \<Rightarrow> ('z world_scheme, Credit) prog" where
  "new_Credit E cid currencySym =
     bnd (getCurrencyBySymbol E currencySym) (\<lambda>sym.
       if sym = INVALID (x_build E) then throw (Runtime_error ''Credit::Credit(): Invalid currency symbol'')
       else ret \<lparr>c_id = cid, c_currency = currencySym, c_our_credit = 0, c_credit = 0,
                 c_balance = 0, c_allocated = 0, c_fee = 0\<rparr>)"

definition getPeerAvailable :: "Credit \<Rightarrow> ZR_Number" where
  "getPeerAvailable c = c_credit c - c_balance c - c_allocated c"

definition getMyAvailable :: "Credit \<Rightarrow> ZR_Number" where
  "getMyAvailable c = c_our_credit c + c_balance c"

section \<open>Contracts\<close>

datatype Party = RECEIVER | SENDER

fun Party_code :: "Party \<Rightarrow> nat" where
  "Party_code RECEIVER = 0"
| "Party_code SENDER = 1"

record BtcContract =
  k_btcTxId :: TransactionId
  k_btcAmount :: ZR_Number
  k_price :: ZR_Number
  k_currencySym :: string
  k_party :: Party
  k_counterParty :: PeerAddress
  k_activated :: bool
  k_destAddress :: BitcoinAddress
  k_creationtime :: int
  k_fee :: ZR_Number

definition getFiatAmount :: "BtcContract \<Rightarrow> ZR_Number" where
  "getFiatAmount k = k_btcAmount k * k_price k"

text \<open>A currency symbol is known when the table has it; then a credit can be made for it.\<close>

definition known_currency :: "ext \<Rightarrow> string \<Rightarrow> bool" where
  "known_currency E c \<longleftrightarrow> c \<in> set (currencySymbols (x_build E))"

lemma new_Credit_known [prog_defs]:
  "known_currency E cur \<Longrightarrow> new_Credit E p cur s =
     (Inr \<lparr>c_id = p, c_currency = cur, c_our_credit = 0, c_credit = 0, c_balance = 0,
           c_allocated = 0, c_fee = 0\<rparr>, s)"
proof -
  assume k: "known_currency E cur"
  then obtain i where i: "table_index 0 (currencySymbols (x_build E)) cur = Some i"
    using table_index_None [of 0 "currencySymbols (x_build E)" cur]
    by (auto simp: known_currency_def)
  from table_index_valid [OF this] have "i \<noteq> INVALID (x_build E)" by simp
  with k i show ?thesis
    by (simp add: new_Credit_def bnd_def getCurrencyBySymbol_cases known_currency_def ret_def)
qed

lemma new_Credit_unknown:
  "\<not> known_currency E cur \<Longrightarrow> fst (new_Credit E p cur s) =
     Inl (Runtime_error ''Credit::Credit(): Invalid currency symbol'')"
  by (simp add: new_Credit_def bnd_def getCurrencyBySymbol_cases known_currency_def throw_def)

end
