(* ===== verification/ZrDb.thy ===== *)
theory ZrDb
  imports Records
begin

text \<open>
  \<^verbatim>\<open>src/zrdb.h\<close> and \<^verbatim>\<open>src/zrdb.cpp\<close>: the tables of the two sqlite databases and every
  statement the class sends. A statement is refused when the database refuses it
  (\<open>x_sql_ok\<close>); a text spliced between quotes that holds a quote itself would change the
  statement, which the model does not follow: it stops with \<open>Sql_injection\<close>. Error texts
  leave out the text of the statement. Numbers written from a \<^verbatim>\<open>double\<close> are stored as the
  text sqlite gives back for them.
\<close>

section \<open>Tables\<close>

record peer_row =
  pr_id :: string
  pr_currency :: string
  pr_our_credit :: string
  pr_credit :: string
  pr_balance :: string
  pr_allocation :: string

record order_row =
  or_orderid :: string
  or_ordertype :: nat
  or_amount :: string
  or_price :: string
  or_currency :: string
  or_creationtime :: int
  or_purpose :: nat

record contract_row =
  cr_btcTxId :: string
  cr_btcAmount :: string
  cr_price :: string
  cr_currency :: string
  cr_party :: nat
  cr_counterparty :: string
  cr_destAddress :: string
  cr_creationtime :: int
  cr_fee :: string

record MyWallet_row =
  mw_secret :: string
  mw_type :: nat
  mw_nick :: string

record txlog_row =
  tl_uid :: string
  tl_currency :: string
  tl_amount :: string
  tl_txtime :: int

record tables =
  t_peers :: "peer_row list"
  t_config :: "(string \<times> string) list"
  t_myorders :: "order_row list"
  t_mywallet :: "MyWallet_row list"
  t_peerwallet :: "(string \<times> string) list"
  t_btccontracts :: "contract_row list"

text \<open>
  The saved tables are those at the start of an open transaction. The log is a database of
  its own, outside the transactions of the first.
\<close>

record dbw = netw +
  db_tables :: tables
  db_saved :: "tables option"
  db_txlog :: "txlog_row list"
  db_stmts :: nat

definition no_quote :: "string \<Rightarrow> bool" where
  "no_quote t \<longleftrightarrow> CHR 39 \<notin> set t"

section \<open>Statements\<close>

text \<open>One statement with its spliced texts: it counts, and it may be refused.\<close>

definition sql_statement :: "ext \<Rightarrow> string list \<Rightarrow> string \<Rightarrow> ('z dbw_scheme, unit) prog" where
  "sql_statement E spliced err =
     (if list_ex (\<lambda>t. \<not> no_quote t) spliced then throw (Undefined Sql_injection)
      else bnd (gets db_stmts) (\<lambda>n. thn (modify (\<lambda>w. w\<lparr>db_stmts := Suc n\<rparr>))
        (if x_sql_ok E n then ret () else throw (Runtime_error err))))"

definition runQuery :: "ext \<Rightarrow> string list \<Rightarrow> (tables \<Rightarrow> tables option) \<Rightarrow> ('z dbw_scheme, unit) prog" where
  "runQuery E spliced f =
     thn (sql_statement E spliced ''SQL Error: Cannot run query '')
      (bnd (gets db_tables) (\<lambda>t. case f t of
          None \<Rightarrow> throw (Runtime_error ''SQL Error: Cannot run query '')
        | Some t' \<Rightarrow> modify (\<lambda>w. w\<lparr>db_tables := t'\<rparr>)))"

definition sql_select :: "ext \<Rightarrow> string list \<Rightarrow> string \<Rightarrow> (tables \<Rightarrow> 'r list) \<Rightarrow> ('z dbw_scheme, 'r list) prog" where
  "sql_select E spliced err f = thn (sql_statement E spliced err) (gets (f \<circ> db_tables))"

definition sql_number :: "ext \<Rightarrow> ZR_Number \<Rightarrow> string" where
  "sql_number E v = x_sql_text E (x_show_double E v)"

section \<open>Transactions\<close>

definition beginTx :: "ext \<Rightarrow> ('z dbw_scheme, unit) prog" where
  "beginTx E = thn (sql_statement E [] ''SQL Error: Cannot run query '')
     (bnd (gets db_saved) (\<lambda>sv. case sv of
         None \<Rightarrow> modify (\<lambda>w. w\<lparr>db_saved := Some (db_tables w)\<rparr>)
       | Some _ \<Rightarrow> throw (Runtime_error ''SQL Error: Cannot run query '')))"

definition commitTx :: "ext \<Rightarrow> ('z dbw_scheme, unit) prog" where
  "commitTx E = thn (sql_statement E [] ''SQL Error: Cannot run query '')
     (bnd (gets db_saved) (\<lambda>sv. case sv of
         None \<Rightarrow> throw (Runtime_error ''SQL Error: Cannot run query '')
       | Some _ \<Rightarrow> modify (\<lambda>w. w\<lparr>db_saved := None\<rparr>)))"

definition rollbackTx :: "ext \<Rightarrow> ('z dbw_scheme, unit) prog" where
  "rollbackTx E = thn (sql_statement E [] ''SQL Error: Cannot run query '')
     (bnd (gets db_saved) (\<lambda>sv. case sv of
         None \<Rightarrow> throw (Runtime_error ''SQL Error: Cannot run query '')
       | Some t \<Rightarrow> modify (\<lambda>w. w\<lparr>db_tables := t, db_saved := None\<rparr>)))"

section \<open>Configuration\<close>

definition setConfig :: "ext \<Rightarrow> string \<Rightarrow> string \<Rightarrow> ('z dbw_scheme, unit) prog" where
  "setConfig E key val =
     runQuery E [key, val] (\<lambda>t. Some (t\<lparr>t_config := t_config t @ [(key, val)]\<rparr>))"

definition updateConfig :: "ext \<Rightarrow> string \<Rightarrow> string \<Rightarrow> ('z dbw_scheme, unit) prog" where
  "updateConfig E key val =
     runQuery E [val, key]
       (\<lambda>t. Some (t\<lparr>t_config := map (\<lambda>(k, v). if k = key then (k, val) else (k, v)) (t_config t)\<rparr>))"

text \<open>The callback stores the value of every row that matches: the last one stays.\<close>

definition getConfig :: "ext \<Rightarrow> string \<Rightarrow> ('z dbw_scheme, string) prog" where
  "getConfig E key =
     bnd (sql_select E [key] (''SQL Error: Cannot get value '' @ key)
            (\<lambda>t. filter (\<lambda>(k, v). k = key) (t_config t)))
       (\<lambda>rows. ret (foldl (\<lambda>_ (k, v). v) [] rows))"

section \<open>Peers\<close>

text \<open>The unique index on \<open>id, currency\<close> refuses a second record.\<close>

definition peer_is :: "string \<Rightarrow> string \<Rightarrow> peer_row \<Rightarrow> bool" where
  "peer_is cid cur r \<longleftrightarrow> pr_id r = cid \<and> pr_currency r = cur"

definition createPeerRecord :: "ext \<Rightarrow> Credit \<Rightarrow> ('z dbw_scheme, unit) prog" where
  "createPeerRecord E peer_in =
     runQuery E [c_id peer_in, c_currency peer_in]
       (\<lambda>t. if list_ex (peer_is (c_id peer_in) (c_currency peer_in)) (t_peers t) then None
            else Some (t\<lparr>t_peers := t_peers t @
              [\<lparr>pr_id = c_id peer_in, pr_currency = c_currency peer_in,
                pr_our_credit = x_sql_text E ''0'', pr_credit = x_sql_text E ''0'',
                pr_balance = x_sql_text E ''0'', pr_allocation = x_sql_text E ''0''\<rparr>]\<rparr>))"

definition deletePeerRecord :: "ext \<Rightarrow> string \<Rightarrow> CurrencySymbol \<Rightarrow> ('z dbw_scheme, unit) prog" where
  "deletePeerRecord E uid cs =
     (if cs \<noteq> INVALID (x_build E)
      then bnd (symbol_of E cs) (\<lambda>cur.
        runQuery E [uid] (\<lambda>t. Some (t\<lparr>t_peers := filter (\<lambda>r. \<not> peer_is uid cur r) (t_peers t)\<rparr>)))
      else runQuery E [uid] (\<lambda>t. Some (t\<lparr>t_peers := filter (\<lambda>r. pr_id r \<noteq> uid) (t_peers t)\<rparr>)))"

text \<open>The four column names the callers pass.\<close>

datatype column = Col_credit | Col_our_credit | Col_balance | Col_allocation

fun set_column :: "column \<Rightarrow> string \<Rightarrow> peer_row \<Rightarrow> peer_row" where
  "set_column Col_credit v r = r\<lparr>pr_credit := v\<rparr>"
| "set_column Col_our_credit v r = r\<lparr>pr_our_credit := v\<rparr>"
| "set_column Col_balance v r = r\<lparr>pr_balance := v\<rparr>"
| "set_column Col_allocation v r = r\<lparr>pr_allocation := v\<rparr>"

definition updatePeerCredit :: "ext \<Rightarrow> Credit \<Rightarrow> column \<Rightarrow> ZR_Number \<Rightarrow> ('z dbw_scheme, unit) prog" where
  "updatePeerCredit E peer_in col v =
     runQuery E [c_id peer_in, c_currency peer_in]
       (\<lambda>t. Some (t\<lparr>t_peers := map (\<lambda>r. if peer_is (c_id peer_in) (c_currency peer_in) r
                                        then set_column col (sql_number E v) r else r) (t_peers t)\<rparr>))"

definition setPeerCredit :: "peer_row \<Rightarrow> Credit \<Rightarrow> exn + Credit" where
  "setPeerCredit r c =
     ebind (fromDecimalString (pr_credit r)) (\<lambda>cr.
     ebind (fromDecimalString (pr_our_credit r)) (\<lambda>our.
     ebind (fromDecimalString (pr_balance r)) (\<lambda>bal.
     ebind (fromDecimalString (pr_allocation r)) (\<lambda>al.
       Inr (c\<lparr>c_credit := cr, c_our_credit := our, c_balance := bal, c_allocated := al\<rparr>)))))"

definition ZrDB_loadPeer :: "ext \<Rightarrow> Credit \<Rightarrow> ('z dbw_scheme, Credit) prog" where
  "ZrDB_loadPeer E peer_out =
     bnd (sql_select E [c_id peer_out, c_currency peer_out] ''SQL Error: Cannot load peer data''
            (\<lambda>t. filter (peer_is (c_id peer_out) (c_currency peer_out)) (t_peers t)))
       (\<lambda>rows. lift (efold setPeerCredit rows peer_out))"

definition addPeerCredit :: "ext \<Rightarrow> peer_row \<Rightarrow> ('z dbw_scheme, Credit) prog" where
  "addPeerCredit E r =
     bnd (new_Credit E (pr_id r) (pr_currency r)) (\<lambda>c. lift (setPeerCredit r c))"

fun list_rows :: "('r \<Rightarrow> ('s, 'a) prog) \<Rightarrow> 'r list \<Rightarrow> 'a list \<Rightarrow> ('s, 'a list) prog" where
  "list_rows f [] acc = ret acc"
| "list_rows f (r # rs) acc = bnd (f r) (\<lambda>x. list_rows f rs (acc @ [x]))"

definition ZrDB_loadPeers :: "ext \<Rightarrow> string \<Rightarrow> ('z dbw_scheme, Credit list) prog" where
  "ZrDB_loadPeers E cid =
     bnd (sql_select E [cid] ''SQL Error: Cannot load peer data''
            (\<lambda>t. filter (\<lambda>r. pr_id r = cid) (t_peers t)))
       (\<lambda>rows. list_rows (addPeerCredit E) rows [])"

definition peerExists :: "ext \<Rightarrow> Credit \<Rightarrow> ('z dbw_scheme, bool) prog" where
  "peerExists E peer_in =
     bnd (sql_select E [c_id peer_in, c_currency peer_in] ''SQL Error: Cannot store peer data''
            (\<lambda>t. filter (peer_is (c_id peer_in) (c_currency peer_in)) (t_peers t)))
       (\<lambda>rows. ret (foldl (\<lambda>_ _. True) False rows))"

record GrandTotal =
  gt_currency :: string
  gt_our_credit :: ZR_Number
  gt_credit :: ZR_Number
  gt_outstanding :: ZR_Number
  gt_debt :: ZR_Number
  gt_balance :: ZR_Number

definition addToGrandTotal :: "peer_row \<Rightarrow> GrandTotal \<Rightarrow> exn + GrandTotal" where
  "addToGrandTotal r g =
     ebind (fromDecimalString (pr_our_credit r)) (\<lambda>our.
     ebind (fromDecimalString (pr_credit r)) (\<lambda>cr.
     ebind (fromDecimalString (pr_balance r)) (\<lambda>peerbalance.
       let g1 = g\<lparr>gt_our_credit := gt_our_credit g + our, gt_credit := gt_credit g + cr,
                  gt_balance := gt_balance g + peerbalance\<rparr>
       in Inr (if peerbalance > 0 then g1\<lparr>gt_outstanding := gt_outstanding g1 + peerbalance\<rparr>
               else g1\<lparr>gt_debt := gt_debt g1 - peerbalance\<rparr>))))"

definition loadGrandTotal :: "ext \<Rightarrow> string \<Rightarrow> ('z dbw_scheme, GrandTotal) prog" where
  "loadGrandTotal E currency =
     bnd (sql_select E [currency] ''SQL Error: Cannot store peer data''
            (\<lambda>t. filter (\<lambda>r. pr_currency r = currency) (t_peers t)))
       (\<lambda>rows. lift (efold addToGrandTotal rows
          \<lparr>gt_currency = currency, gt_our_credit = 0, gt_credit = 0, gt_outstanding = 0,
           gt_debt = 0, gt_balance = 0\<rparr>))"

section \<open>The transaction log\<close>

definition openTxLog :: "ext \<Rightarrow> bool \<Rightarrow> ('z dbw_scheme, unit) prog" where
  "openTxLog E open_ok =
     bnd (getConfig E ''TXLOGPATH'') (\<lambda>txLog.
       if \<not> open_ok then throw (Runtime_error ''SQL Error: Cannot open database'')
       else sql_statement E [] ''SQL Error: Cannot create table'')"

definition appendTx :: "ext \<Rightarrow> string \<Rightarrow> string \<Rightarrow> ZR_Number \<Rightarrow> ('z dbw_scheme, unit) prog" where
  "appendTx E uid currency amount =
     thn (sql_statement E [uid, currency] ''SQL Error: Cannot append to TX log'')
       (modify (\<lambda>w. w\<lparr>db_txlog := db_txlog w @
          [\<lparr>tl_uid = uid, tl_currency = currency, tl_amount = sql_number E amount,
            tl_txtime = w_now w div 1000\<rparr>]\<rparr>))"

record TxLogItem =
  ti_id :: string
  ti_currency :: string
  ti_amount :: ZR_Number
  ti_timestamp :: int

definition addToTxList :: "txlog_row \<Rightarrow> TxLogItem list \<Rightarrow> exn + TxLogItem list" where
  "addToTxList r items =
     ebind (fromDecimalString (tl_amount r)) (\<lambda>a.
       Inr (items @ [\<lparr>ti_id = tl_uid r, ti_currency = tl_currency r, ti_amount = a,
                      ti_timestamp = tl_txtime r\<rparr>]))"

text \<open>\<open>order by txtime desc\<close>; rows of one second stay in the order they were written.\<close>

definition loadTxLog :: "ext \<Rightarrow> ('z dbw_scheme, TxLogItem list) prog" where
  "loadTxLog E =
     thn (sql_statement E [] ''SQL Error: Cannot read TX log'')
       (bnd (gets (\<lambda>w. sort_key (\<lambda>r. - tl_txtime r) (db_txlog w)))
         (\<lambda>rows. lift (efold addToTxList rows [])))"

section \<open>Orders\<close>

definition ZrDB_addOrder :: "ext \<Rightarrow> Order \<Rightarrow> ('z dbw_scheme, unit) prog" where
  "ZrDB_addOrder E order =
     bnd (symbol_of E (o_currency order)) (\<lambda>cur.
       runQuery E [o_order_id order, cur]
         (\<lambda>t. Some (t\<lparr>t_myorders := t_myorders t @
            [\<lparr>or_orderid = o_order_id order, or_ordertype = OrderType_code (o_orderType order),
              or_amount = sql_number E (o_amount order), or_price = sql_number E (o_price order),
              or_currency = cur, or_creationtime = o_timeStamp order,
              or_purpose = Purpose_code (o_purpose order)\<rparr>]\<rparr>)))"

definition orders_callback :: "ext \<Rightarrow> order_row \<Rightarrow> ('z dbw_scheme, Order) prog" where
  "orders_callback E r =
     bnd (lift (fromDecimalString (or_amount r))) (\<lambda>amount.
     bnd (lift (fromDecimalString (or_price r))) (\<lambda>price.
     bnd (getCurrencyBySymbol E (or_currency r)) (\<lambda>currency.
       ret (new_Order True (or_orderid r) (OrderType_of (or_ordertype r)) amount price currency
              (or_creationtime r) (Purpose_of (or_purpose r))))))"

definition loadOrders :: "ext \<Rightarrow> ('z dbw_scheme, Order list) prog" where
  "loadOrders E =
     bnd (sql_select E [] ''SQL Error: Cannot read Orders'' t_myorders)
       (\<lambda>rows. list_rows (orders_callback E) rows [])"

text \<open>
  The new amount is spliced as numerator, slash, denominator: sqlite divides the two
  integers and drops the remainder.
\<close>

definition sql_fraction :: "ZR_Number \<Rightarrow> string" where
  "sql_fraction q = (case quotient_of q of (n, d) \<Rightarrow>
     show_int (if n < 0 then - ((- n) div d) else n div d))"

definition updateOrder :: "ext \<Rightarrow> Order \<Rightarrow> ('z dbw_scheme, unit) prog" where
  "updateOrder E order =
     runQuery E [o_order_id order]
       (\<lambda>t. Some (t\<lparr>t_myorders := map (\<lambda>r. if or_orderid r = o_order_id order
                     then r\<lparr>or_amount := x_sql_text E (sql_fraction (o_amount order))\<rparr> else r)
                   (t_myorders t)\<rparr>))"

definition deleteOrder :: "ext \<Rightarrow> Order \<Rightarrow> ('z dbw_scheme, unit) prog" where
  "deleteOrder E order =
     runQuery E [o_order_id order]
       (\<lambda>t. Some (t\<lparr>t_myorders := filter (\<lambda>r. or_orderid r \<noteq> o_order_id order) (t_myorders t)\<rparr>))"

section \<open>Wallets\<close>

definition storeMyWallet :: "ext \<Rightarrow> string \<Rightarrow> nat \<Rightarrow> string \<Rightarrow> ('z dbw_scheme, RetVal) prog" where
  "storeMyWallet E secret typ nick =
     thn (runQuery E [secret, nick]
       (\<lambda>t. Some (t\<lparr>t_mywallet := t_mywallet t @ [\<lparr>mw_secret = secret, mw_type = typ, mw_nick = nick\<rparr>]\<rparr>)))
     (ret ZR_SUCCESS)"

definition addPeerWallet :: "ext \<Rightarrow> string \<Rightarrow> string \<Rightarrow> ('z dbw_scheme, RetVal) prog" where
  "addPeerWallet E address nick =
     thn (runQuery E [address, nick] (\<lambda>t. Some (t\<lparr>t_peerwallet := t_peerwallet t @ [(address, nick)]\<rparr>)))
     (ret ZR_SUCCESS)"

definition loadMyWallets :: "ext \<Rightarrow> ('z dbw_scheme, MyWallet_row list) prog" where
  "loadMyWallets E =
     bnd (sql_select E [] ''SQL Error: Cannot store peer data'' t_mywallet)
       (\<lambda>rows. list_rows ret rows [])"

section \<open>Contracts\<close>

definition addBtcContract :: "ext \<Rightarrow> BtcContract \<Rightarrow> ('z dbw_scheme, unit) prog" where
  "addBtcContract E k =
     runQuery E [k_btcTxId k, k_currencySym k, k_counterParty k, k_destAddress k]
       (\<lambda>t. Some (t\<lparr>t_btccontracts := t_btccontracts t @
          [\<lparr>cr_btcTxId = k_btcTxId k, cr_btcAmount = sql_number E (k_btcAmount k),
            cr_price = sql_number E (k_price k), cr_currency = k_currencySym k,
            cr_party = Party_code (k_party k), cr_counterparty = k_counterParty k,
            cr_destAddress = k_destAddress k, cr_creationtime = k_creationtime k,
            cr_fee = sql_number E (k_fee k)\<rparr>]\<rparr>))"

definition rmBtcContract :: "ext \<Rightarrow> TransactionId \<Rightarrow> nat \<Rightarrow> ('z dbw_scheme, unit) prog" where
  "rmBtcContract E btcTxId party =
     runQuery E [btcTxId]
       (\<lambda>t. Some (t\<lparr>t_btccontracts :=
          filter (\<lambda>r. \<not> (cr_btcTxId r = btcTxId \<and> cr_party r = party)) (t_btccontracts t)\<rparr>))"

definition select_btccontracts :: "ext \<Rightarrow> ('z dbw_scheme, contract_row list) prog" where
  "select_btccontracts E =
     sql_select E [] ''SQL Error: Cannot load contract data''
       (\<lambda>t. sort_key (\<lambda>r. - cr_creationtime r) (t_btccontracts t))"

section \<open>Opening the database\<close>

text \<open>
  The booleans are the answers of the file system and of \<^verbatim>\<open>sqlite3_open\<close>: whether the
  directory could be made, whether the file was there, whether each database could be opened.
  The text of the first error is built from a range between two unrelated literals, which is
  undefined.
\<close>

definition create_tables :: "ext \<Rightarrow> ('z dbw_scheme, unit) prog" where
  "create_tables E =
     for_each (replicate 8 ()) (\<lambda>_. sql_statement E [] ''SQL Error: Cannot create table'')"

text \<open>What a new database is filled with.\<close>

definition populate :: "ext \<Rightarrow> string \<Rightarrow> ('z dbw_scheme, unit) prog" where
  "populate E pathname =
     thn (create_tables E)
     (thn (setConfig E ''TXLOGPATH'' (pathname @ ''/zeroreserve.tx''))
     (thn (setConfig E ''DB_VERSION'' ''0'')
     (thn (setConfig E ''MINIMUM_FEE'' ''0/1'')
          (setConfig E ''PERCENTAGE_FEE'' ''0/1''))))"

definition check_version :: "ext \<Rightarrow> ('z dbw_scheme, unit) prog" where
  "check_version E =
     bnd (getConfig E ''DB_VERSION'') (\<lambda>dbversion.
     bnd (getConfig E ''DB_VERSION'') (\<lambda>again.
       whn (again \<noteq> ''0'')
         (thn (placeMsg (''Updating Database version, required version is 0 current version is '' @ dbversion))
           (whn (dbversion = ''a'') (setConfig E ''DB_VERSION'' ''0'')))))"

definition ZrDB_init :: "ext \<Rightarrow> string \<Rightarrow> bool \<Rightarrow> bool \<Rightarrow> bool \<Rightarrow> bool \<Rightarrow> ('z dbw_scheme, unit) prog" where
  "ZrDB_init E pathname mkpath_ok db_exists open_ok txlog_ok =
     (if \<not> mkpath_ok then throw (Undefined Invalid_iterator)
      else
       thn (whn (\<not> db_exists) (placeMsg (''Creating DB: '' @ pathname @ ''/zeroreserve.db'')))
       (if \<not> open_ok
        then throw (Runtime_error (''SQL Error: Cannot open database: '' @ pathname @ ''/zeroreserve.db''))
        else thn (whn (\<not> db_exists) (populate E pathname)) (thn (openTxLog E txlog_ok) (check_version E))))"

section \<open>Facts on statements\<close>

definition db_up :: "ext \<Rightarrow> bool" where
  "db_up E \<longleftrightarrow> (\<forall>n. x_sql_ok E n)"

lemma demo_db_up: "db_up demo"
  by (simp add: db_up_def demo_def)

abbreviation tick :: "'z dbw_scheme \<Rightarrow> 'z dbw_scheme" where
  "tick s \<equiv> s\<lparr>db_stmts := Suc (db_stmts s)\<rparr>"

lemma sql_statement_apply:
  "sql_statement E sp err s =
     (if list_ex (\<lambda>t. \<not> no_quote t) sp then (Inl (Undefined Sql_injection), s)
      else if x_sql_ok E (db_stmts s) then (Inr (), tick s) else (Inl (Runtime_error err), tick s))"
  by (simp add: sql_statement_def prog_defs)

lemma sql_statement_ok [prog_defs]:
  "db_up E \<Longrightarrow> list_all no_quote sp \<Longrightarrow> sql_statement E sp err s = (Inr (), tick s)"
  by (simp add: sql_statement_apply db_up_def list_ex_iff list_all_iff)

lemma runQuery_ok [prog_defs]:
  "db_up E \<Longrightarrow> list_all no_quote sp \<Longrightarrow> f (db_tables s) = Some t \<Longrightarrow>
     runQuery E sp f s = (Inr (), s\<lparr>db_stmts := Suc (db_stmts s), db_tables := t\<rparr>)"
  by (simp add: runQuery_def thn_def bnd_def sql_statement_ok gets_def modify_def)

lemma sql_select_ok [prog_defs]:
  "db_up E \<Longrightarrow> list_all no_quote sp \<Longrightarrow>
     sql_select E sp err f s = (Inr (f (db_tables s)), tick s)"
  by (simp add: sql_select_def thn_def bnd_def sql_statement_ok gets_def)

text \<open>Whatever the outcome, a statement changes the counter, and a query the tables by its effect.\<close>

lemma runQuery_state:
  "snd (runQuery E sp f s) = s \<or> snd (runQuery E sp f s) = tick s \<or>
   (\<exists>t. f (db_tables s) = Some t \<and> snd (runQuery E sp f s) = tick s\<lparr>db_tables := t\<rparr>)"
  by (auto simp: runQuery_def sql_statement_apply prog_defs split: option.splits)

lemma keeps_sql_statement [keep_intros]:
  "(\<And>s. I s \<Longrightarrow> I (tick s)) \<Longrightarrow> keeps I (sql_statement E sp err)"
  by (auto simp: keeps_def sql_statement_apply)

lemma keeps_runQuery:
  assumes "\<And>s. I s \<Longrightarrow> I (tick s)" and "\<And>s t. I s \<Longrightarrow> f (db_tables s) = Some t \<Longrightarrow> I (s\<lparr>db_tables := t\<rparr>)"
  shows "keeps I (runQuery E sp f)"
proof (rule keepsI)
  fix s assume "I s"
  from runQuery_state [of E sp f s] show "I (snd (runQuery E sp f s))"
  proof (elim disjE exE conjE)
    fix t assume "f (db_tables s) = Some t" "snd (runQuery E sp f s) = tick s\<lparr>db_tables := t\<rparr>"
    then show ?thesis using assms(2) [OF assms(1) [OF \<open>I s\<close>], of t] by simp
  qed (use \<open>I s\<close> assms(1) in auto)
qed

end
