(* ===== verification/Ledger.thy ===== *)
theory Ledger
  imports ZrDb
begin

text \<open>
  What the peers table promises: a finite map from friend and currency to an account of four
  numbers. Loading reads the map, an update replaces one number of one account, creation adds
  an empty account, deletion removes accounts; the detailed operations on rows of text
  implement it as long as every row is one the class wrote. The last section uses the map as
  a \<open>credit_store\<close>, the interface the classes \<open>Credit\<close> and \<open>Payment\<close> work against.
\<close>

section \<open>The abstract map\<close>

record account =
  a_credit :: ZR_Number
  a_our_credit :: ZR_Number
  a_balance :: ZR_Number
  a_allocation :: ZR_Number

type_synonym ledger = "(string \<times> string) \<rightharpoonup> account"

fun set_account :: "column \<Rightarrow> ZR_Number \<Rightarrow> account \<Rightarrow> account" where
  "set_account Col_credit v a = a\<lparr>a_credit := v\<rparr>"
| "set_account Col_our_credit v a = a\<lparr>a_our_credit := v\<rparr>"
| "set_account Col_balance v a = a\<lparr>a_balance := v\<rparr>"
| "set_account Col_allocation v a = a\<lparr>a_allocation := v\<rparr>"

definition load_account :: "account \<Rightarrow> Credit \<Rightarrow> Credit" where
  "load_account a c = c\<lparr>c_credit := a_credit a, c_our_credit := a_our_credit a,
     c_balance := a_balance a, c_allocated := a_allocation a\<rparr>"

definition row_account :: "peer_row \<Rightarrow> exn + account" where
  "row_account r =
     ebind (fromDecimalString (pr_credit r)) (\<lambda>cr.
     ebind (fromDecimalString (pr_our_credit r)) (\<lambda>our.
     ebind (fromDecimalString (pr_balance r)) (\<lambda>bal.
     ebind (fromDecimalString (pr_allocation r)) (\<lambda>al.
       Inr \<lparr>a_credit = cr, a_our_credit = our, a_balance = bal, a_allocation = al\<rparr>))))"

definition row_key :: "peer_row \<Rightarrow> string \<times> string" where
  "row_key r = (pr_id r, pr_currency r)"

text \<open>The abstraction, and the rows it applies to: unique keys, texts that are numbers.\<close>

definition abs_peers :: "tables \<Rightarrow> ledger" where
  "abs_peers t k =
     (case List.find (\<lambda>r. row_key r = k) (t_peers t) of None \<Rightarrow> None
      | Some r \<Rightarrow> (case row_account r of Inl _ \<Rightarrow> None | Inr a \<Rightarrow> Some a))"

definition row_ok :: "peer_row \<Rightarrow> bool" where
  "row_ok r \<longleftrightarrow> (case row_account r of Inl _ \<Rightarrow> False | Inr _ \<Rightarrow> True)"

definition peers_ok :: "tables \<Rightarrow> bool" where
  "peers_ok t \<longleftrightarrow> distinct (map row_key (t_peers t)) \<and> list_all row_ok (t_peers t)"

section \<open>Rows\<close>

lemma peer_is_key: "peer_is p c = (\<lambda>r. row_key r = (p, c))"
  by (auto simp: peer_is_def row_key_def fun_eq_iff)

lemma set_column_key [simp]: "row_key (set_column col v r) = row_key r"
  by (cases col) (simp_all add: row_key_def)

lemma setPeerCredit_account:
  "setPeerCredit r c = ebind (row_account r) (\<lambda>a. Inr (load_account a c))"
  by (simp add: setPeerCredit_def row_account_def ebind_def load_account_def split: sum.split)

lemma row_account_set_column:
  "row_account r = Inr a \<Longrightarrow> db_value E v = Inr x \<Longrightarrow>
     row_account (set_column col (sql_number E v) r) = Inr (set_account col x a)"
  by (cases col) (auto simp: row_account_def db_value_def sql_number_def ebind_def split: sum.splits)

lemma row_ok_account: "row_ok r \<longleftrightarrow> (\<exists>a. row_account r = Inr a)"
  by (auto simp: row_ok_def split: sum.splits)

lemma row_ok_set_column: "row_ok r \<Longrightarrow> db_value E v = Inr x \<Longrightarrow> row_ok (set_column col (sql_number E v) r)"
  by (auto simp: row_ok_account dest: row_account_set_column)

lemma find_map_key:
  "(\<And>r. row_key (f r) = row_key r) \<Longrightarrow>
     List.find (\<lambda>r. row_key r = k) (map f rs) = map_option f (List.find (\<lambda>r. row_key r = k) rs)"
  by (induction rs) auto

lemma find_key_filter:
  "distinct (map row_key rs) \<Longrightarrow>
     filter (\<lambda>r. row_key r = k) rs = (case List.find (\<lambda>r. row_key r = k) rs of None \<Rightarrow> [] | Some r \<Rightarrow> [r])"
proof (induction rs)
  case (Cons r rs)
  have "\<forall>x\<in>set rs. row_key x \<noteq> row_key r" using Cons.prems by (auto simp: image_iff)
  then have "row_key r = k \<Longrightarrow> filter (\<lambda>r. row_key r = k) rs = []"
    by (auto simp: filter_empty_conv)
  with Cons show ?case by auto
qed simp

lemma peers_ok_row: "peers_ok t \<Longrightarrow> List.find p (t_peers t) = Some r \<Longrightarrow> \<exists>a. row_account r = Inr a"
  by (auto simp: peers_ok_def list_all_iff row_ok_account dest: find_Some_in)

lemma abs_peers_row:
  "peers_ok t \<Longrightarrow> abs_peers t k = Some a \<Longrightarrow>
     \<exists>r. List.find (\<lambda>r. row_key r = k) (t_peers t) = Some r \<and> row_account r = Inr a"
  by (auto simp: abs_peers_def split: option.splits sum.splits)

lemma abs_peers_None:
  "peers_ok t \<Longrightarrow> abs_peers t k = None \<longleftrightarrow> k \<notin> row_key ` set (t_peers t)"
proof -
  assume ok: "peers_ok t"
  show ?thesis
  proof (cases "List.find (\<lambda>r. row_key r = k) (t_peers t)")
    case None
    then have "k \<notin> row_key ` set (t_peers t)" by (auto simp: find_None_iff')
    with None show ?thesis by (simp add: abs_peers_def)
  next
    case (Some r)
    with peers_ok_row [OF ok Some] find_Some_in [OF Some] show ?thesis
      by (auto simp: abs_peers_def)
  qed
qed

section \<open>The operations implement the map\<close>

text \<open>
  Keys of the credit objects are spliced into the statements; the lemmas are about texts
  without quotes and a database that accepts statements.
\<close>

definition key_ok :: "Credit \<Rightarrow> bool" where
  "key_ok c \<longleftrightarrow> no_quote (c_id c) \<and> no_quote (c_currency c)"

lemma ZrDB_loadPeer_abs:
  assumes "db_up E" "key_ok c" "peers_ok (db_tables s)"
  shows "ZrDB_loadPeer E c s =
    (Inr (case abs_peers (db_tables s) (c_id c, c_currency c) of None \<Rightarrow> c | Some a \<Rightarrow> load_account a c), tick s)"
proof -
  let ?k = "(c_id c, c_currency c)"
  have d: "distinct (map row_key (t_peers (db_tables s)))" using assms(3) by (simp add: peers_ok_def)
  show ?thesis
  proof (cases "List.find (\<lambda>r. row_key r = ?k) (t_peers (db_tables s))")
    case None
    then show ?thesis
      using assms(1,2) by (simp add: ZrDB_loadPeer_def key_ok_def prog_defs abs_peers_def peer_is_key
          find_key_filter [OF d])
  next
    case (Some r)
    from peers_ok_row [OF assms(3) Some] obtain a where "row_account r = Inr a" ..
    with Some show ?thesis
      using assms(1,2) by (simp add: ZrDB_loadPeer_def key_ok_def prog_defs abs_peers_def peer_is_key
          find_key_filter [OF d] setPeerCredit_account)
  qed
qed

lemma peerExists_abs:
  assumes "db_up E" "key_ok c" "peers_ok (db_tables s)"
  shows "peerExists E c s =
    (Inr (abs_peers (db_tables s) (c_id c, c_currency c) \<noteq> None), tick s)"
proof -
  let ?k = "(c_id c, c_currency c)"
  have d: "distinct (map row_key (t_peers (db_tables s)))" using assms(3) by (simp add: peers_ok_def)
  show ?thesis
  proof (cases "List.find (\<lambda>r. row_key r = ?k) (t_peers (db_tables s))")
    case None
    then show ?thesis
      using assms(1,2) by (simp add: peerExists_def key_ok_def prog_defs abs_peers_def peer_is_key
          find_key_filter [OF d])
  next
    case (Some r)
    from peers_ok_row [OF assms(3) Some] obtain a where "row_account r = Inr a" ..
    with Some show ?thesis
      using assms(1,2) by (simp add: peerExists_def key_ok_def prog_defs abs_peers_def peer_is_key
          find_key_filter [OF d])
  qed
qed

definition updated_peers :: "ext \<Rightarrow> string \<times> string \<Rightarrow> column \<Rightarrow> ZR_Number \<Rightarrow> tables \<Rightarrow> tables" where
  "updated_peers E k col v t =
     t\<lparr>t_peers := map (\<lambda>r. if row_key r = k then set_column col (sql_number E v) r else r) (t_peers t)\<rparr>"

lemma updatePeerCredit_ok [prog_defs]:
  "db_up E \<Longrightarrow> key_ok c \<Longrightarrow> updatePeerCredit E c col v s =
     (Inr (), s\<lparr>db_stmts := Suc (db_stmts s),
                db_tables := updated_peers E (c_id c, c_currency c) col v (db_tables s)\<rparr>)"
  by (simp add: updatePeerCredit_def prog_defs key_ok_def updated_peers_def peer_is_key)

lemma peers_ok_updated:
  assumes "peers_ok t" and "db_value E v = Inr x"
  shows "peers_ok (updated_peers E k col v t)"
  using assms row_ok_set_column [OF _ assms(2)]
  by (auto simp: peers_ok_def updated_peers_def comp_def if_distrib list_all_iff cong: if_cong)

lemma abs_peers_updated:
  assumes ok: "peers_ok t" and v: "db_value E v = Inr x"
  shows "abs_peers (updated_peers E q col v t) =
    (case abs_peers t q of None \<Rightarrow> abs_peers t
     | Some a \<Rightarrow> (abs_peers t)(q \<mapsto> set_account col x a))"
proof (rule ext)
  fix k
  let ?f = "\<lambda>r. if row_key r = q then set_column col (sql_number E v) r else r"
  have f: "List.find (\<lambda>r. row_key r = k) (map ?f (t_peers t)) =
      map_option ?f (List.find (\<lambda>r. row_key r = k) (t_peers t))"
    by (rule find_map_key) simp
  show "abs_peers (updated_peers E q col v t) k =
    (case abs_peers t q of None \<Rightarrow> abs_peers t
     | Some a \<Rightarrow> (abs_peers t)(q \<mapsto> set_account col x a)) k"
  proof (cases "List.find (\<lambda>r. row_key r = k) (t_peers t)")
    case None
    then show ?thesis
      using f by (auto simp: abs_peers_def updated_peers_def split: option.splits sum.splits)
  next
    case (Some r)
    from peers_ok_row [OF ok Some] obtain a where a: "row_account r = Inr a" ..
    have rk: "row_key r = k" using find_Some_in [OF Some] by simp
    show ?thesis
    proof (cases "k = q")
      case True
      then show ?thesis
        using f Some a rk row_account_set_column [OF a v, of col]
        by (simp add: abs_peers_def updated_peers_def)
    next
      case False
      then have "abs_peers (updated_peers E q col v t) k = abs_peers t k"
        using f Some a rk by (simp add: abs_peers_def updated_peers_def)
      with False show ?thesis by (auto split: option.splits)
    qed
  qed
qed

text \<open>A new record holds zeros, written as a literal.\<close>

definition db_zero :: "ext \<Rightarrow> bool" where
  "db_zero E \<longleftrightarrow> fromDecimalString (x_sql_text E ''0'') = Inr 0"

definition empty_account :: account where
  "empty_account = \<lparr>a_credit = 0, a_our_credit = 0, a_balance = 0, a_allocation = 0\<rparr>"

lemma find_append_key:
  "List.find p (xs @ [y]) = (case List.find p xs of Some x \<Rightarrow> Some x | None \<Rightarrow> if p y then Some y else None)"
  by (induction xs) auto

lemma createPeerRecord_abs:
  assumes up: "db_up E" and key: "key_ok c" and z: "db_zero E" and ok: "peers_ok (db_tables s)"
    and new: "abs_peers (db_tables s) (c_id c, c_currency c) = None"
  shows "\<exists>t. createPeerRecord E c s = (Inr (), s\<lparr>db_stmts := Suc (db_stmts s), db_tables := t\<rparr>) \<and>
    peers_ok t \<and> abs_peers t = (abs_peers (db_tables s))((c_id c, c_currency c) \<mapsto> empty_account)"
proof -
  let ?k = "(c_id c, c_currency c)" and ?t = "db_tables s"
  let ?r = "\<lparr>pr_id = c_id c, pr_currency = c_currency c,
                pr_our_credit = x_sql_text E ''0'', pr_credit = x_sql_text E ''0'',
                pr_balance = x_sql_text E ''0'', pr_allocation = x_sql_text E ''0''\<rparr>"
  let ?t' = "?t\<lparr>t_peers := t_peers ?t @ [?r]\<rparr>"
  have nk: "?k \<notin> row_key ` set (t_peers ?t)" using new ok by (simp add: abs_peers_None)
  then have ne: "\<not> list_ex (peer_is (c_id c) (c_currency c)) (t_peers ?t)"
    by (auto simp: list_ex_iff peer_is_key image_iff)
  have rk: "row_key ?r = ?k" by (simp add: row_key_def)
  have ra: "row_account ?r = Inr empty_account"
    using z by (simp add: row_account_def db_zero_def empty_account_def)
  have "createPeerRecord E c s = (Inr (), s\<lparr>db_stmts := Suc (db_stmts s), db_tables := ?t'\<rparr>)"
    using up key ne by (simp add: createPeerRecord_def prog_defs key_ok_def)
  moreover have "peers_ok ?t'"
    using ok nk rk ra by (simp add: peers_ok_def row_ok_def)
  moreover have "abs_peers ?t' = (abs_peers ?t)(?k \<mapsto> empty_account)"
  proof (rule ext)
    fix k
    have "k = ?k \<Longrightarrow> List.find (\<lambda>r. row_key r = k) (t_peers ?t) = None"
      using nk by (auto simp: find_None_iff' image_iff)
    then show "abs_peers ?t' k = ((abs_peers ?t)(?k \<mapsto> empty_account)) k"
      using rk ra by (auto simp: abs_peers_def find_append_key split: option.splits)
  qed
  ultimately show ?thesis by blast
qed

lemma find_filter: "List.find p (filter q xs) = List.find (\<lambda>x. q x \<and> p x) xs"
  by (induction xs) auto

lemma find_keep: "(\<And>r. row_key r = k \<Longrightarrow> q r) \<Longrightarrow>
   List.find (\<lambda>r. q r \<and> row_key r = k) rs = List.find (\<lambda>r. row_key r = k) rs"
  by (induction rs) auto

lemma peers_filter:
  assumes "peers_ok t" and "\<And>r. q r \<longleftrightarrow> P (row_key r)"
  shows "peers_ok (t\<lparr>t_peers := filter q (t_peers t)\<rparr>) \<and>
    abs_peers (t\<lparr>t_peers := filter q (t_peers t)\<rparr>) = (\<lambda>k. if P k then abs_peers t k else None)"
proof
  show "peers_ok (t\<lparr>t_peers := filter q (t_peers t)\<rparr>)"
    using assms(1) by (auto simp: peers_ok_def distinct_map_filter list_all_iff)
  show "abs_peers (t\<lparr>t_peers := filter q (t_peers t)\<rparr>) = (\<lambda>k. if P k then abs_peers t k else None)"
  proof (rule ext)
    fix k
    have "List.find (\<lambda>r. q r \<and> row_key r = k) (t_peers t) =
        (if P k then List.find (\<lambda>r. row_key r = k) (t_peers t) else None)"
      using assms(2) find_keep [of k q "t_peers t"] by (auto simp: find_None_iff')
    then show "abs_peers (t\<lparr>t_peers := filter q (t_peers t)\<rparr>) k = (if P k then abs_peers t k else None)"
      by (simp add: abs_peers_def find_filter)
  qed
qed

lemma deletePeerRecord_abs:
  assumes up: "db_up E" and q: "no_quote uid" and ok: "peers_ok (db_tables s)"
    and cs: "cs \<le> INVALID (x_build E)"
  shows "\<exists>t. deletePeerRecord E uid cs s = (Inr (), s\<lparr>db_stmts := Suc (db_stmts s), db_tables := t\<rparr>) \<and>
    peers_ok t \<and> abs_peers t = (\<lambda>k. if fst k = uid \<and> (cs = INVALID (x_build E) \<or>
        snd k = currencySymbols (x_build E) ! cs) then None else abs_peers (db_tables s) k)"
proof (cases "cs = INVALID (x_build E)")
  case True
  have "pr_id r \<noteq> uid \<longleftrightarrow> fst (row_key r) \<noteq> uid" for r by (simp add: row_key_def)
  from peers_filter [where P = "\<lambda>k. fst k \<noteq> uid", OF ok this] show ?thesis
    using up q True by (intro exI conjI) (simp add: deletePeerRecord_def prog_defs, simp, auto)
next
  case False
  let ?cur = "currencySymbols (x_build E) ! cs"
  have "cs < length (currencySymbols (x_build E))"
    using cs False by (simp add: INVALID_def tables_aligned)
  then have run: "deletePeerRecord E uid cs s = (Inr (), s\<lparr>db_stmts := Suc (db_stmts s),
      db_tables := (db_tables s)\<lparr>t_peers := filter (\<lambda>r. \<not> peer_is uid ?cur r) (t_peers (db_tables s))\<rparr>\<rparr>)"
    using up q False by (simp add: deletePeerRecord_def symbol_of_def prog_defs)
  have "\<not> peer_is uid ?cur r \<longleftrightarrow> row_key r \<noteq> (uid, ?cur)" for r by (simp add: peer_is_key)
  from peers_filter [where P = "\<lambda>k. k \<noteq> (uid, ?cur)", OF ok this] run show ?thesis
    using False by (intro exI conjI) (rule run, simp, auto)
qed

section \<open>Simulation\<close>

datatype peer_op = Op_create string string | Op_update string string column ZR_Number | Op_delete string CurrencySymbol

definition key_credit :: "string \<Rightarrow> string \<Rightarrow> Credit" where
  "key_credit p cur = \<lparr>c_id = p, c_currency = cur, c_our_credit = 0, c_credit = 0, c_balance = 0,
     c_allocated = 0, c_fee = 0\<rparr>"

fun run_op :: "ext \<Rightarrow> peer_op \<Rightarrow> ('z dbw_scheme, unit) prog" where
  "run_op E (Op_create p cur) = createPeerRecord E (key_credit p cur)"
| "run_op E (Op_update p cur col v) = updatePeerCredit E (key_credit p cur) col v"
| "run_op E (Op_delete p cs) = deletePeerRecord E p cs"

definition run_ops :: "ext \<Rightarrow> peer_op list \<Rightarrow> 'z dbw_scheme \<Rightarrow> 'z dbw_scheme" where
  "run_ops E = fold (\<lambda>op s. snd (run_op E op s))"

fun ledger_step :: "ext \<Rightarrow> peer_op \<Rightarrow> ledger \<Rightarrow> ledger" where
  "ledger_step E (Op_create p cur) m = (if m (p, cur) = None then m((p, cur) \<mapsto> empty_account) else m)"
| "ledger_step E (Op_update p cur col v) m =
     (case m (p, cur) of None \<Rightarrow> m | Some a \<Rightarrow> m((p, cur) \<mapsto> set_account col v a))"
| "ledger_step E (Op_delete p cs) m =
     (\<lambda>k. if fst k = p \<and> (cs = INVALID (x_build E) \<or> snd k = currencySymbols (x_build E) ! cs)
          then None else m k)"

fun op_ok :: "ext \<Rightarrow> peer_op \<Rightarrow> bool" where
  "op_ok E (Op_create p cur) \<longleftrightarrow> no_quote p \<and> no_quote cur"
| "op_ok E (Op_update p cur col v) \<longleftrightarrow> no_quote p \<and> no_quote cur \<and> db_exact E v"
| "op_ok E (Op_delete p cs) \<longleftrightarrow> no_quote p \<and> cs \<le> INVALID (x_build E)"

lemma key_credit_key [simp]: "c_id (key_credit p cur) = p" "c_currency (key_credit p cur) = cur"
  by (simp_all add: key_credit_def)

lemma createPeerRecord_exists:
  assumes "db_up E" "key_ok c" "peers_ok (db_tables s)"
    and "abs_peers (db_tables s) (c_id c, c_currency c) \<noteq> None"
  shows "createPeerRecord E c s = (Inl (Runtime_error ''SQL Error: Cannot run query ''), tick s)"
proof -
  have "(c_id c, c_currency c) \<in> row_key ` set (t_peers (db_tables s))"
    using assms(4) abs_peers_None [OF assms(3)] by simp
  then have "list_ex (peer_is (c_id c) (c_currency c)) (t_peers (db_tables s))"
    by (auto simp: list_ex_iff peer_is_key image_iff)
  then show ?thesis using assms(1,2)
    by (simp add: createPeerRecord_def runQuery_def prog_defs key_ok_def)
qed

lemma run_op_step:
  assumes "db_up E" "db_zero E" "op_ok E op" "peers_ok (db_tables s)"
  shows "peers_ok (db_tables (snd (run_op E op s))) \<and>
    abs_peers (db_tables (snd (run_op E op s))) = ledger_step E op (abs_peers (db_tables s))"
proof (cases op)
  case (Op_create p cur)
  let ?c = "key_credit p cur"
  have k: "key_ok ?c" using assms(3) Op_create by (simp add: key_ok_def)
  show ?thesis
  proof (cases "abs_peers (db_tables s) (p, cur)")
    case None
    then show ?thesis
      using createPeerRecord_abs [OF assms(1) k assms(2,4)] Op_create by auto
  next
    case (Some a)
    then show ?thesis
      using createPeerRecord_exists [OF assms(1) k assms(4)] assms(4) Op_create by simp
  qed
next
  case (Op_update p cur col v)
  have k: "key_ok (key_credit p cur)" and v: "db_value E v = Inr v"
    using assms(3) Op_update by (simp_all add: key_ok_def db_exact_def)
  show ?thesis
    using Op_update peers_ok_updated [OF assms(4) v] abs_peers_updated [OF assms(4) v]
    by (simp add: updatePeerCredit_ok [OF assms(1) k] split: option.split)
next
  case (Op_delete p cs)
  then have q: "no_quote p" and cs: "cs \<le> INVALID (x_build E)" using assms(3) by simp_all
  show ?thesis
    using deletePeerRecord_abs [OF assms(1) q assms(4) cs] Op_delete by (elim exE conjE) simp
qed

text \<open>
  C27: the peers table implements a map from friend and currency to an account: any sequence
  of record creations, column updates and deletions leaves the unique, readable rows of the
  map that the same sequence of map operations gives; a creation for an existing key changes
  nothing.
\<close>

theorem peers_simulation:
  assumes "db_up E" and "db_zero E" and "peers_ok (db_tables s)" and "\<forall>op\<in>set ops. op_ok E op"
  shows "peers_ok (db_tables (run_ops E ops s)) \<and>
    abs_peers (db_tables (run_ops E ops s)) = fold (ledger_step E) ops (abs_peers (db_tables s))"
  using assms(3,4)
proof (induction ops arbitrary: s)
  case (Cons op ops)
  have "op_ok E op" using Cons.prems(2) by simp
  from run_op_step [OF assms(1,2) this Cons.prems(1)]
  have "peers_ok (db_tables (snd (run_op E op s)))"
    and a: "abs_peers (db_tables (snd (run_op E op s))) = ledger_step E op (abs_peers (db_tables s))"
    by simp_all
  from Cons.IH [OF this(1)] Cons.prems(2) a show ?case by (simp add: run_ops_def)
qed (simp add: run_ops_def)

definition demo_tables :: tables where
  "demo_tables = \<lparr>t_peers = [], t_config = [], t_myorders = [], t_mywallet = [], t_peerwallet = [],
     t_btccontracts = []\<rparr>"

definition demo_router :: router where
  "demo_router = \<lparr>routingTable = Map.empty, m_Tunnels = Map.empty\<rparr>"

definition demo_dbw :: dbw where
  "demo_dbw = \<lparr>w_now = 0, w_online = [], w_rpc = 0, w_messages = [], n_router = demo_router,
     db_tables = demo_tables, db_saved = None, db_txlog = [], db_stmts = 0\<rparr>"

lemma demo_db_zero: "db_zero demo"
proof -
  have "show_int 0 = ''0''" by code_simp
  then show ?thesis
    using fromDecimalString_show_int [of 0] by (simp add: db_zero_def demo_def in_i64_def)
qed

theorem peers_simulation_witness:
  "abs_peers (db_tables (run_ops demo [Op_create ''bob'' ''GPM'', Op_update ''bob'' ''GPM'' Col_balance 7,
      Op_create ''bob'' ''GPM''] demo_dbw)) (''bob'', ''GPM'') =
    Some \<lparr>a_credit = 0, a_our_credit = 0, a_balance = 7, a_allocation = 0\<rparr>"
proof -
  let ?ops = "[Op_create ''bob'' ''GPM'', Op_update ''bob'' ''GPM'' Col_balance 7, Op_create ''bob'' ''GPM'']"
  have "db_exact demo 7" using demo_db_exact [of 7] by (simp add: in_i64_def)
  then have "\<forall>op\<in>set ?ops. op_ok demo op" by (simp add: no_quote_def)
  moreover have "peers_ok (db_tables demo_dbw)" by (simp add: demo_dbw_def demo_tables_def peers_ok_def)
  moreover have "abs_peers (db_tables demo_dbw) = Map.empty"
    by (auto simp: demo_dbw_def demo_tables_def abs_peers_def)
  ultimately show ?thesis
    using peers_simulation [OF demo_db_up demo_db_zero, of demo_dbw ?ops] by (simp add: empty_account_def)
qed

section \<open>The interface of \<open>Credit\<close> and \<open>Payment\<close>\<close>

text \<open>
  The clients read an account and write one of its numbers back. The contract: a number that
  is stored exactly is the one read, the other numbers and accounts are left alone. Inside it:
  the effect on the balances of any series of payments.
\<close>

locale credit_store =
  fixes ok :: "'s \<Rightarrow> bool"
    and exact :: "ZR_Number \<Rightarrow> bool"
    and load :: "'s \<Rightarrow> 'k \<Rightarrow> account option"
    and store :: "'k \<Rightarrow> column \<Rightarrow> ZR_Number \<Rightarrow> 's \<Rightarrow> 's"
  assumes ok_store: "ok s \<Longrightarrow> exact v \<Longrightarrow> ok (store k col v s)"
    and load_store: "ok s \<Longrightarrow> exact v \<Longrightarrow> load (store k col v s) k' =
      (if k' = k then map_option (set_account col v) (load s k) else load s k')"
begin

definition transfer :: "'k \<Rightarrow> ZR_Number \<Rightarrow> 's \<Rightarrow> 's" where
  "transfer k d s = (case load s k of None \<Rightarrow> s | Some a \<Rightarrow> store k Col_balance (a_balance a + d) s)"

primrec exact_run :: "('k \<times> ZR_Number) list \<Rightarrow> 's \<Rightarrow> bool" where
  "exact_run [] s = True"
| "exact_run (kd # kds) s =
     ((\<forall>a. load s (fst kd) = Some a \<longrightarrow> exact (a_balance a + snd kd)) \<and>
      exact_run kds (transfer (fst kd) (snd kd) s))"

definition settle :: "('k \<times> ZR_Number) list \<Rightarrow> 's \<Rightarrow> 's" where
  "settle = fold (\<lambda>(k, d). transfer k d)"

definition balance :: "'s \<Rightarrow> 'k \<Rightarrow> ZR_Number option" where
  "balance s k = map_option a_balance (load s k)"

lemma transfer_load:
  assumes "ok s" and "\<forall>a. load s k = Some a \<longrightarrow> exact (a_balance a + d)"
  shows "ok (transfer k d s)"
    and "load (transfer k d s) k' =
      (if k' = k then map_option (\<lambda>a. a\<lparr>a_balance := a_balance a + d\<rparr>) (load s k) else load s k')"
proof -
  show "ok (transfer k d s)"
    using assms ok_store by (auto simp: transfer_def split: option.splits)
  show "load (transfer k d s) k' =
      (if k' = k then map_option (\<lambda>a. a\<lparr>a_balance := a_balance a + d\<rparr>) (load s k) else load s k')"
    using assms load_store by (auto simp: transfer_def split: option.splits)
qed

lemma settle_balance:
  assumes "ok s" and "exact_run ds s"
  shows "balance (settle ds s) k =
    map_option (\<lambda>b. b + sum_list (map snd (filter (\<lambda>x. fst x = k) ds))) (balance s k)"
  using assms
proof (induction ds arbitrary: s)
  case Nil
  then show ?case by (simp add: settle_def option.map_id0 [unfolded id_def] option.map_comp comp_def)
next
  case (Cons kd ds)
  have e: "\<forall>a. load s (fst kd) = Some a \<longrightarrow> exact (a_balance a + snd kd)"
    using Cons.prems(2) by simp
  note t = transfer_load [OF Cons.prems(1) e]
  have "balance (settle ds (transfer (fst kd) (snd kd) s)) k =
    map_option (\<lambda>b. b + sum_list (map snd (filter (\<lambda>x. fst x = k) ds))) (balance (transfer (fst kd) (snd kd) s) k)"
    using Cons.IH [OF t(1)] Cons.prems(2) by simp
  moreover have "balance (transfer (fst kd) (snd kd) s) k =
      (if k = fst kd then map_option (\<lambda>b. b + snd kd) (balance s k) else balance s k)"
    using t(2) [of k] by (simp add: balance_def option.map_comp comp_def)
  ultimately show ?case
    by (auto simp: settle_def case_prod_beta option.map_comp comp_def algebra_simps)
qed

end

interpretation peers: credit_store peers_ok "db_exact E" abs_peers "updated_peers E" for E :: ext
proof unfold_locales
  fix t k k' col v
  assume "peers_ok t" "db_exact E v"
  then have v: "db_value E v = Inr v" and t: "peers_ok t" by (simp_all add: db_exact_def)
  show "peers_ok (updated_peers E k col v t)" by (rule peers_ok_updated [OF t v])
  show "abs_peers (updated_peers E k col v t) k' =
      (if k' = k then map_option (set_account col v) (abs_peers t k) else abs_peers t k')"
    by (simp add: abs_peers_updated [OF t v] split: option.split)
qed

end
