(* ===== verification/Store.thy ===== *)
theory Store
  imports Ledger
begin

text \<open>
  What the other tables promise: transactions, the configuration a new database starts with,
  the totals over all friends of a currency, and the orders that survive a restart.
\<close>

section \<open>Transactions\<close>

lemma beginTx_ok [prog_defs]:
  "db_up E \<Longrightarrow> beginTx E s = (if db_saved s = None then (Inr (), tick s\<lparr>db_saved := Some (db_tables s)\<rparr>)
     else (Inl (Runtime_error ''SQL Error: Cannot run query ''), tick s))"
  by (auto simp: beginTx_def prog_defs split: option.split)

lemma commitTx_ok [prog_defs]:
  "db_up E \<Longrightarrow> commitTx E s = (if db_saved s = None then (Inl (Runtime_error ''SQL Error: Cannot run query ''), tick s)
     else (Inr (), tick s\<lparr>db_saved := None\<rparr>))"
  by (auto simp: commitTx_def prog_defs split: option.split)

lemma rollbackTx_ok [prog_defs]:
  "db_up E \<Longrightarrow> db_saved s = Some t \<Longrightarrow> rollbackTx E s = (Inr (), tick s\<lparr>db_tables := t, db_saved := None\<rparr>)"
  by (simp add: rollbackTx_def prog_defs)

lemma appendTx_ok [prog_defs]:
  "db_up E \<Longrightarrow> no_quote p \<Longrightarrow> no_quote c \<Longrightarrow> appendTx E p c v s =
     (Inr (), tick s\<lparr>db_txlog := db_txlog s @ [\<lparr>tl_uid = p, tl_currency = c, tl_amount = sql_number E v,
        tl_txtime = w_now s div 1000\<rparr>]\<rparr>)"
  by (simp add: appendTx_def prog_defs)

section \<open>Configuration\<close>

lemma setConfig_ok [prog_defs]:
  "db_up E \<Longrightarrow> no_quote k \<Longrightarrow> no_quote v \<Longrightarrow> setConfig E k v s =
     (Inr (), tick s\<lparr>db_tables := (db_tables s)\<lparr>t_config := t_config (db_tables s) @ [(k, v)]\<rparr>\<rparr>)"
  by (simp add: setConfig_def prog_defs)

lemma getConfig_ok [prog_defs]:
  "db_up E \<Longrightarrow> no_quote k \<Longrightarrow> getConfig E k s =
     (Inr (foldl (\<lambda>_ (k, v). v) [] (filter (\<lambda>(k', v). k' = k) (t_config (db_tables s)))), tick s)"
  by (simp add: getConfig_def prog_defs)

lemma create_tables_ok:
  "db_up E \<Longrightarrow> \<exists>n. create_tables E s = (Inr (), s\<lparr>db_stmts := n\<rparr>)"
  by (simp add: create_tables_def numeral_eq_Suc prog_defs) blast

text \<open>
  Opening a database that does not exist yet, when nothing fails, tells the user so and
  leaves a configuration from which the path of the log, the version and the two fees are read
  back; no version update follows.
\<close>

theorem init_configures:
  assumes "db_up E" and "no_quote path" and "db_tables s = demo_tables"
  shows "\<exists>t. ZrDB_init E path True False True True s = (Inr (), t) \<and>
    w_messages t = w_messages s @ [''Creating DB: '' @ path @ ''/zeroreserve.db''] \<and>
    t_peers (db_tables t) = [] \<and>
    fst (getConfig E ''TXLOGPATH'' t) = Inr (path @ ''/zeroreserve.tx'') \<and>
    fst (getConfig E ''DB_VERSION'' t) = Inr ''0'' \<and>
    fst (getConfig E ''MINIMUM_FEE'' t) = Inr ''0/1'' \<and>
    fst (getConfig E ''PERCENTAGE_FEE'' t) = Inr ''0/1''"
proof -
  let ?s1 = "s\<lparr>w_messages := w_messages s @ [''Creating DB: '' @ path @ ''/zeroreserve.db'']\<rparr>"
  obtain n where n: "create_tables E ?s1 = (Inr (), ?s1\<lparr>db_stmts := n\<rparr>)"
    using create_tables_ok [OF assms(1)] by blast
  have q: "no_quote (path @ ''/zeroreserve.tx'')" using assms(2) by (simp add: no_quote_def)
  have k: "no_quote ''TXLOGPATH''" "no_quote ''DB_VERSION''" "no_quote ''0''" "no_quote ''0/1''"
    "no_quote ''MINIMUM_FEE''" "no_quote ''PERCENTAGE_FEE''" by (simp_all add: no_quote_def)
  show ?thesis
    using assms(1,3) n q k
    by (simp add: ZrDB_init_def populate_def check_version_def openTxLog_def prog_defs demo_tables_def)
qed

theorem init_configures_witness:
  "fst (getConfig demo ''DB_VERSION'' (snd (ZrDB_init demo ''zr'' True False True True demo_dbw))) = Inr ''0''"
proof -
  have "no_quote ''zr''" "db_tables demo_dbw = demo_tables" by (simp_all add: no_quote_def demo_dbw_def)
  from init_configures [OF demo_db_up this] show ?thesis by auto
qed

section \<open>Totals\<close>

text \<open>The accounts of one currency, in the order of the rows.\<close>

definition accounts_of :: "tables \<Rightarrow> string \<Rightarrow> account list" where
  "accounts_of t cur = map (\<lambda>r. case row_account r of Inr a \<Rightarrow> a | Inl _ \<Rightarrow> empty_account)
     (filter (\<lambda>r. pr_currency r = cur) (t_peers t))"

lemma addToGrandTotal_account:
  "row_account r = Inr a \<Longrightarrow> addToGrandTotal r g = Inr
     (g\<lparr>gt_our_credit := gt_our_credit g + a_our_credit a, gt_credit := gt_credit g + a_credit a,
        gt_balance := gt_balance g + a_balance a,
        gt_outstanding := gt_outstanding g + max 0 (a_balance a),
        gt_debt := gt_debt g + max 0 (- a_balance a)\<rparr>)"
  by (auto simp: row_account_def addToGrandTotal_def ebind_def Let_def max_def split: sum.splits)

lemma efold_GrandTotal:
  "list_all row_ok rs \<Longrightarrow> efold addToGrandTotal rs g = Inr
     (let as = map (\<lambda>r. case row_account r of Inr a \<Rightarrow> a | Inl _ \<Rightarrow> empty_account) rs in
      g\<lparr>gt_our_credit := gt_our_credit g + sum_list (map a_our_credit as),
        gt_credit := gt_credit g + sum_list (map a_credit as),
        gt_balance := gt_balance g + sum_list (map a_balance as),
        gt_outstanding := gt_outstanding g + sum_list (map (\<lambda>a. max 0 (a_balance a)) as),
        gt_debt := gt_debt g + sum_list (map (\<lambda>a. max 0 (- a_balance a)) as)\<rparr>)"
proof (induction rs arbitrary: g)
  case (Cons r rs)
  then obtain a where a: "row_account r = Inr a" by (auto simp: row_ok_account)
  show ?case
    using Cons.prems by (simp add: addToGrandTotal_account [OF a] Cons.IH a Let_def algebra_simps)
qed (simp add: Let_def)

lemma sum_list_split: "sum_list (map a_balance as) =
   sum_list (map (\<lambda>a. max 0 (a_balance a)) as) - sum_list (map (\<lambda>a. max 0 (- a_balance a)) as)"
  by (induction as) (auto simp: max_def)

text \<open>
  The totals of a currency are the sums of the credit lines and balances of its accounts;
  the outstanding amount and the debt are non-negative and their difference is the balance.
\<close>

theorem loadGrandTotal_sums:
  assumes "db_up E" and "no_quote cur" and "peers_ok (db_tables s)"
  shows "\<exists>g. loadGrandTotal E cur s = (Inr g, tick s) \<and>
    gt_our_credit g = sum_list (map a_our_credit (accounts_of (db_tables s) cur)) \<and>
    gt_credit g = sum_list (map a_credit (accounts_of (db_tables s) cur)) \<and>
    gt_balance g = sum_list (map a_balance (accounts_of (db_tables s) cur)) \<and>
    gt_outstanding g - gt_debt g = gt_balance g \<and> 0 \<le> gt_outstanding g \<and> 0 \<le> gt_debt g"
proof -
  let ?rs = "filter (\<lambda>r. pr_currency r = cur) (t_peers (db_tables s))"
  have ok: "list_all row_ok ?rs" using assms(3) by (auto simp: peers_ok_def list_all_iff)
  have nn: "0 \<le> sum_list (map (\<lambda>a. max 0 (f a)) as)" for f :: "account \<Rightarrow> rat" and as
    by (rule sum_list_nonneg) auto
  show ?thesis
    using assms(1,2) by (simp add: loadGrandTotal_def prog_defs efold_GrandTotal [OF ok] Let_def
        accounts_of_def [symmetric] sum_list_split nn)
qed

definition demo_peer :: "string \<Rightarrow> int \<Rightarrow> int \<Rightarrow> int \<Rightarrow> int \<Rightarrow> peer_row" where
  "demo_peer p cr our bal al = \<lparr>pr_id = p, pr_currency = ''GPM'', pr_our_credit = show_int our,
     pr_credit = show_int cr, pr_balance = show_int bal, pr_allocation = show_int al\<rparr>"

definition demo_peers :: "peer_row list \<Rightarrow> dbw" where
  "demo_peers rs = demo_dbw\<lparr>db_tables := demo_tables\<lparr>t_peers := rs\<rparr>\<rparr>"

lemma demo_peer_account:
  "in_i64 cr \<Longrightarrow> in_i64 our \<Longrightarrow> in_i64 bal \<Longrightarrow> in_i64 al \<Longrightarrow>
     row_account (demo_peer p cr our bal al) = Inr \<lparr>a_credit = of_int cr, a_our_credit = of_int our,
       a_balance = of_int bal, a_allocation = of_int al\<rparr>"
  by (simp add: row_account_def demo_peer_def fromDecimalString_show_int)

lemma demo_peer_key [simp]: "row_key (demo_peer p cr our bal al) = (p, ''GPM'')"
  by (simp add: row_key_def demo_peer_def)

theorem loadGrandTotal_sums_witness:
  "\<exists>g. fst (loadGrandTotal demo ''GPM'' (demo_peers [demo_peer ''al'' 9 8 (- 3) 0, demo_peer ''bo'' 5 5 2 0])) = Inr g \<and>
     gt_balance g = - 1"
proof -
  let ?rs = "[demo_peer ''al'' 9 8 (- 3) 0, demo_peer ''bo'' 5 5 2 0]"
  let ?s = "demo_peers ?rs"
  have t: "t_peers (db_tables ?s) = ?rs" by (simp add: demo_peers_def)
  have ok: "peers_ok (db_tables ?s)"
    unfolding peers_ok_def t by (simp add: row_ok_account demo_peer_account in_i64_def)
  have "accounts_of (db_tables ?s) ''GPM'' =
      [\<lparr>a_credit = 9, a_our_credit = 8, a_balance = - 3, a_allocation = 0\<rparr>,
       \<lparr>a_credit = 5, a_our_credit = 5, a_balance = 2, a_allocation = 0\<rparr>]"
    unfolding accounts_of_def t by (simp add: demo_peer_account in_i64_def) (simp add: demo_peer_def)
  with loadGrandTotal_sums [OF demo_db_up _ ok, of "''GPM''"] show ?thesis
    by (auto simp: no_quote_def)
qed

section \<open>Orders\<close>

lemma list_rows_append:
  "list_rows f (xs @ ys) acc = bnd (list_rows f xs acc) (list_rows f ys)"
  by (induction xs arbitrary: acc) (simp_all add: bnd_assoc)

lemma orders_callback_ok:
  assumes "fromDecimalString (or_amount r) = Inr a" "fromDecimalString (or_price r) = Inr p"
    and "table_index 0 (currencySymbols (x_build E)) (or_currency r) = Some i"
  shows "orders_callback E r s = (Inr (new_Order True (or_orderid r) (OrderType_of (or_ordertype r)) a p i
      (or_creationtime r) (Purpose_of (or_purpose r))), s)"
  using assms by (simp add: orders_callback_def prog_defs getCurrencyBySymbol_def)

lemma symbol_index:
  "i < INVALID b \<Longrightarrow> table_index 0 (currencySymbols b) (currencySymbols b ! i) = Some i"
  by (simp add: INVALID_def tables_aligned table_index_nth distinct_symbols)

lemma no_quote_symbol: "i < INVALID b \<Longrightarrow> no_quote (currencySymbols b ! i)"
proof -
  have "list_all no_quote (currencySymbols Testnet)" "list_all no_quote (currencySymbols Prodnet)"
    by code_simp+
  then have "list_all no_quote (currencySymbols b)" by (cases b) simp_all
  then show "i < INVALID b \<Longrightarrow> no_quote (currencySymbols b ! i)"
    by (simp add: list_all_length INVALID_def tables_aligned)
qed

lemma ZrDB_addOrder_ok [prog_defs]:
  assumes "db_up E" "no_quote (o_order_id ord)" "o_currency ord < INVALID (x_build E)"
  shows "ZrDB_addOrder E ord s = (Inr (), tick s\<lparr>db_tables := (db_tables s)\<lparr>t_myorders :=
      t_myorders (db_tables s) @ [\<lparr>or_orderid = o_order_id ord, or_ordertype = OrderType_code (o_orderType ord),
              or_amount = sql_number E (o_amount ord), or_price = sql_number E (o_price ord),
              or_currency = currencySymbols (x_build E) ! o_currency ord, or_creationtime = o_timeStamp ord,
              or_purpose = Purpose_code (o_purpose ord)\<rparr>]\<rparr>\<rparr>)"
  using assms no_quote_symbol [OF assms(3)]
  by (simp add: ZrDB_addOrder_def prog_defs symbol_of_def INVALID_def tables_aligned)

text \<open>The order a row stands for, when its numbers and its currency can be read.\<close>

definition row_order :: "ext \<Rightarrow> order_row \<Rightarrow> Order option" where
  "row_order E r =
     (case (fromDecimalString (or_amount r), fromDecimalString (or_price r),
            table_index 0 (currencySymbols (x_build E)) (or_currency r)) of
        (Inr a, Inr p, Some i) \<Rightarrow> Some (new_Order True (or_orderid r) (OrderType_of (or_ordertype r)) a p i
            (or_creationtime r) (Purpose_of (or_purpose r)))
      | _ \<Rightarrow> None)"

definition orders_readable :: "ext \<Rightarrow> tables \<Rightarrow> bool" where
  "orders_readable E t \<longleftrightarrow> list_all (\<lambda>r. row_order E r \<noteq> None) (t_myorders t)"

lemma list_rows_orders:
  "list_all (\<lambda>r. row_order E r \<noteq> None) rs \<Longrightarrow>
     list_rows (orders_callback E) rs acc s = (Inr (acc @ map (the \<circ> row_order E) rs), s)"
proof (induction rs arbitrary: acc)
  case (Cons r rs)
  then obtain a p i where "fromDecimalString (or_amount r) = Inr a" "fromDecimalString (or_price r) = Inr p"
    "table_index 0 (currencySymbols (x_build E)) (or_currency r) = Some i"
    by (auto simp: row_order_def split: sum.splits option.splits)
  with Cons show ?case by (simp add: bnd_def orders_callback_ok row_order_def)
qed (simp add: prog_defs)

lemma loadOrders_ok:
  "db_up E \<Longrightarrow> orders_readable E (db_tables s) \<Longrightarrow>
     loadOrders E s = (Inr (map (the \<circ> row_order E) (t_myorders (db_tables s))), tick s)"
  by (simp add: loadOrders_def bnd_def sql_select_ok list_rows_orders orders_readable_def)

text \<open>
  C37: an order of mine that is stored is loaded again at the next start, after the ones stored
  before and with its id, type, amount, price, currency, time stamp and purpose; what the table
  has no column for comes back with its initial value: nothing committed, no Bitcoin address,
  not locked, not ignored, no match remembered.
\<close>

theorem stored_order_reloaded:
  assumes "db_up E" and "orders_readable E (db_tables s)"
    and "no_quote (o_order_id ord)" and "o_currency ord < INVALID (x_build E)"
    and "db_exact E (o_amount ord)" and "db_exact E (o_price ord)"
    and "o_orderType ord \<in> {BID, ASK}" and "o_purpose ord \<in> {NEW, CANCEL, FILLED, PARTLY_FILLED, SELL}"
  shows "\<exists>os. fst (loadOrders E s) = Inr os \<and>
    fst (loadOrders E (snd (ZrDB_addOrder E ord s))) =
      Inr (os @ [ord\<lparr>o_isMyOrder := True, o_commitment := 0, o_btcAddr := [], o_locked := False,
        o_ignored := False, o_matched := {}\<rparr>])"
proof -
  let ?r = "\<lparr>or_orderid = o_order_id ord, or_ordertype = OrderType_code (o_orderType ord),
              or_amount = sql_number E (o_amount ord), or_price = sql_number E (o_price ord),
              or_currency = currencySymbols (x_build E) ! o_currency ord, or_creationtime = o_timeStamp ord,
              or_purpose = Purpose_code (o_purpose ord)\<rparr>"
  let ?o = "ord\<lparr>o_isMyOrder := True, o_commitment := 0, o_btcAddr := [], o_locked := False,
        o_ignored := False, o_matched := {}\<rparr>"
  have t: "OrderType_of (OrderType_code (o_orderType ord)) = o_orderType ord"
    "Purpose_of (Purpose_code (o_purpose ord)) = o_purpose ord"
    using assms(7,8) by (auto intro: OrderType_of_code Purpose_of_code)
  then have r: "row_order E ?r = Some ?o"
    using assms(5,6) symbol_index [OF assms(4)]
    by (simp add: row_order_def db_exact_def db_value_def sql_number_def new_Order_def)
  show ?thesis
    using assms(1-4) r by (simp add: loadOrders_ok ZrDB_addOrder_ok orders_readable_def)
qed

definition demo_order :: "string \<Rightarrow> OrderType \<Rightarrow> ZR_Number \<Rightarrow> ZR_Number \<Rightarrow> Order" where
  "demo_order oid typ amount price = new_Order False oid typ amount price 1 0 NEW"

theorem stored_order_reloaded_witness:
  "fst (loadOrders demo (snd (ZrDB_addOrder demo (demo_order ''x'' BID 3 7) demo_dbw))) =
     Inr [new_Order True ''x'' BID 3 7 1 0 NEW]"
proof -
  let ?o = "demo_order ''x'' BID 3 7"
  have r: "orders_readable demo (db_tables demo_dbw)"
    by (simp add: orders_readable_def demo_dbw_def demo_tables_def)
  have e: "db_exact demo 3" "db_exact demo 7"
    using demo_db_exact [of 3] demo_db_exact [of 7] by (simp_all add: in_i64_def)
  have c: "o_currency ?o < INVALID (x_build demo)"
    by (simp add: demo_order_def new_Order_def INVALID_def demo_def enumerators_testnet_def)
  have "fst (loadOrders demo demo_dbw) = Inr []"
    using loadOrders_ok [OF demo_db_up r] by (simp add: demo_dbw_def demo_tables_def)
  with stored_order_reloaded [OF demo_db_up r _ c] e show ?thesis
    by (simp add: demo_order_def new_Order_def no_quote_def)
qed

text \<open>A decimal column gives an integer back that was written as one.\<close>

definition db_int :: "ext \<Rightarrow> bool" where
  "db_int E \<longleftrightarrow> (\<forall>k. in_i64 k \<longrightarrow> fromDecimalString (x_sql_text E (show_int k)) = Inr (of_int k))"

lemma demo_db_int: "db_int demo"
  by (simp add: db_int_def demo_def fromDecimalString_show_int)

lemma sql_fraction_floor: "0 \<le> q \<Longrightarrow> sql_fraction q = show_int \<lfloor>q\<rfloor>"
proof -
  assume q: "0 \<le> q"
  obtain n d where nd: "quotient_of q = (n, d)" by (cases "quotient_of q")
  have d: "0 < d" using quotient_of_denom_pos [OF nd] .
  have "q = of_int n / of_int d" using quotient_of_div [OF nd] .
  with q d have "0 \<le> n" by (simp add: zero_le_divide_iff)
  moreover have "\<lfloor>q\<rfloor> = n div d" using \<open>q = of_int n / of_int d\<close> by (simp add: floor_divide_of_int_eq)
  ultimately show ?thesis using nd by (simp add: sql_fraction_def)
qed

lemma rows_mapped:
  assumes "\<And>r x. row_order E r = Some x \<Longrightarrow> row_order E (f r) = Some (g x)"
    and "list_all (\<lambda>r. row_order E r \<noteq> None) rs"
  shows "list_all (\<lambda>r. row_order E r \<noteq> None) (map f rs) \<and>
    map (the \<circ> row_order E) (map f rs) = map g (map (the \<circ> row_order E) rs)"
  using assms(2) by (induction rs) (auto simp: assms(1))

text \<open>
  C38: updating the amount of a stored order keeps its whole part only: what is loaded at the
  next start is the order with the amount rounded down, whatever the fraction was, because the
  amount is spliced as a quotient of two integers that the database divides.
\<close>

theorem updateOrder_rounds_down:
  assumes "db_up E" and "db_int E" and "orders_readable E (db_tables s)" and "no_quote (o_order_id ord)"
    and "0 \<le> o_amount ord" and "in_i64 \<lfloor>o_amount ord\<rfloor>"
  shows "\<exists>os. fst (loadOrders E s) = Inr os \<and>
    fst (loadOrders E (snd (updateOrder E ord s))) =
      Inr (map (\<lambda>x. if o_order_id x = o_order_id ord
                    then x\<lparr>o_amount := of_int \<lfloor>o_amount ord\<rfloor>\<rparr> else x) os)"
proof -
  let ?f = "\<lambda>r. if or_orderid r = o_order_id ord
    then r\<lparr>or_amount := x_sql_text E (sql_fraction (o_amount ord))\<rparr> else r"
  let ?g = "\<lambda>x. if o_order_id x = o_order_id ord then x\<lparr>o_amount := of_int \<lfloor>o_amount ord\<rfloor>\<rparr> else x"
  have a: "fromDecimalString (x_sql_text E (sql_fraction (o_amount ord))) = Inr (of_int \<lfloor>o_amount ord\<rfloor>)"
    using assms(2,5,6) by (simp add: db_int_def sql_fraction_floor)
  have r: "row_order E (?f r) = Some (?g x)" if "row_order E r = Some x" for r x
    using that a by (auto simp: row_order_def new_Order_def split: sum.splits option.splits)
  have run: "updateOrder E ord s = (Inr (), tick s\<lparr>db_tables :=
      (db_tables s)\<lparr>t_myorders := map ?f (t_myorders (db_tables s))\<rparr>\<rparr>)"
    using assms(1,4) by (simp add: updateOrder_def prog_defs)
  from rows_mapped [where f = ?f and g = ?g, OF r assms(3) [unfolded orders_readable_def]]
  have ok: "orders_readable E ((db_tables s)\<lparr>t_myorders := map ?f (t_myorders (db_tables s))\<rparr>)"
    and "map (the \<circ> row_order E) (map ?f (t_myorders (db_tables s))) =
      map ?g (map (the \<circ> row_order E) (t_myorders (db_tables s)))"
    by (simp_all only: orders_readable_def) simp_all
  then show ?thesis
    using loadOrders_ok [OF assms(1,3)] loadOrders_ok [OF assms(1), of "snd (updateOrder E ord s)"] ok run
    by simp
qed

theorem updateOrder_rounds_down_witness:
  "fst (loadOrders demo (snd (updateOrder demo (demo_order ''x'' BID (5 / 2) 7)
      (snd (ZrDB_addOrder demo (demo_order ''x'' BID 3 7) demo_dbw))))) =
     Inr [new_Order True ''x'' BID 2 7 1 0 NEW]"
proof -
  let ?o = "demo_order ''x'' BID 3 7" and ?u = "demo_order ''x'' BID (5 / 2) 7"
  let ?s = "snd (ZrDB_addOrder demo ?o demo_dbw)"
  have c: "1 < INVALID (x_build demo)"
    by (simp add: INVALID_def demo_def enumerators_testnet_def)
  have n: "sql_number demo 3 = show_int 3" "sql_number demo 7 = show_int 7"
    by (simp_all add: sql_number_def demo_def)
  have rows: "t_myorders (db_tables ?s) = [\<lparr>or_orderid = ''x'', or_ordertype = 0,
      or_amount = show_int 3, or_price = show_int 7, or_currency = currencySymbols (x_build demo) ! 1,
      or_creationtime = 0, or_purpose = 0\<rparr>]"
    using ZrDB_addOrder_ok [OF demo_db_up, of ?o demo_dbw] c n
    by (simp add: demo_order_def new_Order_def no_quote_def demo_dbw_def demo_tables_def)
  have ro: "map (row_order demo) (t_myorders (db_tables ?s)) = [Some (new_Order True ''x'' BID 3 7 1 0 NEW)]"
    unfolding rows using symbol_index [OF c]
    by (simp add: row_order_def fromDecimalString_show_int in_i64_def OrderType_of_def Purpose_of_def)
  have rd: "orders_readable demo (db_tables ?s)"
    using ro by (auto simp: orders_readable_def list_all_iff map_eq_Cons_conv)
  have l: "fst (loadOrders demo ?s) = Inr [new_Order True ''x'' BID 3 7 1 0 NEW]"
    using ro by (auto simp: loadOrders_ok [OF demo_db_up rd] map_eq_Cons_conv)
  have f: "\<lfloor>o_amount ?u\<rfloor> = 2" "0 \<le> o_amount ?u" "no_quote (o_order_id ?u)"
    by (simp_all add: demo_order_def new_Order_def no_quote_def floor_eq_iff)
  from updateOrder_rounds_down [OF demo_db_up demo_db_int rd f(3,2)] f(1) l show ?thesis
    by (auto simp: in_i64_def demo_order_def new_Order_def)
qed

end
