(* ===== verification/CreditOps.thy ===== *)
theory CreditOps
  imports Store
begin

text \<open>
  \<^verbatim>\<open>src/Credit.cpp\<close>: the operations on a credit line with a friend. The object is a local
  variable of its callers: an operation returns the changed object with its result.
\<close>

definition getCreditList :: "ext \<Rightarrow> string \<Rightarrow> ('z dbw_scheme, Credit list) prog" where
  "getCreditList E cid = ZrDB_loadPeers E cid"

definition Credit_loadPeer :: "ext \<Rightarrow> Credit \<Rightarrow> ('z dbw_scheme, Credit) prog" where
  "Credit_loadPeer E c = ZrDB_loadPeer E c"

definition Credit_allocate :: "ext \<Rightarrow> ZR_Number \<Rightarrow> Credit \<Rightarrow> ('z dbw_scheme, RetVal \<times> Credit) prog" where
  "Credit_allocate E amount c =
     (if amount > getPeerAvailable c then ret (ZR_FAILURE, c)
      else let c' = c\<lparr>c_allocated := c_allocated c + amount\<rparr>
           in thn (updatePeerCredit E c' Col_allocation (c_allocated c')) (ret (ZR_SUCCESS, c')))"

definition Credit_deallocate :: "ext \<Rightarrow> ZR_Number \<Rightarrow> Credit \<Rightarrow> ('z dbw_scheme, Credit) prog" where
  "Credit_deallocate E amount c =
     (let c' = c\<lparr>c_allocated := c_allocated c - amount\<rparr>
      in thn (try_catch catch_exception (updatePeerCredit E c' Col_allocation (c_allocated c'))
           (\<lambda>e. placeMsg (''Exception caught: '' @ what_sliced e @ '' Cannot deallocate funds'')))
         (ret c'))"

definition Credit_updateCredit :: "ext \<Rightarrow> Credit \<Rightarrow> ('z dbw_scheme, unit) prog" where
  "Credit_updateCredit E c =
     try_catch catch_exception
       (thn (bnd (peerExists E c) (\<lambda>b. whn (\<not> b) (createPeerRecord E c)))
            (updatePeerCredit E c Col_credit (c_credit c)))
       (\<lambda>e. placeMsg (''Exception caught: '' @ what_sliced e @ '' Cannot update credit''))"

definition Credit_updateOurCredit :: "ext \<Rightarrow> Credit \<Rightarrow> ('z dbw_scheme, unit) prog" where
  "Credit_updateOurCredit E c =
     try_catch catch_exception
       (thn (bnd (peerExists E c) (\<lambda>b. whn (\<not> b) (createPeerRecord E c)))
            (updatePeerCredit E c Col_our_credit (c_our_credit c)))
       (\<lambda>e. placeMsg (what_sliced e))"

section \<open>Facts\<close>

text \<open>A credit object is current when it holds what the table holds.\<close>

definition current :: "'z dbw_scheme \<Rightarrow> Credit \<Rightarrow> bool" where
  "current s c \<longleftrightarrow> (case abs_peers (db_tables s) (c_id c, c_currency c) of None \<Rightarrow> False
     | Some a \<Rightarrow> load_account a c = c)"

abbreviation stored :: "ext \<Rightarrow> Credit \<Rightarrow> column \<Rightarrow> ZR_Number \<Rightarrow> 'z dbw_scheme \<Rightarrow> 'z dbw_scheme" where
  "stored E c col v s \<equiv> s\<lparr>db_stmts := Suc (db_stmts s),
     db_tables := updated_peers E (c_id c, c_currency c) col v (db_tables s)\<rparr>"

lemma Credit_allocate_ok:
  "db_up E \<Longrightarrow> key_ok c \<Longrightarrow> Credit_allocate E amount c s =
     (if amount \<le> getPeerAvailable c
      then (Inr (ZR_SUCCESS, c\<lparr>c_allocated := c_allocated c + amount\<rparr>),
            stored E c Col_allocation (c_allocated c + amount) s)
      else (Inr (ZR_FAILURE, c), s))"
  by (simp add: Credit_allocate_def prog_defs Let_def key_ok_def)

lemma Credit_deallocate_ok:
  "db_up E \<Longrightarrow> key_ok c \<Longrightarrow> Credit_deallocate E amount c s =
     (Inr (c\<lparr>c_allocated := c_allocated c - amount\<rparr>), stored E c Col_allocation (c_allocated c - amount) s)"
  by (simp add: Credit_deallocate_def prog_defs Let_def key_ok_def)

lemma load_account_self:
  "load_account a c = c \<longleftrightarrow> a = \<lparr>a_credit = c_credit c, a_our_credit = c_our_credit c,
     a_balance = c_balance c, a_allocation = c_allocated c\<rparr>"
  by (cases a; cases c) (auto simp: load_account_def)

lemma current_account:
  "current s c \<longleftrightarrow> abs_peers (db_tables s) (c_id c, c_currency c) = Some \<lparr>a_credit = c_credit c,
     a_our_credit = c_our_credit c, a_balance = c_balance c, a_allocation = c_allocated c\<rparr>"
  by (auto simp: current_def load_account_self split: option.splits)

text \<open>
  C11: allocating funds for a contract succeeds exactly when the amount is available on the
  friend's credit line. Then the amount is on record as allocated, the object and the record
  still agree, what is available has gone down by the amount and is not negative, and every
  other account is untouched; otherwise nothing changes.
\<close>

theorem allocate_sound:
  assumes "db_up E" and "key_ok c" and "peers_ok (db_tables s)" and "current s c"
    and "db_exact E (c_allocated c + amount)"
  shows "\<exists>r c' t. Credit_allocate E amount c s = (Inr (r, c'), t) \<and>
    (r = ZR_SUCCESS \<longleftrightarrow> amount \<le> getPeerAvailable c) \<and>
    (r = ZR_FAILURE \<longleftrightarrow> getPeerAvailable c < amount) \<and>
    (if r = ZR_SUCCESS then getPeerAvailable c' = getPeerAvailable c - amount \<and> 0 \<le> getPeerAvailable c'
     else c' = c \<and> t = s) \<and>
    peers_ok (db_tables t) \<and> current t c' \<and>
    (\<forall>k. k \<noteq> (c_id c, c_currency c) \<longrightarrow> abs_peers (db_tables t) k = abs_peers (db_tables s) k)"
proof (cases "amount \<le> getPeerAvailable c")
  case True
  then show ?thesis
    using assms(4) by (simp add: Credit_allocate_ok [OF assms(1,2)] current_account
        peers.load_store [OF assms(3,5)] peers.ok_store [OF assms(3,5)] getPeerAvailable_def)
next
  case False
  then show ?thesis using assms by (simp add: Credit_allocate_ok)
qed

definition demo_credit :: "string \<Rightarrow> int \<Rightarrow> int \<Rightarrow> int \<Rightarrow> int \<Rightarrow> Credit" where
  "demo_credit p cr our bal al = \<lparr>c_id = p, c_currency = ''GPM'', c_our_credit = of_int our,
     c_credit = of_int cr, c_balance = of_int bal, c_allocated = of_int al, c_fee = 0\<rparr>"

lemma demo_peer_ok:
  "in_i64 cr \<Longrightarrow> in_i64 our \<Longrightarrow> in_i64 bal \<Longrightarrow> in_i64 al \<Longrightarrow>
     peers_ok (db_tables (demo_peers [demo_peer p cr our bal al])) \<and>
     current (demo_peers [demo_peer p cr our bal al]) (demo_credit p cr our bal al)"
  by (simp add: peers_ok_def row_ok_account current_account demo_peers_def demo_tables_def
      demo_dbw_def abs_peers_def demo_peer_account demo_credit_def)

theorem allocate_sound_witness:
  "\<exists>c' t. Credit_allocate demo 3 (demo_credit ''bo'' 9 5 2 1) (demo_peers [demo_peer ''bo'' 9 5 2 1])
     = (Inr (ZR_SUCCESS, c'), t) \<and> getPeerAvailable c' = 3 \<and> current t c'"
proof -
  let ?c = "demo_credit ''bo'' 9 5 2 1" and ?s = "demo_peers [demo_peer ''bo'' 9 5 2 1]"
  have av: "getPeerAvailable ?c = 6" by (simp add: getPeerAvailable_def demo_credit_def)
  have k: "key_ok ?c" by (simp add: key_ok_def demo_credit_def no_quote_def)
  have e: "db_exact demo (c_allocated ?c + 3)"
    using demo_db_exact [of 4] by (simp add: demo_credit_def in_i64_def)
  have o: "peers_ok (db_tables ?s)" "current ?s ?c" using demo_peer_ok [of 9 5 2 1 "''bo''"] by (simp_all add: in_i64_def)
  from allocate_sound [OF demo_db_up k o e]
  obtain r c' t where "Credit_allocate demo 3 ?c ?s = (Inr (r, c'), t)" "r = ZR_SUCCESS"
    "getPeerAvailable c' = getPeerAvailable ?c - 3" "current t c'"
    using av by (auto split: if_splits)
  with av show ?thesis by auto
qed

lemma updatePeerCredit_try:
  "db_up E \<Longrightarrow> key_ok c \<Longrightarrow> try_catch q (updatePeerCredit E c col v) h s = (Inr (), stored E c col v s)"
  by (simp add: try_catch_def updatePeerCredit_ok)

lemma store_on_demand:
  assumes up: "db_up E" and k: "key_ok c" and z: "db_zero E" and ok: "peers_ok (db_tables s)"
    and v: "db_exact E v"
  shows "\<exists>t. thn (bnd (peerExists E c) (\<lambda>b. whn (\<not> b) (createPeerRecord E c)))
            (updatePeerCredit E c col v) s = (Inr (), t) \<and> peers_ok (db_tables t) \<and> w_messages t = w_messages s \<and>
    abs_peers (db_tables t) = (abs_peers (db_tables s))((c_id c, c_currency c) \<mapsto> set_account col v
      (case abs_peers (db_tables s) (c_id c, c_currency c) of None \<Rightarrow> empty_account | Some a \<Rightarrow> a))"
proof -
  let ?k = "(c_id c, c_currency c)"
  have ex: "peerExists E c s = (Inr (abs_peers (db_tables s) ?k \<noteq> None), tick s)"
    by (rule peerExists_abs [OF up k ok])
  have v': "db_value E v = Inr v" using v by (simp add: db_exact_def)
  show ?thesis
  proof (cases "abs_peers (db_tables s) ?k")
    case (Some a)
    then show ?thesis
      using up k ex by (simp add: thn_def bnd_def whn_def ret_def updatePeerCredit_ok
          peers_ok_updated [OF ok v'] abs_peers_updated [OF ok v'])
  next
    case None
    have ok': "peers_ok (db_tables (tick s))" "abs_peers (db_tables (tick s)) ?k = None"
      using ok None by simp_all
    from createPeerRecord_abs [OF up k z ok'] obtain t where
      c: "createPeerRecord E c (tick s) = (Inr (), s\<lparr>db_stmts := Suc (Suc (db_stmts s)), db_tables := t\<rparr>)"
      and t: "peers_ok t" "abs_peers t = (abs_peers (db_tables s))(?k \<mapsto> empty_account)" by auto
    show ?thesis
      using None up k ex c by (simp add: thn_def bnd_def whn_def ret_def updatePeerCredit_ok
          peers_ok_updated [OF t(1) v'] abs_peers_updated [OF t(1) v'] t(2))
  qed
qed

text \<open>
  Granting a credit line, and recording the one a friend grants us, create the record of
  the friend and currency when there is none and store the number, leaving the other numbers
  and accounts as they were; nothing is reported.
\<close>

theorem credit_lines_stored:
  assumes "db_up E" and "key_ok c" and "db_zero E" and "peers_ok (db_tables s)"
    and "db_exact E (c_credit c)" and "db_exact E (c_our_credit c)"
  shows "\<exists>t u. Credit_updateCredit E c s = (Inr (), t) \<and> Credit_updateOurCredit E c t = (Inr (), u) \<and>
    peers_ok (db_tables u) \<and> w_messages u = w_messages s \<and>
    abs_peers (db_tables u) = (abs_peers (db_tables s))((c_id c, c_currency c) \<mapsto>
      (case abs_peers (db_tables s) (c_id c, c_currency c) of None \<Rightarrow> empty_account | Some a \<Rightarrow> a)
        \<lparr>a_credit := c_credit c, a_our_credit := c_our_credit c\<rparr>)"
proof -
  from store_on_demand [OF assms(1-5), of Col_credit] obtain t where
    t: "Credit_updateCredit E c s = (Inr (), t)" "peers_ok (db_tables t)" "w_messages t = w_messages s"
      "abs_peers (db_tables t) = (abs_peers (db_tables s))((c_id c, c_currency c) \<mapsto>
        (case abs_peers (db_tables s) (c_id c, c_currency c) of None \<Rightarrow> empty_account | Some a \<Rightarrow> a)
          \<lparr>a_credit := c_credit c\<rparr>)"
    by (auto simp: Credit_updateCredit_def try_catch_def)
  from store_on_demand [OF assms(1-3) t(2) assms(6), of Col_our_credit] t(3,4) obtain u where
    "Credit_updateOurCredit E c t = (Inr (), u)" "peers_ok (db_tables u)" "w_messages u = w_messages s"
    "abs_peers (db_tables u) = (abs_peers (db_tables s))((c_id c, c_currency c) \<mapsto>
        (case abs_peers (db_tables s) (c_id c, c_currency c) of None \<Rightarrow> empty_account | Some a \<Rightarrow> a)
          \<lparr>a_credit := c_credit c, a_our_credit := c_our_credit c\<rparr>)"
    by (auto simp: Credit_updateOurCredit_def try_catch_def)
  with t(1) show ?thesis by blast
qed

theorem credit_lines_stored_witness:
  "\<exists>t u. Credit_updateCredit demo (demo_credit ''bo'' 9 5 0 0) demo_dbw = (Inr (), t) \<and>
     Credit_updateOurCredit demo (demo_credit ''bo'' 9 5 0 0) t = (Inr (), u) \<and>
     abs_peers (db_tables u) (''bo'', ''GPM'') =
       Some \<lparr>a_credit = 9, a_our_credit = 5, a_balance = 0, a_allocation = 0\<rparr>"
proof -
  let ?c = "demo_credit ''bo'' 9 5 0 0"
  have "key_ok ?c" by (simp add: key_ok_def demo_credit_def no_quote_def)
  moreover have "db_exact demo (c_credit ?c)" "db_exact demo (c_our_credit ?c)"
    using demo_db_exact [of 9] demo_db_exact [of 5] by (simp_all add: demo_credit_def in_i64_def)
  moreover have "peers_ok (db_tables demo_dbw)" "abs_peers (db_tables demo_dbw) (''bo'', ''GPM'') = None"
    by (simp_all add: demo_dbw_def demo_tables_def peers_ok_def abs_peers_def)
  ultimately show ?thesis
    using credit_lines_stored [OF demo_db_up, of ?c demo_dbw] demo_db_zero
    by (auto simp: demo_credit_def empty_account_def)
qed

end
