(* ===== verification/Payments.thy ===== *)
theory Payments
  imports CreditOps
begin

text \<open>
  \<^verbatim>\<open>src/Payment.h\<close> and \<^verbatim>\<open>src/Payment.cpp\<close>: a payment holds the credit line it settles on, an
  amount and a category. The two subclasses are told apart by a tag, and a virtual call is a
  dispatch on it. A payment is not used again after its commit, so the commit returns its code
  only. The view is the list of the payment history, absent until the window exists.
\<close>

section \<open>Requests\<close>

record Request =
  rq_Amount :: ZR_Number
  rq_Currency :: CurrencySymbol

definition Request_isValid :: "ext \<Rightarrow> Request \<Rightarrow> bool" where
  "Request_isValid E r \<longleftrightarrow> rq_Currency r \<noteq> INVALID (x_build E)"

type_synonym Requests = "VirtualAddress \<rightharpoonup> Request"

text \<open>\<^verbatim>\<open>std::map::insert\<close> keeps an entry that is there.\<close>

definition Payment_addRequest :: "VirtualAddress \<Rightarrow> Request \<Rightarrow> Requests \<Rightarrow> Requests" where
  "Payment_addRequest addr req m = (if m addr = None then m(addr \<mapsto> req) else m)"

definition Payment_getRequest :: "ext \<Rightarrow> Requests \<Rightarrow> VirtualAddress \<Rightarrow> Request" where
  "Payment_getRequest E m addr =
     (case m addr of None \<Rightarrow> \<lparr>rq_Amount = 0, rq_Currency = INVALID (x_build E)\<rparr> | Some r \<Rightarrow> r)"

section \<open>Payments\<close>

datatype Payment_class = Receiver | Spender

datatype Category = PAYMENT | DEBT_CANCEL | BITCOIN_CONTRACT | Category_other nat

fun Category_code :: "Category \<Rightarrow> nat" where
  "Category_code PAYMENT = 0"
| "Category_code DEBT_CANCEL = 1"
| "Category_code BITCOIN_CONTRACT = 2"
| "Category_code (Category_other n) = n"

definition Category_of :: "nat \<Rightarrow> Category" where
  "Category_of n = (if n = 0 then PAYMENT else if n = 1 then DEBT_CANCEL
     else if n = 2 then BITCOIN_CONTRACT else Category_other n)"

record Payment =
  p_class :: Payment_class
  p_credit :: Credit
  p_amount :: ZR_Number
  p_category :: Category
  p_referrer :: VirtualAddress

record payw = dbw +
  w_txLogView :: "(int \<times> string) list option"

definition new_Payment :: "ext \<Rightarrow> Payment_class \<Rightarrow> PeerAddress \<Rightarrow> ZR_Number \<Rightarrow> string \<Rightarrow> Category
    \<Rightarrow> ('z payw_scheme, Payment) prog" where
  "new_Payment E cls counterparty amount currency category =
     bnd (new_Credit E counterparty currency) (\<lambda>c.
     bnd (ZrDB_loadPeer E c) (\<lambda>c'.
       ret \<lparr>p_class = cls, p_credit = c', p_amount = amount, p_category = category, p_referrer = []\<rparr>))"

definition Payment_setCounterparty :: "ext \<Rightarrow> PeerAddress \<Rightarrow> Payment \<Rightarrow> ('z payw_scheme, Payment) prog" where
  "Payment_setCounterparty E counterparty p =
     bnd (ZrDB_loadPeer E ((p_credit p)\<lparr>c_id := counterparty\<rparr>)) (\<lambda>c. ret (p\<lparr>p_credit := c\<rparr>))"

definition PaymentReceiver_newBalance :: "Payment \<Rightarrow> ZR_Number" where
  "PaymentReceiver_newBalance p = c_balance (p_credit p) + p_amount p"

definition PaymentReceiver_init :: "Payment \<Rightarrow> RetVal" where
  "PaymentReceiver_init p =
     (case p_category p of
        PAYMENT \<Rightarrow> if getPeerAvailable (p_credit p) < p_amount p then ZR_FAILURE else ZR_SUCCESS
      | _ \<Rightarrow> ZR_FAILURE)"

definition log_view :: "ext \<Rightarrow> string \<Rightarrow> ZR_Number \<Rightarrow> string \<Rightarrow> ('z payw_scheme, unit) prog" where
  "log_view E currency amount sgn_text =
     modify (\<lambda>w. w\<lparr>w_txLogView := map_option
       (\<lambda>v. (w_now w, '' : '' @ currency @ '' : '' @ sgn_text @ toDecimalStdString E amount) # v) (w_txLogView w)\<rparr>)"

definition PaymentReceiver_commit :: "ext \<Rightarrow> Payment \<Rightarrow> ('z payw_scheme, RetVal) prog" where
  "PaymentReceiver_commit E p =
     try_catch catch_exception
       (bnd (ZrDB_loadPeer E (p_credit p)) (\<lambda>c.
        let c' = c\<lparr>c_balance := PaymentReceiver_newBalance (p\<lparr>p_credit := c\<rparr>)\<rparr> in
        thn (updatePeerCredit E c' Col_balance (c_balance c'))
        (thn (appendTx E (c_id c') (c_currency c') (p_amount p))
        (thn (log_view E (c_currency c') (p_amount p) ''+'')
             (ret (case p_category p of PAYMENT \<Rightarrow> ZR_SUCCESS | _ \<Rightarrow> ZR_FAILURE))))))
       (\<lambda>e. thn (placeMsg (''commit: Exception caught: '' @ what_sliced e)) (ret ZR_FAILURE))"

definition PaymentSpender_newBalance :: "Payment \<Rightarrow> ZR_Number" where
  "PaymentSpender_newBalance p = c_balance (p_credit p) - p_amount p"

definition PaymentSpender_init :: "Payment \<Rightarrow> RetVal" where
  "PaymentSpender_init p =
     (if getMyAvailable (p_credit p) < p_amount p then ZR_FAILURE else ZR_SUCCESS)"

definition PaymentSpender_commit :: "ext \<Rightarrow> Payment \<Rightarrow> ('z payw_scheme, RetVal) prog" where
  "PaymentSpender_commit E p =
     try_catch catch_exception
       (bnd (ZrDB_loadPeer E (p_credit p)) (\<lambda>c.
        let c' = c\<lparr>c_balance := PaymentSpender_newBalance (p\<lparr>p_credit := c\<rparr>)\<rparr> in
        thn (updatePeerCredit E c' Col_balance (c_balance c'))
        (thn (appendTx E (c_id c') (c_currency c') (- p_amount p))
        (thn (log_view E (c_currency c') (p_amount p) ''-'')
             (ret (case p_category p of PAYMENT \<Rightarrow> ZR_SUCCESS | _ \<Rightarrow> ZR_FAILURE))))))
       (\<lambda>e. thn (placeMsg (''commit: Exception caught: '' @ what_sliced e)) (ret ZR_FAILURE))"

text \<open>The virtual calls.\<close>

definition Payment_newBalance :: "Payment \<Rightarrow> ZR_Number" where
  "Payment_newBalance p = (case p_class p of Receiver \<Rightarrow> PaymentReceiver_newBalance p
     | Spender \<Rightarrow> PaymentSpender_newBalance p)"

definition Payment_init :: "Payment \<Rightarrow> RetVal" where
  "Payment_init p = (case p_class p of Receiver \<Rightarrow> PaymentReceiver_init p
     | Spender \<Rightarrow> PaymentSpender_init p)"

definition Payment_commit :: "ext \<Rightarrow> Payment \<Rightarrow> ('z payw_scheme, RetVal) prog" where
  "Payment_commit E p = (case p_class p of Receiver \<Rightarrow> PaymentReceiver_commit E p
     | Spender \<Rightarrow> PaymentSpender_commit E p)"

section \<open>The contract of a payment\<close>

text \<open>
  A payment moves the balance by a signed amount; what is available on its side of the credit
  line shrinks by the amount paid; a payment is only accepted when it is available. Then the
  credit line is respected after the commit.
\<close>

locale payment_side =
  fixes avail :: "Credit \<Rightarrow> ZR_Number"
    and delta :: "ZR_Number \<Rightarrow> ZR_Number"
    and newBalance :: "Payment \<Rightarrow> ZR_Number"
    and init :: "Payment \<Rightarrow> RetVal"
  assumes newBalance_delta: "newBalance p = c_balance (p_credit p) + delta (p_amount p)"
    and avail_delta: "avail (c\<lparr>c_balance := c_balance c + delta a\<rparr>) = avail c - a"
    and init_avail: "init p = ZR_SUCCESS \<Longrightarrow> p_amount p \<le> avail (p_credit p)"
begin

lemma line_kept:
  "init p = ZR_SUCCESS \<Longrightarrow> 0 \<le> avail ((p_credit p)\<lparr>c_balance := newBalance p\<rparr>)"
  by (simp add: newBalance_delta avail_delta init_avail)

lemma back_and_forth: "avail (c\<lparr>c_balance := c_balance c + delta a + delta b\<rparr>) = avail c - a - b"
  using avail_delta [of "c\<lparr>c_balance := c_balance c + delta a\<rparr>" b] by (simp add: avail_delta)

end

interpretation receiver: payment_side getPeerAvailable "\<lambda>a. a" PaymentReceiver_newBalance PaymentReceiver_init
  by unfold_locales
    (auto simp: getPeerAvailable_def PaymentReceiver_newBalance_def PaymentReceiver_init_def
      split: Category.splits if_splits)

interpretation spender: payment_side getMyAvailable "\<lambda>a. - a" PaymentSpender_newBalance PaymentSpender_init
  by unfold_locales
    (auto simp: getMyAvailable_def PaymentSpender_newBalance_def PaymentSpender_init_def split: if_splits)

definition Payment_delta :: "Payment \<Rightarrow> ZR_Number" where
  "Payment_delta p = (case p_class p of Receiver \<Rightarrow> p_amount p | Spender \<Rightarrow> - p_amount p)"

definition Payment_key :: "Payment \<Rightarrow> string \<times> string" where
  "Payment_key p = (c_id (p_credit p), c_currency (p_credit p))"

section \<open>Commits\<close>

lemma load_account_fields [simp]:
  "c_id (load_account a c) = c_id c" "c_currency (load_account a c) = c_currency c"
  "c_balance (load_account a c) = a_balance a"
  by (simp_all add: load_account_def)

lemma key_ok_load [simp]: "key_ok (load_account a c) = key_ok c" "key_ok (c\<lparr>c_balance := b\<rparr>) = key_ok c"
  by (simp_all add: key_ok_def)

definition after_commit :: "ext \<Rightarrow> Payment \<Rightarrow> 'z payw_scheme \<Rightarrow> 'z payw_scheme" where
  "after_commit E p s = s\<lparr>db_stmts := Suc (Suc (Suc (db_stmts s))),
     db_tables := peers.transfer E (Payment_key p) (Payment_delta p) (db_tables s),
     db_txlog := db_txlog s @ [\<lparr>tl_uid = fst (Payment_key p), tl_currency = snd (Payment_key p),
       tl_amount = sql_number E (Payment_delta p), tl_txtime = w_now s div 1000\<rparr>],
     w_txLogView := map_option (\<lambda>v. (w_now s, '' : '' @ snd (Payment_key p) @ '' : '' @
       (case p_class p of Receiver \<Rightarrow> ''+'' | Spender \<Rightarrow> ''-'') @ toDecimalStdString E (p_amount p)) # v) (w_txLogView s)\<rparr>"

lemma Payment_commit_run:
  assumes up: "db_up E" and k: "key_ok (p_credit p)" and ok: "peers_ok (db_tables s)"
    and a: "abs_peers (db_tables s) (Payment_key p) = Some a"
  shows "Payment_commit E p s =
    (Inr (case p_category p of PAYMENT \<Rightarrow> ZR_SUCCESS | _ \<Rightarrow> ZR_FAILURE), after_commit E p s)"
proof -
  have q: "no_quote (c_id (p_credit p))" "no_quote (c_currency (p_credit p))"
    using k by (simp_all add: key_ok_def)
  note run = ZrDB_loadPeer_abs [OF up k ok] a [unfolded Payment_key_def]
  show ?thesis
    using up k q run
    by (cases "p_class p")
      (simp_all add: Payment_commit_def PaymentReceiver_commit_def PaymentSpender_commit_def
        try_catch_def bnd_def thn_def updatePeerCredit_ok appendTx_ok log_view_def modify_def ret_def Let_def
        peers.transfer_def Payment_delta_def Payment_key_def PaymentReceiver_newBalance_def
        PaymentSpender_newBalance_def after_commit_def)
qed

lemma Payment_commit_ok:
  assumes up: "db_up E" and k: "key_ok (p_credit p)" and ok: "peers_ok (db_tables s)"
    and a: "abs_peers (db_tables s) (Payment_key p) = Some a"
  shows "\<exists>t. Payment_commit E p s = (Inr (case p_category p of PAYMENT \<Rightarrow> ZR_SUCCESS | _ \<Rightarrow> ZR_FAILURE), t) \<and>
    db_tables t = peers.transfer E (Payment_key p) (Payment_delta p) (db_tables s) \<and>
    db_saved t = db_saved s \<and> w_messages t = w_messages s \<and>
    map (\<lambda>r. (tl_uid r, tl_currency r, tl_amount r)) (db_txlog t) =
      map (\<lambda>r. (tl_uid r, tl_currency r, tl_amount r)) (db_txlog s) @
        [(fst (Payment_key p), snd (Payment_key p), sql_number E (Payment_delta p))]"
  using Payment_commit_run [OF assms] by (simp add: after_commit_def)

lemma transfer_peers:
  assumes "peers_ok t" and "\<forall>a. abs_peers t k = Some a \<longrightarrow> db_exact E (a_balance a + d)"
  shows "peers_ok (peers.transfer E k d t)"
    and "abs_peers (peers.transfer E k d t) k' = (if k' = k
      then map_option (\<lambda>a. a\<lparr>a_balance := a_balance a + d\<rparr>) (abs_peers t k) else abs_peers t k')"
  using peers.transfer_load [where E = E, OF assms] by simp_all

text \<open>
  C18: a payment that was accepted on the line as it is recorded leaves the line respected once
  committed: the payer's friend never owes us more than the credit we granted less what is
  allocated to contracts, and we never owe more than the credit we were granted.
\<close>

theorem accepted_payment_keeps_line:
  assumes "db_up E" and "key_ok (p_credit p)" and "peers_ok (db_tables s)"
    and "current s (p_credit p)" and "db_exact E (Payment_newBalance p)"
    and "Payment_init p = ZR_SUCCESS"
  shows "\<exists>r t a. Payment_commit E p s = (Inr r, t) \<and> abs_peers (db_tables t) (Payment_key p) = Some a \<and>
    a_balance a = Payment_newBalance p \<and>
    (case p_class p of Receiver \<Rightarrow> 0 \<le> a_credit a - a_balance a - a_allocation a
     | Spender \<Rightarrow> 0 \<le> a_our_credit a + a_balance a)"
proof -
  let ?c = "p_credit p"
  let ?a = "\<lparr>a_credit = c_credit ?c, a_our_credit = c_our_credit ?c, a_balance = c_balance ?c,
    a_allocation = c_allocated ?c\<rparr>"
  have a: "abs_peers (db_tables s) (Payment_key p) = Some ?a"
    using assms(4) by (simp add: current_account Payment_key_def)
  have nb: "c_balance ?c + Payment_delta p = Payment_newBalance p"
    by (cases "p_class p") (simp_all add: Payment_delta_def Payment_newBalance_def
        receiver.newBalance_delta spender.newBalance_delta)
  obtain r t where t: "Payment_commit E p s = (Inr r, t)"
    "db_tables t = peers.transfer E (Payment_key p) (Payment_delta p) (db_tables s)"
    using Payment_commit_ok [OF assms(1-3) a] by auto
  have e: "\<forall>a. abs_peers (db_tables s) (Payment_key p) = Some a \<longrightarrow> db_exact E (a_balance a + Payment_delta p)"
    using a nb assms(5) by simp
  have ab: "abs_peers (db_tables t) (Payment_key p) = Some (?a\<lparr>a_balance := Payment_newBalance p\<rparr>)"
    using transfer_peers(2) [OF assms(3) e] a nb by (simp add: t(2))
  show ?thesis
  proof (cases "p_class p")
    case Receiver
    with assms(6) receiver.line_kept [of p] show ?thesis
      using t(1) ab by (simp add: Payment_init_def Payment_newBalance_def getPeerAvailable_def)
  next
    case Spender
    with assms(6) spender.line_kept [of p] show ?thesis
      using t(1) ab by (simp add: Payment_init_def Payment_newBalance_def getMyAvailable_def)
  qed
qed

definition demo_payment :: "Payment_class \<Rightarrow> ZR_Number \<Rightarrow> Credit \<Rightarrow> Payment" where
  "demo_payment cls a c = \<lparr>p_class = cls, p_credit = c, p_amount = a, p_category = PAYMENT, p_referrer = []\<rparr>"

definition demo_payw :: "peer_row list \<Rightarrow> payw" where
  "demo_payw rs = dbw.extend (demo_peers rs) \<lparr>w_txLogView = None\<rparr>"

lemma demo_payw_tables [simp]: "db_tables (demo_payw rs) = demo_tables\<lparr>t_peers := rs\<rparr>"
  by (simp add: demo_payw_def demo_peers_def dbw.defs demo_dbw_def)

lemma demo_payw_ok:
  assumes "in_i64 cr" "in_i64 our" "in_i64 bal" "in_i64 al"
  shows "peers_ok (db_tables (demo_payw [demo_peer p cr our bal al])) \<and>
     current (demo_payw [demo_peer p cr our bal al]) (demo_credit p cr our bal al)"
  using assms by (simp add: peers_ok_def row_ok_account current_account abs_peers_def
      demo_peer_account demo_credit_def)

theorem accepted_payment_keeps_line_witness:
  "\<exists>r t a. Payment_commit demo (demo_payment Spender 4 (demo_credit ''bo'' 9 5 (- 1) 0))
       (demo_payw [demo_peer ''bo'' 9 5 (- 1) 0]) = (Inr r, t) \<and>
     abs_peers (db_tables t) (''bo'', ''GPM'') = Some a \<and> a_balance a = - 5 \<and> a_our_credit a + a_balance a \<ge> 0"
proof -
  let ?c = "demo_credit ''bo'' 9 5 (- 1) 0" and ?s = "demo_payw [demo_peer ''bo'' 9 5 (- 1) 0]"
  let ?p = "demo_payment Spender 4 ?c"
  have k: "key_ok (p_credit ?p)" by (simp add: key_ok_def demo_credit_def no_quote_def demo_payment_def)
  have o: "peers_ok (db_tables ?s)" "current ?s (p_credit ?p)"
    using demo_payw_ok [of 9 5 "- 1" 0 "''bo''"] by (simp_all add: in_i64_def demo_payment_def)
  have nb: "Payment_newBalance ?p = - 5"
    by (simp add: Payment_newBalance_def PaymentSpender_newBalance_def demo_payment_def demo_credit_def)
  then have e: "db_exact demo (Payment_newBalance ?p)"
    using demo_db_exact [of "- 5"] by (simp add: in_i64_def)
  have i: "Payment_init ?p = ZR_SUCCESS"
    by (simp add: Payment_init_def PaymentSpender_init_def getMyAvailable_def demo_payment_def demo_credit_def)
  from accepted_payment_keeps_line [OF demo_db_up k o e i] nb show ?thesis
    by (simp add: Payment_key_def demo_payment_def demo_credit_def)
qed

section \<open>Series of commits\<close>

definition run_commits :: "ext \<Rightarrow> Payment list \<Rightarrow> 'z payw_scheme \<Rightarrow> 'z payw_scheme" where
  "run_commits E = fold (\<lambda>p s. snd (Payment_commit E p s))"

definition moves :: "Payment list \<Rightarrow> ((string \<times> string) \<times> ZR_Number) list" where
  "moves = map (\<lambda>p. (Payment_key p, Payment_delta p))"

lemma run_commits_settle:
  assumes "db_up E" and "peers_ok (db_tables s)"
    and "\<forall>p\<in>set ps. key_ok (p_credit p) \<and> abs_peers (db_tables s) (Payment_key p) \<noteq> None"
    and "peers.exact_run E (moves ps) (db_tables s)"
  shows "db_tables (run_commits E ps s) = peers.settle E (moves ps) (db_tables s)"
  using assms(2-)
proof (induction ps arbitrary: s)
  case Nil
  then show ?case by (simp add: run_commits_def peers.settle_def moves_def)
next
  case (Cons p ps)
  then obtain a where k: "key_ok (p_credit p)" and a: "abs_peers (db_tables s) (Payment_key p) = Some a"
    by auto
  obtain t where t: "snd (Payment_commit E p s) = t"
    "db_tables t = peers.transfer E (Payment_key p) (Payment_delta p) (db_tables s)"
    using Payment_commit_ok [OF assms(1) k Cons.prems(1) a] by auto
  have e: "\<forall>a. abs_peers (db_tables s) (Payment_key p) = Some a \<longrightarrow> db_exact E (a_balance a + Payment_delta p)"
    using Cons.prems(3) by (simp add: moves_def)
  note tp = transfer_peers [OF Cons.prems(1) e]
  have "peers_ok (db_tables t)"
    and "\<forall>q\<in>set ps. key_ok (p_credit q) \<and> abs_peers (db_tables t) (Payment_key q) \<noteq> None"
    and "peers.exact_run E (moves ps) (db_tables t)"
    using tp(1) Cons.prems a by (auto simp: t(2) tp(2) moves_def)
  from Cons.IH [OF this] show ?case
    using t by (simp add: run_commits_def peers.settle_def moves_def)
qed

text \<open>
  After any series of commits on recorded lines, each balance is its old value plus what
  was received minus what was spent on that line; a payment passed on, received on one line
  and spent on another, therefore moves the two balances by the same amount in opposite
  directions.
\<close>

theorem commits_settle:
  assumes "db_up E" and "peers_ok (db_tables s)"
    and "\<forall>p\<in>set ps. key_ok (p_credit p) \<and> abs_peers (db_tables s) (Payment_key p) \<noteq> None"
    and "peers.exact_run E (moves ps) (db_tables s)"
  shows "map_option a_balance (abs_peers (db_tables (run_commits E ps s)) k) =
    map_option (\<lambda>a. a_balance a + (\<Sum>p\<leftarrow>filter (\<lambda>p. Payment_key p = k) ps. Payment_delta p))
      (abs_peers (db_tables s) k)"
proof -
  have f: "map snd (filter (\<lambda>x. fst x = k) (moves ps)) =
      map Payment_delta (filter (\<lambda>p. Payment_key p = k) ps)"
    by (simp add: moves_def filter_map comp_def)
  show ?thesis
    using peers.settle_balance [where E = E, OF assms(2,4), of k]
    by (simp add: run_commits_settle [OF assms] f peers.balance_def option.map_comp comp_def)
qed

lemma demo_two_peers:
  assumes "in_i64 b" "in_i64 d"
  shows "peers_ok (db_tables (demo_payw [demo_peer ''al'' 9 5 b 0, demo_peer ''bo'' 9 5 d 0])) \<and>
    abs_peers (db_tables (demo_payw [demo_peer ''al'' 9 5 b 0, demo_peer ''bo'' 9 5 d 0])) (''al'', ''GPM'') =
      Some \<lparr>a_credit = 9, a_our_credit = 5, a_balance = of_int b, a_allocation = 0\<rparr> \<and>
    abs_peers (db_tables (demo_payw [demo_peer ''al'' 9 5 b 0, demo_peer ''bo'' 9 5 d 0])) (''bo'', ''GPM'') =
      Some \<lparr>a_credit = 9, a_our_credit = 5, a_balance = of_int d, a_allocation = 0\<rparr>"
  using assms demo_peer_account [of 9 5 b 0] demo_peer_account [of 9 5 d 0]
  by (simp add: peers_ok_def row_ok_account abs_peers_def in_i64_def)

theorem commits_settle_witness:
  "map_option a_balance (abs_peers (db_tables (run_commits demo
       [demo_payment Receiver 3 (demo_credit ''al'' 9 5 1 0), demo_payment Spender 3 (demo_credit ''bo'' 9 5 2 0)]
       (demo_payw [demo_peer ''al'' 9 5 1 0, demo_peer ''bo'' 9 5 2 0]))) (''bo'', ''GPM'')) = Some (- 1)"
proof -
  let ?s = "demo_payw [demo_peer ''al'' 9 5 1 0, demo_peer ''bo'' 9 5 2 0]"
  let ?p = "demo_payment Receiver 3 (demo_credit ''al'' 9 5 1 0)"
  let ?q = "demo_payment Spender 3 (demo_credit ''bo'' 9 5 2 0)"
  have two: "peers_ok (db_tables ?s)"
    "abs_peers (db_tables ?s) (''al'', ''GPM'') = Some \<lparr>a_credit = 9, a_our_credit = 5, a_balance = 1, a_allocation = 0\<rparr>"
    "abs_peers (db_tables ?s) (''bo'', ''GPM'') = Some \<lparr>a_credit = 9, a_our_credit = 5, a_balance = 2, a_allocation = 0\<rparr>"
    using demo_two_peers [of 1 2] by (simp_all add: in_i64_def)
  have m: "moves [?p, ?q] = [((''al'', ''GPM''), 3), ((''bo'', ''GPM''), - 3)]"
    by (simp add: moves_def Payment_key_def Payment_delta_def demo_payment_def demo_credit_def)
  have e4: "db_exact demo 4" using demo_db_exact [of 4] by (simp add: in_i64_def)
  have e1: "db_exact demo (- 1)" using demo_db_exact [of "- 1"] by (simp add: in_i64_def)
  have e: "\<forall>a. abs_peers (db_tables ?s) (''al'', ''GPM'') = Some a \<longrightarrow> db_exact demo (a_balance a + 3)"
    using two e4 by simp
  note tp = transfer_peers [OF two(1) e]
  have x: "peers.exact_run demo (moves [?p, ?q]) (db_tables ?s)"
    unfolding m using two e4 e1 tp(2) [of "(''bo'', ''GPM'')"] by simp
  have k: "\<forall>p\<in>set [?p, ?q]. key_ok (p_credit p) \<and> abs_peers (db_tables ?s) (Payment_key p) \<noteq> None"
    using two by (simp add: key_ok_def no_quote_def Payment_key_def demo_payment_def demo_credit_def)
  show ?thesis
    using commits_settle [OF demo_db_up two(1) k x, of "(''bo'', ''GPM'')"] two
    by (simp add: Payment_key_def Payment_delta_def demo_payment_def demo_credit_def)
qed

text \<open>
  Nothing checks the sign of a received amount: a payment of a non-positive amount is
  accepted by the receiving side whenever the line is not overdrawn, and its commit lowers our
  balance with the friend by that amount, whatever credit the friend granted us.
\<close>

theorem negative_payment_accepted:
  assumes "db_up E" and "key_ok c" and "peers_ok (db_tables s)" and "current s c"
    and "0 \<le> getPeerAvailable c" and "a \<le> 0" and "db_exact E (c_balance c + a)"
  shows "Payment_init \<lparr>p_class = Receiver, p_credit = c, p_amount = a, p_category = PAYMENT, p_referrer = r\<rparr> = ZR_SUCCESS \<and>
    (\<exists>t. Payment_commit E \<lparr>p_class = Receiver, p_credit = c, p_amount = a, p_category = PAYMENT, p_referrer = r\<rparr> s
        = (Inr ZR_SUCCESS, t) \<and>
      map_option a_balance (abs_peers (db_tables t) (c_id c, c_currency c)) = Some (c_balance c + a))"
proof
  let ?p = "\<lparr>p_class = Receiver, p_credit = c, p_amount = a, p_category = PAYMENT, p_referrer = r\<rparr>"
  show "Payment_init ?p = ZR_SUCCESS"
    using assms(5,6) by (simp add: Payment_init_def PaymentReceiver_init_def)
  have ab: "abs_peers (db_tables s) (Payment_key ?p) = Some \<lparr>a_credit = c_credit c,
     a_our_credit = c_our_credit c, a_balance = c_balance c, a_allocation = c_allocated c\<rparr>"
    using assms(4) by (simp add: current_account Payment_key_def)
  have k: "key_ok (p_credit ?p)" using assms(2) by simp
  have e: "\<forall>x. abs_peers (db_tables s) (Payment_key ?p) = Some x \<longrightarrow> db_exact E (a_balance x + Payment_delta ?p)"
    using ab assms(7) by (simp add: Payment_delta_def)
  show "\<exists>t. Payment_commit E ?p s = (Inr ZR_SUCCESS, t) \<and>
      map_option a_balance (abs_peers (db_tables t) (c_id c, c_currency c)) = Some (c_balance c + a)"
    using Payment_commit_ok [OF assms(1) k assms(3) ab] transfer_peers(2) [OF assms(3) e, of "Payment_key ?p"] ab
    by (auto simp: Payment_key_def Payment_delta_def)
qed

theorem negative_payment_accepted_witness:
  "Payment_init \<lparr>p_class = Receiver, p_credit = demo_credit ''bo'' 0 0 0 0, p_amount = - 9,
     p_category = PAYMENT, p_referrer = []\<rparr> = ZR_SUCCESS"
proof -
  let ?c = "demo_credit ''bo'' 0 0 0 0" and ?s = "demo_payw [demo_peer ''bo'' 0 0 0 0]"
  have k: "key_ok ?c" by (simp add: key_ok_def demo_credit_def no_quote_def)
  have o: "peers_ok (db_tables ?s)" "current ?s ?c"
    using demo_payw_ok [of 0 0 0 0 "''bo''"] by (simp_all add: in_i64_def)
  have e: "db_exact demo (c_balance ?c + - 9)"
    using demo_db_exact [of "- 9"] by (simp add: in_i64_def demo_credit_def)
  have av: "0 \<le> getPeerAvailable ?c" by (simp add: getPeerAvailable_def demo_credit_def)
  from negative_payment_accepted [OF demo_db_up k o av _ e] show ?thesis by simp
qed

end
