(* ===== verification/OrderBook.thy ===== *)
theory OrderBook
  imports Payments
begin

text \<open>
  \<^verbatim>\<open>src/OrderBook.h\<close> and \<^verbatim>\<open>src/OrderBook.cpp\<close>: the two sides of the order book and the
  list of my own orders, which share their \<open>Order\<close> objects. The objects live in a heap of
  addresses; \<^verbatim>\<open>delete\<close> removes an address, and reading a removed one is undefined. The
  currency a book shows is not set until \<open>setCurrency\<close>, and reading it before is undefined.
  Mutexes and the signals to the Qt views are left out.
\<close>

section \<open>State\<close>

datatype side = Bids | Asks | Mine

record book =
  m_orders :: "oref list"
  m_filteredOrders :: "oref list"
  m_currency :: "CurrencySymbol option"

record bookw = payw +
  b_heap :: "oref \<rightharpoonup> Order"
  b_next :: nat
  b_book :: "side \<Rightarrow> book"

definition get_order :: "oref \<Rightarrow> ('z bookw_scheme, Order) prog" where
  "get_order r = deref b_heap r"

definition upd_order :: "oref \<Rightarrow> (Order \<Rightarrow> Order) \<Rightarrow> ('z bookw_scheme, unit) prog" where
  "upd_order r f = bnd (get_order r) (\<lambda>ord. modify (\<lambda>w. w\<lparr>b_heap := (b_heap w)(r \<mapsto> f ord)\<rparr>))"

definition alloc_order :: "Order \<Rightarrow> ('z bookw_scheme, oref) prog" where
  "alloc_order ord = bnd (gets b_next) (\<lambda>r.
     thn (modify (\<lambda>w. w\<lparr>b_heap := (b_heap w)(r \<mapsto> ord), b_next := Suc r\<rparr>)) (ret r))"

definition delete_order :: "oref \<Rightarrow> ('z bookw_scheme, unit) prog" where
  "delete_order r = bnd (get_order r) (\<lambda>_. modify (\<lambda>w. w\<lparr>b_heap := (b_heap w)(r := None)\<rparr>))"

definition upd_book :: "side \<Rightarrow> (book \<Rightarrow> book) \<Rightarrow> ('z bookw_scheme, unit) prog" where
  "upd_book sd f = modify (\<lambda>w. w\<lparr>b_book := (b_book w)(sd := f (b_book w sd))\<rparr>)"

section \<open>Orders\<close>

definition Order_timeout :: "build \<Rightarrow> int" where
  "Order_timeout b = (case b of Testnet \<Rightarrow> 1800000 | Prodnet \<Rightarrow> 86400000)"

definition Order_setOrderId :: "ext \<Rightarrow> Order \<Rightarrow> Order" where
  "Order_setOrderId E ord = ord\<lparr>o_order_id := x_digest E (x_own_id E @ show_int (o_timeStamp ord) @
     show_nat (o_currency ord) @ show_nat (OrderType_code (o_orderType ord)) @
     toStdString E (o_amount ord) @ toStdString E (o_price ord))\<rparr>"

definition Order_eq :: "Order \<Rightarrow> Order \<Rightarrow> bool" where
  "Order_eq a b = (if o_order_id a = o_order_id b then True else False)"

definition compareOrder :: "Order \<Rightarrow> Order \<Rightarrow> bool" where
  "compareOrder left right =
     (if o_orderType left = BID then o_price left > o_price right else o_price left < o_price right)"

section \<open>The book\<close>

fun find_ref :: "(Order \<Rightarrow> bool) \<Rightarrow> oref list \<Rightarrow> ('z bookw_scheme, oref option) prog" where
  "find_ref p [] = ret None"
| "find_ref p (r # rs) = bnd (get_order r) (\<lambda>ord. if p ord then ret (Some r) else find_ref p rs)"

definition deref_list :: "oref list \<Rightarrow> ('z bookw_scheme, (oref \<times> Order) list) prog" where
  "deref_list rs = list_rows (\<lambda>r. bnd (get_order r) (\<lambda>ord. ret (r, ord))) rs []"

definition filterOrders :: "ext \<Rightarrow> side \<Rightarrow> CurrencySymbol \<Rightarrow> ('z bookw_scheme, oref list) prog" where
  "filterOrders E sd currencySym =
     bnd (gets (\<lambda>w. m_orders (b_book w sd))) (\<lambda>rs.
     bnd (deref_list rs) (\<lambda>ros.
     bnd (gets b_heap) (\<lambda>h.
       ret (x_qsort E (\<lambda>l r. compareOrder (the (h l)) (the (h r)))
              (map fst (filter (\<lambda>(r, ord). o_currency ord = currencySym) ros))))))"

definition refilter :: "ext \<Rightarrow> side \<Rightarrow> ('z bookw_scheme, unit) prog" where
  "refilter E sd =
     bnd (gets (\<lambda>w. m_currency (b_book w sd))) (\<lambda>cur.
     bnd (need Uninitialised cur) (\<lambda>c.
     bnd (filterOrders E sd c) (\<lambda>fs. upd_book sd (\<lambda>b. b\<lparr>m_filteredOrders := fs\<rparr>))))"

definition OrderBook_setCurrency :: "ext \<Rightarrow> side \<Rightarrow> string \<Rightarrow> ('z bookw_scheme, unit) prog" where
  "OrderBook_setCurrency E sd currency =
     bnd (getCurrencyByName E currency) (\<lambda>c.
     thn (upd_book sd (\<lambda>b. b\<lparr>m_currency := Some c\<rparr>)) (refilter E sd))"

definition OrderBook_addOrder :: "ext \<Rightarrow> side \<Rightarrow> oref \<Rightarrow> ('z bookw_scheme, RetVal) prog" where
  "OrderBook_addOrder E sd r =
     thn (upd_book sd (\<lambda>b. b\<lparr>m_orders := m_orders b @ [r]\<rparr>))
     (bnd (get_order r) (\<lambda>ord.
      bnd (gets (\<lambda>w. m_currency (b_book w sd))) (\<lambda>cur.
      bnd (need Uninitialised cur) (\<lambda>c.
        if o_currency ord \<noteq> c then ret ZR_SUCCESS
        else thn (refilter E sd) (ret ZR_SUCCESS)))))"

definition OrderBook_remove :: "ext \<Rightarrow> side \<Rightarrow> string \<Rightarrow> ('z bookw_scheme, oref option) prog" where
  "OrderBook_remove E sd oid =
     bnd (gets (\<lambda>w. m_orders (b_book w sd))) (\<lambda>rs.
     bnd (find_ref (\<lambda>ord. oid = o_order_id ord) rs) (\<lambda>m. case m of
         None \<Rightarrow> ret None
       | Some r \<Rightarrow>
           thn (upd_book sd (\<lambda>b. b\<lparr>m_orders := remove1 r (m_orders b)\<rparr>))
           (bnd (get_order r) (\<lambda>ord.
            thn (deleteOrder E ord)
            (thn (refilter E sd) (ret (Some r)))))))"

definition OrderBook_find :: "side \<Rightarrow> string \<Rightarrow> ('z bookw_scheme, oref option) prog" where
  "OrderBook_find sd oid =
     bnd (gets (\<lambda>w. m_orders (b_book w sd))) (find_ref (\<lambda>ord. oid = o_order_id ord))"

text \<open>
  An update of a partly filled order: the first order with the id decides. With the same
  amount there is nothing to do; otherwise its mark is taken over.
\<close>

definition processOrder_update :: "ext \<Rightarrow> side \<Rightarrow> oref \<Rightarrow> Order \<Rightarrow> ('z bookw_scheme, RetVal) prog" where
  "processOrder_update E sd r ord =
     bnd (gets (\<lambda>w. m_orders (b_book w sd))) (\<lambda>rs.
     bnd (find_ref (\<lambda>x. Order_eq ord x) rs) (\<lambda>m.
       let readd = thn (OrderBook_remove E sd (o_order_id ord))
                       (thn (OrderBook_addOrder E sd r) (ret ZR_SUCCESS))
       in case m of
          None \<Rightarrow> readd
        | Some q \<Rightarrow> bnd (get_order q) (\<lambda>old.
            if o_amount ord = o_amount old then ret ZR_FINISH
            else thn (upd_order r (\<lambda>x. x\<lparr>o_ignored := o_ignored old\<rparr>)) readd)))"

text \<open>
  Too old, or more than an hour in the future; the time stamp comes from the network and the
  differences may leave the 64 bits.
\<close>

definition order_stale :: "ext \<Rightarrow> int \<Rightarrow> Order \<Rightarrow> ('z bookw_scheme, bool) prog" where
  "order_stale E currentTime ord =
     bnd (lift (i64 (currentTime - o_timeStamp ord))) (\<lambda>age.
     if age > Order_timeout (x_build E) then ret True
     else bnd (lift (i64 (o_timeStamp ord - currentTime))) (\<lambda>ahead. ret (ahead > 3600000)))"

definition OrderBook_processOrder :: "ext \<Rightarrow> side \<Rightarrow> oref \<Rightarrow> ('z bookw_scheme, RetVal) prog" where
  "OrderBook_processOrder E sd r =
     bnd (get_order r) (\<lambda>ord.
     bnd (OrderBook_find Mine (o_order_id ord)) (\<lambda>mine.
     if mine \<noteq> None then ret ZR_FAILURE
     else bnd (gets w_now) (\<lambda>currentTime.
     bnd (order_stale E currentTime ord) (\<lambda>stale.
     if stale then ret ZR_FAILURE
     else if o_purpose ord = FILLED \<or> o_purpose ord = CANCEL then
       bnd (OrderBook_remove E sd (o_order_id ord)) (\<lambda>oldOrder. case oldOrder of
           Some q \<Rightarrow> thn (delete_order q) (ret ZR_SUCCESS)
         | None \<Rightarrow> ret ZR_FINISH)
     else if o_purpose ord = PARTLY_FILLED then processOrder_update E sd r ord
     else bnd (OrderBook_find sd (o_order_id ord)) (\<lambda>m.
       if m \<noteq> None then ret ZR_FINISH else OrderBook_addOrder E sd r)))))"

definition timeout_one :: "ext \<Rightarrow> side \<Rightarrow> int \<Rightarrow> oref \<Rightarrow> ('z bookw_scheme, unit) prog" where
  "timeout_one E sd currentTime r =
     bnd (get_order r) (\<lambda>ord.
     bnd (lift (i64 (currentTime - o_timeStamp ord))) (\<lambda>age.
       whn (age > Order_timeout (x_build E) \<and> o_commitment ord = 0)
         (thn (bnd (OrderBook_remove E sd (o_order_id ord)) (\<lambda>_. ret ()))
         (thn (whn (o_isMyOrder ord) (bnd (OrderBook_remove E Mine (o_order_id ord)) (\<lambda>_. ret ())))
              (delete_order r)))))"

definition OrderBook_timeoutOrders :: "ext \<Rightarrow> side \<Rightarrow> ('z bookw_scheme, unit) prog" where
  "OrderBook_timeoutOrders E sd =
     bnd (gets w_now) (\<lambda>currentTime.
     bnd (gets (\<lambda>w. m_orders (b_book w sd))) (\<lambda>ordersCopy.
       for_each ordersCopy (timeout_one E sd currentTime)))"

section \<open>The view\<close>

datatype cell = No_cell | Cell_number ZR_Number | Cell_text string | Cell_magenta | Cell_red

datatype role = DisplayRole | BackgroundRole | Other_role

definition OrderBook_rowCount :: "side \<Rightarrow> ('z bookw_scheme, nat) prog" where
  "OrderBook_rowCount sd = gets (\<lambda>w. length (m_filteredOrders (b_book w sd)))"

definition OrderBook_data :: "side \<Rightarrow> nat \<Rightarrow> nat \<Rightarrow> role \<Rightarrow> ('z bookw_scheme, cell) prog" where
  "OrderBook_data sd row column role =
     bnd (gets (\<lambda>w. m_filteredOrders (b_book w sd))) (\<lambda>fs.
       if row \<ge> length fs then ret No_cell
       else bnd (get_order (fs ! row)) (\<lambda>ord.
         ret (case role of
             DisplayRole \<Rightarrow>
               (if column = 0 then Cell_number (o_amount ord)
                else if column = 1 then Cell_number (o_amount ord * o_price ord)
                else if column = 2 then Cell_number (o_price ord) else No_cell)
           | BackgroundRole \<Rightarrow>
               (if o_isMyOrder ord then Cell_magenta else if o_ignored ord then Cell_red else No_cell)
           | Other_role \<Rightarrow> No_cell)))"

definition OrderBook_headerData :: "nat \<Rightarrow> bool \<Rightarrow> role \<Rightarrow> cell" where
  "OrderBook_headerData section_no horizontal role =
     (if role = DisplayRole \<and> horizontal then
        (if section_no = 0 then Cell_text ''Volume'' else if section_no = 1 then Cell_text ''Value''
         else if section_no = 2 then Cell_text ''Price'' else No_cell)
      else No_cell)"

end
