(* ===== verification/BookLaws.thy ===== *)
theory BookLaws
  imports OrderBook
begin

text \<open>
  What the order book promises: the list it shows is the orders of its currency, best price
  first; order ids stay distinct; an order that was accepted once is not accepted and
  published again; timing out removes the stale orders that are in no transaction and no
  others.
\<close>

section \<open>Operations on well-formed books\<close>

abbreviation obj :: "'z bookw_scheme \<Rightarrow> oref \<Rightarrow> Order" where
  "obj s r \<equiv> the (b_heap s r)"

abbreviation refs :: "'z bookw_scheme \<Rightarrow> side \<Rightarrow> oref list" where
  "refs s sd \<equiv> m_orders (b_book s sd)"

definition oid :: "'z bookw_scheme \<Rightarrow> oref \<Rightarrow> string" where
  "oid s r = o_order_id (obj s r)"

text \<open>
  Every address is allocated, ids are distinct and free of quotes, the currency is set; the
  two sides share no object.
\<close>

definition book_inv :: "'z bookw_scheme \<Rightarrow> side \<Rightarrow> bool" where
  "book_inv s sd \<longleftrightarrow> set (refs s sd) \<subseteq> dom (b_heap s) \<and> distinct (map (oid s) (refs s sd)) \<and>
     (\<forall>r\<in>set (refs s sd). no_quote (oid s r)) \<and> m_currency (b_book s sd) \<noteq> None"

definition books_inv :: "'z bookw_scheme \<Rightarrow> bool" where
  "books_inv s \<longleftrightarrow> book_inv s Bids \<and> book_inv s Asks \<and> book_inv s Mine \<and>
     set (refs s Bids) \<inter> set (refs s Asks) = {} \<and> (\<forall>r\<in>dom (b_heap s). r < b_next s)"

lemma books_inv_book: "books_inv s \<Longrightarrow> book_inv s sd"
  by (cases sd) (simp_all add: books_inv_def)

lemma get_order_ok: "r \<in> dom (b_heap s) \<Longrightarrow> get_order r s = (Inr (obj s r), s)"
  by (auto simp: get_order_def deref_def)

lemma get_order_dangling: "b_heap s r = None \<Longrightarrow> get_order r s = (Inl (Undefined Dangling_pointer), s)"
  by (simp add: get_order_def deref_def)

lemma find_ref_ok:
  "set rs \<subseteq> dom (b_heap s) \<Longrightarrow> find_ref p rs s = (Inr (List.find (\<lambda>r. p (obj s r)) rs), s)"
  by (induction rs) (auto simp: prog_apply bnd_def get_order_ok)

lemma list_rows_pure:
  "(\<And>r. r \<in> set rs \<Longrightarrow> f r s = (Inr (g r), s)) \<Longrightarrow> list_rows f rs acc s = (Inr (acc @ map g rs), s)"
  by (induction rs arbitrary: acc) (simp_all add: prog_apply bnd_def)

lemma deref_list_ok:
  "set rs \<subseteq> dom (b_heap s) \<Longrightarrow> deref_list rs s = (Inr (map (\<lambda>r. (r, obj s r)) rs), s)"
proof -
  assume "set rs \<subseteq> dom (b_heap s)"
  then have "\<And>r. r \<in> set rs \<Longrightarrow> bnd (get_order r) (\<lambda>ord. ret (r, ord)) s = (Inr (r, obj s r), s)"
    by (simp add: prog_apply bnd_def get_order_ok subsetD)
  from list_rows_pure [where f = "\<lambda>r. bnd (get_order r) (\<lambda>ord. ret (r, ord))" and g = "\<lambda>r. (r, obj s r)", OF this] show ?thesis by (simp add: deref_list_def)
qed

definition shown :: "ext \<Rightarrow> 'z bookw_scheme \<Rightarrow> side \<Rightarrow> CurrencySymbol \<Rightarrow> oref list" where
  "shown E s sd c = x_qsort E (\<lambda>l r. compareOrder (obj s l) (obj s r))
     (filter (\<lambda>r. o_currency (obj s r) = c) (refs s sd))"

lemma filterOrders_ok:
  "set (refs s sd) \<subseteq> dom (b_heap s) \<Longrightarrow> filterOrders E sd c s = (Inr (shown E s sd c), s)"
  by (simp add: filterOrders_def prog_apply bnd_def deref_list_ok shown_def filter_map comp_def)

definition set_book :: "side \<Rightarrow> (book \<Rightarrow> book) \<Rightarrow> 'z bookw_scheme \<Rightarrow> 'z bookw_scheme" where
  "set_book sd f s = s\<lparr>b_book := (b_book s)(sd := f (b_book s sd))\<rparr>"

lemma set_book_simps [simp]:
  "b_book (set_book sd f s) = (b_book s)(sd := f (b_book s sd))"
  "b_heap (set_book sd f s) = b_heap s" "b_next (set_book sd f s) = b_next s"
  "db_tables (set_book sd f s) = db_tables s" "w_now (set_book sd f s) = w_now s"
  "w_messages (set_book sd f s) = w_messages s" "n_router (set_book sd f s) = n_router s"
  by (simp_all add: set_book_def)

lemma upd_book_apply: "upd_book sd f s = (Inr (), set_book sd f s)"
  by (simp add: upd_book_def prog_apply set_book_def)

lemma refilter_ok:
  "set (refs s sd) \<subseteq> dom (b_heap s) \<Longrightarrow> m_currency (b_book s sd) = Some c \<Longrightarrow>
     refilter E sd s = (Inr (), set_book sd (\<lambda>b. b\<lparr>m_filteredOrders := shown E s sd c\<rparr>) s)"
  by (simp add: refilter_def prog_apply bnd_def need_def filterOrders_ok upd_book_apply)

text \<open>The book after an insertion, and after the removal of an id.\<close>

definition re_shown :: "ext \<Rightarrow> side \<Rightarrow> CurrencySymbol \<Rightarrow> 'z bookw_scheme \<Rightarrow> 'z bookw_scheme" where
  "re_shown E sd c s = set_book sd (\<lambda>b. b\<lparr>m_filteredOrders := shown E s sd c\<rparr>) s"

definition added :: "ext \<Rightarrow> side \<Rightarrow> oref \<Rightarrow> 'z bookw_scheme \<Rightarrow> 'z bookw_scheme" where
  "added E sd r s =
     (let s' = set_book sd (\<lambda>b. b\<lparr>m_orders := m_orders b @ [r]\<rparr>) s; c = the (m_currency (b_book s sd))
      in if o_currency (obj s r) = c then re_shown E sd c s' else s')"

definition without_order :: "string \<Rightarrow> tables \<Rightarrow> tables" where
  "without_order i t = t\<lparr>t_myorders := filter (\<lambda>r. or_orderid r \<noteq> i) (t_myorders t)\<rparr>"

definition removed :: "ext \<Rightarrow> side \<Rightarrow> oref \<Rightarrow> 'z bookw_scheme \<Rightarrow> 'z bookw_scheme" where
  "removed E sd r s =
     re_shown E sd (the (m_currency (b_book s sd)))
       (set_book sd (\<lambda>b. b\<lparr>m_orders := remove1 r (m_orders b)\<rparr>)
         (s\<lparr>db_stmts := Suc (db_stmts s), db_tables := without_order (oid s r) (db_tables s)\<rparr>))"

lemma re_shown_simps [simp]:
  "m_orders (b_book (re_shown E sd c s) sd') = refs s sd'"
  "m_currency (b_book (re_shown E sd c s) sd') = m_currency (b_book s sd')"
  "b_heap (re_shown E sd c s) = b_heap s" "b_next (re_shown E sd c s) = b_next s"
  "db_tables (re_shown E sd c s) = db_tables s" "w_now (re_shown E sd c s) = w_now s"
  "w_messages (re_shown E sd c s) = w_messages s" "n_router (re_shown E sd c s) = n_router s"
  by (simp_all add: re_shown_def)

lemma added_simps [simp]:
  "m_orders (b_book (added E sd r s) sd') = (if sd' = sd then refs s sd @ [r] else refs s sd')"
  "m_currency (b_book (added E sd r s) sd') = m_currency (b_book s sd')"
  "b_heap (added E sd r s) = b_heap s" "b_next (added E sd r s) = b_next s"
  "db_tables (added E sd r s) = db_tables s" "w_now (added E sd r s) = w_now s"
  "w_messages (added E sd r s) = w_messages s" "n_router (added E sd r s) = n_router s"
  by (simp_all add: added_def Let_def)

lemma removed_simps [simp]:
  "m_orders (b_book (removed E sd r s) sd') = (if sd' = sd then remove1 r (refs s sd) else refs s sd')"
  "m_currency (b_book (removed E sd r s) sd') = m_currency (b_book s sd')"
  "b_heap (removed E sd r s) = b_heap s" "b_next (removed E sd r s) = b_next s"
  "db_tables (removed E sd r s) = without_order (oid s r) (db_tables s)" "w_now (removed E sd r s) = w_now s"
  "w_messages (removed E sd r s) = w_messages s" "n_router (removed E sd r s) = n_router s"
  by (simp_all add: removed_def)

lemma addOrder_ok:
  assumes "book_inv s sd" and "r \<in> dom (b_heap s)"
  shows "OrderBook_addOrder E sd r s = (Inr ZR_SUCCESS, added E sd r s)"
proof -
  obtain c where c: "m_currency (b_book s sd) = Some c" using assms(1) by (auto simp: book_inv_def)
  let ?s = "set_book sd (\<lambda>b. b\<lparr>m_orders := m_orders b @ [r]\<rparr>) s"
  have sub: "set (refs ?s sd) \<subseteq> dom (b_heap ?s)" and c': "m_currency (b_book ?s sd) = Some c"
    using assms c by (auto simp: book_inv_def)
  have g: "get_order r ?s = (Inr (obj s r), ?s)" using assms(2) get_order_ok [of r ?s] by simp
  show ?thesis
    using c refilter_ok [OF sub c', of E]
    by (simp add: OrderBook_addOrder_def thn_def bnd_def upd_book_apply g prog_apply need_def
        added_def Let_def re_shown_def)
qed

lemma find_oid:
  assumes "book_inv s sd"
  shows "OrderBook_find sd i s = (Inr (List.find (\<lambda>r. oid s r = i) (refs s sd)), s)"
proof -
  have "set (refs s sd) \<subseteq> dom (b_heap s)" using assms by (simp add: book_inv_def)
  from find_ref_ok [OF this] show ?thesis
    by (simp add: OrderBook_find_def prog_apply bnd_def oid_def eq_commute)
qed

lemma remove_None:
  assumes "book_inv s sd" and "i \<notin> oid s ` set (refs s sd)"
  shows "OrderBook_remove E sd i s = (Inr None, s)"
proof -
  have sub: "set (refs s sd) \<subseteq> dom (b_heap s)" using assms by (simp add: book_inv_def)
  have "List.find (\<lambda>r. i = o_order_id (obj s r)) (refs s sd) = None"
    using assms(2) by (auto simp: find_None_iff' oid_def)
  with find_ref_ok [OF sub, of "\<lambda>ord. i = o_order_id ord"] show ?thesis
    by (simp add: OrderBook_remove_def prog_apply bnd_def)
qed

lemma find_oid_unique:
  assumes "book_inv s sd" and "r \<in> set (refs s sd)"
  shows "List.find (\<lambda>q. oid s q = oid s r) (refs s sd) = Some r"
proof -
  have d: "distinct (map (oid s) (refs s sd))" using assms(1) by (simp add: book_inv_def)
  have "List.find (\<lambda>q. oid s q = oid s r) (refs s sd) \<noteq> None"
    using assms(2) by (auto simp: find_None_iff')
  then obtain q where q: "List.find (\<lambda>q. oid s q = oid s r) (refs s sd) = Some q" by auto
  from find_Some_in [OF this] have "q \<in> set (refs s sd)" "oid s q = oid s r" by simp_all
  with d assms(2) have "q = r" by (auto simp: distinct_map dest: inj_onD)
  with q show ?thesis by simp
qed

lemma remove_Some:
  assumes up: "db_up E" and inv: "book_inv s sd" and r: "r \<in> set (refs s sd)"
  shows "OrderBook_remove E sd (oid s r) s = (Inr (Some r), removed E sd r s)"
proof -
  have sub: "set (refs s sd) \<subseteq> dom (b_heap s)" and q: "no_quote (oid s r)"
    using inv r by (simp_all add: book_inv_def)
  obtain c where c: "m_currency (b_book s sd) = Some c" using inv by (auto simp: book_inv_def)
  have f: "find_ref (\<lambda>ord. oid s r = o_order_id ord) (refs s sd) s = (Inr (Some r), s)"
    using find_ref_ok [OF sub, of "\<lambda>ord. oid s r = o_order_id ord"] find_oid_unique [OF inv r]
    by (simp add: oid_def eq_commute)
  let ?s = "set_book sd (\<lambda>b. b\<lparr>m_orders := remove1 r (m_orders b)\<rparr>) s"
  let ?t = "?s\<lparr>db_stmts := Suc (db_stmts s), db_tables := without_order (oid s r) (db_tables s)\<rparr>"
  have g: "get_order r ?s = (Inr (obj s r), ?s)" using sub r get_order_ok [of r ?s] by auto
  have d: "deleteOrder E (obj s r) ?s = (Inr (), ?t)"
    using up q by (simp add: deleteOrder_def oid_def [symmetric] runQuery_ok without_order_def set_book_def)
  have sub': "set (refs ?t sd) \<subseteq> dom (b_heap ?t)" and c': "m_currency (b_book ?t sd) = Some c"
    using sub c set_remove1_subset [of r "refs s sd"] by (auto simp: set_book_def)
  have t: "?t = set_book sd (\<lambda>b. b\<lparr>m_orders := remove1 r (m_orders b)\<rparr>)
      (s\<lparr>db_stmts := Suc (db_stmts s), db_tables := without_order (oid s r) (db_tables s)\<rparr>)"
    by (simp add: set_book_def)
  show ?thesis
    using f refilter_ok [OF sub' c', of E] c
    by (simp add: OrderBook_remove_def thn_def bnd_def upd_book_apply g d prog_apply removed_def
        re_shown_def t [symmetric])
qed

section \<open>What is shown\<close>

definition better :: "OrderType \<Rightarrow> ZR_Number \<Rightarrow> ZR_Number \<Rightarrow> bool" where
  "better t p q \<longleftrightarrow> (if t = BID then p \<ge> q else p \<le> q)"

text \<open>
  Filtering a side of the book for a currency gives exactly the orders of that currency,
  each as often as the book has it, the best price first: descending for bids, ascending for
  asks; the state is unchanged.
\<close>

theorem filterOrders_best_first:
  assumes "sorts E" and "book_inv s sd" and "\<forall>r\<in>set (refs s sd). o_orderType (obj s r) = t"
  shows "\<exists>fs. filterOrders E sd c s = (Inr fs, s) \<and>
    mset fs = {#r \<in># mset (refs s sd). o_currency (obj s r) = c#} \<and>
    sorted_wrt (\<lambda>a b. better t (o_price (obj s a)) (o_price (obj s b))) fs"
proof -
  let ?lt = "\<lambda>l r. compareOrder (obj s l) (obj s r)"
  let ?xs = "filter (\<lambda>r. o_currency (obj s r) = c) (refs s sd)"
  have sub: "set (refs s sd) \<subseteq> dom (b_heap s)" using assms(2) by (simp add: book_inv_def)
  have ty: "o_orderType (obj s r) = t" if "r \<in> set ?xs" for r using assms(3) that by simp
  have m: "mset (x_qsort E ?lt ?xs) = mset ?xs" by (rule sorts_mset [OF assms(1)])
  then have st: "set (x_qsort E ?lt ?xs) = set ?xs" by (rule mset_eq_setD)
  have tr: "\<forall>x\<in>set ?xs. \<forall>y\<in>set ?xs. \<forall>z\<in>set ?xs. \<not> ?lt y x \<longrightarrow> \<not> ?lt z y \<longrightarrow> \<not> ?lt z x"
    using ty by (auto simp: compareOrder_def)
  have asy: "\<forall>x\<in>set ?xs. \<forall>y\<in>set ?xs. ?lt x y \<longrightarrow> \<not> ?lt y x"
    using ty by (auto simp: compareOrder_def)
  have "sorted_wrt (\<lambda>x y. \<not> ?lt y x) (x_qsort E ?lt ?xs)"
    by (rule sorts_sorted [OF assms(1) tr asy])
  then have "sorted_wrt (\<lambda>a b. better t (o_price (obj s a)) (o_price (obj s b))) (x_qsort E ?lt ?xs)"
  proof (rule sorted_wrt_mono_rel [rotated])
    fix a b
    assume "a \<in> set (x_qsort E ?lt ?xs)" "b \<in> set (x_qsort E ?lt ?xs)" and n: "\<not> ?lt b a"
    then have "a \<in> set ?xs" "b \<in> set ?xs" by (simp_all only: st)
    then have "o_orderType (obj s a) = t" "o_orderType (obj s b) = t" by (simp_all only: ty)
    with n show "better t (o_price (obj s a)) (o_price (obj s b))"
      by (auto simp: better_def compareOrder_def)
  qed
  then show ?thesis
    using m filterOrders_ok [OF sub, of E c] by (simp add: shown_def)
qed

section \<open>Orders from the network\<close>

definition fresh_ref :: "'z bookw_scheme \<Rightarrow> oref \<Rightarrow> bool" where
  "fresh_ref s r \<longleftrightarrow> r \<in> dom (b_heap s) \<and> r \<notin> set (refs s Bids) \<and> r \<notin> set (refs s Asks) \<and>
     r \<notin> set (refs s Mine)"

lemma fresh_ref_side: "fresh_ref s r \<Longrightarrow> r \<notin> set (refs s sd)"
  by (cases sd) (simp_all add: fresh_ref_def)

definition in_time :: "ext \<Rightarrow> 'z bookw_scheme \<Rightarrow> Order \<Rightarrow> bool" where
  "in_time E s ord \<longleftrightarrow> w_now s - o_timeStamp ord \<le> Order_timeout (x_build E) \<and>
     o_timeStamp ord - w_now s \<le> 3600000"

definition clock_ok :: "'z bookw_scheme \<Rightarrow> Order \<Rightarrow> bool" where
  "clock_ok s ord \<longleftrightarrow> in_i64 (w_now s - o_timeStamp ord) \<and> in_i64 (o_timeStamp ord - w_now s)"

lemma order_stale_ok:
  "clock_ok s ord \<Longrightarrow> order_stale E (w_now s) ord s = (Inr (\<not> in_time E s ord), s)"
  by (auto simp: order_stale_def prog_apply bnd_def clock_ok_def in_time_def)

definition with_id :: "'z bookw_scheme \<Rightarrow> side \<Rightarrow> string \<Rightarrow> oref option" where
  "with_id s sd i = List.find (\<lambda>r. oid s r = i) (refs s sd)"

lemma with_id_Some: "with_id s sd i = Some q \<Longrightarrow> q \<in> set (refs s sd) \<and> oid s q = i"
  by (auto simp: with_id_def dest: find_Some_in)

lemma with_id_None: "with_id s sd i = None \<longleftrightarrow> i \<notin> oid s ` set (refs s sd)"
  by (auto simp: with_id_def find_None_iff')

lemma with_id_unique: "book_inv s sd \<Longrightarrow> q \<in> set (refs s sd) \<Longrightarrow> with_id s sd (oid s q) = Some q"
  by (simp add: with_id_def find_oid_unique)

definition set_ignored :: "oref \<Rightarrow> bool \<Rightarrow> 'z bookw_scheme \<Rightarrow> 'z bookw_scheme" where
  "set_ignored r b s = s\<lparr>b_heap := (b_heap s)(r \<mapsto> (obj s r)\<lparr>o_ignored := b\<rparr>)\<rparr>"

definition freed :: "oref \<Rightarrow> 'z bookw_scheme \<Rightarrow> 'z bookw_scheme" where
  "freed r s = s\<lparr>b_heap := (b_heap s)(r := None)\<rparr>"

text \<open>The outcome and the state of \<open>processOrder\<close>, case by case.\<close>

definition processed :: "ext \<Rightarrow> side \<Rightarrow> oref \<Rightarrow> 'z bookw_scheme \<Rightarrow> RetVal \<times> 'z bookw_scheme" where
  "processed E sd r s =
     (let ord = obj s r; old = with_id s sd (o_order_id ord) in
      if with_id s Mine (o_order_id ord) \<noteq> None \<or> \<not> in_time E s ord then (ZR_FAILURE, s)
      else if o_purpose ord \<in> {FILLED, CANCEL} then
        (case old of None \<Rightarrow> (ZR_FINISH, s) | Some q \<Rightarrow> (ZR_SUCCESS, freed q (removed E sd q s)))
      else if o_purpose ord = PARTLY_FILLED then
        (case old of None \<Rightarrow> (ZR_SUCCESS, added E sd r s)
         | Some q \<Rightarrow> if o_amount ord = o_amount (obj s q) then (ZR_FINISH, s)
             else (ZR_SUCCESS, added E sd r (removed E sd q (set_ignored r (o_ignored (obj s q)) s))))
      else (case old of None \<Rightarrow> (ZR_SUCCESS, added E sd r s) | Some q \<Rightarrow> (ZR_FINISH, s)))"

lemma book_inv_set_ignored:
  "r \<in> dom (b_heap s) \<Longrightarrow> book_inv s sd \<Longrightarrow> book_inv (set_ignored r b s) sd"
proof -
  assume r: "r \<in> dom (b_heap s)" and inv: "book_inv s sd"
  have o: "oid (set_ignored r b s) = oid s" by (auto simp: oid_def set_ignored_def fun_eq_iff)
  have d: "dom (b_heap (set_ignored r b s)) = dom (b_heap s)" using r by (auto simp: set_ignored_def)
  show ?thesis using inv unfolding book_inv_def o d by (simp add: set_ignored_def)
qed

lemma book_inv_removed:
  assumes "book_inv s sd'"
  shows "book_inv (removed E sd q s) sd'"
proof -
  have o: "oid (removed E sd q s) = oid s" by (auto simp: oid_def fun_eq_iff)
  have "distinct (map (oid s) (remove1 q xs))" if "distinct (map (oid s) xs)" for xs
    using that by (auto simp: distinct_map inj_on_def dest: notin_set_remove1 in_set_remove1 set_remove1_subset [THEN subsetD])
  then show ?thesis
    using assms set_remove1_subset [of q "refs s sd"] unfolding book_inv_def o by auto
qed

lemma book_inv_added:
  assumes "book_inv s sd'" and "r \<in> dom (b_heap s)" and "no_quote (oid s r)"
    and "sd' = sd \<Longrightarrow> oid s r \<notin> oid s ` set (refs s sd)"
  shows "book_inv (added E sd r s) sd'"
proof -
  have o: "oid (added E sd r s) = oid s" by (auto simp: oid_def fun_eq_iff)
  show ?thesis using assms unfolding book_inv_def o by auto
qed

lemma oid_removed [simp]: "oid (removed E sd q s) = oid s"
  by (auto simp: oid_def fun_eq_iff)

lemma oid_set_ignored [simp]: "oid (set_ignored r b s) = oid s"
  by (auto simp: oid_def set_ignored_def fun_eq_iff)

lemma set_ignored_simps [simp]:
  "b_book (set_ignored r b s) = b_book s" "b_next (set_ignored r b s) = b_next s"
  "db_tables (set_ignored r b s) = db_tables s" "w_now (set_ignored r b s) = w_now s"
  "w_messages (set_ignored r b s) = w_messages s" "n_router (set_ignored r b s) = n_router s"
  by (simp_all add: set_ignored_def)

lemma upd_order_ignored:
  "r \<in> dom (b_heap s) \<Longrightarrow> upd_order r (\<lambda>x. x\<lparr>o_ignored := b\<rparr>) s = (Inr (), set_ignored r b s)"
  by (auto simp: upd_order_def bnd_def get_order_ok prog_apply set_ignored_def)

lemma not_with_id_removed:
  "book_inv s sd \<Longrightarrow> q \<in> set (refs s sd) \<Longrightarrow> oid s q \<notin> oid s ` set (remove1 q (refs s sd))"
proof -
  assume "book_inv s sd" "q \<in> set (refs s sd)"
  then have d: "distinct (map (oid s) (refs s sd))" and q: "q \<in> set (refs s sd)"
    by (simp_all add: book_inv_def)
  from d have "distinct (refs s sd)" by (simp add: distinct_map)
  then have "set (remove1 q (refs s sd)) = set (refs s sd) - {q}" by simp
  with d q show ?thesis by (auto simp: distinct_map inj_on_def)
qed

lemma readd_None:
  assumes "books_inv s" and "fresh_ref s r" and "with_id s sd (oid s r) = None"
  shows "thn (OrderBook_remove E sd (oid s r)) (thn (OrderBook_addOrder E sd r) (ret ZR_SUCCESS)) s
    = (Inr ZR_SUCCESS, added E sd r s)"
  using assms addOrder_ok [OF books_inv_book [OF assms(1), of sd], of r E]
    remove_None [OF books_inv_book [OF assms(1), of sd], of "oid s r" E]
  by (simp add: thn_def bnd_def prog_apply with_id_None fresh_ref_def)

lemma readd_Some:
  assumes "db_up E" and "books_inv s" and "fresh_ref s r" and "with_id s sd (oid s r) = Some q"
  shows "thn (OrderBook_remove E sd (oid s r)) (thn (OrderBook_addOrder E sd r) (ret ZR_SUCCESS)) s
    = (Inr ZR_SUCCESS, added E sd r (removed E sd q s))"
proof -
  note inv = books_inv_book [OF assms(2), of sd]
  from with_id_Some [OF assms(4)] have q: "q \<in> set (refs s sd)" "oid s q = oid s r" by simp_all
  have "r \<in> dom (b_heap (removed E sd q s))" using assms(3) by (simp add: fresh_ref_def)
  with remove_Some [OF assms(1) inv q(1)] addOrder_ok [where E = E, OF book_inv_removed [OF inv, where E = E and q = q], of r] q(2)
  show ?thesis by (simp add: thn_def bnd_def prog_apply)
qed

lemma books_inv_set_ignored:
  assumes "books_inv s" and "r \<in> dom (b_heap s)"
  shows "books_inv (set_ignored r b s)"
proof -
  have "dom (b_heap (set_ignored r b s)) = dom (b_heap s)" using assms(2) by (auto simp: set_ignored_def)
  then show ?thesis
    using assms book_inv_set_ignored [OF assms(2)] by (simp add: books_inv_def)
qed

lemma fresh_ref_set_ignored: "fresh_ref s r \<Longrightarrow> fresh_ref (set_ignored r b s) r"
  by (simp add: fresh_ref_def) (simp add: set_ignored_def)

lemma with_id_set_ignored [simp]: "with_id (set_ignored r b s) = with_id s"
  by (auto simp: with_id_def fun_eq_iff)

lemma find_update:
  "set (refs s sd) \<subseteq> dom (b_heap s) \<Longrightarrow>
     find_ref (\<lambda>x. Order_eq ord x) (refs s sd) s = (Inr (with_id s sd (o_order_id ord)), s)"
proof -
  assume a: "set (refs s sd) \<subseteq> dom (b_heap s)"
  have "(\<lambda>r. Order_eq ord (obj s r)) = (\<lambda>r. oid s r = o_order_id ord)"
    by (auto simp: Order_eq_def oid_def fun_eq_iff)
  with find_ref_ok [OF a, of "\<lambda>x. Order_eq ord x"] show ?thesis by (simp add: with_id_def)
qed

lemma processOrder_update_ok:
  assumes up: "db_up E" and inv: "books_inv s" and r: "fresh_ref s r"
  shows "processOrder_update E sd r (obj s r) s =
    (case with_id s sd (oid s r) of
       None \<Rightarrow> (Inr ZR_SUCCESS, added E sd r s)
     | Some q \<Rightarrow> if o_amount (obj s r) = o_amount (obj s q) then (Inr ZR_FINISH, s)
         else (Inr ZR_SUCCESS, added E sd r (removed E sd q (set_ignored r (o_ignored (obj s q)) s))))"
proof -
  have sub: "set (refs s sd) \<subseteq> dom (b_heap s)" using books_inv_book [OF inv, of sd] by (simp add: book_inv_def)
  have rd: "r \<in> dom (b_heap s)" using r by (simp add: fresh_ref_def)
  have i: "o_order_id (obj s r) = oid s r" by (simp add: oid_def)
  show ?thesis
  proof (cases "with_id s sd (oid s r)")
    case None
    with readd_None [OF inv r None, of E] find_update [OF sub, of "obj s r"] i show ?thesis
      by (simp add: processOrder_update_def prog_apply bnd_def Let_def)
  next
    case (Some q)
    have qd: "q \<in> dom (b_heap s)" using with_id_Some [OF Some] sub by blast
    let ?s = "set_ignored r (o_ignored (obj s q)) s"
    have "with_id ?s sd (oid ?s r) = Some q" using Some by simp
    from readd_Some [OF up books_inv_set_ignored [OF inv rd] fresh_ref_set_ignored [OF r] this]
    have re: "thn (OrderBook_remove E sd (oid s r)) (thn (OrderBook_addOrder E sd r) (ret ZR_SUCCESS)) ?s
      = (Inr ZR_SUCCESS, added E sd r (removed E sd q ?s))" by simp
    show ?thesis
      using find_update [OF sub, of "obj s r"] i Some re upd_order_ignored [OF rd]
      by (simp add: processOrder_update_def prog_apply bnd_def Let_def get_order_ok [OF qd] thn_def [of "upd_order _ _"])
  qed
qed

lemma processOrder_ok:
  assumes up: "db_up E" and inv: "books_inv s" and r: "fresh_ref s r" and ck: "clock_ok s (obj s r)"
  shows "OrderBook_processOrder E sd r s =
    (Inr (fst (processed E sd r s)), snd (processed E sd r s))"
proof -
  have rd: "r \<in> dom (b_heap s)" using r by (simp add: fresh_ref_def)
  note g = get_order_ok [OF rd]
  note bi = books_inv_book [OF inv, of sd]
  note fM = find_oid [OF books_inv_book [OF inv, of Mine], folded with_id_def]
  note fS = find_oid [OF bi, folded with_id_def]
  note st = order_stale_ok [OF ck, of E]
  have i: "o_order_id (obj s r) = oid s r" by (simp add: oid_def)
  show ?thesis
  proof (cases "with_id s Mine (oid s r) \<noteq> None \<or> \<not> in_time E s (obj s r)")
    case True
    then show ?thesis
      by (auto simp: OrderBook_processOrder_def bnd_def g fM st prog_apply processed_def Let_def i)
  next
    case False
    then have m: "with_id s Mine (oid s r) = None" "in_time E s (obj s r)" by simp_all
    note run = OrderBook_processOrder_def bnd_def g fM fS st prog_apply processed_def Let_def i m
    consider (gone) "o_purpose (obj s r) \<in> {FILLED, CANCEL}" | (part) "o_purpose (obj s r) = PARTLY_FILLED"
      | (new) "o_purpose (obj s r) \<notin> {FILLED, CANCEL, PARTLY_FILLED}" by blast
    then show ?thesis
    proof cases
      case gone
      show ?thesis
      proof (cases "with_id s sd (oid s r)")
        case None
        with gone remove_None [OF bi, of "oid s r" E] show ?thesis
          by (auto simp: run with_id_None [symmetric])
      next
        case (Some q)
        from with_id_Some [OF Some] have q: "q \<in> set (refs s sd)" "oid s q = oid s r" by simp_all
        have "q \<in> dom (b_heap (removed E sd q s))" using q bi by (auto simp: book_inv_def)
        then have "delete_order q (removed E sd q s) = (Inr (), freed q (removed E sd q s))"
          by (simp add: delete_order_def bnd_def get_order_ok prog_apply freed_def)
        with gone Some remove_Some [OF up bi q(1)] q(2) show ?thesis by (auto simp: run thn_def)
      qed
    next
      case part
      then show ?thesis
        using processOrder_update_ok [OF up inv r, of sd] by (auto simp: run split: option.split)
    next
      case new
      then show ?thesis
        using addOrder_ok [OF bi rd, of E] by (auto simp: run split: option.split)
    qed
  qed
qed

lemma freed_simps [simp]:
  "b_book (freed q s) = b_book s" "b_next (freed q s) = b_next s" "db_tables (freed q s) = db_tables s"
  "w_now (freed q s) = w_now s" "w_messages (freed q s) = w_messages s" "n_router (freed q s) = n_router s"
  "b_heap (freed q s) = (b_heap s)(q := None)"
  by (simp_all add: freed_def)

lemma books_inv_freed:
  assumes "books_inv s" and "q \<notin> set (refs s Bids)" "q \<notin> set (refs s Asks)" "q \<notin> set (refs s Mine)"
  shows "books_inv (freed q s)"
proof -
  have "book_inv (freed q s) sd" if b: "book_inv s sd" and n: "q \<notin> set (refs s sd)" for sd
  proof -
    have m: "map (oid (freed q s)) (refs s sd) = map (oid s) (refs s sd)"
      and "\<forall>r\<in>set (refs s sd). oid (freed q s) r = oid s r" using n by (auto simp: oid_def)
    then show ?thesis using b n unfolding book_inv_def freed_simps m by auto
  qed
  then show ?thesis using assms by (auto simp: books_inv_def)
qed

lemma books_inv_removed:
  assumes "books_inv s"
  shows "books_inv (removed E sd q s)"
proof -
  have "set (refs (removed E sd q s) sd') \<subseteq> set (refs s sd')" for sd'
    using set_remove1_subset [of q "refs s sd"] by auto
  then have "set (refs (removed E sd q s) Bids) \<inter> set (refs (removed E sd q s) Asks) = {}"
    using assms unfolding books_inv_def by blast
  then show ?thesis using assms book_inv_removed [of s _ E sd q] unfolding books_inv_def by simp
qed

lemma books_inv_added:
  assumes "books_inv s" and "fresh_ref s r" and "no_quote (oid s r)" and "with_id s sd (oid s r) = None"
  shows "books_inv (added E sd r s)"
proof -
  have rd: "r \<in> dom (b_heap s)" using assms(2) by (simp add: fresh_ref_def)
  have "book_inv (added E sd r s) sd'" for sd'
    using book_inv_added [OF books_inv_book [OF assms(1)] rd assms(3)] assms(4)
    by (simp add: with_id_None)
  moreover have "set (refs (added E sd r s) Bids) \<inter> set (refs (added E sd r s) Asks) = {}"
    using assms(1,2) by (auto simp: books_inv_def fresh_ref_def)
  ultimately show ?thesis using assms(1) by (simp add: books_inv_def)
qed

lemma removed_gone:
  assumes "books_inv s" and "with_id s Mine (oid s q) = None" and "q \<in> set (refs s sd)" and "sd \<noteq> Mine"
  shows "q \<notin> set (refs (removed E sd q s) Bids)" "q \<notin> set (refs (removed E sd q s) Asks)"
    "q \<notin> set (refs (removed E sd q s) Mine)"
proof -
  have d: "distinct (refs s sd)"
    using books_inv_book [OF assms(1), of sd] by (simp add: book_inv_def distinct_map)
  have m: "q \<notin> set (refs s Mine)" using assms(2) by (auto simp: with_id_None)
  have dj: "set (refs s Bids) \<inter> set (refs s Asks) = {}" using assms(1) by (simp add: books_inv_def)
  show "q \<notin> set (refs (removed E sd q s) Bids)" "q \<notin> set (refs (removed E sd q s) Asks)"
    "q \<notin> set (refs (removed E sd q s) Mine)"
    using d m dj assms(3,4) by (cases sd; auto)+
qed

lemma with_id_removed:
  assumes "books_inv s" and "with_id s sd i = Some q"
  shows "with_id (removed E sd q s) sd i = None"
  using with_id_Some [OF assms(2)] not_with_id_removed [OF books_inv_book [OF assms(1)], of q sd]
  by (auto simp: with_id_None)

lemma fresh_ref_removed: "fresh_ref s r \<Longrightarrow> fresh_ref (removed E sd q s) r"
  using set_remove1_subset [of q "refs s sd"] by (auto simp: fresh_ref_def)

lemma books_inv_processed:
  assumes inv: "books_inv s" and r: "fresh_ref s r" and q: "no_quote (oid s r)" and sd: "sd \<noteq> Mine"
  shows "books_inv (snd (processed E sd r s))"
proof -
  have rd: "r \<in> dom (b_heap s)" using r by (simp add: fresh_ref_def)
  have i: "o_order_id (obj s r) = oid s r" by (simp add: oid_def)
  show ?thesis
  proof (cases "with_id s sd (oid s r)")
    case None
    then show ?thesis
      using inv books_inv_added [OF inv r q None] by (simp add: processed_def Let_def i)
  next
    case (Some p)
    note w = with_id_Some [OF Some]
    have gone: "books_inv (freed p (removed E sd p s))" if "with_id s Mine (oid s r) = None"
      using books_inv_freed [OF books_inv_removed [OF inv] removed_gone [OF inv _ _ sd, of p E]] that w by simp
    let ?s = "set_ignored r (o_ignored (obj s p)) s"
    have "books_inv (added E sd r (removed E sd p ?s))"
    proof (rule books_inv_added)
      show "books_inv (removed E sd p ?s)" by (rule books_inv_removed [OF books_inv_set_ignored [OF inv rd]])
      show "fresh_ref (removed E sd p ?s) r" by (rule fresh_ref_removed [OF fresh_ref_set_ignored [OF r]])
      show "no_quote (oid (removed E sd p ?s) r)" using q by simp
      have "with_id ?s sd (oid s r) = Some p" using Some by simp
      from with_id_removed [OF books_inv_set_ignored [OF inv rd] this]
      show "with_id (removed E sd p ?s) sd (oid (removed E sd p ?s) r) = None" by simp
    qed
    with inv gone Some show ?thesis by (auto simp: processed_def Let_def i)
  qed
qed

text \<open>
  C28: an order that arrives from the network never breaks the book, whatever it asks for: after
  \<open>processOrder\<close> every listed address is still allocated, the ids of each list are distinct and
  the two sides share no object; only normal returns occur.
\<close>

theorem processOrder_keeps_books:
  assumes "db_up E" and "books_inv s" and "fresh_ref s r" and "no_quote (oid s r)"
    and "clock_ok s (obj s r)" and "sd \<noteq> Mine"
  shows "\<exists>v t. OrderBook_processOrder E sd r s = (Inr v, t) \<and> books_inv t"
  using processOrder_ok [OF assms(1,2,3,5), of sd] books_inv_processed [OF assms(2,3,4,6), of E] by simp

text \<open>A second copy of an order, allocated at a later time.\<close>

definition arrive :: "Order \<Rightarrow> int \<Rightarrow> 'z bookw_scheme \<Rightarrow> 'z bookw_scheme" where
  "arrive ord now s = s\<lparr>b_heap := (b_heap s)(b_next s \<mapsto> ord), b_next := Suc (b_next s), w_now := now\<rparr>"

lemma arrive_simps [simp]:
  "b_book (arrive ord now s) = b_book s" "b_heap (arrive ord now s) = (b_heap s)(b_next s \<mapsto> ord)"
  "b_next (arrive ord now s) = Suc (b_next s)" "w_now (arrive ord now s) = now"
  by (simp_all add: arrive_def)

lemma in_refs_less: "books_inv s \<Longrightarrow> r \<in> set (refs s sd) \<Longrightarrow> r < b_next s"
  using books_inv_book [of s sd] by (auto simp: book_inv_def books_inv_def)

lemma oid_arrive: "r < b_next s \<Longrightarrow> oid (arrive ord now s) r = oid s r"
  "r < b_next s \<Longrightarrow> obj (arrive ord now s) r = obj s r"
  by (simp_all add: oid_def)

lemma with_id_arrive: "books_inv s \<Longrightarrow> with_id (arrive ord now s) sd i = with_id s sd i"
proof -
  assume inv: "books_inv s"
  have "List.find (\<lambda>r. oid (arrive ord now s) r = i) rs = List.find (\<lambda>r. oid s r = i) rs"
    if "set rs \<subseteq> set (refs s sd)" for rs
    using that in_refs_less [OF inv] by (induction rs) (auto simp: oid_arrive)
  from this [of "refs s sd"] show ?thesis by (simp add: with_id_def)
qed

lemma books_inv_arrive:
  assumes "books_inv s"
  shows "books_inv (arrive ord now s) \<and> fresh_ref (arrive ord now s) (b_next s)"
proof -
  have "book_inv (arrive ord now s) sd" for sd
  proof -
    have m: "map (oid (arrive ord now s)) (refs s sd) = map (oid s) (refs s sd)"
      and "\<forall>r\<in>set (refs s sd). oid (arrive ord now s) r = oid s r"
      using in_refs_less [OF assms] by (auto simp: oid_arrive)
    then show ?thesis using books_inv_book [OF assms, of sd] unfolding book_inv_def arrive_simps m by auto
  qed
  moreover have "b_next s \<notin> set (refs s sd)" for sd using in_refs_less [OF assms, of "b_next s"] by auto
  moreover have "\<forall>r\<in>dom (b_heap (arrive ord now s)). r < b_next (arrive ord now s)"
    using assms by (auto simp: books_inv_def less_Suc_eq)
  ultimately show ?thesis
    using assms unfolding books_inv_def fresh_ref_def arrive_simps by simp
qed

lemma processed_SUCCESS:
  assumes "books_inv s" and "fresh_ref s r" and "no_quote (oid s r)" and "sd \<noteq> Mine"
    and "fst (processed E sd r s) = ZR_SUCCESS" and "t = snd (processed E sd r s)"
  shows "if o_purpose (obj s r) \<in> {FILLED, CANCEL} then with_id t sd (oid s r) = None
    else with_id t sd (oid s r) = Some r \<and> o_amount (obj t r) = o_amount (obj s r)"
proof -
  have i: "o_order_id (obj s r) = oid s r" by (simp add: oid_def)
  have inv: "book_inv t sd"
    using books_inv_book [OF books_inv_processed [OF assms(1-4)]] assms(6) by simp
  note cases = assms(5,6) [unfolded processed_def Let_def i]
  show ?thesis
  proof (cases "o_purpose (obj s r) \<in> {FILLED, CANCEL}")
    case True
    with cases obtain q where q: "with_id s sd (oid s r) = Some q"
      and m: "with_id s Mine (oid s r) = None" and t: "t = freed q (removed E sd q s)"
      by (auto split: if_splits option.splits)
    have w: "with_id (removed E sd q s) sd (oid s r) = None" by (rule with_id_removed [OF assms(1) q])
    have "q \<notin> set (refs (removed E sd q s) sd)"
      using removed_gone [OF assms(1) _ _ assms(4), of q E] with_id_Some [OF q] m by (cases sd) simp_all
    then have "oid t ` set (refs t sd) = oid s ` set (refs (removed E sd q s) sd)"
      by (intro image_cong) (auto simp: t oid_def)
    with w True show ?thesis by (simp add: with_id_None)
  next
    case False
    then have "r \<in> set (refs t sd)" "o_amount (obj t r) = o_amount (obj s r)" "oid t r = oid s r"
      using cases by (auto simp: set_ignored_def oid_def split: if_splits option.splits)
    with False with_id_unique [OF inv] show ?thesis by metis
  qed
qed

text \<open>
  An order that was accepted, and so published to the friends, is not accepted again when
  the same order comes back at any later time: neither a new order, nor a partial fill, nor a
  cancellation circulates for ever.
\<close>

theorem accepted_order_not_accepted_again:
  assumes "db_up E" and "books_inv s" and "fresh_ref s r" and "no_quote (oid s r)"
    and "clock_ok s (obj s r)" and "sd \<noteq> Mine" and "OrderBook_processOrder E sd r s = (Inr ZR_SUCCESS, t)"
    and "clock_ok (arrive (obj s r) now t) (obj s r)"
  shows "fst (OrderBook_processOrder E sd (b_next t) (arrive (obj s r) now t)) \<in> {Inr ZR_FINISH, Inr ZR_FAILURE}"
proof -
  let ?u = "arrive (obj s r) now t" and ?q = "b_next t"
  have p: "fst (processed E sd r s) = ZR_SUCCESS" "t = snd (processed E sd r s)"
    using processOrder_ok [OF assms(1,2,3,5), of sd] assms(7) by simp_all
  have inv: "books_inv t" using books_inv_processed [OF assms(2,3,4,6), of E] p(2) by simp
  have o: "obj ?u ?q = obj s r" by simp
  have ok: "OrderBook_processOrder E sd ?q ?u = (Inr (fst (processed E sd ?q ?u)), snd (processed E sd ?q ?u))"
    using books_inv_arrive [OF inv] processOrder_ok [OF assms(1), of ?u ?q sd] assms(8) o by simp
  have w: "with_id ?u sd (o_order_id (obj s r)) = with_id t sd (oid s r)"
    by (simp add: with_id_arrive [OF inv] oid_def)
  have "fst (processed E sd ?q ?u) \<noteq> ZR_SUCCESS"
  proof (cases "o_purpose (obj s r) \<in> {FILLED, CANCEL}")
    case True
    with processed_SUCCESS [OF assms(2,3,4,6) p] have "with_id t sd (oid s r) = None" by simp
    with True w show ?thesis by (auto simp: processed_def Let_def o)
  next
    case False
    with processed_SUCCESS [OF assms(2,3,4,6) p]
    have z: "with_id t sd (oid s r) = Some r" and a: "o_amount (obj t r) = o_amount (obj s r)" by simp_all
    have "r < ?q" using in_refs_less [OF inv] with_id_Some [OF z] by blast
    then have "o_amount (obj ?u r) = o_amount (obj s r)" using a by simp
    with False w z show ?thesis by (auto simp: processed_def Let_def o)
  qed
  then show ?thesis using ok by (cases "fst (processed E sd ?q ?u)") simp_all
qed

section \<open>Timeouts\<close>

text \<open>My own orders are the marked ones, and they are the objects of my list.\<close>

definition mine_inv :: "'z bookw_scheme \<Rightarrow> bool" where
  "mine_inv s \<longleftrightarrow> (\<forall>r\<in>set (refs s Bids) \<union> set (refs s Asks).
     o_isMyOrder (obj s r) \<longleftrightarrow> r \<in> set (refs s Mine))"

definition expired :: "ext \<Rightarrow> 'z bookw_scheme \<Rightarrow> oref \<Rightarrow> bool" where
  "expired E s r \<longleftrightarrow> w_now s - o_timeStamp (obj s r) > Order_timeout (x_build E) \<and> o_commitment (obj s r) = 0"

definition expire_one :: "ext \<Rightarrow> side \<Rightarrow> oref \<Rightarrow> 'z bookw_scheme \<Rightarrow> 'z bookw_scheme" where
  "expire_one E sd r s =
     (let s1 = removed E sd r s in freed r (if o_isMyOrder (obj s r) then removed E Mine r s1 else s1))"

lemma distinct_refs: "books_inv s \<Longrightarrow> distinct (refs s sd)"
  using books_inv_book [of s sd] by (simp add: book_inv_def distinct_map)

lemma mine_iff: "mine_inv s \<Longrightarrow> sd \<noteq> Mine \<Longrightarrow> r \<in> set (refs s sd) \<Longrightarrow>
   o_isMyOrder (obj s r) \<longleftrightarrow> r \<in> set (refs s Mine)"
  by (cases sd) (auto simp: mine_inv_def)

lemma expire_one_simps:
  assumes "books_inv s" and "mine_inv s" and "sd \<noteq> Mine" and "r \<in> set (refs s sd)"
  shows "refs (expire_one E sd r s) sd' = filter (\<lambda>q. q \<noteq> r) (refs s sd')"
    and "b_heap (expire_one E sd r s) = (b_heap s)(r := None)"
    and "w_now (expire_one E sd r s) = w_now s"
proof -
  have f: "remove1 r (refs s x) = filter (\<lambda>q. q \<noteq> r) (refs s x)" for x
    using distinct_refs [OF assms(1), of x] by (simp add: distinct_remove1_removeAll removeAll_filter_not_eq eq_commute)
  have id: "filter (\<lambda>q. q \<noteq> r) (refs s x) = refs s x" if "r \<notin> set (refs s x)" for x
    using that by (auto simp: filter_id_conv)
  have dj: "set (refs s Bids) \<inter> set (refs s Asks) = {}" using assms(1) by (simp add: books_inv_def)
  note m = mine_iff [OF assms(2-4)]
  have o: "sd = Bids \<Longrightarrow> filter (\<lambda>q. q \<noteq> r) (refs s Asks) = refs s Asks"
    "sd = Asks \<Longrightarrow> filter (\<lambda>q. q \<noteq> r) (refs s Bids) = refs s Bids"
    "r \<notin> set (refs s Mine) \<Longrightarrow> filter (\<lambda>q. q \<noteq> r) (refs s Mine) = refs s Mine"
    using dj assms(4) by (blast intro: id)+
  show "refs (expire_one E sd r s) sd' = filter (\<lambda>q. q \<noteq> r) (refs s sd')"
    using m f o assms(3,4) by (cases sd; cases sd') (simp_all add: expire_one_def Let_def)
  show "b_heap (expire_one E sd r s) = (b_heap s)(r := None)" "w_now (expire_one E sd r s) = w_now s"
    by (simp_all add: expire_one_def Let_def)
qed

lemma expire_one_inv:
  assumes "books_inv s" and "mine_inv s" and "sd \<noteq> Mine" and "r \<in> set (refs s sd)"
  shows "books_inv (expire_one E sd r s)" and "mine_inv (expire_one E sd r s)"
proof -
  note sim = expire_one_simps [OF assms]
  let ?s1 = "if o_isMyOrder (obj s r) then removed E Mine r (removed E sd r s) else removed E sd r s"
  have e: "expire_one E sd r s = freed r ?s1" by (simp add: expire_one_def Let_def)
  have "r \<notin> set (refs ?s1 sd')" for sd'
    using sim(1) [where E = E and sd' = sd'] unfolding e freed_simps by simp
  moreover have "books_inv ?s1" using assms(1) by (simp add: books_inv_removed)
  ultimately show "books_inv (expire_one E sd r s)" unfolding e by (intro books_inv_freed)
  show "mine_inv (expire_one E sd r s)"
    using assms(2) unfolding mine_inv_def sim by auto
qed

lemma timeout_one_ok:
  assumes up: "db_up E" and inv: "books_inv s" and mi: "mine_inv s" and sd: "sd \<noteq> Mine"
    and r: "r \<in> set (refs s sd)" and ck: "in_i64 (w_now s - o_timeStamp (obj s r))"
  shows "timeout_one E sd (w_now s) r s = (Inr (), if expired E s r then expire_one E sd r s else s)"
proof -
  note bi = books_inv_book [OF inv, of sd]
  have rd: "r \<in> dom (b_heap s)" using bi r by (auto simp: book_inv_def)
  have i: "o_order_id (obj s r) = oid s r" by (simp add: oid_def)
  note g = get_order_ok [OF rd]
  show ?thesis
  proof (cases "expired E s r")
    case False
    then show ?thesis using ck by (auto simp: timeout_one_def bnd_def g prog_apply whn_def expired_def)
  next
    case True
    let ?s1 = "removed E sd r s"
    have r1: "OrderBook_remove E sd (oid s r) s = (Inr (Some r), ?s1)" by (rule remove_Some [OF up bi r])
    show ?thesis
    proof (cases "o_isMyOrder (obj s r)")
      case m: True
      have "r \<in> set (refs ?s1 Mine)" using mine_iff [OF mi sd r] m sd by simp
      from remove_Some [OF up books_inv_book [OF books_inv_removed [OF inv]] this]
      have "OrderBook_remove E Mine (oid s r) ?s1 = (Inr (Some r), removed E Mine r ?s1)" by simp
      moreover have "delete_order r (removed E Mine r ?s1) = (Inr (), freed r (removed E Mine r ?s1))"
        using rd by (simp add: delete_order_def bnd_def get_order_ok prog_apply freed_def)
      ultimately show ?thesis
        using True m ck r1 by (simp add: timeout_one_def bnd_def thn_def g prog_apply whn_def expired_def
            expire_one_def Let_def i)
    next
      case m: False
      have "delete_order r ?s1 = (Inr (), freed r ?s1)"
        using rd by (simp add: delete_order_def bnd_def get_order_ok prog_apply freed_def)
      then show ?thesis
        using True m ck r1 by (simp add: timeout_one_def bnd_def thn_def g prog_apply whn_def expired_def
            expire_one_def Let_def i)
    qed
  qed
qed

lemma timeout_loop:
  assumes "db_up E" and "sd \<noteq> Mine"
  shows "books_inv s \<Longrightarrow> mine_inv s \<Longrightarrow> distinct rs \<Longrightarrow> set rs \<subseteq> set (refs s sd) \<Longrightarrow>
    \<forall>r\<in>set rs. in_i64 (w_now s - o_timeStamp (obj s r)) \<Longrightarrow>
    \<exists>t. for_each rs (timeout_one E sd (w_now s)) s = (Inr (), t) \<and> books_inv t \<and> mine_inv t \<and>
      (\<forall>sd'. refs t sd' = filter (\<lambda>r. \<not> (r \<in> set rs \<and> expired E s r)) (refs s sd')) \<and>
      b_heap t = (\<lambda>r. if r \<in> set rs \<and> expired E s r then None else b_heap s r)"
proof (induction rs arbitrary: s)
  case Nil
  then show ?case by (simp add: prog_apply)
next
  case (Cons r rs)
  have r: "r \<in> set (refs s sd)" "r \<notin> set rs" and ck: "in_i64 (w_now s - o_timeStamp (obj s r))"
    using Cons.prems(3-5) by simp_all
  note one = timeout_one_ok [OF assms(1) Cons.prems(1,2) assms(2) r(1) ck]
  let ?s = "if expired E s r then expire_one E sd r s else s"
  note sim = expire_one_simps [OF Cons.prems(1,2) assms(2) r(1)]
  have now: "w_now ?s = w_now s" using sim(3) by simp
  have heap: "b_heap ?s = (if expired E s r then (b_heap s)(r := None) else b_heap s)" using sim(2) by simp
  have same: "obj ?s q = obj s q" "expired E ?s q = expired E s q" if "q \<in> set rs" for q
    using that r(2) now heap by (auto simp: expired_def)
  have rf: "refs ?s sd' = filter (\<lambda>q. \<not> (q = r \<and> expired E s r)) (refs s sd')" for sd'
    using sim(1) by simp
  have "books_inv ?s" "mine_inv ?s" "distinct rs"
    using Cons.prems(1-3) expire_one_inv [OF Cons.prems(1,2) assms(2) r(1)] by simp_all
  moreover have "set rs \<subseteq> set (refs ?s sd)" using Cons.prems(4) r(2) unfolding rf by auto
  moreover have "\<forall>q\<in>set rs. in_i64 (w_now ?s - o_timeStamp (obj ?s q))"
    using Cons.prems(5) same(1) unfolding now by simp
  ultimately obtain t where t: "for_each rs (timeout_one E sd (w_now s)) ?s = (Inr (), t)"
    "books_inv t" "mine_inv t"
    "\<forall>sd'. refs t sd' = filter (\<lambda>q. \<not> (q \<in> set rs \<and> expired E ?s q)) (refs ?s sd')"
    "b_heap t = (\<lambda>q. if q \<in> set rs \<and> expired E ?s q then None else b_heap ?s q)"
    using Cons.IH [of ?s] unfolding now by blast
  have ex: "q \<in> set rs \<and> expired E ?s q \<longleftrightarrow> q \<in> set rs \<and> expired E s q" for q
    using same(2) by blast
  have "refs t sd' = filter (\<lambda>q. \<not> (q \<in> set (r # rs) \<and> expired E s q)) (refs s sd')" for sd'
    using t(4) unfolding ex rf by (auto intro!: filter_cong)
  moreover have "b_heap t = (\<lambda>q. if q \<in> set (r # rs) \<and> expired E s q then None else b_heap s q)"
    unfolding t(5) ex heap by auto
  ultimately show ?case
    using t(1-3) one by (intro exI [of _ t]) (simp add: thn_def bnd_def)
qed

text \<open>
  C21: timing out a side of the book removes from it, from my own list and from the heap exactly
  its orders that are older than the timeout and committed to no transaction; every other order
  stays in place and the lists stay well-formed.
\<close>

theorem timeoutOrders_exact:
  assumes "db_up E" and "books_inv s" and "mine_inv s" and "sd \<noteq> Mine"
    and "\<forall>r\<in>set (refs s sd). in_i64 (w_now s - o_timeStamp (obj s r))"
  shows "\<exists>t. OrderBook_timeoutOrders E sd s = (Inr (), t) \<and> books_inv t \<and> mine_inv t \<and>
    (\<forall>sd'. refs t sd' = filter (\<lambda>r. \<not> (r \<in> set (refs s sd) \<and> expired E s r)) (refs s sd')) \<and>
    b_heap t = (\<lambda>r. if r \<in> set (refs s sd) \<and> expired E s r then None else b_heap s r)"
  using timeout_loop [OF assms(1,4,2,3) distinct_refs [OF assms(2)] order.refl assms(5)]
  by (simp add: OrderBook_timeoutOrders_def bnd_def prog_apply)

section \<open>Witnesses\<close>

definition demo_book :: "oref list \<Rightarrow> book" where
  "demo_book rs = \<lparr>m_orders = rs, m_filteredOrders = [], m_currency = Some 1\<rparr>"

definition demo_bookw :: "Order list \<Rightarrow> oref list \<Rightarrow> oref list \<Rightarrow> oref list \<Rightarrow> bookw" where
  "demo_bookw ords bids asks mine = payw.extend (demo_payw [])
     \<lparr>b_heap = map_of (enumerate 0 ords), b_next = length ords,
      b_book = (\<lambda>sd. demo_book (case sd of Bids \<Rightarrow> bids | Asks \<Rightarrow> asks | Mine \<Rightarrow> mine))\<rparr>"

lemma demo_bookw_simps [simp]:
  "b_heap (demo_bookw ords bids asks mine) = map_of (enumerate 0 ords)"
  "b_next (demo_bookw ords bids asks mine) = length ords"
  "b_book (demo_bookw ords bids asks mine) sd = demo_book (case sd of Bids \<Rightarrow> bids | Asks \<Rightarrow> asks | Mine \<Rightarrow> mine)"
  "w_now (demo_bookw ords bids asks mine) = 0"
  by (simp_all add: demo_bookw_def payw.defs demo_payw_def dbw.defs demo_peers_def demo_dbw_def)

lemma demo_book_simps [simp]: "m_orders (demo_book rs) = rs" "m_currency (demo_book rs) = Some 1"
  by (simp_all add: demo_book_def)

lemmas demo_order_simps = demo_order_def new_Order_def

theorem filterOrders_best_first_witness:
  "\<exists>fs. fst (filterOrders demo Bids 1 (demo_bookw [demo_order ''a'' BID 1 5, demo_order ''b'' BID 1 7] [0, 1] [] []))
     = Inr fs \<and> mset fs = {#0, 1#}"
proof -
  let ?s = "demo_bookw [demo_order ''a'' BID 1 5, demo_order ''b'' BID 1 7] [0, 1] [] []"
  have i: "book_inv ?s Bids"
    by (simp add: book_inv_def oid_def demo_order_simps no_quote_def numeral_eq_Suc)
  have t: "\<forall>r\<in>set (refs ?s Bids). o_orderType (obj ?s r) = BID" by (simp add: demo_order_simps)
  from filterOrders_best_first [OF demo_sorts i t, of 1] show ?thesis
    by (auto simp: demo_order_simps)
qed

lemma demo_fresh:
  "books_inv (demo_bookw [demo_order ''a'' BID 1 5] [] [] []) \<and>
   fresh_ref (demo_bookw [demo_order ''a'' BID 1 5] [] [] []) 0"
  by (simp add: books_inv_def book_inv_def fresh_ref_def dom_def)

theorem processOrder_keeps_books_witness:
  "\<exists>v t. OrderBook_processOrder demo Bids 0 (demo_bookw [demo_order ''a'' BID 1 5] [] [] []) = (Inr v, t) \<and> books_inv t"
  using processOrder_keeps_books [OF demo_db_up conjunct1 [OF demo_fresh] conjunct2 [OF demo_fresh], of Bids]
  by (simp add: oid_def demo_order_simps no_quote_def clock_ok_def in_i64_def)

theorem accepted_order_not_accepted_again_witness:
  "\<exists>t. OrderBook_processOrder demo Bids 0 (demo_bookw [demo_order ''a'' BID 1 5] [] [] []) = (Inr ZR_SUCCESS, t) \<and>
     fst (OrderBook_processOrder demo Bids (b_next t) (arrive (demo_order ''a'' BID 1 5) 9 t)) \<in> {Inr ZR_FINISH, Inr ZR_FAILURE}"
proof -
  let ?o = "demo_order ''a'' BID 1 5" and ?s = "demo_bookw [demo_order ''a'' BID 1 5] [] [] []"
  have o: "obj ?s 0 = ?o" by simp
  have q: "no_quote (oid ?s 0)" by (simp add: oid_def demo_order_simps no_quote_def)
  have ck: "clock_ok ?s (obj ?s 0)" "clock_ok (arrive (obj ?s 0) 9 t) (obj ?s 0)" for t :: bookw
    by (simp_all add: clock_ok_def in_i64_def demo_order_simps)
  have "fst (processed demo Bids 0 ?s) = ZR_SUCCESS"
    by (simp add: processed_def Let_def with_id_def in_time_def demo_order_simps Order_timeout_def split: build.split)
  then obtain t where t: "OrderBook_processOrder demo Bids 0 ?s = (Inr ZR_SUCCESS, t)"
    using processOrder_ok [OF demo_db_up conjunct1 [OF demo_fresh] conjunct2 [OF demo_fresh] ck(1), of Bids] by simp
  from accepted_order_not_accepted_again [OF demo_db_up conjunct1 [OF demo_fresh] conjunct2 [OF demo_fresh] q ck(1) _ t ck(2)]
    t o show ?thesis by (intro exI [of _ t]) simp
qed

theorem timeoutOrders_exact_witness:
  "\<exists>t. OrderBook_timeoutOrders demo Asks (demo_bookw
       [(demo_order ''a'' ASK 1 5)\<lparr>o_timeStamp := - 99999999\<rparr>, demo_order ''b'' ASK 1 5] [] [0, 1] []) = (Inr (), t) \<and>
     refs t Asks = [1]"
proof -
  let ?s = "demo_bookw [(demo_order ''a'' ASK 1 5)\<lparr>o_timeStamp := - 99999999\<rparr>, demo_order ''b'' ASK 1 5] [] [0, 1] []"
  have i: "books_inv ?s"
    by (simp add: books_inv_def book_inv_def oid_def demo_order_simps no_quote_def dom_def numeral_eq_Suc)
  have m: "mine_inv ?s" by (simp add: mine_inv_def demo_order_simps)
  have c: "\<forall>r\<in>set (refs ?s Asks). in_i64 (w_now ?s - o_timeStamp (obj ?s r))"
    by (simp add: in_i64_def demo_order_simps)
  have e: "expired demo ?s 0" "\<not> expired demo ?s 1"
    by (simp_all add: expired_def demo_order_simps Order_timeout_def demo_def)
  from timeoutOrders_exact [OF demo_db_up i m _ c] obtain t where
    "OrderBook_timeoutOrders demo Asks ?s = (Inr (), t)"
    "\<forall>sd'. refs t sd' = filter (\<lambda>r. \<not> (r \<in> set (refs ?s Asks) \<and> expired demo ?s r)) (refs ?s sd')" by auto
  with e show ?thesis by simp
qed

end
