(* ===== verification/Contracts.thy ===== *)
theory Contracts
  imports BookLaws
begin

text \<open>
  \<^verbatim>\<open>src/BtcContract.h\<close> and \<^verbatim>\<open>src/BtcContract.cpp\<close>: the contracts that pay for Bitcoin once the
  agreed transaction is confirmed. A contract is an object with an address, since the
  transaction managers point to it; the static list holds the addresses of the live ones.
\<close>

section \<open>State\<close>

type_synonym cref = nat

record conw = bookw +
  k_heap :: "cref \<rightharpoonup> BtcContract"
  k_next :: nat
  k_contracts :: "cref list"

definition reqConfirmations :: "build \<Rightarrow> nat" where
  "reqConfirmations b = (case b of Testnet \<Rightarrow> 2 | Prodnet \<Rightarrow> 6)"

definition contract_timeout :: int where
  "contract_timeout = 86400000"

definition get_contract :: "cref \<Rightarrow> ('z conw_scheme, BtcContract) prog" where
  "get_contract r = deref k_heap r"

definition upd_contract :: "cref \<Rightarrow> (BtcContract \<Rightarrow> BtcContract) \<Rightarrow> ('z conw_scheme, unit) prog" where
  "upd_contract r f = bnd (get_contract r) (\<lambda>k. modify (\<lambda>w. w\<lparr>k_heap := (k_heap w)(r \<mapsto> f k)\<rparr>))"

text \<open>\<^verbatim>\<open>delete\<close> of a contract and its erasure from the list.\<close>

definition drop_contract :: "cref \<Rightarrow> ('z conw_scheme, unit) prog" where
  "drop_contract r = bnd (get_contract r) (\<lambda>_.
     modify (\<lambda>w. w\<lparr>k_heap := (k_heap w)(r := None), k_contracts := remove1 r (k_contracts w)\<rparr>))"

section \<open>Construction\<close>

text \<open>
  A new contract of a receiver is cut down to what the friend's credit line can pay and its
  price is allocated; the result of the allocation is not looked at.
\<close>

definition receiver_funds :: "ext \<Rightarrow> ZR_Number \<Rightarrow> ZR_Number \<Rightarrow> ZR_Number \<Rightarrow> string \<Rightarrow> PeerAddress
    \<Rightarrow> ('z conw_scheme, ZR_Number) prog" where
  "receiver_funds E btcAmount fee price currencySym counterParty =
     bnd (new_Credit E counterParty currencySym) (\<lambda>c0.
     bnd (Credit_loadPeer E c0) (\<lambda>c.
       if getPeerAvailable c \<le> fee then throw (Runtime_error ''Insufficient funds'')
       else if getPeerAvailable c < btcAmount * price + fee then
         let fiatAmount = getPeerAvailable c - fee in
         bnd (lift (zr_div fiatAmount price)) (\<lambda>amount.
         bnd (Credit_allocate E fiatAmount c) (\<lambda>_. ret amount))
       else bnd (Credit_allocate E (btcAmount * price) c) (\<lambda>_. ret btcAmount)))"

definition new_BtcContract :: "ext \<Rightarrow> ZR_Number \<Rightarrow> ZR_Number \<Rightarrow> ZR_Number \<Rightarrow> string \<Rightarrow> Party \<Rightarrow> PeerAddress
    \<Rightarrow> int \<Rightarrow> ('z conw_scheme, cref) prog" where
  "new_BtcContract E btcAmount fee price currencySym party counterParty creationtime =
     bnd (gets w_now) (\<lambda>now.
     bnd (if creationtime = 0 \<and> party = RECEIVER
          then receiver_funds E btcAmount fee price currencySym counterParty else ret btcAmount) (\<lambda>amount.
     bnd (gets k_next) (\<lambda>r.
     thn (modify (\<lambda>w. w\<lparr>k_heap := (k_heap w)(r \<mapsto> \<lparr>k_btcTxId = [], k_btcAmount = amount, k_price = price,
            k_currencySym = currencySym, k_party = party, k_counterParty = counterParty,
            k_activated = False, k_destAddress = [],
            k_creationtime = (if creationtime = 0 then now else creationtime), k_fee = fee\<rparr>),
            k_next := Suc r, k_contracts := k_contracts w @ [r]\<rparr>))
       (ret r))))"

section \<open>Operations\<close>

definition deallocateFunds :: "ext \<Rightarrow> BtcContract \<Rightarrow> ZR_Number \<Rightarrow> ('z conw_scheme, unit) prog" where
  "deallocateFunds E k amount =
     bnd (new_Credit E (k_counterParty k) (k_currencySym k)) (\<lambda>c0.
     bnd (Credit_loadPeer E c0) (\<lambda>c.
     bnd (Credit_deallocate E amount c) (\<lambda>_. ret ())))"

definition setBtcAmount :: "ext \<Rightarrow> cref \<Rightarrow> ZR_Number \<Rightarrow> ('z conw_scheme, unit) prog" where
  "setBtcAmount E r btcAmount =
     bnd (get_contract r) (\<lambda>k.
     let fiatAmount1 = getFiatAmount k; k' = k\<lparr>k_btcAmount := btcAmount\<rparr>; fiatAmount2 = getFiatAmount k' in
     thn (upd_contract r (\<lambda>k. k\<lparr>k_btcAmount := btcAmount\<rparr>))
       (whn (k_party k = RECEIVER) (deallocateFunds E k' (fiatAmount1 - fiatAmount2))))"

definition activate :: "cref \<Rightarrow> ('z conw_scheme, unit) prog" where
  "activate r = upd_contract r (\<lambda>k. k\<lparr>k_activated := True\<rparr>)"

definition setBtcAddress :: "cref \<Rightarrow> BitcoinAddress \<Rightarrow> ('z conw_scheme, unit) prog" where
  "setBtcAddress r addr = upd_contract r (\<lambda>k. k\<lparr>k_destAddress := addr\<rparr>)"

definition setBtcTxId :: "cref \<Rightarrow> TransactionId \<Rightarrow> ('z conw_scheme, unit) prog" where
  "setBtcTxId r tid = upd_contract r (\<lambda>k. k\<lparr>k_btcTxId := tid\<rparr>)"

definition persist :: "ext \<Rightarrow> cref \<Rightarrow> ('z conw_scheme, unit) prog" where
  "persist E r = bnd (get_contract r) (addBtcContract E)"

definition cannot_execute :: "ext \<Rightarrow> ZR_Number \<Rightarrow> PeerAddress \<Rightarrow> string" where
  "cannot_execute E fiat cp = ''Cannot execute payment of '' @ toDecimalStdString E fiat @ '' to '' @ cp"

definition execute :: "ext \<Rightarrow> BtcContract \<Rightarrow> ('z conw_scheme, unit) prog" where
  "execute E k =
     (let fiatAmount = k_btcAmount k * k_price k;
          pay = (\<lambda>cls. bnd (new_Payment E cls (k_counterParty k) fiatAmount (k_currencySym k) PAYMENT) (\<lambda>p.
            if Payment_init p = ZR_FAILURE then placeMsg (cannot_execute E fiatAmount (k_counterParty k))
            else bnd (Payment_commit E p) (\<lambda>_. ret ())))
      in if k_party k = SENDER then pay Spender
         else thn (deallocateFunds E k (getFiatAmount k)) (pay Receiver))"

definition cannot_remove :: "BtcContract \<Rightarrow> exn \<Rightarrow> string" where
  "cannot_remove k e = ''Exception caught: '' @ what_sliced e @ '' Can't remove contract '' @ k_btcTxId k"

definition contract_poll :: "ext \<Rightarrow> cref \<Rightarrow> ('z conw_scheme, bool) prog" where
  "contract_poll E r =
     bnd (get_contract r) (\<lambda>k.
     bnd (gets w_now) (\<lambda>now.
     if now - k_creationtime k > contract_timeout then
       thn (whn (k_btcTxId k \<noteq> [])
         (try_catch catch_exception (rmBtcContract E (k_btcTxId k) (Party_code (k_party k)))
           (\<lambda>e. placeMsg (cannot_remove k e))))
         (ret True)
     else if \<not> k_activated k then ret False
     else bnd (rpc_call (\<lambda>n. x_confirmations E n (k_btcTxId k))) (\<lambda>confirmations.
       if confirmations \<ge> reqConfirmations (x_build E) then
         thn (beginTx E)
         (thn (execute E k)
         (thn (whn (k_btcTxId k \<noteq> [])
            (try_catch catch_exception
              (thn (rmBtcContract E (k_btcTxId k) (Party_code (k_party k))) (commitTx E))
              (\<lambda>e. thn (placeMsg (cannot_remove k e)) (rollbackTx E))))
           (ret True)))
       else ret False)))"

section \<open>The static operations\<close>

definition pollContracts :: "ext \<Rightarrow> ('z conw_scheme, unit) prog" where
  "pollContracts E =
     bnd (gets k_contracts) (\<lambda>ks. for_each ks (\<lambda>r. bnd (contract_poll E r) (\<lambda>done.
       whn done (drop_contract r))))"

fun find_contract :: "(BtcContract \<Rightarrow> bool) \<Rightarrow> cref list \<Rightarrow> ('z conw_scheme, cref option) prog" where
  "find_contract p [] = ret None"
| "find_contract p (r # rs) = bnd (get_contract r) (\<lambda>k. if p k then ret (Some r) else find_contract p rs)"

definition rmContract :: "ext \<Rightarrow> cref \<Rightarrow> ('z conw_scheme, unit) prog" where
  "rmContract E contract =
     bnd (gets k_contracts) (\<lambda>ks.
     if ks = [] then ret () else
     bnd (get_contract contract) (\<lambda>k.
     bnd (find_contract (\<lambda>c. k_counterParty c = k_counterParty k \<and> k_btcTxId c = k_btcTxId k) ks) (\<lambda>m. case m of
         None \<Rightarrow> ret ()
       | Some r \<Rightarrow> bnd (get_contract r) (\<lambda>c.
           thn (whn (k_btcTxId k \<noteq> [])
             (try_catch catch_exception (rmBtcContract E (k_btcTxId k) (Party_code (k_party k)))
               (\<lambda>e. placeMsg (cannot_remove k e))))
           (thn (whn (k_party k = RECEIVER) (deallocateFunds E c (getFiatAmount c)))
                (drop_contract r))))))"

section \<open>Contracts in the database\<close>

text \<open>The rows are written with one of the two numbers; any other becomes \<open>SENDER\<close> here, which is all the code asks of it: not a receiver.\<close>

definition Party_of :: "nat \<Rightarrow> Party" where
  "Party_of n = (if n = 0 then RECEIVER else SENDER)"

definition btccontracts_callback :: "ext \<Rightarrow> contract_row \<Rightarrow> ('z conw_scheme, cref) prog" where
  "btccontracts_callback E row =
     bnd (lift (fromDecimalString (cr_btcAmount row))) (\<lambda>btcAmount.
     bnd (lift (fromDecimalString (cr_price row))) (\<lambda>price.
     bnd (lift (fromDecimalString (cr_fee row))) (\<lambda>fee.
     bnd (new_BtcContract E btcAmount fee price (cr_currency row) (Party_of (cr_party row))
            (cr_counterparty row) (cr_creationtime row)) (\<lambda>r.
     thn (setBtcTxId r (cr_btcTxId row))
     (thn (setBtcAddress r (cr_destAddress row))
     (thn (activate r) (ret r)))))))"

definition loadBtcContracts :: "ext \<Rightarrow> ('z conw_scheme, unit) prog" where
  "loadBtcContracts E =
     bnd (select_btccontracts E) (\<lambda>rows.
     bnd (list_rows (btccontracts_callback E) rows []) (\<lambda>_. ret ()))"

end
