(* ===== verification/Items.thy ===== *)
theory Items
  imports Contracts "HOL-Library.Word"
begin

text \<open>
  \<^verbatim>\<open>src/RSZeroReserveItems.h\<close>, \<^verbatim>\<open>src/RSZeroReserveItems.cpp\<close>, \<^verbatim>\<open>src/RSZRRemoteItems.h\<close>,
  \<^verbatim>\<open>src/RSZRRemoteItems.cpp\<close>: the items that travel between nodes, their sizes, their writing
  into a packet and their reading from one. The class hierarchy is a datatype with one
  constructor per class that is instantiated; a serialiser is the list of its calls of
  RetroShare's raw writers, a deserialiser the sequence of its calls of the raw readers.
\<close>

section \<open>Enumerations\<close>

datatype TxPhase = INIT | QUERY | VOTE_YES | VOTE_NO | COMMIT | ACK_COMMIT | ABORT | ABORT_REQUEST
  | TxPhase_other nat

fun TxPhase_code :: "TxPhase \<Rightarrow> nat" where
  "TxPhase_code INIT = 0"
| "TxPhase_code QUERY = 1"
| "TxPhase_code VOTE_YES = 2"
| "TxPhase_code VOTE_NO = 3"
| "TxPhase_code COMMIT = 4"
| "TxPhase_code ACK_COMMIT = 5"
| "TxPhase_code ABORT = 6"
| "TxPhase_code ABORT_REQUEST = 7"
| "TxPhase_code (TxPhase_other n) = n"

definition TxPhase_of :: "nat \<Rightarrow> TxPhase" where
  "TxPhase_of n = (if n < 8 then [INIT, QUERY, VOTE_YES, VOTE_NO, COMMIT, ACK_COMMIT, ABORT, ABORT_REQUEST] ! n
     else TxPhase_other n)"

datatype Role = Coordinator | Payee | Hop | Role_other nat

fun Role_code :: "Role \<Rightarrow> nat" where
  "Role_code Coordinator = 0"
| "Role_code Payee = 1"
| "Role_code Hop = 2"
| "Role_code (Role_other n) = n"

definition Role_of :: "nat \<Rightarrow> Role" where
  "Role_of n = (if n = 0 then Coordinator else if n = 1 then Payee else if n = 2 then Hop else Role_other n)"

datatype TunnelDirection = SERVER | CLIENT | TunnelDirection_other nat

fun TunnelDirection_code :: "TunnelDirection \<Rightarrow> nat" where
  "TunnelDirection_code SERVER = 0"
| "TunnelDirection_code CLIENT = 1"
| "TunnelDirection_code (TunnelDirection_other n) = n"

definition TunnelDirection_of :: "nat \<Rightarrow> TunnelDirection" where
  "TunnelDirection_of n = (if n = 0 then SERVER else if n = 1 then CLIENT else TunnelDirection_other n)"

datatype MsgType = REQUEST_ORDERBOOK | SENT_ORDERBOOK | MSG_INVALID | MsgType_other nat

fun MsgType_code :: "MsgType \<Rightarrow> nat" where
  "MsgType_code REQUEST_ORDERBOOK = 0"
| "MsgType_code SENT_ORDERBOOK = 1"
| "MsgType_code MSG_INVALID = 2"
| "MsgType_code (MsgType_other n) = n"

definition MsgType_of :: "nat \<Rightarrow> MsgType" where
  "MsgType_of n = (if n = 0 then REQUEST_ORDERBOOK else if n = 1 then SENT_ORDERBOOK
     else if n = 2 then MSG_INVALID else MsgType_other n)"

text \<open>The phases in the order of their codes.\<close>

instantiation TxPhase :: linorder
begin

definition less_eq_TxPhase :: "TxPhase \<Rightarrow> TxPhase \<Rightarrow> bool" where
  "less_eq_TxPhase a b \<longleftrightarrow> TxPhase_code a < TxPhase_code b \<or> a = b \<or>
     (TxPhase_code a = TxPhase_code b \<and> (\<forall>n. a \<noteq> TxPhase_other n))"

definition less_TxPhase :: "TxPhase \<Rightarrow> TxPhase \<Rightarrow> bool" where
  "less_TxPhase a b \<longleftrightarrow> a \<le> b \<and> \<not> b \<le> a"

instance
proof
  fix a b c :: TxPhase
  show "(a < b) = (a \<le> b \<and> \<not> b \<le> a)" by (simp add: less_TxPhase_def)
  show "a \<le> a" by (simp add: less_eq_TxPhase_def)
  show "a \<le> b \<Longrightarrow> b \<le> c \<Longrightarrow> a \<le> c" by (auto simp: less_eq_TxPhase_def)
  show "a \<le> b \<Longrightarrow> b \<le> a \<Longrightarrow> a = b"
    by (cases a; cases b) (auto simp: less_eq_TxPhase_def)
  show "a \<le> b \<or> b \<le> a"
    by (cases a; cases b) (auto simp: less_eq_TxPhase_def)
qed

end

section \<open>Items\<close>

text \<open>
  The role in an item that starts a transaction is not set by the sender's constructor.
\<close>

datatype item =
    OrderBookItem VirtualAddress Order
  | TxItem TxPhase TransactionId
  | InitTxItem TxPhase TransactionId "Role option" Payment
  | CreditItem Credit
  | MsgItem MsgType string
  | RemoteTxItem VirtualAddress TxPhase TunnelDirection string string

record packet =
  pk_peer :: PeerAddress
  pk_item :: item

fun PacketSubType :: "item \<Rightarrow> nat" where
  "PacketSubType (OrderBookItem _ _) = 1"
| "PacketSubType (TxItem _ _) = 2"
| "PacketSubType (InitTxItem _ _ _ _) = 3"
| "PacketSubType (CreditItem _) = 4"
| "PacketSubType (MsgItem _ _) = 5"
| "PacketSubType (RemoteTxItem _ _ _ _ _) = 7"

definition headersOffset :: nat where "headersOffset = 8"
definition CURRENCY_STRLEN :: nat where "CURRENCY_STRLEN = 3"
definition HOLLERITH_LEN_SPEC :: nat where "HOLLERITH_LEN_SPEC = 4"
definition PROTOCOL_VERSION :: nat where "PROTOCOL_VERSION = 0"
definition SERVICE_TYPE :: nat where "SERVICE_TYPE = 48879"

section \<open>Sizes\<close>

definition base_serial_size :: nat where
  "base_serial_size = headersOffset + 1"

definition remote_serial_size :: "VirtualAddress \<Rightarrow> nat" where
  "remote_serial_size addr = base_serial_size + length addr + HOLLERITH_LEN_SPEC"

definition tx_serial_size :: "TransactionId \<Rightarrow> nat" where
  "tx_serial_size txId = base_serial_size + 1 + length txId + HOLLERITH_LEN_SPEC"

definition OrderBook_serial_size :: "ext \<Rightarrow> VirtualAddress \<Rightarrow> Order \<Rightarrow> nat" where
  "OrderBook_serial_size E addr ord =
     remote_serial_size addr + (zr_length E (o_amount ord) + HOLLERITH_LEN_SPEC)
     + (zr_length E (o_price ord) + HOLLERITH_LEN_SPEC) + 1
     + (CURRENCY_STRLEN + HOLLERITH_LEN_SPEC) + 8
     + (length (o_order_id ord) + HOLLERITH_LEN_SPEC) + 1"

definition InitTx_serial_size :: "ext \<Rightarrow> TransactionId \<Rightarrow> Payment \<Rightarrow> nat" where
  "InitTx_serial_size E txId p =
     tx_serial_size txId + 1 + CURRENCY_STRLEN + HOLLERITH_LEN_SPEC
     + zr_length E (p_amount p) + HOLLERITH_LEN_SPEC + 1
     + length (p_referrer p) + HOLLERITH_LEN_SPEC"

definition Credit_serial_size :: "ext \<Rightarrow> Credit \<Rightarrow> nat" where
  "Credit_serial_size E c =
     base_serial_size + (CURRENCY_STRLEN + HOLLERITH_LEN_SPEC)
     + (zr_length E (c_credit c) + HOLLERITH_LEN_SPEC)
     + (zr_length E (c_our_credit c) + HOLLERITH_LEN_SPEC)
     + (zr_length E (c_balance c) + HOLLERITH_LEN_SPEC)"

definition Msg_serial_size :: "string \<Rightarrow> nat" where
  "Msg_serial_size msg = base_serial_size + 1 + (length msg + HOLLERITH_LEN_SPEC)"

definition RemoteTx_serial_size :: "VirtualAddress \<Rightarrow> string \<Rightarrow> string \<Rightarrow> nat" where
  "RemoteTx_serial_size addr payerId payload =
     remote_serial_size addr + 1 + 1 + length payload + HOLLERITH_LEN_SPEC
     + length payerId + HOLLERITH_LEN_SPEC"

fun serial_size :: "ext \<Rightarrow> item \<Rightarrow> nat" where
  "serial_size E (OrderBookItem addr ord) = OrderBook_serial_size E addr ord"
| "serial_size E (TxItem phase txId) = tx_serial_size txId"
| "serial_size E (InitTxItem phase txId role p) = InitTx_serial_size E txId p"
| "serial_size E (CreditItem c) = Credit_serial_size E c"
| "serial_size E (MsgItem t msg) = Msg_serial_size msg"
| "serial_size E (RemoteTxItem addr phase dir payerId payload) = RemoteTx_serial_size addr payerId payload"

lemmas size_defs = OrderBook_serial_size_def InitTx_serial_size_def Credit_serial_size_def Msg_serial_size_def
  RemoteTx_serial_size_def base_serial_size_def remote_serial_size_def tx_serial_size_def headersOffset_def
  HOLLERITH_LEN_SPEC_def CURRENCY_STRLEN_def zr_length_def

section \<open>The raw serialisers of RetroShare\<close>

text \<open>
  They are not under \<^verbatim>\<open>src/\<close>. A writer takes the buffer, its size, an offset and a value
  and gives its success, the buffer and the next offset; a reader gives its success, a value
  and the next offset. \<open>r_packet_id\<close> is the id of an item of this service with a sub type.
\<close>

type_synonym buffer = "8 word list"

record raw =
  r_packet_id :: "nat \<Rightarrow> nat"
  r_version_service :: nat
  r_version :: "nat \<Rightarrow> nat"
  r_service :: "nat \<Rightarrow> nat"
  r_subtype :: "nat \<Rightarrow> nat"
  r_setHeader :: "buffer \<Rightarrow> nat \<Rightarrow> nat \<Rightarrow> nat \<Rightarrow> bool \<times> buffer"
  r_getId :: "buffer \<Rightarrow> nat"
  r_getSize :: "buffer \<Rightarrow> nat"
  r_setUInt8 :: "buffer \<Rightarrow> nat \<Rightarrow> nat \<Rightarrow> nat \<Rightarrow> bool \<times> buffer \<times> nat"
  r_setUInt64 :: "buffer \<Rightarrow> nat \<Rightarrow> nat \<Rightarrow> nat \<Rightarrow> bool \<times> buffer \<times> nat"
  r_setString :: "buffer \<Rightarrow> nat \<Rightarrow> nat \<Rightarrow> string \<Rightarrow> bool \<times> buffer \<times> nat"
  r_getUInt8 :: "buffer \<Rightarrow> nat \<Rightarrow> nat \<Rightarrow> bool \<times> nat \<times> nat"
  r_getUInt64 :: "buffer \<Rightarrow> nat \<Rightarrow> nat \<Rightarrow> bool \<times> nat \<times> nat"
  r_getString :: "buffer \<Rightarrow> nat \<Rightarrow> nat \<Rightarrow> bool \<times> string \<times> nat"

section \<open>Writing\<close>

datatype field = F8 nat | F64 nat | FS string

fun set_field :: "raw \<Rightarrow> nat \<Rightarrow> field \<Rightarrow> bool \<times> buffer \<times> nat \<Rightarrow> bool \<times> buffer \<times> nat" where
  "set_field R tlvsize (F8 v) (ok, data, off) =
     (case r_setUInt8 R data tlvsize off v of (b, data', off') \<Rightarrow> (ok \<and> b, data', off'))"
| "set_field R tlvsize (F64 v) (ok, data, off) =
     (case r_setUInt64 R data tlvsize off v of (b, data', off') \<Rightarrow> (ok \<and> b, data', off'))"
| "set_field R tlvsize (FS v) (ok, data, off) =
     (case r_setString R data tlvsize off v of (b, data', off') \<Rightarrow> (ok \<and> b, data', off'))"

definition set_fields :: "raw \<Rightarrow> nat \<Rightarrow> field list \<Rightarrow> bool \<times> buffer \<times> nat \<Rightarrow> bool \<times> buffer \<times> nat" where
  "set_fields R tlvsize = fold (set_field R tlvsize)"

text \<open>\<^verbatim>\<open>RsZeroReserveItem::serialise\<close>: the header and the protocol version.\<close>

definition base_serialise :: "raw \<Rightarrow> nat \<Rightarrow> nat \<Rightarrow> buffer \<Rightarrow> bool \<times> buffer \<times> nat" where
  "base_serialise R subtype tlvsize data =
     (case r_setHeader R data tlvsize (r_packet_id R subtype) tlvsize of (b, data') \<Rightarrow>
        set_field R tlvsize (F8 PROTOCOL_VERSION) (b, data', headersOffset))"

definition u8 :: "nat \<Rightarrow> nat" where "u8 n = n mod 256"

definition u64 :: "int \<Rightarrow> nat" where "u64 v = nat (v mod 2 ^ 64)"

definition s64 :: "nat \<Rightarrow> int" where "s64 n = (if n < 2 ^ 63 then int n else int n - 2 ^ 64)"

text \<open>
  The fields of an item in the order of the calls; a symbol is read from the table, and the
  role may never have been set.
\<close>

definition OrderBook_fields :: "ext \<Rightarrow> VirtualAddress \<Rightarrow> Order \<Rightarrow> exn + field list" where
  "OrderBook_fields E addr ord =
     (if o_currency ord < length (currencySymbols (x_build E)) then
        Inr [FS addr, FS (toStdString E (o_amount ord)), FS (currencySymbols (x_build E) ! o_currency ord),
             F8 (u8 (OrderType_code (o_orderType ord))), FS (toStdString E (o_price ord)),
             F64 (u64 (o_timeStamp ord)), FS (o_order_id ord), F8 (u8 (Purpose_code (o_purpose ord)))]
      else Inl (Undefined Null_pointer))"

definition Tx_fields :: "TxPhase \<Rightarrow> TransactionId \<Rightarrow> field list" where
  "Tx_fields phase txId = [F8 (u8 (TxPhase_code phase)), FS txId]"

definition InitTx_fields :: "ext \<Rightarrow> TxPhase \<Rightarrow> TransactionId \<Rightarrow> Role option \<Rightarrow> Payment \<Rightarrow> exn + field list" where
  "InitTx_fields E phase txId role p =
     (case role of None \<Rightarrow> Inl (Undefined Uninitialised)
      | Some r \<Rightarrow> Inr (Tx_fields phase txId @ [F8 (u8 (Role_code r)),
             FS (toStdString E (p_amount p)), FS (c_currency (p_credit p)),
             F8 (u8 (Category_code (p_category p))), FS (p_referrer p)]))"

definition Credit_fields :: "ext \<Rightarrow> Credit \<Rightarrow> field list" where
  "Credit_fields E c = [FS (c_currency c), FS (toStdString E (c_credit c)), FS (toStdString E (c_our_credit c)),
     FS (toStdString E (c_balance c))]"

definition Msg_fields :: "MsgType \<Rightarrow> string \<Rightarrow> field list" where
  "Msg_fields t msg = [F8 (u8 (MsgType_code t)), FS msg]"

definition RemoteTx_fields :: "VirtualAddress \<Rightarrow> TxPhase \<Rightarrow> TunnelDirection \<Rightarrow> string \<Rightarrow> string \<Rightarrow> field list" where
  "RemoteTx_fields addr phase dir payerId payload =
     [FS addr, F8 (u8 (TxPhase_code phase)), F8 (u8 (TunnelDirection_code dir)), FS payerId, FS payload]"

fun item_fields :: "ext \<Rightarrow> item \<Rightarrow> exn + field list" where
  "item_fields E (OrderBookItem addr ord) = OrderBook_fields E addr ord"
| "item_fields E (TxItem phase txId) = Inr (Tx_fields phase txId)"
| "item_fields E (InitTxItem phase txId role p) = InitTx_fields E phase txId role p"
| "item_fields E (CreditItem c) = Inr (Credit_fields E c)"
| "item_fields E (MsgItem t msg) = Inr (Msg_fields t msg)"
| "item_fields E (RemoteTxItem addr phase dir payerId payload) = Inr (RemoteTx_fields addr phase dir payerId payload)"

lemmas fields_defs = OrderBook_fields_def Tx_fields_def InitTx_fields_def Credit_fields_def Msg_fields_def
  RemoteTx_fields_def

text \<open>These items compare the offset with the size at the end; the transaction items do not.\<close>

fun checks_size :: "item \<Rightarrow> bool" where
  "checks_size (TxItem _ _) = False"
| "checks_size (RemoteTxItem _ _ _ _ _) = False"
| "checks_size _ = True"

text \<open>
  The success, the packet and its size. An item that starts a transaction only finds out
  inside its base class that the buffer is too small, and goes on with an offset never set.
\<close>

definition serialise :: "ext \<Rightarrow> raw \<Rightarrow> item \<Rightarrow> buffer \<Rightarrow> nat \<Rightarrow> exn + bool \<times> buffer \<times> nat" where
  "serialise E R i data pktsize =
     (let tlvsize = serial_size E i in
      if pktsize < tlvsize then
        (case i of InitTxItem _ _ _ _ \<Rightarrow> Inl (Undefined Uninitialised) | _ \<Rightarrow> Inr (False, data, pktsize))
      else ebind (item_fields E i) (\<lambda>fs.
        case set_fields R tlvsize fs (base_serialise R (PacketSubType i) tlvsize data) of (ok, data', off) \<Rightarrow>
          Inr (ok \<and> (checks_size i \<longrightarrow> off = tlvsize), data', tlvsize)))"

section \<open>Reading\<close>

text \<open>The base class reads the protocol version; the others check the packet before they go on.\<close>

definition base_deserialise :: "raw \<Rightarrow> buffer \<Rightarrow> exn + nat" where
  "base_deserialise R data =
     (case r_getUInt8 R data (r_getSize R data) headersOffset of (_, protocolVersion, off) \<Rightarrow>
        if protocolVersion \<noteq> PROTOCOL_VERSION then Inl (Runtime_error ''Unknown protocol version'')
        else Inr off)"

definition right_type :: "raw \<Rightarrow> buffer \<Rightarrow> bool" where
  "right_type R data \<longleftrightarrow> r_version R (r_getId R data) = r_version_service R \<and>
     r_service R (r_getId R data) = SERVICE_TYPE"

definition check_packet :: "raw \<Rightarrow> buffer \<Rightarrow> nat \<Rightarrow> nat option \<Rightarrow> exn + unit" where
  "check_packet R data pktsize subtype =
     (if \<not> right_type R data \<or> (case subtype of None \<Rightarrow> False | Some t \<Rightarrow> t \<noteq> r_subtype R (r_getId R data))
      then Inl (Runtime_error ''Wrong packet type!'')
      else if pktsize < r_getSize R data then Inl (Runtime_error ''Not enough size!'')
      else Inr ())"

definition failed :: "exn + 'a" where
  "failed = Inl (Runtime_error ''Deserialisation error!'')"

definition deserialise_Msg :: "raw \<Rightarrow> buffer \<Rightarrow> nat \<Rightarrow> exn + item" where
  "deserialise_Msg R data pktsize =
     ebind (base_deserialise R data) (\<lambda>off0.
     ebind (check_packet R data pktsize (Some 5)) (\<lambda>_.
     let rssize = r_getSize R data;
         (ok1, msgType, off1) = r_getUInt8 R data rssize off0;
         (ok2, msg, off2) = r_getString R data rssize off1
     in if off2 \<noteq> rssize \<or> \<not> (ok1 \<and> ok2) then failed else Inr (MsgItem (MsgType_of msgType) msg)))"

definition deserialise_Credit :: "ext \<Rightarrow> raw \<Rightarrow> buffer \<Rightarrow> nat \<Rightarrow> ('z world_scheme, item) prog" where
  "deserialise_Credit E R data pktsize =
     bnd (lift (base_deserialise R data)) (\<lambda>off0.
     bnd (lift (check_packet R data pktsize (Some 4))) (\<lambda>_.
     let rssize = r_getSize R data;
         (ok1, currency, off1) = r_getString R data rssize off0
     in bnd (new_Credit E [] currency) (\<lambda>c.
     let (ok2, buf2, off2) = r_getString R data rssize off1
     in bnd (lift (fromFractionString E buf2)) (\<lambda>our.
     let (ok3, buf3, off3) = r_getString R data rssize off2
     in bnd (lift (fromFractionString E buf3)) (\<lambda>cr.
     let (ok4, buf4, off4) = r_getString R data rssize off3
     in bnd (lift (fromFractionString E buf4)) (\<lambda>bal.
       if off4 \<noteq> rssize \<or> \<not> (ok1 \<and> ok2 \<and> ok3 \<and> ok4) then lift failed
       else ret (CreditItem (c\<lparr>c_our_credit := our, c_credit := cr, c_balance := bal\<rparr>))))))))"

text \<open>The base part of both local transaction items: phase and id, and the offset after them.\<close>

definition deserialise_tx :: "raw \<Rightarrow> buffer \<Rightarrow> nat \<Rightarrow> bool \<Rightarrow> exn + TxPhase \<times> TransactionId \<times> nat" where
  "deserialise_tx R data pktsize is_tx =
     ebind (base_deserialise R data) (\<lambda>off0.
     ebind (if is_tx then check_packet R data pktsize (Some 2) else Inr ()) (\<lambda>_.
     let rssize = r_getSize R data;
         (ok1, txPhase, off1) = r_getUInt8 R data rssize off0;
         (ok2, txId, off2) = r_getString R data rssize off1
     in if \<not> (ok1 \<and> ok2) then failed else Inr (TxPhase_of txPhase, txId, off2)))"

definition deserialise_Tx :: "raw \<Rightarrow> buffer \<Rightarrow> nat \<Rightarrow> exn + item" where
  "deserialise_Tx R data pktsize =
     ebind (deserialise_tx R data pktsize True) (\<lambda>(phase, txId, _). Inr (TxItem phase txId))"

definition deserialise_InitTx :: "ext \<Rightarrow> raw \<Rightarrow> buffer \<Rightarrow> nat \<Rightarrow> ('z payw_scheme, item) prog" where
  "deserialise_InitTx E R data pktsize =
     bnd (lift (deserialise_tx R data pktsize False)) (\<lambda>(phase, txId, off0).
     bnd (lift (check_packet R data pktsize (Some 3))) (\<lambda>_.
     let rssize = r_getSize R data;
         (ok1, role, off1) = r_getUInt8 R data rssize off0;
         (ok2, s_amount, off2) = r_getString R data rssize off1
     in bnd (lift (fromFractionString E s_amount)) (\<lambda>amount.
     let (ok3, currency, off3) = r_getString R data rssize off2;
         (ok4, category, off4) = r_getUInt8 R data rssize off3;
         (ok5, referrer, off5) = r_getString R data rssize off4
     in if \<not> (ok1 \<and> ok2 \<and> ok3 \<and> ok4 \<and> ok5) then lift failed
        else bnd (new_Payment E Receiver [] amount currency (Category_of category)) (\<lambda>p.
          ret (InitTxItem phase txId (Some (Role_of role)) (p\<lparr>p_referrer := referrer\<rparr>))))))"

text \<open>The address of a remote item; whether it could be read is not looked at.\<close>

definition deserialise_remote :: "raw \<Rightarrow> buffer \<Rightarrow> exn + VirtualAddress \<times> nat" where
  "deserialise_remote R data =
     ebind (base_deserialise R data) (\<lambda>off0.
       case r_getString R data (r_getSize R data) off0 of (_, addr, off1) \<Rightarrow> Inr (addr, off1))"

definition deserialise_RemoteTx :: "raw \<Rightarrow> buffer \<Rightarrow> nat \<Rightarrow> exn + item" where
  "deserialise_RemoteTx R data pktsize =
     ebind (deserialise_remote R data) (\<lambda>(addr, off0).
     ebind (check_packet R data pktsize None) (\<lambda>_.
     let rssize = r_getSize R data;
         (_, txPhase, off1) = r_getUInt8 R data rssize off0;
         (_, direction, off2) = r_getUInt8 R data rssize off1;
         (_, payerId, off3) = r_getString R data rssize off2;
         (_, payload, off4) = r_getString R data rssize off3
     in Inr (RemoteTxItem addr (TxPhase_of txPhase) (TunnelDirection_of direction) payerId payload)))"

definition deserialise_OrderBook :: "ext \<Rightarrow> raw \<Rightarrow> buffer \<Rightarrow> nat \<Rightarrow> ('z world_scheme, item) prog" where
  "deserialise_OrderBook E R data pktsize =
     bnd (lift (deserialise_remote R data)) (\<lambda>(addr, off0).
     bnd (lift (check_packet R data pktsize (Some 1))) (\<lambda>_.
     let rssize = r_getSize R data;
         (ok1, amount, off1) = r_getString R data rssize off0
     in bnd (lift (fromFractionString E amount)) (\<lambda>amt.
     let (ok2, currency, off2) = r_getString R data rssize off1
     in bnd (getCurrencyBySymbol E currency) (\<lambda>cur.
     let (ok3, order_type, off3) = r_getUInt8 R data rssize off2;
         (ok4, price, off4) = r_getString R data rssize off3
     in bnd (lift (fromFractionString E price)) (\<lambda>prc.
     let (ok5, timestamp, off5) = r_getUInt64 R data rssize off4;
         (ok6, order_id, off6) = r_getString R data rssize off5;
         (ok7, order_purpose, off7) = r_getUInt8 R data rssize off6
     in if off7 \<noteq> rssize \<or> \<not> (ok1 \<and> ok2 \<and> ok3 \<and> ok4 \<and> ok5 \<and> ok6 \<and> ok7) then lift failed
        else ret (OrderBookItem addr (new_Order False order_id (OrderType_of order_type) amt prc cur
               (s64 timestamp) (Purpose_of order_purpose))))))))"

text \<open>The serialiser registered with RetroShare: any exception gives no item.\<close>

definition Serialiser_deserialise :: "ext \<Rightarrow> raw \<Rightarrow> buffer \<Rightarrow> nat \<Rightarrow> ('z payw_scheme, item option) prog" where
  "Serialiser_deserialise E R data pktsize =
     (if \<not> right_type R data then ret None
      else
       let t = r_subtype R (r_getId R data);
           some = (\<lambda>m. bnd m (\<lambda>i. ret (Some i)))
       in try_catch catch_exception
         (if t = 1 then some (deserialise_OrderBook E R data pktsize)
          else if t = 3 then some (deserialise_InitTx E R data pktsize)
          else if t = 2 then some (lift (deserialise_Tx R data pktsize))
          else if t = 4 then some (deserialise_Credit E R data pktsize)
          else if t = 5 then some (lift (deserialise_Msg R data pktsize))
          else if t = 7 then some (lift (deserialise_RemoteTx R data pktsize))
          else ret None)
         (\<lambda>_. ret None))"

text \<open>What the receiver of an item asks it for: the sender becomes the counterparty.\<close>

definition CreditItem_getCredit :: "PeerAddress \<Rightarrow> Credit \<Rightarrow> Credit" where
  "CreditItem_getCredit peer c = c\<lparr>c_id := peer\<rparr>"

definition InitTxItem_getPayment :: "ext \<Rightarrow> PeerAddress \<Rightarrow> Payment \<Rightarrow> ('z payw_scheme, Payment) prog" where
  "InitTxItem_getPayment E peer p = Payment_setCounterparty E peer p"

end
