(* ===== verification/ContractLaws.thy ===== *)
theory ContractLaws
  imports Contracts
begin

text \<open>
  What contracts promise: a receiver's contract never takes more of a credit line than it has,
  what is allocated follows the price of the contract through every change, and a confirmed
  contract moves the balance by that price and gives the allocation back in one transaction.
  The cases where this fails (a negative fee, a timeout) are stated as well.
\<close>

section \<open>The credit line of a contract\<close>

definition line_ok :: "ext \<Rightarrow> PeerAddress \<Rightarrow> string \<Rightarrow> 'z conw_scheme \<Rightarrow> account \<Rightarrow> bool" where
  "line_ok E cp cur s a \<longleftrightarrow> db_up E \<and> known_currency E cur \<and> no_quote cp \<and> peers_ok (db_tables s) \<and>
     abs_peers (db_tables s) (cp, cur) = Some a"

definition available :: "account \<Rightarrow> ZR_Number" where
  "available a = a_credit a - a_balance a - a_allocation a"

lemma known_no_quote: "known_currency E cur \<Longrightarrow> no_quote cur"
proof -
  assume "known_currency E cur"
  then obtain i where "table_index 0 (currencySymbols (x_build E)) cur = Some i"
    using table_index_None [of 0 "currencySymbols (x_build E)" cur] by (auto simp: known_currency_def)
  from table_index_valid [OF this] no_quote_symbol [of i "x_build E"] show ?thesis by auto
qed

definition loaded :: "PeerAddress \<Rightarrow> string \<Rightarrow> account \<Rightarrow> Credit" where
  "loaded cp cur a = \<lparr>c_id = cp, c_currency = cur, c_our_credit = a_our_credit a, c_credit = a_credit a,
     c_balance = a_balance a, c_allocated = a_allocation a, c_fee = 0\<rparr>"

lemma loaded_simps [simp]:
  "c_id (loaded cp cur a) = cp" "c_currency (loaded cp cur a) = cur"
  "c_balance (loaded cp cur a) = a_balance a" "c_allocated (loaded cp cur a) = a_allocation a"
  "getPeerAvailable (loaded cp cur a) = available a"
  "getMyAvailable (loaded cp cur a) = a_our_credit a + a_balance a"
  by (simp_all add: loaded_def getPeerAvailable_def getMyAvailable_def available_def)

lemma load_line:
  assumes "line_ok E cp cur s a"
  shows "bnd (new_Credit E cp cur) (\<lambda>c. bnd (Credit_loadPeer E c) f) s = f (loaded cp cur a) (tick s)"
    and "key_ok (loaded cp cur a)" and "db_up E"
proof -
  have k: "known_currency E cur" "db_up E" "no_quote cp" "peers_ok (db_tables s)"
    "abs_peers (db_tables s) (cp, cur) = Some a" using assms by (simp_all add: line_ok_def)
  let ?c = "\<lparr>c_id = cp, c_currency = cur, c_our_credit = 0, c_credit = 0, c_balance = 0,
     c_allocated = 0, c_fee = 0\<rparr> :: Credit"
  have ko: "key_ok ?c" using k known_no_quote [OF k(1)] by (simp add: key_ok_def)
  show "bnd (new_Credit E cp cur) (\<lambda>c. bnd (Credit_loadPeer E c) f) s = f (loaded cp cur a) (tick s)"
    using ZrDB_loadPeer_abs [OF k(2) ko k(4)] k(5)
    by (simp add: bnd_def new_Credit_known [OF k(1)] Credit_loadPeer_def load_account_def loaded_def)
  show "key_ok (loaded cp cur a)" using ko by (simp add: key_ok_def)
  show "db_up E" by (rule k(2))
qed

text \<open>The state after the allocation of a line was set, the number of statements aside.\<close>

definition alloc_set :: "ext \<Rightarrow> PeerAddress \<Rightarrow> string \<Rightarrow> ZR_Number \<Rightarrow> 'z conw_scheme \<Rightarrow> 'z conw_scheme" where
  "alloc_set E cp cur v s = s\<lparr>db_stmts := Suc (Suc (db_stmts s)),
     db_tables := updated_peers E (cp, cur) Col_allocation v (db_tables s)\<rparr>"

lemma alloc_set_simps [simp]:
  "db_tables (alloc_set E cp cur v s) = updated_peers E (cp, cur) Col_allocation v (db_tables s)"
  "k_heap (alloc_set E cp cur v s) = k_heap s" "k_contracts (alloc_set E cp cur v s) = k_contracts s"
  "k_next (alloc_set E cp cur v s) = k_next s" "db_saved (alloc_set E cp cur v s) = db_saved s"
  "w_messages (alloc_set E cp cur v s) = w_messages s" "db_txlog (alloc_set E cp cur v s) = db_txlog s"
  "w_now (alloc_set E cp cur v s) = w_now s" "w_rpc (alloc_set E cp cur v s) = w_rpc s"
  by (simp_all add: alloc_set_def)

lemma abs_alloc:
  assumes "line_ok E cp cur s a" and "db_exact E v"
  shows "abs_peers (updated_peers E (cp, cur) Col_allocation v (db_tables s)) =
      (abs_peers (db_tables s))((cp, cur) \<mapsto> a\<lparr>a_allocation := v\<rparr>)"
    and "peers_ok (updated_peers E (cp, cur) Col_allocation v (db_tables s))"
  using assms abs_peers_updated [of "db_tables s" E v v] peers_ok_updated [of "db_tables s" E v v]
  by (simp_all add: line_ok_def db_exact_def)

lemma deallocateFunds_ok:
  assumes "line_ok E (k_counterParty k) (k_currencySym k) s a"
  shows "deallocateFunds E k x s =
    (Inr (), alloc_set E (k_counterParty k) (k_currencySym k) (a_allocation a - x) s)"
proof -
  note l = load_line [OF assms]
  show ?thesis
    unfolding deallocateFunds_def l(1) by (simp add: bnd_def Credit_deallocate_ok [OF l(3,2)] ret_def alloc_set_def)
qed

lemma receiver_funds_ok:
  assumes l: "line_ok E cp cur s a" and p: "price > 0"
  shows "receiver_funds E b fee price cur cp s =
    (if available a \<le> fee then (Inl (Runtime_error ''Insufficient funds''), tick s)
     else if available a < b * price + fee then
       (Inr ((available a - fee) / price), if 0 \<le> fee then alloc_set E cp cur (a_allocation a + (available a - fee)) s else tick s)
     else (Inr b, if b * price \<le> available a then alloc_set E cp cur (a_allocation a + b * price) s else tick s))"
proof -
  note q = load_line [OF l]
  show ?thesis
    unfolding receiver_funds_def q(1)
    using p by (simp add: bnd_def prog_apply Let_def zr_div_def Credit_allocate_ok [OF q(3,2)] alloc_set_def)
qed

section \<open>Construction\<close>

definition registered :: "cref \<Rightarrow> BtcContract \<Rightarrow> 'z conw_scheme \<Rightarrow> 'z conw_scheme" where
  "registered r k s = s\<lparr>k_heap := (k_heap s)(r \<mapsto> k), k_next := Suc r, k_contracts := k_contracts s @ [r]\<rparr>"

lemma registered_simps [simp]:
  "k_heap (registered r k s) = (k_heap s)(r \<mapsto> k)" "k_contracts (registered r k s) = k_contracts s @ [r]"
  "db_tables (registered r k s) = db_tables s" "k_next (registered r k s) = Suc r"
  by (simp_all add: registered_def)

definition fresh_contract :: "ZR_Number \<Rightarrow> ZR_Number \<Rightarrow> ZR_Number \<Rightarrow> string \<Rightarrow> Party \<Rightarrow> PeerAddress \<Rightarrow> int \<Rightarrow> BtcContract" where
  "fresh_contract amount fee price cur party cp time = \<lparr>k_btcTxId = [], k_btcAmount = amount, k_price = price,
     k_currencySym = cur, k_party = party, k_counterParty = cp, k_activated = False, k_destAddress = [],
     k_creationtime = time, k_fee = fee\<rparr>"

lemma new_receiver_ok:
  assumes "receiver_funds E b fee price cur cp s = (Inr amount, t)"
  shows "new_BtcContract E b fee price cur RECEIVER cp 0 s =
    (Inr (k_next t), registered (k_next t) (fresh_contract amount fee price cur RECEIVER cp (w_now s)) t)"
  using assms by (simp add: new_BtcContract_def thn_def bnd_def prog_apply registered_def fresh_contract_def)

text \<open>
  C19: a receiver's contract reserves its price. When more than the fee is available on the
  payer's credit line, the contract is registered for the requested amount or, if that is too
  much, for what the line can pay besides the fee; exactly its price is allocated, no other
  account changes, and what stays available covers the fee. Otherwise nothing happens but the
  error.
\<close>

theorem new_contract_reserves:
  assumes "line_ok E cp cur s a" and "0 < price" and "0 \<le> fee"
    and "db_exact E (a_allocation a + min (b * price) (available a - fee))"
  shows "if available a \<le> fee
    then new_BtcContract E b fee price cur RECEIVER cp 0 s = (Inl (Runtime_error ''Insufficient funds''), tick s)
    else \<exists>r t k. new_BtcContract E b fee price cur RECEIVER cp 0 s = (Inr r, t) \<and>
      k_contracts t = k_contracts s @ [r] \<and> k_heap t = (k_heap s)(r \<mapsto> k) \<and>
      getFiatAmount k = min (b * price) (available a - fee) \<and> k_btcAmount k \<le> b \<and>
      abs_peers (db_tables t) = (abs_peers (db_tables s))((cp, cur) \<mapsto>
        a\<lparr>a_allocation := a_allocation a + getFiatAmount k\<rparr>) \<and>
      fee \<le> available (a\<lparr>a_allocation := a_allocation a + getFiatAmount k\<rparr>)"
proof (cases "available a \<le> fee")
  case True
  then show ?thesis
    using receiver_funds_ok [OF assms(1,2), of b fee] by (simp add: new_BtcContract_def bnd_def prog_apply)
next
  case False
  let ?m = "min (b * price) (available a - fee)"
  let ?amount = "if available a < b * price + fee then (available a - fee) / price else b"
  let ?t = "alloc_set E cp cur (a_allocation a + ?m) s"
  have run: "receiver_funds E b fee price cur cp s = (Inr ?amount, ?t)"
    using receiver_funds_ok [OF assms(1,2), of b fee] False assms(3) by (simp add: min_def)
  let ?k = "fresh_contract ?amount fee price cur RECEIVER cp (w_now s)"
  have fiat: "getFiatAmount ?k = ?m" using assms(2) by (simp add: getFiatAmount_def fresh_contract_def min_def)
  have le: "k_btcAmount ?k \<le> b" using assms(2) by (simp add: fresh_contract_def divide_le_eq)
  have "fee \<le> available (a\<lparr>a_allocation := a_allocation a + ?m\<rparr>)" by (simp add: available_def min_def)
  with new_receiver_ok [OF run] fiat le abs_alloc [OF assms(1,4)] False show ?thesis
    by (intro if_not_P [THEN iffD2]) auto
qed

text \<open>
  Nothing keeps the fee from being negative: with a fee below what is available by more
  than the price, a contract for the whole requested amount is registered although the line
  cannot pay it and although nothing is allocated.
\<close>

theorem negative_fee_unreserved:
  assumes "line_ok E cp cur s a" and "0 < price" and "0 < b"
    and "available a < b * price" and "b * price + fee \<le> available a"
  shows "\<exists>r t k. new_BtcContract E b fee price cur RECEIVER cp 0 s = (Inr r, t) \<and>
      k_contracts t = k_contracts s @ [r] \<and> k_heap t r = Some k \<and> getFiatAmount k = b * price \<and>
      db_tables t = db_tables s"
proof -
  have "0 < b * price" using assms(2,3) by simp
  then have "\<not> available a \<le> fee" "\<not> available a < b * price + fee" "\<not> b * price \<le> available a"
    using assms(4,5) by linarith+
  then have run: "receiver_funds E b fee price cur cp s = (Inr b, tick s)"
    using receiver_funds_ok [OF assms(1,2), of b fee] by simp
  show ?thesis
    using new_receiver_ok [OF run] by (simp add: getFiatAmount_def fresh_contract_def)
qed

definition demo_conw :: "peer_row list \<Rightarrow> conw" where
  "demo_conw rs = bookw.extend (bookw.truncate (payw.extend (demo_payw rs)
     \<lparr>b_heap = Map.empty, b_next = 0, b_book = (\<lambda>_. demo_book [])\<rparr>))
     \<lparr>k_heap = Map.empty, k_next = 0, k_contracts = []\<rparr>"

lemma demo_conw_simps [simp]:
  "db_tables (demo_conw rs) = demo_tables\<lparr>t_peers := rs\<rparr>" "k_heap (demo_conw rs) = Map.empty"
  "k_contracts (demo_conw rs) = []" "w_now (demo_conw rs) = 0" "db_saved (demo_conw rs) = None"
  "k_next (demo_conw rs) = 0" "w_messages (demo_conw rs) = []"
  by (simp_all add: demo_conw_def bookw.defs payw.defs demo_payw_def dbw.defs demo_peers_def demo_dbw_def)

lemma demo_line:
  assumes "in_i64 cr" "in_i64 our" "in_i64 bal" "in_i64 al"
  shows "line_ok demo ''bo'' ''GPM'' (demo_conw [demo_peer ''bo'' cr our bal al])
    \<lparr>a_credit = of_int cr, a_our_credit = of_int our, a_balance = of_int bal, a_allocation = of_int al\<rparr>"
proof -
  have "known_currency demo ''GPM''" by (simp add: known_currency_def demo_def currencySymbols_testnet_def)
  then show ?thesis using assms demo_db_up
    by (simp add: line_ok_def no_quote_def peers_ok_def row_ok_account abs_peers_def demo_peer_account)
qed

theorem new_contract_reserves_witness:
  "\<exists>r t k. new_BtcContract demo 3 1 2 ''GPM'' RECEIVER ''bo'' 0 (demo_conw [demo_peer ''bo'' 5 0 0 0]) = (Inr r, t) \<and>
     k_heap t r = Some k \<and> getFiatAmount k = 4 \<and> k_btcAmount k \<le> 3"
proof -
  have l: "line_ok demo ''bo'' ''GPM'' (demo_conw [demo_peer ''bo'' 5 0 0 0])
    \<lparr>a_credit = 5, a_our_credit = 0, a_balance = 0, a_allocation = 0\<rparr>"
    using demo_line [of 5 0 0 0] by (simp add: in_i64_def)
  have e: "db_exact demo 4" using demo_db_exact [of 4] by (simp add: in_i64_def)
  from new_contract_reserves [OF l, of 2 1 3] e show ?thesis
    by (auto simp: available_def)
qed

theorem negative_fee_unreserved_witness:
  "\<exists>r t k. new_BtcContract demo 3 (- 10) 2 ''GPM'' RECEIVER ''bo'' 0 (demo_conw [demo_peer ''bo'' 0 0 0 0]) = (Inr r, t) \<and>
     k_heap t r = Some k \<and> getFiatAmount k = 6"
proof -
  have l: "line_ok demo ''bo'' ''GPM'' (demo_conw [demo_peer ''bo'' 0 0 0 0])
    \<lparr>a_credit = 0, a_our_credit = 0, a_balance = 0, a_allocation = 0\<rparr>"
    using demo_line [of 0 0 0 0] by (simp add: in_i64_def)
  from negative_fee_unreserved [OF l, of 2 3 "- 10"] show ?thesis
    by (auto simp: available_def)
qed

section \<open>Changing the amount, and giving up\<close>

lemma get_contract_ok: "k_heap s r = Some k \<Longrightarrow> get_contract r s = (Inr k, s)"
  by (simp add: get_contract_def deref_def)

lemma upd_contract_ok: "k_heap s r = Some k \<Longrightarrow> upd_contract r f s = (Inr (), s\<lparr>k_heap := (k_heap s)(r \<mapsto> f k)\<rparr>)"
  by (simp add: upd_contract_def bnd_def get_contract_ok prog_apply)

lemma line_ok_tables: "line_ok E cp cur s a \<Longrightarrow> db_tables t = db_tables s \<Longrightarrow> line_ok E cp cur t a"
  by (simp add: line_ok_def)

lemma setBtcAmount_ok:
  assumes "k_heap s r = Some k" and "line_ok E (k_counterParty k) (k_currencySym k) s a"
  shows "setBtcAmount E r b s = (Inr (),
    let s' = s\<lparr>k_heap := (k_heap s)(r \<mapsto> k\<lparr>k_btcAmount := b\<rparr>)\<rparr> in
    if k_party k = RECEIVER then alloc_set E (k_counterParty k) (k_currencySym k)
      (a_allocation a - (getFiatAmount k - getFiatAmount (k\<lparr>k_btcAmount := b\<rparr>))) s' else s')"
proof -
  let ?s = "s\<lparr>k_heap := (k_heap s)(r \<mapsto> k\<lparr>k_btcAmount := b\<rparr>)\<rparr>"
  have "line_ok E (k_counterParty (k\<lparr>k_btcAmount := b\<rparr>)) (k_currencySym (k\<lparr>k_btcAmount := b\<rparr>)) ?s a"
    using assms(2) by (simp add: line_ok_def)
  from deallocateFunds_ok [OF this] show ?thesis
    using assms(1) by (simp add: setBtcAmount_def thn_def bnd_def get_contract_ok upd_contract_ok
        Let_def whn_def ret_def)
qed

text \<open>
  C29: changing the amount of a contract keeps the allocation in step with its price: whatever
  else is allocated on the line stays allocated, so a change back restores both; the contract
  of a sender has nothing allocated and touches no account.
\<close>

theorem setBtcAmount_follows_price:
  assumes "k_heap s r = Some k" and "line_ok E (k_counterParty k) (k_currencySym k) s a"
    and "db_exact E (a_allocation a - (getFiatAmount k - b * k_price k))"
  shows "\<exists>t. setBtcAmount E r b s = (Inr (), t) \<and> k_heap t = (k_heap s)(r \<mapsto> k\<lparr>k_btcAmount := b\<rparr>) \<and>
    (if k_party k = SENDER then db_tables t = db_tables s
     else \<exists>a'. abs_peers (db_tables t) = (abs_peers (db_tables s))((k_counterParty k, k_currencySym k) \<mapsto> a') \<and>
       a_balance a' = a_balance a \<and> a_credit a' = a_credit a \<and>
       a_allocation a' - getFiatAmount (k\<lparr>k_btcAmount := b\<rparr>) = a_allocation a - getFiatAmount k)"
proof -
  have f: "getFiatAmount (k\<lparr>k_btcAmount := b\<rparr>) = b * k_price k" by (simp add: getFiatAmount_def)
  show ?thesis
  proof (cases "k_party k")
    case RECEIVER
    with setBtcAmount_ok [OF assms(1,2), of b] abs_alloc(1) [OF assms(2,3)] f show ?thesis
      by (auto simp: Let_def intro!: exI [of _ "a\<lparr>a_allocation := a_allocation a - (getFiatAmount k - b * k_price k)\<rparr>"])
  next
    case SENDER
    with setBtcAmount_ok [OF assms(1,2), of b] show ?thesis by (simp add: Let_def)
  qed
qed

section \<open>Polling\<close>

lemma new_Payment_ok:
  "line_ok E cp cur s a \<Longrightarrow> new_Payment E cls cp amount cur cat s =
     (Inr \<lparr>p_class = cls, p_credit = loaded cp cur a, p_amount = amount, p_category = cat, p_referrer = []\<rparr>, tick s)"
  unfolding new_Payment_def by (simp add: load_line(1) [unfolded Credit_loadPeer_def] ret_def)

text \<open>What settling a contract makes of the account of its line.\<close>

definition settled :: "BtcContract \<Rightarrow> account \<Rightarrow> account" where
  "settled k a = (case k_party k of
     SENDER \<Rightarrow> a\<lparr>a_balance := a_balance a - getFiatAmount k\<rparr>
   | RECEIVER \<Rightarrow> a\<lparr>a_allocation := a_allocation a - getFiatAmount k, a_balance := a_balance a + getFiatAmount k\<rparr>)"

definition can_settle :: "BtcContract \<Rightarrow> account \<Rightarrow> bool" where
  "can_settle k a \<longleftrightarrow> (case k_party k of SENDER \<Rightarrow> getFiatAmount k \<le> a_our_credit a + a_balance a
     | RECEIVER \<Rightarrow> 0 \<le> available a)"

definition settle_exact :: "ext \<Rightarrow> BtcContract \<Rightarrow> account \<Rightarrow> bool" where
  "settle_exact E k a \<longleftrightarrow> db_exact E (a_balance (settled k a)) \<and> db_exact E (a_allocation (settled k a))"

lemma btccontracts_peers_only [simp]:
  "t_btccontracts (updated_peers E k col v t) = t_btccontracts t"
  "t_btccontracts (peers.transfer E k d t) = t_btccontracts t"
  by (simp_all add: updated_peers_def peers.transfer_def split: option.split)

lemma after_commit_simps [simp]:
  "db_saved (after_commit E p s) = db_saved s" "w_messages (after_commit E p s) = w_messages s"
  "k_heap (after_commit E p c) = k_heap c" "k_contracts (after_commit E p c) = k_contracts c"
  "db_tables (after_commit E p s) = peers.transfer E (Payment_key p) (Payment_delta p) (db_tables s)"
  "w_now (after_commit E p s) = w_now s" "w_rpc (after_commit E p s) = w_rpc s"
  by (simp_all add: after_commit_def)

text \<open>What a payment leaves as it is: the contracts, the clock, the number of calls to the Bitcoin client.\<close>

definition polled :: "'z conw_scheme \<Rightarrow> (cref \<rightharpoonup> BtcContract) \<times> cref list \<times> int \<times> nat" where
  "polled s = (k_heap s, k_contracts s, w_now s, w_rpc s)"

lemma polled_simps [simp]:
  "polled (after_commit E p c) = polled c" "polled (alloc_set E cp cur v c) = polled c" "polled (tick c) = polled c"
  "polled (c\<lparr>db_tables := x\<rparr>) = polled c" "polled (c\<lparr>db_saved := y\<rparr>) = polled c" "polled (c\<lparr>db_stmts := n\<rparr>) = polled c"
  "polled (c\<lparr>w_messages := m\<rparr>) = polled c"
  by (simp_all add: polled_def)

text \<open>A payment of a contract on a line that can pay it.\<close>

lemma pay_ok:
  assumes l: "line_ok E cp cur s a"
    and i: "Payment_init \<lparr>p_class = cls, p_credit = loaded cp cur a, p_amount = x, p_category = PAYMENT, p_referrer = []\<rparr> = ZR_SUCCESS"
    and e: "db_exact E (a_balance a + (case cls of Receiver \<Rightarrow> x | Spender \<Rightarrow> - x))"
  shows "\<exists>t. bnd (new_Payment E cls cp x cur PAYMENT) (\<lambda>p.
            if Payment_init p = ZR_FAILURE then placeMsg m else bnd (Payment_commit E p) (\<lambda>_. ret ())) s = (Inr (), t) \<and>
    abs_peers (db_tables t) = (abs_peers (db_tables s))((cp, cur) \<mapsto>
      a\<lparr>a_balance := a_balance a + (case cls of Receiver \<Rightarrow> x | Spender \<Rightarrow> - x)\<rparr>) \<and>
    peers_ok (db_tables t) \<and> t_btccontracts (db_tables t) = t_btccontracts (db_tables s) \<and>
    db_saved t = db_saved s \<and> polled t = polled s \<and> w_messages t = w_messages s"
proof -
  let ?p = "\<lparr>p_class = cls, p_credit = loaded cp cur a, p_amount = x, p_category = PAYMENT, p_referrer = []\<rparr>"
  have ab: "abs_peers (db_tables s) (Payment_key ?p) = Some a" and ok: "peers_ok (db_tables s)"
    using l by (simp_all add: line_ok_def Payment_key_def)
  have k: "key_ok (p_credit ?p)" using load_line(2) [OF l] by simp
  have d: "Payment_delta ?p = (case cls of Receiver \<Rightarrow> x | Spender \<Rightarrow> - x)"
    by (cases cls) (simp_all add: Payment_delta_def)
  have ex: "\<forall>y. abs_peers (db_tables s) (Payment_key ?p) = Some y \<longrightarrow> db_exact E (a_balance y + Payment_delta ?p)"
    using ab d e by simp
  have tk: "db_tables (tick s) = db_tables s" by simp
  note run = Payment_commit_run [OF load_line(3) [OF l] k, of "tick s", unfolded tk, OF ok ab]
  note tp = transfer_peers [OF ok ex]
  have "abs_peers (peers.transfer E (Payment_key ?p) (Payment_delta ?p) (db_tables s)) =
      (abs_peers (db_tables s))((cp, cur) \<mapsto> a\<lparr>a_balance := a_balance a + Payment_delta ?p\<rparr>)"
    using tp(2) ab by (auto simp: fun_eq_iff Payment_key_def)
  moreover have "bnd (new_Payment E cls cp x cur PAYMENT) (\<lambda>p.
      if Payment_init p = ZR_FAILURE then placeMsg m else bnd (Payment_commit E p) (\<lambda>_. ret ())) s
      = (Inr (), after_commit E ?p (tick s))"
    using i run by (simp add: bnd_def new_Payment_ok [OF l] ret_def)
  ultimately show ?thesis using tp(1) d by simp
qed

lemma execute_ok:
  assumes l: "line_ok E (k_counterParty k) (k_currencySym k) s a" and c: "can_settle k a" and e: "settle_exact E k a"
  shows "\<exists>t. execute E k s = (Inr (), t) \<and>
    abs_peers (db_tables t) = (abs_peers (db_tables s))((k_counterParty k, k_currencySym k) \<mapsto> settled k a) \<and>
    peers_ok (db_tables t) \<and> t_btccontracts (db_tables t) = t_btccontracts (db_tables s) \<and>
    db_saved t = db_saved s \<and> polled t = polled s \<and> w_messages t = w_messages s"
proof (cases "k_party k")
  case SENDER
  let ?p = "\<lparr>p_class = Spender, p_credit = loaded (k_counterParty k) (k_currencySym k) a,
    p_amount = getFiatAmount k, p_category = PAYMENT, p_referrer = []\<rparr>"
  have "Payment_init ?p = ZR_SUCCESS"
    using c SENDER by (simp add: Payment_init_def PaymentSpender_init_def can_settle_def)
  from pay_ok [OF l this, of "cannot_execute E (getFiatAmount k) (k_counterParty k)"] e SENDER
  show ?thesis by (auto simp: settle_exact_def settled_def execute_def Let_def getFiatAmount_def [symmetric])
next
  case RECEIVER
  let ?f = "getFiatAmount k"
  let ?s = "alloc_set E (k_counterParty k) (k_currencySym k) (a_allocation a - ?f) s"
  let ?a = "a\<lparr>a_allocation := a_allocation a - ?f\<rparr>"
  have ea: "db_exact E (a_allocation a - ?f)" and eb: "db_exact E (a_balance ?a + (case Receiver of Receiver \<Rightarrow> ?f | Spender \<Rightarrow> - ?f))"
    using e RECEIVER by (simp_all add: settle_exact_def settled_def)
  have l': "line_ok E (k_counterParty k) (k_currencySym k) ?s ?a"
    using l abs_alloc [OF l ea] by (simp add: line_ok_def)
  have i: "Payment_init \<lparr>p_class = Receiver, p_credit = loaded (k_counterParty k) (k_currencySym k) ?a,
    p_amount = ?f, p_category = PAYMENT, p_referrer = []\<rparr> = ZR_SUCCESS"
    using c RECEIVER by (simp add: Payment_init_def PaymentReceiver_init_def can_settle_def available_def)
  have sett: "settled k a = ?a\<lparr>a_balance := a_balance ?a + ?f\<rparr>" using RECEIVER by (simp add: settled_def)
  from pay_ok [OF l' i eb, of "cannot_execute E ?f (k_counterParty k)"]
  show ?thesis
    using deallocateFunds_ok [OF l, of ?f] abs_alloc(1) [OF l ea] RECEIVER sett
    by (auto simp: execute_def Let_def getFiatAmount_def [symmetric] thn_def bnd_Inr)
qed

definition contract_removed :: "BtcContract \<Rightarrow> contract_row list \<Rightarrow> contract_row list" where
  "contract_removed k = filter (\<lambda>row. \<not> (cr_btcTxId row = k_btcTxId k \<and> cr_party row = Party_code (k_party k)))"

lemma rmBtcContract_ok [prog_defs]:
  "db_up E \<Longrightarrow> no_quote i \<Longrightarrow> rmBtcContract E i p s = (Inr (), s\<lparr>db_stmts := Suc (db_stmts s),
     db_tables := (db_tables s)\<lparr>t_btccontracts :=
       filter (\<lambda>r. \<not> (cr_btcTxId r = i \<and> cr_party r = p)) (t_btccontracts (db_tables s))\<rparr>\<rparr>)"
  by (simp add: rmBtcContract_def runQuery_ok)

lemma abs_peers_contracts [simp]: "abs_peers (t\<lparr>t_btccontracts := x\<rparr>) = abs_peers t"
  by (auto simp: abs_peers_def fun_eq_iff)

lemma peers_ok_contracts [simp]: "peers_ok (t\<lparr>t_btccontracts := x\<rparr>) = peers_ok t"
  by (simp add: peers_ok_def)

text \<open>Polling a confirmed contract: what it does around the payment.\<close>

lemma poll_confirmed:
  fixes s t :: "'z conw_scheme"
  assumes "k_heap s r = Some k" and up: "db_up E" and "k_activated k"
    and "w_now s - k_creationtime k \<le> contract_timeout"
    and "reqConfirmations (x_build E) \<le> x_confirmations E (w_rpc s) (k_btcTxId k)"
    and "db_saved s = None" and "k_btcTxId k \<noteq> []" and "no_quote (k_btcTxId k)"
    and x: "execute E k (tick (s\<lparr>w_rpc := Suc (w_rpc s)\<rparr>)\<lparr>db_saved := Some (db_tables s)\<rparr>) = (Inr (), t)"
    and t: "db_saved t = Some (db_tables s)"
  shows "\<exists>u. contract_poll E r s = (Inr True, u) \<and>
    db_tables u = (db_tables t)\<lparr>t_btccontracts := contract_removed k (t_btccontracts (db_tables t))\<rparr> \<and>
    db_saved u = None \<and> polled u = polled t \<and> w_messages u = w_messages t \<and> db_txlog u = db_txlog t"
proof -
  let ?s0 = "s\<lparr>w_rpc := Suc (w_rpc s)\<rparr>"
  let ?t1 = "t\<lparr>db_stmts := Suc (db_stmts t), db_tables := (db_tables t)\<lparr>t_btccontracts :=
       contract_removed k (t_btccontracts (db_tables t))\<rparr>\<rparr>"
  have b: "beginTx E ?s0 = (Inr (), tick ?s0\<lparr>db_saved := Some (db_tables s)\<rparr>)"
    using up assms(6) by (simp add: beginTx_ok)
  have rm: "rmBtcContract E (k_btcTxId k) (Party_code (k_party k)) t = (Inr (), ?t1)"
    using up assms(8) by (simp add: rmBtcContract_ok contract_removed_def)
  have c: "commitTx E ?t1 = (Inr (), tick ?t1\<lparr>db_saved := None\<rparr>)"
    using up t by (simp add: commitTx_ok)
  have "contract_poll E r s = (Inr True, tick ?t1\<lparr>db_saved := None\<rparr>)"
    using assms(3-5,7) b x rm c
    by (simp add: contract_poll_def bnd_def get_contract_ok [OF assms(1)] prog_apply rpc_call_apply thn_def
        whn_def try_catch_def)
  then show ?thesis by simp
qed

text \<open>
  When the transaction of an active contract has the required confirmations, polling settles
  it in one database transaction: the spender's balance falls by the price; the receiver's
  balance rises by the price and the same amount of allocation is given back, so what is
  available does not change; the stored contract is gone, and the contract is reported done.
\<close>

theorem confirmed_contract_settles:
  assumes "k_heap s r = Some k" and "line_ok E (k_counterParty k) (k_currencySym k) s a"
    and "can_settle k a" and "settle_exact E k a" and "k_activated k"
    and "w_now s - k_creationtime k \<le> contract_timeout"
    and "reqConfirmations (x_build E) \<le> x_confirmations E (w_rpc s) (k_btcTxId k)"
    and "db_saved s = None" and "k_btcTxId k \<noteq> []" and "no_quote (k_btcTxId k)"
  shows "\<exists>t. contract_poll E r s = (Inr True, t) \<and>
    abs_peers (db_tables t) = (abs_peers (db_tables s))((k_counterParty k, k_currencySym k) \<mapsto> settled k a) \<and>
    (k_party k = RECEIVER \<longrightarrow> available (settled k a) = available a) \<and>
    t_btccontracts (db_tables t) = contract_removed k (t_btccontracts (db_tables s)) \<and>
    db_saved t = None \<and> w_messages t = w_messages s"
proof -
  have up: "db_up E" using assms(2) by (simp add: line_ok_def)
  let ?s1 = "tick (s\<lparr>w_rpc := Suc (w_rpc s)\<rparr>)\<lparr>db_saved := Some (db_tables s)\<rparr>"
  have "line_ok E (k_counterParty k) (k_currencySym k) ?s1 a" using assms(2) by (simp add: line_ok_def)
  from execute_ok [OF this assms(3,4)] obtain t where
    x: "execute E k ?s1 = (Inr (), t)"
    and t: "abs_peers (db_tables t) = (abs_peers (db_tables s))((k_counterParty k, k_currencySym k) \<mapsto> settled k a)"
      "t_btccontracts (db_tables t) = t_btccontracts (db_tables s)" "db_saved t = Some (db_tables s)"
      "w_messages t = w_messages s" by auto
  from poll_confirmed [OF assms(1) up assms(5-10) x t(3)] t show ?thesis
    by (auto simp: settled_def available_def)
qed

text \<open>What is left of an account that cannot pay: the receiver has given its allocation back.\<close>

definition unsettled :: "BtcContract \<Rightarrow> account \<Rightarrow> account" where
  "unsettled k a = (case k_party k of SENDER \<Rightarrow> a | RECEIVER \<Rightarrow> a\<lparr>a_allocation := a_allocation a - getFiatAmount k\<rparr>)"

lemma execute_unpaid:
  assumes l: "line_ok E (k_counterParty k) (k_currencySym k) s a" and c: "\<not> can_settle k a"
    and e: "db_exact E (a_allocation (unsettled k a))"
  shows "\<exists>t. execute E k s = (Inr (), t) \<and>
    abs_peers (db_tables t) = (abs_peers (db_tables s))((k_counterParty k, k_currencySym k) \<mapsto> unsettled k a) \<and>
    peers_ok (db_tables t) \<and> t_btccontracts (db_tables t) = t_btccontracts (db_tables s) \<and> db_txlog t = db_txlog s \<and>
    db_saved t = db_saved s \<and> polled t = polled s \<and>
    w_messages t = w_messages s @ [cannot_execute E (getFiatAmount k) (k_counterParty k)]"
proof (cases "k_party k")
  case SENDER
  have "Payment_init \<lparr>p_class = Spender, p_credit = loaded (k_counterParty k) (k_currencySym k) a,
    p_amount = getFiatAmount k, p_category = PAYMENT, p_referrer = []\<rparr> = ZR_FAILURE"
    using c SENDER by (simp add: Payment_init_def PaymentSpender_init_def can_settle_def)
  then show ?thesis
    using l SENDER by (simp add: execute_def Let_def getFiatAmount_def [symmetric] bnd_def new_Payment_ok [OF l]
        placeMsg_apply unsettled_def line_ok_def fun_upd_idem)
next
  case RECEIVER
  let ?f = "getFiatAmount k"
  let ?s = "alloc_set E (k_counterParty k) (k_currencySym k) (a_allocation a - ?f) s"
  let ?a = "a\<lparr>a_allocation := a_allocation a - ?f\<rparr>"
  have ea: "db_exact E (a_allocation a - ?f)" using e RECEIVER by (simp add: unsettled_def)
  have l': "line_ok E (k_counterParty k) (k_currencySym k) ?s ?a"
    using l abs_alloc [OF l ea] by (simp add: line_ok_def)
  have "Payment_init \<lparr>p_class = Receiver, p_credit = loaded (k_counterParty k) (k_currencySym k) ?a,
    p_amount = ?f, p_category = PAYMENT, p_referrer = []\<rparr> = ZR_FAILURE"
    using c RECEIVER by (simp add: Payment_init_def PaymentReceiver_init_def can_settle_def available_def)
  then show ?thesis
    using deallocateFunds_ok [OF l, of ?f] abs_alloc [OF l ea] RECEIVER
    by (simp add: execute_def Let_def getFiatAmount_def [symmetric] thn_def bnd_def new_Payment_ok [OF l']
        placeMsg_apply unsettled_def)
qed

text \<open>
  C26: a confirmed contract that the credit line cannot pay for any more is not kept for later: its row
  and the contract go all the same, the database transaction is committed, a message is shown,
  and nothing is paid: the balance and the log are what they were. Only the receiver has given its
  allocation back. The sender reserves nothing for a contract, so that this is up to it.
\<close>

theorem unpaid_contract_forgotten:
  assumes "k_heap s r = Some k" and "line_ok E (k_counterParty k) (k_currencySym k) s a"
    and "\<not> can_settle k a" and "db_exact E (a_allocation (unsettled k a))" and "k_activated k"
    and "w_now s - k_creationtime k \<le> contract_timeout"
    and "reqConfirmations (x_build E) \<le> x_confirmations E (w_rpc s) (k_btcTxId k)"
    and "db_saved s = None" and "k_btcTxId k \<noteq> []" and "no_quote (k_btcTxId k)"
  shows "\<exists>t. contract_poll E r s = (Inr True, t) \<and>
    abs_peers (db_tables t) = (abs_peers (db_tables s))((k_counterParty k, k_currencySym k) \<mapsto> unsettled k a) \<and>
    a_balance (unsettled k a) = a_balance a \<and> db_txlog t = db_txlog s \<and>
    t_btccontracts (db_tables t) = contract_removed k (t_btccontracts (db_tables s)) \<and> db_saved t = None \<and>
    w_messages t = w_messages s @ [cannot_execute E (getFiatAmount k) (k_counterParty k)]"
proof -
  have up: "db_up E" using assms(2) by (simp add: line_ok_def)
  let ?s1 = "tick (s\<lparr>w_rpc := Suc (w_rpc s)\<rparr>)\<lparr>db_saved := Some (db_tables s)\<rparr>"
  have "line_ok E (k_counterParty k) (k_currencySym k) ?s1 a" using assms(2) by (simp add: line_ok_def)
  from execute_unpaid [OF this assms(3,4)] obtain t where
    x: "execute E k ?s1 = (Inr (), t)"
    and t: "abs_peers (db_tables t) = (abs_peers (db_tables s))((k_counterParty k, k_currencySym k) \<mapsto> unsettled k a)"
      "t_btccontracts (db_tables t) = t_btccontracts (db_tables s)" "db_txlog t = db_txlog s"
      "db_saved t = Some (db_tables s)"
      "w_messages t = w_messages s @ [cannot_execute E (getFiatAmount k) (k_counterParty k)]" by auto
  from poll_confirmed [OF assms(1) up assms(5-10) x t(4)] t show ?thesis
    by (auto simp: unsettled_def split: Party.split)
qed

text \<open>
  A receiver's contract that was never confirmed leaves the list a day after its creation,
  with its row, but what it had allocated on the payer's credit line stays allocated.
\<close>

theorem timed_out_contract_keeps_allocation:
  assumes "k_contracts s = [r]" and "k_heap s r = Some k" and "db_up E" and "no_quote (k_btcTxId k)"
    and "contract_timeout < w_now s - k_creationtime k"
  shows "\<exists>t. pollContracts E s = (Inr (), t) \<and> k_contracts t = [] \<and> k_heap t r = None \<and>
    t_btccontracts (db_tables t) = (if k_btcTxId k = [] then t_btccontracts (db_tables s)
      else contract_removed k (t_btccontracts (db_tables s))) \<and>
    abs_peers (db_tables t) = abs_peers (db_tables s)"
  using assms
  by (simp add: pollContracts_def contract_poll_def drop_contract_def get_contract_def deref_def bnd_def
      prog_apply thn_def whn_def try_catch_def rmBtcContract_ok contract_removed_def)

definition demo_contract :: "Party \<Rightarrow> BtcContract" where
  "demo_contract party = \<lparr>k_btcTxId = ''tx'', k_btcAmount = 2, k_price = 3, k_currencySym = ''GPM'',
     k_party = party, k_counterParty = ''bo'', k_activated = True, k_destAddress = ''addr'',
     k_creationtime = 0, k_fee = 0\<rparr>"

definition demo_with :: "BtcContract \<Rightarrow> conw \<Rightarrow> conw" where
  "demo_with k s = s\<lparr>k_heap := [0 \<mapsto> k], k_next := 1, k_contracts := [0]\<rparr>"

theorem setBtcAmount_follows_price_witness:
  "\<exists>t. setBtcAmount demo 0 1 (demo_with (demo_contract RECEIVER) (demo_conw [demo_peer ''bo'' 9 0 0 7])) = (Inr (), t) \<and>
     map_option a_allocation (abs_peers (db_tables t) (''bo'', ''GPM'')) = Some 4"
proof -
  let ?k = "demo_contract RECEIVER" and ?s = "demo_with (demo_contract RECEIVER) (demo_conw [demo_peer ''bo'' 9 0 0 7])"
  have l: "line_ok demo (k_counterParty ?k) (k_currencySym ?k) ?s
    \<lparr>a_credit = 9, a_our_credit = 0, a_balance = 0, a_allocation = 7\<rparr>"
    using demo_line [of 9 0 0 7] by (simp add: in_i64_def line_ok_def demo_with_def demo_contract_def)
  have h: "k_heap ?s 0 = Some ?k" by (simp add: demo_with_def)
  have e: "db_exact demo 4" using demo_db_exact [of 4] by (simp add: in_i64_def)
  from setBtcAmount_follows_price [OF h l, of 1] e show ?thesis
    by (auto simp: demo_contract_def getFiatAmount_def)
qed

lemma demo_due:
  "k_activated (demo_contract pa)"
  "w_now (demo_with k (demo_conw rows)) - k_creationtime (demo_contract pa) \<le> contract_timeout"
  "reqConfirmations (x_build demo) \<le> x_confirmations demo (w_rpc (demo_with k (demo_conw rows))) (k_btcTxId (demo_contract pa))"
  "db_saved (demo_with k (demo_conw rows)) = None" "k_btcTxId (demo_contract pa) \<noteq> []" "no_quote (k_btcTxId (demo_contract pa))"
  by (simp_all add: demo_contract_def demo_with_def contract_timeout_def reqConfirmations_def demo_def no_quote_def)

theorem confirmed_contract_settles_witness:
  "\<exists>t. contract_poll demo 0 (demo_with (demo_contract RECEIVER) (demo_conw [demo_peer ''bo'' 9 0 1 6])) = (Inr True, t) \<and>
     abs_peers (db_tables t) (''bo'', ''GPM'') = Some \<lparr>a_credit = 9, a_our_credit = 0, a_balance = 7, a_allocation = 0\<rparr>"
proof -
  let ?k = "demo_contract RECEIVER" and ?s = "demo_with (demo_contract RECEIVER) (demo_conw [demo_peer ''bo'' 9 0 1 6])"
  let ?a = "\<lparr>a_credit = 9, a_our_credit = 0, a_balance = 1, a_allocation = 6\<rparr> :: account"
  have l: "line_ok demo (k_counterParty ?k) (k_currencySym ?k) ?s ?a"
    using demo_line [of 9 0 1 6] by (simp add: in_i64_def line_ok_def demo_with_def demo_contract_def)
  have h: "k_heap ?s 0 = Some ?k" by (simp add: demo_with_def)
  have st: "settled ?k ?a = \<lparr>a_credit = 9, a_our_credit = 0, a_balance = 7, a_allocation = 0\<rparr>"
    by (simp add: settled_def demo_contract_def getFiatAmount_def)
  have e: "settle_exact demo ?k ?a"
    using demo_db_exact [of 7] demo_db_exact [of 0] by (simp add: settle_exact_def st in_i64_def)
  have c: "can_settle ?k ?a" by (simp add: can_settle_def available_def demo_contract_def)
  have key: "(k_counterParty ?k, k_currencySym ?k) = (''bo'', ''GPM'')" by (simp add: demo_contract_def)
  from confirmed_contract_settles [OF h l c e demo_due] obtain t where
    "contract_poll demo 0 ?s = (Inr True, t)"
    "abs_peers (db_tables t) = (abs_peers (db_tables ?s))((k_counterParty ?k, k_currencySym ?k) \<mapsto> settled ?k ?a)"
    by blast
  then show ?thesis unfolding st key by auto
qed

theorem timed_out_contract_keeps_allocation_witness:
  "\<exists>t. pollContracts demo (demo_with ((demo_contract RECEIVER)\<lparr>k_creationtime := - 99999999\<rparr>)
       (demo_conw [demo_peer ''bo'' 9 0 1 6])) = (Inr (), t) \<and> k_contracts t = [] \<and>
     map_option a_allocation (abs_peers (db_tables t) (''bo'', ''GPM'')) = Some 6"
proof -
  let ?k = "(demo_contract RECEIVER)\<lparr>k_creationtime := - 99999999\<rparr>"
  let ?s = "demo_with ?k (demo_conw [demo_peer ''bo'' 9 0 1 6])"
  have a: "abs_peers (db_tables ?s) (''bo'', ''GPM'') = Some \<lparr>a_credit = 9, a_our_credit = 0, a_balance = 1, a_allocation = 6\<rparr>"
    using demo_line [of 9 0 1 6] by (simp add: in_i64_def line_ok_def demo_with_def)
  have "k_contracts ?s = [0]" "k_heap ?s 0 = Some ?k" "no_quote (k_btcTxId ?k)"
    "contract_timeout < w_now ?s - k_creationtime ?k"
    by (simp_all add: demo_with_def demo_contract_def no_quote_def contract_timeout_def)
  from timed_out_contract_keeps_allocation [OF this(1,2) demo_db_up this(3,4)] a show ?thesis by auto
qed

theorem unpaid_contract_forgotten_witness:
  "\<exists>t. contract_poll demo 0 (demo_with (demo_contract SENDER) (demo_conw [demo_peer ''bo'' 9 2 1 0])) = (Inr True, t) \<and>
     map_option a_balance (abs_peers (db_tables t) (''bo'', ''GPM'')) = Some 1 \<and> length (w_messages t) = 1"
proof -
  let ?k = "demo_contract SENDER" and ?s = "demo_with (demo_contract SENDER) (demo_conw [demo_peer ''bo'' 9 2 1 0])"
  have l: "line_ok demo (k_counterParty ?k) (k_currencySym ?k) ?s
    \<lparr>a_credit = 9, a_our_credit = 2, a_balance = 1, a_allocation = 0\<rparr>"
    using demo_line [of 9 2 1 0] by (simp add: in_i64_def line_ok_def demo_with_def demo_contract_def)
  have h: "k_heap ?s 0 = Some ?k" by (simp add: demo_with_def)
  have e: "db_exact demo 0" using demo_db_exact [of 0] by (simp add: in_i64_def)
  have c: "\<not> can_settle ?k \<lparr>a_credit = 9, a_our_credit = 2, a_balance = 1, a_allocation = 0\<rparr>"
    by (simp add: can_settle_def demo_contract_def getFiatAmount_def)
  have u: "unsettled ?k x = x" "k_counterParty ?k = ''bo''" "k_currencySym ?k = ''GPM''" for x
    by (simp_all add: unsettled_def demo_contract_def)
  from unpaid_contract_forgotten [OF h l c _ demo_due, unfolded u] e show ?thesis
    by (auto simp: demo_with_def demo_conw_simps)
qed

end
