(* ===== verification/ItemLaws.thy ===== *)
theory ItemLaws
  imports Items ContractLaws
begin

text \<open>
  What the items promise: a serialised item has exactly the size it announces, and reading the
  packet gives the item back. A credit item arrives with the two credit lines exchanged, since
  what we grant the friend is what the friend was granted. The laws hold for every raw layer
  that reads back what it wrote, and the last section has one.
\<close>

section \<open>Documented behaviour of the raw layer\<close>

definition bytes_at :: "buffer \<Rightarrow> nat \<Rightarrow> buffer \<Rightarrow> bool" where
  "bytes_at data off bs \<longleftrightarrow> (\<exists>pre post. data = pre @ bs @ post \<and> length pre = off)"

fun field_len :: "field \<Rightarrow> nat" where
  "field_len (F8 _) = 1"
| "field_len (F64 _) = 8"
| "field_len (FS s) = 4 + length s"

fun field_ok :: "field \<Rightarrow> bool" where
  "field_ok (F8 v) \<longleftrightarrow> v < 256"
| "field_ok (F64 v) \<longleftrightarrow> v < 2 ^ 64"
| "field_ok (FS s) \<longleftrightarrow> length s < 2 ^ 32"

text \<open>
  A writer replaces as many bytes as the value needs, if they are within the size, and moves
  the offset behind them; a reader at the bytes of a value gives the value.
\<close>

definition writes :: "raw \<Rightarrow> (field \<Rightarrow> buffer) \<Rightarrow> bool" where
  "writes R enc \<longleftrightarrow>
     (\<forall>f pre mid post room ok. field_ok f \<longrightarrow> length mid = field_len f \<longrightarrow> length pre + field_len f \<le> room \<longrightarrow>
        set_field R room f (ok, pre @ mid @ post, length pre) = (ok, pre @ enc f @ post, length pre + field_len f))"

definition reads :: "raw \<Rightarrow> (field \<Rightarrow> buffer) \<Rightarrow> bool" where
  "reads R enc \<longleftrightarrow> (\<forall>data off room.
     (\<forall>v. v < 256 \<longrightarrow> bytes_at data off (enc (F8 v)) \<longrightarrow> off + 1 \<le> room \<longrightarrow>
        r_getUInt8 R data room off = (True, v, off + 1)) \<and>
     (\<forall>v. v < 2 ^ 64 \<longrightarrow> bytes_at data off (enc (F64 v)) \<longrightarrow> off + 8 \<le> room \<longrightarrow>
        r_getUInt64 R data room off = (True, v, off + 8)) \<and>
     (\<forall>v. length v < 2 ^ 32 \<longrightarrow> bytes_at data off (enc (FS v)) \<longrightarrow> off + 4 + length v \<le> room \<longrightarrow>
        r_getString R data room off = (True, v, off + 4 + length v)))"

definition heads :: "raw \<Rightarrow> (nat \<Rightarrow> nat \<Rightarrow> buffer) \<Rightarrow> bool" where
  "heads R hdr \<longleftrightarrow> (\<forall>t n. t < 256 \<longrightarrow> n < 2 ^ 32 \<longrightarrow> length (hdr t n) = 8 \<and>
     (\<forall>mid post. length mid = 8 \<longrightarrow>
        r_setHeader R (mid @ post) n (r_packet_id R t) n = (True, hdr t n @ post)) \<and>
     (\<forall>post. r_getId R (hdr t n @ post) = r_packet_id R t \<and> r_getSize R (hdr t n @ post) = n))"

definition packet_ids :: "raw \<Rightarrow> bool" where
  "packet_ids R \<longleftrightarrow> (\<forall>t. t < 256 \<longrightarrow> r_version R (r_packet_id R t) = r_version_service R \<and>
     r_service R (r_packet_id R t) = SERVICE_TYPE \<and> r_subtype R (r_packet_id R t) = t)"

definition raw_codec :: "raw \<Rightarrow> (field \<Rightarrow> buffer) \<Rightarrow> (nat \<Rightarrow> nat \<Rightarrow> buffer) \<Rightarrow> bool" where
  "raw_codec R enc hdr \<longleftrightarrow>
     (\<forall>f. length (enc f) = field_len f) \<and> writes R enc \<and> reads R enc \<and> heads R hdr \<and> packet_ids R"

definition raw_ok :: "raw \<Rightarrow> bool" where
  "raw_ok R \<longleftrightarrow> (\<exists>enc hdr. raw_codec R enc hdr)"

lemma bytes_at_append: "bytes_at data off (a @ b) \<Longrightarrow> bytes_at data off a \<and> bytes_at data (off + length a) b"
proof -
  assume "bytes_at data off (a @ b)"
  then obtain pre post where d: "data = pre @ a @ b @ post" "length pre = off" by (auto simp: bytes_at_def)
  then have "data = pre @ a @ (b @ post)" "data = (pre @ a) @ b @ post" by simp_all
  with d(2) show ?thesis unfolding bytes_at_def by (metis length_append)
qed

lemma bytes_at_here: "length pre = off \<Longrightarrow> bytes_at (pre @ bs @ post) off bs"
  by (auto simp: bytes_at_def)

lemma raw_codec_len: "raw_codec R enc hdr \<Longrightarrow> length (enc f) = field_len f"
  unfolding raw_codec_def by blast

lemma raw_codec_set: "raw_codec R enc hdr \<Longrightarrow> field_ok f \<Longrightarrow> length mid = field_len f \<Longrightarrow>
   length pre + field_len f \<le> room \<Longrightarrow>
   set_field R room f (ok, pre @ mid @ post, length pre) = (ok, pre @ enc f @ post, length pre + field_len f)"
  unfolding raw_codec_def writes_def by simp

lemma raw_codec_get8: "raw_codec R enc hdr \<Longrightarrow> v < 256 \<Longrightarrow> bytes_at data off (enc (F8 v)) \<Longrightarrow> off + 1 \<le> room \<Longrightarrow>
   r_getUInt8 R data room off = (True, v, off + 1)"
  unfolding raw_codec_def reads_def by simp

lemma raw_codec_get64: "raw_codec R enc hdr \<Longrightarrow> v < 2 ^ 64 \<Longrightarrow> bytes_at data off (enc (F64 v)) \<Longrightarrow> off + 8 \<le> room \<Longrightarrow>
   r_getUInt64 R data room off = (True, v, off + 8)"
  unfolding raw_codec_def reads_def by simp

lemma raw_codec_getS: "raw_codec R enc hdr \<Longrightarrow> length v < 2 ^ 32 \<Longrightarrow> bytes_at data off (enc (FS v)) \<Longrightarrow>
   off + 4 + length v \<le> room \<Longrightarrow> r_getString R data room off = (True, v, off + 4 + length v)"
  unfolding raw_codec_def reads_def by simp

lemma raw_codec_hdr: "raw_codec R enc hdr \<Longrightarrow> t < 256 \<Longrightarrow> n < 2 ^ 32 \<Longrightarrow> length (hdr t n) = 8 \<and>
   (length mid = 8 \<longrightarrow> r_setHeader R (mid @ post) n (r_packet_id R t) n = (True, hdr t n @ post)) \<and>
   r_getId R (hdr t n @ post) = r_packet_id R t \<and> r_getSize R (hdr t n @ post) = n"
  unfolding raw_codec_def heads_def by simp

lemma raw_codec_id: "raw_codec R enc hdr \<Longrightarrow> t < 256 \<Longrightarrow>
   r_version R (r_packet_id R t) = r_version_service R \<and> r_service R (r_packet_id R t) = SERVICE_TYPE \<and>
   r_subtype R (r_packet_id R t) = t"
  unfolding raw_codec_def packet_ids_def by simp

section \<open>What a writer leaves\<close>

definition fields_len :: "field list \<Rightarrow> nat" where
  "fields_len fs = sum_list (map field_len fs)"

lemma fields_len_simps [simp]:
  "fields_len [] = 0" "fields_len (f # fs) = field_len f + fields_len fs"
  by (simp_all add: fields_len_def)

lemma set_fields_ok:
  "raw_codec R enc hdr \<Longrightarrow> list_all field_ok fs \<Longrightarrow> length mid = fields_len fs \<Longrightarrow>
   length pre + fields_len fs \<le> room \<Longrightarrow>
   set_fields R room fs (ok, pre @ mid @ post, length pre) =
     (ok, pre @ concat (map enc fs) @ post, length pre + fields_len fs)"
proof (induction fs arbitrary: pre mid)
  case Nil
  then show ?case by (simp add: set_fields_def)
next
  case (Cons f fs)
  define m1 where "m1 = take (field_len f) mid"
  define m2 where "m2 = drop (field_len f) mid"
  have m: "mid = m1 @ m2" "length m1 = field_len f" "length m2 = fields_len fs"
    using Cons.prems(3) by (simp_all add: m1_def m2_def)
  have one: "set_field R room f (ok, pre @ m1 @ (m2 @ post), length pre) =
      (ok, pre @ enc f @ (m2 @ post), length pre + field_len f)"
    using Cons.prems m by (intro raw_codec_set) auto
  have l: "length (enc f) = field_len f" using Cons.prems(1) by (rule raw_codec_len)
  have "set_fields R room fs (ok, (pre @ enc f) @ m2 @ post, length (pre @ enc f)) =
      (ok, (pre @ enc f) @ concat (map enc fs) @ post, length (pre @ enc f) + fields_len fs)"
    using Cons.prems m l by (intro Cons.IH) auto
  with one m l show ?case by (simp add: set_fields_def add.assoc)
qed

text \<open>The packet of an item: header, protocol version, fields; its bytes behind are kept.\<close>

definition packet_of :: "(field \<Rightarrow> buffer) \<Rightarrow> (nat \<Rightarrow> nat \<Rightarrow> buffer) \<Rightarrow> nat \<Rightarrow> nat \<Rightarrow> field list \<Rightarrow> buffer \<Rightarrow> buffer" where
  "packet_of enc hdr t n fs rest = hdr t n @ enc (F8 PROTOCOL_VERSION) @ concat (map enc fs) @ rest"

definition written :: "ext \<Rightarrow> item \<Rightarrow> field list \<Rightarrow> bool" where
  "written E i fs \<longleftrightarrow> item_fields E i = Inr fs \<and> list_all field_ok fs \<and>
     serial_size E i = base_serial_size + fields_len fs \<and> serial_size E i < 2 ^ 32"

lemma PacketSubType_less: "PacketSubType i < 256"
  by (cases i) auto

lemma serialise_ok:
  assumes rc: "raw_codec R enc hdr" and w: "written E i fs"
    and sz: "serial_size E i \<le> pktsize" and buf: "pktsize \<le> length data"
  shows "serialise E R i data pktsize =
    Inr (True, packet_of enc hdr (PacketSubType i) (serial_size E i) fs (drop (serial_size E i) data),
         serial_size E i)"
proof -
  let ?n = "serial_size E i" and ?t = "PacketSubType i"
  have n: "?n = 9 + fields_len fs" using w by (simp add: written_def base_serial_size_def headersOffset_def)
  define m0 where "m0 = take 8 data"
  define m1 where "m1 = take 1 (drop 8 data)"
  define m2 where "m2 = take (fields_len fs) (drop 9 data)"
  define post where "post = drop ?n data"
  have len: "length m0 = 8" "length m1 = 1" "length m2 = fields_len fs"
    using sz buf n by (simp_all add: m0_def m1_def m2_def)
  have split: "data = m0 @ m1 @ m2 @ post"
  proof -
    have "drop ?n data = drop (fields_len fs) (drop 9 data)" by (simp add: n add.commute)
    then have "drop 9 data = m2 @ post" by (simp only: m2_def post_def append_take_drop_id)
    moreover have "drop 9 data = drop 1 (drop 8 data)" by simp
    then have "drop 8 data = m1 @ drop 9 data" by (simp only: m1_def append_take_drop_id)
    moreover have "data = m0 @ drop 8 data" by (simp only: m0_def append_take_drop_id)
    ultimately show ?thesis by (simp only: append_assoc)
  qed
  have H: "r_setHeader R data ?n (r_packet_id R ?t) ?n = (True, hdr ?t ?n @ m1 @ m2 @ post)"
    and hl: "length (hdr ?t ?n) = 8"
    using raw_codec_hdr [OF rc PacketSubType_less, of ?n i m0 "m1 @ m2 @ post"] w len
    by (simp_all add: written_def split [symmetric])
  have V: "set_field R ?n (F8 PROTOCOL_VERSION) (True, hdr ?t ?n @ m1 @ (m2 @ post), length (hdr ?t ?n)) =
      (True, hdr ?t ?n @ enc (F8 PROTOCOL_VERSION) @ (m2 @ post), length (hdr ?t ?n) + 1)"
    using raw_codec_set [OF rc, of "F8 PROTOCOL_VERSION" m1 "hdr ?t ?n" ?n True "m2 @ post"] len hl n
    by (simp add: PROTOCOL_VERSION_def)
  define pre where "pre = hdr ?t ?n @ enc (F8 PROTOCOL_VERSION)"
  have pl: "length pre = 9" using hl raw_codec_len [OF rc] by (simp add: pre_def)
  have F: "set_fields R ?n fs (True, pre @ m2 @ post, length pre) =
      (True, pre @ concat (map enc fs) @ post, length pre + fields_len fs)"
    using w len n pl by (intro set_fields_ok [OF rc]) (auto simp: written_def)
  have "base_serialise R ?t ?n data = (True, pre @ m2 @ post, length pre)"
    using H V hl pl by (simp add: base_serialise_def headersOffset_def pre_def)
  with F show ?thesis using sz w n pl
    by (simp add: serialise_def Let_def written_def packet_of_def pre_def post_def)
qed

section \<open>What a reader finds\<close>

lemma packet_head:
  assumes rc: "raw_codec R enc hdr" and t: "t < 256" and n: "n < 2 ^ 32" "n = 9 + fields_len fs"
    and p: "p = packet_of enc hdr t n fs rest"
  shows "r_getSize R p = n" "r_subtype R (r_getId R p) = t" "right_type R p"
    "base_deserialise R p = Inr 9" "bytes_at p 9 (concat (map enc fs))"
proof -
  have hl: "length (hdr t n) = 8" and id: "r_getId R p = r_packet_id R t" and sz: "r_getSize R p = n"
    using raw_codec_hdr [OF rc t n(1), of _ "enc (F8 PROTOCOL_VERSION) @ concat (map enc fs) @ rest"]
    by (simp_all add: p packet_of_def)
  show "r_getSize R p = n" by (rule sz)
  show "r_subtype R (r_getId R p) = t" "right_type R p"
    using raw_codec_id [OF rc t] by (simp_all add: right_type_def id)
  have "bytes_at p 8 (enc (F8 PROTOCOL_VERSION))"
    unfolding p packet_of_def by (rule bytes_at_here [OF hl])
  with n sz show "base_deserialise R p = Inr 9"
    using raw_codec_get8 [OF rc, of PROTOCOL_VERSION p 8 n]
    by (simp add: base_deserialise_def headersOffset_def PROTOCOL_VERSION_def)
  have "length (hdr t n @ enc (F8 PROTOCOL_VERSION)) = 9"
    using hl raw_codec_len [OF rc] by simp
  from bytes_at_here [OF this, of "concat (map enc fs)" rest]
  show "bytes_at p 9 (concat (map enc fs))" by (simp add: p packet_of_def)
qed

section \<open>Values that travel\<close>

definition wire_phase :: "TxPhase \<Rightarrow> bool" where
  "wire_phase p \<longleftrightarrow> (\<forall>n. p = TxPhase_other n \<longrightarrow> 8 \<le> n \<and> n < 256)"

definition wire_direction :: "TunnelDirection \<Rightarrow> bool" where
  "wire_direction d \<longleftrightarrow> (\<forall>n. d = TunnelDirection_other n \<longrightarrow> 2 \<le> n \<and> n < 256)"

definition wire_msg :: "MsgType \<Rightarrow> bool" where
  "wire_msg t \<longleftrightarrow> (\<forall>n. t = MsgType_other n \<longrightarrow> 3 \<le> n \<and> n < 256)"

definition wire_type :: "OrderType \<Rightarrow> bool" where
  "wire_type t \<longleftrightarrow> (\<forall>n. t = OrderType_other n \<longrightarrow> 2 \<le> n \<and> n < 256)"

definition wire_purpose :: "Purpose \<Rightarrow> bool" where
  "wire_purpose t \<longleftrightarrow> (\<forall>n. t = Purpose_other n \<longrightarrow> 5 \<le> n \<and> n < 256)"

lemma TxPhase_wire: "wire_phase p \<Longrightarrow> TxPhase_of (u8 (TxPhase_code p)) = p"
  by (cases p) (auto simp: TxPhase_of_def u8_def wire_phase_def)

lemma TunnelDirection_wire: "wire_direction d \<Longrightarrow> TunnelDirection_of (u8 (TunnelDirection_code d)) = d"
  by (cases d) (auto simp: TunnelDirection_of_def u8_def wire_direction_def)

lemma MsgType_wire: "wire_msg t \<Longrightarrow> MsgType_of (u8 (MsgType_code t)) = t"
  by (cases t) (auto simp: MsgType_of_def u8_def wire_msg_def)

lemma OrderType_wire: "wire_type t \<Longrightarrow> OrderType_of (u8 (OrderType_code t)) = t"
  by (cases t) (auto simp: OrderType_of_def u8_def wire_type_def)

lemma Purpose_wire: "wire_purpose t \<Longrightarrow> Purpose_of (u8 (Purpose_code t)) = t"
  by (cases t) (auto simp: Purpose_of_def u8_def wire_purpose_def)

lemma u8_less: "u8 n < 256"
  by (simp add: u8_def)

lemma u64_less: "u64 v < 2 ^ 64"
  by (simp add: u64_def nat_less_iff)

lemma s64_u64: "in_i64 v \<Longrightarrow> s64 (u64 v) = v"
proof -
  assume v: "in_i64 v"
  have "v mod 2 ^ 64 = (v + 2 ^ 64) mod 2 ^ 64" by simp
  also have "v < 0 \<Longrightarrow> \<dots> = v + 2 ^ 64" using v by (intro mod_pos_pos_trivial) (auto simp: in_i64_def)
  finally have neg: "v < 0 \<Longrightarrow> v mod 2 ^ 64 = v + 2 ^ 64" .
  have pos: "0 \<le> v \<Longrightarrow> v mod 2 ^ 64 = v" using v by (intro mod_pos_pos_trivial) (auto simp: in_i64_def)
  show ?thesis
    using v neg pos by (cases "0 \<le> v") (simp_all add: s64_def u64_def in_i64_def nat_less_iff)
qed

lemmas wire_simps = TxPhase_wire TunnelDirection_wire MsgType_wire OrderType_wire Purpose_wire u8_less u64_less

section \<open>Reading field by field\<close>

definition ready :: "(field \<Rightarrow> buffer) \<Rightarrow> buffer \<Rightarrow> nat \<Rightarrow> nat \<Rightarrow> field list \<Rightarrow> bool" where
  "ready enc p off n fs \<longleftrightarrow> bytes_at p off (concat (map enc fs)) \<and> off + fields_len fs = n \<and> list_all field_ok fs"

lemma ready_Nil: "ready enc p off n [] \<Longrightarrow> off = n"
  by (simp add: ready_def)

lemma ready_tail:
  "raw_codec R enc hdr \<Longrightarrow> ready enc p off n (f # fs) \<Longrightarrow>
   bytes_at p off (enc f) \<and> field_ok f \<and> off + field_len f \<le> n \<and> ready enc p (off + field_len f) n fs"
  using bytes_at_append [of p off "enc f" "concat (map enc fs)"] raw_codec_len [of R enc hdr f]
  by (simp add: ready_def)

lemma ready_F8:
  "raw_codec R enc hdr \<Longrightarrow> ready enc p off n (F8 v # fs) \<Longrightarrow>
   r_getUInt8 R p n off = (True, v, off + 1) \<and> ready enc p (off + 1) n fs"
  using ready_tail [of R enc hdr p off n "F8 v" fs] raw_codec_get8 [of R enc hdr v p off n] by simp

lemma ready_F64:
  "raw_codec R enc hdr \<Longrightarrow> ready enc p off n (F64 v # fs) \<Longrightarrow>
   r_getUInt64 R p n off = (True, v, off + 8) \<and> ready enc p (off + 8) n fs"
  using ready_tail [of R enc hdr p off n "F64 v" fs] raw_codec_get64 [of R enc hdr v p off n] by simp

lemma ready_FS:
  "raw_codec R enc hdr \<Longrightarrow> ready enc p off n (FS v # fs) \<Longrightarrow>
   r_getString R p n off = (True, v, off + 4 + length v) \<and> ready enc p (off + 4 + length v) n fs"
  using ready_tail [of R enc hdr p off n "FS v" fs] raw_codec_getS [of R enc hdr v p off n]
  by (simp add: add.assoc)

section \<open>Round trips\<close>

text \<open>The items that can be read back, and what they are read back as.\<close>

fun travels :: "ext \<Rightarrow> item \<Rightarrow> bool" where
  "travels E (OrderBookItem addr ord) \<longleftrightarrow>
     o_currency ord < length (currencySymbols (x_build E)) \<and> zr_fits (o_amount ord) \<and> zr_fits (o_price ord) \<and>
     wire_type (o_orderType ord) \<and> wire_purpose (o_purpose ord) \<and> in_i64 (o_timeStamp ord)"
| "travels E (TxItem phase txId) \<longleftrightarrow> wire_phase phase"
| "travels E (InitTxItem phase txId role p) \<longleftrightarrow> False"
| "travels E (CreditItem c) \<longleftrightarrow>
     known_currency E (c_currency c) \<and> zr_fits (c_credit c) \<and> zr_fits (c_our_credit c) \<and> zr_fits (c_balance c)"
| "travels E (MsgItem t msg) \<longleftrightarrow> wire_msg t"
| "travels E (RemoteTxItem addr phase dir payerId payload) \<longleftrightarrow> wire_phase phase \<and> wire_direction dir"

fun arrives_as :: "item \<Rightarrow> item" where
  "arrives_as (OrderBookItem addr ord) =
     OrderBookItem addr (new_Order False (o_order_id ord) (o_orderType ord) (o_amount ord) (o_price ord)
       (o_currency ord) (o_timeStamp ord) (o_purpose ord))"
| "arrives_as (CreditItem c) =
     CreditItem \<lparr>c_id = [], c_currency = c_currency c, c_our_credit = c_credit c, c_credit = c_our_credit c,
       c_balance = c_balance c, c_allocated = 0, c_fee = 0\<rparr>"
| "arrives_as i = i"

lemma symbols_len: "list_all (\<lambda>c. length c = 3) (currencySymbols b)"
proof -
  have "list_all (\<lambda>c. length c = 3) currencySymbols_testnet"
    "list_all (\<lambda>c. length c = 3) currencySymbols_prod1" "list_all (\<lambda>c. length c = 3) currencySymbols_prod2"
    by (simp_all add: currencySymbols_testnet_def currencySymbols_prod1_def currencySymbols_prod2_def)
  then show ?thesis by (cases b) simp_all
qed

lemma symbol_len: "c \<in> set (currencySymbols (x_build E)) \<Longrightarrow> length c = 3"
  using symbols_len [of "x_build E"] by (auto simp: list_all_iff)

text \<open>What can be read back was written in full.\<close>

lemma written_item:
  assumes "travels E i" and "serial_size E i < 2 ^ 32"
  shows "\<exists>fs. written E i fs"
proof -
  note d = size_defs fields_defs u8_less u64_less u64_less [simplified]
  show ?thesis
    using assms
  proof (cases i)
    case (OrderBookItem addr ord)
    with assms symbol_len [of "currencySymbols (x_build E) ! o_currency ord" E] show ?thesis
      by (simp add: written_def d)
  next
    case (CreditItem c)
    with assms symbol_len [of "c_currency c" E] show ?thesis
      by (simp add: written_def d known_currency_def)
  qed (simp_all add: written_def d)
qed

lemma frac_read: "frac_io E \<Longrightarrow> zr_fits q \<Longrightarrow> fromFractionString E (toStdString E q) = Inr q"
  by (simp add: frac_io_def fromFractionString_def toStdString_def)

lemma symbol_lookup: "i < length (currencySymbols (x_build E)) \<Longrightarrow>
   getCurrencyBySymbol E (currencySymbols (x_build E) ! i) s = (Inr i, s)"
  by (simp add: getCurrencyBySymbol_def table_index_nth distinct_symbols prog_defs)

lemma check_packet_ok:
  "right_type R p \<Longrightarrow> r_getSize R p \<le> room \<Longrightarrow> (\<And>t. sub = Some t \<Longrightarrow> r_subtype R (r_getId R p) = t) \<Longrightarrow>
   check_packet R p room sub = Inr ()"
  by (auto simp: check_packet_def split: option.splits)

lemma read_item:
  assumes rc: "raw_codec R enc hdr" and w: "written E i fs" and tr: "travels E i" and io: "frac_io E"
    and p: "p = packet_of enc hdr (PacketSubType i) (serial_size E i) fs rest"
  shows "Serialiser_deserialise E R p (serial_size E i) s = (Inr (Some (arrives_as i)), s)"
proof -
  let ?n = "serial_size E i"
  have n: "?n < 2 ^ 32" "?n = 9 + fields_len fs"
    using w by (simp_all add: written_def base_serial_size_def headersOffset_def)
  note h = packet_head [OF rc PacketSubType_less n p]
  have rdy: "ready enc p 9 ?n fs" using h(5) w n by (simp add: ready_def written_def)
  have chk: "check_packet R p ?n (Some (PacketSubType i)) = Inr ()" "check_packet R p ?n None = Inr ()"
    by (rule check_packet_ok; use h in simp)+
  note F = ready_F8 [OF rc] ready_F64 [OF rc] ready_FS [OF rc] ready_Nil
  note D = Serialiser_deserialise_def Let_def prog_defs
  show ?thesis
  proof (cases i)
    case (MsgItem t msg)
    then have fs: "fs = [F8 (u8 (MsgType_code t)), FS msg]" using w by (simp add: written_def fields_defs)
    from rdy have "ready enc p 9 ?n (F8 (u8 (MsgType_code t)) # [FS msg])" by (simp only: fs)
    then obtain a: "r_getUInt8 R p ?n 9 = (True, u8 (MsgType_code t), 10)" and "ready enc p 10 ?n [FS msg]"
      using F(1) by force
    then obtain b: "r_getString R p ?n 10 = (True, msg, 14 + length msg)" and "ready enc p (14 + length msg) ?n []"
      using F(3) by force
    from a b F(4) [OF this(2)] h chk tr MsgItem show ?thesis
      by (simp add: D deserialise_Msg_def MsgType_wire)
  next
    case (TxItem phase txId)
    then have fs: "fs = [F8 (u8 (TxPhase_code phase)), FS txId]" using w by (simp add: written_def fields_defs)
    from rdy have "ready enc p 9 ?n (F8 (u8 (TxPhase_code phase)) # [FS txId])" by (simp only: fs)
    then obtain a: "r_getUInt8 R p ?n 9 = (True, u8 (TxPhase_code phase), 10)" and "ready enc p 10 ?n [FS txId]"
      using F(1) by force
    then have b: "r_getString R p ?n 10 = (True, txId, 14 + length txId)"
      using F(3) by force
    from a b h chk tr TxItem show ?thesis
      by (simp add: D deserialise_Tx_def deserialise_tx_def TxPhase_wire)
  next
    case (RemoteTxItem addr phase dir payerId payload)
    then have "ready enc p 9 ?n (FS addr # F8 (u8 (TxPhase_code phase)) # F8 (u8 (TunnelDirection_code dir)) #
      [FS payerId, FS payload])" using w rdy by (simp add: written_def fields_defs)
    note f1 = F(3) [OF this]
    note f2 = F(1) [OF f1 [THEN conjunct2]]
    note f3 = F(1) [OF f2 [THEN conjunct2]]
    note f4 = F(3) [OF f3 [THEN conjunct2]]
    note f5 = F(3) [OF f4 [THEN conjunct2]]
    from f1 f2 f3 f4 f5 h chk tr RemoteTxItem show ?thesis
      by (simp add: D deserialise_RemoteTx_def deserialise_remote_def TxPhase_wire TunnelDirection_wire)
  next
    case (CreditItem c)
    then have "ready enc p 9 ?n (FS (c_currency c) # FS (toStdString E (c_credit c)) #
      FS (toStdString E (c_our_credit c)) # [FS (toStdString E (c_balance c))])" using w rdy by (simp add: written_def fields_defs)
    note f1 = F(3) [OF this]
    note f2 = F(3) [OF f1 [THEN conjunct2]]
    note f3 = F(3) [OF f2 [THEN conjunct2]]
    note f4 = F(3) [OF f3 [THEN conjunct2]]
    note f5 = F(4) [OF f4 [THEN conjunct2]]
    from f1 f2 f3 f4 f5 h chk tr CreditItem io show ?thesis
      by (simp add: D deserialise_Credit_def frac_read)
  next
    case (OrderBookItem addr ord)
    then have "ready enc p 9 ?n (FS addr # FS (toStdString E (o_amount ord)) #
      FS (currencySymbols (x_build E) ! o_currency ord) # F8 (u8 (OrderType_code (o_orderType ord))) #
      FS (toStdString E (o_price ord)) # F64 (u64 (o_timeStamp ord)) # FS (o_order_id ord) #
      [F8 (u8 (Purpose_code (o_purpose ord)))])" using w rdy tr by (simp add: written_def fields_defs)
    note f1 = F(3) [OF this]
    note f2 = F(3) [OF f1 [THEN conjunct2]]
    note f3 = F(3) [OF f2 [THEN conjunct2]]
    note f4 = F(1) [OF f3 [THEN conjunct2]]
    note f5 = F(3) [OF f4 [THEN conjunct2]]
    note f6 = F(2) [OF f5 [THEN conjunct2]]
    note f7 = F(3) [OF f6 [THEN conjunct2]]
    note f8 = F(1) [OF f7 [THEN conjunct2]]
    note f9 = F(4) [OF f8 [THEN conjunct2]]
    from f1 f2 f3 f4 f5 f6 f7 f8 f9 h chk tr OrderBookItem io show ?thesis
      by (simp add: D deserialise_OrderBook_def deserialise_remote_def frac_read symbol_lookup
          OrderType_wire Purpose_wire s64_u64)
  qed (use tr in simp)
qed

section \<open>A raw layer\<close>

text \<open>Numbers with the highest byte first; a text behind its length in four bytes.\<close>

fun be :: "nat \<Rightarrow> nat \<Rightarrow> buffer" where
  "be 0 v = []"
| "be (Suc k) v = be k (v div 256) @ [of_nat (v mod 256)]"

definition from_be :: "buffer \<Rightarrow> nat" where
  "from_be bs = foldl (\<lambda>a b. a * 256 + unat b) 0 bs"

definition chars :: "string \<Rightarrow> buffer" where
  "chars s = map (\<lambda>c. of_nat (of_char c)) s"

definition from_chars :: "buffer \<Rightarrow> string" where
  "from_chars bs = map (\<lambda>b. char_of (unat b)) bs"

fun demo_enc :: "field \<Rightarrow> buffer" where
  "demo_enc (F8 v) = be 1 v"
| "demo_enc (F64 v) = be 8 v"
| "demo_enc (FS s) = be 4 (length s) @ chars s"

definition demo_packet_id :: "nat \<Rightarrow> nat" where
  "demo_packet_id t = 2 * 2 ^ 24 + SERVICE_TYPE * 256 + t"

definition demo_hdr :: "nat \<Rightarrow> nat \<Rightarrow> buffer" where
  "demo_hdr t n = be 4 (demo_packet_id t) @ be 4 n"

definition put_bytes :: "buffer \<Rightarrow> nat \<Rightarrow> nat \<Rightarrow> buffer \<Rightarrow> bool \<times> buffer \<times> nat" where
  "put_bytes data room off bs =
     (if off + length bs \<le> room then (True, take off data @ bs @ drop (off + length bs) data, off + length bs)
      else (False, data, off))"

definition get_bytes :: "buffer \<Rightarrow> nat \<Rightarrow> nat \<Rightarrow> nat \<Rightarrow> buffer" where
  "get_bytes data room off k = (if off + k \<le> room then take k (drop off data) else [])"

definition demo_raw :: raw where
  "demo_raw = \<lparr>r_packet_id = demo_packet_id, r_version_service = 2,
     r_version = (\<lambda>i. i div 2 ^ 24), r_service = (\<lambda>i. i div 256 mod 2 ^ 16), r_subtype = (\<lambda>i. i mod 256),
     r_setHeader = (\<lambda>data room i n. (True, be 4 i @ be 4 n @ drop 8 data)),
     r_getId = (\<lambda>data. from_be (take 4 data)), r_getSize = (\<lambda>data. from_be (take 4 (drop 4 data))),
     r_setUInt8 = (\<lambda>data room off v. put_bytes data room off (be 1 v)),
     r_setUInt64 = (\<lambda>data room off v. put_bytes data room off (be 8 v)),
     r_setString = (\<lambda>data room off v. put_bytes data room off (be 4 (length v) @ chars v)),
     r_getUInt8 = (\<lambda>data room off. (off + 1 \<le> room, from_be (get_bytes data room off 1), off + 1)),
     r_getUInt64 = (\<lambda>data room off. (off + 8 \<le> room, from_be (get_bytes data room off 8), off + 8)),
     r_getString = (\<lambda>data room off. let n = from_be (get_bytes data room off 4) in
       (off + 4 + n \<le> room, from_chars (get_bytes data room (off + 4) n), off + 4 + n))\<rparr>"

lemma length_be [simp]: "length (be k v) = k"
  by (induction k arbitrary: v) auto

lemma from_be_snoc: "from_be (bs @ [b]) = from_be bs * 256 + unat b"
  by (simp add: from_be_def)

lemma from_be_be: "v < 256 ^ k \<Longrightarrow> from_be (be k v) = v"
proof (induction k arbitrary: v)
  case 0
  then show ?case by (simp add: from_be_def)
next
  case (Suc k)
  then have "v div 256 < 256 ^ k" by (simp add: less_mult_imp_div_less mult.commute)
  with Suc.IH [OF this] show ?case
    by (simp add: from_be_snoc unat_of_nat take_bit_eq_mod)
qed

lemma length_chars [simp]: "length (chars s) = length s"
  by (simp add: chars_def)

lemma of_char_less: "of_char c < (256 :: nat)"
  using of_char_mod_256 [of c] by (metis mod_less_divisor zero_less_numeral)

lemma from_chars_chars: "from_chars (chars s) = s"
  by (simp add: from_chars_def chars_def comp_def unat_of_nat of_char_mod_256 del: of_nat_of_char cong: list.map_cong)

lemma get_bytes_at: "bytes_at data off (a @ b) \<Longrightarrow> off + length a \<le> room \<Longrightarrow> get_bytes data room off (length a) = a"
  by (auto simp: bytes_at_def get_bytes_def)

lemma get_be: "bytes_at data off (be k v @ b) \<Longrightarrow> off + k \<le> room \<Longrightarrow> v < 256 ^ k \<Longrightarrow>
   from_be (get_bytes data room off k) = v"
  using get_bytes_at [of data off "be k v" b room] by (simp add: from_be_be)

lemma demo_writes: "writes demo_raw demo_enc"
proof -
  have put: "put_bytes (pre @ mid @ post) room (length pre) bs = (True, pre @ bs @ post, length pre + length bs)"
    if "length mid = length bs" "length pre + length bs \<le> room" for pre mid post bs room
    using that by (simp add: put_bytes_def)
  have "set_field demo_raw room f (ok, pre @ mid @ post, length pre) =
      (ok, pre @ demo_enc f @ post, length pre + field_len f)"
    if "length mid = field_len f" "length pre + field_len f \<le> room" for f pre mid post room ok
    using that put [of mid "demo_enc f" pre room post] by (cases f) (simp_all add: demo_raw_def)
  then show ?thesis by (simp add: writes_def)
qed

lemma demo_reads: "reads demo_raw demo_enc"
proof -
  have "r_getUInt8 demo_raw data room off = (True, v, off + 1)"
    if "v < 256" "bytes_at data off (demo_enc (F8 v))" "off + 1 \<le> room" for data off room v
    using that get_be [of data off 1 v "[]" room] by (simp add: demo_raw_def)
  moreover have "r_getUInt64 demo_raw data room off = (True, v, off + 8)"
    if "v < 2 ^ 64" "bytes_at data off (demo_enc (F64 v))" "off + 8 \<le> room" for data off room v
    using that get_be [of data off 8 v "[]" room] by (simp add: demo_raw_def)
  moreover have "r_getString demo_raw data room off = (True, v, off + 4 + length v)"
    if v: "length v < 2 ^ 32" and b: "bytes_at data off (demo_enc (FS v))" and r: "off + 4 + length v \<le> room"
    for data off room v
  proof -
    have "bytes_at data off (be 4 (length v) @ chars v)" using b by simp
    from get_be [OF this] v r bytes_at_append [OF this] get_bytes_at [of data "off + 4" "chars v" "[]" room]
    show ?thesis by (simp add: demo_raw_def from_chars_chars)
  qed
  ultimately show ?thesis by (simp add: reads_def)
qed

lemma demo_packet_id_less: "t < 256 \<Longrightarrow> demo_packet_id t < 256 ^ 4"
  by (simp add: demo_packet_id_def SERVICE_TYPE_def)

lemma demo_heads: "heads demo_raw demo_hdr"
  by (simp add: heads_def demo_raw_def demo_hdr_def from_be_be demo_packet_id_less [simplified])

lemma demo_packet_ids: "packet_ids demo_raw"
proof -
  have "(demo_packet_id t) div 16777216 = 2 \<and> demo_packet_id t div 256 mod 65536 = SERVICE_TYPE \<and>
      demo_packet_id t mod 256 = t" if "t < 256" for t
  proof -
    have e: "demo_packet_id t = 46067456 + t" by (simp add: demo_packet_id_def SERVICE_TYPE_def)
    have d: "(46067456 + t) div 256 = 179951" using that by simp
    have "(46067456 + t) div 16777216 = 2" using that by (intro div_nat_eqI) simp_all
    moreover have "(46067456 + t) mod 256 = t"
      using minus_div_mult_eq_mod [of "46067456 + t" 256] d by simp
    ultimately show ?thesis by (simp add: e d SERVICE_TYPE_def)
  qed
  then show ?thesis by (simp add: packet_ids_def demo_raw_def)
qed

lemma demo_codec: "raw_codec demo_raw demo_enc demo_hdr"
proof -
  have "length (demo_enc f) = field_len f" for f by (cases f) simp_all
  then show ?thesis
    unfolding raw_codec_def using demo_writes demo_reads demo_heads demo_packet_ids by blast
qed

lemma demo_raw_ok: "raw_ok demo_raw"
  unfolding raw_ok_def using demo_codec by blast

section \<open>Properties\<close>

text \<open>
  C13: An item written into a buffer with room for it fills exactly the size it announces, leaves
  the bytes behind it alone, and is read back by the service's serialiser: orders lose what is
  local to the sender, and the two credit lines of a credit item change places. This is stated of orders,
  transaction items, credit lines, messages and remote transactions. The item that starts a payment is left out:
  its sender never sets the role it writes, and reading it loads the credit line of nobody from the database.
\<close>

theorem item_roundtrip:
  assumes "raw_ok R" and "frac_io E" and "travels E i" and "serial_size E i < 2 ^ 32"
    and "serial_size E i \<le> pktsize" and "pktsize \<le> length data"
  shows "\<exists>data'. serialise E R i data pktsize = Inr (True, data', serial_size E i) \<and>
    length data' = length data \<and> drop (serial_size E i) data' = drop (serial_size E i) data \<and>
    Serialiser_deserialise E R data' (serial_size E i) s = (Inr (Some (arrives_as i)), s)"
proof -
  let ?n = "serial_size E i"
  obtain enc hdr where rc: "raw_codec R enc hdr" using assms(1) by (auto simp: raw_ok_def)
  obtain fs where w: "written E i fs" using written_item assms by blast
  define p where "p = packet_of enc hdr (PacketSubType i) ?n fs (drop ?n data)"
  have n: "?n = 9 + fields_len fs" using w by (simp add: written_def base_serial_size_def headersOffset_def)
  have "length (concat (map enc fs)) = fields_len fs"
    using raw_codec_len [OF rc] by (induction fs) auto
  moreover have "length (hdr (PacketSubType i) ?n) = 8"
    using raw_codec_hdr [OF rc PacketSubType_less assms(4)] by blast
  ultimately have "length p = length data" "drop ?n p = drop ?n data"
    using assms n raw_codec_len [OF rc, of "F8 PROTOCOL_VERSION"] by (simp_all add: p_def packet_of_def)
  with serialise_ok [OF rc w assms(5,6)] read_item [OF rc w assms(3,2) p_def] show ?thesis
    by (simp add: p_def)
qed

theorem item_roundtrip_witness:
  "\<exists>data'. serialise demo demo_raw (CreditItem (demo_credit ''bo'' 9 5 2 0)) (replicate 50 1) 50 = Inr (True, data', 37) \<and>
    drop 37 data' = replicate 13 1 \<and>
    Serialiser_deserialise demo demo_raw data' 37 (demo_payw []) =
      (Inr (Some (CreditItem (demo_credit [] 5 9 2 0))), demo_payw [])"
proof -
  let ?i = "CreditItem (demo_credit ''bo'' 9 5 2 0)"
  have sz: "serial_size demo ?i = 37"
    by (simp add: size_defs toStdString_def demo_def demo_show_rat_def demo_credit_def show_int_def show_nat.simps)
  have tr: "travels demo ?i"
    by (simp add: demo_credit_def known_currency_def demo_def currencySymbols_testnet_def zr_fits_def in_i64_def)
  have a: "arrives_as ?i = CreditItem (demo_credit [] 5 9 2 0)" by (simp add: demo_credit_def)
  from item_roundtrip [OF demo_raw_ok demo_frac_io tr, of 50 "replicate 50 1" "demo_payw []"] a
  show ?thesis unfolding sz a by auto
qed

text \<open>
  The reading of a remote transaction item does not look at whether its fields could be read:
  any packet of this type with the right protocol version gives an item, however short it is.
\<close>

theorem remote_tx_not_checked:
  assumes "right_type R data" and "r_subtype R (r_getId R data) = 7"
    and "base_deserialise R data = Inr off" and "r_getSize R data \<le> pktsize"
  shows "\<exists>addr phase dir payerId payload.
    Serialiser_deserialise E R data pktsize s = (Inr (Some (RemoteTxItem addr phase dir payerId payload)), s)"
proof -
  have c: "check_packet R data pktsize None = Inr ()" by (rule check_packet_ok) (use assms in simp_all)
  have "\<exists>addr phase dir payerId payload.
      deserialise_RemoteTx R data pktsize = Inr (RemoteTxItem addr phase dir payerId payload)"
    by (auto simp: deserialise_RemoteTx_def deserialise_remote_def assms(3) c Let_def split: prod.splits)
  then show ?thesis
    using assms(1,2) by (auto simp: Serialiser_deserialise_def Let_def prog_defs)
qed

theorem remote_tx_not_checked_witness:
  "\<exists>addr phase dir payerId payload.
    Serialiser_deserialise demo demo_raw (demo_hdr 7 9 @ [0]) 9 (demo_payw []) =
      (Inr (Some (RemoteTxItem addr phase dir payerId payload)), demo_payw [])"
proof -
  let ?d = "demo_hdr 7 9 @ [0]"
  have "?d = packet_of demo_enc demo_hdr 7 9 [] []" by (simp add: packet_of_def PROTOCOL_VERSION_def)
  note h = packet_head [OF demo_codec, of 7 9 "[]", OF _ _ _ this, simplified]
  from remote_tx_not_checked [OF h(3) h(2) h(4), of 9] h(1) show ?thesis by simp
qed

end
