(* ===== verification/Service.thy ===== *)
theory Service
  imports ItemLaws
begin

text \<open>
  \<^verbatim>\<open>src/p3ZeroReserverRS.h\<close> and \<^verbatim>\<open>src/p3ZeroReserveRS.cpp\<close>: the RetroShare service of the
  node, its sending operations and its handlers of messages, orders and credit items, with
  what other classes do by calling them (\<^verbatim>\<open>OrderBook::processMyOrder\<close>,
  \<^verbatim>\<open>Credit::publish\<close>). Sending appends to the queue RetroShare takes the packets from.
  The loop over the incoming items is with the whole node.
\<close>

section \<open>State\<close>

text \<open>
  \<open>s_sent\<close> holds the items handed to RetroShare, in order; \<open>s_received\<close> those it has for us;
  \<open>s_raw\<close> the Bitcoin transactions handed to the Bitcoin client.
\<close>

record svcw = conw +
  s_sent :: "packet list"
  s_received :: "packet list"
  s_initialized :: int
  s_lastCleanup :: int
  s_raw :: "BitcoinTxHex list"

definition INIT_THRESHOLD :: int where
  "INIT_THRESHOLD = 3"

section \<open>Sending\<close>

definition sendItem :: "PeerAddress \<Rightarrow> item \<Rightarrow> ('z svcw_scheme, unit) prog" where
  "sendItem peer i = modify (\<lambda>w. w\<lparr>s_sent := s_sent w @ [\<lparr>pk_peer = peer, pk_item = i\<rparr>]\<rparr>)"

text \<open>An item holds a copy of the order, and the order's id as its address.\<close>

definition sendOrder :: "PeerAddress \<Rightarrow> oref \<Rightarrow> ('z svcw_scheme, unit) prog" where
  "sendOrder peer_id r = bnd (get_order r) (\<lambda>ord. sendItem peer_id (OrderBookItem (o_order_id ord) ord))"

definition sendCredit :: "Credit \<Rightarrow> ('z svcw_scheme, unit) prog" where
  "sendCredit c = sendItem (c_id c) (CreditItem c)"

definition Credit_publish :: "Credit \<Rightarrow> ('z svcw_scheme, unit) prog" where
  "Credit_publish c = sendCredit c"

text \<open>
  The condition on the purposes in the code holds for every purpose; it is kept as written. So is the
  factor a tenth, which the product cuts to 0.
\<close>

definition publish_to :: "ext \<Rightarrow> oref \<Rightarrow> PeerAddress option \<Rightarrow> PeerAddress \<Rightarrow> ('z svcw_scheme, unit) prog" where
  "publish_to E r origin peer =
     (if peer = x_own_id E then ret ()
      else if origin = Some peer then ret ()
      else bnd (get_order r) (\<lambda>ord.
        bnd (symbol_of E (o_currency ord)) (\<lambda>cur.
        bnd (new_Credit E peer cur) (\<lambda>c0.
        bnd (Credit_loadPeer E c0) (\<lambda>c.
          if o_orderType ord = ASK \<and> (o_purpose ord \<noteq> CANCEL \<or> o_purpose ord \<noteq> FILLED) then
            (if getMyAvailable c < zr_times_double (o_amount ord) (1 / 10) then ret () else sendOrder peer r)
          else
            (if getPeerAvailable c < zr_times_double (o_amount ord) (1 / 10) then ret () else sendOrder peer r))))))"

definition publishOrder :: "ext \<Rightarrow> oref \<Rightarrow> PeerAddress option \<Rightarrow> ('z svcw_scheme, unit) prog" where
  "publishOrder E r origin = bnd (gets w_online) (\<lambda>sendList. for_each sendList (publish_to E r origin))"

definition sendOrderBook :: "PeerAddress \<Rightarrow> ('z svcw_scheme, unit) prog" where
  "sendOrderBook uid =
     bnd (gets (\<lambda>w. m_orders (b_book w Asks))) (\<lambda>asks. thn (for_each asks (sendOrder uid))
     (bnd (gets (\<lambda>w. m_orders (b_book w Bids))) (\<lambda>bids. thn (for_each bids (sendOrder uid))
       (sendItem [] (MsgItem SENT_ORDERBOOK [])))))"

section \<open>Own orders\<close>

definition OrderBook_processMyOrder :: "ext \<Rightarrow> side \<Rightarrow> oref \<Rightarrow> ('z svcw_scheme, RetVal) prog" where
  "OrderBook_processMyOrder E sd r =
     bnd (try_catch catch_runtime_error
       (bnd (get_order r) (\<lambda>ord. thn (ZrDB_addOrder E ord) (ret True)))
       (\<lambda>e. thn (placeMsg (''Exception caught at processMyOrder: '' @ what e)) (ret False))) (\<lambda>ok.
     if \<not> ok then ret ZR_FAILURE
     else bnd (OrderBook_addOrder E Mine r) (\<lambda>_.
       bnd (OrderBook_addOrder E sd r) (\<lambda>_.
       thn (publishOrder E r None) (ret ZR_SUCCESS))))"

section \<open>Handlers\<close>

definition handleMessage :: "PeerAddress \<Rightarrow> MsgType \<Rightarrow> ('z svcw_scheme, unit) prog" where
  "handleMessage peer msgType =
     (case msgType of
        REQUEST_ORDERBOOK \<Rightarrow> sendOrderBook peer
      | SENT_ORDERBOOK \<Rightarrow> modify (\<lambda>w. w\<lparr>s_initialized := s_initialized w + 1\<rparr>)
      | _ \<Rightarrow> ret ())"

definition handleOrder :: "ext \<Rightarrow> PeerAddress \<Rightarrow> Order \<Rightarrow> ('z svcw_scheme, unit) prog" where
  "handleOrder E peer itemOrder =
     bnd (alloc_order itemOrder) (\<lambda>r.
     bnd (gets n_router) (\<lambda>rt.
     thn (whn (\<not> TraceRouter_hasRoute rt (o_order_id itemOrder))
            (modify (\<lambda>w. w\<lparr>n_router := TraceRouter_addRoute (o_order_id itemOrder) peer (n_router w)\<rparr>)))
     (bnd (OrderBook_processOrder E (if o_orderType itemOrder = ASK then Asks else Bids) r) (\<lambda>result.
       if result = ZR_SUCCESS then publishOrder E r (Some peer) else delete_order r))))"

definition handleCredit :: "ext \<Rightarrow> PeerAddress \<Rightarrow> Credit \<Rightarrow> ('z svcw_scheme, unit) prog" where
  "handleCredit E peer itemCredit =
     (let otherCredit = CreditItem_getCredit peer itemCredit in
      bnd (new_Credit E (c_id otherCredit) (c_currency otherCredit)) (\<lambda>c0.
      bnd (Credit_loadPeer E c0) (\<lambda>ourCredit.
      thn (whn (c_our_credit ourCredit \<noteq> c_our_credit otherCredit) (Credit_updateOurCredit E otherCredit))
          (whn (- c_balance ourCredit \<noteq> c_balance otherCredit)
             (placeMsg (''Different balance: '' @ x_peer_name E (c_id otherCredit) @ '' has '' @
                toDecimalStdString E (c_balance otherCredit) @ '' we have '' @
                toDecimalStdString E (c_balance ourCredit)))))))"

text \<open>A friend whose status changed, and whether it has just connected.\<close>

definition requestOrderBook :: "PeerAddress \<times> bool \<Rightarrow> ('z svcw_scheme, unit) prog" where
  "requestOrderBook peer = whn (snd peer) (sendItem (fst peer) (MsgItem REQUEST_ORDERBOOK []))"

fun send_credits :: "ext \<Rightarrow> (PeerAddress \<times> bool) list \<Rightarrow> ('z svcw_scheme, unit) prog" where
  "send_credits E [] = ret ()"
| "send_credits E ((peer, up) # ps) =
     (if up then
        bnd (try_catch catch_exception
          (bnd (getCreditList E peer) (\<lambda>cl. ret (Some cl)))
          (\<lambda>e. thn (placeMsg (''Exception caught: '' @ what_sliced e @ '' Cannot load credit list'')) (ret None)))
        (\<lambda>r. case r of None \<Rightarrow> ret () | Some cl \<Rightarrow> thn (for_each cl sendCredit) (send_credits E ps))
      else send_credits E ps)"

definition statusChange :: "ext \<Rightarrow> (PeerAddress \<times> bool) list \<Rightarrow> ('z svcw_scheme, unit) prog" where
  "statusChange E plist =
     bnd (gets s_initialized) (\<lambda>m_initialized.
     thn (whn (m_initialized < INIT_THRESHOLD) (for_each plist requestOrderBook)) (send_credits E plist))"

end
