(* ===== verification/ServiceLaws.thy ===== *)
theory ServiceLaws
  imports Service
begin

text \<open>
  What the service promises: an order is offered to exactly the online friends whose credit
  line is not overdrawn, whatever its amount; a friend's credit item sets what we may take from it; the answer
  to a request for the order book is the whole book. An order with a currency this build does
  not know stops the node.
\<close>

section \<open>Publishing\<close>

definition account_at :: "tables \<Rightarrow> PeerAddress \<Rightarrow> string \<Rightarrow> account" where
  "account_at t p cur = (case abs_peers t (p, cur) of
     None \<Rightarrow> \<lparr>a_credit = 0, a_our_credit = 0, a_balance = 0, a_allocation = 0\<rparr> | Some a \<Rightarrow> a)"

lemma load_any:
  assumes "db_up E" "known_currency E cur" "no_quote p" "peers_ok (db_tables s)"
  shows "bnd (new_Credit E p cur) (\<lambda>c. bnd (Credit_loadPeer E c) f) s =
    f (loaded p cur (account_at (db_tables s) p cur)) (tick s)"
proof -
  let ?c = "\<lparr>c_id = p, c_currency = cur, c_our_credit = 0, c_credit = 0, c_balance = 0,
     c_allocated = 0, c_fee = 0\<rparr> :: Credit"
  have ko: "key_ok ?c" using assms known_no_quote [OF assms(2)] by (simp add: key_ok_def)
  show ?thesis
    using ZrDB_loadPeer_abs [OF assms(1) ko assms(4)]
    by (simp add: bnd_def new_Credit_known [OF assms(2)] Credit_loadPeer_def load_account_def loaded_def
        account_at_def split: option.split)
qed

lemma myorders_tables [simp]:
  "abs_peers (t\<lparr>t_myorders := x\<rparr>) = abs_peers t" "peers_ok (t\<lparr>t_myorders := x\<rparr>) = peers_ok t"
  by (simp_all add: abs_peers_def peers_ok_def fun_eq_iff)

definition concerned :: "ext \<Rightarrow> PeerAddress option \<Rightarrow> PeerAddress \<Rightarrow> bool" where
  "concerned E origin p \<longleftrightarrow> p \<noteq> x_own_id E \<and> origin \<noteq> Some p"

text \<open>A seller's order looks at what we may take from the friend, a buyer's at what it may take from us.\<close>

definition not_overdrawn :: "ext \<Rightarrow> tables \<Rightarrow> Order \<Rightarrow> PeerAddress \<Rightarrow> bool" where
  "not_overdrawn E t ord p \<longleftrightarrow>
     (let a = account_at t p (currencySymbols (x_build E) ! o_currency ord) in
      0 \<le> (if o_orderType ord = ASK then a_our_credit a + a_balance a else available a))"

definition order_packet :: "Order \<Rightarrow> PeerAddress \<Rightarrow> packet" where
  "order_packet ord p = \<lparr>pk_peer = p, pk_item = OrderBookItem (o_order_id ord) ord\<rparr>"

definition published :: "ext \<Rightarrow> Order \<Rightarrow> PeerAddress option \<Rightarrow> PeerAddress list \<Rightarrow> 'z svcw_scheme \<Rightarrow> 'z svcw_scheme" where
  "published E ord origin ps s = s\<lparr>db_stmts := db_stmts s + length (filter (concerned E origin) ps),
     s_sent := s_sent s @ map (order_packet ord)
       (filter (\<lambda>p. concerned E origin p \<and> not_overdrawn E (db_tables s) ord p) ps)\<rparr>"

definition publishable :: "ext \<Rightarrow> oref \<Rightarrow> 'z svcw_scheme \<Rightarrow> bool" where
  "publishable E r s \<longleftrightarrow> db_up E \<and> peers_ok (db_tables s) \<and> r \<in> dom (b_heap s) \<and>
     o_currency (obj s r) < length (currencySymbols (x_build E))"

lemma sendOrder_ok: "r \<in> dom (b_heap s) \<Longrightarrow>
   sendOrder p r s = (Inr (), s\<lparr>s_sent := s_sent s @ [order_packet (obj s r) p]\<rparr>)"
  by (simp add: sendOrder_def bnd_def get_order_ok sendItem_def prog_apply order_packet_def)

lemma publish_to_ok:
  assumes "publishable E r s" and "no_quote p"
  shows "publish_to E r origin p s = (Inr (), published E (obj s r) origin [p] s)"
proof -
  let ?o = "obj s r" and ?cur = "currencySymbols (x_build E) ! o_currency (obj s r)"
  have k: "known_currency E ?cur" using assms by (simp add: publishable_def known_currency_def)
  have g: "get_order r s = (Inr ?o, s)" using assms get_order_ok [of r s] by (simp add: publishable_def)
  have sy: "symbol_of E (o_currency ?o) s = (Inr ?cur, s)" using assms by (simp add: publishable_def symbol_of_def prog_apply)
  have rd: "r \<in> dom (b_heap (tick s))" using assms by (simp add: publishable_def)
  have "db_up E" "peers_ok (db_tables s)" using assms by (simp_all add: publishable_def)
  note l = load_any [OF this(1) k assms(2) this(2)]
  have "publish_to E r origin p s =
      (if p = x_own_id E \<or> origin = Some p then (Inr (), s)
       else bnd (new_Credit E p ?cur) (\<lambda>c0. bnd (Credit_loadPeer E c0) (\<lambda>c.
          if o_orderType ?o = ASK
          then (if getMyAvailable c < 0 then ret () else sendOrder p r)
          else (if getPeerAvailable c < 0 then ret () else sendOrder p r))) s)"
    by (simp add: publish_to_def [unfolded zr_times_tenth] prog_apply bnd_def [of "get_order r"] g bnd_def [of "symbol_of E (o_currency ?o)"] sy)
  also have "\<dots> = (Inr (), published E ?o origin [p] s)"
    using assms sendOrder_ok [OF rd]
    by (auto simp: l publishable_def published_def concerned_def not_overdrawn_def Let_def prog_apply not_less not_le)
  finally show ?thesis .
qed

lemma published_simps [simp]:
  "b_heap (published E ord origin ps s) = b_heap s" "db_tables (published E ord origin ps s) = db_tables s"
  "b_book (published E ord origin ps s) = b_book s" "k_heap (published E ord origin ps s) = k_heap s"
  "w_messages (published E ord origin ps s) = w_messages s" "w_online (published E ord origin ps s) = w_online s"
  "b_next (published E ord origin ps s) = b_next s" "n_router (published E ord origin ps s) = n_router s"
  by (simp_all add: published_def)

lemma publish_all:
  "publishable E r s \<Longrightarrow> \<forall>p\<in>set ps. no_quote p \<Longrightarrow>
   for_each ps (publish_to E r origin) s = (Inr (), published E (obj s r) origin ps s)"
proof (induction ps arbitrary: s)
  case Nil
  then show ?case by (simp add: prog_apply published_def)
next
  case (Cons p ps)
  let ?t = "published E (obj s r) origin [p] s"
  have "publishable E r ?t" "obj ?t r = obj s r" using Cons.prems by (simp_all add: publishable_def)
  with Cons.IH [of ?t] Cons.prems publish_to_ok [OF Cons.prems(1), of p origin]
  show ?case by (simp add: thn_Inr published_def)
qed

text \<open>
  C12: publishing an order appends exactly one packet with it for every online friend, in their
  order, who is neither this node nor the friend the order came from and whose credit line in the
  currency of the order is not overdrawn: for an order to sell, what we may take from the friend is not negative,
  for another what the friend may take from us. The amount of the order does not matter: the tenth of it that the code
  asks for is computed as 0, so a friend without any credit gets the order too. Nothing else changes but the statement counter.
\<close>

theorem publishOrder_recipients:
  assumes "publishable E r s" and "\<forall>p\<in>set (w_online s). no_quote p"
  shows "\<exists>n. publishOrder E r origin s = (Inr (), s\<lparr>db_stmts := n, s_sent := s_sent s @
    map (order_packet (obj s r)) (filter (\<lambda>p. p \<noteq> x_own_id E \<and> origin \<noteq> Some p \<and>
      not_overdrawn E (db_tables s) (obj s r) p) (w_online s))\<rparr>)"
  using publish_all [OF assms, of origin]
  by (simp add: publishOrder_def bnd_def prog_apply published_def concerned_def conj_assoc) blast

text \<open>A state for the witnesses: accounts, friends online, orders and the three books.\<close>

definition demo_svcw :: "peer_row list \<Rightarrow> PeerAddress list \<Rightarrow> Order list \<Rightarrow> oref list \<Rightarrow> oref list \<Rightarrow> oref list \<Rightarrow> svcw" where
  "demo_svcw rows online ords bids asks mine =
     \<lparr>w_now = 0, w_online = online, w_rpc = 0, w_messages = [], n_router = demo_router,
      db_tables = demo_tables\<lparr>t_peers := rows\<rparr>, db_saved = None, db_txlog = [], db_stmts = 0, w_txLogView = None,
      b_heap = map_of (enumerate 0 ords), b_next = length ords,
      b_book = (\<lambda>sd. demo_book (case sd of Bids \<Rightarrow> bids | Asks \<Rightarrow> asks | Mine \<Rightarrow> mine)),
      k_heap = Map.empty, k_next = 0, k_contracts = [], s_sent = [], s_received = [], s_initialized = 0,
      s_lastCleanup = 0, s_raw = []\<rparr>"

lemma demo_svcw_simps [simp]:
  "w_now (demo_svcw rows online ords bids asks mine) = 0" "w_online (demo_svcw rows online ords bids asks mine) = online"
  "n_router (demo_svcw rows online ords bids asks mine) = demo_router"
  "db_tables (demo_svcw rows online ords bids asks mine) = demo_tables\<lparr>t_peers := rows\<rparr>"
  "b_heap (demo_svcw rows online ords bids asks mine) = map_of (enumerate 0 ords)"
  "b_next (demo_svcw rows online ords bids asks mine) = length ords"
  "b_book (demo_svcw rows online ords bids asks mine) sd = demo_book (case sd of Bids \<Rightarrow> bids | Asks \<Rightarrow> asks | Mine \<Rightarrow> mine)"
  "s_sent (demo_svcw rows online ords bids asks mine) = []" "w_messages (demo_svcw rows online ords bids asks mine) = []"
  "k_heap (demo_svcw rows online ords bids asks mine) = Map.empty"
  by (simp_all add: demo_svcw_def)

lemma demo_peers_ok: "in_i64 cr \<Longrightarrow> in_i64 our \<Longrightarrow> in_i64 bal \<Longrightarrow> in_i64 al \<Longrightarrow>
   peers_ok (demo_tables\<lparr>t_peers := [demo_peer p cr our bal al]\<rparr>) \<and>
   account_at (demo_tables\<lparr>t_peers := [demo_peer p cr our bal al]\<rparr>) p ''GPM'' =
     \<lparr>a_credit = of_int cr, a_our_credit = of_int our, a_balance = of_int bal, a_allocation = of_int al\<rparr> \<and>
   (q \<noteq> p \<longrightarrow> account_at (demo_tables\<lparr>t_peers := [demo_peer p cr our bal al]\<rparr>) q c =
     \<lparr>a_credit = 0, a_our_credit = 0, a_balance = 0, a_allocation = 0\<rparr>)"
  using demo_peer_ok [of cr our bal al p] demo_peer_account [of cr our bal al p]
  by (auto simp: account_at_def abs_peers_def peers_ok_def row_ok_account demo_peers_def demo_dbw_def)

lemma demo_ext [simp]: "x_build demo = Testnet" "x_own_id demo = ''me''"
  "currencySymbols_testnet = [''FAU'', ''GPM'', ''TBC'', ''ZWD'']"
  by (simp_all add: demo_def currencySymbols_testnet_def)

theorem publishOrder_recipients_witness:
  "\<exists>t. publishOrder demo 0 (Some ''al'') (demo_svcw [demo_peer ''cy'' 0 0 5 0] [''me'', ''al'', ''bo'', ''cy'']
       [demo_order ''x'' BID 20 1] [0] [] []) = (Inr (), t) \<and>
     s_sent t = [order_packet (demo_order ''x'' BID 20 1) ''bo'']"
proof -
  let ?s = "demo_svcw [demo_peer ''cy'' 0 0 5 0] [''me'', ''al'', ''bo'', ''cy''] [demo_order ''x'' BID 20 1] [0] [] []"
  note a = demo_peers_ok [of 0 0 5 0 "''cy''"]
  have "publishable demo 0 ?s"
    using a by (simp add: publishable_def demo_db_up in_i64_def demo_order_simps)
  moreover have "\<forall>p\<in>set (w_online ?s). no_quote p" by (simp add: no_quote_def)
  moreover have "not_overdrawn demo (db_tables ?s) (obj ?s 0) ''bo''" "\<not> not_overdrawn demo (db_tables ?s) (obj ?s 0) ''cy''"
    using a by (simp_all add: not_overdrawn_def Let_def demo_order_simps available_def in_i64_def)
  ultimately show ?thesis
    using publishOrder_recipients [of demo 0 ?s "Some ''al''"] by auto
qed

section \<open>Orders with an unknown currency\<close>

lemma publish_to_unknown:
  assumes "r \<in> dom (b_heap s)" and "o_currency (obj s r) \<ge> length (currencySymbols (x_build E))"
  shows "publish_to E r origin p s = (if concerned E origin p then Inl (Undefined Null_pointer) else Inr (), s)"
  using assms get_order_ok [of r s]
  by (auto simp: publish_to_def concerned_def bnd_def symbol_of_def prog_apply)

lemma publish_unknown:
  assumes "r \<in> dom (b_heap s)" and "o_currency (obj s r) \<ge> length (currencySymbols (x_build E))"
    and "\<exists>p\<in>set ps. concerned E origin p"
  shows "for_each ps (publish_to E r origin) s = (Inl (Undefined Null_pointer), s)"
  using assms(3)
proof (induction ps)
  case (Cons p ps)
  then show ?case using publish_to_unknown [OF assms(1,2), of origin p]
    by (cases "concerned E origin p") (auto simp: thn_Inl thn_Inr)
qed simp

definition with_route :: "string \<Rightarrow> PeerAddress \<Rightarrow> 'z svcw_scheme \<Rightarrow> 'z svcw_scheme" where
  "with_route i peer s = s\<lparr>n_router := if TraceRouter_hasRoute (n_router s) i then n_router s
     else TraceRouter_addRoute i peer (n_router s)\<rparr>"

lemma with_route_simps [simp]:
  "b_heap (with_route i p s) = b_heap s" "b_next (with_route i p s) = b_next s" "b_book (with_route i p s) = b_book s"
  "w_now (with_route i p s) = w_now s" "w_online (with_route i p s) = w_online s" "db_tables (with_route i p s) = db_tables s"
  by (simp_all add: with_route_def)

lemma same_books:
  assumes "b_heap t = b_heap s" and "b_book t = b_book s" and "b_next t = b_next s"
  shows "books_inv t = books_inv s" "fresh_ref t r = fresh_ref s r" "with_id t sd i = with_id s sd i"
  unfolding books_inv_def book_inv_def oid_def fresh_ref_def with_id_def assms by (rule refl)+

lemma arrive_more [simp]:
  "w_online (arrive ord now s) = w_online s" "db_tables (arrive ord now s) = db_tables s"
  "n_router (arrive ord now s) = n_router s" "s_sent (arrive ord now t) = s_sent t"
  by (simp_all add: arrive_def)

text \<open>The state in which \<open>handleOrder\<close> hands a new object to the book.\<close>

definition received :: "Order \<Rightarrow> PeerAddress \<Rightarrow> 'z svcw_scheme \<Rightarrow> 'z svcw_scheme" where
  "received ord peer s = with_route (o_order_id ord) peer (arrive ord (w_now s) s)"

lemma received_ok:
  assumes "books_inv s"
  shows "books_inv (received ord peer s)" "fresh_ref (received ord peer s) (b_next s)"
    "obj (received ord peer s) (b_next s) = ord" "with_id (received ord peer s) sd i = with_id s sd i"
    "w_now (received ord peer s) = w_now s" "clock_ok (received ord peer s) = clock_ok s"
    "in_time E (received ord peer s) = in_time E s"
proof -
  let ?u = "arrive ord (w_now s) s"
  have "b_heap (received ord peer s) = b_heap ?u" "b_book (received ord peer s) = b_book ?u"
    "b_next (received ord peer s) = b_next ?u" by (simp_all add: received_def)
  note e = same_books [OF this]
  show "books_inv (received ord peer s)" "fresh_ref (received ord peer s) (b_next s)"
    using books_inv_arrive [OF assms] by (simp_all add: e)
  show "with_id (received ord peer s) sd i = with_id s sd i"
    using with_id_arrive [OF assms] by (simp add: e)
qed (simp_all add: received_def clock_ok_def in_time_def fun_eq_iff)

lemma handleOrder_steps:
  assumes "db_up E" and "books_inv s" and "clock_ok s ord"
  shows "handleOrder E peer ord s =
    (let sd = if o_orderType ord = ASK then Asks else Bids; u = received ord peer s;
         (result, t) = processed E sd (b_next s) u in
     if result = ZR_SUCCESS then publishOrder E (b_next s) (Some peer) t else delete_order (b_next s) t)"
proof -
  define sd where "sd = (if o_orderType ord = ASK then Asks else Bids)"
  define u where "u = received ord peer s"
  have ok: "OrderBook_processOrder E sd (b_next s) u = (Inr (fst (processed E sd (b_next s) u)), snd (processed E sd (b_next s) u))"
    unfolding u_def using assms received_ok [OF assms(2), where ord = ord and peer = peer] by (intro processOrder_ok) simp_all
  have "handleOrder E peer ord s = bnd (OrderBook_processOrder E sd (b_next s))
      (\<lambda>result. if result = ZR_SUCCESS then publishOrder E (b_next s) (Some peer) else delete_order (b_next s)) u"
    by (simp add: handleOrder_def alloc_order_def prog_step sd_def u_def received_def with_route_def arrive_def)
  then show ?thesis
    unfolding sd_def [symmetric] u_def [symmetric] bnd_def ok by (simp add: Let_def case_prod_beta)
qed

text \<open>An order that was not seen before, is not mine, and has a usable time stamp.\<close>

definition unseen :: "ext \<Rightarrow> Order \<Rightarrow> 'z svcw_scheme \<Rightarrow> bool" where
  "unseen E ord s \<longleftrightarrow> o_purpose ord = NEW \<and> clock_ok s ord \<and> in_time E s ord \<and>
     with_id s Mine (o_order_id ord) = None \<and>
     with_id s (if o_orderType ord = ASK then Asks else Bids) (o_order_id ord) = None"

lemma unseen_processed:
  assumes "books_inv s" and "unseen E ord s" and "sd = (if o_orderType ord = ASK then Asks else Bids)"
  shows "processed E sd (b_next s) (received ord peer s) = (ZR_SUCCESS, added E sd (b_next s) (received ord peer s))"
  using assms received_ok [OF assms(1), where ord = ord and peer = peer]
  by (auto simp: processed_def Let_def unseen_def split: if_splits)

lemma added_online [simp]: "w_online (added E sd r s) = w_online s" "s_sent (added E sd r s) = s_sent s"
  by (simp_all add: added_def Let_def re_shown_def set_book_def)

text \<open>
  C39: An order with a currency this build does not know, from any friend, stops the node: it is
  accepted into the book, and publishing it to the next friend online makes a string from the
  null pointer that ends the table of symbols.
\<close>

theorem unknown_currency_stops_node:
  assumes "db_up E" and "books_inv s" and "unseen E ord s" and "o_currency ord = INVALID (x_build E)"
    and "\<exists>p\<in>set (w_online s). p \<noteq> x_own_id E \<and> p \<noteq> peer"
  shows "fst (handleOrder E peer ord s) = Inl (Undefined Null_pointer)"
proof -
  define sd where "sd = (if o_orderType ord = ASK then Asks else Bids)"
  let ?u = "added E sd (b_next s) (received ord peer s)"
  have ck: "clock_ok s ord" using assms(3) by (simp add: unseen_def)
  have "length (currencySymbols (x_build E)) \<le> o_currency (obj ?u (b_next s))"
    using assms(4) by (simp add: received_def INVALID_def tables_aligned)
  moreover have "\<exists>p\<in>set (w_online ?u). concerned E (Some peer) p"
    using assms(5) by (auto simp: concerned_def received_def)
  moreover have "b_next s \<in> dom (b_heap ?u)" by (simp add: received_def)
  ultimately have "fst (publishOrder E (b_next s) (Some peer) ?u) = Inl (Undefined Null_pointer)"
    using publish_unknown [of "b_next s" ?u E "w_online ?u" "Some peer"]
    by (simp add: publishOrder_def prog_step)
  then show ?thesis
    using unseen_processed [OF assms(2,3) sd_def, of peer]
    by (simp add: handleOrder_steps [OF assms(1,2) ck] sd_def Let_def)
qed

lemma relayed_run:
  assumes "db_up E" and "books_inv s" and "peers_ok (db_tables s)" and "unseen E ord s"
    and "o_currency ord < length (currencySymbols (x_build E))" and "\<forall>p\<in>set (w_online s). no_quote p"
    and "sd = (if o_orderType ord = ASK then Asks else Bids)"
  shows "handleOrder E peer ord s =
    (Inr (), published E ord (Some peer) (w_online s) (added E sd (b_next s) (received ord peer s)))"
proof -
  let ?u = "added E sd (b_next s) (received ord peer s)"
  have ck: "clock_ok s ord" using assms(4) by (simp add: unseen_def)
  have o: "obj ?u (b_next s) = ord" by (simp add: received_def)
  have pb: "publishable E (b_next s) ?u" using assms(1,3,5) by (simp add: publishable_def received_def)
  have "publishOrder E (b_next s) (Some peer) ?u =
      (Inr (), published E (obj ?u (b_next s)) (Some peer) (w_online ?u) ?u)"
    using publish_all [OF pb, of "w_online ?u" "Some peer"] assms(6)
    by (simp add: publishOrder_def prog_step received_def)
  then show ?thesis
    using unseen_processed [OF assms(2,4,7), of peer] o
    by (simp add: handleOrder_steps [OF assms(1,2) ck] assms(7) [symmetric] Let_def received_def)
qed

text \<open>
  A new order from a friend, in a known currency, is appended to its side of the book, the
  friend becomes the route to it unless there is one, and it is passed on to every other
  friend online whose credit line is not overdrawn, but not back.
\<close>

theorem new_order_relayed:
  assumes "db_up E" and "books_inv s" and "peers_ok (db_tables s)" and "unseen E ord s"
    and "o_currency ord < length (currencySymbols (x_build E))" and "\<forall>p\<in>set (w_online s). no_quote p"
    and "sd = (if o_orderType ord = ASK then Asks else Bids)"
  shows "\<exists>t. handleOrder E peer ord s = (Inr (), t) \<and>
    refs t sd = refs s sd @ [b_next s] \<and> obj t (b_next s) = ord \<and>
    TraceRouter_hasRoute (n_router t) (o_order_id ord) \<and>
    (\<not> TraceRouter_hasRoute (n_router s) (o_order_id ord) \<longrightarrow>
       TraceRouter_nextHop (n_router t) (o_order_id ord) = peer) \<and>
    s_sent t = s_sent s @ map (order_packet ord) (filter (\<lambda>p. p \<noteq> x_own_id E \<and> p \<noteq> peer \<and>
      not_overdrawn E (db_tables s) ord p) (w_online s))"
proof -
  let ?u = "added E sd (b_next s) (received ord peer s)"
  have sent: "s_sent ?u = s_sent s" by (simp add: received_def with_route_def arrive_def)
  have "handleOrder E peer ord s = (Inr (), published E ord (Some peer) (w_online s) ?u)"
    by (rule relayed_run [OF assms])
  moreover define t where "t = published E ord (Some peer) (w_online s) ?u"
  moreover have "refs t sd = refs s sd @ [b_next s]" "obj t (b_next s) = ord"
    by (simp_all add: t_def received_def)
  moreover have "n_router t = (if TraceRouter_hasRoute (n_router s) (o_order_id ord) then n_router s
      else TraceRouter_addRoute (o_order_id ord) peer (n_router s))"
    by (simp add: t_def received_def with_route_def)
  then have "TraceRouter_hasRoute (n_router t) (o_order_id ord)"
    "\<not> TraceRouter_hasRoute (n_router s) (o_order_id ord) \<Longrightarrow> TraceRouter_nextHop (n_router t) (o_order_id ord) = peer"
    by (simp_all add: TraceRouter_hasRoute_def TraceRouter_addRoute_def TraceRouter_nextHop_def)
  moreover have "s_sent t = s_sent s @ map (order_packet ord) (filter (\<lambda>p. p \<noteq> x_own_id E \<and> p \<noteq> peer \<and>
      not_overdrawn E (db_tables s) ord p) (w_online s))"
  proof -
    have "(\<lambda>p. concerned E (Some peer) p \<and> not_overdrawn E (db_tables ?u) ord p) =
        (\<lambda>p. p \<noteq> x_own_id E \<and> p \<noteq> peer \<and> not_overdrawn E (db_tables s) ord p)"
      by (auto simp: concerned_def fun_eq_iff received_def)
    then show ?thesis using sent by (simp add: t_def published_def)
  qed
  ultimately show ?thesis by blast
qed

section \<open>Credit items\<close>

lemma updateOurCredit_ok:
  assumes "db_up E" and "key_ok c" and "peers_ok (db_tables s)"
    and "abs_peers (db_tables s) (c_id c, c_currency c) = Some a"
  shows "Credit_updateOurCredit E c s = (Inr (), stored E c Col_our_credit (c_our_credit c) (tick s))"
  using peerExists_abs [OF assms(1-3)] assms
  by (simp add: Credit_updateOurCredit_def try_catch_def prog_step bnd_def updatePeerCredit_ok whn_def prog_apply)

text \<open>
  A credit item of a friend for an account we have on record makes what we may take from the
  friend the amount the friend granted, leaves the rest of the account and all others alone,
  and the user is told when the two balances are not opposite, and only then.
\<close>

theorem handleCredit_follows_friend:
  assumes "line_ok E peer (c_currency ic) s a" and "db_exact E (c_our_credit ic)"
  shows "\<exists>t. handleCredit E peer ic s = (Inr (), t) \<and>
    abs_peers (db_tables t) = (abs_peers (db_tables s))((peer, c_currency ic) \<mapsto> a\<lparr>a_our_credit := c_our_credit ic\<rparr>) \<and>
    peers_ok (db_tables t) \<and>
    (w_messages t = w_messages s \<longleftrightarrow> - a_balance a = c_balance ic)"
proof -
  let ?c = "CreditItem_getCredit peer ic"
  have l: "db_up E" "no_quote peer" "known_currency E (c_currency ic)" "peers_ok (db_tables s)"
    "abs_peers (db_tables s) (peer, c_currency ic) = Some a" using assms(1) by (simp_all add: line_ok_def)
  have c: "c_id ?c = peer" "c_currency ?c = c_currency ic" "c_our_credit ?c = c_our_credit ic" "c_balance ?c = c_balance ic"
    by (simp_all add: CreditItem_getCredit_def)
  have k: "key_ok ?c" using l known_no_quote by (simp add: key_ok_def c)
  have acc: "account_at (db_tables s) peer (c_currency ic) = a" using l(5) by (simp add: account_at_def)
  have same: "a_our_credit a = c_our_credit ic \<Longrightarrow>
      (abs_peers (db_tables s))((peer, c_currency ic) \<mapsto> a\<lparr>a_our_credit := c_our_credit ic\<rparr>) = abs_peers (db_tables s)"
    using l(5) by (cases a) (auto simp: fun_eq_iff)
  have upd: "abs_peers (updated_peers E (peer, c_currency ic) Col_our_credit (c_our_credit ic) (db_tables s)) =
      (abs_peers (db_tables s))((peer, c_currency ic) \<mapsto> a\<lparr>a_our_credit := c_our_credit ic\<rparr>)"
    "peers_ok (updated_peers E (peer, c_currency ic) Col_our_credit (c_our_credit ic) (db_tables s))"
    using assms(2) l abs_peers_updated [of "db_tables s" E "c_our_credit ic" "c_our_credit ic"]
      peers_ok_updated [of "db_tables s" E "c_our_credit ic" "c_our_credit ic"] by (simp_all add: db_exact_def)
  have u: "Credit_updateOurCredit E ?c (tick s) = (Inr (), stored E ?c Col_our_credit (c_our_credit ?c) (tick (tick s)))"
    by (rule updateOurCredit_ok [OF l(1) k]) (simp_all add: c l)
  show ?thesis
    unfolding handleCredit_def Let_def c load_any [OF l(1,3,2,4)]
    using u same upd l(4) by (auto simp: acc prog_step bnd_def whn_def prog_apply placeMsg_apply loaded_def c)
qed

section \<open>The order book for a friend\<close>

lemma send_all:
  "set rs \<subseteq> dom (b_heap s) \<Longrightarrow> for_each rs (sendOrder p) s =
     (Inr (), s\<lparr>s_sent := s_sent s @ map (\<lambda>r. order_packet (obj s r) p) rs\<rparr>)"
proof (induction rs arbitrary: s)
  case (Cons r rs)
  then have "sendOrder p r s = (Inr (), s\<lparr>s_sent := s_sent s @ [order_packet (obj s r) p]\<rparr>)"
    by (intro sendOrder_ok) simp
  with Cons show ?case by (simp add: thn_Inr)
qed (simp add: prog_apply)

text \<open>
  A friend who asks for the order book gets every ask and every bid, in the order of the
  lists; the message that says the book is complete is addressed to nobody.
\<close>

theorem request_answered_with_book:
  assumes "books_inv s"
  shows "handleMessage peer REQUEST_ORDERBOOK s = (Inr (), s\<lparr>s_sent := s_sent s @
    map (\<lambda>r. order_packet (obj s r) peer) (refs s Asks @ refs s Bids) @
    [\<lparr>pk_peer = [], pk_item = MsgItem SENT_ORDERBOOK []\<rparr>]\<rparr>)"
proof -
  have "set (refs s sd) \<subseteq> dom (b_heap s)" for sd using books_inv_book [OF assms, of sd] by (simp add: book_inv_def)
  note a = send_all [OF this, of Asks peer] and b = send_all [OF this [of Bids]]
  let ?t = "s\<lparr>s_sent := s_sent s @ map (\<lambda>r. order_packet (obj s r) peer) (refs s Asks)\<rparr>"
  have "set (refs ?t Bids) \<subseteq> dom (b_heap ?t)" using books_inv_book [OF assms, of Bids] by (simp add: book_inv_def)
  from send_all [OF this, of peer] a show ?thesis
    by (simp add: handleMessage_def sendOrderBook_def prog_step bnd_def sendItem_def prog_apply)
qed

section \<open>Witnesses\<close>

theorem unknown_currency_stops_node_witness:
  "fst (handleOrder demo ''bo'' ((demo_order ''x'' BID 20 1)\<lparr>o_currency := 4\<rparr>) (demo_svcw [] [''me'', ''bo'', ''cy''] [] [] [] []))
     = Inl (Undefined Null_pointer)"
proof (rule unknown_currency_stops_node [OF demo_db_up])
  let ?s = "demo_svcw [] [''me'', ''bo'', ''cy''] [] [] [] []" and ?o = "(demo_order ''x'' BID 20 1)\<lparr>o_currency := 4\<rparr>"
  show "books_inv ?s" by (simp add: books_inv_def book_inv_def)
  show "unseen demo ?o ?s"
    by (simp add: unseen_def clock_ok_def in_time_def with_id_def demo_order_simps in_i64_def Order_timeout_def)
  show "o_currency ?o = INVALID (x_build demo)" by (simp add: INVALID_def enumerators_testnet_def)
  show "\<exists>p\<in>set (w_online ?s). p \<noteq> x_own_id demo \<and> p \<noteq> ''bo''" by simp
qed

theorem new_order_relayed_witness:
  "\<exists>t. handleOrder demo ''al'' (demo_order ''x'' BID 20 1)
       (demo_svcw [demo_peer ''cy'' 0 0 5 0] [''me'', ''al'', ''bo'', ''cy''] [] [] [] []) = (Inr (), t) \<and>
     refs t Bids = [0] \<and> TraceRouter_nextHop (n_router t) ''x'' = ''al'' \<and>
     s_sent t = [order_packet (demo_order ''x'' BID 20 1) ''bo'']"
proof -
  let ?s = "demo_svcw [demo_peer ''cy'' 0 0 5 0] [''me'', ''al'', ''bo'', ''cy''] [] [] [] []"
  let ?o = "demo_order ''x'' BID 20 1"
  note a = demo_peers_ok [of 0 0 5 0 "''cy''"]
  have i: "books_inv ?s" by (simp add: books_inv_def book_inv_def)
  have p: "peers_ok (db_tables ?s)" using a by (simp add: in_i64_def)
  have u: "unseen demo ?o ?s"
    by (simp add: unseen_def clock_ok_def in_time_def with_id_def demo_order_simps in_i64_def Order_timeout_def)
  have c: "o_currency ?o < length (currencySymbols (x_build demo))" by (simp add: demo_order_simps)
  have q: "\<forall>p\<in>set (w_online ?s). no_quote p" by (simp add: no_quote_def)
  have cov: "not_overdrawn demo (db_tables ?s) ?o ''bo''" "\<not> not_overdrawn demo (db_tables ?s) ?o ''cy''"
    using a by (simp_all add: not_overdrawn_def Let_def demo_order_simps available_def in_i64_def)
  have sd: "Bids = (if o_orderType ?o = ASK then Asks else Bids)" by (simp add: demo_order_simps)
  have "o_order_id ?o = ''x''" by (simp add: demo_order_simps)
  with new_order_relayed [OF demo_db_up i p u c q sd, of "''al''"] cov show ?thesis
    by (auto simp: TraceRouter_hasRoute_def demo_router_def)
qed

theorem handleCredit_follows_friend_witness:
  "\<exists>t. handleCredit demo ''bo'' (demo_credit [] 0 7 (- 2) 0) (demo_svcw [demo_peer ''bo'' 9 5 2 0] [] [] [] [] []) = (Inr (), t) \<and>
     map_option a_our_credit (abs_peers (db_tables t) (''bo'', ''GPM'')) = Some 7 \<and> w_messages t = []"
proof -
  let ?s = "demo_svcw [demo_peer ''bo'' 9 5 2 0] [] [] [] [] []"
  have l: "line_ok demo ''bo'' (c_currency (demo_credit [] 0 7 (- 2) 0)) ?s
    \<lparr>a_credit = 9, a_our_credit = 5, a_balance = 2, a_allocation = 0\<rparr>"
    using demo_line [of 9 5 2 0] by (simp add: in_i64_def line_ok_def demo_credit_def)
  have e: "db_exact demo (c_our_credit (demo_credit [] 0 7 (- 2) 0))"
    using demo_db_exact [of 7] by (simp add: demo_credit_def in_i64_def)
  from handleCredit_follows_friend [OF l e] show ?thesis by (auto simp: demo_credit_def)
qed

theorem request_answered_with_book_witness:
  "\<exists>t. handleMessage ''bo'' REQUEST_ORDERBOOK (demo_svcw [] [] [demo_order ''x'' BID 20 1] [0] [] []) = (Inr (), t) \<and>
     s_sent t = [order_packet (demo_order ''x'' BID 20 1) ''bo'', \<lparr>pk_peer = [], pk_item = MsgItem SENT_ORDERBOOK []\<rparr>]"
proof -
  have "books_inv (demo_svcw [] [] [demo_order ''x'' BID 20 1] [0] [] [])"
    by (simp add: books_inv_def book_inv_def oid_def demo_order_simps no_quote_def)
  from request_answered_with_book [OF this, of "''bo''"] show ?thesis by simp
qed

end
