(* ===== verification/Transactions.thy ===== *)
theory Transactions
  imports ServiceLaws "HOL-Library.Char_ord" "HOL-Library.List_Lexorder"
begin

text \<open>
  \<^verbatim>\<open>src/TransactionManager.h\<close> and \<^verbatim>\<open>src/TransactionManager.cpp\<close>, the part the managers have
  in common: the objects, the map of the current transactions, construction, destruction,
  timeouts and the splitting of payloads. The subclasses are the constructors of a datatype; a
  pointer that may be null or was never set is an option. The handlers that dispatch to the
  subclasses are with the node.
\<close>

section \<open>State\<close>

datatype tm_class =
    TmLocalCoordinator Payment
  | TmLocalCohorte "Payment option"
  | TmContractCoordinator oref "oref option" "cref option"
  | TmContractCohortePayee "cref option" BitcoinTxHex "oref option"
  | TmContractCohorteHop "cref option" "cref option"

record tm =
  tm_TxId :: TransactionId
  tm_Phase :: TxPhase
  tm_startOfPhase :: int
  tm_class :: tm_class

type_synonym tref = nat

text \<open>\<open>t_current\<close> is \<^verbatim>\<open>currentTX\<close>, a \<^verbatim>\<open>std::map\<close>: the list of its entries by ascending key.\<close>

record tmw = svcw +
  t_heap :: "tref \<rightharpoonup> tm"
  t_next :: nat
  t_current :: "(TransactionId \<times> tref) list"
  t_sequence :: nat

fun map_put :: "string \<Rightarrow> 'v \<Rightarrow> (string \<times> 'v) list \<Rightarrow> (string \<times> 'v) list" where
  "map_put k v [] = [(k, v)]"
| "map_put k v ((k', v') # m) =
     (if k = k' then (k, v) # m else if k < k' then (k, v) # (k', v') # m else (k', v') # map_put k v m)"

definition map_erase :: "string \<Rightarrow> (string \<times> 'v) list \<Rightarrow> (string \<times> 'v) list" where
  "map_erase k m = filter (\<lambda>(k', _). k' \<noteq> k) m"

definition get_tm :: "tref \<Rightarrow> ('z tmw_scheme, tm) prog" where
  "get_tm r = deref t_heap r"

definition upd_tm :: "tref \<Rightarrow> (tm \<Rightarrow> tm) \<Rightarrow> ('z tmw_scheme, unit) prog" where
  "upd_tm r f = bnd (get_tm r) (\<lambda>t. modify (\<lambda>w. w\<lparr>t_heap := (t_heap w)(r \<mapsto> f t)\<rparr>))"

definition set_phase :: "tref \<Rightarrow> TxPhase \<Rightarrow> ('z tmw_scheme, unit) prog" where
  "set_phase r p = upd_tm r (\<lambda>t. t\<lparr>tm_Phase := p\<rparr>)"

text \<open>
  The members of the subclasses are in the class field. It is only ever replaced by one of the same class:
  \<open>Typing.manager_keeps_class\<close>.
\<close>

definition set_class :: "tref \<Rightarrow> tm_class \<Rightarrow> ('z tmw_scheme, unit) prog" where
  "set_class r c = upd_tm r (\<lambda>t. t\<lparr>tm_class := c\<rparr>)"

section \<open>Construction and destruction\<close>

text \<open>
  The addresses come from a counter and are not used again, where \<^verbatim>\<open>new\<close> may use one again after its object was
  deleted. A program could only tell by a pointer to the deleted object, which stops the model when it is read.
\<close>

definition new_TransactionManager :: "TransactionId \<Rightarrow> tm_class \<Rightarrow> ('z tmw_scheme, tref) prog" where
  "new_TransactionManager txId c =
     bnd (gets t_next) (\<lambda>r.
     thn (modify (\<lambda>w. w\<lparr>t_heap := (t_heap w)(r \<mapsto> \<lparr>tm_TxId = txId, tm_Phase = INIT,
            tm_startOfPhase = w_now w, tm_class = c\<rparr>),
            t_next := Suc r, t_current := map_put txId r (t_current w)\<rparr>))
       (ret r))"

text \<open>
  The destructors of the local managers delete the payment; a cohorte that never got one
  deletes a pointer that was never set. Then the base class erases the entry of its id.
\<close>

definition delete_tm :: "tref \<Rightarrow> ('z tmw_scheme, unit) prog" where
  "delete_tm r =
     bnd (get_tm r) (\<lambda>t.
       if tm_class t = TmLocalCohorte None then throw (Undefined Uninitialised)
       else modify (\<lambda>w. w\<lparr>t_heap := (t_heap w)(r := None), t_current := map_erase (tm_TxId t) (t_current w)\<rparr>))"

section \<open>Timeouts\<close>

definition m_maxTime :: "TxPhase \<Rightarrow> int" where
  "m_maxTime p = 60000"

definition isTimedOut :: "int \<Rightarrow> tm \<Rightarrow> bool" where
  "isTimedOut now t \<longleftrightarrow> now - tm_startOfPhase t > m_maxTime (tm_Phase t)"

section \<open>Payloads\<close>

text \<open>\<^verbatim>\<open>getline\<close> until it fails: a separator at the end gives no empty last token.\<close>

function split_at :: "char \<Rightarrow> string \<Rightarrow> string list" where
  "split_at sep s = (if s = [] then [] else case getline sep s of (tok, rest) \<Rightarrow> tok # split_at sep rest)"
  by pat_completeness auto
termination
  by (relation "measure (\<lambda>(_, s). length s)")
    (auto simp: getline_def intro: le_less_trans [OF diff_le_mono [OF length_dropWhile_le]])

declare split_at.simps [simp del]

definition TransactionManager_split :: "string \<Rightarrow> string list" where
  "TransactionManager_split s = split_at CHR '':'' s"

fun join_with :: "char \<Rightarrow> string list \<Rightarrow> string" where
  "join_with sep [] = []"
| "join_with sep [t] = t"
| "join_with sep (t # ts) = t @ sep # join_with sep ts"

section \<open>Facts\<close>

lemma split_at_token:
  assumes "sep \<notin> set t"
  shows "t \<noteq> [] \<Longrightarrow> split_at sep t = [t]" and "split_at sep (t @ sep # rest) = t # split_at sep rest"
proof -
  have tw: "takeWhile (\<lambda>c. c \<noteq> sep) t = t" "dropWhile (\<lambda>c. c \<noteq> sep) t = []"
    using assms by (auto simp: takeWhile_eq_all_conv dropWhile_eq_Nil_conv)
  then show "t \<noteq> [] \<Longrightarrow> split_at sep t = [t]"
    by (subst split_at.simps) (simp add: getline_def tw split_at.simps)
  have "takeWhile (\<lambda>c. c \<noteq> sep) (t @ sep # rest) = t" "dropWhile (\<lambda>c. c \<noteq> sep) (t @ sep # rest) = sep # rest"
    using assms by (induction t) auto
  then show "split_at sep (t @ sep # rest) = t # split_at sep rest"
    by (subst split_at.simps) (simp add: getline_def)
qed

lemma split_join:
  "\<forall>t\<in>set ts. sep \<notin> set t \<Longrightarrow> ts \<noteq> [] \<Longrightarrow> last ts \<noteq> [] \<Longrightarrow> split_at sep (join_with sep ts) = ts"
  by (induction sep ts rule: join_with.induct) (auto simp: split_at_token)

end
