(* ===== verification/TmLocal.thy ===== *)
theory TmLocal
  imports Transactions
begin

text \<open>
  \<^verbatim>\<open>src/TmLocalCoordinator.cpp\<close> and \<^verbatim>\<open>src/TmLocalCohorte.cpp\<close>: the two sides of a payment between
  friends, with \<^verbatim>\<open>PaymentDialog::payTo\<close> (\<^verbatim>\<open>src/paymentdialog.cpp\<close>), which starts one. The
  coordinator asks, the cohorte votes, the coordinator commands the commit, the cohorte
  acknowledges and commits, and the coordinator commits on the acknowledgement.
\<close>

definition counterparty :: "Payment \<Rightarrow> PeerAddress" where
  "counterparty p = c_id (p_credit p)"

definition send_tx :: "PeerAddress \<Rightarrow> TxPhase \<Rightarrow> TransactionId \<Rightarrow> ('z svcw_scheme, unit) prog" where
  "send_tx peer phase txId = sendItem peer (TxItem phase txId)"

section \<open>The coordinator\<close>

definition TmLocalCoordinator_mkId :: "ext \<Rightarrow> ('z tmw_scheme, TransactionId) prog" where
  "TmLocalCoordinator_mkId E =
     thn (modify (\<lambda>w. w\<lparr>t_sequence := (t_sequence w + 1) mod 2 ^ 32\<rparr>))
         (gets (\<lambda>w. x_own_id E @ '':'' @ show_nat (t_sequence w)))"

definition new_TmLocalCoordinator :: "ext \<Rightarrow> Payment \<Rightarrow> ('z tmw_scheme, tref) prog" where
  "new_TmLocalCoordinator E p =
     bnd (TmLocalCoordinator_mkId E) (\<lambda>txId. new_TransactionManager txId (TmLocalCoordinator p))"

definition TmLocalCoordinator_init :: "TransactionId \<Rightarrow> Payment \<Rightarrow> ('z tmw_scheme, RetVal) prog" where
  "TmLocalCoordinator_init txId p =
     (if Payment_init p = ZR_FAILURE then ret ZR_FAILURE
      else thn (sendItem (counterparty p) (InitTxItem QUERY txId None p)) (ret ZR_SUCCESS))"

definition TmLocalCoordinator_processItem ::
  "ext \<Rightarrow> TransactionId \<Rightarrow> Payment \<Rightarrow> TxPhase \<Rightarrow> ('z tmw_scheme, RetVal) prog" where
  "TmLocalCoordinator_processItem E txId p phase =
     (case phase of
        VOTE_YES \<Rightarrow> thn (send_tx (counterparty p) COMMIT txId) (ret ZR_SUCCESS)
      | VOTE_NO \<Rightarrow> ret ZR_FAILURE
      | ACK_COMMIT \<Rightarrow> bnd (Payment_commit E p) (\<lambda>_. ret ZR_FINISH)
      | ABORT \<Rightarrow> ret ZR_FAILURE
      | _ \<Rightarrow> throw (Runtime_error ''Unknown Transaction Phase''))"

section \<open>The cohorte\<close>

definition new_TmLocalCohorte :: "TransactionId \<Rightarrow> ('z tmw_scheme, tref) prog" where
  "new_TmLocalCohorte txId = new_TransactionManager txId (TmLocalCohorte None)"

definition TmLocalCohorte_init :: "TransactionId \<Rightarrow> Payment \<Rightarrow> ('z tmw_scheme, RetVal) prog" where
  "TmLocalCohorte_init txId p =
     (if Payment_init p = ZR_FAILURE
      then thn (send_tx (counterparty p) VOTE_NO txId) (ret ZR_FAILURE)
      else thn (send_tx (counterparty p) VOTE_YES txId) (ret ZR_SUCCESS))"

definition TmLocalCohorte_abortTx :: "TransactionId \<Rightarrow> Payment option \<Rightarrow> ('z tmw_scheme, RetVal) prog" where
  "TmLocalCohorte_abortTx txId m_payment =
     bnd (need Uninitialised m_payment) (\<lambda>p. thn (send_tx (counterparty p) ABORT txId) (ret ZR_FAILURE))"

definition TmLocalCohorte_processItem ::
  "ext \<Rightarrow> tref \<Rightarrow> tm \<Rightarrow> Payment option \<Rightarrow> PeerAddress \<Rightarrow> TxPhase \<Rightarrow> Payment option \<Rightarrow> ('z tmw_scheme, RetVal) prog" where
  "TmLocalCohorte_processItem E r t m_payment peer phase initItem =
     (case phase of
        QUERY \<Rightarrow>
          (case initItem of
             Some p0 \<Rightarrow>
               if tm_Phase t \<noteq> INIT then TmLocalCohorte_abortTx (tm_TxId t) m_payment
               else thn (set_phase r QUERY)
                 (bnd (InitTxItem_getPayment E peer p0) (\<lambda>p.
                  thn (set_class r (TmLocalCohorte (Some p))) (TmLocalCohorte_init (tm_TxId t) p)))
           | None \<Rightarrow> TmLocalCohorte_abortTx (tm_TxId t) m_payment)
      | COMMIT \<Rightarrow>
          if tm_Phase t \<noteq> QUERY then TmLocalCohorte_abortTx (tm_TxId t) m_payment
          else thn (set_phase r COMMIT)
            (bnd (need Uninitialised m_payment) (\<lambda>p.
             thn (send_tx (counterparty p) ACK_COMMIT (tm_TxId t))
             (bnd (Payment_commit E p) (\<lambda>_. ret ZR_FINISH))))
      | ABORT \<Rightarrow> ret ZR_FINISH
      | _ \<Rightarrow> throw (Runtime_error ''Unknown Transaction Phase''))"

section \<open>Starting a payment\<close>

text \<open>The payee of the dialogue, and what its widgets hold: a currency name and a text.\<close>

definition PaymentDialog_payTo :: "ext \<Rightarrow> PeerAddress \<Rightarrow> string \<Rightarrow> string \<Rightarrow> ('z tmw_scheme, unit) prog" where
  "PaymentDialog_payTo E payee currencyName amountText =
     bnd (getCurrencyByName E currencyName) (\<lambda>csym.
     bnd (lift (fromDecimalString amountText)) (\<lambda>amount.
     bnd (symbol_of E csym) (\<lambda>cur.
     bnd (new_Payment E Spender payee amount cur PAYMENT) (\<lambda>p.
     bnd (new_TmLocalCoordinator E p) (\<lambda>r.
     bnd (get_tm r) (\<lambda>t.
     bnd (TmLocalCoordinator_init (tm_TxId t) p) (\<lambda>v.
       whn (v = ZR_FAILURE) (delete_tm r))))))))"

definition PaymentDialog_loadAvailableFunds :: "ext \<Rightarrow> PeerAddress \<Rightarrow> string \<Rightarrow> ('z tmw_scheme, ZR_Number \<times> string option) prog" where
  "PaymentDialog_loadAvailableFunds E payee currencyName =
     bnd (getCurrencyByName E currencyName) (\<lambda>csym.
     bnd (symbol_of E csym) (\<lambda>cur.
     bnd (new_Credit E payee cur) (\<lambda>c0.
       try_catch catch_exception
         (bnd (Credit_loadPeer E c0) (\<lambda>c. ret (getMyAvailable c, None)))
         (\<lambda>e. ret (getMyAvailable c0, Some (what_sliced e))))))"

text \<open>The dialogue of a friend: the credit line granted to it, sent to it at once.\<close>

definition FriendDetailsDialog_editFriend :: "ext \<Rightarrow> PeerAddress \<Rightarrow> string \<Rightarrow> string \<Rightarrow> ('z tmw_scheme, string option) prog" where
  "FriendDetailsDialog_editFriend E m_id currencyName creditText =
     bnd (getCurrencyByName E currencyName) (\<lambda>csym.
     bnd (symbol_of E csym) (\<lambda>cur.
     bnd (new_Credit E m_id cur) (\<lambda>c0.
     bnd (Credit_loadPeer E c0) (\<lambda>c.
     bnd (lift (fromDecimalString creditText)) (\<lambda>credit.
       let c' = c\<lparr>c_credit := credit\<rparr> in
       try_catch catch_exception
         (thn (Credit_updateCredit E c') (thn (Credit_publish c') (ret None)))
         (\<lambda>e. ret (Some (what_sliced e))))))))"

definition FriendDetailsDialog_loadPeer :: "ext \<Rightarrow> PeerAddress \<Rightarrow> string
    \<Rightarrow> ('z tmw_scheme, (ZR_Number \<times> ZR_Number \<times> ZR_Number \<times> ZR_Number) \<times> string option) prog" where
  "FriendDetailsDialog_loadPeer E m_id currencyName =
     bnd (getCurrencyByName E currencyName) (\<lambda>csym.
     bnd (symbol_of E csym) (\<lambda>cur.
     bnd (new_Credit E m_id cur) (\<lambda>c0.
     let display = (\<lambda>c. (c_credit c, c_our_credit c, c_balance c, c_allocated c)) in
       try_catch catch_exception
         (bnd (Credit_loadPeer E c0) (\<lambda>c. ret (display c, None)))
         (\<lambda>e. ret (display c0, Some (what_sliced e))))))"

definition FriendResetDialog_resetFriend :: "ext \<Rightarrow> PeerAddress \<Rightarrow> bool \<Rightarrow> string \<Rightarrow> ('z tmw_scheme, string option) prog" where
  "FriendResetDialog_resetFriend E m_id allCurrencies currencyName =
     bnd (if allCurrencies then ret (INVALID (x_build E)) else getCurrencyByName E currencyName) (\<lambda>csym.
       try_catch catch_exception
         (thn (deletePeerRecord E m_id csym) (ret None))
         (\<lambda>e. ret (Some (what_sliced e))))"

end
