(* ===== verification/TmContract.thy ===== *)
theory TmContract
  imports TmLocal
begin

text \<open>
  \<^verbatim>\<open>src/TmContract.h\<close> and \<^verbatim>\<open>src/TmContract.cpp\<close>: the purchase of Bitcoin over a chain of
  friends. The buyer is the coordinator, the seller the payee, every node between a hop; each
  has a manager for the transaction. A query travels to the payee, a vote back, the commit to
  the payee again; at the commit every node keeps its contracts.
\<close>

section \<open>Items\<close>

text \<open>What a manager reads of a remote transaction item, with the friend it came from.\<close>

record remote_tx =
  rx_peer :: PeerAddress
  rx_addr :: VirtualAddress
  rx_phase :: TxPhase
  rx_dir :: TunnelDirection
  rx_payerId :: string
  rx_payload :: string

definition send_remote :: "PeerAddress \<Rightarrow> VirtualAddress \<Rightarrow> TxPhase \<Rightarrow> TunnelDirection \<Rightarrow> string \<Rightarrow> string
    \<Rightarrow> ('z svcw_scheme, unit) prog" where
  "send_remote peer addr phase dir payerId payload = sendItem peer (RemoteTxItem addr phase dir payerId payload)"

definition TmContract_id :: "VirtualAddress \<Rightarrow> string \<Rightarrow> TransactionId" where
  "TmContract_id addr myId = addr @ '':'' @ myId"

text \<open>The payloads of a query and of a vote.\<close>

definition query_payload :: "ext \<Rightarrow> BtcContract \<Rightarrow> BitcoinAddress \<Rightarrow> ZR_Number \<Rightarrow> string" where
  "query_payload E k btcAddr fee = toStdString E (getFiatAmount k) @ '':'' @ k_currencySym k @ '':'' @
     btcAddr @ '':'' @ toStdString E (k_btcAmount k) @ '':'' @ toStdString E fee"

definition vote_payload :: "ext \<Rightarrow> ZR_Number \<Rightarrow> TransactionId \<Rightarrow> string" where
  "vote_payload E btcAmount outTxId = toStdString E btcAmount @ '':'' @ outTxId"

definition no_contract :: "string \<Rightarrow> exn \<Rightarrow> string" where
  "no_contract func e = func @ '': Exception caught: '' @ what e @ ''Cannot create contract object.''"

definition aborting :: "exn \<Rightarrow> TransactionId \<Rightarrow> string" where
  "aborting e txId = ''Exception caught: '' @ what e @ '' Aborting Transaction '' @ txId"

section \<open>Coordinator\<close>

definition new_TmContractCoordinator :: "ext \<Rightarrow> oref \<Rightarrow> oref \<Rightarrow> ZR_Number \<Rightarrow> ('z tmw_scheme, tref) prog" where
  "new_TmContractCoordinator E other_r my_r amount =
     bnd (get_order other_r) (\<lambda>other.
     bnd (get_order my_r) (\<lambda>my.
     bnd (new_TransactionManager (TmContract_id (o_order_id other) (o_order_id my))
            (TmContractCoordinator other_r (Some my_r) None)) (\<lambda>r.
     bnd (gets n_router) (\<lambda>rt.
     let addr = TraceRouter_nextHop rt (o_order_id other) in
     thn (whn (addr \<noteq> [])
       (try_catch catch_runtime_error
         (bnd (symbol_of E (o_currency other)) (\<lambda>cur.
          bnd (new_BtcContract E amount 0 (o_price other) cur SENDER addr 0) (\<lambda>k.
            set_class r (TmContractCoordinator other_r (Some my_r) (Some k)))))
         (\<lambda>e. placeMsg (no_contract ''TmContractCoordinator'' e))))
     (thn (upd_order my_r (\<lambda>x. x\<lparr>o_locked := True\<rparr>)) (ret r))))))"

definition TmContractCoordinator_init ::
  "ext \<Rightarrow> oref \<Rightarrow> oref option \<Rightarrow> cref option \<Rightarrow> ('z tmw_scheme, RetVal) prog" where
  "TmContractCoordinator_init E other_r m_myOrder m_payer =
     (case m_payer of
        None \<Rightarrow> ret ZR_FAILURE
      | Some k_r \<Rightarrow>
          bnd (rpc_call (x_new_address E)) (\<lambda>btcAddr.
          if btcAddr = [] then thn (placeMsg ''ERROR getting Bitcoin Address'') (ret ZR_FAILURE)
          else thn (setBtcAddress k_r btcAddr)
            (bnd (get_order other_r) (\<lambda>other.
             bnd (need Null_pointer m_myOrder) (\<lambda>my_r.
             bnd (get_order my_r) (\<lambda>my.
             bnd (get_contract k_r) (\<lambda>k.
             thn (send_remote (k_counterParty k) (o_order_id other) QUERY SERVER (o_order_id my)
                    (query_payload E k btcAddr 0))
               (ret ZR_SUCCESS))))))))"

definition TmContractCoordinator_abortTx :: "oref \<Rightarrow> oref option \<Rightarrow> ('z tmw_scheme, RetVal) prog" where
  "TmContractCoordinator_abortTx other_r m_myOrder =
     bnd (get_order other_r) (\<lambda>other.
     bnd (need Null_pointer m_myOrder) (\<lambda>my_r.
     bnd (get_order my_r) (\<lambda>my.
     bnd (gets n_router) (\<lambda>rt.
     let addr = TraceRouter_nextHop rt (o_order_id other) in
     if addr = [] then ret ZR_FAILURE
     else thn (send_remote addr (o_order_id other) ABORT SERVER (o_order_id my) []) (ret ZR_FAILURE)))))"

definition TmContractCoordinator_rollback :: "ext \<Rightarrow> oref \<Rightarrow> cref option \<Rightarrow> ('z tmw_scheme, unit) prog" where
  "TmContractCoordinator_rollback E other_r m_payer =
     thn (case m_payer of None \<Rightarrow> ret () | Some k_r \<Rightarrow> rmContract E k_r)
     (thn (upd_order other_r (\<lambda>x. x\<lparr>o_ignored := True\<rparr>))
     (bnd (get_order other_r) (\<lambda>other.
      bnd (OrderBook_remove E Asks (o_order_id other)) (\<lambda>_. ret ()))))"

text \<open>The end of a purchase for the buyer's order: less of it, or none.\<close>

definition coordinator_settle :: "ext \<Rightarrow> tref \<Rightarrow> TransactionId \<Rightarrow> oref \<Rightarrow> oref \<Rightarrow> cref \<Rightarrow> ZR_Number
    \<Rightarrow> ('z tmw_scheme, RetVal) prog" where
  "coordinator_settle E r txId other_r my_r k_r btcAmount =
     bnd (get_order my_r) (\<lambda>my.
     if o_amount my > btcAmount then
       thn (upd_order my_r (\<lambda>x. x\<lparr>o_amount := o_amount x - btcAmount, o_purpose := PARTLY_FILLED, o_locked := False\<rparr>))
       (bnd (try_catch catch_runtime_error
          (bnd (get_order my_r) (\<lambda>x. thn (updateOrder E x) (ret None)))
          (\<lambda>e. ret (Some e))) (\<lambda>failed. case failed of
            Some e \<Rightarrow> thn (placeMsg (aborting e txId)) (TmContractCoordinator_abortTx other_r (Some my_r))
          | None \<Rightarrow> thn (publishOrder E my_r None) (ret ZR_FINISH)))
     else
       bnd (OrderBook_remove E Bids (o_order_id my)) (\<lambda>_.
       bnd (OrderBook_remove E Mine (o_order_id my)) (\<lambda>_.
       thn (upd_order my_r (\<lambda>x. x\<lparr>o_purpose := FILLED\<rparr>))
       (thn (publishOrder E my_r None)
       (thn (delete_order my_r)
       (thn (set_class r (TmContractCoordinator other_r None (Some k_r))) (ret ZR_FINISH)))))))"

definition TmContractCoordinator_doTx ::
  "ext \<Rightarrow> tref \<Rightarrow> TransactionId \<Rightarrow> oref \<Rightarrow> oref option \<Rightarrow> cref option \<Rightarrow> remote_tx \<Rightarrow> ('z tmw_scheme, RetVal) prog" where
  "TmContractCoordinator_doTx E r txId other_r m_myOrder m_payer i =
     (let v_payload = TransactionManager_split (rx_payload i); abort = TmContractCoordinator_abortTx other_r m_myOrder in
      if length v_payload \<noteq> 2 then thn (placeMsg ''Payload ERROR: Protocol mismatch'') abort
      else
        bnd (lift (fromFractionString E (v_payload ! 0))) (\<lambda>btcAmount.
        bnd (need Null_pointer m_payer) (\<lambda>k_r.
        bnd (get_contract k_r) (\<lambda>k.
        if btcAmount > k_btcAmount k then abort
        else
          thn (whn (btcAmount < k_btcAmount k)
             (thn (setBtcAmount E k_r btcAmount) (upd_order other_r (\<lambda>x. x\<lparr>o_ignored := True\<rparr>))))
          (thn (setBtcTxId k_r (v_payload ! 1))
          (bnd (get_order other_r) (\<lambda>other.
           bnd (need Null_pointer m_myOrder) (\<lambda>my_r.
           bnd (get_order my_r) (\<lambda>my.
           bnd (try_catch catch_runtime_error
             (thn (activate k_r) (thn (persist E k_r) (ret None))) (\<lambda>e. ret (Some e))) (\<lambda>failed. case failed of
               Some e \<Rightarrow> thn (placeMsg (aborting e txId)) abort
             | None \<Rightarrow>
                 thn (send_remote (k_counterParty k) (o_order_id other) COMMIT SERVER (o_order_id my) [])
                     (coordinator_settle E r txId other_r my_r k_r btcAmount)))))))))))"

definition TmContractCoordinator_processItem ::
  "ext \<Rightarrow> tref \<Rightarrow> TransactionId \<Rightarrow> oref \<Rightarrow> oref option \<Rightarrow> cref option \<Rightarrow> remote_tx \<Rightarrow> ('z tmw_scheme, RetVal) prog" where
  "TmContractCoordinator_processItem E r txId other_r m_myOrder m_payer i =
     (let give_up = thn (TmContractCoordinator_rollback E other_r m_payer) (TmContractCoordinator_abortTx other_r m_myOrder) in
      case rx_phase i of
        VOTE_NO \<Rightarrow> give_up
      | VOTE_YES \<Rightarrow> TmContractCoordinator_doTx E r txId other_r m_myOrder m_payer i
      | ABORT_REQUEST \<Rightarrow> give_up
      | _ \<Rightarrow> throw (Runtime_error ''Unknown Transaction Phase''))"

section \<open>Payee\<close>

definition TmContractCohortePayee_abortTx :: "tref \<Rightarrow> oref option \<Rightarrow> remote_tx \<Rightarrow> ('z tmw_scheme, RetVal) prog" where
  "TmContractCohortePayee_abortTx r m_myOrder i =
     thn (set_phase r ABORT_REQUEST)
     (bnd (need Null_pointer m_myOrder) (\<lambda>my_r.
      bnd (get_order my_r) (\<lambda>my.
      thn (send_remote (rx_peer i) (o_order_id my) ABORT_REQUEST CLIENT (rx_payerId i) []) (ret ZR_SUCCESS))))"

definition TmContractCohortePayee_voteNo :: "oref \<Rightarrow> remote_tx \<Rightarrow> ('z tmw_scheme, RetVal) prog" where
  "TmContractCohortePayee_voteNo my_r i =
     bnd (get_order my_r) (\<lambda>my.
     thn (send_remote (rx_peer i) (o_order_id my) VOTE_NO CLIENT (rx_payerId i) ''0/1:VOTE_NO'') (ret ZR_FINISH))"

text \<open>What is left of the order decides the amount; the rest of it stays committed.\<close>

definition payee_commitment :: "ext \<Rightarrow> oref \<Rightarrow> cref \<Rightarrow> ZR_Number \<Rightarrow> ZR_Number \<Rightarrow> ('z tmw_scheme, ZR_Number) prog" where
  "payee_commitment E my_r k_r leftover btcAmount =
     (if btcAmount > leftover then
        thn (upd_order my_r (\<lambda>x. x\<lparr>o_commitment := o_amount x\<rparr>))
        (thn (setBtcAmount E k_r leftover) (ret leftover))
      else thn (upd_order my_r (\<lambda>x. x\<lparr>o_commitment := o_commitment x + btcAmount\<rparr>)) (ret btcAmount))"

text \<open>The Bitcoin transaction is made and the vote sent.\<close>

definition payee_vote :: "ext \<Rightarrow> tref \<Rightarrow> oref \<Rightarrow> cref \<Rightarrow> ZR_Number \<Rightarrow> BitcoinAddress \<Rightarrow> remote_tx
    \<Rightarrow> ('z tmw_scheme, RetVal) prog" where
  "payee_vote E r my_r k_r btcAmount dest i =
     bnd (get_order my_r) (\<lambda>my.
     bnd (rpc_call (\<lambda>n. x_mk_raw_tx E n btcAmount (o_btcAddr my) dest)) (\<lambda>(sendAddr, raw).
     thn (upd_order my_r (\<lambda>x. x\<lparr>o_btcAddr := sendAddr\<rparr>)) (case raw of
         None \<Rightarrow> TmContractCohortePayee_abortTx r (Some my_r) i
       | Some (txHex, outTxId) \<Rightarrow>
           thn (set_class r (TmContractCohortePayee (Some k_r) txHex (Some my_r)))
           (thn (setBtcAddress k_r dest)
           (thn (setBtcTxId k_r outTxId)
           (bnd (get_contract k_r) (\<lambda>k.
            thn (send_remote (rx_peer i) (o_order_id my) VOTE_YES CLIENT (rx_payerId i)
                   (vote_payload E (k_btcAmount k) outTxId))
              (ret ZR_SUCCESS))))))))"

definition TmContractCohortePayee_doQuery :: "ext \<Rightarrow> tref \<Rightarrow> tm \<Rightarrow> cref option \<Rightarrow> BitcoinTxHex \<Rightarrow> oref option \<Rightarrow> remote_tx
    \<Rightarrow> ('z tmw_scheme, RetVal) prog" where
  "TmContractCohortePayee_doQuery E r t m_payee m_txHex m_myOrder0 i =
     (if tm_Phase t \<noteq> INIT then TmContractCohortePayee_abortTx r m_myOrder0 i
      else thn (set_phase r QUERY)
        (bnd (OrderBook_find Mine (rx_addr i)) (\<lambda>m_myOrder.
         thn (set_class r (TmContractCohortePayee m_payee m_txHex m_myOrder))
         (case m_myOrder of None \<Rightarrow> TmContractCohortePayee_abortTx r None i
          | Some my_r \<Rightarrow>
            let v_payload = TransactionManager_split (rx_payload i) in
            if length v_payload < 5 then TmContractCohortePayee_abortTx r (Some my_r) i
            else
              bnd (lift (fromFractionString E (v_payload ! 0))) (\<lambda>fiatAmount.
              bnd (lift (fromFractionString E (v_payload ! 3))) (\<lambda>btcAmount0.
              bnd (lift (fromFractionString E (v_payload ! 4))) (\<lambda>fee.
              bnd (lift (zr_div fiatAmount btcAmount0)) (\<lambda>price.
              let currencySym = v_payload ! 1; dest = v_payload ! 2 in
              bnd (try_catch catch_runtime_error
                (bnd (new_BtcContract E btcAmount0 fee price currencySym RECEIVER (rx_peer i) 0) (\<lambda>k_r.
                 thn (set_class r (TmContractCohortePayee (Some k_r) m_txHex (Some my_r)))
                 (bnd (get_contract k_r) (\<lambda>k. ret (Some (k_r, k_btcAmount k))))))
                (\<lambda>e. thn (placeMsg (no_contract ''doQuery'' e)) (ret None))) (\<lambda>made. case made of
                  None \<Rightarrow> TmContractCohortePayee_voteNo my_r i
                | Some (k_r, btcAmount) \<Rightarrow>
                    bnd (get_order my_r) (\<lambda>my.
                    bnd (symbol_of E (o_currency my)) (\<lambda>myCurrency.
                    if myCurrency \<noteq> currencySym then TmContractCohortePayee_abortTx r (Some my_r) i
                    else if price < o_price my then TmContractCohortePayee_voteNo my_r i
                    else
                      let leftover = o_amount my - o_commitment my in
                      if leftover = 0 then TmContractCohortePayee_voteNo my_r i
                      else bnd (payee_commitment E my_r k_r leftover btcAmount) (\<lambda>amount.
                        payee_vote E r my_r k_r amount dest i))))))))))))"

definition payee_settle :: "ext \<Rightarrow> TransactionId \<Rightarrow> oref \<Rightarrow> ZR_Number \<Rightarrow> BitcoinTxHex \<Rightarrow> ('z tmw_scheme, RetVal) prog" where
  "payee_settle E txId my_r btcAmount txHex =
     (let sendRaw = bnd (rpc_call (\<lambda>_. ())) (\<lambda>_. thn (modify (\<lambda>w. w\<lparr>s_raw := s_raw w @ [txHex]\<rparr>)) (ret ZR_FINISH)) in
     bnd (get_order my_r) (\<lambda>my.
     if o_amount my > btcAmount then
       thn (upd_order my_r (\<lambda>x. x\<lparr>o_purpose := PARTLY_FILLED, o_amount := o_amount x - btcAmount,
              o_commitment := o_commitment x - btcAmount\<rparr>))
       (bnd (try_catch catch_runtime_error
          (bnd (get_order my_r) (\<lambda>x. thn (updateOrder E x) (ret None)))
          (\<lambda>e. ret (Some e))) (\<lambda>failed. case failed of
            Some e \<Rightarrow> thn (placeMsg (aborting e txId)) (ret ZR_FAILURE)
          | None \<Rightarrow> thn (publishOrder E my_r None) sendRaw))
     else
       thn (upd_order my_r (\<lambda>x. x\<lparr>o_purpose := FILLED\<rparr>))
       (bnd (OrderBook_remove E Mine (o_order_id my)) (\<lambda>_.
        bnd (OrderBook_remove E Asks (o_order_id my)) (\<lambda>_.
        thn (publishOrder E my_r None) (thn (delete_order my_r) sendRaw))))))"

definition TmContractCohortePayee_doCommit :: "ext \<Rightarrow> tref \<Rightarrow> tm \<Rightarrow> cref option \<Rightarrow> BitcoinTxHex \<Rightarrow> oref option \<Rightarrow> remote_tx
    \<Rightarrow> ('z tmw_scheme, RetVal) prog" where
  "TmContractCohortePayee_doCommit E r t m_payee m_txHex m_myOrder i =
     (if tm_Phase t \<noteq> QUERY then TmContractCohortePayee_abortTx r m_myOrder i
      else thn (set_phase r COMMIT)
        (bnd (need Null_pointer m_payee) (\<lambda>k_r.
         bnd (try_catch catch_runtime_error
           (thn (activate k_r) (thn (persist E k_r) (ret None))) (\<lambda>e. ret (Some e))) (\<lambda>failed. case failed of
             Some e \<Rightarrow> thn (placeMsg (aborting e (tm_TxId t))) (TmContractCohortePayee_abortTx r m_myOrder i)
           | None \<Rightarrow>
               bnd (need Null_pointer m_myOrder) (\<lambda>my_r.
               bnd (get_contract k_r) (\<lambda>k. payee_settle E (tm_TxId t) my_r (k_btcAmount k) m_txHex))))))"

definition TmContractCohortePayee_rollback :: "ext \<Rightarrow> cref option \<Rightarrow> oref option \<Rightarrow> ('z tmw_scheme, unit) prog" where
  "TmContractCohortePayee_rollback E m_payee m_myOrder =
     (case m_payee of None \<Rightarrow> ret ()
      | Some k_r \<Rightarrow>
          bnd (need Null_pointer m_myOrder) (\<lambda>my_r.
          bnd (get_contract k_r) (\<lambda>k.
          thn (upd_order my_r (\<lambda>x. x\<lparr>o_commitment := o_commitment x - k_btcAmount k\<rparr>)) (rmContract E k_r))))"

definition TmContractCohortePayee_processItem :: "ext \<Rightarrow> tref \<Rightarrow> tm \<Rightarrow> cref option \<Rightarrow> BitcoinTxHex \<Rightarrow> oref option \<Rightarrow> remote_tx
    \<Rightarrow> ('z tmw_scheme, RetVal) prog" where
  "TmContractCohortePayee_processItem E r t m_payee m_txHex m_myOrder i =
     (case rx_phase i of
        QUERY \<Rightarrow> TmContractCohortePayee_doQuery E r t m_payee m_txHex m_myOrder i
      | COMMIT \<Rightarrow> TmContractCohortePayee_doCommit E r t m_payee m_txHex m_myOrder i
      | ABORT \<Rightarrow> thn (TmContractCohortePayee_rollback E m_payee m_myOrder) (ret ZR_FAILURE)
      | _ \<Rightarrow> throw (Runtime_error ''Unknown Transaction Phase''))"

section \<open>Hop\<close>

definition TmContractCohorteHop_abortTx :: "tref \<Rightarrow> remote_tx \<Rightarrow> ('z tmw_scheme, RetVal) prog" where
  "TmContractCohorteHop_abortTx r i =
     thn (set_phase r ABORT_REQUEST)
     (thn (send_remote (rx_peer i) (rx_addr i) ABORT_REQUEST CLIENT (rx_payerId i) []) (ret ZR_SUCCESS))"

definition TmContractCohorteHop_voteNo :: "remote_tx \<Rightarrow> ('z tmw_scheme, RetVal) prog" where
  "TmContractCohorteHop_voteNo i =
     thn (send_remote (rx_peer i) (rx_addr i) VOTE_NO CLIENT (rx_payerId i) ''0/1:VOTE_NO'') (ret ZR_FINISH)"

definition mkTunnel :: "remote_tx \<Rightarrow> ('z tmw_scheme, unit) prog" where
  "mkTunnel i = modify (\<lambda>w. w\<lparr>n_router :=
     Router_addTunnel (rx_addr i) (rx_peer i, TraceRouter_nextHop (n_router w) (rx_addr i)) (n_router w)\<rparr>)"

definition forwardItem :: "remote_tx \<Rightarrow> string \<Rightarrow> ('z tmw_scheme, RetVal) prog" where
  "forwardItem i payload =
     bnd (gets n_router) (\<lambda>rt.
     case Router_getTunnel rt (rx_addr i) ([], []) of (found, route) \<Rightarrow>
       if found = ZR_FAILURE then ret ZR_FAILURE
       else thn (send_remote (if rx_dir i = SERVER then snd route else fst route)
                   (rx_addr i) (rx_phase i) (rx_dir i) (rx_payerId i) payload)
              (ret ZR_SUCCESS))"

definition TmContractCohorteHop_doQuery :: "ext \<Rightarrow> tref \<Rightarrow> tm \<Rightarrow> remote_tx \<Rightarrow> ('z tmw_scheme, RetVal) prog" where
  "TmContractCohorteHop_doQuery E r t i =
     (if tm_Phase t \<noteq> INIT then TmContractCohorteHop_abortTx r i
      else thn (set_phase r QUERY) (thn (mkTunnel i)
        (let v_payload = TransactionManager_split (rx_payload i) in
         if length v_payload < 5 then TmContractCohorteHop_abortTx r i
         else
           bnd (lift (fromFractionString E (v_payload ! 0))) (\<lambda>fiatAmount.
           bnd (lift (fromFractionString E (v_payload ! 3))) (\<lambda>btcAmount.
           bnd (lift (fromFractionString E (v_payload ! 4))) (\<lambda>fee.
           bnd (lift (zr_div fiatAmount btcAmount)) (\<lambda>price.
           let currencySym = v_payload ! 1; dest = v_payload ! 2 in
           bnd (gets n_router) (\<lambda>rt.
           case Router_getTunnel rt (rx_addr i) ([], []) of (found, route) \<Rightarrow>
             if found = ZR_FAILURE then TmContractCohorteHop_abortTx r i
             else
               bnd (try_catch catch_runtime_error
                 (bnd (new_BtcContract E btcAmount fee price currencySym RECEIVER (fst route) 0) (\<lambda>payee.
                  thn (set_class r (TmContractCohorteHop None (Some payee)))
                  (bnd (new_BtcContract E btcAmount fee price currencySym SENDER (snd route) 0) (\<lambda>payer.
                   thn (set_class r (TmContractCohorteHop (Some payer) (Some payee))) (ret (Some (payer, payee)))))))
                 (\<lambda>e. thn (placeMsg (no_contract ''doQuery'' e)) (ret None))) (\<lambda>made. case made of
                   None \<Rightarrow> TmContractCohorteHop_voteNo i
                 | Some (payer, payee) \<Rightarrow>
                     thn (setBtcAddress payee dest)
                     (thn (setBtcAddress payer dest)
                     (bnd (get_contract payee) (\<lambda>k.
                      thn (forwardItem i (toStdString E (getFiatAmount k) @ '':'' @ currencySym @ '':'' @ dest @ '':'' @
                             toStdString E (k_btcAmount k) @ '':'' @ toStdString E fee))
                        (ret ZR_SUCCESS)))))))))))))"

definition TmContractCohorteHop_doCommit ::
  "ext \<Rightarrow> tref \<Rightarrow> tm \<Rightarrow> cref option \<Rightarrow> cref option \<Rightarrow> remote_tx \<Rightarrow> ('z tmw_scheme, RetVal) prog" where
  "TmContractCohorteHop_doCommit E r t m_payer m_payee i =
     (if tm_Phase t \<noteq> VOTE_YES then TmContractCohorteHop_abortTx r i
      else thn (set_phase r COMMIT)
        (bnd (need Null_pointer m_payer) (\<lambda>payer.
         bnd (need Null_pointer m_payee) (\<lambda>payee.
         bnd (try_catch catch_runtime_error
           (thn (activate payer) (thn (activate payee) (thn (persist E payer) (thn (persist E payee) (ret None)))))
           (\<lambda>e. ret (Some e))) (\<lambda>failed. case failed of
             Some e \<Rightarrow> thn (placeMsg (aborting e (tm_TxId t))) (TmContractCohorteHop_abortTx r i)
           | None \<Rightarrow> thn (forwardItem i (rx_payload i)) (ret ZR_FINISH))))))"

definition TmContractCohorteHop_doVote ::
  "ext \<Rightarrow> tref \<Rightarrow> tm \<Rightarrow> cref option \<Rightarrow> cref option \<Rightarrow> remote_tx \<Rightarrow> ('z tmw_scheme, RetVal) prog" where
  "TmContractCohorteHop_doVote E r t m_payer m_payee i =
     (if tm_Phase t \<noteq> QUERY then TmContractCohorteHop_abortTx r i
      else thn (set_phase r (rx_phase i))
        (let v_payload = TransactionManager_split (rx_payload i) in
         if length v_payload \<noteq> 2 then TmContractCohorteHop_abortTx r i
         else
           bnd (lift (fromFractionString E (v_payload ! 0))) (\<lambda>btcAmount.
           bnd (need Null_pointer m_payer) (\<lambda>payer.
           thn (setBtcTxId payer (v_payload ! 1))
           (bnd (need Null_pointer m_payee) (\<lambda>payee.
           thn (setBtcTxId payee (v_payload ! 1))
           (bnd (get_contract payer) (\<lambda>k.
            if btcAmount > k_btcAmount k then TmContractCohorteHop_abortTx r i
            else thn (setBtcAmount E payer btcAmount)
              (thn (setBtcAmount E payee btcAmount)
              (thn (forwardItem i (rx_payload i)) (ret ZR_SUCCESS)))))))))))"

definition TmContractCohorteHop_rollback :: "ext \<Rightarrow> cref option \<Rightarrow> cref option \<Rightarrow> ('z tmw_scheme, unit) prog" where
  "TmContractCohorteHop_rollback E m_payer m_payee =
     thn (case m_payer of None \<Rightarrow> ret () | Some k \<Rightarrow> rmContract E k)
         (case m_payee of None \<Rightarrow> ret () | Some k \<Rightarrow> rmContract E k)"

definition TmContractCohorteHop_processItem ::
  "ext \<Rightarrow> tref \<Rightarrow> tm \<Rightarrow> cref option \<Rightarrow> cref option \<Rightarrow> remote_tx \<Rightarrow> ('z tmw_scheme, RetVal) prog" where
  "TmContractCohorteHop_processItem E r t m_payer m_payee i =
     (case rx_phase i of
        QUERY \<Rightarrow> TmContractCohorteHop_doQuery E r t i
      | VOTE_NO \<Rightarrow> TmContractCohorteHop_doVote E r t m_payer m_payee i
      | VOTE_YES \<Rightarrow> TmContractCohorteHop_doVote E r t m_payer m_payee i
      | COMMIT \<Rightarrow> TmContractCohorteHop_doCommit E r t m_payer m_payee i
      | ABORT \<Rightarrow> thn (forwardItem i (rx_payload i)) (thn (TmContractCohorteHop_rollback E m_payer m_payee) (ret ZR_FAILURE))
      | ABORT_REQUEST \<Rightarrow> forwardItem i (rx_payload i)
      | _ \<Rightarrow> throw (Runtime_error ''Unknown Transaction Phase''))"

end
