(* ===== verification/MyOrders.thy ===== *)
theory MyOrders
  imports TmContract
begin

text \<open>
  \<^verbatim>\<open>src/MyOrders.h\<close> and \<^verbatim>\<open>src/MyOrders.cpp\<close>: the list of my own orders. My bids are matched with
  the asks of others; each match starts the purchase of a part of the seller's order.
\<close>

section \<open>Loading\<close>

fun load_each :: "ext \<Rightarrow> Order list \<Rightarrow> ('z tmw_scheme, unit) prog" where
  "load_each E [] = ret ()"
| "load_each E (ord # ords) =
     bnd (alloc_order ord) (\<lambda>r.
     bnd (OrderBook_addOrder E Mine r) (\<lambda>_.
     bnd (OrderBook_addOrder E (if o_orderType ord = ASK then Asks else Bids) r) (\<lambda>_. load_each E ords)))"

definition MyOrders_init :: "ext \<Rightarrow> ('z tmw_scheme, RetVal) prog" where
  "MyOrders_init E =
     try_catch catch_runtime_error
       (bnd (loadOrders E) (\<lambda>myorders. thn (load_each E myorders) (ret ZR_SUCCESS)))
       (\<lambda>e. thn (placeMsg (''Exception caught: '' @ what e)) (ret ZR_FAILURE))"

section \<open>The view\<close>

definition MyOrders_columnCount :: nat where
  "MyOrders_columnCount = 3"

definition MyOrders_headerData :: "nat \<Rightarrow> bool \<Rightarrow> role \<Rightarrow> cell" where
  "MyOrders_headerData section_no horizontal role =
     (if role = DisplayRole \<and> horizontal then
        (if section_no = 0 then Cell_text ''Type'' else if section_no = 1 then Cell_text ''Volume''
         else if section_no = 2 then Cell_text ''Price'' else No_cell)
      else No_cell)"

definition MyOrders_data :: "nat \<Rightarrow> nat \<Rightarrow> role \<Rightarrow> ('z bookw_scheme, cell) prog" where
  "MyOrders_data row column role =
     bnd (gets (\<lambda>w. m_filteredOrders (b_book w Mine))) (\<lambda>fs.
       if role = DisplayRole \<and> row < length fs then
         bnd (get_order (fs ! row)) (\<lambda>ord.
           ret (if column = 0 then (if o_orderType ord = ASK then Cell_text ''Sell'' else Cell_text ''Buy'')
                else if column = 1 then Cell_number (o_amount ord)
                else if column = 2 then Cell_number (o_price ord) else No_cell))
       else ret No_cell)"

section \<open>Matching\<close>

text \<open>A purchase starts with a new coordinator; one that cannot start goes away at once.\<close>

definition MyOrders_buy :: "ext \<Rightarrow> oref \<Rightarrow> oref \<Rightarrow> ZR_Number \<Rightarrow> ('z tmw_scheme, unit) prog" where
  "MyOrders_buy E other_r my_r amount =
     bnd (new_TmContractCoordinator E other_r my_r amount) (\<lambda>r.
     bnd (get_tm r) (\<lambda>t.
       case tm_class t of
         TmContractCoordinator o_r m_myOrder m_payer \<Rightarrow>
           bnd (TmContractCoordinator_init E o_r m_myOrder m_payer) (\<lambda>v. whn (v = ZR_FAILURE) (delete_tm r))
       | _ \<Rightarrow> throw (Undefined Dangling_pointer)))"

fun match_asks :: "ext \<Rightarrow> oref \<Rightarrow> oref list \<Rightarrow> ZR_Number \<Rightarrow> ('z tmw_scheme, RetVal) prog" where
  "match_asks E my_r [] amount = ret ZR_SUCCESS"
| "match_asks E my_r (other_r # asks) amount =
     bnd (get_order other_r) (\<lambda>other.
     bnd (get_order my_r) (\<lambda>my.
     if o_ignored other then match_asks E my_r asks amount
     else if o_isMyOrder other then match_asks E my_r asks amount
     else if o_order_id other \<in> o_matched my then match_asks E my_r asks amount
     else if o_price my < o_price other then ret ZR_SUCCESS
     else
       thn (upd_order my_r (\<lambda>x. x\<lparr>o_matched := insert (o_order_id other) (o_matched x)\<rparr>))
         (if amount > o_amount other then
            thn (MyOrders_buy E other_r my_r (o_amount other))
            (bnd (get_order other_r) (\<lambda>other'. match_asks E my_r asks (amount - o_amount other')))
          else thn (MyOrders_buy E other_r my_r amount) (ret ZR_FINISH))))"

definition MyOrders_match_one :: "ext \<Rightarrow> oref \<Rightarrow> ('z tmw_scheme, RetVal) prog" where
  "MyOrders_match_one E my_r =
     bnd (get_order my_r) (\<lambda>my.
     if o_locked my then ret ZR_FINISH
     else bnd (filterOrders E Asks (o_currency my)) (\<lambda>asks. match_asks E my_r asks (o_amount my)))"

definition MyOrders_match :: "ext \<Rightarrow> ('z tmw_scheme, unit) prog" where
  "MyOrders_match E =
     bnd (gets (\<lambda>w. m_orders (b_book w Mine))) (\<lambda>rs. for_each rs (\<lambda>r.
       bnd (get_order r) (\<lambda>ord. whn (o_orderType ord = BID) (bnd (MyOrders_match_one E r) (\<lambda>_. ret ())))))"

section \<open>Cancelling\<close>

definition MyOrders_cancelOrder :: "ext \<Rightarrow> nat \<Rightarrow> ('z svcw_scheme, unit) prog" where
  "MyOrders_cancelOrder E index =
     bnd (gets (\<lambda>w. m_filteredOrders (b_book w Mine))) (\<lambda>fs.
     if index \<ge> length fs then throw (Undefined Index_out_of_range)
     else
       let r = fs ! index in
       bnd (get_order r) (\<lambda>ord.
       bnd (OrderBook_remove E Mine (o_order_id ord)) (\<lambda>_.
       bnd (OrderBook_remove E (if o_orderType ord = ASK then Asks else Bids) (o_order_id ord)) (\<lambda>_.
       thn (upd_order r (\<lambda>x. x\<lparr>o_purpose := CANCEL\<rparr>)) (publishOrder E r None)))))"

end
