(* ===== verification/Node.thy ===== *)
theory Node
  imports MyOrders
begin

text \<open>
  The whole node: the virtual calls of the transaction managers and the handlers of
  \<^verbatim>\<open>src/TransactionManager.cpp\<close> that make them, the loop over the incoming items and the
  periodic work of \<^verbatim>\<open>src/p3ZeroReserveRS.cpp\<close>. \<open>n_stopped\<close> is the flag of the plug-in that
  says its database is closed; the loop looks at it, the periodic work does not.
\<close>

record nodew = tmw +
  n_stopped :: bool

section \<open>Virtual calls\<close>

definition wrong_item :: "string \<Rightarrow> ('s, 'a) prog" where
  "wrong_item func = throw (Runtime_error (func @ ''::processItem: Unknown Item Type''))"

text \<open>An item for a contract arrives at a manager; the local managers refuse it.\<close>

definition process_remote :: "ext \<Rightarrow> tref \<Rightarrow> remote_tx \<Rightarrow> ('z tmw_scheme, RetVal) prog" where
  "process_remote E r i =
     bnd (get_tm r) (\<lambda>t.
       case tm_class t of
         TmLocalCoordinator p \<Rightarrow> wrong_item ''TmLocalCoordinator''
       | TmLocalCohorte p \<Rightarrow> wrong_item ''TmLocalCoordinator''
       | TmContractCoordinator other_r m_myOrder m_payer \<Rightarrow>
           TmContractCoordinator_processItem E r (tm_TxId t) other_r m_myOrder m_payer i
       | TmContractCohortePayee m_payee m_txHex m_myOrder \<Rightarrow>
           TmContractCohortePayee_processItem E r t m_payee m_txHex m_myOrder i
       | TmContractCohorteHop m_payer m_payee \<Rightarrow>
           TmContractCohorteHop_processItem E r t m_payer m_payee i)"

text \<open>An item of a payment, with the payment it carries when it starts one.\<close>

definition process_local :: "ext \<Rightarrow> tref \<Rightarrow> PeerAddress \<Rightarrow> TxPhase \<Rightarrow> Payment option \<Rightarrow> ('z tmw_scheme, RetVal) prog" where
  "process_local E r peer phase initItem =
     bnd (get_tm r) (\<lambda>t.
       case tm_class t of
         TmLocalCoordinator p \<Rightarrow> TmLocalCoordinator_processItem E (tm_TxId t) p phase
       | TmLocalCohorte p \<Rightarrow> TmLocalCohorte_processItem E r t p peer phase initItem
       | TmContractCoordinator other_r m_myOrder m_payer \<Rightarrow> wrong_item ''TmContractCoordinator''
       | TmContractCohortePayee m_payee m_txHex m_myOrder \<Rightarrow> wrong_item ''TmContractCohortePayee''
       | TmContractCohorteHop m_payer m_payee \<Rightarrow> wrong_item ''TmContractCohorteHop'')"

definition tm_rollback :: "ext \<Rightarrow> tref \<Rightarrow> ('z tmw_scheme, unit) prog" where
  "tm_rollback E r =
     bnd (get_tm r) (\<lambda>t.
       case tm_class t of
         TmLocalCoordinator p \<Rightarrow> ret ()
       | TmLocalCohorte p \<Rightarrow> ret ()
       | TmContractCoordinator other_r m_myOrder m_payer \<Rightarrow> TmContractCoordinator_rollback E other_r m_payer
       | TmContractCohortePayee m_payee m_txHex m_myOrder \<Rightarrow> TmContractCohortePayee_rollback E m_payee m_myOrder
       | TmContractCohorteHop m_payer m_payee \<Rightarrow> TmContractCohorteHop_rollback E m_payer m_payee)"

section \<open>Transaction items\<close>

definition manager_of :: "TransactionId \<Rightarrow> 'z tmw_scheme \<Rightarrow> tref option" where
  "manager_of txId s = map_of (t_current s) txId"

definition finish_tm :: "tref \<Rightarrow> RetVal \<Rightarrow> ('z tmw_scheme, RetVal) prog" where
  "finish_tm r retVal = thn (whn (retVal \<noteq> ZR_SUCCESS) (delete_tm r)) (ret retVal)"

definition handleTxItem_remote :: "ext \<Rightarrow> remote_tx \<Rightarrow> ('z tmw_scheme, RetVal) prog" where
  "handleTxItem_remote E i =
     (let txId = rx_addr i @ '':'' @ rx_payerId i; myId = TmContract_id (rx_addr i) (rx_payerId i) in
      bnd (gets (manager_of txId)) (\<lambda>m.
      bnd (case m of
          Some r \<Rightarrow> ret r
        | None \<Rightarrow> bnd (OrderBook_find Mine (rx_addr i)) (\<lambda>mine.
            if mine \<noteq> None then new_TransactionManager myId (TmContractCohortePayee None [] None)
            else new_TransactionManager myId (TmContractCohorteHop None None))) (\<lambda>r.
      bnd (try_catch catch_runtime_error
        (bnd (process_remote E r i) (\<lambda>v. ret (Some v))) (\<lambda>e. ret None)) (\<lambda>res. case res of
          None \<Rightarrow> ret ZR_FAILURE
        | Some retVal \<Rightarrow> finish_tm r retVal))))"

definition handleTxItem_local :: "ext \<Rightarrow> PeerAddress \<Rightarrow> TxPhase \<Rightarrow> TransactionId \<Rightarrow> Payment option \<Rightarrow> ('z tmw_scheme, RetVal) prog" where
  "handleTxItem_local E peer phase txId initItem =
     bnd (gets (manager_of txId)) (\<lambda>m.
     bnd (case m of Some r \<Rightarrow> ret r | None \<Rightarrow> new_TmLocalCohorte txId) (\<lambda>r.
     bnd (process_local E r peer phase initItem) (finish_tm r)))"

text \<open>
  The loop over the map: deleting a manager erases the entry the iterator stands on, and
  advancing that iterator is undefined.
\<close>

fun timeout_each :: "ext \<Rightarrow> tref list \<Rightarrow> ('z tmw_scheme, unit) prog" where
  "timeout_each E [] = ret ()"
| "timeout_each E (r # rs) =
     bnd (get_tm r) (\<lambda>t.
     bnd (gets w_now) (\<lambda>now.
       if isTimedOut now t
       then thn (tm_rollback E r) (thn (delete_tm r) (throw (Undefined Invalid_iterator)))
       else timeout_each E rs))"

definition TransactionManager_timeout :: "ext \<Rightarrow> ('z tmw_scheme, unit) prog" where
  "TransactionManager_timeout E = bnd (gets t_current) (\<lambda>m. timeout_each E (map snd m))"

section \<open>The service's loop\<close>

fun handle_packet :: "ext \<Rightarrow> packet \<Rightarrow> ('z tmw_scheme, unit) prog" where
  "handle_packet E pk =
     (case pk_item pk of
        OrderBookItem addr ord \<Rightarrow> handleOrder E (pk_peer pk) ord
      | InitTxItem phase txId role p \<Rightarrow>
          bnd (handleTxItem_local E (pk_peer pk) phase txId (Some p)) (\<lambda>_. ret ())
      | TxItem phase txId \<Rightarrow>
          bnd (handleTxItem_local E (pk_peer pk) phase txId None) (\<lambda>_. ret ())
      | CreditItem c \<Rightarrow> handleCredit E (pk_peer pk) c
      | MsgItem t msg \<Rightarrow> handleMessage (pk_peer pk) t
      | RemoteTxItem addr phase dir payerId payload \<Rightarrow>
          bnd (handleTxItem_remote E \<lparr>rx_peer = pk_peer pk, rx_addr = addr, rx_phase = phase, rx_dir = dir,
                 rx_payerId = payerId, rx_payload = payload\<rparr>) (\<lambda>_. ret ()))"

text \<open>The queue is emptied; handling an item puts none into it.\<close>

definition processIncoming :: "ext \<Rightarrow> ('z tmw_scheme, unit) prog" where
  "processIncoming E =
     bnd (gets s_received) (\<lambda>items. for_each items (\<lambda>pk.
       thn (modify (\<lambda>w. w\<lparr>s_received := tl (s_received w)\<rparr>)) (handle_packet E pk)))"

definition janitor :: "ext \<Rightarrow> ('z tmw_scheme, unit) prog" where
  "janitor E =
     bnd (gets (\<lambda>w. w_now w div 1000)) (\<lambda>t.
     bnd (gets s_lastCleanup) (\<lambda>lastCleanup.
     if t - lastCleanup < 10 then ret ()
     else thn (modify (\<lambda>w. w\<lparr>s_lastCleanup := t\<rparr>))
       (thn (OrderBook_timeoutOrders E Asks)
       (thn (OrderBook_timeoutOrders E Bids)
       (thn (TransactionManager_timeout E)
       (thn (pollContracts E) (MyOrders_match E)))))))"

definition node_tick :: "ext \<Rightarrow> ('z nodew_scheme, unit) prog" where
  "node_tick E =
     bnd (gets n_stopped) (\<lambda>stopped.
     thn (whn (\<not> stopped) (processIncoming E)) (janitor E))"

end
