(* ===== verification/Frames.thy ===== *)
theory Frames
  imports Node
begin

text \<open>
  What the operations leave alone. \<open>leaves f m\<close>: whatever happens in \<open>m\<close>, an exception
  included, the part \<open>f\<close> of the state is what it was. The parts an operation of a layer leaves
  alone are those blind to the fields of that layer; the lemmas are the frame rules the
  properties of the transactions rest on.
\<close>

section \<open>Programs that leave a part alone\<close>

named_theorems leave_intros \<open>rules that derive that a program leaves a part of the state alone\<close>

definition leaves :: "('s \<Rightarrow> 'v) \<Rightarrow> ('s, 'a) prog \<Rightarrow> bool" where
  "leaves f m \<longleftrightarrow> (\<forall>s. f (snd (m s)) = f s)"

lemma leavesD: "leaves f m \<Longrightarrow> m s = (r, t) \<Longrightarrow> f t = f s"
  by (auto simp: leaves_def dest: spec [of _ s])

lemma leaves_snd: "leaves f m \<Longrightarrow> f (snd (m s)) = f s"
  by (simp add: leaves_def)

lemma leaves_modify: "(\<And>s. f (g s) = f s) \<Longrightarrow> leaves f (modify g)"
  by (simp add: leaves_def prog_apply)

lemma leaves_basic [leave_intros]:
  "leaves f (ret x)" "leaves f (throw e)" "leaves f (gets g)" "leaves f (lift r)"
  "leaves f (deref h p)" "leaves f (need u v)"
  by (simp_all add: leaves_def prog_apply deref_def need_def split: option.splits)

lemma leaves_bnd [leave_intros]: "leaves f m \<Longrightarrow> (\<And>x. leaves f (k x)) \<Longrightarrow> leaves f (bnd m k)"
  by (auto simp: leaves_def bnd_def split: prod.splits sum.splits) (metis snd_conv)+

lemma leaves_thn [leave_intros]: "leaves f m \<Longrightarrow> leaves f k \<Longrightarrow> leaves f (thn m k)"
  by (simp add: thn_def leaves_bnd)

lemma leaves_try [leave_intros]: "leaves f m \<Longrightarrow> (\<And>e. leaves f (h e)) \<Longrightarrow> leaves f (try_catch c m h)"
  by (auto simp: leaves_def try_catch_def split: prod.splits sum.splits) (metis snd_conv)+

lemma leaves_if [leave_intros]: "leaves f m \<Longrightarrow> leaves f k \<Longrightarrow> leaves f (if b then m else k)"
  by simp

lemma leaves_whn [leave_intros]: "leaves f m \<Longrightarrow> leaves f (whn b m)"
  by (simp add: whn_def leaves_basic)

lemma leaves_for_each [leave_intros]: "(\<And>x. leaves f (g x)) \<Longrightarrow> leaves f (for_each xs g)"
  by (induction xs) (auto intro: leave_intros)

lemma leaves_list_rows [leave_intros]: "(\<And>x. leaves f (g x)) \<Longrightarrow> leaves f (list_rows g xs acc)"
  by (induction xs arbitrary: acc) (auto intro: leave_intros)

lemma leaves_cases [leave_intros]:
  "leaves f a \<Longrightarrow> (\<And>x. leaves f (b x)) \<Longrightarrow> leaves f (case v of None \<Rightarrow> a | Some x \<Rightarrow> b x)"
  by (simp split: option.split)

lemma leaves_case_prod [leave_intros]: "(\<And>x y. leaves f (g x y)) \<Longrightarrow> leaves f (case p of (x, y) \<Rightarrow> g x y)"
  by (simp split: prod.split)

lemma keeps_leaves: "leaves f m \<Longrightarrow> keeps (\<lambda>s. P (f s)) m"
  by (simp add: keeps_def leaves_def)

section \<open>The database and the user\<close>

definition db_blind :: "('z payw_scheme \<Rightarrow> 'v) \<Rightarrow> bool" where
  "db_blind f \<longleftrightarrow> (\<forall>s. (\<forall>x. f (s\<lparr>w_messages := x\<rparr>) = f s) \<and> (\<forall>x. f (s\<lparr>w_rpc := x\<rparr>) = f s) \<and>
     (\<forall>x. f (s\<lparr>db_tables := x\<rparr>) = f s) \<and> (\<forall>x. f (s\<lparr>db_saved := x\<rparr>) = f s) \<and>
     (\<forall>x. f (s\<lparr>db_txlog := x\<rparr>) = f s) \<and> (\<forall>x. f (s\<lparr>db_stmts := x\<rparr>) = f s) \<and>
     (\<forall>x. f (s\<lparr>w_txLogView := x\<rparr>) = f s))"

lemma db_blindD:
  "db_blind f \<Longrightarrow> f (s\<lparr>w_messages := a\<rparr>) = f s" "db_blind f \<Longrightarrow> f (s\<lparr>w_rpc := b\<rparr>) = f s"
  "db_blind f \<Longrightarrow> f (s\<lparr>db_tables := c\<rparr>) = f s" "db_blind f \<Longrightarrow> f (s\<lparr>db_saved := d\<rparr>) = f s"
  "db_blind f \<Longrightarrow> f (s\<lparr>db_txlog := e\<rparr>) = f s" "db_blind f \<Longrightarrow> f (s\<lparr>db_stmts := n\<rparr>) = f s"
  "db_blind f \<Longrightarrow> f (s\<lparr>w_txLogView := v\<rparr>) = f s"
  by (simp_all add: db_blind_def)

lemma leaves_placeMsg [leave_intros]: "db_blind f \<Longrightarrow> leaves f (placeMsg m)"
  unfolding placeMsg_def by (intro leaves_modify) (simp add: db_blindD)

lemma leaves_rpc_call [leave_intros]: "db_blind f \<Longrightarrow> leaves f (rpc_call g)"
  unfolding rpc_call_def by (intro leave_intros leaves_modify) (simp add: db_blindD)

lemma leaves_sql_statement [leave_intros]: "db_blind f \<Longrightarrow> leaves f (sql_statement E sp err)"
  unfolding sql_statement_def by (intro leave_intros leaves_modify) (simp add: db_blindD)

lemma leaves_runQuery [leave_intros]: "db_blind f \<Longrightarrow> leaves f (runQuery E sp g)"
  unfolding runQuery_def by (intro leave_intros leaves_modify) (simp_all add: db_blindD)

lemma leaves_sql_select [leave_intros]: "db_blind f \<Longrightarrow> leaves f (sql_select E sp err g)"
  unfolding sql_select_def by (intro leave_intros)

lemma leaves_currency [leave_intros]:
  "db_blind f \<Longrightarrow> leaves f (getCurrencyBySymbol E c)" "db_blind f \<Longrightarrow> leaves f (getCurrencyByName E c)"
  "leaves f (symbol_of E i)"
  unfolding getCurrencyBySymbol_def getCurrencyByName_def symbol_of_def by (intro leave_intros; assumption)+

lemma leaves_new_Credit [leave_intros]: "db_blind f \<Longrightarrow> leaves f (new_Credit E p c)"
  unfolding new_Credit_def by (intro leave_intros)

lemma leaves_tables [leave_intros]:
  assumes "db_blind f"
  shows "leaves f (ZrDB_loadPeer E c)" "leaves f (ZrDB_loadPeers E i)" "leaves f (peerExists E c)"
    "leaves f (createPeerRecord E c)" "leaves f (updatePeerCredit E c col v)" "leaves f (appendTx E u cur a)"
    "leaves f (updateOrder E ord)" "leaves f (deleteOrder E ord)" "leaves f (ZrDB_addOrder E ord)"
    "leaves f (addBtcContract E k)" "leaves f (rmBtcContract E i n)" "leaves f (beginTx E)"
    "leaves f (commitTx E)" "leaves f (rollbackTx E)" "leaves f (loadOrders E)"
  unfolding ZrDB_loadPeer_def ZrDB_loadPeers_def peerExists_def createPeerRecord_def updatePeerCredit_def
    appendTx_def updateOrder_def deleteOrder_def ZrDB_addOrder_def addBtcContract_def rmBtcContract_def
    beginTx_def commitTx_def rollbackTx_def loadOrders_def addPeerCredit_def orders_callback_def
  by (intro leave_intros leaves_modify assms; simp add: db_blindD [OF assms])+

section \<open>Credit lines and payments\<close>

lemma leaves_credit [leave_intros]:
  assumes "db_blind f"
  shows "leaves f (getCreditList E i)" "leaves f (Credit_loadPeer E c)" "leaves f (Credit_allocate E a c)"
    "leaves f (Credit_deallocate E a c)" "leaves f (Credit_updateCredit E c)" "leaves f (Credit_updateOurCredit E c)"
  unfolding getCreditList_def Credit_loadPeer_def Credit_allocate_def Credit_deallocate_def
    Credit_updateCredit_def Credit_updateOurCredit_def Let_def
  by (intro leave_intros assms)+

lemma leaves_payment [leave_intros]:
  assumes "db_blind f"
  shows "leaves f (new_Payment E cls cp a cur cat)" "leaves f (Payment_setCounterparty E cp p)"
    "leaves f (Payment_commit E p)" "leaves f (InitTxItem_getPayment E cp p)"
proof -
  have l: "leaves f (log_view E cur a t)" for cur a t
    unfolding log_view_def by (intro leaves_modify) (simp add: db_blindD [OF assms])
  show "leaves f (new_Payment E cls cp a cur cat)" "leaves f (Payment_setCounterparty E cp p)"
    "leaves f (InitTxItem_getPayment E cp p)"
    unfolding new_Payment_def Payment_setCounterparty_def InitTxItem_getPayment_def by (intro leave_intros assms)+
  have "leaves f (PaymentReceiver_commit E p)" "leaves f (PaymentSpender_commit E p)"
    unfolding PaymentReceiver_commit_def PaymentSpender_commit_def Let_def by (intro leave_intros assms l)+
  then show "leaves f (Payment_commit E p)" unfolding Payment_commit_def by (cases "p_class p") simp_all
qed

section \<open>Orders\<close>

lemma leaves_get_order [leave_intros]: "leaves f (get_order r)"
  unfolding get_order_def by (intro leave_intros)

lemma leaves_find [leave_intros]: "leaves f (find_ref p rs)" "leaves f (OrderBook_find sd i)"
proof -
  show "leaves f (find_ref p rs)" for p rs by (induction rs) (auto intro: leave_intros)
  then show "leaves f (OrderBook_find sd i)" unfolding OrderBook_find_def by (intro leave_intros)
qed

lemma leaves_filterOrders [leave_intros]: "leaves f (filterOrders E sd c)"
  unfolding filterOrders_def deref_list_def by (intro leave_intros)

text \<open>Blind to the lists of the books; to the objects as well.\<close>

definition book_blind :: "('z bookw_scheme \<Rightarrow> 'v) \<Rightarrow> bool" where
  "book_blind f \<longleftrightarrow> db_blind f \<and> (\<forall>s x. f (s\<lparr>b_book := x\<rparr>) = f s)"

definition order_blind :: "('z bookw_scheme \<Rightarrow> 'v) \<Rightarrow> bool" where
  "order_blind f \<longleftrightarrow> (\<forall>s x. f (s\<lparr>b_heap := x\<rparr>) = f s) \<and> (\<forall>s x y. f (s\<lparr>b_heap := x, b_next := y\<rparr>) = f s)"

lemma leaves_upd_order [leave_intros]:
  "order_blind f \<Longrightarrow> leaves f (upd_order r g)" "order_blind f \<Longrightarrow> leaves f (delete_order r)"
  "order_blind f \<Longrightarrow> leaves f (alloc_order ord)"
  unfolding upd_order_def delete_order_def alloc_order_def order_blind_def
  by (intro leave_intros leaves_modify; simp)+

lemma leaves_book [leave_intros]:
  assumes "book_blind f"
  shows "leaves f (refilter E sd)" "leaves f (OrderBook_addOrder E sd r)" "leaves f (OrderBook_remove E sd i)"
proof -
  have d: "db_blind f" using assms by (simp add: book_blind_def)
  have u: "leaves f (upd_book sd g)" for sd g
    unfolding upd_book_def using assms by (intro leaves_modify) (simp add: book_blind_def)
  show r: "leaves f (refilter E sd)" for sd unfolding refilter_def by (intro leave_intros d u)
  show "leaves f (OrderBook_addOrder E sd r)" "leaves f (OrderBook_remove E sd i)"
    unfolding OrderBook_addOrder_def OrderBook_remove_def by (intro leave_intros d u r)+
qed

section \<open>Contracts\<close>

definition contract_blind :: "('z conw_scheme \<Rightarrow> 'v) \<Rightarrow> bool" where
  "contract_blind f \<longleftrightarrow> (\<forall>s. (\<forall>x. f (s\<lparr>k_heap := x\<rparr>) = f s) \<and>
     (\<forall>x y. f (s\<lparr>k_heap := x, k_contracts := y\<rparr>) = f s) \<and>
     (\<forall>x y z. f (s\<lparr>k_heap := x, k_next := y, k_contracts := z\<rparr>) = f s))"

lemma leaves_get_contract [leave_intros]: "leaves f (get_contract r)" "leaves f (find_contract p rs)"
proof -
  show g: "leaves f (get_contract r)" for r unfolding get_contract_def by (intro leave_intros)
  show "leaves f (find_contract p rs)" by (induction rs) (auto intro: leave_intros g)
qed

lemma leaves_funds [leave_intros]:
  "db_blind f \<Longrightarrow> leaves f (deallocateFunds E k a)" "db_blind f \<Longrightarrow> leaves f (receiver_funds E b fee p c cp)"
  "db_blind f \<Longrightarrow> leaves f (persist E r)"
  unfolding deallocateFunds_def receiver_funds_def persist_def Let_def by (intro leave_intros; assumption)+

lemma leaves_upd_contract [leave_intros]:
  assumes "contract_blind f"
  shows "leaves f (upd_contract r g)" "leaves f (activate r)" "leaves f (setBtcAddress r a)"
    "leaves f (setBtcTxId r i)" "leaves f (drop_contract r)"
proof -
  have d: "f (s\<lparr>k_heap := x\<rparr>) = f s" "f (s\<lparr>k_heap := x, k_contracts := y\<rparr>) = f s" for s x y
    using assms by (simp_all add: contract_blind_def)
  show u: "leaves f (upd_contract r g)" for g
    unfolding upd_contract_def by (intro leave_intros leaves_modify) (simp add: d)
  show "leaves f (activate r)" "leaves f (setBtcAddress r a)" "leaves f (setBtcTxId r i)"
    unfolding activate_def setBtcAddress_def setBtcTxId_def by (rule u)+
  show "leaves f (drop_contract r)"
    unfolding drop_contract_def by (intro leave_intros leaves_modify) (simp add: d)
qed

lemma leaves_contract [leave_intros]:
  assumes "contract_blind f" and "db_blind f"
  shows "leaves f (new_BtcContract E b fee p c pa cp t)" "leaves f (setBtcAmount E r b)" "leaves f (rmContract E r)"
proof -
  have d: "f (s\<lparr>k_heap := x, k_next := y, k_contracts := z\<rparr>) = f s" for s x y z
    using assms by (simp add: contract_blind_def)
  show "leaves f (new_BtcContract E b fee p c pa cp t)"
    unfolding new_BtcContract_def by (intro leave_intros leaves_modify assms) (simp add: d)
  show "leaves f (setBtcAmount E r b)" "leaves f (rmContract E r)"
    unfolding setBtcAmount_def rmContract_def Let_def by (intro leave_intros assms)+
qed

section \<open>The service\<close>

definition send_blind :: "('z svcw_scheme \<Rightarrow> 'v) \<Rightarrow> bool" where
  "send_blind f \<longleftrightarrow> (\<forall>s x. f (s\<lparr>s_sent := x\<rparr>) = f s)"

lemma leaves_sendItem [leave_intros]: "send_blind f \<Longrightarrow> leaves f (sendItem p i)"
  unfolding sendItem_def send_blind_def by (intro leaves_modify) simp

lemma leaves_send [leave_intros]:
  "send_blind f \<Longrightarrow> leaves f (sendOrder p r)" "send_blind f \<Longrightarrow> leaves f (send_tx p ph i)"
  "send_blind f \<Longrightarrow> leaves f (send_remote p a ph d pid pl)" "send_blind f \<Longrightarrow> leaves f (sendCredit c)"
  unfolding sendOrder_def send_tx_def send_remote_def sendCredit_def by (intro leave_intros; assumption)+

lemma leaves_publish [leave_intros]:
  assumes "send_blind f" and "db_blind f"
  shows "leaves f (publishOrder E r origin)"
  unfolding publishOrder_def publish_to_def by (intro leave_intros assms)

section \<open>Managers\<close>

definition manager_blind :: "('z tmw_scheme \<Rightarrow> 'v) \<Rightarrow> bool" where
  "manager_blind f \<longleftrightarrow> (\<forall>s. (\<forall>x. f (s\<lparr>t_heap := x\<rparr>) = f s) \<and>
     (\<forall>x y. f (s\<lparr>t_heap := x, t_current := y\<rparr>) = f s) \<and> (\<forall>x y z. f (s\<lparr>t_heap := x, t_next := y, t_current := z\<rparr>) = f s))"

lemma leaves_get_tm [leave_intros]: "leaves f (get_tm r)"
  unfolding get_tm_def by (intro leave_intros)

lemma leaves_manager [leave_intros]:
  assumes "manager_blind f"
  shows "leaves f (upd_tm r g)" "leaves f (set_phase r p)" "leaves f (set_class r c)"
    "leaves f (new_TransactionManager i c)" "leaves f (delete_tm r)"
proof -
  have d: "f (s\<lparr>t_heap := x\<rparr>) = f s" "f (s\<lparr>t_heap := x, t_current := y\<rparr>) = f s"
    "f (s\<lparr>t_heap := x, t_next := z, t_current := y\<rparr>) = f s" for s x y z
    using assms by (simp_all add: manager_blind_def)
  show u: "leaves f (upd_tm r g)" for g
    unfolding upd_tm_def by (intro leave_intros leaves_modify) (simp add: d)
  show "leaves f (set_phase r p)" "leaves f (set_class r c)" unfolding set_phase_def set_class_def by (rule u)+
  show "leaves f (new_TransactionManager i c)" "leaves f (delete_tm r)"
    unfolding new_TransactionManager_def delete_tm_def by (intro leave_intros leaves_modify; simp add: d)+
qed

section \<open>Parts of the state\<close>

lemmas blind_defs = db_blind_def book_blind_def order_blind_def contract_blind_def send_blind_def manager_blind_def

lemma blind_managers [simp]:
  "db_blind t_heap" "book_blind t_heap" "order_blind t_heap" "contract_blind t_heap" "send_blind t_heap"
  "db_blind t_current" "book_blind t_current" "order_blind t_current" "contract_blind t_current" "send_blind t_current"
  "db_blind t_next" "book_blind t_next" "order_blind t_next" "contract_blind t_next" "send_blind t_next"
  by (simp_all add: blind_defs)

lemma blind_contracts [simp]:
  "db_blind k_heap" "book_blind k_heap" "order_blind k_heap" "send_blind k_heap" "manager_blind k_heap"
  "db_blind k_next" "book_blind k_next" "order_blind k_next" "send_blind k_next" "manager_blind k_next"
  by (simp_all add: blind_defs)

lemma blind_orders [simp]:
  "db_blind b_heap" "book_blind b_heap" "contract_blind b_heap" "send_blind b_heap" "manager_blind b_heap"
  "db_blind b_book" "contract_blind b_book" "send_blind b_book" "manager_blind b_book" "order_blind b_book"
  by (simp_all add: blind_defs)

section \<open>Orders that arrive\<close>

lemma leaves_orders [leave_intros]:
  assumes "book_blind f" and "order_blind f"
  shows "leaves f (OrderBook_processOrder E sd r)" "leaves f (OrderBook_timeoutOrders E sd)"
    "leaves f (OrderBook_setCurrency E sd c)"
proof -
  have d: "db_blind f" using assms(1) by (simp add: book_blind_def)
  have b: "leaves f (upd_book sd g)" for g
    unfolding upd_book_def using assms(1) by (intro leaves_modify) (simp add: book_blind_def)
  show "leaves f (OrderBook_processOrder E sd r)" "leaves f (OrderBook_timeoutOrders E sd)"
    "leaves f (OrderBook_setCurrency E sd c)"
    unfolding OrderBook_processOrder_def processOrder_update_def order_stale_def Let_def
      OrderBook_timeoutOrders_def timeout_one_def OrderBook_setCurrency_def
    by (intro leave_intros assms d b)+
qed

lemma leaves_handleOrder [leave_intros]:
  fixes f :: "'z svcw_scheme \<Rightarrow> 'v"
  assumes "book_blind f" and "order_blind f" and "send_blind f" and "\<And>s x. f (s\<lparr>n_router := x\<rparr>) = f s"
  shows "leaves f (handleOrder E p ord)"
proof -
  have d: "db_blind f" using assms(1) by (simp add: book_blind_def)
  show "leaves f (handleOrder E p ord)"
    unfolding handleOrder_def by (intro leave_intros leaves_modify assms d)
qed

end
