(* ===== verification/Dialog.thy ===== *)
theory Dialog
  imports Frames
begin

text \<open>
  \<^verbatim>\<open>src/ZeroReserveDialog.cpp\<close>, the main page, with \<^verbatim>\<open>src/CurrentTxList.cpp\<close>,
  \<^verbatim>\<open>src/dbconfig.cpp\<close> and \<^verbatim>\<open>ZeroReservePlugin::stop\<close>: what the user starts. Widgets are the texts
  they hold; an operation returns the text of the box it opens, if it opens one.
\<close>

section \<open>Orders\<close>

definition ZeroReserveDialog_doOrder :: "ext \<Rightarrow> string \<Rightarrow> side \<Rightarrow> OrderType \<Rightarrow> ZR_Number \<Rightarrow> ZR_Number
    \<Rightarrow> ('z svcw_scheme, string option) prog" where
  "ZeroReserveDialog_doOrder E currencyName bk typ price amount =
     (if amount \<le> 0 \<or> price \<le> 0 then ret (Some ''Amount and Price must be greater than zero'')
      else
        bnd (getCurrencyByName E currencyName) (\<lambda>currency.
        bnd (gets w_now) (\<lambda>now.
        bnd (alloc_order (Order_setOrderId E (new_Order True [] typ amount price currency now NEW))) (\<lambda>r.
        bnd (if typ = ASK then rpc_call (\<lambda>n. Some (x_order_address E n amount)) else ret None) (\<lambda>addr. case addr of
            None \<Rightarrow> bnd (OrderBook_processMyOrder E bk r) (\<lambda>_. ret None)
          | Some btcAddr \<Rightarrow>
              thn (upd_order r (\<lambda>x. x\<lparr>o_btcAddr := btcAddr\<rparr>))
              (if btcAddr = [] then thn (placeMsg ''Cannot place order'') (thn (delete_order r) (ret None))
               else bnd (OrderBook_processMyOrder E bk r) (\<lambda>_. ret None)))))))"

text \<open>The first currency selector leaves Bitcoin out; its text is \<open>currencyName\<close>.\<close>

definition ZeroReserveDialog_addBid :: "ext \<Rightarrow> string \<Rightarrow> string \<Rightarrow> string \<Rightarrow> ('z svcw_scheme, string option) prog" where
  "ZeroReserveDialog_addBid E currencyName price amount =
     (if price = [] \<or> amount = [] then ret None
      else bnd (lift (fromDecimalString price)) (\<lambda>p. bnd (lift (fromDecimalString amount)) (\<lambda>a.
        ZeroReserveDialog_doOrder E currencyName Bids BID p a)))"

definition ZeroReserveDialog_addAsk :: "ext \<Rightarrow> string \<Rightarrow> string \<Rightarrow> string \<Rightarrow> ('z svcw_scheme, string option) prog" where
  "ZeroReserveDialog_addAsk E currencyName price amount =
     (if price = [] \<or> amount = [] then ret None
      else bnd (lift (fromDecimalString price)) (\<lambda>p. bnd (lift (fromDecimalString amount)) (\<lambda>a.
        ZeroReserveDialog_doOrder E currencyName Asks ASK p a)))"

definition ZeroReserveDialog_cancelOrder :: "ext \<Rightarrow> nat option \<Rightarrow> ('z svcw_scheme, unit) prog" where
  "ZeroReserveDialog_cancelOrder E selected =
     (case selected of None \<Rightarrow> ret () | Some row \<Rightarrow> MyOrders_cancelOrder E row)"

text \<open>Choosing in the first selector, which is connected to the two books and the own orders.\<close>

definition ZeroReserveDialog_selectCurrency :: "ext \<Rightarrow> string \<Rightarrow> ('z bookw_scheme, unit) prog" where
  "ZeroReserveDialog_selectCurrency E currency =
     thn (OrderBook_setCurrency E Bids currency)
    (thn (OrderBook_setCurrency E Asks currency) (OrderBook_setCurrency E Mine currency))"

section \<open>What the page shows\<close>

definition ZeroReserveDialog_loadGrandTotal :: "ext \<Rightarrow> string \<Rightarrow> ('z dbw_scheme, GrandTotal) prog" where
  "ZeroReserveDialog_loadGrandTotal E currencyName =
     bnd (getCurrencyByName E currencyName) (\<lambda>csym. bnd (symbol_of E csym) (loadGrandTotal E))"

text \<open>
  The lines of the history, each with the time it starts with, as commits add them. A log that
  cannot be read is shown as an empty one.
\<close>

definition ZeroReserveDialog_loadTxLog :: "ext \<Rightarrow> ('z dbw_scheme, (int \<times> string) list) prog" where
  "ZeroReserveDialog_loadTxLog E =
     bnd (try_catch catch_exception (loadTxLog E) (\<lambda>e. ret [])) (\<lambda>txList.
       ret (map (\<lambda>i. (1000 * ti_timestamp i, '' : '' @ ti_currency i @ '' : '' @
              toDecimalStdString E (ti_amount i))) txList))"

definition wallet_status :: "BtcInfo option \<Rightarrow> (nat \<times> ZR_Number) option" where
  "wallet_status info = map_option (\<lambda>i. (bi_connections i, bi_balance i)) info"

definition ZeroReserveDialog_setWalletStatus :: "ext \<Rightarrow> ('z world_scheme, (nat \<times> ZR_Number) option) prog" where
  "ZeroReserveDialog_setWalletStatus E = bnd (rpc_call (x_btc_info E)) (\<lambda>info. ret (wallet_status info))"

text \<open>Selecting a row of the history makes the view reload the totals.\<close>

definition ZeroReserveDialog_janitor :: "ext \<Rightarrow> string
    \<Rightarrow> ('z dbw_scheme, string list \<times> GrandTotal \<times> (nat \<times> ZR_Number) option) prog" where
  "ZeroReserveDialog_janitor E currencyName =
     bnd displayMsg (\<lambda>boxes. bnd (ZeroReserveDialog_loadGrandTotal E currencyName) (\<lambda>gt.
     bnd (ZeroReserveDialog_setWalletStatus E) (\<lambda>st. ret (boxes, gt, st))))"

record tx_row =
  tx_btcTxId :: string
  tx_counterparty :: string
  tx_fiat :: ZR_Number
  tx_currency :: string
  tx_price :: ZR_Number
  tx_party :: string
  tx_creation :: int

definition tx_row_of :: "ext \<Rightarrow> BtcContract \<Rightarrow> tx_row" where
  "tx_row_of E k = \<lparr>tx_btcTxId = k_btcTxId k, tx_counterparty = x_peer_name E (k_counterParty k),
     tx_fiat = getFiatAmount k, tx_currency = k_currencySym k, tx_price = k_price k,
     tx_party = (if SENDER = k_party k then ''Payer'' else ''Payee''),
     tx_creation = k_creationtime k\<rparr>"

text \<open>Every contract goes into a new first row.\<close>

fun insert_rows :: "ext \<Rightarrow> cref list \<Rightarrow> tx_row list \<Rightarrow> ('z conw_scheme, tx_row list) prog" where
  "insert_rows E [] rows = ret rows"
| "insert_rows E (r # rs) rows = bnd (get_contract r) (\<lambda>k. insert_rows E rs (tx_row_of E k # rows))"

definition CurrentTxList :: "ext \<Rightarrow> ('z conw_scheme, tx_row list) prog" where
  "CurrentTxList E = bnd (gets k_contracts) (\<lambda>rs. insert_rows E rs [])"

text \<open>The new path is what the file dialogue returns, empty when it was left.\<close>

definition DBConfig_editTxLog :: "ext \<Rightarrow> string \<Rightarrow> ('z dbw_scheme, unit) prog" where
  "DBConfig_editTxLog E newPath =
     bnd (getConfig E ''TXLOGPATH'') (\<lambda>txLogPath.
       if newPath = [] then ret () else updateConfig E ''TXLOGPATH'' newPath)"

section \<open>Start and end\<close>

datatype started = Running "string option" | Exited string

text \<open>
  The constructor of the page, which RetroShare makes after the service: the orders are loaded
  before the books have a currency. A Bitcoin client of the other network ends the process.
\<close>

definition new_ZeroReserveDialog :: "ext \<Rightarrow> ('z tmw_scheme, started) prog" where
  "new_ZeroReserveDialog E =
     (let currencyName = currencyNames (x_build E) ! 0 in
      thn (modify (\<lambda>w. w\<lparr>w_txLogView := Some []\<rparr>))
      (bnd (MyOrders_init E) (\<lambda>v.
       thn (OrderBook_setCurrency E Bids currencyName)
       (thn (OrderBook_setCurrency E Asks currencyName)
       (thn (OrderBook_setCurrency E Mine currencyName)
       (bnd (ZeroReserveDialog_loadGrandTotal E currencyName) (\<lambda>_.
        bnd (ZeroReserveDialog_loadTxLog E) (\<lambda>txLines.
        thn (modify (\<lambda>w. w\<lparr>w_txLogView := Some txLines\<rparr>))
        (thn (loadBtcContracts E)
        (bnd (rpc_call (x_btc_info E)) (\<lambda>info.
           let warned = (if v = ZR_FAILURE
                 then Some ''Could not load my Orders. Suggest exiting RS and fix the problem'' else None) in
           case info of
             None \<Rightarrow> ret (Running warned)
           | Some i \<Rightarrow>
               if bi_testnet i \<and> x_build E = Prodnet
               then ret (Exited ''Zero Reserve is PRODNET, Bitcoin client is TESTNET. Exiting'')
               else if \<not> bi_testnet i \<and> x_build E = Testnet
               then ret (Exited ''Zero Reserve is TESTNET, Bitcoin client is PRODNET. Exiting'')
               else ret (Running warned))))))))))))"

text \<open>Closing the database twice is avoided; stopping the Bitcoin client does nothing.\<close>

definition ZeroReservePlugin_stop :: "('z nodew_scheme, unit) prog" where
  "ZeroReservePlugin_stop =
     bnd (gets n_stopped) (\<lambda>stopped. whn (\<not> stopped) (modify (\<lambda>w. w\<lparr>n_stopped := True\<rparr>)))"

end
