(* ===== verification/Runs.thy ===== *)
theory Runs
  imports Dialog
begin

text \<open>
  The runs of a node: what RetroShare and the user do to it, as events, and the states a sequence
  of events reaches. The locale \<open>kept_by_steps\<close> is the contract between an invariant on what a
  node holds (its tables, its contracts, its transaction managers) and the operations: an
  invariant that the few operations keep which change these is kept by every handler of the
  program. \<open>kept_by_node\<close> adds the database transactions, and with them the periodic work and
  every event; \<open>kept_by_core\<close> is the case of an invariant that does not look at the tables, and
  \<open>run_invariant\<close> adds the state in which a node starts.
\<close>

section \<open>Rules\<close>

lemma keeps_option [keep_intros]:
  "keeps I a \<Longrightarrow> (\<And>x. keeps I (b x)) \<Longrightarrow> keeps I (case v of None \<Rightarrow> a | Some x \<Rightarrow> b x)"
  by (simp split: option.split)

lemma keeps_case_prod [keep_intros]: "(\<And>x y. keeps I (g x y)) \<Longrightarrow> keeps I (case p of (x, y) \<Rightarrow> g x y)"
  by (simp split: prod.split)

lemma keeps_list_rows [keep_intros]: "(\<And>x. keeps I (g x)) \<Longrightarrow> keeps I (list_rows g xs acc)"
  by (induction xs arbitrary: acc) (auto intro: keep_intros)

text \<open>The class of the object behind the pointer to a transaction manager.\<close>

fun class_name :: "tm_class \<Rightarrow> string" where
  "class_name (TmLocalCoordinator p) = ''TmLocalCoordinator''"
| "class_name (TmLocalCohorte p) = ''TmLocalCohorte''"
| "class_name (TmContractCoordinator a b c) = ''TmContractCoordinator''"
| "class_name (TmContractCohortePayee a b c) = ''TmContractCohortePayee''"
| "class_name (TmContractCohorteHop a b) = ''TmContractCohorteHop''"

text \<open>The part of the state that an invariant may look at, and the part of it outside the tables.\<close>

definition core :: "'z tmw_scheme \<Rightarrow>
    (cref \<rightharpoonup> BtcContract) \<times> nat \<times> cref list \<times> (tref \<rightharpoonup> tm) \<times> nat \<times> (TransactionId \<times> tref) list" where
  "core s = (k_heap s, k_next s, k_contracts s, t_heap s, t_next s, t_current s)"

definition holdings :: "'z tmw_scheme \<Rightarrow> tables \<times> tables option \<times>
    (cref \<rightharpoonup> BtcContract) \<times> nat \<times> cref list \<times> (tref \<rightharpoonup> tm) \<times> nat \<times> (TransactionId \<times> tref) list" where
  "holdings s = (db_tables s, db_saved s, core s)"

lemma blind_core [simp]: "db_blind core" "book_blind core" "order_blind core" "send_blind core"
  by (simp_all add: blind_defs core_def)

lemma blind_holdings [simp]: "order_blind holdings" "send_blind holdings"
  by (simp_all add: blind_defs holdings_def core_def)

lemma holdings_core: "holdings t = holdings s \<Longrightarrow> core t = core s"
  by (simp add: holdings_def)

lemma holdings_simps [simp]:
  "holdings (s\<lparr>n_router := x\<rparr>) = holdings s" "holdings (s\<lparr>s_raw := y\<rparr>) = holdings s"
  "holdings (s\<lparr>s_initialized := z\<rparr>) = holdings s" "holdings (s\<lparr>s_received := q\<rparr>) = holdings s"
  "holdings (s\<lparr>s_lastCleanup := c\<rparr>) = holdings s" "holdings (s\<lparr>t_sequence := n\<rparr>) = holdings s"
  "holdings (s\<lparr>w_txLogView := v\<rparr>) = holdings s" "holdings (s\<lparr>w_messages := m\<rparr>) = holdings s"
  "holdings (s\<lparr>w_now := i\<rparr>) = holdings s" "holdings (s\<lparr>w_online := ps\<rparr>) = holdings s"
  "holdings (s\<lparr>w_rpc := j\<rparr>) = holdings s" "holdings (tick s) = holdings s" "holdings (s\<lparr>db_txlog := l\<rparr>) = holdings s"
  "holdings (s\<lparr>b_book := b\<rparr>) = holdings s" "holdings (u\<lparr>n_stopped := d\<rparr>) = holdings u"
  by (simp_all add: holdings_def core_def)

section \<open>The operations that keep an invariant\<close>

text \<open>
  \<open>allowed r c\<close> says that the invariant lets the manager at \<open>r\<close> have the fields of \<open>c\<close>; it depends
  on the class only.
\<close>

abbreviation enlisted :: "BtcContract \<Rightarrow> ('z conw_scheme, cref) prog" where
  "enlisted k \<equiv> bnd (gets k_next) (\<lambda>r. thn (modify (\<lambda>w. w\<lparr>k_heap := (k_heap w)(r \<mapsto> k),
     k_next := Suc r, k_contracts := k_contracts w @ [r]\<rparr>)) (ret r))"

locale kept_by_steps =
  fixes E :: ext and I :: "'z tmw_scheme \<Rightarrow> bool" and allowed :: "tref \<Rightarrow> tm_class \<Rightarrow> bool"
  assumes frame: "I s \<Longrightarrow> holdings t = holdings s \<Longrightarrow> I t"
    and peer_rows: "keeps I (createPeerRecord E c)" "keeps I (updatePeerCredit E c col v)" "keeps I (deletePeerRecord E p sy)"
    and other_rows: "keeps I (ZrDB_addOrder E ord)" "keeps I (updateOrder E ord)" "keeps I (deleteOrder E ord)"
      "keeps I (addBtcContract E k)" "keeps I (rmBtcContract E i n)" "keeps I (updateConfig E key val)"
    and contracts: "keeps I (enlisted k)" "keeps I (upd_contract k_r g)" "keeps I (drop_contract k_r)"
    and managers: "keeps I (new_TransactionManager i cl)" "keeps I (set_phase r ph)" "keeps I (delete_tm r)"
    and set_class: "allowed r cl \<Longrightarrow> keeps I (set_class r cl)"
    and allowed_class: "class_name cl = class_name cl' \<Longrightarrow> allowed r cl \<Longrightarrow> allowed r cl'"
    and allowed_new: "I s \<Longrightarrow> allowed (t_next s) cl"
    and allowed_live: "I s \<Longrightarrow> t_heap s r = Some x \<Longrightarrow> allowed r (tm_class x)"
begin

lemma keeps_frame: "leaves holdings m \<Longrightarrow> keeps I m"
  unfolding keeps_def leaves_def by (blast intro: frame)

lemma keeps_outside: "(\<And>s. holdings (g s) = holdings s) \<Longrightarrow> keeps I (modify g)"
  by (intro keeps_frame leaves_modify)

lemmas keeps_steps [keep_intros] = peer_rows other_rows contracts managers set_class

lemma keeps_get_tm:
  "(\<And>t. allowed r (tm_class t) \<Longrightarrow> keeps I (f t)) \<Longrightarrow> keeps I (bnd (get_tm r) f)"
  using allowed_live by (fastforce simp: keeps_def bnd_def get_tm_def deref_def split: option.splits)

lemma keeps_new_tm:
  assumes "\<And>r. allowed r cl \<Longrightarrow> keeps I (f r)"
  shows "keeps I (bnd (new_TransactionManager i cl) f)"
proof (rule keepsI)
  fix s assume s: "I s"
  obtain t where t: "new_TransactionManager i cl s = (Inr (t_next s), t)"
    by (simp add: new_TransactionManager_def prog_defs)
  show "I (snd (bnd (new_TransactionManager i cl) f s))"
    using keepsD [OF managers(1) s t] assms [OF allowed_new [OF s]] by (simp add: bnd_def t keeps_snd)
qed

subsection \<open>Statements and messages\<close>

lemma keeps_world [keep_intros]: "keeps I (placeMsg m)" "keeps I (rpc_call g)" "keeps I displayMsg"
  unfolding placeMsg_def rpc_call_def displayMsg_def by (intro keep_intros keeps_outside; simp)+

lemma keeps_select [keep_intros]: "keeps I (sql_statement F sp err)" "keeps I (sql_select F sp err h)"
proof -
  show q: "keeps I (sql_statement F sp err)" for F sp err
    by (rule keeps_sql_statement, rule frame) simp_all
  show "keeps I (sql_select F sp err h)" unfolding sql_select_def by (intro keep_intros q)
qed

lemma keeps_currency [keep_intros]:
  "keeps I (getCurrencyBySymbol E cs)" "keeps I (getCurrencyByName E cs)" "keeps I (symbol_of E j)" "keeps I (new_Credit E p cs)"
  unfolding getCurrencyBySymbol_def getCurrencyByName_def symbol_of_def new_Credit_def by (intro keep_intros)+

lemma keeps_reads [keep_intros]:
  "keeps I (ZrDB_loadPeer E c)" "keeps I (ZrDB_loadPeers E p)" "keeps I (peerExists E c)" "keeps I (loadOrders E)"
  "keeps I (getConfig E key)" "keeps I (loadGrandTotal E cs)" "keeps I (loadTxLog E)" "keeps I (select_btccontracts E)"
  unfolding ZrDB_loadPeer_def ZrDB_loadPeers_def addPeerCredit_def peerExists_def loadOrders_def orders_callback_def
    getConfig_def loadGrandTotal_def loadTxLog_def select_btccontracts_def
  by (intro keep_intros)+

lemma keeps_credit [keep_intros]:
  "keeps I (getCreditList E p)" "keeps I (Credit_loadPeer E c)" "keeps I (Credit_allocate E v c)" "keeps I (Credit_deallocate E v c)"
  "keeps I (Credit_updateCredit E c)" "keeps I (Credit_updateOurCredit E c)"
  unfolding getCreditList_def Credit_loadPeer_def Credit_allocate_def Credit_deallocate_def
    Credit_updateCredit_def Credit_updateOurCredit_def Let_def
  by (intro keep_intros)+

lemma keeps_payment [keep_intros]:
  "keeps I (new_Payment E cls p v cs cat)" "keeps I (InitTxItem_getPayment E p pay)" "keeps I (Payment_commit E pay)"
proof -
  have l: "keeps I (appendTx E u cs v)" "keeps I (log_view E cs v sg)" for u cs v sg
    unfolding appendTx_def log_view_def by (intro keep_intros keeps_outside; simp)+
  show "keeps I (new_Payment E cls p v cs cat)" "keeps I (InitTxItem_getPayment E p pay)"
    unfolding new_Payment_def InitTxItem_getPayment_def Payment_setCounterparty_def by (intro keep_intros)+
  show "keeps I (Payment_commit E pay)"
    unfolding Payment_commit_def PaymentReceiver_commit_def PaymentSpender_commit_def Let_def
    by (cases "p_class pay"; simp; intro keep_intros l)
qed

subsection \<open>Orders\<close>

lemma keeps_order_objects [keep_intros]:
  "keeps I (get_order o_r)" "keeps I (upd_order o_r f)" "keeps I (delete_order o_r)" "keeps I (alloc_order ord)"
  "keeps I (find_ref q rs)" "keeps I (OrderBook_find sd i)" "keeps I (filterOrders E sd j)"
  by (intro keeps_frame leave_intros; simp)+

lemma keeps_books [keep_intros]:
  "keeps I (refilter E sd)" "keeps I (OrderBook_addOrder E sd o_r)" "keeps I (OrderBook_remove E sd i)"
  "keeps I (OrderBook_setCurrency E sd cs)"
proof -
  have b: "keeps I (upd_book sd g)" for sd g unfolding upd_book_def by (intro keeps_outside) simp
  show r: "keeps I (refilter E sd)" for sd unfolding refilter_def by (intro keep_intros b)
  show "keeps I (OrderBook_addOrder E sd o_r)" "keeps I (OrderBook_remove E sd i)" "keeps I (OrderBook_setCurrency E sd cs)"
    unfolding OrderBook_addOrder_def OrderBook_remove_def OrderBook_setCurrency_def by (intro keep_intros b r)+
qed

lemma keeps_processOrder [keep_intros]: "keeps I (OrderBook_processOrder E sd o_r)" "keeps I (OrderBook_timeoutOrders E sd)"
  unfolding OrderBook_processOrder_def processOrder_update_def order_stale_def Let_def
    OrderBook_timeoutOrders_def timeout_one_def
  by (intro keep_intros)+

subsection \<open>The service\<close>

lemma keeps_send [keep_intros]:
  "keeps I (sendItem p it)" "keeps I (sendOrder p o_r)" "keeps I (send_tx p ph i)" "keeps I (send_remote p a ph d pid pl)"
  "keeps I (sendCredit c)" "keeps I (sendOrderBook p)"
  unfolding sendOrderBook_def by (intro keep_intros keeps_frame leave_intros; simp)+

lemma keeps_publish [keep_intros]: "keeps I (publishOrder E o_r origin)" "keeps I (Credit_publish c)"
  unfolding publishOrder_def publish_to_def Credit_publish_def by (intro keep_intros)+

lemma keeps_own_orders [keep_intros]: "keeps I (OrderBook_processMyOrder E sd o_r)" "keeps I (MyOrders_cancelOrder E n)"
  unfolding OrderBook_processMyOrder_def MyOrders_cancelOrder_def Let_def by (intro keep_intros)+

lemma keeps_messages [keep_intros]:
  "keeps I (handleMessage p t)" "keeps I (handleOrder E p ord)" "keeps I (handleCredit E p c)" "keeps I (statusChange E ps)"
proof -
  show "keeps I (handleMessage p t)"
    unfolding handleMessage_def by (cases t) (auto intro!: keep_intros keeps_outside)
  show "keeps I (handleOrder E p ord)" "keeps I (handleCredit E p c)"
    unfolding handleOrder_def handleCredit_def Let_def by (intro keep_intros keeps_outside; simp)+
  have "keeps I (send_credits E ps)"
  proof (induction ps)
    case (Cons p ps)
    then show ?case by (cases p) (simp add: keep_intros)
  qed (simp add: keep_intros)
  then show "keeps I (statusChange E ps)"
    unfolding statusChange_def requestOrderBook_def by (intro keep_intros)
qed

subsection \<open>Contracts\<close>

lemma keeps_get [keep_intros]: "keeps I (get_contract k_r)" "keeps I (find_contract q ks)" "keeps I (get_tm r)"
  by (intro keeps_frame leave_intros)+

lemma keeps_contract [keep_intros]:
  "keeps I (new_BtcContract E b fee pr cs pa cp ct)" "keeps I (deallocateFunds E k v)" "keeps I (persist E k_r)"
  "keeps I (setBtcAmount E k_r b)" "keeps I (activate k_r)" "keeps I (setBtcAddress k_r a)" "keeps I (setBtcTxId k_r i)"
  "keeps I (rmContract E k_r)"
proof -
  have f: "keeps I (receiver_funds E b fee pr cs cp)" unfolding receiver_funds_def Let_def by (intro keep_intros)
  show "keeps I (new_BtcContract E b fee pr cs pa cp ct)"
    unfolding new_BtcContract_def
    by (rule keeps_bnd [OF keeps_gets], rule keeps_bnd, intro keeps_if keeps_ret f, rule contracts)
  show d: "keeps I (deallocateFunds E k v)" for k v unfolding deallocateFunds_def by (intro keep_intros)
  show "keeps I (persist E k_r)" "keeps I (setBtcAmount E k_r b)" "keeps I (activate k_r)" "keeps I (setBtcAddress k_r a)"
    "keeps I (setBtcTxId k_r i)" "keeps I (rmContract E k_r)"
    unfolding persist_def setBtcAmount_def activate_def setBtcAddress_def setBtcTxId_def rmContract_def Let_def
    by (intro keep_intros d)+
qed

subsection \<open>Managers\<close>

lemma keeps_buyer [keep_intros]:
  "keeps I (TmContractCoordinator_abortTx a b)" "keeps I (TmContractCoordinator_rollback E a c)"
  "keeps I (TmContractCoordinator_init E a b c)"
  unfolding TmContractCoordinator_abortTx_def TmContractCoordinator_rollback_def TmContractCoordinator_init_def Let_def
  by (intro keep_intros)+

lemma keeps_buyer_items:
  assumes "allowed r (TmContractCoordinator a b c)"
  shows "keeps I (TmContractCoordinator_processItem E r i a b c it)"
proof -
  have al: "allowed r (TmContractCoordinator x y z)" for x y z by (rule allowed_class [OF _ assms]) simp
  have st: "keeps I (coordinator_settle E r i a o_r k_r n)" for o_r k_r n
    unfolding coordinator_settle_def Let_def by (intro keep_intros al)
  have "keeps I (TmContractCoordinator_doTx E r i a b c it)"
    unfolding TmContractCoordinator_doTx_def Let_def by (intro keep_intros st)
  then show ?thesis
    unfolding TmContractCoordinator_processItem_def Let_def by (cases "rx_phase it") (auto intro!: keep_intros)
qed

lemma keeps_new_buyer [keep_intros]: "keeps I (new_TmContractCoordinator E a o_r n)"
proof -
  have "allowed r (TmContractCoordinator x y z) \<Longrightarrow> allowed r (TmContractCoordinator x y (Some k))" for r x y z k
    by (rule allowed_class [of "TmContractCoordinator x y z"]) simp_all
  note al = set_class [OF this]
  show ?thesis
    unfolding new_TmContractCoordinator_def Let_def
    by (rule keeps_bnd [OF keeps_order_objects(1)], rule keeps_bnd [OF keeps_order_objects(1)], rule keeps_new_tm, intro al keep_intros)
qed

lemma keeps_payee [keep_intros]:
  "keeps I (TmContractCohortePayee_rollback E a b)" "keeps I (TmContractCohortePayee_abortTx r b it)"
  "keeps I (TmContractCohortePayee_voteNo o_r it)" "keeps I (payee_commitment E o_r k_r x y)"
  unfolding TmContractCohortePayee_rollback_def TmContractCohortePayee_abortTx_def TmContractCohortePayee_voteNo_def
    payee_commitment_def
  by (intro keep_intros)+

lemma keeps_payee_items:
  assumes "allowed r (TmContractCohortePayee a h b)"
  shows "keeps I (TmContractCohortePayee_processItem E r t a h b it)"
proof -
  have al: "allowed r (TmContractCohortePayee x y z)" for x y z by (rule allowed_class [OF _ assms]) simp
  have st: "keeps I (payee_settle E i o_r x h)" for i o_r x
    unfolding payee_settle_def Let_def by (intro keep_intros keeps_outside) simp_all
  have v: "keeps I (payee_vote E r o_r k_r x d it)" for o_r k_r x d
    unfolding payee_vote_def by (intro keep_intros al)
  have "keeps I (TmContractCohortePayee_doQuery E r t a h b it)" "keeps I (TmContractCohortePayee_doCommit E r t a h b it)"
    unfolding TmContractCohortePayee_doQuery_def TmContractCohortePayee_doCommit_def Let_def
    by (intro keep_intros st v al)+
  then show ?thesis
    unfolding TmContractCohortePayee_processItem_def by (cases "rx_phase it") (auto intro!: keep_intros)
qed

lemma keeps_hop [keep_intros]:
  "keeps I (TmContractCohorteHop_rollback E a b)" "keeps I (TmContractCohorteHop_abortTx r it)"
  "keeps I (TmContractCohorteHop_voteNo it)" "keeps I (forwardItem it pl)" "keeps I (mkTunnel it)"
  unfolding TmContractCohorteHop_rollback_def TmContractCohorteHop_abortTx_def TmContractCohorteHop_voteNo_def
    forwardItem_def mkTunnel_def
  by (intro keep_intros keeps_outside; simp)+

lemma keeps_hop_items:
  assumes "allowed r (TmContractCohorteHop a b)"
  shows "keeps I (TmContractCohorteHop_processItem E r t a b it)"
proof -
  have al: "allowed r (TmContractCohorteHop x y)" for x y by (rule allowed_class [OF _ assms]) simp
  have "keeps I (TmContractCohorteHop_doQuery E r t it)" "keeps I (TmContractCohorteHop_doVote E r t a b it)"
    "keeps I (TmContractCohorteHop_doCommit E r t a b it)"
    unfolding TmContractCohorteHop_doQuery_def TmContractCohorteHop_doVote_def TmContractCohorteHop_doCommit_def Let_def
    by (intro keep_intros al)+
  then show ?thesis
    unfolding TmContractCohorteHop_processItem_def by (cases "rx_phase it") (auto intro!: keep_intros)
qed

lemma keeps_payments [keep_intros]:
  "keeps I (TmLocalCoordinator_processItem E i p ph)" "keeps I (TmLocalCoordinator_init i p)"
  "keeps I (new_TmLocalCoordinator E p)" "keeps I (new_TmLocalCohorte i)"
proof -
  show "keeps I (TmLocalCoordinator_processItem E i p ph)"
    unfolding TmLocalCoordinator_processItem_def by (cases ph) (auto intro!: keep_intros)
  show "keeps I (TmLocalCoordinator_init i p)" "keeps I (new_TmLocalCohorte i)"
    unfolding TmLocalCoordinator_init_def new_TmLocalCohorte_def by (intro keep_intros)+
  show "keeps I (new_TmLocalCoordinator E p)"
    unfolding new_TmLocalCoordinator_def TmLocalCoordinator_mkId_def by (intro keep_intros keeps_outside) simp
qed

lemma keeps_cohorte_items:
  assumes "allowed r (TmLocalCohorte m)"
  shows "keeps I (TmLocalCohorte_processItem E r t m peer ph q)"
proof -
  have al: "allowed r (TmLocalCohorte x)" for x by (rule allowed_class [OF _ assms]) simp
  have a: "keeps I (TmLocalCohorte_abortTx i m)" "keeps I (TmLocalCohorte_init i p)" for i m p
    unfolding TmLocalCohorte_abortTx_def TmLocalCohorte_init_def by (intro keep_intros)+
  show ?thesis
    unfolding TmLocalCohorte_processItem_def by (cases ph; cases q) (auto intro!: keep_intros a al)
qed

lemma keeps_process [keep_intros]:
  "keeps I (process_remote E r it)" "keeps I (process_local E r peer ph q)" "keeps I (tm_rollback E r)"
  unfolding process_remote_def process_local_def tm_rollback_def wrong_item_def
  by (rule keeps_get_tm; auto split: tm_class.split
      intro!: keep_intros keeps_buyer_items keeps_payee_items keeps_hop_items keeps_cohorte_items)+

subsection \<open>The handlers\<close>

lemma keeps_handlers [keep_intros]:
  "keeps I (handleTxItem_remote E it)" "keeps I (handleTxItem_local E peer ph i q)" "keeps I (handle_packet E pk)"
proof -
  have f: "keeps I (finish_tm r v)" for r v unfolding finish_tm_def by (intro keep_intros)
  show r: "keeps I (handleTxItem_remote E it)" for it
    unfolding handleTxItem_remote_def Let_def by (intro keep_intros f)
  show l: "keeps I (handleTxItem_local E peer ph i q)" for peer ph i q
    unfolding handleTxItem_local_def by (intro keep_intros f)
  show "keeps I (handle_packet E pk)"
    by (cases "pk_item pk") (auto intro!: keep_intros r l)
qed

lemma keeps_buy [keep_intros]: "keeps I (MyOrders_buy E a o_r n)"
  unfolding MyOrders_buy_def by (intro keeps_bnd keep_intros) (simp split: tm_class.split add: keep_intros)

lemma keeps_match [keep_intros]: "keeps I (MyOrders_match E)"
proof -
  have "keeps I (match_asks E o_r asks n)" for o_r asks n
  proof (induction asks arbitrary: n)
    case (Cons x asks)
    then show ?case by (simp add: keep_intros)
  qed (simp add: keep_intros)
  then show ?thesis unfolding MyOrders_match_def MyOrders_match_one_def by (intro keep_intros)
qed

lemma keeps_timeout [keep_intros]: "keeps I (TransactionManager_timeout E)"
proof -
  have "keeps I (timeout_each E rs)" for rs
    by (induction rs) (simp_all add: keep_intros)
  then show ?thesis unfolding TransactionManager_timeout_def by (intro keep_intros)
qed

lemma keeps_incoming [keep_intros]: "keeps I (processIncoming E)"
  unfolding processIncoming_def by (intro keep_intros keeps_outside) simp

subsection \<open>The dialogues\<close>

lemma keeps_page [keep_intros]:
  "keeps I (ZeroReserveDialog_loadGrandTotal E cs)" "keeps I (ZeroReserveDialog_janitor E cs)"
  "keeps I (ZeroReserveDialog_selectCurrency E cs)" "keeps I (DBConfig_editTxLog E path)" "keeps I (MyOrders_init E)"
  "keeps I (ZeroReserveDialog_loadTxLog E)"
proof -
  show g: "keeps I (ZeroReserveDialog_loadGrandTotal E cs)" for cs
    unfolding ZeroReserveDialog_loadGrandTotal_def by (intro keep_intros)
  show "keeps I (ZeroReserveDialog_janitor E cs)"
    unfolding ZeroReserveDialog_janitor_def ZeroReserveDialog_setWalletStatus_def by (intro keep_intros g)
  show "keeps I (ZeroReserveDialog_selectCurrency E cs)" "keeps I (DBConfig_editTxLog E path)" "keeps I (ZeroReserveDialog_loadTxLog E)"
    unfolding ZeroReserveDialog_selectCurrency_def DBConfig_editTxLog_def ZeroReserveDialog_loadTxLog_def by (intro keep_intros)+
  have "keeps I (load_each E ords)" for ords
    by (induction ords) (simp_all add: keep_intros)
  then show "keeps I (MyOrders_init E)" unfolding MyOrders_init_def by (intro keep_intros)
qed

lemma keeps_trading [keep_intros]:
  "keeps I (ZeroReserveDialog_addBid E cs p a)" "keeps I (ZeroReserveDialog_addAsk E cs p a)"
  "keeps I (ZeroReserveDialog_cancelOrder E row)" "keeps I (FriendDetailsDialog_editFriend E q cs a)"
  "keeps I (FriendResetDialog_resetFriend E q b cs)" "keeps I (PaymentDialog_payTo E q cs a)"
  "keeps I (PaymentDialog_loadAvailableFunds E q cs)" "keeps I (FriendDetailsDialog_loadPeer E q cs)"
  unfolding ZeroReserveDialog_addBid_def ZeroReserveDialog_addAsk_def ZeroReserveDialog_doOrder_def
    ZeroReserveDialog_cancelOrder_def FriendDetailsDialog_editFriend_def FriendResetDialog_resetFriend_def
    PaymentDialog_payTo_def PaymentDialog_loadAvailableFunds_def FriendDetailsDialog_loadPeer_def Let_def
  by (intro keep_intros)+

end

text \<open>With the database transactions, the work on the contracts and everything that starts it.\<close>

locale kept_by_node = kept_by_steps E I allowed
  for E :: ext and I :: "'z tmw_scheme \<Rightarrow> bool" and allowed :: "tref \<Rightarrow> tm_class \<Rightarrow> bool" +
  assumes transactions: "keeps I (beginTx E)" "keeps I (commitTx E)" "keeps I (rollbackTx E)"
begin

lemmas keeps_transactions [keep_intros] = transactions

lemma keeps_contract_list [keep_intros]: "keeps I (pollContracts E)" "keeps I (loadBtcContracts E)"
  unfolding pollContracts_def contract_poll_def execute_def loadBtcContracts_def btccontracts_callback_def Let_def
  by (intro keep_intros)+

lemma keeps_janitor: "keeps I (janitor E)"
  unfolding janitor_def by (intro keep_intros keeps_outside) simp

lemma keeps_open_page [keep_intros]: "keeps I (new_ZeroReserveDialog E)"
  unfolding new_ZeroReserveDialog_def Let_def by (intro keep_intros keeps_outside) simp_all

end

text \<open>An invariant that looks at the contracts and the managers only.\<close>

locale kept_by_core =
  fixes E :: ext and I :: "'z tmw_scheme \<Rightarrow> bool" and allowed :: "tref \<Rightarrow> tm_class \<Rightarrow> bool"
  assumes core_frame: "I s \<Longrightarrow> core t = core s \<Longrightarrow> I t"
    and core_contracts: "keeps I (enlisted k)" "keeps I (upd_contract k_r g)" "keeps I (drop_contract k_r)"
    and core_managers: "keeps I (new_TransactionManager i cl)" "keeps I (set_phase r ph)" "keeps I (delete_tm r)"
    and core_set_class: "allowed r cl \<Longrightarrow> keeps I (set_class r cl)"
    and core_allowed: "class_name cl = class_name cl' \<Longrightarrow> allowed r cl \<Longrightarrow> allowed r cl'"
      "I s \<Longrightarrow> allowed (t_next s) cl" "I s \<Longrightarrow> t_heap s r = Some x \<Longrightarrow> allowed r (tm_class x)"
begin

lemma keeps_leaves_core: "leaves core m \<Longrightarrow> keeps I m"
  unfolding keeps_def leaves_def by (blast intro: core_frame)

end

sublocale kept_by_core \<subseteq> kept_by_node E I allowed
proof unfold_locales
  show "I s \<Longrightarrow> holdings t = holdings s \<Longrightarrow> I t" for s t by (erule core_frame, erule holdings_core)
  show "keeps I (deletePeerRecord E p sy)" "keeps I (updateConfig E key val)" for p sy key val
    unfolding deletePeerRecord_def updateConfig_def by (intro keeps_leaves_core leave_intros; simp)+
qed ((rule core_contracts core_managers | rule core_set_class core_allowed, assumption+ |
    rule keeps_leaves_core, intro leave_intros, rule blind_core)+)

section \<open>Runs of a node\<close>

text \<open>
  What happens to a node: packets arrive, time passes, friends come and go, RetroShare calls
  the periodic work or reports a change of status, and the user works with the dialogues. A
  dialogue holds a friend, the name of a currency and the texts that were typed.
\<close>

datatype event =
    Arrive "packet list"
  | Clock int
  | Friends "PeerAddress list"
  | Tick
  | Status "(PeerAddress \<times> bool) list"
  | Open_page
  | Page_timer string
  | Pay_to PeerAddress string string
  | Add_bid string string string
  | Add_ask string string string
  | Cancel_order "nat option"
  | Select_currency string
  | Select_total string
  | Show_funds PeerAddress string
  | Show_friend PeerAddress string
  | Edit_friend PeerAddress string string
  | Reset_friend PeerAddress bool string
  | Edit_txlog string
  | Stop

definition quietly :: "('s, 'a) prog \<Rightarrow> ('s, unit) prog" where
  "quietly m = bnd m (\<lambda>_. ret ())"

fun perform :: "ext \<Rightarrow> event \<Rightarrow> (nodew, unit) prog" where
  "perform E (Arrive pks) = modify (\<lambda>w. w\<lparr>s_received := s_received w @ pks\<rparr>)"
| "perform E (Clock now) = modify (\<lambda>w. w\<lparr>w_now := now\<rparr>)"
| "perform E (Friends ps) = modify (\<lambda>w. w\<lparr>w_online := ps\<rparr>)"
| "perform E Tick = node_tick E"
| "perform E (Status ps) = statusChange E ps"
| "perform E Open_page = quietly (new_ZeroReserveDialog E)"
| "perform E (Page_timer cur) = quietly (ZeroReserveDialog_janitor E cur)"
| "perform E (Pay_to p cur a) = PaymentDialog_payTo E p cur a"
| "perform E (Add_bid cur p a) = quietly (ZeroReserveDialog_addBid E cur p a)"
| "perform E (Add_ask cur p a) = quietly (ZeroReserveDialog_addAsk E cur p a)"
| "perform E (Cancel_order row) = ZeroReserveDialog_cancelOrder E row"
| "perform E (Select_currency cur) = ZeroReserveDialog_selectCurrency E cur"
| "perform E (Select_total cur) = quietly (ZeroReserveDialog_loadGrandTotal E cur)"
| "perform E (Show_funds p cur) = quietly (PaymentDialog_loadAvailableFunds E p cur)"
| "perform E (Show_friend p cur) = quietly (FriendDetailsDialog_loadPeer E p cur)"
| "perform E (Edit_friend p cur c) = quietly (FriendDetailsDialog_editFriend E p cur c)"
| "perform E (Reset_friend p all cur) = quietly (FriendResetDialog_resetFriend E p all cur)"
| "perform E (Edit_txlog path) = DBConfig_editTxLog E path"
| "perform E Stop = ZeroReservePlugin_stop"

definition fresh_node :: "nodew \<Rightarrow> bool" where
  "fresh_node s \<longleftrightarrow> b_heap s = Map.empty \<and> b_next s = 0 \<and>
     b_book s = (\<lambda>sd. \<lparr>m_orders = [], m_filteredOrders = [], m_currency = None\<rparr>) \<and>
     k_heap s = Map.empty \<and> k_next s = 0 \<and> k_contracts s = [] \<and> s_sent s = [] \<and> s_received s = [] \<and>
     t_heap s = Map.empty \<and> t_next s = 0 \<and> t_current s = [] \<and> \<not> n_stopped s"

text \<open>
  An exception no handler catches ends the process: only normal returns go on. A page that found the
  Bitcoin client on the other network ends it too; runs past that end are more than there are.
\<close>

inductive reachable :: "ext \<Rightarrow> nodew \<Rightarrow> bool" for E :: ext where
  start: "fresh_node s \<Longrightarrow> reachable E s"
| event: "reachable E s \<Longrightarrow> perform E ev s = (Inr (), t) \<Longrightarrow> reachable E t"

lemma keeps_quietly [keep_intros]: "keeps I m \<Longrightarrow> keeps I (quietly m)"
  unfolding quietly_def by (intro keep_intros)

text \<open>What follows from a state, and the two views of a run.\<close>

inductive runs :: "ext \<Rightarrow> nodew \<Rightarrow> nodew \<Rightarrow> bool" for E :: ext and s0 :: nodew where
  stay: "runs E s0 s0"
| step: "runs E s0 s \<Longrightarrow> perform E ev s = (Inr (), t) \<Longrightarrow> runs E s0 t"

lemma reachable_runs: "reachable E s \<longleftrightarrow> (\<exists>s0. fresh_node s0 \<and> runs E s0 s)"
proof
  show "reachable E s \<Longrightarrow> \<exists>s0. fresh_node s0 \<and> runs E s0 s"
    by (induction rule: reachable.induct) (blast intro: runs.intros)+
  have "runs E s0 s \<Longrightarrow> fresh_node s0 \<Longrightarrow> reachable E s" for s0
    by (induction rule: runs.induct) (blast intro: reachable.intros)+
  then show "\<exists>s0. fresh_node s0 \<and> runs E s0 s \<Longrightarrow> reachable E s" by blast
qed

text \<open>An invariant that the operations keep holds ever after; one that holds at the start, always.\<close>

locale node_invariant = kept_by_node E I allowed for E :: ext and I :: "nodew \<Rightarrow> bool" and allowed
begin

lemma perform_keeps: "keeps I (perform E ev)"
proof (cases ev)
  case Tick
  then show ?thesis by (simp only: perform.simps node_tick_def) (intro keep_intros keeps_janitor)
qed (auto intro!: keep_intros keeps_outside simp: ZeroReservePlugin_stop_def)

lemma runs_inv: "runs E s0 s \<Longrightarrow> I s0 \<Longrightarrow> I s"
  by (induction rule: runs.induct) (auto intro: keepsD [OF perform_keeps])

end

locale core_invariant = kept_by_core E I allowed for E :: ext and I :: "nodew \<Rightarrow> bool" and allowed

sublocale core_invariant \<subseteq> node_invariant E I allowed
  by unfold_locales

locale run_invariant = core_invariant E I allowed for E :: ext and I :: "nodew \<Rightarrow> bool" and allowed +
  assumes at_start: "fresh_node s \<Longrightarrow> I s"
begin

lemma reachable_inv: "reachable E s \<Longrightarrow> I s"
  using runs_inv at_start by (auto simp: reachable_runs)

end

end
