(* ===== verification/Managers.thy ===== *)
theory Managers
  imports Runs
begin

text \<open>
  The objects of a node through all of its runs: the laws of the sorted list that stands for the
  map of the current transactions, the invariant that every entry of it leads to a live manager
  with the id of the entry, and the invariant that the list of contracts has every live contract
  once and no other.
\<close>

section \<open>Maps with keys\<close>

locale key_map =
  fixes put :: "'k \<Rightarrow> 'v \<Rightarrow> 'm \<Rightarrow> 'm" and erase :: "'k \<Rightarrow> 'm \<Rightarrow> 'm"
    and look :: "'m \<Rightarrow> 'k \<Rightarrow> 'v option" and ok :: "'m \<Rightarrow> bool"
  assumes look_put: "ok m \<Longrightarrow> look (put k v m) = (look m)(k \<mapsto> v)"
    and look_erase: "ok m \<Longrightarrow> look (erase k m) = (look m)(k := None)"
    and ok_put: "ok m \<Longrightarrow> ok (put k v m)"
    and ok_erase: "ok m \<Longrightarrow> ok (erase k m)"
begin

text \<open>Objects that carry their key: an entry leads to an object with its key.\<close>

lemma entries_put:
  assumes "ok m" and "\<And>k v. look m k = Some v \<Longrightarrow> key v = Some k" and "key v = None"
  shows "look (put k v m) k' = Some v' \<Longrightarrow> (key(v \<mapsto> k)) v' = Some k'"
  using assms by (auto simp: look_put split: if_splits)

lemma entries_erase:
  assumes "ok m" and "\<And>k v. look m k = Some v \<Longrightarrow> key v = Some k" and "key v = Some k"
  shows "look (erase k m) k' = Some v' \<Longrightarrow> (key(v := None)) v' = Some k'"
  using assms by (auto simp: look_erase split: if_splits)

end

definition sorted_map :: "(string \<times> 'v) list \<Rightarrow> bool" where
  "sorted_map m \<longleftrightarrow> sorted_wrt (<) (map fst m)"

lemma sorted_map_Cons: "sorted_map ((k, v) # m) \<longleftrightarrow> (\<forall>x\<in>set (map fst m). k < x) \<and> sorted_map m"
  by (simp add: sorted_map_def)

lemma keys_map_put: "set (map fst (map_put k v m)) = insert k (set (map fst m))"
  by (induction k v m rule: map_put.induct) auto

lemma sorted_map_put: "sorted_map m \<Longrightarrow> sorted_map (map_put k v m)"
proof (induction k v m rule: map_put.induct)
  case (2 k v k' v' m)
  then show ?case using keys_map_put [of k v m] by (auto simp: sorted_map_Cons simp del: set_map)
qed (simp add: sorted_map_def)

lemma map_of_put: "sorted_map m \<Longrightarrow> map_of (map_put k v m) = (map_of m)(k \<mapsto> v)"
  by (induction k v m rule: map_put.induct) (auto simp: sorted_map_Cons fun_eq_iff)

lemma map_of_erase: "map_of (map_erase k m) = (map_of m)(k := None)"
  by (induction m) (auto simp: map_erase_def fun_eq_iff)

lemma sorted_map_erase: "sorted_map m \<Longrightarrow> sorted_map (map_erase k m)"
  by (auto simp: sorted_map_def map_erase_def sorted_wrt_map intro: sorted_wrt_filter)

interpretation txmap: key_map map_put map_erase map_of sorted_map
  by unfold_locales (simp_all add: map_of_put map_of_erase sorted_map_put sorted_map_erase)

section \<open>The invariant\<close>

definition tm_view :: "'z tmw_scheme \<Rightarrow> (tref \<Rightarrow> TransactionId option) \<times> (TransactionId \<times> tref) list \<times> nat" where
  "tm_view s = (\<lambda>r. map_option tm_TxId (t_heap s r), t_current s, t_next s)"

definition view_ok :: "(tref \<Rightarrow> TransactionId option) \<times> (TransactionId \<times> tref) list \<times> nat \<Rightarrow> bool" where
  "view_ok v = (case v of (key, m, n) \<Rightarrow>
     sorted_map m \<and> (\<forall>k r. map_of m k = Some r \<longrightarrow> key r = Some k) \<and> (\<forall>r\<ge>n. key r = None))"

lemma tm_view_core: "core t = core s \<Longrightarrow> tm_view t = tm_view s"
  by (simp add: core_def tm_view_def)

abbreviation tms_ok :: "'z tmw_scheme \<Rightarrow> bool" where
  "tms_ok s \<equiv> view_ok (tm_view s)"

lemma view_ok_put:
  assumes "view_ok (key, m, n)"
  shows "view_ok (key(n \<mapsto> i), map_put i n m, Suc n)"
proof -
  have "sorted_map m" "\<And>k r. map_of m k = Some r \<Longrightarrow> key r = Some k" "key n = None" "\<forall>r\<ge>n. key r = None"
    using assms by (auto simp: view_ok_def)
  with txmap.entries_put [where m = m and key = key and v = n, OF this(1-3)] show ?thesis by (auto simp: view_ok_def txmap.ok_put)
qed

lemma view_ok_erase:
  assumes "view_ok (key, m, n)" and "key r = Some k"
  shows "view_ok (key(r := None), map_erase k m, n)"
proof -
  have "sorted_map m" "\<And>k r. map_of m k = Some r \<Longrightarrow> key r = Some k" "\<forall>r\<ge>n. key r = None"
    using assms(1) by (auto simp: view_ok_def)
  with txmap.entries_erase [where m = m and key = key and v = r and k = k, OF this(1,2) assms(2)] show ?thesis by (auto simp: view_ok_def txmap.ok_erase)
qed

lemma keeps_new_entry: "keeps tms_ok (new_TransactionManager i c)"
proof (rule keepsI)
  fix s :: "'z tmw_scheme"
  assume "tms_ok s"
  from view_ok_put [OF this [unfolded tm_view_def], of i] show "tms_ok (snd (new_TransactionManager i c s))"
    by (simp add: new_TransactionManager_def prog_defs tm_view_def fun_upd_def if_distrib cong: if_cong)
qed

lemma keeps_old_entry: "keeps tms_ok (delete_tm r)"
proof (rule keepsI)
  fix s :: "'z tmw_scheme"
  assume s: "tms_ok s"
  show "tms_ok (snd (delete_tm r s))"
  proof (cases "t_heap s r")
    case (Some t)
    with view_ok_erase [OF s [unfolded tm_view_def], of r "tm_TxId t"] s show ?thesis
      by (simp add: delete_tm_def get_tm_def prog_defs tm_view_def fun_upd_def if_distrib cong: if_cong)
  qed (use s in \<open>simp add: delete_tm_def get_tm_def prog_defs\<close>)
qed

lemma leaves_upd_tm: "(\<And>t. tm_TxId (f t) = tm_TxId t) \<Longrightarrow> leaves tm_view (upd_tm r f)"
  by (auto simp: leaves_def upd_tm_def get_tm_def tm_view_def prog_defs fun_eq_iff split: option.splits)

lemma leaves_keeps: "leaves tm_view m \<Longrightarrow> keeps tms_ok m"
  by (rule keeps_leaves)

text \<open>The contracts are not what this invariant looks at.\<close>

lemma view_contracts: "contract_blind tm_view" "db_blind tm_view"
  by (simp_all add: blind_defs tm_view_def)

lemma leaves_enlisted: "contract_blind f \<Longrightarrow> leaves f (enlisted k)"
  by (auto simp: leaves_def contract_blind_def prog_defs)

interpretation tms: run_invariant E tms_ok "\<lambda>_ _. True" for E
proof unfold_locales
  fix s t :: nodew
  show "tms_ok s \<Longrightarrow> core t = core s \<Longrightarrow> tms_ok t" by (drule tm_view_core) simp
  show "fresh_node s \<Longrightarrow> tms_ok s" by (simp add: fresh_node_def tm_view_def view_ok_def sorted_map_def)
next
  fix k k_r g
  show "keeps tms_ok (enlisted k)" "keeps tms_ok (upd_contract k_r g)" "keeps tms_ok (drop_contract k_r)"
    by (intro leaves_keeps leaves_enlisted leave_intros view_contracts)+
next
  fix r ph cl
  show "keeps tms_ok (set_phase r ph)" "keeps tms_ok (set_class r cl)"
    unfolding set_phase_def set_class_def by (intro leaves_keeps leaves_upd_tm; simp)+
qed (rule keeps_new_entry keeps_old_entry TrueI)+

text \<open>
  C15: In every state a node reaches, whatever arrives and whatever the user does, the table of the
  current transactions is sorted by their ids without repetition, every entry leads to a live
  manager that carries the id of the entry, and every live manager has an address below the next
  free one.
\<close>

theorem managers_consistent:
  assumes "reachable E s"
  shows "sorted_wrt (<) (map fst (t_current s)) \<and>
    (\<forall>txId r. manager_of txId s = Some r \<longrightarrow> (\<exists>t. t_heap s r = Some t \<and> tm_TxId t = txId)) \<and>
    (\<forall>r t. t_heap s r = Some t \<longrightarrow> r < t_next s)"
proof -
  have "view_ok (tm_view s)" by (rule tms.reachable_inv [OF assms])
  moreover have "t_heap s r = Some t \<Longrightarrow> r < t_next s" if "\<forall>r\<ge>t_next s. t_heap s r = None" for r t
    using that by (cases "r < t_next s") auto
  ultimately show ?thesis by (auto simp: view_ok_def tm_view_def sorted_map_def manager_of_def)
qed

text \<open>The witness: a query for an order of nobody makes a manager for a purchase that passes through.\<close>

definition demo_node :: "packet list \<Rightarrow> nodew" where
  "demo_node pks = \<lparr>w_now = 0, w_online = [], w_rpc = 0, w_messages = [], n_router = demo_router,
      db_tables = demo_tables, db_saved = None, db_txlog = [], db_stmts = 0, w_txLogView = None,
      b_heap = Map.empty, b_next = 0, b_book = (\<lambda>sd. \<lparr>m_orders = [], m_filteredOrders = [], m_currency = None\<rparr>),
      k_heap = Map.empty, k_next = 0, k_contracts = [], s_sent = [], s_received = pks, s_initialized = 0,
      s_lastCleanup = 0, s_raw = [], t_heap = Map.empty, t_next = 0, t_current = [], t_sequence = 0, n_stopped = False\<rparr>"

lemma demo_asked: "\<exists>s. reachable demo s \<and> manager_of ''x:bo'' s = Some 0"
proof -
  let ?pk = "\<lparr>pk_peer = ''bo'', pk_item = RemoteTxItem ''x'' QUERY SERVER ''bo'' []\<rparr>"
  define s where "s = snd (perform demo Tick (demo_node [?pk]))"
  have "fresh_node (demo_node [])" by (simp add: fresh_node_def demo_node_def)
  then have "reachable demo (demo_node [])" by (rule reachable.start)
  moreover have "perform demo (Arrive [?pk]) (demo_node []) = (Inr (), demo_node [?pk])"
    by (simp add: demo_node_def prog_apply)
  ultimately have "reachable demo (demo_node [?pk])" by (rule reachable.event)
  moreover have "perform demo Tick (demo_node [?pk]) = (Inr (), s) \<and> manager_of ''x:bo'' s = Some 0"
    unfolding s_def
    by (simp add: demo_node_def node_tick_def processIncoming_def handleTxItem_remote_def manager_of_def
        OrderBook_find_def TmContract_id_def new_TransactionManager_def process_remote_def get_tm_def
        TmContractCohorteHop_processItem_def TmContractCohorteHop_doQuery_def TmContractCohorteHop_abortTx_def
        set_phase_def upd_tm_def mkTunnel_def TransactionManager_split_def split_at.simps finish_tm_def
        janitor_def send_remote_def sendItem_def prog_defs Let_def)
  ultimately show ?thesis using reachable.event by blast
qed

theorem managers_consistent_witness:
  "\<exists>s t. reachable demo s \<and> manager_of ''x:bo'' s = Some 0 \<and> t_heap s 0 = Some t \<and> tm_TxId t = ''x:bo''"
proof -
  obtain s where r: "reachable demo s" "manager_of ''x:bo'' s = Some 0" using demo_asked by blast
  from managers_consistent [OF r(1)] r show ?thesis by blast
qed

section \<open>The contracts\<close>

definition contract_view :: "'z conw_scheme \<Rightarrow> cref set \<times> cref list \<times> nat" where
  "contract_view s = (dom (k_heap s), k_contracts s, k_next s)"

definition listed_once :: "cref set \<times> cref list \<times> nat \<Rightarrow> bool" where
  "listed_once v = (case v of (live, ks, n) \<Rightarrow> distinct ks \<and> set ks = live \<and> (\<forall>r\<in>live. r < n))"

abbreviation contracts_ok :: "'z conw_scheme \<Rightarrow> bool" where
  "contracts_ok s \<equiv> listed_once (contract_view s)"

lemma blind_contract_view [simp]: "db_blind contract_view" "manager_blind contract_view"
  by (simp_all add: blind_defs contract_view_def)

lemma contract_view_core: "core t = core s \<Longrightarrow> contract_view t = contract_view s"
  by (simp add: core_def contract_view_def)

lemma leaves_keeps_contracts: "leaves contract_view m \<Longrightarrow> keeps contracts_ok m"
  by (rule keeps_leaves)

lemma keeps_enlisted: "keeps contracts_ok (enlisted k)"
  by (rule keepsI) (auto simp: contract_view_def listed_once_def prog_defs intro: less_SucI)

lemma keeps_contract_objects: "keeps contracts_ok (upd_contract k_r g)" "keeps contracts_ok (drop_contract k_r)"
  by (rule keepsI; auto simp: upd_contract_def drop_contract_def get_contract_def contract_view_def listed_once_def
      prog_defs split: option.splits)+

interpretation contracts: run_invariant E contracts_ok "\<lambda>_ _. True" for E
proof unfold_locales
  fix s t :: nodew
  show "contracts_ok s \<Longrightarrow> core t = core s \<Longrightarrow> contracts_ok t" by (drule contract_view_core) simp
  show "fresh_node s \<Longrightarrow> contracts_ok s" by (simp add: fresh_node_def contract_view_def listed_once_def)
qed (rule keeps_enlisted keeps_contract_objects TrueI | rule leaves_keeps_contracts, intro leave_intros, simp)+

text \<open>
  C16: In every state a node reaches, the list of contracts has every contract that was made and
  not deleted, once, and no other: what the timeouts, the confirmations and the main page go
  through is never a deleted contract, and no contract is forgotten without its end.
\<close>

theorem contracts_listed:
  assumes "reachable E s"
  shows "distinct (k_contracts s) \<and> set (k_contracts s) = dom (k_heap s) \<and> (\<forall>r\<in>dom (k_heap s). r < k_next s)"
  using contracts.reachable_inv [OF assms] by (simp add: contract_view_def listed_once_def)

lemma table_index_first: "ts \<noteq> [] \<Longrightarrow> table_index 0 ts (ts ! 0) = Some 0"
  by (cases ts) simp_all

lemma demo_start:
  "getCurrencyByName demo (currencyNames_testnet ! 0) s = (Inr 0, s)" "symbol_of demo 0 s = (Inr (currencySymbols_testnet ! 0), s)"
  "x_btc_info demo n = None"
proof -
  have "currencyNames_testnet \<noteq> []" "0 < length currencySymbols_testnet"
    by (simp_all add: currencyNames_testnet_def currencySymbols_testnet_def)
  then show "getCurrencyByName demo (currencyNames_testnet ! 0) s = (Inr 0, s)" "symbol_of demo 0 s = (Inr (currencySymbols_testnet ! 0), s)"
    by (simp_all add: getCurrencyByName_def table_index_first symbol_of_def prog_defs demo_simps)
qed (simp add: demo_simps)

text \<open>A node whose main page has loaded a stored contract.\<close>

lemma demo_loaded: "\<exists>s k. reachable demo s \<and> k_contracts s = [0] \<and> k_heap s 0 = Some k \<and> k_btcTxId k = ''tx''"
proof -
  let ?row = "\<lparr>cr_btcTxId = ''tx'', cr_btcAmount = show_int 2, cr_price = show_int 3, cr_currency = ''GPM'', cr_party = 0,
    cr_counterparty = ''bo'', cr_destAddress = ''d'', cr_creationtime = 5, cr_fee = show_int 0\<rparr>"
  let ?s0 = "demo_node []\<lparr>db_tables := demo_tables\<lparr>t_btccontracts := [?row]\<rparr>\<rparr>"
  define s where "s = snd (perform demo Open_page ?s0)"
  have "fresh_node ?s0" by (simp add: fresh_node_def demo_node_def)
  then have "reachable demo ?s0" by (rule reachable.start)
  moreover have run: "perform demo Open_page ?s0 = (Inr (), s) \<and> k_contracts s = [0] \<and>
      (\<exists>k. k_heap s 0 = Some k \<and> k_btcTxId k = ''tx'')"
    unfolding s_def
    by (simp add: demo_node_def quietly_def new_ZeroReserveDialog_def MyOrders_init_def loadOrders_def
        OrderBook_setCurrency_def upd_book_def refilter_def filterOrders_def deref_list_def
        ZeroReserveDialog_loadGrandTotal_def loadGrandTotal_def ZeroReserveDialog_loadTxLog_def loadTxLog_def
        loadBtcContracts_def select_btccontracts_def btccontracts_callback_def new_BtcContract_def
        setBtcTxId_def setBtcAddress_def activate_def upd_contract_def get_contract_def deref_def
        demo_start no_quote_def currencySymbols_testnet_def demo_db_up prog_defs Let_def demo_tables_def fromDecimalString_show_int in_i64_def)
  ultimately have r: "reachable demo s" using reachable.event by blast
  with run show ?thesis by blast
qed

theorem contracts_listed_witness:
  "\<exists>s k. reachable demo s \<and> k_contracts s = [0] \<and> k_heap s 0 = Some k \<and> k_btcTxId k = ''tx'' \<and>
    set (k_contracts s) = dom (k_heap s)"
  using demo_loaded contracts_listed [of demo] by blast

end
