(* ===== verification/LocalTx.thy ===== *)
theory LocalTx
  imports Managers
begin

text \<open>
  Payments between two friends: two nodes that exchange the items of one payment, the run in
  which it is settled on both sides, and what an item without its transaction does to a node.
\<close>

section \<open>Two nodes\<close>

text \<open>
  An item that starts a payment carries its fields; the friend's node makes its own payment
  object of them, as a receiver. The other items arrive as they were sent.
\<close>

definition receive_item :: "ext \<Rightarrow> packet \<Rightarrow> ('z tmw_scheme, unit) prog" where
  "receive_item E pk =
     (case pk_item pk of
        InitTxItem phase txId role p \<Rightarrow>
          bnd (new_Payment E Receiver [] (p_amount p) (c_currency (p_credit p)) (p_category p)) (\<lambda>q.
            handle_packet E (pk\<lparr>pk_item := InitTxItem phase txId role (q\<lparr>p_referrer := p_referrer p\<rparr>)\<rparr>))
      | _ \<Rightarrow> handle_packet E pk)"

text \<open>What a node sent to another one between two of its states, as it arrives there.\<close>

definition mail :: "ext \<Rightarrow> ext \<Rightarrow> 'z tmw_scheme \<Rightarrow> 'z tmw_scheme \<Rightarrow> packet list" where
  "mail A B s t = map (\<lambda>pk. pk\<lparr>pk_peer := x_own_id A\<rparr>)
     (filter (\<lambda>pk. pk_peer pk = x_own_id B) (drop (length (s_sent s)) (s_sent t)))"

text \<open>The second node handles what arrived, and its answers go back; none when it does not come to an end.\<close>

fun talk :: "nat \<Rightarrow> ext \<Rightarrow> 'z tmw_scheme \<Rightarrow> ext \<Rightarrow> 'z tmw_scheme \<Rightarrow> packet list
    \<Rightarrow> ('z tmw_scheme \<times> 'z tmw_scheme) option" where
  "talk n A a B b [] = Some (a, b)"
| "talk 0 A a B b (pk # pks) = None"
| "talk (Suc n) A a B b (pk # pks) =
     (case for_each (pk # pks) (receive_item B) b of
        (Inl e, b') \<Rightarrow> None
      | (Inr u, b') \<Rightarrow> map_option prod.swap (talk n B b' A a (mail B A b b')))"

section \<open>Steps\<close>

lemma new_Payment_any:
  assumes "db_up E" "known_currency E cur" "no_quote p" "peers_ok (db_tables s)"
  shows "new_Payment E cls p amount cur cat s = (Inr \<lparr>p_class = cls,
     p_credit = loaded p cur (account_at (db_tables s) p cur), p_amount = amount, p_category = cat, p_referrer = []\<rparr>, tick s)"
  unfolding new_Payment_def by (simp add: load_any [OF assms, unfolded Credit_loadPeer_def] prog_apply)

lemma setCounterparty_ok:
  assumes "line_ok E cp cur s acc" and "c_currency (p_credit p) = cur" and "c_fee (p_credit p) = 0"
  shows "InitTxItem_getPayment E cp p s = (Inr (p\<lparr>p_credit := loaded cp cur acc\<rparr>), tick s)"
proof -
  let ?c = "(p_credit p)\<lparr>c_id := cp\<rparr>"
  have l: "db_up E" "known_currency E cur" "no_quote cp" "peers_ok (db_tables s)"
    "abs_peers (db_tables s) (cp, cur) = Some acc" using assms(1) by (simp_all add: line_ok_def)
  have k: "key_ok ?c" using l assms(2) known_no_quote by (simp add: key_ok_def)
  have "ZrDB_loadPeer E ?c s = (Inr (loaded cp cur acc), tick s)"
    using ZrDB_loadPeer_abs [OF l(1) k l(4)] l(5) assms(2,3)
    by (simp add: load_account_def loaded_def)
  then show ?thesis by (simp add: InitTxItem_getPayment_def Payment_setCounterparty_def bnd_def prog_apply)
qed

definition sent_to :: "PeerAddress \<Rightarrow> item \<Rightarrow> 'z svcw_scheme \<Rightarrow> 'z svcw_scheme" where
  "sent_to p i s = s\<lparr>s_sent := s_sent s @ [\<lparr>pk_peer = p, pk_item = i\<rparr>]\<rparr>"

definition with_tm :: "tref \<Rightarrow> tm \<Rightarrow> 'z tmw_scheme \<Rightarrow> 'z tmw_scheme" where
  "with_tm r t s = s\<lparr>t_heap := (t_heap s)(r \<mapsto> t)\<rparr>"

definition registered :: "TransactionId \<Rightarrow> tm_class \<Rightarrow> 'z tmw_scheme \<Rightarrow> 'z tmw_scheme" where
  "registered txId c s = s\<lparr>t_heap := (t_heap s)(t_next s \<mapsto> \<lparr>tm_TxId = txId, tm_Phase = INIT,
     tm_startOfPhase = w_now s, tm_class = c\<rparr>), t_next := Suc (t_next s), t_current := map_put txId (t_next s) (t_current s)\<rparr>"

definition unregistered :: "tref \<Rightarrow> TransactionId \<Rightarrow> 'z tmw_scheme \<Rightarrow> 'z tmw_scheme" where
  "unregistered r txId s = s\<lparr>t_heap := (t_heap s)(r := None), t_current := map_erase txId (t_current s)\<rparr>"

definition next_sequence :: "'z tmw_scheme \<Rightarrow> nat" where
  "next_sequence s = (t_sequence s + 1) mod 2 ^ 32"

definition payment_of :: "Payment_class \<Rightarrow> PeerAddress \<Rightarrow> string \<Rightarrow> account \<Rightarrow> ZR_Number \<Rightarrow> Payment" where
  "payment_of cls cp cur acc amount =
     \<lparr>p_class = cls, p_credit = loaded cp cur acc, p_amount = amount, p_category = PAYMENT, p_referrer = []\<rparr>"

lemma payment_of_simps [simp]:
  "p_credit (payment_of cls cp cur acc amount) = loaded cp cur acc" "p_amount (payment_of cls cp cur acc amount) = amount"
  "p_class (payment_of cls cp cur acc amount) = cls" "p_category (payment_of cls cp cur acc amount) = PAYMENT"
  "p_referrer (payment_of cls cp cur acc amount) = []" "counterparty (payment_of cls cp cur acc amount) = cp"
  by (simp_all add: payment_of_def counterparty_def)

lemma state_simps [simp]:
  "t_heap (sent_to p i u) = t_heap u" "t_current (sent_to p i u) = t_current u" "t_next (sent_to p i u) = t_next u"
  "db_tables (sent_to p i s) = db_tables s" "s_sent (sent_to p i s) = s_sent s @ [\<lparr>pk_peer = p, pk_item = i\<rparr>]"
  "t_heap (with_tm r t u) = (t_heap u)(r \<mapsto> t)" "t_current (with_tm r t u) = t_current u"
  "db_tables (with_tm r t u) = db_tables u" "s_sent (with_tm r t u) = s_sent u"
  "t_heap (unregistered r j u) = (t_heap u)(r := None)" "t_current (unregistered r j u) = map_erase j (t_current u)"
  "db_tables (unregistered r j u) = db_tables u" "s_sent (unregistered r j u) = s_sent u"
  "t_heap (registered j c u) = (t_heap u)(t_next u \<mapsto> \<lparr>tm_TxId = j, tm_Phase = INIT, tm_startOfPhase = w_now u, tm_class = c\<rparr>)"
  "t_current (registered j c u) = map_put j (t_next u) (t_current u)"
  "db_tables (registered j c u) = db_tables u" "s_sent (registered j c u) = s_sent u"
  by (simp_all add: sent_to_def with_tm_def unregistered_def registered_def)

lemma run_simps:
  "sendItem p i s = (Inr (), sent_to p i s)"
  "new_TransactionManager txId c u = (Inr (t_next u), registered txId c u)"
  "t_heap u r = Some t \<Longrightarrow> get_tm r u = (Inr t, u)"
  "t_heap u r = Some t \<Longrightarrow> upd_tm r f u = (Inr (), with_tm r (f t) u)"
  "t_heap u r = Some t \<Longrightarrow> tm_class t \<noteq> TmLocalCohorte None \<Longrightarrow>
     delete_tm r u = (Inr (), unregistered r (tm_TxId t) u)"
  by (simp_all add: sendItem_def sent_to_def new_TransactionManager_def registered_def get_tm_def upd_tm_def
      with_tm_def delete_tm_def unregistered_def prog_defs)

lemma bnd_need: "bnd (need u (Some x)) f = f x"
  by (simp add: bnd_def need_def fun_eq_iff)

section \<open>The coordinator's side\<close>

lemma payTo_run:
  assumes "getCurrencyByName E name s = (Inr i, s)" and "currencySymbols (x_build E) ! i = cur"
    and "i < length (currencySymbols (x_build E))"
    and "fromDecimalString text = Inr amount" and "line_ok E payee cur s acc"
    and "amount \<le> a_our_credit acc + a_balance acc"
  defines "txId \<equiv> x_own_id E @ '':'' @ show_nat (next_sequence s)" and "p \<equiv> payment_of Spender payee cur acc amount"
  shows "PaymentDialog_payTo E payee name text s = (Inr (), sent_to payee (InitTxItem QUERY txId None p)
    (registered txId (TmLocalCoordinator p) ((tick s)\<lparr>t_sequence := next_sequence s\<rparr>)))"
proof -
  have np: "new_Payment E Spender payee amount cur PAYMENT s = (Inr p, tick s)"
    unfolding p_def payment_of_def by (rule new_Payment_ok [OF assms(5)])
  have init: "Payment_init p = ZR_SUCCESS"
    using assms(6) by (simp add: p_def Payment_init_def PaymentSpender_init_def)
  have sy: "symbol_of E i s = (Inr cur, s)" using assms(2,3) by (simp add: symbol_of_def prog_apply)
  have cp: "counterparty p = payee" by (simp add: p_def)
  show ?thesis
    unfolding PaymentDialog_payTo_def
    by (rule bnd_step, rule assms(1), rule bnd_lift, rule assms(4), rule bnd_step, rule sy, rule bnd_step, rule np)
      (simp add: new_TmLocalCoordinator_def TmLocalCoordinator_mkId_def prog_step TmLocalCoordinator_init_def init cp
        next_sequence_def txId_def [unfolded next_sequence_def] bnd_def run_simps prog_apply whn_def)
qed

lemma after_commit_fields [simp]:
  "t_heap (after_commit E p u) = t_heap u" "t_current (after_commit E p u) = t_current u"
  "s_sent (after_commit E p v) = s_sent v"
  by (simp_all add: after_commit_def)

lemma vote_run:
  assumes "manager_of txId s = Some r" and "t_heap s r = Some t" and "tm_class t = TmLocalCoordinator p"
    and "tm_TxId t = txId"
  shows "handleTxItem_local E peer VOTE_YES txId q s = (Inr ZR_SUCCESS, sent_to (counterparty p) (TxItem COMMIT txId) s)"
  using assms by (simp add: handleTxItem_local_def prog_step process_local_def bnd_def run_simps
      TmLocalCoordinator_processItem_def send_tx_def finish_tm_def whn_def prog_apply)

lemma commit_payment:
  assumes "line_ok E cp cur s acc" and "db_exact E (a_balance acc + Payment_delta (payment_of cls cp cur a0 amount))"
  shows "Payment_commit E (payment_of cls cp cur a0 amount) s = (Inr ZR_SUCCESS, after_commit E (payment_of cls cp cur a0 amount) s)"
    and "line_ok E cp cur (after_commit E (payment_of cls cp cur a0 amount) s)
      (acc\<lparr>a_balance := a_balance acc + Payment_delta (payment_of cls cp cur a0 amount)\<rparr>)"
proof -
  let ?p = "payment_of cls cp cur a0 amount"
  have l: "db_up E" "known_currency E cur" "no_quote cp" "peers_ok (db_tables s)"
    "abs_peers (db_tables s) (cp, cur) = Some acc" using assms(1) by (simp_all add: line_ok_def)
  have k: "key_ok (p_credit ?p)" using l known_no_quote by (simp add: key_ok_def)
  have key: "Payment_key ?p = (cp, cur)" by (simp add: Payment_key_def)
  show "Payment_commit E ?p s = (Inr ZR_SUCCESS, after_commit E ?p s)"
    using Payment_commit_run [OF l(1) k l(4), of acc] l(5) by (simp add: key)
  have "\<forall>a. abs_peers (db_tables s) (cp, cur) = Some a \<longrightarrow> db_exact E (a_balance a + Payment_delta ?p)"
    using l(5) assms(2) by simp
  from transfer_peers [OF l(4) this] l show "line_ok E cp cur (after_commit E ?p s)
      (acc\<lparr>a_balance := a_balance acc + Payment_delta ?p\<rparr>)"
    by (simp add: line_ok_def after_commit_def key)
qed

lemma ack_run:
  assumes "manager_of txId s = Some r" and "t_heap s r = Some t" and "tm_TxId t = txId"
    and "tm_class t = TmLocalCoordinator (payment_of Spender cp cur a0 amount)"
    and "line_ok E cp cur s acc" and "db_exact E (a_balance acc - amount)"
  shows "handleTxItem_local E peer ACK_COMMIT txId q s =
    (Inr ZR_FINISH, unregistered r txId (after_commit E (payment_of Spender cp cur a0 amount) s))"
proof -
  have "Payment_commit E (payment_of Spender cp cur a0 amount) s =
      (Inr ZR_SUCCESS, after_commit E (payment_of Spender cp cur a0 amount) s)"
    by (rule commit_payment(1) [OF assms(5)]) (use assms(6) in \<open>simp add: Payment_delta_def\<close>)
  then show ?thesis
    using assms(1-4) by (simp add: handleTxItem_local_def prog_step process_local_def bnd_def run_simps
      TmLocalCoordinator_processItem_def finish_tm_def whn_def prog_apply)
qed

section \<open>The cohorte's side\<close>

text \<open>The manager of a payment that was voted for.\<close>

definition voted :: "tm \<Rightarrow> TransactionId \<Rightarrow> Payment \<Rightarrow> bool" where
  "voted t txId p \<longleftrightarrow> tm_TxId t = txId \<and> tm_Phase t = QUERY \<and> tm_class t = TmLocalCohorte (Some p)"

lemma query_run:
  assumes "manager_of txId s = None" and "line_ok E peer cur s acc" and "amount \<le> available acc"
    and "p_class p0 = Receiver" "p_category p0 = PAYMENT" "p_amount p0 = amount" "p_referrer p0 = []"
    and "c_currency (p_credit p0) = cur" "c_fee (p_credit p0) = 0"
  shows "\<exists>t. handleTxItem_local E peer QUERY txId (Some p0) s = (Inr ZR_SUCCESS, sent_to peer (TxItem VOTE_YES txId)
      (with_tm (t_next s) t (tick (registered txId (TmLocalCohorte None) s)))) \<and>
    voted t txId (payment_of Receiver peer cur acc amount)"
proof -
  let ?p = "payment_of Receiver peer cur acc amount"
  let ?t0 = "\<lparr>tm_TxId = txId, tm_Phase = INIT, tm_startOfPhase = w_now s, tm_class = TmLocalCohorte None\<rparr>"
  let ?s1 = "with_tm (t_next s) (?t0\<lparr>tm_Phase := QUERY\<rparr>) (registered txId (TmLocalCohorte None) s)"
  have "line_ok E peer cur ?s1 acc" using assms(2) by (simp add: line_ok_def)
  from setCounterparty_ok [OF this assms(8,9)]
  have g: "InitTxItem_getPayment E peer p0 ?s1 = (Inr ?p, tick ?s1)"
    using assms(4-7) by (cases p0) (simp add: payment_of_def)
  have init: "Payment_init ?p = ZR_SUCCESS" using assms(3) by (simp add: Payment_init_def PaymentReceiver_init_def)
  have h: "t_heap (tick ?s1) (t_next s) = Some (?t0\<lparr>tm_Phase := QUERY\<rparr>)" by simp
  have w: "with_tm r t' (tick (with_tm r t'' u)) = with_tm r t' (tick u)" for r t' t'' and u :: "'a tmw_scheme"
    by (simp add: with_tm_def)
  have pl: "process_local E (t_next s) peer QUERY (Some p0) (registered txId (TmLocalCohorte None) s) =
      (Inr ZR_SUCCESS, sent_to peer (TxItem VOTE_YES txId)
        (with_tm (t_next s) (?t0\<lparr>tm_Phase := QUERY, tm_class := TmLocalCohorte (Some ?p)\<rparr>) (tick ?s1)))"
    using g by (simp add: process_local_def bnd_def [of "get_tm _"] run_simps TmLocalCohorte_processItem_def
        set_phase_def set_class_def prog_step
        bnd_def [of "InitTxItem_getPayment E peer p0"] bnd_def [of "upd_tm _ _"] TmLocalCohorte_init_def init
        send_tx_def bnd_def [of "sendItem _ _"] prog_apply)
  show ?thesis
    using assms(1) pl
    by (intro exI [of _ "?t0\<lparr>tm_Phase := QUERY, tm_class := TmLocalCohorte (Some ?p)\<rparr>"])
      (simp add: handleTxItem_local_def prog_step new_TmLocalCohorte_def
        bnd_def [of "new_TransactionManager _ _"] run_simps bnd_def [of "process_local _ _ _ _ _"] finish_tm_def
        whn_def prog_apply w voted_def)
qed

lemma commit_run:
  assumes "manager_of txId s = Some r" and "t_heap s r = Some t" and "voted t txId (payment_of Receiver cp cur a0 amount)"
    and "line_ok E cp cur s acc" and "db_exact E (a_balance acc + amount)"
  shows "\<exists>t'. handleTxItem_local E peer COMMIT txId q s =
    (Inr ZR_FINISH, unregistered r txId (after_commit E (payment_of Receiver cp cur a0 amount)
      (sent_to cp (TxItem ACK_COMMIT txId) (with_tm r t' s))))"
proof -
  let ?p = "payment_of Receiver cp cur a0 amount" and ?t = "t\<lparr>tm_Phase := COMMIT\<rparr>"
  let ?u = "sent_to cp (TxItem ACK_COMMIT txId) (with_tm r ?t s)"
  have l: "line_ok E cp cur ?u acc" using assms(4) by (simp add: line_ok_def)
  have c: "Payment_commit E ?p ?u = (Inr ZR_SUCCESS, after_commit E ?p ?u)"
    by (rule commit_payment(1) [OF l]) (use assms(5) in \<open>simp add: Payment_delta_def\<close>)
  have v: "tm_TxId t = txId" "tm_Phase t = QUERY" "tm_class t = TmLocalCohorte (Some ?p)"
    using assms(3) by (simp_all add: voted_def)
  have "process_local E r peer COMMIT q s = (Inr ZR_FINISH, after_commit E ?p ?u)"
    using assms(2) v c by (simp add: process_local_def bnd_def [of "get_tm _"] run_simps TmLocalCohorte_processItem_def
        set_phase_def prog_step bnd_def [of "upd_tm _ _"] bnd_need send_tx_def
        bnd_def [of "sendItem _ _"] bnd_def [of "Payment_commit _ _"] prog_apply)
  then show ?thesis
    using assms(1,2) v by (simp add: handleTxItem_local_def prog_step bnd_def [of "process_local _ _ _ _ _"]
        finish_tm_def whn_def run_simps bnd_def [of "delete_tm _"] prog_apply) blast
qed

section \<open>The whole payment\<close>

lemma erase_put: "map_of m k = None \<Longrightarrow> map_erase k (map_put k v m) = m"
proof (induction k v m rule: map_put.induct)
  case (1 k v)
  then show ?case by (simp add: map_erase_def)
next
  case (2 k v k' v' m)
  have "map_of m k = None \<Longrightarrow> filter (\<lambda>(x, _). x \<noteq> k) m = m"
    by (force simp: map_of_eq_None_iff filter_id_conv)
  with 2 show ?case by (auto simp: map_erase_def)
qed

lemma look_put: "map_of (map_put k v m) k = Some v"
  by (induction k v m rule: map_put.induct) auto

lemma committed_accounts:
  assumes "line_ok E cp cur s acc" and "db_exact E (a_balance acc + Payment_delta (payment_of cls cp cur a0 amount))"
  shows "abs_peers (db_tables (after_commit E (payment_of cls cp cur a0 amount) s)) = (abs_peers (db_tables s))
    ((cp, cur) \<mapsto> acc\<lparr>a_balance := a_balance acc + Payment_delta (payment_of cls cp cur a0 amount)\<rparr>)"
proof -
  let ?p = "payment_of cls cp cur a0 amount"
  have l: "peers_ok (db_tables s)" "abs_peers (db_tables s) (cp, cur) = Some acc"
    using assms(1) by (simp_all add: line_ok_def)
  have "\<forall>a. abs_peers (db_tables s) (cp, cur) = Some a \<longrightarrow> db_exact E (a_balance a + Payment_delta ?p)"
    using l(2) assms(2) by simp
  from transfer_peers(2) [OF l(1) this] l(2) show ?thesis
    by (auto simp: after_commit_def Payment_key_def fun_eq_iff)
qed

lemma deliver_query:
  assumes "manager_of txId s = None" and "line_ok E peer cur s acc" and "amount \<le> available acc"
    and "p = payment_of Spender payee cur a0 amount"
  shows "\<exists>t s'. receive_item E \<lparr>pk_peer = peer, pk_item = InitTxItem QUERY txId role p\<rparr> s = (Inr (), s') \<and>
    t_heap s' (t_next s) = Some t \<and> voted t txId (payment_of Receiver peer cur acc amount) \<and>
    t_current s' = map_put txId (t_next s) (t_current s) \<and> line_ok E peer cur s' acc \<and> db_tables s' = db_tables s \<and>
    s_sent s' = s_sent s @ [\<lparr>pk_peer = peer, pk_item = TxItem VOTE_YES txId\<rparr>]"
proof -
  have l: "db_up E" "known_currency E cur" "peers_ok (db_tables s)" using assms(2) by (simp_all add: line_ok_def)
  let ?q = "\<lparr>p_class = Receiver, p_credit = loaded [] cur (account_at (db_tables s) [] cur), p_amount = amount,
     p_category = PAYMENT, p_referrer = []\<rparr>"
  have n: "new_Payment E Receiver [] amount cur PAYMENT s = (Inr ?q, tick s)"
    by (rule new_Payment_any [OF l(1,2) _ l(3)]) (simp add: no_quote_def)
  have m: "manager_of txId (tick s) = None" "line_ok E peer cur (tick s) acc"
    using assms(1,2) by (simp_all add: manager_of_def line_ok_def)
  obtain t where t: "handleTxItem_local E peer QUERY txId (Some ?q) (tick s) = (Inr ZR_SUCCESS, sent_to peer (TxItem VOTE_YES txId)
      (with_tm (t_next s) t (tick (registered txId (TmLocalCohorte None) (tick s)))))"
    "voted t txId (payment_of Receiver peer cur acc amount)"
    using query_run [OF m assms(3), of ?q] by (auto simp: loaded_def)
  then show ?thesis
    using n assms(2) by (simp add: receive_item_def assms(4) bnd_def prog_apply line_ok_def)
qed

text \<open>The manager of a payment that this node started.\<close>

definition coordinates :: "'z tmw_scheme \<Rightarrow> tref \<Rightarrow> TransactionId \<Rightarrow> Payment \<Rightarrow> bool" where
  "coordinates s r txId p \<longleftrightarrow> manager_of txId s = Some r \<and>
     (\<exists>t. t_heap s r = Some t \<and> tm_TxId t = txId \<and> tm_class t = TmLocalCoordinator p)"

lemma pay_starts:
  assumes "i < INVALID (x_build E)" and "cur = currencySymbols (x_build E) ! i" and "fromDecimalString text = Inr amount"
    and "line_ok E payee cur s acc" and "amount \<le> a_our_credit acc + a_balance acc"
    and "txId = x_own_id E @ '':'' @ show_nat (next_sequence s)" and "p = payment_of Spender payee cur acc amount"
  shows "\<exists>s'. PaymentDialog_payTo E payee (currencyNames (x_build E) ! i) text s = (Inr (), s') \<and>
    coordinates s' (t_next s) txId p \<and> t_current s' = map_put txId (t_next s) (t_current s) \<and>
    line_ok E payee cur s' acc \<and> db_tables s' = db_tables s \<and>
    s_sent s' = s_sent s @ [\<lparr>pk_peer = payee, pk_item = InitTxItem QUERY txId None p\<rparr>]"
proof -
  have i: "i < length (currencySymbols (x_build E))" "i < length (currencyNames (x_build E))"
    using assms(1) by (simp_all add: INVALID_def tables_aligned table_lengths)
  have nm: "getCurrencyByName E (currencyNames (x_build E) ! i) s = (Inr i, s)"
    using i by (simp add: getCurrencyByName_def table_index_nth distinct_names prog_apply)
  show ?thesis
    using payTo_run [OF nm assms(2)[symmetric] i(1) assms(3-5)] assms(4)
    by (simp add: assms(6,7) coordinates_def manager_of_def look_put line_ok_def)
qed

lemma deliver_vote:
  assumes "coordinates s r txId p" and "counterparty p = peer" and "line_ok E peer cur s acc"
  shows "\<exists>s'. receive_item E \<lparr>pk_peer = peer, pk_item = TxItem VOTE_YES txId\<rparr> s = (Inr (), s') \<and>
    coordinates s' r txId p \<and> t_current s' = t_current s \<and> line_ok E peer cur s' acc \<and> db_tables s' = db_tables s \<and>
    s_sent s' = s_sent s @ [\<lparr>pk_peer = peer, pk_item = TxItem COMMIT txId\<rparr>]"
proof -
  obtain t where t: "manager_of txId s = Some r" "t_heap s r = Some t" "tm_class t = TmLocalCoordinator p" "tm_TxId t = txId"
    using assms(1) by (auto simp: coordinates_def)
  from vote_run [OF t, of E peer None] show ?thesis
    using t assms(2,3) by (simp add: receive_item_def bnd_def prog_apply coordinates_def manager_of_def line_ok_def)
qed

lemma deliver_commit:
  assumes "manager_of txId s = Some r" and "t_heap s r = Some t" and "voted t txId (payment_of Receiver peer cur acc amount)"
    and "line_ok E peer cur s acc" and "db_exact E (a_balance acc + amount)"
  shows "\<exists>s'. receive_item E \<lparr>pk_peer = peer, pk_item = TxItem COMMIT txId\<rparr> s = (Inr (), s') \<and>
    t_current s' = map_erase txId (t_current s) \<and>
    abs_peers (db_tables s') = (abs_peers (db_tables s))((peer, cur) \<mapsto> acc\<lparr>a_balance := a_balance acc + amount\<rparr>) \<and>
    s_sent s' = s_sent s @ [\<lparr>pk_peer = peer, pk_item = TxItem ACK_COMMIT txId\<rparr>]"
proof -
  obtain t' where t': "handleTxItem_local E peer COMMIT txId None s = (Inr ZR_FINISH, unregistered r txId
      (after_commit E (payment_of Receiver peer cur acc amount) (sent_to peer (TxItem ACK_COMMIT txId) (with_tm r t' s))))"
    using commit_run [OF assms] by blast
  have l: "line_ok E peer cur (sent_to peer (TxItem ACK_COMMIT txId) (with_tm r t' s)) acc"
    using assms(4) by (simp add: line_ok_def)
  show ?thesis
    using t' committed_accounts [OF l, of Receiver acc amount] assms(5)
    by (simp add: receive_item_def bnd_def prog_apply Payment_delta_def)
qed

lemma deliver_ack:
  assumes "coordinates s r txId (payment_of Spender peer cur acc amount)"
    and "line_ok E peer cur s acc" and "db_exact E (a_balance acc - amount)"
  shows "\<exists>s'. receive_item E \<lparr>pk_peer = peer, pk_item = TxItem ACK_COMMIT txId\<rparr> s = (Inr (), s') \<and>
    t_current s' = map_erase txId (t_current s) \<and>
    abs_peers (db_tables s') = (abs_peers (db_tables s))((peer, cur) \<mapsto> acc\<lparr>a_balance := a_balance acc - amount\<rparr>) \<and>
    s_sent s' = s_sent s"
proof -
  obtain t where t: "manager_of txId s = Some r" "t_heap s r = Some t" "tm_TxId t = txId"
    "tm_class t = TmLocalCoordinator (payment_of Spender peer cur acc amount)"
    using assms(1) by (auto simp: coordinates_def)
  from ack_run [OF t assms(2,3), of peer None] show ?thesis
    using committed_accounts [OF assms(2), of Spender acc amount] assms(3)
    by (simp add: receive_item_def bnd_def prog_apply Payment_delta_def)
qed

lemma deliver_one: "receive_item E pk s = (Inr (), s') \<Longrightarrow> for_each [pk] (receive_item E) s = (Inr (), s')"
  by (simp add: thn_Inr prog_apply)

text \<open>
  C7: A payment that both lines can bear is settled: the dialogue sends the query, and when the two
  nodes deliver each other's packets the exchange ends after four of them without an exception.
  Then the payer's balance has lost the amount and the payee's has gained it, every other account
  is as before, and neither node keeps a manager for the payment.
\<close>

theorem local_payment_settles:
  assumes "i < INVALID (x_build A)" and "cur = currencySymbols (x_build A) ! i"
    and "fromDecimalString text = Inr amount"
    and "line_ok A (x_own_id B) cur a accA" and "line_ok B (x_own_id A) cur b accB"
    and "amount \<le> a_our_credit accA + a_balance accA" and "amount \<le> available accB"
    and "db_exact A (a_balance accA - amount)" and "db_exact B (a_balance accB + amount)"
    and "manager_of txId a = None" and "manager_of txId b = None"
    and "txId = x_own_id A @ '':'' @ show_nat (next_sequence a)"
  shows "\<exists>a1 a' b'. PaymentDialog_payTo A (x_own_id B) (currencyNames (x_build A) ! i) text a = (Inr (), a1) \<and>
    talk 4 A a1 B b (mail A B a a1) = Some (a', b') \<and>
    abs_peers (db_tables a') = (abs_peers (db_tables a))((x_own_id B, cur) \<mapsto> accA\<lparr>a_balance := a_balance accA - amount\<rparr>) \<and>
    abs_peers (db_tables b') = (abs_peers (db_tables b))((x_own_id A, cur) \<mapsto> accB\<lparr>a_balance := a_balance accB + amount\<rparr>) \<and>
    t_current a' = t_current a \<and> t_current b' = t_current b"
proof -
  let ?A = "x_own_id A" and ?B = "x_own_id B"
  define p where "p = payment_of Spender ?B cur accA amount"
  obtain a1 where a1: "PaymentDialog_payTo A ?B (currencyNames (x_build A) ! i) text a = (Inr (), a1)"
    "coordinates a1 (t_next a) txId p" "t_current a1 = map_put txId (t_next a) (t_current a)" "line_ok A ?B cur a1 accA"
    "db_tables a1 = db_tables a" "s_sent a1 = s_sent a @ [\<lparr>pk_peer = ?B, pk_item = InitTxItem QUERY txId None p\<rparr>]"
    using pay_starts [OF assms(1-4,6,12) p_def] by blast
  obtain b1 t where b1: "receive_item B \<lparr>pk_peer = ?A, pk_item = InitTxItem QUERY txId None p\<rparr> b = (Inr (), b1)"
    "t_heap b1 (t_next b) = Some t" "voted t txId (payment_of Receiver ?A cur accB amount)"
    "t_current b1 = map_put txId (t_next b) (t_current b)" "line_ok B ?A cur b1 accB" "db_tables b1 = db_tables b"
    "s_sent b1 = s_sent b @ [\<lparr>pk_peer = ?A, pk_item = TxItem VOTE_YES txId\<rparr>]"
    using deliver_query [OF assms(11,5,7) p_def] by blast
  have "counterparty p = ?B" by (simp add: p_def)
  from deliver_vote [OF a1(2) this a1(4)]
  obtain a2 where a2: "receive_item A \<lparr>pk_peer = ?B, pk_item = TxItem VOTE_YES txId\<rparr> a1 = (Inr (), a2)"
    "coordinates a2 (t_next a) txId p" "t_current a2 = t_current a1" "line_ok A ?B cur a2 accA" "db_tables a2 = db_tables a1"
    "s_sent a2 = s_sent a1 @ [\<lparr>pk_peer = ?B, pk_item = TxItem COMMIT txId\<rparr>]" by blast
  have "manager_of txId b1 = Some (t_next b)" by (simp add: manager_of_def b1(4) look_put)
  from deliver_commit [OF this b1(2,3,5) assms(9)]
  obtain b2 where b2: "receive_item B \<lparr>pk_peer = ?A, pk_item = TxItem COMMIT txId\<rparr> b1 = (Inr (), b2)"
    "t_current b2 = map_erase txId (t_current b1)" "abs_peers (db_tables b2) =
      (abs_peers (db_tables b1))((?A, cur) \<mapsto> accB\<lparr>a_balance := a_balance accB + amount\<rparr>)"
    "s_sent b2 = s_sent b1 @ [\<lparr>pk_peer = ?A, pk_item = TxItem ACK_COMMIT txId\<rparr>]" by blast
  obtain a3 where a3: "receive_item A \<lparr>pk_peer = ?B, pk_item = TxItem ACK_COMMIT txId\<rparr> a2 = (Inr (), a3)"
    "t_current a3 = map_erase txId (t_current a2)" "abs_peers (db_tables a3) =
      (abs_peers (db_tables a2))((?B, cur) \<mapsto> accA\<lparr>a_balance := a_balance accA - amount\<rparr>)"
    "s_sent a3 = s_sent a2"
    using deliver_ack [OF a2(2)[unfolded p_def] a2(4) assms(8)] by blast
  have mails: "mail A B a a1 = [\<lparr>pk_peer = ?A, pk_item = InitTxItem QUERY txId None p\<rparr>]"
    "mail B A b b1 = [\<lparr>pk_peer = ?B, pk_item = TxItem VOTE_YES txId\<rparr>]"
    "mail A B a1 a2 = [\<lparr>pk_peer = ?A, pk_item = TxItem COMMIT txId\<rparr>]"
    "mail B A b1 b2 = [\<lparr>pk_peer = ?B, pk_item = TxItem ACK_COMMIT txId\<rparr>]" "mail A B a2 a3 = []"
    by (simp_all add: mail_def a1(6) b1(7) a2(6) b2(4) a3(4))
  have run: "talk (Suc (Suc (Suc (Suc 0)))) A a1 B b (mail A B a a1) = Some (a3, b2)"
    by (simp only: mails talk.simps deliver_one [OF b1(1)] deliver_one [OF a2(1)] deliver_one [OF b2(1)]
        deliver_one [OF a3(1)] prod.case sum.case option.map prod.swap_def fst_conv snd_conv)
  have "t_current a3 = t_current a" "t_current b2 = t_current b"
    using assms(10,11) by (simp_all add: a3(2) a2(3) a1(3) b2(2) b1(4) erase_put manager_of_def)
  with a1(1,5) a2(5) b1(6) run a3(3) b2(3) show ?thesis by (simp add: numeral_eq_Suc)
qed

text \<open>The witness: each node has an account for the other.\<close>

definition demo_friend :: ext where
  "demo_friend = demo\<lparr>x_own_id := ''bo''\<rparr>"

definition demo_tmw :: "peer_row list \<Rightarrow> tmw" where
  "demo_tmw rows = svcw.extend (demo_svcw rows [] [] [] [] []) \<lparr>t_heap = Map.empty, t_next = 0, t_current = [], t_sequence = 0\<rparr>"

lemma demo_tmw_simps [simp]:
  "db_tables (demo_tmw rows) = demo_tables\<lparr>t_peers := rows\<rparr>" "t_current (demo_tmw rows) = []"
  "t_sequence (demo_tmw rows) = 0" "t_heap (demo_tmw rows) = Map.empty" "t_next (demo_tmw rows) = 0"
  by (simp_all add: demo_tmw_def svcw.defs demo_svcw_def)

lemma friend_simps [simp]: "x_own_id demo_friend = ''bo''" "x_build demo_friend = Testnet"
  "x_sql_ok demo_friend = x_sql_ok demo" "db_exact demo_friend = db_exact demo"
  by (simp_all add: demo_friend_def demo_def db_exact_def [abs_def] db_value_def)

lemma demo_lines:
  assumes "in_i64 b"
  shows "line_ok demo ''bo'' ''GPM'' (demo_tmw [demo_peer ''bo'' 9 5 b 0])
      \<lparr>a_credit = 9, a_our_credit = 5, a_balance = of_int b, a_allocation = 0\<rparr>"
    and "line_ok demo_friend ''me'' ''GPM'' (demo_tmw [demo_peer ''me'' 9 5 b 0])
      \<lparr>a_credit = 9, a_our_credit = 5, a_balance = of_int b, a_allocation = 0\<rparr>"
  using assms demo_peers_ok [of 9 5 b 0] demo_peer_account [of 9 5 b 0] demo_db_up
  by (simp_all add: line_ok_def known_currency_def no_quote_def in_i64_def abs_peers_def db_up_def)

theorem local_payment_settles_witness:
  "\<exists>a1 a' b'. PaymentDialog_payTo demo ''bo'' (currencyNames Testnet ! 1) ''4'' (demo_tmw [demo_peer ''bo'' 9 5 1 0]) = (Inr (), a1) \<and>
     talk 4 demo a1 demo_friend (demo_tmw [demo_peer ''me'' 9 5 1 0]) (mail demo demo_friend (demo_tmw [demo_peer ''bo'' 9 5 1 0]) a1)
       = Some (a', b') \<and>
     map_option a_balance (abs_peers (db_tables a') (''bo'', ''GPM'')) = Some (- 3) \<and>
     map_option a_balance (abs_peers (db_tables b') (''me'', ''GPM'')) = Some 5"
proof -
  have i: "1 < INVALID (x_build demo)" "''GPM'' = currencySymbols (x_build demo) ! 1"
    by (simp_all add: INVALID_def enumerators_testnet_def)
  have t: "fromDecimalString ''4'' = Inr 4"
    using fromDecimalString_show_int [of 4] by (simp add: in_i64_def show_int_def show_nat.simps char_of_def bit_simps)
  let ?acc = "\<lparr>a_credit = 9, a_our_credit = 5, a_balance = 1, a_allocation = 0\<rparr>"
  have la: "line_ok demo (x_own_id demo_friend) ''GPM'' (demo_tmw [demo_peer ''bo'' 9 5 1 0]) ?acc"
    "line_ok demo_friend (x_own_id demo) ''GPM'' (demo_tmw [demo_peer ''me'' 9 5 1 0]) ?acc"
    using demo_lines [of 1] by (simp_all add: in_i64_def)
  have b: "4 \<le> a_our_credit ?acc + a_balance ?acc" "4 \<le> available ?acc" by (simp_all add: available_def)
  have e: "db_exact demo (a_balance ?acc - 4)" "db_exact demo_friend (a_balance ?acc + 4)"
    using demo_db_exact [of "- 3"] demo_db_exact [of 5] by (simp_all add: in_i64_def)
  have m: "manager_of txId (demo_tmw rows) = None" for txId rows by (simp add: manager_of_def)
  from local_payment_settles [OF i t la b e m m refl] show ?thesis by auto
qed

section \<open>Items without a transaction\<close>

text \<open>
  C35: An item of a payment with an id the node has no manager for stops the node, whatever its
  phase: a new cohorte is made, and either it has no payment to speak of, which the code reads all
  the same, or the phase is refused with an exception that no handler on the way catches.
\<close>

theorem stray_item_stops_node:
  assumes "manager_of txId s = None"
  shows "fst (handle_packet E \<lparr>pk_peer = peer, pk_item = TxItem phase txId\<rparr> s) =
    Inl (if phase = QUERY \<or> phase = COMMIT \<or> phase = ABORT then Undefined Uninitialised
         else Runtime_error ''Unknown Transaction Phase'')"
proof -
  let ?t = "\<lparr>tm_TxId = txId, tm_Phase = INIT, tm_startOfPhase = w_now s, tm_class = TmLocalCohorte None\<rparr>"
  let ?s = "registered txId (TmLocalCohorte None) s"
  have p: "process_local E (t_next s) peer ph None ?s = TmLocalCohorte_processItem E (t_next s) ?t None peer ph None ?s" for ph
    by (simp add: process_local_def bnd_def [of "get_tm _"] run_simps)
  have h: "t_heap ?s (t_next s) = Some ?t" by simp
  have d: "delete_tm (t_next s) ?s = (Inl (Undefined Uninitialised), ?s)"
    using h by (simp add: delete_tm_def get_tm_def prog_defs)
  show ?thesis
    using assms d
    by (cases phase) (simp_all add: handleTxItem_local_def prog_step new_TmLocalCohorte_def bnd_def [of "new_TransactionManager _ _"]
        run_simps bnd_def [of "process_local _ _ _ _ _"] p TmLocalCohorte_processItem_def TmLocalCohorte_abortTx_def
        finish_tm_def prog_defs)
qed

theorem stray_item_stops_node_witness:
  "fst (handle_packet demo \<lparr>pk_peer = ''bo'', pk_item = TxItem COMMIT ''bo:7''\<rparr> (demo_tmw [])) = Inl (Undefined Uninitialised)"
  using stray_item_stops_node [of "''bo:7''" "demo_tmw []" demo "''bo''" COMMIT] by (simp add: manager_of_def)

section \<open>Timeouts\<close>

lemma timeout_each_stops:
  "\<forall>r\<in>set rs. t_heap s r \<noteq> None \<Longrightarrow> \<exists>r\<in>set rs. isTimedOut (w_now s) (the (t_heap s r)) \<Longrightarrow>
   \<exists>e. fst (timeout_each E rs s) = Inl e \<and>
     ((\<forall>r\<in>set rs. \<exists>p. tm_class (the (t_heap s r)) = TmLocalCoordinator p) \<longrightarrow> e = Undefined Invalid_iterator)"
proof (induction rs)
  case (Cons r rs)
  from Cons.prems(1) obtain t where t: "t_heap s r = Some t" by auto
  show ?case
  proof (cases "isTimedOut (w_now s) t")
    case False
    with Cons t show ?thesis by (simp add: bnd_def [of "get_tm _"] run_simps prog_step) blast
  next
    case True
    have e: "\<exists>e. fst (thn m (thn k (throw (Undefined Invalid_iterator))) s) = Inl e" for m k :: "('a tmw_scheme, unit) prog"
      by (auto simp: prog_defs split: prod.split sum.split)
    have "tm_class t = TmLocalCoordinator p \<Longrightarrow>
        fst (thn (tm_rollback E r) (thn (delete_tm r) (throw (Undefined Invalid_iterator))) s) = Inl (Undefined Invalid_iterator)" for p
      using t by (simp add: tm_rollback_def thn_def bnd_def [of "get_tm _"] run_simps bnd_def [of "delete_tm _"] prog_step prog_apply)
    with e [of "tm_rollback E r" "delete_tm r"] True t show ?thesis
      by (auto simp: bnd_def [of "get_tm _"] run_simps prog_step)
  qed
qed simp

text \<open>
  C36: Once a transaction has timed out, the periodic check of the timeouts does not return: the
  loop deletes the manager, which erases the entry its iterator stands on, and then advances that
  iterator. With payments of this node alone in the table, that is exactly what happens.
\<close>

theorem timeout_stops_node:
  assumes "\<forall>(txId, r)\<in>set (t_current s). t_heap s r \<noteq> None"
    and "manager_of txId s = Some r" and "isTimedOut (w_now s) (the (t_heap s r))"
  shows "\<exists>e. fst (TransactionManager_timeout E s) = Inl e \<and>
    ((\<forall>(txId, r)\<in>set (t_current s). \<exists>p. tm_class (the (t_heap s r)) = TmLocalCoordinator p) \<longrightarrow> e = Undefined Invalid_iterator)"
proof -
  have "r \<in> set (map snd (t_current s))"
    using assms(2) by (force simp: manager_of_def dest: map_of_SomeD)
  with assms(1,3) have "\<exists>e. fst (timeout_each E (map snd (t_current s)) s) = Inl e \<and>
     ((\<forall>r\<in>set (map snd (t_current s)). \<exists>p. tm_class (the (t_heap s r)) = TmLocalCoordinator p) \<longrightarrow> e = Undefined Invalid_iterator)"
    by (intro timeout_each_stops) auto
  then show ?thesis by (force simp: TransactionManager_timeout_def prog_step)
qed

theorem timeout_stops_node_witness:
  "fst (TransactionManager_timeout demo ((registered ''me:1''
     (TmLocalCoordinator (demo_payment Spender 4 (demo_credit ''bo'' 9 5 0 0))) (demo_tmw []))\<lparr>w_now := 60001\<rparr>)) =
   Inl (Undefined Invalid_iterator)"
proof -
  let ?s = "(registered ''me:1'' (TmLocalCoordinator (demo_payment Spender 4 (demo_credit ''bo'' 9 5 0 0))) (demo_tmw []))\<lparr>w_now := 60001\<rparr>"
  have n: "w_now (demo_tmw []) = 0" by (simp add: demo_tmw_def svcw.defs demo_svcw_def)
  have a: "\<forall>(txId, r)\<in>set (t_current ?s). t_heap ?s r \<noteq> None" by simp
  have m: "manager_of ''me:1'' ?s = Some 0" by (simp add: manager_of_def)
  have o: "isTimedOut (w_now ?s) (the (t_heap ?s 0))" by (simp add: isTimedOut_def m_maxTime_def n)
  from timeout_stops_node [OF a m o, of demo] show ?thesis by auto
qed

end
