(* ===== verification/TxLaws.thy ===== *)
theory TxLaws
  imports LocalTx
begin

text \<open>
  Purchases over hops: the payloads are read back as they were written, the buyer never
  pays for more than it asked for, and a purchase whose order the seller withdrew reads the deleted order.
\<close>

section \<open>Payloads\<close>

lemma fraction_back: "frac_io E \<Longrightarrow> zr_fits q \<Longrightarrow> fromFractionString E (toStdString E q) = Inr q"
  by (simp add: frac_io_def fromFractionString_def toStdString_def)

lemma fraction_token: "frac_io E \<Longrightarrow> CHR '':'' \<notin> set (toStdString E q) \<and> toStdString E q \<noteq> []"
  by (simp add: frac_io_def toStdString_def)

lemma split_query_payload:
  assumes "frac_io E" and "CHR '':'' \<notin> set (k_currencySym k)" and "CHR '':'' \<notin> set addr"
  shows "TransactionManager_split (query_payload E k addr fee) =
    [toStdString E (getFiatAmount k), k_currencySym k, addr, toStdString E (k_btcAmount k), toStdString E fee]"
proof -
  let ?ts = "[toStdString E (getFiatAmount k), k_currencySym k, addr, toStdString E (k_btcAmount k), toStdString E fee]"
  have "split_at CHR '':'' (join_with CHR '':'' ?ts) = ?ts"
    using assms fraction_token [OF assms(1)] by (intro split_join) auto
  then show ?thesis by (simp add: TransactionManager_split_def query_payload_def)
qed

lemma split_vote_payload:
  assumes "frac_io E" and "CHR '':'' \<notin> set txId" and "txId \<noteq> []"
  shows "TransactionManager_split (vote_payload E amount txId) = [toStdString E amount, txId]"
proof -
  let ?ts = "[toStdString E amount, txId]"
  have "split_at CHR '':'' (join_with CHR '':'' ?ts) = ?ts"
    using assms fraction_token [OF assms(1)] by (intro split_join) auto
  then show ?thesis by (simp add: TransactionManager_split_def vote_payload_def)
qed

text \<open>
  C20: The payload of a query and that of a vote are taken apart into exactly what was put in, and the
  numbers in them are read as they were written, as long as no text holds a colon, the id
  of the Bitcoin transaction is not empty and the numbers fit into 64 bits.
\<close>

theorem payload_roundtrip:
  assumes "frac_io E" and "CHR '':'' \<notin> set (k_currencySym k)" and "CHR '':'' \<notin> set addr"
    and "CHR '':'' \<notin> set txId" and "txId \<noteq> []"
    and "zr_fits (getFiatAmount k)" and "zr_fits (k_btcAmount k)" and "zr_fits fee"
  shows "let q = TransactionManager_split (query_payload E k addr fee);
      v = TransactionManager_split (vote_payload E (k_btcAmount k) txId) in
    length q = 5 \<and> fromFractionString E (q ! 0) = Inr (getFiatAmount k) \<and> q ! 1 = k_currencySym k \<and> q ! 2 = addr \<and>
    fromFractionString E (q ! 3) = Inr (k_btcAmount k) \<and> fromFractionString E (q ! 4) = Inr fee \<and>
    length v = 2 \<and> fromFractionString E (v ! 0) = Inr (k_btcAmount k) \<and> v ! 1 = txId"
  using assms by (simp add: split_query_payload split_vote_payload fraction_back Let_def)

section \<open>The buyer's contract\<close>

text \<open>The contract at an address, if it is there, is for at most an amount at a price.\<close>

definition at_most :: "cref \<Rightarrow> ZR_Number \<Rightarrow> ZR_Number \<Rightarrow> 'z conw_scheme \<Rightarrow> bool" where
  "at_most k_r b p s \<longleftrightarrow> (\<forall>k. k_heap s k_r = Some k \<longrightarrow> k_btcAmount k \<le> b \<and> k_price k = p)"

lemma keeps_at_most: "leaves k_heap m \<Longrightarrow> keeps (at_most k_r b p) m"
  by (simp add: keeps_def leaves_def at_most_def)

lemma keeps_contract_field [keep_intros]:
  assumes "\<And>k. k_btcAmount (f k) = k_btcAmount k" "\<And>k. k_price (f k) = k_price k"
  shows "keeps (at_most k_r b p) (upd_contract r f)"
  by (rule keepsI) (auto simp: upd_contract_def get_contract_def at_most_def prog_defs assms split: option.splits)

lemma keeps_contract_setters:
  "keeps (at_most k_r b p) (activate r)" "keeps (at_most k_r b p) (setBtcTxId r i)" "keeps (at_most k_r b p) (setBtcAddress r a)"
  unfolding activate_def setBtcTxId_def setBtcAddress_def by (rule keeps_contract_field; simp)+

lemma keeps_get_contract:
  "(\<And>k. k_btcAmount k \<le> b \<Longrightarrow> k_price k = p \<Longrightarrow> keeps (at_most k_r b p) (f k)) \<Longrightarrow>
   keeps (at_most k_r b p) (bnd (get_contract k_r) f)"
proof (rule keepsI)
  fix s :: "'a conw_scheme"
  assume k: "\<And>k. k_btcAmount k \<le> b \<Longrightarrow> k_price k = p \<Longrightarrow> keeps (at_most k_r b p) (f k)" and s: "at_most k_r b p s"
  show "at_most k_r b p (snd (bnd (get_contract k_r) f s))"
  proof (cases "k_heap s k_r")
    case (Some k')
    then have "keeps (at_most k_r b p) (f k')" using s by (intro k) (simp_all add: at_most_def)
    then show ?thesis using s Some by (simp add: bnd_def get_contract_def deref_def keeps_snd)
  qed (use s in \<open>simp add: bnd_def get_contract_def deref_def\<close>)
qed

lemma keeps_setBtcAmount: "a \<le> b \<Longrightarrow> keeps (at_most k_r b p) (setBtcAmount E k_r a)"
proof -
  assume a: "a \<le> b"
  have "keeps (at_most k_r b p) (upd_contract k_r (\<lambda>k. k\<lparr>k_btcAmount := a\<rparr>))"
    using a by (intro keepsI) (auto simp: upd_contract_def get_contract_def at_most_def prog_defs split: option.splits)
  moreover have "keeps (at_most k_r b p) (deallocateFunds E k x)" for k x
    by (rule keeps_at_most, intro leave_intros) simp
  ultimately show ?thesis
    unfolding setBtcAmount_def Let_def by (intro keeps_get_contract keeps_thn keeps_whn)
qed

lemma keeps_drop: "keeps (at_most k_r b p) (drop_contract r)"
  by (rule keepsI) (auto simp: drop_contract_def get_contract_def at_most_def prog_defs split: option.splits)

lemma keeps_rmContract: "keeps (at_most k_r b p) (rmContract E r)"
proof -
  have "leaves k_heap (get_contract c)" "leaves k_heap (find_contract q rs)" "leaves k_heap (deallocateFunds E k x)"
    "leaves k_heap (rmBtcContract E i n)" "leaves k_heap (placeMsg m)" for c q rs k x i n m
    by (intro leave_intros; simp)+
  note l = this [THEN keeps_at_most]
  show ?thesis unfolding rmContract_def by (intro keep_intros l keeps_drop)
qed

lemma coordinator_leaves_contracts:
  "leaves k_heap (TmContractCoordinator_abortTx a b)" "leaves k_heap (coordinator_settle E r i a my c n)"
  "leaves k_heap (upd_order o_r f)" "leaves k_heap (publishOrder E o_r q)" "leaves k_heap (OrderBook_remove E sd j)"
proof -
  show a: "leaves k_heap (TmContractCoordinator_abortTx a b)" for a b
    unfolding TmContractCoordinator_abortTx_def Let_def by (intro leave_intros) simp_all
  show "leaves k_heap (upd_order o_r f)" "leaves k_heap (publishOrder E o_r q)" "leaves k_heap (OrderBook_remove E sd j)"
    by (intro leave_intros; simp)+
  show "leaves k_heap (coordinator_settle E r i a my c n)"
    unfolding coordinator_settle_def by (intro leave_intros a) simp_all
qed

lemma keeps_doTx:
  "keeps (at_most k_r b p) (TmContractCoordinator_doTx E r txId other_r m_myOrder (Some k_r) i)"
proof -
  have l: "leaves k_heap (placeMsg m)" "leaves k_heap (get_order o_r)" "leaves k_heap (send_remote a pr ph d pid pl)"
    "leaves k_heap (persist E c)" for m o_r a pr ph d pid pl c
    by (intro leave_intros; simp)+
  note k = l [THEN keeps_at_most] coordinator_leaves_contracts [THEN keeps_at_most] keeps_contract_setters
  show ?thesis
    unfolding TmContractCoordinator_doTx_def Let_def bnd_need
    by (intro keeps_if keeps_thn keeps_bnd [OF keeps_lift] keeps_get_contract keeps_whn keeps_bnd keeps_try keeps_option
        keep_intros(1-6) k) (simp_all add: keeps_setBtcAmount)
qed

lemma keeps_coordinator:
  "keeps (at_most k_r b p) (TmContractCoordinator_processItem E r txId other_r m_myOrder (Some k_r) i)"
proof -
  have "keeps (at_most k_r b p) (TmContractCoordinator_rollback E other_r (Some k_r))"
    unfolding TmContractCoordinator_rollback_def
    by (simp only: option.case) (intro keep_intros keeps_rmContract coordinator_leaves_contracts [THEN keeps_at_most]
        keeps_at_most leaves_get_order)
  note r = keeps_thn [OF this keeps_at_most [OF coordinator_leaves_contracts(1)]]
  show ?thesis
    unfolding TmContractCoordinator_processItem_def Let_def
    by (cases "rx_phase i") (simp_all only: TxPhase.case r keeps_doTx keeps_throw)
qed

text \<open>
  C14: Whatever a remote party answers to a buyer's manager, the contract of the buyer, if it is kept,
  is for no more Bitcoin than before and at the same price; a vote for more is aborted.
\<close>

theorem coordinator_never_buys_more:
  assumes "k_heap s k_r = Some k"
    and "k_heap (snd (TmContractCoordinator_processItem E r txId other_r m_myOrder (Some k_r) i s)) k_r = Some k'"
  shows "k_btcAmount k' \<le> k_btcAmount k \<and> k_price k' = k_price k"
proof -
  have "at_most k_r (k_btcAmount k) (k_price k) s" using assms(1) by (simp add: at_most_def)
  from keeps_snd [OF keeps_coordinator this] assms(2) show ?thesis by (simp add: at_most_def)
qed

section \<open>Withdrawn orders\<close>

lemma dangling_order: "b_heap s q = None \<Longrightarrow> get_order q s = (Inl (Undefined Dangling_pointer), s)"
  "b_heap s q = None \<Longrightarrow> upd_order q f s = (Inl (Undefined Dangling_pointer), s)"
  by (simp_all add: upd_order_def get_order_def deref_def bnd_def)

lemma doTx_dangling:
  assumes "frac_io E" and "zr_fits amount" and "CHR '':'' \<notin> set btcTxId" and "btcTxId \<noteq> []"
    and "rx_payload i = vote_payload E amount btcTxId"
    and "k_heap s k_r = Some k" and "k_party k = SENDER" and "amount \<le> k_btcAmount k" and "b_heap s other_r = None"
  shows "fst (TmContractCoordinator_doTx E r txId other_r m_myOrder (Some k_r) i s) = Inl (Undefined Dangling_pointer)"
proof -
  have v: "TransactionManager_split (rx_payload i) = [toStdString E amount, btcTxId]"
    unfolding assms(5) by (rule split_vote_payload [OF assms(1,3,4)])
  have g: "get_contract k_r s = (Inr k, s)" using assms(6) by (simp add: get_contract_def deref_def)
  have u: "upd_contract k_r f s = (Inr (), s\<lparr>k_heap := (k_heap s)(k_r \<mapsto> f k)\<rparr>)" for f
    using assms(6) by (simp add: upd_contract_def get_contract_def prog_defs)
  have sb: "setBtcAmount E k_r amount s = (Inr (), s\<lparr>k_heap := (k_heap s)(k_r \<mapsto> k\<lparr>k_btcAmount := amount\<rparr>)\<rparr>)"
    using assms(7) by (simp add: setBtcAmount_def Let_def bnd_def [of "get_contract k_r"] g thn_def
        bnd_def [of "upd_contract _ _"] u whn_def prog_apply)
  have st: "setBtcTxId k_r btcTxId s = (Inr (), s\<lparr>k_heap := (k_heap s)(k_r \<mapsto> k\<lparr>k_btcTxId := btcTxId\<rparr>)\<rparr>)"
    by (simp add: setBtcTxId_def u)
  show ?thesis
    using assms(8,9)
    by (auto simp: TmContractCoordinator_doTx_def v Let_def prog_step fraction_back [OF assms(1,2)] bnd_need
        bnd_def [of "get_contract k_r"] g bnd_def [of "setBtcAmount _ _ _"] sb bnd_def [of "upd_order _ _"]
        bnd_def [of "setBtcTxId _ _"] st bnd_def [of "get_order _"] dangling_order)
qed

lemma handleOrder_frame:
  assumes "handleOrder E p ord s = (v, t)"
  shows "k_heap t = k_heap s" "t_heap t = t_heap s" "t_current t = t_current s"
proof -
  have "leaves k_heap (handleOrder E p ord)" "leaves t_heap (handleOrder E p ord)" "leaves t_current (handleOrder E p ord)"
    by (intro leave_intros; simp)+
  note l = this
  show "k_heap t = k_heap s" "t_heap t = t_heap s" "t_current t = t_current s"
    using l(1) [THEN leavesD, OF assms] l(2) [THEN leavesD, OF assms] l(3) [THEN leavesD, OF assms] by simp_all
qed

text \<open>The end of an order of somebody else that the node knows: it is deleted.\<close>

lemma withdrawn_deleted:
  assumes "db_up E" and "books_inv s" and "peers_ok (db_tables s)" and "o_currency ord < length (currencySymbols (x_build E))"
    and "\<forall>p\<in>set (w_online s). no_quote p" and "clock_ok s ord" and "in_time E s ord"
    and "o_orderType ord = ASK" and "o_purpose ord \<in> {FILLED, CANCEL}"
    and "with_id s Mine (o_order_id ord) = None" and "with_id s Asks (o_order_id ord) = Some q"
  shows "\<exists>t. handleOrder E peer ord s = (Inr (), t) \<and> b_heap t q = None"
proof -
  let ?u = "received ord peer s"
  let ?t = "freed q (removed E Asks q ?u)"
  have less: "q < b_next s" using with_id_Some [OF assms(11)] in_refs_less [OF assms(2)] by blast
  have pr: "processed E Asks (b_next s) ?u = (ZR_SUCCESS, ?t)"
    using assms(7,9-11) received_ok [OF assms(2), where ord = ord and peer = peer]
    by (auto simp: processed_def Let_def)
  have o: "obj ?t (b_next s) = ord" using less by (simp add: freed_def received_def)
  have pb: "publishable E (b_next s) ?t"
    using assms(1,3,4) less by (simp add: publishable_def freed_def received_def without_order_def peers_ok_def abs_peers_def)
  have on: "w_online ?t = w_online s" by (simp add: freed_def removed_def re_shown_def set_book_def received_def)
  have "publishOrder E (b_next s) (Some peer) ?t = (Inr (), published E ord (Some peer) (w_online ?t) ?t)"
    using publish_all [OF pb, of "w_online ?t" "Some peer"] assms(5) on o by (simp add: publishOrder_def prog_step)
  then have "handleOrder E peer ord s = (Inr (), published E ord (Some peer) (w_online ?t) ?t)"
    using pr assms(8) by (simp add: handleOrder_steps [OF assms(1,2,6)] Let_def)
  then show ?thesis by (simp add: freed_def)
qed

text \<open>
  C30: When a seller fills or cancels an order while a purchase from it is on its way, the buyer's node
  deletes the order its manager points to, and the vote that arrives next stops the node: the
  manager reads the deleted order.
\<close>

theorem withdrawn_order_stops_purchase:
  assumes "db_up E" and "books_inv s" and "peers_ok (db_tables s)" and "o_currency ord < length (currencySymbols (x_build E))"
    and "\<forall>p\<in>set (w_online s). no_quote p" and "clock_ok s ord" and "in_time E s ord"
    and "o_orderType ord = ASK" and "o_purpose ord \<in> {FILLED, CANCEL}"
    and "with_id s Mine (o_order_id ord) = None" and "with_id s Asks (o_order_id ord) = Some other_r"
    and "manager_of (rx_addr i @ '':'' @ rx_payerId i) s = Some r" and "t_heap s r = Some t"
    and "tm_class t = TmContractCoordinator other_r m_myOrder (Some k_r)"
    and "k_heap s k_r = Some k" and "k_party k = SENDER"
    and "rx_phase i = VOTE_YES" and "rx_payload i = vote_payload E amount btcTxId" and "amount \<le> k_btcAmount k"
    and "frac_io E" and "zr_fits amount" and "CHR '':'' \<notin> set btcTxId" and "btcTxId \<noteq> []"
  shows "\<exists>s'. handleOrder E peer ord s = (Inr (), s') \<and>
    fst (handleTxItem_remote E i s') = Inl (Undefined Dangling_pointer)"
proof -
  obtain s' where s': "handleOrder E peer ord s = (Inr (), s')" "b_heap s' other_r = None"
    using withdrawn_deleted [OF assms(1-11)] by blast
  note f = handleOrder_frame [OF s'(1)]
  have "fst (process_remote E r i s') = Inl (Undefined Dangling_pointer)"
    using doTx_dangling [OF assms(20-23) assms(18) _ assms(16,19) s'(2)] assms(13-15,17) f
    by (simp add: process_remote_def bnd_def [of "get_tm _"] run_simps TmContractCoordinator_processItem_def)
  then obtain w where "process_remote E r i s' = (Inl (Undefined Dangling_pointer), w)"
    by (cases "process_remote E r i s'") auto
  then have "fst (handleTxItem_remote E i s') = Inl (Undefined Dangling_pointer)"
    using assms(12) f(3)
    by (simp add: handleTxItem_remote_def Let_def prog_step manager_of_def try_catch_def bnd_def [of "try_catch _ _ _"]
        bnd_def [of "process_remote _ _ _"])
  with s'(1) show ?thesis by blast
qed

section \<open>Witnesses\<close>

definition demo_contract :: BtcContract where
  "demo_contract = \<lparr>k_btcTxId = [], k_btcAmount = 9, k_price = 4, k_currencySym = ''GPM'', k_party = SENDER,
     k_counterParty = ''bo'', k_activated = False, k_destAddress = [], k_creationtime = 0, k_fee = 0\<rparr>"

theorem payload_roundtrip_witness:
  "length (TransactionManager_split (query_payload demo demo_contract ''addr'' 0)) = 5 \<and>
   fromFractionString demo (TransactionManager_split (query_payload demo demo_contract ''addr'' 0) ! 0) = Inr 36"
proof -
  have f: "zr_fits (of_int n)" if "in_i64 n" for n
    using that by (simp add: zr_fits_def in_i64_def)
  have "zr_fits (getFiatAmount demo_contract)" "zr_fits (k_btcAmount demo_contract)" "zr_fits 0"
    using f [of 36] f [of 9] f [of 0] by (simp_all add: demo_contract_def getFiatAmount_def in_i64_def)
  from payload_roundtrip [OF demo_frac_io _ _ _ _ this, of "''addr''" "''tx''"] show ?thesis
    by (simp add: demo_contract_def getFiatAmount_def Let_def)
qed

text \<open>A node with a bid of mine, an ask of somebody else, and a purchase on its way.\<close>

definition demo_purchase :: tmw where
  "demo_purchase = (svcw.extend (demo_svcw [] [] [demo_order ''b'' BID 20 5, (demo_order ''x'' ASK 15 4)\<lparr>o_isMyOrder := False\<rparr>]
     [0] [1] [0]) \<lparr>t_heap = [0 \<mapsto> \<lparr>tm_TxId = ''x:b'', tm_Phase = INIT, tm_startOfPhase = 0,
        tm_class = TmContractCoordinator 1 (Some 0) (Some 0)\<rparr>], t_next = 1, t_current = [(''x:b'', 0)], t_sequence = 0\<rparr>)
     \<lparr>k_heap := [0 \<mapsto> demo_contract], k_next := 1, k_contracts := [0]\<rparr>"

lemma demo_purchase_simps [simp]:
  "b_heap demo_purchase = [0 \<mapsto> demo_order ''b'' BID 20 5, Suc 0 \<mapsto> (demo_order ''x'' ASK 15 4)\<lparr>o_isMyOrder := False\<rparr>]"
  "b_next demo_purchase = 2" "k_heap demo_purchase = [0 \<mapsto> demo_contract]" "w_online demo_purchase = []" "w_now demo_purchase = 0"
  "b_book demo_purchase = (\<lambda>sd. demo_book (case sd of Bids \<Rightarrow> [0] | Asks \<Rightarrow> [Suc 0] | Mine \<Rightarrow> [0]))"
  "t_heap demo_purchase = [0 \<mapsto> \<lparr>tm_TxId = ''x:b'', tm_Phase = INIT, tm_startOfPhase = 0,
     tm_class = TmContractCoordinator 1 (Some 0) (Some 0)\<rparr>]" "t_current demo_purchase = [(''x:b'', 0)]"
  "db_tables demo_purchase = demo_tables\<lparr>t_peers := []\<rparr>" "n_router demo_purchase = demo_router"
  by (simp_all add: demo_purchase_def svcw.defs demo_svcw_def fun_eq_iff)

theorem coordinator_never_buys_more_witness:
  "\<exists>k'. k_heap (snd (TmContractCoordinator_processItem demo 0 ''x:b'' 1 (Some 0) (Some 0)
       \<lparr>rx_peer = ''bo'', rx_addr = ''x'', rx_phase = VOTE_YES, rx_dir = CLIENT, rx_payerId = ''b'', rx_payload = []\<rparr> demo_purchase)) 0
     = Some k' \<and> k_btcAmount k' \<le> 9"
proof -
  let ?i = "\<lparr>rx_peer = ''bo'', rx_addr = ''x'', rx_phase = VOTE_YES, rx_dir = CLIENT, rx_payerId = ''b'', rx_payload = []\<rparr>"
  have k: "k_heap demo_purchase 0 = Some demo_contract" by simp
  have k': "k_heap (snd (TmContractCoordinator_processItem demo 0 ''x:b'' 1 (Some 0) (Some 0) ?i demo_purchase)) 0 = Some demo_contract"
    by (simp add: TmContractCoordinator_processItem_def TmContractCoordinator_doTx_def TransactionManager_split_def
        split_at.simps Let_def TmContractCoordinator_abortTx_def get_order_def bnd_need TraceRouter_nextHop_def demo_router_def prog_defs)
  from coordinator_never_buys_more [OF k k'] k' show ?thesis by (simp add: demo_contract_def)
qed

theorem withdrawn_order_stops_purchase_witness:
  "\<exists>s'. handleOrder demo ''bo'' ((demo_order ''x'' ASK 15 4)\<lparr>o_isMyOrder := False, o_purpose := CANCEL\<rparr>) demo_purchase = (Inr (), s') \<and>
     fst (handleTxItem_remote demo \<lparr>rx_peer = ''bo'', rx_addr = ''x'', rx_phase = VOTE_YES, rx_dir = CLIENT, rx_payerId = ''b'',
       rx_payload = vote_payload demo 7 ''tx''\<rparr> s') = Inl (Undefined Dangling_pointer)"
proof -
  let ?o = "(demo_order ''x'' ASK 15 4)\<lparr>o_isMyOrder := False, o_purpose := CANCEL\<rparr>"
  have b: "books_inv demo_purchase"
    by (auto simp: books_inv_def book_inv_def oid_def demo_order_simps no_quote_def)
  have p: "peers_ok (db_tables demo_purchase)" by (simp add: peers_ok_def)
  have c: "o_currency ?o < length (currencySymbols (x_build demo))" by (simp add: demo_order_simps)
  have t: "clock_ok demo_purchase ?o" "in_time demo demo_purchase ?o"
    by (simp_all add: clock_ok_def in_time_def demo_order_simps in_i64_def Order_timeout_def)
  have w: "with_id demo_purchase Mine (o_order_id ?o) = None" "with_id demo_purchase Asks (o_order_id ?o) = Some 1"
    by (simp_all add: with_id_def oid_def demo_order_simps)
  have z: "zr_fits 7" by (simp add: zr_fits_def in_i64_def)
  show ?thesis
    by (rule withdrawn_order_stops_purchase [OF demo_db_up b p c _ t _ _ w, where r = 0 and k_r = 0 and k = demo_contract
          and t = "\<lparr>tm_TxId = ''x:b'', tm_Phase = INIT, tm_startOfPhase = 0, tm_class = TmContractCoordinator 1 (Some 0) (Some 0)\<rparr>"
          and m_myOrder = "Some 0" and amount = 7 and btcTxId = "''tx''"])
      (simp_all add: demo_order_simps manager_of_def demo_contract_def demo_frac_io z)
qed

end
