(* ===== verification/MatchLaws.thy ===== *)
theory MatchLaws
  imports TxLaws
begin

text \<open>
  Matching a bid: what \<^verbatim>\<open>MyOrders::match\<close> does is to carry out a plan that is a function of the
  orders alone, and the plan stays within the bid.
\<close>

section \<open>The plan\<close>

text \<open>The asks in the order they are looked at, as their objects; a purchase is an ask and an amount.\<close>

fun match_plan :: "(oref \<Rightarrow> Order) \<Rightarrow> ZR_Number \<Rightarrow> string set \<Rightarrow> oref list \<Rightarrow> ZR_Number \<Rightarrow> (oref \<times> ZR_Number) list" where
  "match_plan h price matched [] amount = []"
| "match_plan h price matched (r # rs) amount =
     (let x = h r in
      if o_ignored x \<or> o_isMyOrder x \<or> o_order_id x \<in> matched then match_plan h price matched rs amount
      else if price < o_price x then []
      else if amount > o_amount x
           then (r, o_amount x) # match_plan h price (insert (o_order_id x) matched) rs (amount - o_amount x)
           else [(r, amount)])"

definition carry_out :: "ext \<Rightarrow> oref \<Rightarrow> (oref \<times> ZR_Number) list \<Rightarrow> ('z tmw_scheme, unit) prog" where
  "carry_out E my_r purchases = for_each purchases (\<lambda>(r, n).
     bnd (get_order r) (\<lambda>x. thn (upd_order my_r (\<lambda>my. my\<lparr>o_matched := insert (o_order_id x) (o_matched my)\<rparr>))
       (MyOrders_buy E r my_r n)))"

lemma match_plan_cong: "(\<And>r. r \<in> set rs \<Longrightarrow> h r = h' r) \<Longrightarrow> match_plan h p m rs a = match_plan h' p m rs a"
  by (induction h p m rs a rule: match_plan.induct) (simp_all add: Let_def)

lemma match_plan_amount: "rn \<in> set (match_plan h p m rs a) \<Longrightarrow> snd rn \<le> o_amount (h (fst rn))"
  by (induction h p m rs a rule: match_plan.induct) (auto simp: Let_def split: if_splits)

lemma match_plan_allowed: "rn \<in> set (match_plan h p m rs a) \<Longrightarrow> fst rn \<in> set rs \<and> o_price (h (fst rn)) \<le> p \<and>
   \<not> o_ignored (h (fst rn)) \<and> \<not> o_isMyOrder (h (fst rn)) \<and> o_order_id (h (fst rn)) \<notin> m"
  by (induction h p m rs a rule: match_plan.induct) (auto simp: Let_def split: if_splits)

lemma match_plan_ids: "distinct (map (\<lambda>rn. o_order_id (h (fst rn))) (match_plan h p m rs a))"
proof (induction h p m rs a rule: match_plan.induct)
  case (2 h price matched r rs amount)
  then show ?case using match_plan_allowed [where h = h and m = "insert (o_order_id (h r)) matched"]
    by (fastforce simp: Let_def)
qed simp

lemma match_plan_total: "0 \<le> a \<Longrightarrow> sum_list (map snd (match_plan h p m rs a)) \<le> a"
  by (induction h p m rs a rule: match_plan.induct) (auto simp: Let_def)

section \<open>Carrying it out\<close>

definition order_view :: "'z bookw_scheme \<Rightarrow> oref \<Rightarrow> Order option" where
  "order_view s r = map_option (\<lambda>x. x\<lparr>o_locked := False\<rparr>) (b_heap s r)"

lemma blind_order_view [simp]:
  "db_blind order_view" "contract_blind order_view" "send_blind order_view" "manager_blind order_view"
  by (simp_all add: blind_defs order_view_def fun_eq_iff)

lemma leaves_buy: "leaves order_view (MyOrders_buy E a b n)"
proof -
  have u: "leaves order_view (upd_order r (\<lambda>x. x\<lparr>o_locked := True\<rparr>))" for r
    by (auto simp: leaves_def upd_order_def get_order_def order_view_def prog_defs fun_eq_iff split: option.splits)
  have i: "leaves order_view (TmContractCoordinator_init E o_r m k)" for o_r m k
    unfolding TmContractCoordinator_init_def by (cases k) (auto intro!: leave_intros)
  have "leaves order_view (new_TmContractCoordinator E a b n)"
    unfolding new_TmContractCoordinator_def Let_def by (intro leave_intros u) simp_all
  then show ?thesis
    unfolding MyOrders_buy_def
    by (intro leaves_bnd leaves_get_tm) (auto split: tm_class.split intro!: leave_intros i)
qed

lemma view_fields:
  assumes "order_view t r = Some x"
  shows "\<exists>y. b_heap t r = Some y \<and> o_amount y = o_amount x \<and> o_price y = o_price x \<and> o_matched y = o_matched x \<and>
    o_ignored y = o_ignored x \<and> o_isMyOrder y = o_isMyOrder x \<and> o_order_id y = o_order_id x"
proof -
  obtain y where y: "b_heap t r = Some y" and "x = y\<lparr>o_locked := False\<rparr>"
    using assms by (auto simp: order_view_def)
  then show ?thesis by simp
qed

lemma view_matched:
  assumes "order_view s my_r = Some my"
  shows "\<exists>t. upd_order my_r (\<lambda>x. x\<lparr>o_matched := insert j (o_matched x)\<rparr>) s = (Inr (), t) \<and>
    order_view t = (order_view s)(my_r \<mapsto> my\<lparr>o_matched := insert j (o_matched my)\<rparr>)"
  using assms by (auto simp: order_view_def upd_order_def get_order_def prog_defs fun_eq_iff)

text \<open>The objects as the plan sees them.\<close>

abbreviation viewed :: "'z bookw_scheme \<Rightarrow> oref \<Rightarrow> Order" where
  "viewed s r \<equiv> the (order_view s r)"

lemma match_carries_out:
  "order_view s my_r = Some my \<Longrightarrow> \<forall>r\<in>set asks. order_view s r \<noteq> None \<Longrightarrow> my_r \<notin> set asks \<Longrightarrow>
   quietly (match_asks E my_r asks amount) s =
   carry_out E my_r (match_plan (viewed s) (o_price my) (o_matched my) asks amount) s"
proof (induction asks arbitrary: s my amount)
  case Nil
  then show ?case by (simp add: quietly_def carry_out_def)
next
  case (Cons r asks)
  from Cons.prems(2) obtain x where x: "order_view s r = Some x" by auto
  obtain y where y: "b_heap s r = Some y" "o_amount y = o_amount x" "o_price y = o_price x" "o_ignored y = o_ignored x"
    "o_isMyOrder y = o_isMyOrder x" "o_order_id y = o_order_id x" using view_fields [OF x] by blast
  obtain z where z: "b_heap s my_r = Some z" "o_price z = o_price my" "o_matched z = o_matched my"
    using view_fields [OF Cons.prems(1)] by blast
  have g: "get_order r s = (Inr y, s)" "get_order my_r s = (Inr z, s)"
    using y(1) z(1) by (simp_all add: get_order_def deref_def)
  have ih: "quietly (match_asks E my_r asks amount) s =
      carry_out E my_r (match_plan (viewed s) (o_price my) (o_matched my) asks amount) s" for amount
    using Cons.prems by (intro Cons.IH) auto
  let ?id = "o_order_id x"
  have m: "match_asks E my_r (r # asks) amount s =
      (if o_ignored x \<or> o_isMyOrder x \<or> ?id \<in> o_matched my then match_asks E my_r asks amount s
       else if o_price my < o_price x then (Inr ZR_SUCCESS, s)
       else thn (upd_order my_r (\<lambda>x. x\<lparr>o_matched := insert ?id (o_matched x)\<rparr>))
         (if amount > o_amount x
          then thn (MyOrders_buy E r my_r (o_amount x))
            (bnd (get_order r) (\<lambda>other'. match_asks E my_r asks (amount - o_amount other')))
          else thn (MyOrders_buy E r my_r amount) (ret ZR_FINISH)) s)" for amount
    unfolding match_asks.simps by (rule bnd_step, rule g(1), rule bnd_step, rule g(2)) (simp add: y z prog_apply)
  have co: "carry_out E my_r ((r, n) # pl) s = thn (upd_order my_r (\<lambda>x. x\<lparr>o_matched := insert ?id (o_matched x)\<rparr>))
      (thn (MyOrders_buy E r my_r n) (carry_out E my_r pl)) s" for n pl
    by (simp add: carry_out_def thn_def bnd_assoc bnd_Inr [where m = "get_order r" and s = s, OF g(1)] y)
  obtain t where t: "upd_order my_r (\<lambda>x. x\<lparr>o_matched := insert ?id (o_matched x)\<rparr>) s = (Inr (), t)"
    and vt: "order_view t = (order_view s)(my_r \<mapsto> my\<lparr>o_matched := insert ?id (o_matched my)\<rparr>)"
    using view_matched [OF Cons.prems(1)] by blast
  have tt: "thn (upd_order my_r (\<lambda>x. x\<lparr>o_matched := insert ?id (o_matched x)\<rparr>)) k s = k t" for k :: "('a tmw_scheme, 'b) prog"
    by (rule thn_Inr, rule t)
  show ?case
  proof (cases "o_ignored x \<or> o_isMyOrder x \<or> o_order_id x \<in> o_matched my \<or> o_price my < o_price x")
    case True
    show ?thesis
    proof (cases "o_ignored x \<or> o_isMyOrder x \<or> o_order_id x \<in> o_matched my")
      case True
      then have "match_asks E my_r (r # asks) amount s = match_asks E my_r asks amount s" by (subst m) auto
      then show ?thesis using True x ih [of amount] by (simp add: quietly_def bnd_def Let_def del: match_asks.simps)
    next
      case cheap: False
      with True have "match_asks E my_r (r # asks) amount s = (Inr ZR_SUCCESS, s)" by (subst m) auto
      then show ?thesis using True cheap x by (simp add: quietly_def bnd_def Let_def carry_out_def prog_apply del: match_asks.simps)
    qed
  next
    case False
    show ?thesis
    proof (cases "amount > o_amount x")
      case True
      obtain q u where u: "MyOrders_buy E r my_r (o_amount x) t = (q, u)" by (cases "MyOrders_buy E r my_r (o_amount x) t") auto
      have vu: "order_view u = order_view t" using leavesD [OF leaves_buy u] .
      have "r \<noteq> my_r" using Cons.prems(3) by auto
      then have xu: "order_view u r = Some x" using x vt vu by simp
      then obtain y' where y': "get_order r u = (Inr y', u)" "o_amount y' = o_amount x"
        using view_fields [OF xu] by (auto simp: get_order_def deref_def)
      have gu: "bnd (get_order r) (\<lambda>other'. match_asks E my_r asks (amount - o_amount other')) u =
          match_asks E my_r asks (amount - o_amount x) u"
        by (rule bnd_step, rule y'(1)) (simp add: y')
      have "quietly (match_asks E my_r asks (amount - o_amount x)) u = carry_out E my_r
          (match_plan (viewed u) (o_price my) (insert ?id (o_matched my)) asks (amount - o_amount x)) u"
        using Cons.IH [of u "my\<lparr>o_matched := insert ?id (o_matched my)\<rparr>"] Cons.prems vt vu by auto
      also have "match_plan (viewed u) (o_price my) (insert ?id (o_matched my)) asks (amount - o_amount x) =
          match_plan (viewed s) (o_price my) (insert ?id (o_matched my)) asks (amount - o_amount x)"
        using Cons.prems(3) vt vu by (intro match_plan_cong) auto
      finally have ih': "quietly (match_asks E my_r asks (amount - o_amount x)) u = carry_out E my_r
          (match_plan (viewed s) (o_price my) (insert ?id (o_matched my)) asks (amount - o_amount x)) u" .
      show ?thesis
        using False True x u ih' gu
        by (cases q) (simp_all add: quietly_def bnd_def [of "match_asks _ _ _ _"] m co Let_def tt thn_Inr thn_Inl y' del: match_asks.simps)
    next
      case False': False
      show ?thesis
        using False False' x
        by (simp add: quietly_def bnd_def [of "match_asks _ _ _ _"] m co Let_def tt del: match_asks.simps)
          (simp add: carry_out_def thn_def bnd_def prog_apply split: prod.split sum.split)
    qed
  qed
qed

lemma match_plan_locked: "match_plan (\<lambda>r. (h r)\<lparr>o_locked := b\<rparr>) p m rs a = match_plan h p m rs a"
  by (induction h p m rs a rule: match_plan.induct) (simp_all add: Let_def)

lemma viewed_plan:
  assumes "\<forall>r\<in>set rs. r \<in> dom (b_heap s)"
  shows "match_plan (viewed s) p m rs a = match_plan (obj s) p m rs a"
proof -
  have "match_plan (viewed s) p m rs a = match_plan (\<lambda>r. (obj s r)\<lparr>o_locked := False\<rparr>) p m rs a"
    using assms by (intro match_plan_cong) (auto simp: order_view_def)
  then show ?thesis by (simp add: match_plan_locked)
qed

text \<open>
  C8: Matching an unlocked bid of mine carries out a plan computed from the orders as they are before,
  whatever the purchases do: it buys, best ask first, from asks of the currency of the bid that are
  not mine, not ignored and not matched before, none dearer than the bid, from each no more than it
  offers and from no two with the same id, and in all no more than the bid asks for.
\<close>

theorem match_follows_plan:
  assumes "sorts E" and "books_inv s" and "r \<in> set (refs s Bids)" and "my = obj s r" and "\<not> o_locked my"
    and "plan = match_plan (obj s) (o_price my) (o_matched my) (shown E s Asks (o_currency my)) (o_amount my)"
  shows "quietly (MyOrders_match_one E r) s = carry_out E r plan s \<and>
    (\<forall>(q, n)\<in>set plan. q \<in> set (refs s Asks) \<and> o_currency (obj s q) = o_currency my \<and> n \<le> o_amount (obj s q) \<and>
       o_price (obj s q) \<le> o_price my \<and> \<not> o_isMyOrder (obj s q) \<and> \<not> o_ignored (obj s q) \<and>
       o_order_id (obj s q) \<notin> o_matched my) \<and>
    distinct (map (\<lambda>qn. o_order_id (obj s (fst qn))) plan) \<and>
    (0 \<le> o_amount my \<longrightarrow> sum_list (map snd plan) \<le> o_amount my)"
proof -
  let ?asks = "shown E s Asks (o_currency my)"
  have d: "set (refs s Bids) \<subseteq> dom (b_heap s)" "set (refs s Asks) \<subseteq> dom (b_heap s)"
    "set (refs s Bids) \<inter> set (refs s Asks) = {}" using assms(2) by (simp_all add: books_inv_def book_inv_def)
  have "set ?asks = set (filter (\<lambda>q. o_currency (obj s q) = o_currency my) (refs s Asks))"
    unfolding shown_def by (rule mset_eq_setD [OF sorts_mset [OF assms(1)]])
  then have sub: "set ?asks = {q \<in> set (refs s Asks). o_currency (obj s q) = o_currency my}" by auto
  have rd: "r \<in> dom (b_heap s)" "r \<notin> set ?asks" using assms(3) d sub by auto
  have g: "get_order r s = (Inr my, s)" using get_order_ok [OF rd(1)] assms(4) by simp
  have v: "order_view s r = Some (my\<lparr>o_locked := False\<rparr>)" using rd(1) assms(4) by (auto simp: order_view_def)
  have live: "\<forall>q\<in>set ?asks. q \<in> dom (b_heap s)" using sub d(2) by auto
  then have lv: "\<forall>q\<in>set ?asks. order_view s q \<noteq> None" by (auto simp: order_view_def)
  have "quietly (match_asks E r ?asks (o_amount my)) s = carry_out E r plan s"
    using match_carries_out [OF v lv rd(2), of E "o_amount my"] viewed_plan [OF live] assms(6) by simp
  then have "quietly (MyOrders_match_one E r) s = carry_out E r plan s"
    using assms(5) filterOrders_ok [OF d(2), of E "o_currency my"]
    by (simp add: MyOrders_match_one_def quietly_def bnd_assoc bnd_def [of "get_order r"] g prog_step
        bnd_def [of "filterOrders _ _ _"])
  moreover have "\<forall>(q, n)\<in>set plan. q \<in> set (refs s Asks) \<and> o_currency (obj s q) = o_currency my \<and> n \<le> o_amount (obj s q) \<and>
       o_price (obj s q) \<le> o_price my \<and> \<not> o_isMyOrder (obj s q) \<and> \<not> o_ignored (obj s q) \<and>
       o_order_id (obj s q) \<notin> o_matched my"
    unfolding assms(6) using match_plan_allowed match_plan_amount sub by fastforce
  ultimately show ?thesis
    unfolding assms(6) using match_plan_ids [of "obj s" "o_price my" "o_matched my" ?asks "o_amount my"]
    by (simp add: match_plan_total)
qed

text \<open>The witness: a bid for 20 at 5, and asks for 15 at 4 and for 9 at 5.\<close>

theorem match_follows_plan_witness:
  "\<exists>plan. quietly (MyOrders_match_one demo 0)
     (svcw.extend (demo_svcw [] [] [demo_order ''b'' BID 20 5, (demo_order ''x'' ASK 15 4)\<lparr>o_isMyOrder := False\<rparr>,
        (demo_order ''y'' ASK 9 5)\<lparr>o_isMyOrder := False\<rparr>] [0] [1, 2] [])
        \<lparr>t_heap = Map.empty, t_next = 0, t_current = [], t_sequence = 0\<rparr> :: tmw) =
     carry_out demo 0 plan
     (svcw.extend (demo_svcw [] [] [demo_order ''b'' BID 20 5, (demo_order ''x'' ASK 15 4)\<lparr>o_isMyOrder := False\<rparr>,
        (demo_order ''y'' ASK 9 5)\<lparr>o_isMyOrder := False\<rparr>] [0] [1, 2] [])
        \<lparr>t_heap = Map.empty, t_next = 0, t_current = [], t_sequence = 0\<rparr>) \<and>
     plan = [(1, 15), (2, 5)] \<and> sum_list (map snd plan) \<le> 20"
proof -
  let ?ords = "[demo_order ''b'' BID 20 5, (demo_order ''x'' ASK 15 4)\<lparr>o_isMyOrder := False\<rparr>,
     (demo_order ''y'' ASK 9 5)\<lparr>o_isMyOrder := False\<rparr>]"
  define s :: tmw where "s = svcw.extend (demo_svcw [] [] ?ords [0] [1, 2] [])
     \<lparr>t_heap = Map.empty, t_next = 0, t_current = [], t_sequence = 0\<rparr>"
  have h: "b_heap s = map_of (enumerate 0 ?ords)" "b_next s = 3"
    "b_book s = (\<lambda>sd. demo_book (case sd of Bids \<Rightarrow> [0] | Asks \<Rightarrow> [Suc 0, 2] | Mine \<Rightarrow> []))"
    by (simp_all add: s_def svcw.defs demo_svcw_def)
  have o: "obj s 0 = demo_order ''b'' BID 20 5" "obj s (Suc 0) = (demo_order ''x'' ASK 15 4)\<lparr>o_isMyOrder := False\<rparr>"
    "obj s 2 = (demo_order ''y'' ASK 9 5)\<lparr>o_isMyOrder := False\<rparr>"
    by (simp_all add: h numeral_eq_Suc)
  have dm: "dom (b_heap s) = {0, 1, 2}" by (auto simp: h numeral_eq_Suc split: if_splits)
  have i: "books_inv s"
    unfolding books_inv_def book_inv_def dm
    by (simp add: h(2,3) oid_def o demo_order_simps no_quote_def)
  have sh: "shown demo s Asks (o_currency (obj s 0)) = [1, 2]"
    by (simp add: shown_def h(3) o demo_order_simps demo_def demo_qsort_def compareOrder_def)
  have r: "0 \<in> set (refs s Bids)" by (simp add: h(3))
  have l: "\<not> o_locked (obj s 0)" by (simp add: o demo_order_simps)
  have pl: "[(1, 15), (2, 5)] = match_plan (obj s) (o_price (obj s 0)) (o_matched (obj s 0))
      (shown demo s Asks (o_currency (obj s 0))) (o_amount (obj s 0))"
    unfolding sh by (simp add: o demo_order_simps Let_def)
  from match_follows_plan [OF demo_sorts i r refl l pl] show ?thesis
    unfolding s_def by (intro exI [of _ "[(1, 15), (2, 5)]"]) (simp add: demo_order_simps)
qed

end
