(* ===== verification/Purchase.thy ===== *)
theory Purchase
  imports TxLaws
begin

text \<open>
  A purchase between two friends, from the bid of the buyer to the contracts both sides keep:
  what each of the four steps does, and the run of two nodes that exchange the items.
\<close>

section \<open>Stepping\<close>

lemma thn_step: "m s = (Inr x, t) \<Longrightarrow> k t = r \<Longrightarrow> thn m k s = r"
  by (simp add: thn_def bnd_step)

lemma whn_step: "b \<Longrightarrow> m s = r \<Longrightarrow> whn b m s = r"
  by (simp add: whn_def)

lemma update_fields [simp]:
  "b_heap (registered j c u) = b_heap u" "b_book (registered j c u) = b_book u" "b_next (registered j c u) = b_next u"
  "n_router (registered j c u) = n_router u" "w_online (registered j c u) = w_online u" "w_now (registered j c u) = w_now u"
  "w_rpc (registered j c u) = w_rpc u" "k_heap (registered j c u) = k_heap u" "k_next (registered j c u) = k_next u"
  "k_contracts (registered j c u) = k_contracts u" "s_raw (registered j c u) = s_raw u"
  "b_heap (with_tm r t u) = b_heap u" "b_book (with_tm r t u) = b_book u" "b_next (with_tm r t u) = b_next u"
  "n_router (with_tm r t u) = n_router u" "w_online (with_tm r t u) = w_online u" "w_now (with_tm r t u) = w_now u"
  "w_rpc (with_tm r t u) = w_rpc u" "k_heap (with_tm r t u) = k_heap u" "k_next (with_tm r t u) = k_next u"
  "k_contracts (with_tm r t u) = k_contracts u" "s_raw (with_tm r t u) = s_raw u"
  "b_heap (sent_to p i v) = b_heap v" "b_book (sent_to p i v) = b_book v" "b_next (sent_to p i v) = b_next v"
  "n_router (sent_to p i v) = n_router v" "w_online (sent_to p i v) = w_online v" "w_now (sent_to p i v) = w_now v"
  "w_rpc (sent_to p i v) = w_rpc v" "k_heap (sent_to p i v) = k_heap v" "k_next (sent_to p i v) = k_next v"
  "k_contracts (sent_to p i v) = k_contracts v" "s_raw (sent_to p i v) = s_raw v"
  by (simp_all add: registered_def with_tm_def sent_to_def)

lemma contract_fields [simp]:
  "b_heap (ContractLaws.registered r k s) = b_heap s" "b_book (ContractLaws.registered r k s) = b_book s"
  "b_next (ContractLaws.registered r k s) = b_next s" "n_router (ContractLaws.registered r k s) = n_router s"
  "w_online (ContractLaws.registered r k s) = w_online s" "w_now (ContractLaws.registered r k s) = w_now s"
  "w_rpc (ContractLaws.registered r k s) = w_rpc s" "s_sent (ContractLaws.registered r k v) = s_sent v"
  "s_raw (ContractLaws.registered r k v) = s_raw v" "t_heap (ContractLaws.registered r k u) = t_heap u"
  "t_current (ContractLaws.registered r k u) = t_current u" "t_next (ContractLaws.registered r k u) = t_next u"
  by (simp_all add: ContractLaws.registered_def)

section \<open>The buyer asks\<close>

lemma new_sender_ok:
  "new_BtcContract E b fee price cur SENDER cp 0 s = (Inr (k_next s),
     ContractLaws.registered (k_next s) (fresh_contract b fee price cur SENDER cp (w_now s)) s)"
  by (simp add: new_BtcContract_def prog_step prog_apply ContractLaws.registered_def fresh_contract_def)

lemma upd_order_run: "b_heap s r = Some x \<Longrightarrow> upd_order r f s = (Inr (), s\<lparr>b_heap := (b_heap s)(r \<mapsto> f x)\<rparr>)"
  by (simp add: upd_order_def get_order_def prog_defs)

lemma get_order_run: "b_heap s r = Some x \<Longrightarrow> get_order r s = (Inr x, s)"
  by (simp add: get_order_def deref_def)

lemma init_runs:
  assumes "b_heap s other_r = Some other" and "b_heap s my_r = Some my" and "k_heap s k_r = Some k0"
    and "x_new_address E (w_rpc s) = dest" and "dest \<noteq> []" and "k = k0\<lparr>k_destAddress := dest\<rparr>"
  shows "TmContractCoordinator_init E other_r (Some my_r) (Some k_r) s = (Inr ZR_SUCCESS,
    sent_to (k_counterParty k0) (RemoteTxItem (o_order_id other) QUERY SERVER (o_order_id my) (query_payload E k dest 0))
      (s\<lparr>w_rpc := Suc (w_rpc s), k_heap := (k_heap s)(k_r \<mapsto> k)\<rparr>))"
  unfolding TmContractCoordinator_init_def option.case
  using assms by (simp add: bnd_def [of "rpc_call _"] rpc_call_apply setBtcAddress_def thn_def bnd_def [of "upd_contract _ _"]
      upd_contract_ok [of _ _ k0] bnd_def [of "get_order _"] get_order_run bnd_need bnd_def [of "get_contract _"]
      get_contract_ok send_remote_def run_simps bnd_def [of "sendItem _ _"] prog_apply)

text \<open>The manager of a purchase this node started, and its contract.\<close>

definition buying :: "'z tmw_scheme \<Rightarrow> TransactionId \<Rightarrow> oref \<Rightarrow> oref \<Rightarrow> cref \<Rightarrow> BtcContract \<Rightarrow> bool" where
  "buying s txId other_r my_r k_r k \<longleftrightarrow> (\<exists>r t. manager_of txId s = Some r \<and> t_heap s r = Some t \<and> tm_TxId t = txId \<and>
     tm_class t = TmContractCoordinator other_r (Some my_r) (Some k_r)) \<and> k_heap s k_r = Some k"

lemma buy_runs:
  assumes "b_heap s other_r = Some other" and "b_heap s my_r = Some my" and "my_r \<noteq> other_r"
    and "o_currency other < length (currencySymbols (x_build E))" and "cur = currencySymbols (x_build E) ! o_currency other"
    and "TraceRouter_nextHop (n_router s) (o_order_id other) = seller" and "seller \<noteq> []"
    and "x_new_address E (w_rpc s) = dest" and "dest \<noteq> []"
    and "k = (fresh_contract amount 0 (o_price other) cur SENDER seller (w_now s))\<lparr>k_destAddress := dest\<rparr>"
    and "txId = o_order_id other @ '':'' @ o_order_id my"
  shows "\<exists>s'. MyOrders_buy E other_r my_r amount s = (Inr (), s') \<and> buying s' txId other_r my_r (k_next s) k \<and>
    k_contracts s' = k_contracts s @ [k_next s] \<and> t_current s' = map_put txId (t_next s) (t_current s) \<and>
    b_heap s' = (b_heap s)(my_r \<mapsto> my\<lparr>o_locked := True\<rparr>) \<and> b_book s' = b_book s \<and> b_next s' = b_next s \<and>
    db_tables s' = db_tables s \<and> w_online s' = w_online s \<and> n_router s' = n_router s \<and> (\<forall>r. r \<noteq> k_next s \<longrightarrow> k_heap s' r = k_heap s r) \<and>
    s_sent s' = s_sent s @ [\<lparr>pk_peer = seller, pk_item = RemoteTxItem (o_order_id other) QUERY SERVER (o_order_id my)
      (query_payload E k dest 0)\<rparr>]"
proof -
  let ?c = "\<lambda>p. TmContractCoordinator other_r (Some my_r) p"
  let ?s1 = "registered txId (?c None) s"
  let ?k0 = "fresh_contract amount 0 (o_price other) cur SENDER seller (w_now s)"
  let ?s2 = "ContractLaws.registered (k_next s) ?k0 ?s1"
  let ?t = "\<lparr>tm_TxId = txId, tm_Phase = INIT, tm_startOfPhase = w_now s, tm_class = ?c (Some (k_next s))\<rparr>"
  let ?s3 = "with_tm (t_next s) ?t ?s2"
  let ?s4 = "?s3\<lparr>b_heap := (b_heap s)(my_r \<mapsto> my\<lparr>o_locked := True\<rparr>)\<rparr>"
  have "TmContract_id (o_order_id other) (o_order_id my) = txId" by (simp add: assms(11) TmContract_id_def)
  then have n: "new_TransactionManager (TmContract_id (o_order_id other) (o_order_id my)) (?c None) s = (Inr (t_next s), ?s1)"
    by (simp add: run_simps)
  have c: "bnd (symbol_of E (o_currency other)) (\<lambda>cur. bnd (new_BtcContract E amount 0 (o_price other) cur SENDER seller 0)
     (\<lambda>k. set_class (t_next s) (?c (Some k)))) ?s1 = (Inr (), ?s3)"
    by (rule bnd_step [where x = cur and t = ?s1], simp add: symbol_of_def assms(4,5) prog_apply,
        rule bnd_step, rule new_sender_ok) (simp add: set_class_def run_simps with_tm_def registered_def ContractLaws.registered_def)
  have "new_TmContractCoordinator E other_r my_r amount s = (Inr (t_next s), ?s4)"
    unfolding new_TmContractCoordinator_def Let_def
    by (rule bnd_step, rule get_order_run [OF assms(1)], rule bnd_step, rule get_order_run [OF assms(2)],
        rule bnd_step, rule n, rule bnd_step, rule prog_apply, rule thn_step, rule whn_step, simp add: assms(6,7),
        rule try_catch_Inr, simp only: update_fields assms(6), rule c, rule thn_step, rule upd_order_run [where x = my],
        simp add: assms(2), simp add: prog_apply)
  moreover have "TmContractCoordinator_init E other_r (Some my_r) (Some (k_next s)) ?s4 = (Inr ZR_SUCCESS,
      sent_to seller (RemoteTxItem (o_order_id other) QUERY SERVER (o_order_id my) (query_payload E k dest 0))
      (?s4\<lparr>w_rpc := Suc (w_rpc ?s4), k_heap := (k_heap ?s4)(k_next s \<mapsto> k)\<rparr>))" (is "_ = (_, ?s6)")
    using init_runs [of ?s4 other_r other my_r "my\<lparr>o_locked := True\<rparr>" "k_next s" ?k0 E dest k] assms(1,3,8-10)
    by (simp add: fresh_contract_def)
  moreover have "get_tm (t_next s) ?s4 = (Inr ?t, ?s4)" by (rule run_simps) simp
  ultimately have "MyOrders_buy E other_r my_r amount s = (Inr (), ?s6)"
    unfolding MyOrders_buy_def
    by (intro bnd_step [where x = "t_next s" and t = ?s4] bnd_step [where x = ?t and t = ?s4]) (simp_all add: bnd_def prog_defs)
  then show ?thesis
    by (intro exI [of _ ?s6]) (simp add: buying_def manager_of_def look_put assms(11))
qed

section \<open>The seller votes\<close>

text \<open>What the steps on a contract and on an order leave alone.\<close>

definition frame :: "'z tmw_scheme \<Rightarrow> 'z tmw_scheme \<Rightarrow> bool" where
  "frame s t \<longleftrightarrow> b_book t = b_book s \<and> b_next t = b_next s \<and> n_router t = n_router s \<and> w_online t = w_online s \<and>
     w_rpc t = w_rpc s \<and> w_now t = w_now s \<and> k_contracts t = k_contracts s \<and> t_heap t = t_heap s \<and>
     t_current t = t_current s \<and> t_next t = t_next s \<and> s_sent t = s_sent s \<and> s_raw t = s_raw s \<and>
     t_btccontracts (db_tables t) = t_btccontracts (db_tables s)"

lemma alloc_fields [simp]:
  "b_heap (alloc_set E cp cur v s) = b_heap s" "b_book (alloc_set E cp cur v s) = b_book s"
  "b_next (alloc_set E cp cur v s) = b_next s" "n_router (alloc_set E cp cur v s) = n_router s"
  "w_online (alloc_set E cp cur v s) = w_online s" "s_sent (alloc_set E cp cur v x) = s_sent x"
  "s_raw (alloc_set E cp cur v x) = s_raw x" "t_heap (alloc_set E cp cur v u) = t_heap u"
  "t_current (alloc_set E cp cur v u) = t_current u" "t_next (alloc_set E cp cur v u) = t_next u"
  by (simp_all add: alloc_set_def)

text \<open>The contract of the seller's side takes the whole amount, or what the line can pay.\<close>

lemma contract_runs:
  assumes "line_ok E cp cur s acc" and "0 < price" and "0 < available acc" and "0 \<le> amount"
    and "m = min amount (available acc / price)" and "db_exact E (a_allocation acc + m * price)"
  shows "\<exists>s'. new_BtcContract E amount 0 price cur RECEIVER cp 0 s =
      (Inr (k_next s), ContractLaws.registered (k_next s) (fresh_contract m 0 price cur RECEIVER cp (w_now s)) s') \<and>
    frame s s' \<and> k_heap s' = k_heap s \<and> k_next s' = k_next s \<and> b_heap s' = b_heap s \<and>
    line_ok E cp cur s' (acc\<lparr>a_allocation := a_allocation acc + m * price\<rparr>) \<and>
    abs_peers (db_tables s') = (abs_peers (db_tables s))((cp, cur) \<mapsto> acc\<lparr>a_allocation := a_allocation acc + m * price\<rparr>)"
proof -
  let ?s = "alloc_set E cp cur (a_allocation acc + m * price) s"
  have m: "(if available acc < amount * price + 0 then (available acc - 0) / price else amount) = m"
    using assms(2) by (auto simp: assms(5) min_def field_simps)
  have "receiver_funds E amount 0 price cur cp s = (Inr m, ?s)"
    using receiver_funds_ok [OF assms(1,2), of amount 0] assms(2,3) m by (auto split: if_splits simp: field_simps)
  from new_receiver_ok [OF this] show ?thesis
    using assms(1) abs_alloc [OF assms(1,6)] by (intro exI [of _ ?s]) (simp add: frame_def line_ok_def)
qed

lemma commitment_runs:
  assumes "k_heap s k_r = Some k" and "k_party k = RECEIVER" and "line_ok E (k_counterParty k) (k_currencySym k) s acc"
    and "b_heap s my_r = Some my" and "leftover = o_amount my - o_commitment my" and "n = min (k_btcAmount k) leftover"
    and "v = a_allocation acc - (k_btcAmount k - n) * k_price k" and "db_exact E v"
  shows "\<exists>s'. payee_commitment E my_r k_r leftover (k_btcAmount k) s = (Inr n, s') \<and> frame s s' \<and>
    k_heap s' = (k_heap s)(k_r \<mapsto> k\<lparr>k_btcAmount := n\<rparr>) \<and>
    b_heap s' = (b_heap s)(my_r \<mapsto> my\<lparr>o_commitment := o_commitment my + n\<rparr>) \<and>
    abs_peers (db_tables s') = (abs_peers (db_tables s))((k_counterParty k, k_currencySym k) \<mapsto> acc\<lparr>a_allocation := v\<rparr>) \<and>
    peers_ok (db_tables s')"
proof (cases "leftover < k_btcAmount k")
  case True
  let ?s = "s\<lparr>b_heap := (b_heap s)(my_r \<mapsto> my\<lparr>o_commitment := o_amount my\<rparr>)\<rparr>"
  have l: "line_ok E (k_counterParty k) (k_currencySym k) ?s acc" using assms(3) by (simp add: line_ok_def)
  have k: "k_heap ?s k_r = Some k" using assms(1) by simp
  have n: "n = leftover" using True by (simp add: assms(6))
  have v: "a_allocation acc - (getFiatAmount k - getFiatAmount (k\<lparr>k_btcAmount := leftover\<rparr>)) = v"
    by (simp add: assms(7) n getFiatAmount_def algebra_simps)
  show ?thesis
    using True abs_alloc [OF l assms(8)] setBtcAmount_ok [OF k l, of leftover] assms(2)
    by (simp add: payee_commitment_def thn_def bnd_def [of "upd_order _ _"] upd_order_run [of _ _ my] assms(4)
        bnd_def [of "setBtcAmount _ _ _"] v [unfolded assms(5)] prog_apply frame_def n assms(5))
next
  case False
  then have "n = k_btcAmount k" by (simp add: assms(6))
  then show ?thesis
    using False assms(1,3,4)
    by (simp add: payee_commitment_def thn_def bnd_def upd_order_run [of _ _ my] prog_apply frame_def assms(7) line_ok_def
        map_upd_triv)
qed

lemma vote_sent:
  assumes "b_heap s my_r = Some my" and "k_heap s k_r = Some k" and "k_btcAmount k = n" and "t_heap s r = Some t"
    and "x_mk_raw_tx E (w_rpc s) n (o_btcAddr my) dest = (sendAddr, Some (hex, tid))"
  shows "payee_vote E r my_r k_r n dest i s = (Inr ZR_SUCCESS, sent_to (rx_peer i)
    (RemoteTxItem (o_order_id my) VOTE_YES CLIENT (rx_payerId i) (vote_payload E n tid))
    (s\<lparr>w_rpc := Suc (w_rpc s), b_heap := (b_heap s)(my_r \<mapsto> my\<lparr>o_btcAddr := sendAddr\<rparr>),
       t_heap := (t_heap s)(r \<mapsto> t\<lparr>tm_class := TmContractCohortePayee (Some k_r) hex (Some my_r)\<rparr>),
       k_heap := (k_heap s)(k_r \<mapsto> k\<lparr>k_destAddress := dest, k_btcTxId := tid\<rparr>)\<rparr>))"
  unfolding payee_vote_def
  using assms by (simp add: bnd_def [of "get_order _"] get_order_run [of _ _ my] bnd_def [of "rpc_call _"] rpc_call_apply
      thn_def bnd_def [of "upd_order _ _"] upd_order_run [of _ _ my] set_class_def bnd_def [of "upd_tm _ _"] run_simps
      setBtcAddress_def setBtcTxId_def bnd_def [of "upd_contract _ _"] upd_contract_ok
      bnd_def [of "get_contract _"] get_contract_ok send_remote_def bnd_def [of "sendItem _ _"] prog_apply with_tm_def)

text \<open>A query that the seller's node can serve, and the amount it votes for.\<close>

definition serves :: "ext \<Rightarrow> remote_tx \<Rightarrow> 'z tmw_scheme \<Rightarrow> oref \<Rightarrow> Order \<Rightarrow> string \<Rightarrow> ZR_Number \<Rightarrow> ZR_Number
    \<Rightarrow> BitcoinAddress \<Rightarrow> account \<Rightarrow> ZR_Number \<Rightarrow> bool" where
  "serves E i s my_r my cur price amount dest acc n \<longleftrightarrow>
     books_inv s \<and> my_r \<in> set (refs s Mine) \<and> b_heap s my_r = Some my \<and> o_order_id my = rx_addr i \<and>
     o_currency my < length (currencySymbols (x_build E)) \<and> cur = currencySymbols (x_build E) ! o_currency my \<and>
     o_price my \<le> price \<and> o_commitment my < o_amount my \<and>
     line_ok E (rx_peer i) cur s acc \<and> 0 < available acc \<and> 0 < price \<and> 0 < amount \<and>
     (\<exists>f a z. TransactionManager_split (rx_payload i) = [f, cur, dest, a, z] \<and> fromFractionString E f = Inr (amount * price) \<and>
        fromFractionString E a = Inr amount \<and> fromFractionString E z = Inr 0) \<and>
     n = min (min amount (available acc / price)) (o_amount my - o_commitment my) \<and>
     db_exact E (a_allocation acc + min amount (available acc / price) * price) \<and> db_exact E (a_allocation acc + n * price)"

text \<open>A query of which a contract can be made, before the price and what is left of the order count.\<close>

definition tenders :: "ext \<Rightarrow> remote_tx \<Rightarrow> 'z tmw_scheme \<Rightarrow> oref \<Rightarrow> Order \<Rightarrow> string \<Rightarrow> ZR_Number \<Rightarrow> ZR_Number
    \<Rightarrow> BitcoinAddress \<Rightarrow> account \<Rightarrow> ZR_Number \<Rightarrow> bool" where
  "tenders E i s my_r my cur price amount dest acc m \<longleftrightarrow>
     books_inv s \<and> my_r \<in> set (refs s Mine) \<and> b_heap s my_r = Some my \<and> o_order_id my = rx_addr i \<and>
     o_currency my < length (currencySymbols (x_build E)) \<and> cur = currencySymbols (x_build E) ! o_currency my \<and>
     line_ok E (rx_peer i) cur s acc \<and> 0 < available acc \<and> 0 < price \<and> 0 < amount \<and>
     (\<exists>f a z. TransactionManager_split (rx_payload i) = [f, cur, dest, a, z] \<and> fromFractionString E f = Inr (amount * price) \<and>
        fromFractionString E a = Inr amount \<and> fromFractionString E z = Inr 0) \<and>
     m = min amount (available acc / price) \<and> db_exact E (a_allocation acc + m * price)"

lemma serves_tenders:
  assumes "serves E i s my_r my cur price amount dest acc n" and "m = min amount (available acc / price)"
  shows "tenders E i s my_r my cur price amount dest acc m"
  using assms unfolding serves_def tenders_def by blast

text \<open>The contract is made, and its price reserved, before the price is looked at.\<close>

lemma query_contracted:
  assumes "tenders E i s my_r my cur price amount dest acc m" and "t_heap s r = Some t" and "tm_Phase t = INIT"
    and "k = fresh_contract m 0 price cur RECEIVER (rx_peer i) (w_now s)" and "leftover = o_amount my - o_commitment my"
  shows "\<exists>s'. TmContractCohortePayee_doQuery E r t None [] None i s =
      (if price < o_price my \<or> leftover = 0 then TmContractCohortePayee_voteNo my_r i
       else bnd (payee_commitment E my_r (k_next s) leftover m) (\<lambda>n. payee_vote E r my_r (k_next s) n dest i)) s' \<and>
    t_heap s' = (t_heap s)(r \<mapsto> t\<lparr>tm_Phase := QUERY, tm_class := TmContractCohortePayee (Some (k_next s)) [] (Some my_r)\<rparr>) \<and>
    t_current s' = t_current s \<and> k_heap s' = (k_heap s)(k_next s \<mapsto> k) \<and> k_contracts s' = k_contracts s @ [k_next s] \<and>
    b_heap s' = b_heap s \<and> b_book s' = b_book s \<and> b_next s' = b_next s \<and> w_online s' = w_online s \<and> w_rpc s' = w_rpc s \<and>
    s_raw s' = s_raw s \<and> s_sent s' = s_sent s \<and> t_btccontracts (db_tables s') = t_btccontracts (db_tables s) \<and>
    line_ok E (rx_peer i) cur s' (acc\<lparr>a_allocation := a_allocation acc + m * price\<rparr>) \<and>
    abs_peers (db_tables s') = (abs_peers (db_tables s))((rx_peer i, cur) \<mapsto> acc\<lparr>a_allocation := a_allocation acc + m * price\<rparr>)"
proof -
  let ?cp = "rx_peer i" and ?q = "k_next s"
  let ?cl = "\<lambda>m_payee m_myOrder. TmContractCohortePayee m_payee [] m_myOrder"
  let ?t2 = "t\<lparr>tm_Phase := QUERY, tm_class := ?cl None (Some my_r)\<rparr>" and ?t3 = "t\<lparr>tm_Phase := QUERY, tm_class := ?cl (Some ?q) (Some my_r)\<rparr>"
  let ?s1 = "with_tm r (t\<lparr>tm_Phase := QUERY\<rparr>) s" and ?s2 = "with_tm r ?t2 s"
  have sv: "books_inv s" "my_r \<in> set (refs s Mine)" "b_heap s my_r = Some my" "o_order_id my = rx_addr i"
    "o_currency my < length (currencySymbols (x_build E))" "cur = currencySymbols (x_build E) ! o_currency my"
    "line_ok E ?cp cur s acc" "0 < available acc" "0 < price" "0 < amount" "m = min amount (available acc / price)"
    "db_exact E (a_allocation acc + m * price)"
    using assms(1) unfolding tenders_def by blast+
  obtain f a z where pl: "TransactionManager_split (rx_payload i) = [f, cur, dest, a, z]"
    "fromFractionString E f = Inr (amount * price)" "fromFractionString E a = Inr amount" "fromFractionString E z = Inr 0"
    using assms(1) by (auto simp: tenders_def)
  have l2: "line_ok E ?cp cur ?s2 acc" using sv(7) by (simp add: line_ok_def)
  obtain s3 where s3: "new_BtcContract E amount 0 price cur RECEIVER ?cp 0 ?s2 =
      (Inr ?q, ContractLaws.registered ?q k s3)" "frame ?s2 s3" "k_heap s3 = k_heap s" "k_next s3 = ?q" "b_heap s3 = b_heap s"
    "line_ok E ?cp cur s3 (acc\<lparr>a_allocation := a_allocation acc + m * price\<rparr>)"
    "abs_peers (db_tables s3) = (abs_peers (db_tables s))((?cp, cur) \<mapsto> acc\<lparr>a_allocation := a_allocation acc + m * price\<rparr>)"
    using contract_runs [OF l2 sv(9,8) less_imp_le [OF sv(10)] sv(11,12)] by (auto simp: assms(4))
  let ?s5 = "with_tm r ?t3 (ContractLaws.registered ?q k s3)"
  have made: "try_catch catch_runtime_error (bnd (new_BtcContract E amount 0 price cur RECEIVER ?cp 0) (\<lambda>k_r.
      thn (set_class r (?cl (Some k_r) (Some my_r))) (bnd (get_contract k_r) (\<lambda>k. ret (Some (k_r, k_btcAmount k)))))) h ?s2
    = (Inr (Some (?q, m)), ?s5)" for h
  proof -
    have g: "t_heap (ContractLaws.registered ?q k s3) r = Some ?t2" using s3(2) by (simp add: frame_def)
    have c: "set_class r (?cl (Some ?q) (Some my_r)) (ContractLaws.registered ?q k s3) = (Inr (), ?s5)"
      using g by (simp add: set_class_def run_simps)
    show ?thesis
      by (rule try_catch_Inr, rule bnd_step, rule s3(1), rule thn_step, rule c, rule bnd_step, rule get_contract_ok, simp)
        (simp add: prog_apply assms(4) fresh_contract_def)
  qed
  have a: "set_phase r QUERY s = (Inr (), ?s1)" using assms(2) by (simp add: set_phase_def run_simps)
  have o: "oid ?s1 = oid s" by (simp add: oid_def fun_eq_iff)
  have inv: "book_inv s Mine" by (rule books_inv_book [OF sv(1)])
  have "List.find (\<lambda>q. oid s q = rx_addr i) (refs s Mine) = Some my_r"
    using find_oid_unique [OF inv sv(2)] sv(3,4) by (simp add: oid_def)
  moreover have "book_inv ?s1 Mine" using inv o by (simp add: book_inv_def)
  ultimately have b: "OrderBook_find Mine (rx_addr i) ?s1 = (Inr (Some my_r), ?s1)" using find_oid [of ?s1 Mine] o by simp
  have c: "set_class r (?cl None (Some my_r)) ?s1 = (Inr (), ?s2)" by (simp add: set_class_def run_simps with_tm_def)
  have pr: "zr_div (amount * price) amount = Inr price" using sv(10) by (simp add: zr_div_def)
  have g: "get_order my_r ?s5 = (Inr my, ?s5)" using s3(5) sv(3) by (simp add: get_order_run)
  have y: "symbol_of E (o_currency my) ?s5 = (Inr cur, ?s5)" using sv(5,6) by (simp add: symbol_of_def prog_apply)
  have "TmContractCohortePayee_doQuery E r t None [] None i s =
      (if price < o_price my \<or> leftover = 0 then TmContractCohortePayee_voteNo my_r i
       else bnd (payee_commitment E my_r ?q leftover m) (\<lambda>n. payee_vote E r my_r ?q n dest i)) ?s5"
    unfolding TmContractCohortePayee_doQuery_def Let_def pl(1) assms(3)
    by (simp only: refl if_False not_True_eq_False, rule thn_step, rule a, rule bnd_step, rule b, rule thn_step, rule c)
      (simp add: prog_step pl(2-4) pr bnd_def [of "try_catch _ _ _"] made [unfolded prog_step(9)] bnd_def [of "get_order _"] g
        bnd_def [of "symbol_of _ _"] y assms(5))
  then show ?thesis
    using s3(2-7) by (intro exI [of _ ?s5]) (simp add: frame_def line_ok_def)
qed

text \<open>Up to the Bitcoin transaction: the amount is committed and reserved.\<close>

lemma query_prepared:
  assumes "serves E i s my_r my cur price amount dest acc n" and "t_heap s r = Some t" and "tm_Phase t = INIT"
    and "k = fresh_contract n 0 price cur RECEIVER (rx_peer i) (w_now s)"
  shows "\<exists>s'. TmContractCohortePayee_doQuery E r t None [] None i s = payee_vote E r my_r (k_next s) n dest i s' \<and>
    t_heap s' = (t_heap s)(r \<mapsto> t\<lparr>tm_Phase := QUERY, tm_class := TmContractCohortePayee (Some (k_next s)) [] (Some my_r)\<rparr>) \<and>
    t_current s' = t_current s \<and> k_heap s' = (k_heap s)(k_next s \<mapsto> k) \<and> k_contracts s' = k_contracts s @ [k_next s] \<and>
    b_heap s' = (b_heap s)(my_r \<mapsto> my\<lparr>o_commitment := o_commitment my + n\<rparr>) \<and>
    b_book s' = b_book s \<and> b_next s' = b_next s \<and> w_online s' = w_online s \<and> w_rpc s' = w_rpc s \<and>
    s_raw s' = s_raw s \<and> s_sent s' = s_sent s \<and> t_btccontracts (db_tables s') = t_btccontracts (db_tables s) \<and>
    peers_ok (db_tables s') \<and>
    abs_peers (db_tables s') = (abs_peers (db_tables s))((rx_peer i, cur) \<mapsto> acc\<lparr>a_allocation := a_allocation acc + n * price\<rparr>)"
proof -
  let ?m = "min amount (available acc / price)" and ?cp = "rx_peer i" and ?q = "k_next s" and ?left = "o_amount my - o_commitment my"
  let ?k0 = "fresh_contract ?m 0 price cur RECEIVER ?cp (w_now s)"
  have sv: "b_heap s my_r = Some my" "o_price my \<le> price" "o_commitment my < o_amount my"
    "n = min ?m ?left" "db_exact E (a_allocation acc + n * price)" using assms(1) unfolding serves_def by blast+
  obtain s5 where s5: "TmContractCohortePayee_doQuery E r t None [] None i s =
      (if price < o_price my \<or> ?left = 0 then TmContractCohortePayee_voteNo my_r i
       else bnd (payee_commitment E my_r ?q ?left ?m) (\<lambda>n. payee_vote E r my_r ?q n dest i)) s5"
    "t_heap s5 = (t_heap s)(r \<mapsto> t\<lparr>tm_Phase := QUERY, tm_class := TmContractCohortePayee (Some ?q) [] (Some my_r)\<rparr>)"
    "t_current s5 = t_current s" "k_heap s5 = (k_heap s)(?q \<mapsto> ?k0)" "k_contracts s5 = k_contracts s @ [?q]"
    "b_heap s5 = b_heap s" "b_book s5 = b_book s" "b_next s5 = b_next s" "w_online s5 = w_online s" "w_rpc s5 = w_rpc s"
    "s_raw s5 = s_raw s" "s_sent s5 = s_sent s" "t_btccontracts (db_tables s5) = t_btccontracts (db_tables s)"
    "line_ok E ?cp cur s5 (acc\<lparr>a_allocation := a_allocation acc + ?m * price\<rparr>)"
    "abs_peers (db_tables s5) = (abs_peers (db_tables s))((?cp, cur) \<mapsto> acc\<lparr>a_allocation := a_allocation acc + ?m * price\<rparr>)"
    using query_contracted [OF serves_tenders [OF assms(1) refl] assms(2,3) refl refl] by blast
  have k5: "k_heap s5 ?q = Some ?k0" "k_party ?k0 = RECEIVER" "k_counterParty ?k0 = ?cp" "k_currencySym ?k0 = cur"
    "k_btcAmount ?k0 = ?m" "k_price ?k0 = price" by (simp_all add: s5(4) fresh_contract_def)
  have l5: "line_ok E (k_counterParty ?k0) (k_currencySym ?k0) s5 (acc\<lparr>a_allocation := a_allocation acc + ?m * price\<rparr>)"
    using s5(14) by (simp only: k5)
  have n5: "n = min (k_btcAmount ?k0) ?left" using sv(4) by (simp add: k5)
  have v5: "a_allocation acc + n * price = a_allocation (acc\<lparr>a_allocation := a_allocation acc + ?m * price\<rparr>) - (k_btcAmount ?k0 - n) * k_price ?k0"
    by (simp add: k5 algebra_simps)
  have b5: "b_heap s5 my_r = Some my" using s5(6) sv(1) by simp
  obtain s6 where s6: "payee_commitment E my_r ?q ?left ?m s5 = (Inr n, s6)" "frame s5 s6"
    "k_heap s6 = (k_heap s5)(?q \<mapsto> ?k0\<lparr>k_btcAmount := n\<rparr>)"
    "b_heap s6 = (b_heap s5)(my_r \<mapsto> my\<lparr>o_commitment := o_commitment my + n\<rparr>)"
    "abs_peers (db_tables s6) = (abs_peers (db_tables s5))((?cp, cur) \<mapsto> acc\<lparr>a_allocation := a_allocation acc + n * price\<rparr>)"
    "peers_ok (db_tables s6)"
    using commitment_runs [OF k5(1,2) l5 b5 refl n5 v5 sv(5)] by (auto simp: k5)
  have "TmContractCohortePayee_doQuery E r t None [] None i s = payee_vote E r my_r ?q n dest i s6"
    using sv(2,3) by (simp add: s5(1) bnd_def [of "payee_commitment _ _ _ _ _"] s6(1))
  then show ?thesis
    using s5(2-) s6(2-6) by (intro exI [of _ s6]) (simp add: frame_def assms(4) fresh_contract_def)
qed

lemma query_served:
  assumes "serves E i s my_r my cur price amount dest acc n" and "t_heap s r = Some t" and "tm_Phase t = INIT"
    and "x_mk_raw_tx E (w_rpc s) n (o_btcAddr my) dest = (sendAddr, Some (hex, tid))"
    and "k = (fresh_contract n 0 price cur RECEIVER (rx_peer i) (w_now s))\<lparr>k_destAddress := dest, k_btcTxId := tid\<rparr>"
  shows "\<exists>s'. TmContractCohortePayee_doQuery E r t None [] None i s = (Inr ZR_SUCCESS, s') \<and>
    t_heap s' = (t_heap s)(r \<mapsto> t\<lparr>tm_Phase := QUERY, tm_class := TmContractCohortePayee (Some (k_next s)) hex (Some my_r)\<rparr>) \<and>
    t_current s' = t_current s \<and> k_heap s' = (k_heap s)(k_next s \<mapsto> k) \<and> k_contracts s' = k_contracts s @ [k_next s] \<and>
    b_heap s' = (b_heap s)(my_r \<mapsto> my\<lparr>o_commitment := o_commitment my + n, o_btcAddr := sendAddr\<rparr>) \<and>
    b_book s' = b_book s \<and> b_next s' = b_next s \<and> w_online s' = w_online s \<and> s_raw s' = s_raw s \<and>
    t_btccontracts (db_tables s') = t_btccontracts (db_tables s) \<and> peers_ok (db_tables s') \<and>
    abs_peers (db_tables s') = (abs_peers (db_tables s))((rx_peer i, cur) \<mapsto> acc\<lparr>a_allocation := a_allocation acc + n * price\<rparr>) \<and>
    s_sent s' = s_sent s @ [\<lparr>pk_peer = rx_peer i,
      pk_item = RemoteTxItem (rx_addr i) VOTE_YES CLIENT (rx_payerId i) (vote_payload E n tid)\<rparr>]"
proof -
  let ?k0 = "fresh_contract n 0 price cur RECEIVER (rx_peer i) (w_now s)" and ?my = "my\<lparr>o_commitment := o_commitment my + n\<rparr>"
  let ?t3 = "t\<lparr>tm_Phase := QUERY, tm_class := TmContractCohortePayee (Some (k_next s)) [] (Some my_r)\<rparr>"
  have i: "o_order_id my = rx_addr i" using assms(1) by (simp add: serves_def)
  obtain s6 where s6: "TmContractCohortePayee_doQuery E r t None [] None i s = payee_vote E r my_r (k_next s) n dest i s6"
    and f: "t_heap s6 = (t_heap s)(r \<mapsto> ?t3)" "t_current s6 = t_current s" "k_heap s6 = (k_heap s)(k_next s \<mapsto> ?k0)"
    "k_contracts s6 = k_contracts s @ [k_next s]" "b_heap s6 = (b_heap s)(my_r \<mapsto> ?my)" "b_book s6 = b_book s" "b_next s6 = b_next s"
    "w_online s6 = w_online s" "w_rpc s6 = w_rpc s" "s_raw s6 = s_raw s" "s_sent s6 = s_sent s"
    "t_btccontracts (db_tables s6) = t_btccontracts (db_tables s)" "peers_ok (db_tables s6)"
    "abs_peers (db_tables s6) = (abs_peers (db_tables s))((rx_peer i, cur) \<mapsto> acc\<lparr>a_allocation := a_allocation acc + n * price\<rparr>)"
    using query_prepared [OF assms(1-3) refl] by blast
  show ?thesis
    unfolding s6 using vote_sent [of s6 my_r ?my "k_next s" ?k0 n r ?t3 E dest sendAddr hex tid i] assms(4) i f
    by (simp add: assms(5) fresh_contract_def)
qed

section \<open>Handlers\<close>

lemma finish_run:
  "finish_tm r ZR_SUCCESS s = (Inr ZR_SUCCESS, s)"
  "t_heap u r = Some t \<Longrightarrow> tm_class t \<noteq> TmLocalCohorte None \<Longrightarrow> v \<noteq> ZR_SUCCESS \<Longrightarrow>
     finish_tm r v u = (Inr v, unregistered r (tm_TxId t) u)"
  by (simp_all add: finish_tm_def thn_def whn_def bnd_def run_simps prog_apply)

lemma remote_new_run:
  assumes "manager_of (rx_addr i @ '':'' @ rx_payerId i) s = None"
    and "OrderBook_find Mine (rx_addr i) s = (Inr (Some q), s)"
    and "process_remote E (t_next s) i (registered (TmContract_id (rx_addr i) (rx_payerId i)) (TmContractCohortePayee None [] None) s)
      = (Inr v, s')"
    and "finish_tm (t_next s) v s' = (Inr v, t)"
  shows "handleTxItem_remote E i s = (Inr v, t)"
  using assms by (simp add: handleTxItem_remote_def Let_def prog_step bnd_def [of "OrderBook_find _ _"]
      bnd_def [of "new_TransactionManager _ _"] run_simps bnd_def [of "try_catch _ _ _"] try_catch_def
      bnd_def [of "process_remote _ _ _"] prog_apply)

lemma remote_run:
  assumes "manager_of (rx_addr i @ '':'' @ rx_payerId i) s = Some r" and "process_remote E r i s = (Inr v, s')"
    and "finish_tm r v s' = (Inr v, t)"
  shows "handleTxItem_remote E i s = (Inr v, t)"
  using assms by (simp add: handleTxItem_remote_def Let_def prog_step bnd_def [of "try_catch _ _ _"] try_catch_def
      bnd_def [of "process_remote _ _ _"] prog_apply)

text \<open>The manager of a purchase somebody makes from this node.\<close>

definition selling :: "'z tmw_scheme \<Rightarrow> TransactionId \<Rightarrow> oref \<Rightarrow> cref \<Rightarrow> BtcContract \<Rightarrow> BitcoinTxHex \<Rightarrow> bool" where
  "selling s txId my_r k_r k hex \<longleftrightarrow> (\<exists>r t. manager_of txId s = Some r \<and> t_heap s r = Some t \<and> tm_TxId t = txId \<and>
     tm_Phase t = QUERY \<and> tm_class t = TmContractCohortePayee (Some k_r) hex (Some my_r)) \<and> k_heap s k_r = Some k"

lemma asked_registered [simp]:
  "oid (registered j c s) = oid s" "books_inv (registered j c s) = books_inv s"
  "line_ok E cp cur (registered j c s) acc = line_ok E cp cur s acc"
  "serves E i (registered j c s) my_r my cur price amount dest acc n = serves E i s my_r my cur price amount dest acc n"
  "tenders E i (registered j c s) my_r my cur price amount dest acc n = tenders E i s my_r my cur price amount dest acc n"
proof -
  show o: "oid (registered j c s) = oid s" by (simp add: oid_def fun_eq_iff)
  show b: "books_inv (registered j c s) = books_inv s" using o by (simp add: books_inv_def book_inv_def)
  show l: "line_ok E cp cur (registered j c s) acc = line_ok E cp cur s acc" for cp by (simp add: line_ok_def)
  show "serves E i (registered j c s) my_r my cur price amount dest acc n = serves E i s my_r my cur price amount dest acc n"
    "tenders E i (registered j c s) my_r my cur price amount dest acc n = tenders E i s my_r my cur price amount dest acc n"
    by (simp_all only: serves_def tenders_def b l update_fields)
qed

text \<open>A query for an order of this node makes a payee.\<close>

lemma query_handled:
  assumes "manager_of txId s = None" and "txId = rx_addr i @ '':'' @ rx_payerId i" and "rx_phase i = QUERY"
    and "books_inv s" and "my_r \<in> set (refs s Mine)" and "b_heap s my_r = Some my" and "o_order_id my = rx_addr i"
    and "t = \<lparr>tm_TxId = txId, tm_Phase = INIT, tm_startOfPhase = w_now s, tm_class = TmContractCohortePayee None [] None\<rparr>"
    and "TmContractCohortePayee_doQuery E (t_next s) t None [] None i (registered txId (TmContractCohortePayee None [] None) s) = (Inr v, s')"
    and "finish_tm (t_next s) v s' = (Inr v, u)"
  shows "handleTxItem_remote E i s = (Inr v, u)"
proof -
  have "List.find (\<lambda>q. oid s q = rx_addr i) (refs s Mine) = Some my_r"
    using find_oid_unique [OF books_inv_book [OF assms(4)] assms(5)] assms(6,7) by (simp add: oid_def)
  then have f: "OrderBook_find Mine (rx_addr i) s = (Inr (Some my_r), s)"
    using find_oid [OF books_inv_book [OF assms(4)], of Mine] by simp
  have m: "TmContract_id (rx_addr i) (rx_payerId i) = txId" by (simp add: assms(2) TmContract_id_def)
  have "process_remote E (t_next s) i (registered txId (TmContractCohortePayee None [] None) s) = (Inr v, s')"
    using assms(9) by (simp add: assms(8) process_remote_def bnd_def [of "get_tm _"] run_simps TmContractCohortePayee_processItem_def assms(3))
  then show ?thesis
    by (intro remote_new_run [OF assms(1) [unfolded assms(2)] f _ assms(10)]) (simp only: m)
qed

lemma seller_votes:
  assumes "manager_of txId s = None" and "txId = rx_addr i @ '':'' @ rx_payerId i" and "rx_phase i = QUERY"
    and "serves E i s my_r my cur price amount dest acc n"
    and "x_mk_raw_tx E (w_rpc s) n (o_btcAddr my) dest = (sendAddr, Some (hex, tid))"
    and "k = (fresh_contract n 0 price cur RECEIVER (rx_peer i) (w_now s))\<lparr>k_destAddress := dest, k_btcTxId := tid\<rparr>"
  shows "\<exists>s'. handleTxItem_remote E i s = (Inr ZR_SUCCESS, s') \<and> selling s' txId my_r (k_next s) k hex \<and>
    t_current s' = map_put txId (t_next s) (t_current s) \<and> k_contracts s' = k_contracts s @ [k_next s] \<and>
    b_heap s' = (b_heap s)(my_r \<mapsto> my\<lparr>o_commitment := o_commitment my + n, o_btcAddr := sendAddr\<rparr>) \<and>
    b_book s' = b_book s \<and> b_next s' = b_next s \<and> w_online s' = w_online s \<and> s_raw s' = s_raw s \<and>
    t_btccontracts (db_tables s') = t_btccontracts (db_tables s) \<and> peers_ok (db_tables s') \<and>
    abs_peers (db_tables s') = (abs_peers (db_tables s))((rx_peer i, cur) \<mapsto> acc\<lparr>a_allocation := a_allocation acc + n * price\<rparr>) \<and>
    s_sent s' = s_sent s @ [\<lparr>pk_peer = rx_peer i,
      pk_item = RemoteTxItem (rx_addr i) VOTE_YES CLIENT (rx_payerId i) (vote_payload E n tid)\<rparr>]"
proof -
  let ?t = "\<lparr>tm_TxId = txId, tm_Phase = INIT, tm_startOfPhase = w_now s, tm_class = TmContractCohortePayee None [] None\<rparr>"
  let ?s = "registered txId (TmContractCohortePayee None [] None) s"
  have b: "books_inv s" "my_r \<in> set (refs s Mine)" "b_heap s my_r = Some my" "o_order_id my = rx_addr i"
    using assms(4) by (simp_all add: serves_def)
  have sv: "serves E i ?s my_r my cur price amount dest acc n" using assms(4) by simp
  have t: "t_heap ?s (t_next s) = Some ?t" "tm_Phase ?t = INIT" by simp_all
  have x: "x_mk_raw_tx E (w_rpc ?s) n (o_btcAddr my) dest = (sendAddr, Some (hex, tid))" using assms(5) by simp
  have k: "k = (fresh_contract n 0 price cur RECEIVER (rx_peer i) (w_now ?s))\<lparr>k_destAddress := dest, k_btcTxId := tid\<rparr>"
    using assms(6) by simp
  from query_served [OF sv t x k] obtain s' where
    s': "TmContractCohortePayee_doQuery E (t_next s) ?t None [] None i ?s = (Inr ZR_SUCCESS, s')"
    and fields: "t_heap s' = (t_heap ?s)(t_next s \<mapsto> ?t\<lparr>tm_Phase := QUERY,
        tm_class := TmContractCohortePayee (Some (k_next s)) hex (Some my_r)\<rparr>)"
      "t_current s' = t_current ?s" "k_heap s' = (k_heap s)(k_next s \<mapsto> k)" "k_contracts s' = k_contracts s @ [k_next s]"
      "b_heap s' = (b_heap s)(my_r \<mapsto> my\<lparr>o_commitment := o_commitment my + n, o_btcAddr := sendAddr\<rparr>)"
      "b_book s' = b_book s" "b_next s' = b_next s" "w_online s' = w_online s" "s_raw s' = s_raw s"
      "t_btccontracts (db_tables s') = t_btccontracts (db_tables s)" "peers_ok (db_tables s')"
      "abs_peers (db_tables s') = (abs_peers (db_tables s))((rx_peer i, cur) \<mapsto> acc\<lparr>a_allocation := a_allocation acc + n * price\<rparr>)"
      "s_sent s' = s_sent s @ [\<lparr>pk_peer = rx_peer i,
        pk_item = RemoteTxItem (rx_addr i) VOTE_YES CLIENT (rx_payerId i) (vote_payload E n tid)\<rparr>]"
    by auto
  have "handleTxItem_remote E i s = (Inr ZR_SUCCESS, s')"
    by (rule query_handled [OF assms(1-3) b refl s']) (simp add: finish_run)
  then show ?thesis
    using fields by (simp add: selling_def manager_of_def look_put)
qed

section \<open>The end for the orders\<close>

text \<open>An order of mine that can be changed, withdrawn and published.\<close>

definition trades :: "ext \<Rightarrow> side \<Rightarrow> oref \<Rightarrow> 'z svcw_scheme \<Rightarrow> bool" where
  "trades E sd r s \<longleftrightarrow> db_up E \<and> books_inv s \<and> sd \<noteq> Mine \<and> r \<in> set (refs s sd) \<and> r \<in> set (refs s Mine) \<and>
     peers_ok (db_tables s) \<and> o_currency (obj s r) < length (currencySymbols (x_build E)) \<and> (\<forall>p\<in>set (w_online s). no_quote p)"

lemma removed_fields [simp]:
  "k_heap (removed E sd r s) = k_heap s" "k_contracts (removed E sd r s) = k_contracts s" "k_next (removed E sd r s) = k_next s"
  "w_online (removed E sd r v) = w_online v" "s_sent (removed E sd r v) = s_sent v" "s_raw (removed E sd r v) = s_raw v"
  "t_heap (removed E sd r u) = t_heap u" "t_current (removed E sd r u) = t_current u" "t_next (removed E sd r u) = t_next u"
  by (simp_all add: removed_def re_shown_def set_book_def)

lemma published_fields [simp]:
  "k_contracts (published E ord origin ps s) = k_contracts s" "k_next (published E ord origin ps s) = k_next s"
  "s_raw (published E ord origin ps s) = s_raw s" "t_heap (published E ord origin ps u) = t_heap u"
  "t_current (published E ord origin ps u) = t_current u" "t_next (published E ord origin ps u) = t_next u"
  by (simp_all add: published_def)

lemma without_order_tables [simp]:
  "abs_peers (without_order i t) = abs_peers t" "peers_ok (without_order i t) = peers_ok t"
  "t_btccontracts (without_order i t) = t_btccontracts t"
  by (simp_all add: without_order_def)

lemma publish_run:
  assumes "publishable E r s" and "\<forall>p\<in>set (w_online s). no_quote p"
  shows "publishOrder E r None s = (Inr (), published E (obj s r) None (w_online s) s)"
  using publish_all [OF assms] by (simp add: publishOrder_def prog_step)

text \<open>What a settled order leaves: less of it in its lists, or nothing.\<close>

definition settled :: "oref \<Rightarrow> Order \<Rightarrow> ZR_Number \<Rightarrow> 'z tmw_scheme \<Rightarrow> 'z tmw_scheme \<Rightarrow> bool" where
  "settled r my n s t \<longleftrightarrow> k_heap t = k_heap s \<and> k_contracts t = k_contracts s \<and> t_current t = t_current s \<and>
     abs_peers (db_tables t) = abs_peers (db_tables s) \<and> t_btccontracts (db_tables t) = t_btccontracts (db_tables s) \<and>
     (if n < o_amount my then (\<exists>x. b_heap t = (b_heap s)(r \<mapsto> x) \<and> o_amount x = o_amount my - n) \<and> b_book t = b_book s
      else b_heap t = (b_heap s)(r := None) \<and> (\<forall>sd. r \<notin> set (refs t sd))) \<and>
     (\<exists>ord ps. s_sent t = s_sent s @ map (order_packet ord) ps)"

text \<open>Part of the order is left: it is stored with what is left and published.\<close>

lemma part_run:
  assumes "trades E sd r s" and "b_heap s r = Some my" and "o_order_id (f my) = o_order_id my" and "o_currency (f my) = o_currency my"
    and "n < o_amount my" and "o_amount (f my) = o_amount my - n"
  shows "\<exists>s'. thn (upd_order r f) (bnd (try_catch catch_runtime_error (bnd (get_order r) (\<lambda>x. thn (updateOrder E x) (ret None)))
      (\<lambda>e. ret (Some e))) (\<lambda>failed. case failed of Some e \<Rightarrow> g e | None \<Rightarrow> thn (publishOrder E r None) m)) s = m s' \<and>
    settled r my n s s' \<and> t_heap s' = t_heap s \<and> s_raw s' = s_raw s"
proof -
  let ?s1 = "s\<lparr>b_heap := (b_heap s)(r \<mapsto> f my)\<rparr>"
  let ?s2 = "?s1\<lparr>db_stmts := Suc (db_stmts s), db_tables := (db_tables s)\<lparr>t_myorders := map (\<lambda>w. if or_orderid w = o_order_id (f my)
      then w\<lparr>or_amount := x_sql_text E (sql_fraction (o_amount (f my)))\<rparr> else w) (t_myorders (db_tables s))\<rparr>\<rparr>"
  have up: "db_up E" and pk: "peers_ok (db_tables s)" and on: "\<forall>p\<in>set (w_online s). no_quote p"
    and cu: "o_currency my < length (currencySymbols (x_build E))" and "book_inv s Mine" "r \<in> set (refs s Mine)"
    using assms(1,2) books_inv_book [of s Mine] by (simp_all add: trades_def)
  then have q: "no_quote (o_order_id my)" using assms(2) by (auto simp: book_inv_def oid_def)
  have u: "updateOrder E (f my) ?s1 = (Inr (), ?s2)" using up q assms(3) by (simp add: updateOrder_def prog_defs)
  have t: "try_catch catch_runtime_error (bnd (get_order r) (\<lambda>x. thn (updateOrder E x) (ret None))) h ?s1 = (Inr None, ?s2)" for h
    by (rule try_catch_Inr, rule bnd_step, rule get_order_run [where x = "f my"], simp, rule thn_step, rule u, rule prog_apply)
  have tb: "abs_peers (db_tables ?s2) = abs_peers (db_tables s)" "peers_ok (db_tables ?s2)"
    using pk by simp_all
  have "publishable E r ?s2" using up tb(2) cu assms(4) by (simp add: publishable_def)
  then have p: "publishOrder E r None ?s2 = (Inr (), published E (f my) None (w_online s) ?s2)"
    using publish_run [of E r ?s2] on by simp
  have "thn (upd_order r f) (bnd (try_catch catch_runtime_error (bnd (get_order r) (\<lambda>x. thn (updateOrder E x) (ret None)))
      (\<lambda>e. ret (Some e))) (\<lambda>failed. case failed of Some e \<Rightarrow> g e | None \<Rightarrow> thn (publishOrder E r None) m)) s
    = m (published E (f my) None (w_online s) ?s2)"
    by (rule thn_step, rule upd_order_run [OF assms(2)], rule bnd_step, rule t, simp only: option.case, rule thn_step, rule p, rule refl)
  then show ?thesis
    using tb assms(5,6) by (intro exI [of _ "published E (f my) None (w_online s) ?s2"])
      (simp add: settled_def, simp add: published_def, blast)
qed

text \<open>Nothing of it is left: it leaves both lists, is published once more and deleted.\<close>

lemma remove_both_run:
  assumes "db_up E" and "books_inv s" and "r \<in> set (refs s sd)" and "r \<in> set (refs s sd2)" and "sd \<noteq> sd2" and "i = oid s r"
  shows "bnd (OrderBook_remove E sd i) (\<lambda>_. bnd (OrderBook_remove E sd2 i) (\<lambda>_. m)) s = m (removed E sd2 r (removed E sd r s))"
proof -
  have o: "oid (removed E sd r s) = oid s" by (simp add: oid_def fun_eq_iff)
  have "book_inv (removed E sd r s) sd2" by (rule books_inv_book [OF books_inv_removed [OF assms(2)]])
  from remove_Some [OF assms(1) this, of r] assms(4,5,6) o
  have "OrderBook_remove E sd2 i (removed E sd r s) = (Inr (Some r), removed E sd2 r (removed E sd r s))" by simp
  moreover have "OrderBook_remove E sd i s = (Inr (Some r), removed E sd r s)"
    using remove_Some [OF assms(1) books_inv_book [OF assms(2)] assms(3)] assms(6) by simp
  ultimately show ?thesis by (simp add: bnd_def)
qed

lemma removed_both:
  assumes "books_inv s" and "r \<in> set (refs s sd)" and "sd \<noteq> Mine" and "{sd1, sd2} = {sd, Mine}"
  shows "r \<notin> set (refs (removed E sd2 r (removed E sd1 r s)) sd')"
proof -
  have d: "distinct (refs s sd')" for sd' using distinct_refs [OF assms(1)] by simp
  have "r \<notin> set (refs s sd')" if "sd' \<noteq> sd" "sd' \<noteq> Mine" for sd'
    using assms(1-3) that by (cases sd; cases sd') (auto simp: books_inv_def)
  moreover have "sd' = sd1 \<or> sd' = sd2" if "sd' = sd \<or> sd' = Mine" using assms(4) that by (auto simp: doubleton_eq_iff)
  ultimately show ?thesis using d [of sd1] d [of sd2] by (auto dest: notin_set_remove1)
qed

lemma publish_delete_run:
  assumes "publishable E r s" and "\<forall>p\<in>set (w_online s). no_quote p"
  shows "thn (publishOrder E r None) (thn (delete_order r) m) s = m (freed r (published E (obj s r) None (w_online s) s))"
proof -
  obtain x where "b_heap s r = Some x" using assms(1) by (auto simp: publishable_def)
  then show ?thesis
    using publish_run [OF assms] by (simp add: thn_def bnd_def delete_order_def get_order_run [of _ _ x] prog_apply freed_def)
qed

lemma freed_fields [simp]:
  "k_heap (freed r s) = k_heap s" "k_contracts (freed r s) = k_contracts s" "s_sent (freed r v) = s_sent v"
  "s_raw (freed r v) = s_raw v" "t_heap (freed r u) = t_heap u" "t_current (freed r u) = t_current u"
  by (simp_all add: freed_def)

lemma coordinator_settles:
  assumes "trades E Bids my_r s" and "b_heap s my_r = Some my" and "t_heap s r = Some t"
    and "tm_class t = TmContractCoordinator other_r (Some my_r) (Some k_r)"
  shows "\<exists>s' t'. coordinator_settle E r txId other_r my_r k_r n s = (Inr ZR_FINISH, s') \<and> settled my_r my n s s' \<and>
    t_heap s' r = Some t' \<and> tm_TxId t' = tm_TxId t \<and> tm_class t' \<noteq> TmLocalCohorte None \<and> s_raw s' = s_raw s"
proof (cases "n < o_amount my")
  case True
  let ?f = "\<lambda>x. x\<lparr>o_amount := o_amount x - n, o_purpose := PARTLY_FILLED, o_locked := False\<rparr>"
  obtain s' where s': "thn (upd_order my_r ?f) (bnd (try_catch catch_runtime_error (bnd (get_order my_r) (\<lambda>x. thn (updateOrder E x) (ret None)))
      (\<lambda>e. ret (Some e))) (\<lambda>failed. case failed of Some e \<Rightarrow> thn (placeMsg (aborting e txId)) (TmContractCoordinator_abortTx other_r (Some my_r))
       | None \<Rightarrow> thn (publishOrder E my_r None) (ret ZR_FINISH))) s = ret ZR_FINISH s'"
    "settled my_r my n s s'" "t_heap s' = t_heap s" "s_raw s' = s_raw s"
    using part_run [OF assms(1,2), of ?f n "ret ZR_FINISH"
        "\<lambda>e. thn (placeMsg (aborting e txId)) (TmContractCoordinator_abortTx other_r (Some my_r))"] True by auto
  have "coordinator_settle E r txId other_r my_r k_r n s = (Inr ZR_FINISH, s')"
    using True s'(1) by (simp add: coordinator_settle_def bnd_def [of "get_order _"] get_order_run [OF assms(2)] prog_apply)
  then show ?thesis using s'(2-) assms(3,4) by auto
next
  case False
  have tr: "db_up E" "books_inv s" "my_r \<in> set (refs s Bids)" "my_r \<in> set (refs s Mine)" "peers_ok (db_tables s)"
    "o_currency my < length (currencySymbols (x_build E))" "\<forall>p\<in>set (w_online s). no_quote p"
    using assms(1,2) by (simp_all add: trades_def)
  let ?r = "removed E Mine my_r (removed E Bids my_r s)"
  let ?u = "?r\<lparr>b_heap := (b_heap s)(my_r \<mapsto> my\<lparr>o_purpose := FILLED\<rparr>)\<rparr>"
  let ?v = "freed my_r (published E (my\<lparr>o_purpose := FILLED\<rparr>) None (w_online s) ?u)"
  let ?t = "t\<lparr>tm_class := TmContractCoordinator other_r None (Some k_r)\<rparr>"
  have i: "o_order_id my = oid s my_r" using assms(2) by (simp add: oid_def)
  have up: "upd_order my_r (\<lambda>x. x\<lparr>o_purpose := FILLED\<rparr>) ?r = (Inr (), ?u)" using upd_order_run [of ?r my_r my] assms(2) by simp
  have pb: "publishable E my_r ?u" using tr by (simp add: publishable_def)
  have sc: "set_class r (TmContractCoordinator other_r None (Some k_r)) ?v = (Inr (), with_tm r ?t ?v)"
    using assms(3) by (simp add: set_class_def run_simps)
  have "coordinator_settle E r txId other_r my_r k_r n s = (Inr ZR_FINISH, with_tm r ?t ?v)"
    unfolding coordinator_settle_def
    by (rule bnd_step, rule get_order_run [OF assms(2)], simp only: i False if_False remove_both_run [OF tr(1,2,3,4)] side.distinct
          not_False_eq_True simp_thms, rule thn_step, rule up)
      (simp add: publish_delete_run [OF pb] tr(7), rule thn_step, rule sc, rule prog_apply)
  moreover have "settled my_r my n s (with_tm r ?t ?v)"
    using False removed_both [OF tr(2,3), of Bids Mine] tr
    by (simp add: settled_def published_def) blast
  ultimately show ?thesis using assms(3) by (intro exI [of _ "with_tm r ?t ?v"] exI [of _ ?t]) simp
qed

section \<open>The buyer commits\<close>

definition contract_row :: "ext \<Rightarrow> BtcContract \<Rightarrow> contract_row" where
  "contract_row E k = \<lparr>cr_btcTxId = k_btcTxId k, cr_btcAmount = sql_number E (k_btcAmount k), cr_price = sql_number E (k_price k),
     cr_currency = k_currencySym k, cr_party = Party_code (k_party k), cr_counterparty = k_counterParty k,
     cr_destAddress = k_destAddress k, cr_creationtime = k_creationtime k, cr_fee = sql_number E (k_fee k)\<rparr>"

definition storable :: "ext \<Rightarrow> BtcContract \<Rightarrow> bool" where
  "storable E k \<longleftrightarrow> db_up E \<and> no_quote (k_btcTxId k) \<and> no_quote (k_currencySym k) \<and> no_quote (k_counterParty k) \<and> no_quote (k_destAddress k)"

lemma kept_run:
  assumes "k_heap s k_r = Some k" and "storable E k"
  shows "try_catch c (thn (activate k_r) (thn (persist E k_r) (ret None))) h s = (Inr None,
    s\<lparr>k_heap := (k_heap s)(k_r \<mapsto> k\<lparr>k_activated := True\<rparr>), db_stmts := Suc (db_stmts s),
      db_tables := (db_tables s)\<lparr>t_btccontracts := t_btccontracts (db_tables s) @ [contract_row E k]\<rparr>\<rparr>)"
proof -
  let ?s = "s\<lparr>k_heap := (k_heap s)(k_r \<mapsto> k\<lparr>k_activated := True\<rparr>)\<rparr>"
  have "activate k_r s = (Inr (), ?s)" using upd_contract_ok [OF assms(1)] by (simp add: activate_def)
  moreover have "persist E k_r ?s = (Inr (), ?s\<lparr>db_stmts := Suc (db_stmts s),
      db_tables := (db_tables s)\<lparr>t_btccontracts := t_btccontracts (db_tables s) @ [contract_row E k]\<rparr>\<rparr>)"
    using assms(2) by (simp add: persist_def bnd_def [of "get_contract _"] get_contract_ok addBtcContract_def runQuery_ok
        storable_def contract_row_def)
  ultimately show ?thesis by (simp add: try_catch_def thn_def bnd_def prog_apply)
qed

lemma trades_cong:
  assumes "trades E sd r s" and "b_book t = b_book s" and "b_next t = b_next s" and "w_online t = w_online s"
    and "peers_ok (db_tables t)" and "dom (b_heap t) = dom (b_heap s)" and "oid t = oid s" and "o_currency (obj t r) = o_currency (obj s r)"
  shows "trades E sd r t"
  using assms by (simp add: trades_def books_inv_def book_inv_def)

lemma amount_run:
  assumes "k_heap s k_r = Some k" and "k_party k = SENDER" and "b_heap s other_r = Some other" and "n \<le> k_btcAmount k"
  shows "\<exists>s' other'. (\<forall>m. thn (whn (n < k_btcAmount k) (thn (setBtcAmount E k_r n) (upd_order other_r (\<lambda>x. x\<lparr>o_ignored := True\<rparr>)))) m s = m s') \<and>
    frame s s' \<and> db_tables s' = db_tables s \<and> k_heap s' = (k_heap s)(k_r \<mapsto> k\<lparr>k_btcAmount := n\<rparr>) \<and>
    b_heap s' = (b_heap s)(other_r \<mapsto> other') \<and> o_order_id other' = o_order_id other \<and> o_currency other' = o_currency other"
proof (cases "n < k_btcAmount k")
  case True
  let ?s1 = "s\<lparr>k_heap := (k_heap s)(k_r \<mapsto> k\<lparr>k_btcAmount := n\<rparr>)\<rparr>"
  let ?s2 = "?s1\<lparr>b_heap := (b_heap s)(other_r \<mapsto> other\<lparr>o_ignored := True\<rparr>)\<rparr>"
  have a: "setBtcAmount E k_r n s = (Inr (), ?s1)"
    using assms(1,2) by (simp add: setBtcAmount_def Let_def bnd_def [of "get_contract k_r"] get_contract_ok thn_def
        bnd_def [of "upd_contract _ _"] upd_contract_ok whn_def prog_apply)
  have b: "upd_order other_r (\<lambda>x. x\<lparr>o_ignored := True\<rparr>) ?s1 = (Inr (), ?s2)"
    using upd_order_run [of ?s1 other_r other] assms(3) by simp
  have run: "thn (whn (n < k_btcAmount k) (thn (setBtcAmount E k_r n) (upd_order other_r (\<lambda>x. x\<lparr>o_ignored := True\<rparr>)))) m s = m ?s2" for m
    by (rule thn_step, rule whn_step, rule True, rule thn_step, rule a, rule b, rule refl)
  show ?thesis
    by (intro exI [of _ ?s2] exI [of _ "other\<lparr>o_ignored := True\<rparr>"] conjI allI, rule run) (simp_all add: frame_def)
next
  case False
  with assms(4) have "n = k_btcAmount k" by simp
  then show ?thesis
    using False assms(1,3) by (intro exI [of _ s] exI [of _ other]) (simp add: frame_def thn_def bnd_def whn_def prog_apply map_upd_triv)
qed

lemma doTx_runs:
  assumes "k_heap s k_r = Some k" and "k_party k = SENDER" and "n \<le> k_btcAmount k"
    and "TransactionManager_split (rx_payload i) = [f, tid]" and "fromFractionString E f = Inr n"
    and "b_heap s other_r = Some other" and "b_heap s my_r = Some my" and "my_r \<noteq> other_r" and "trades E Bids my_r s"
    and "t_heap s r = Some t" and "tm_class t = TmContractCoordinator other_r (Some my_r) (Some k_r)"
    and "k' = k\<lparr>k_btcAmount := n, k_btcTxId := tid, k_activated := True\<rparr>" and "storable E k'"
  shows "\<exists>s' t'. TmContractCoordinator_doTx E r txId other_r (Some my_r) (Some k_r) i s = (Inr ZR_FINISH, s') \<and>
    k_heap s' = (k_heap s)(k_r \<mapsto> k') \<and> k_contracts s' = k_contracts s \<and> t_current s' = t_current s \<and>
    t_heap s' r = Some t' \<and> tm_TxId t' = tm_TxId t \<and> tm_class t' \<noteq> TmLocalCohorte None \<and>
    abs_peers (db_tables s') = abs_peers (db_tables s) \<and>
    t_btccontracts (db_tables s') = t_btccontracts (db_tables s) @ [contract_row E k'] \<and>
    (if n < o_amount my then \<exists>x. b_heap s' my_r = Some x \<and> o_amount x = o_amount my - n
     else b_heap s' my_r = None \<and> (\<forall>sd. my_r \<notin> set (refs s' sd))) \<and>
    (\<exists>ord ps. s_sent s' = s_sent s @ \<lparr>pk_peer = k_counterParty k,
       pk_item = RemoteTxItem (o_order_id other) COMMIT SERVER (o_order_id my) []\<rparr> # map (order_packet ord) ps)"
proof -
  let ?k1 = "k\<lparr>k_btcAmount := n\<rparr>" and ?k2 = "k\<lparr>k_btcAmount := n, k_btcTxId := tid\<rparr>"
  obtain s1 other' where s1: "\<forall>(m :: _ \<Rightarrow> (exn + RetVal) \<times> _). thn (whn (n < k_btcAmount k) (thn (setBtcAmount E k_r n) (upd_order other_r (\<lambda>x. x\<lparr>o_ignored := True\<rparr>)))) m s = m s1"
    "frame s s1" "db_tables s1 = db_tables s" "k_heap s1 = (k_heap s)(k_r \<mapsto> ?k1)" "b_heap s1 = (b_heap s)(other_r \<mapsto> other')"
    "o_order_id other' = o_order_id other" "o_currency other' = o_currency other"
    using amount_run [OF assms(1,2,6,3)] by blast
  let ?s2 = "s1\<lparr>k_heap := (k_heap s)(k_r \<mapsto> ?k2)\<rparr>"
  have a: "setBtcTxId k_r tid s1 = (Inr (), ?s2)" using upd_contract_ok [of s1 k_r ?k1] s1(4) by (simp add: setBtcTxId_def)
  have b: "get_order other_r ?s2 = (Inr other', ?s2)" "get_order my_r ?s2 = (Inr my, ?s2)"
    using s1(5) assms(7,8) by (simp_all add: get_order_run)
  let ?s3 = "?s2\<lparr>k_heap := (k_heap s)(k_r \<mapsto> k'), db_stmts := Suc (db_stmts s1),
    db_tables := (db_tables s)\<lparr>t_btccontracts := t_btccontracts (db_tables s) @ [contract_row E k']\<rparr>\<rparr>"
  have "storable E ?k2" "contract_row E ?k2 = contract_row E k'" using assms(13) by (simp_all add: assms(12) storable_def contract_row_def)
  then have c: "try_catch catch_runtime_error (thn (activate k_r) (thn (persist E k_r) (ret None))) h ?s2 = (Inr None, ?s3)" for h
    using kept_run [of ?s2 k_r ?k2 E] s1(3) by (simp add: assms(12))
  let ?c = "RemoteTxItem (o_order_id other) COMMIT SERVER (o_order_id my) []"
  let ?s4 = "sent_to (k_counterParty k) ?c ?s3"
  have d: "send_remote (k_counterParty k) (o_order_id other') COMMIT SERVER (o_order_id my) [] ?s3 = (Inr (), ?s4)"
    by (simp add: send_remote_def run_simps s1(6))
  have "trades E Bids my_r ?s4"
  proof (rule trades_cong [OF assms(9)])
    show "oid ?s4 = oid s" using s1(5,6) assms(6) by (auto simp: oid_def fun_eq_iff)
  qed (use s1 assms(6-9) in \<open>auto simp: frame_def trades_def\<close>)
  moreover have "b_heap ?s4 my_r = Some my" "t_heap ?s4 r = Some t" using s1(2,5) assms(7,8,10) by (simp_all add: frame_def)
  ultimately obtain s' t' where s': "coordinator_settle E r txId other_r my_r k_r n ?s4 = (Inr ZR_FINISH, s')"
    "settled my_r my n ?s4 s'" "t_heap s' r = Some t'" "tm_TxId t' = tm_TxId t" "tm_class t' \<noteq> TmLocalCohorte None"
    using coordinator_settles [OF _ _ _ assms(11)] by blast
  have l: "(length [f, tid] \<noteq> 2) = False" "[f, tid] ! 0 = f" "[f, tid] ! 1 = tid" "(k_btcAmount k < n) = False"
    using assms(3) by simp_all
  have "TmContractCoordinator_doTx E r txId other_r (Some my_r) (Some k_r) i s = (Inr ZR_FINISH, s')"
    unfolding TmContractCoordinator_doTx_def Let_def assms(4)
    by (simp only: l not_True_eq_False if_False,
        rule bnd_lift, rule assms(5), simp only: bnd_need, rule bnd_step, rule get_contract_ok, rule assms(1),
        simp only: l if_False s1(1), rule thn_step, rule a, rule bnd_step, rule b,
        rule bnd_step, rule b, rule bnd_step, rule c, simp only: option.case, rule thn_step, rule d, rule s'(1))
  moreover have "k_contracts s1 = k_contracts s" "t_current s1 = t_current s" "s_sent s1 = s_sent s" using s1(2) by (simp_all add: frame_def)
  ultimately show ?thesis using s'(2-) assms(8) s1(3,5)
    by (intro exI [of _ s'] exI [of _ t']) (auto simp: settled_def)
qed

lemma buyer_commits:
  assumes "buying s txId other_r my_r k_r k" and "txId = rx_addr i @ '':'' @ rx_payerId i" and "rx_phase i = VOTE_YES"
    and "k_party k = SENDER" and "n \<le> k_btcAmount k"
    and "TransactionManager_split (rx_payload i) = [f, tid]" and "fromFractionString E f = Inr n"
    and "b_heap s other_r = Some other" and "b_heap s my_r = Some my" and "my_r \<noteq> other_r" and "trades E Bids my_r s"
    and "k' = k\<lparr>k_btcAmount := n, k_btcTxId := tid, k_activated := True\<rparr>" and "storable E k'"
  shows "\<exists>s'. handleTxItem_remote E i s = (Inr ZR_FINISH, s') \<and>
    k_heap s' = (k_heap s)(k_r \<mapsto> k') \<and> k_contracts s' = k_contracts s \<and> t_current s' = map_erase txId (t_current s) \<and>
    abs_peers (db_tables s') = abs_peers (db_tables s) \<and>
    t_btccontracts (db_tables s') = t_btccontracts (db_tables s) @ [contract_row E k'] \<and>
    (if n < o_amount my then \<exists>x. b_heap s' my_r = Some x \<and> o_amount x = o_amount my - n
     else b_heap s' my_r = None \<and> (\<forall>sd. my_r \<notin> set (refs s' sd))) \<and>
    (\<exists>ord ps. s_sent s' = s_sent s @ \<lparr>pk_peer = k_counterParty k,
       pk_item = RemoteTxItem (o_order_id other) COMMIT SERVER (o_order_id my) []\<rparr> # map (order_packet ord) ps)"
proof -
  obtain r t where t: "manager_of txId s = Some r" "t_heap s r = Some t" "tm_TxId t = txId"
    "tm_class t = TmContractCoordinator other_r (Some my_r) (Some k_r)" and k: "k_heap s k_r = Some k"
    using assms(1) by (auto simp: buying_def)
  obtain s' t' where s': "TmContractCoordinator_doTx E r txId other_r (Some my_r) (Some k_r) i s = (Inr ZR_FINISH, s')"
    and fields: "k_heap s' = (k_heap s)(k_r \<mapsto> k')" "k_contracts s' = k_contracts s" "t_current s' = t_current s"
    "t_heap s' r = Some t'" "tm_TxId t' = tm_TxId t" "tm_class t' \<noteq> TmLocalCohorte None"
    "abs_peers (db_tables s') = abs_peers (db_tables s)"
    "t_btccontracts (db_tables s') = t_btccontracts (db_tables s) @ [contract_row E k']"
    "if n < o_amount my then \<exists>x. b_heap s' my_r = Some x \<and> o_amount x = o_amount my - n
     else b_heap s' my_r = None \<and> (\<forall>sd. my_r \<notin> set (refs s' sd))"
    "\<exists>ord ps. s_sent s' = s_sent s @ \<lparr>pk_peer = k_counterParty k,
       pk_item = RemoteTxItem (o_order_id other) COMMIT SERVER (o_order_id my) []\<rparr> # map (order_packet ord) ps"
    using doTx_runs [OF k assms(4-11) t(2,4) assms(12,13), of txId] by blast
  have "process_remote E r i s = (Inr ZR_FINISH, s')"
    using s' t by (simp add: process_remote_def bnd_def [of "get_tm _"] run_simps TmContractCoordinator_processItem_def assms(3))
  moreover have "finish_tm r ZR_FINISH s' = (Inr ZR_FINISH, unregistered r txId s')"
    using fields(4-6) t(3) by (simp add: finish_tm_def thn_def whn_def bnd_def run_simps prog_apply)
  ultimately have "handleTxItem_remote E i s = (Inr ZR_FINISH, unregistered r txId s')"
    using t(1) unfolding assms(2) by (rule remote_run [rotated])
  then show ?thesis
    using fields by (intro exI [of _ "unregistered r txId s'"]) (simp add: unregistered_def)
qed

section \<open>The seller settles\<close>

lemma payee_settles:
  assumes "trades E Asks my_r s" and "b_heap s my_r = Some my"
  shows "\<exists>s'. payee_settle E txId my_r n hex s = (Inr ZR_FINISH, s') \<and> settled my_r my n s s' \<and> t_heap s' = t_heap s \<and>
    s_raw s' = s_raw s @ [hex]"
proof -
  let ?raw = "bnd (rpc_call (\<lambda>_. ())) (\<lambda>_. thn (modify (\<lambda>w. w\<lparr>s_raw := s_raw w @ [hex]\<rparr>)) (ret ZR_FINISH))"
  have raw: "?raw u = (Inr ZR_FINISH, u\<lparr>w_rpc := Suc (w_rpc u), s_raw := s_raw u @ [hex]\<rparr>)" for u :: "'a tmw_scheme"
    by (simp add: bnd_def thn_def rpc_call_apply prog_apply)
  have g: "get_order my_r s = (Inr my, s)" by (rule get_order_run [OF assms(2)])
  show ?thesis
  proof (cases "n < o_amount my")
    case True
    let ?f = "\<lambda>x. x\<lparr>o_purpose := PARTLY_FILLED, o_amount := o_amount x - n, o_commitment := o_commitment x - n\<rparr>"
    from part_run [OF assms, of ?f n ?raw "\<lambda>e. thn (placeMsg (aborting e txId)) (ret ZR_FAILURE)"] True
    obtain s' where s': "payee_settle E txId my_r n hex s = ?raw s'" "settled my_r my n s s'" "t_heap s' = t_heap s" "s_raw s' = s_raw s"
      unfolding payee_settle_def Let_def bnd_def [of "get_order _"] by (auto simp: g)
    then show ?thesis by (simp add: raw settled_def)
  next
    case False
    have tr: "db_up E" "books_inv s" "my_r \<in> set (refs s Asks)" "my_r \<in> set (refs s Mine)" "peers_ok (db_tables s)"
      "o_currency my < length (currencySymbols (x_build E))" "\<forall>p\<in>set (w_online s). no_quote p"
      using assms by (simp_all add: trades_def)
    let ?o = "my\<lparr>o_purpose := FILLED\<rparr>"
    let ?u = "s\<lparr>b_heap := (b_heap s)(my_r \<mapsto> ?o)\<rparr>"
    let ?r = "removed E Asks my_r (removed E Mine my_r ?u)"
    let ?v = "freed my_r (published E ?o None (w_online s) ?r)"
    have tu: "trades E Asks my_r ?u"
      by (rule trades_cong [OF assms(1)]) (use assms(2) tr in \<open>auto simp: oid_def fun_eq_iff\<close>)
    have bu: "books_inv ?u" "my_r \<in> set (refs ?u Mine)" "my_r \<in> set (refs ?u Asks)" using tu by (simp_all add: trades_def)
    have i: "o_order_id my = oid ?u my_r" by (simp add: oid_def)
    have pb: "publishable E my_r ?r" using tr by (simp add: publishable_def)
    have "payee_settle E txId my_r n hex s = ?raw ?v"
      unfolding payee_settle_def Let_def
      by (rule bnd_step, rule g, simp only: False if_False, rule thn_step, rule upd_order_run [OF assms(2)],
          simp only: i remove_both_run [OF tr(1) bu(1-3)] side.distinct not_False_eq_True simp_thms)
        (simp add: publish_delete_run [OF pb] tr(7))
    moreover have "\<forall>sd. my_r \<notin> set (refs ?r sd)"
      using removed_both [OF bu(1,3), of Mine Asks E] by (simp only: insert_commute side.distinct not_False_eq_True simp_thms)
    then have "settled my_r my n s (?v\<lparr>w_rpc := Suc (w_rpc ?v), s_raw := s_raw ?v @ [hex]\<rparr>)"
      using False by (simp add: settled_def published_def) blast
    ultimately show ?thesis by (intro exI [of _ "?v\<lparr>w_rpc := Suc (w_rpc ?v), s_raw := s_raw ?v @ [hex]\<rparr>"]) (simp add: raw)
  qed
qed

lemma seller_settles:
  assumes "selling s txId my_r k_r k hex" and "txId = rx_addr i @ '':'' @ rx_payerId i" and "rx_phase i = COMMIT"
    and "trades E Asks my_r s" and "b_heap s my_r = Some my" and "k' = k\<lparr>k_activated := True\<rparr>" and "storable E k"
  shows "\<exists>s'. handleTxItem_remote E i s = (Inr ZR_FINISH, s') \<and>
    k_heap s' = (k_heap s)(k_r \<mapsto> k') \<and> k_contracts s' = k_contracts s \<and> t_current s' = map_erase txId (t_current s) \<and>
    abs_peers (db_tables s') = abs_peers (db_tables s) \<and>
    t_btccontracts (db_tables s') = t_btccontracts (db_tables s) @ [contract_row E k'] \<and> s_raw s' = s_raw s @ [hex] \<and>
    (if k_btcAmount k < o_amount my then \<exists>x. b_heap s' my_r = Some x \<and> o_amount x = o_amount my - k_btcAmount k
     else b_heap s' my_r = None \<and> (\<forall>sd. my_r \<notin> set (refs s' sd))) \<and>
    (\<exists>ord ps. s_sent s' = s_sent s @ map (order_packet ord) ps)"
proof -
  obtain r t where t: "manager_of txId s = Some r" "t_heap s r = Some t" "tm_TxId t = txId" "tm_Phase t = QUERY"
    "tm_class t = TmContractCohortePayee (Some k_r) hex (Some my_r)" and k: "k_heap s k_r = Some k"
    using assms(1) by (auto simp: selling_def)
  let ?t = "t\<lparr>tm_Phase := COMMIT\<rparr>" and ?s1 = "with_tm r (t\<lparr>tm_Phase := COMMIT\<rparr>) s"
  let ?s2 = "?s1\<lparr>k_heap := (k_heap s)(k_r \<mapsto> k'), db_stmts := Suc (db_stmts ?s1),
    db_tables := (db_tables s)\<lparr>t_btccontracts := t_btccontracts (db_tables s) @ [contract_row E k]\<rparr>\<rparr>"
  have a: "set_phase r COMMIT s = (Inr (), ?s1)" using t(2) by (simp add: set_phase_def run_simps)
  have b: "try_catch catch_runtime_error (thn (activate k_r) (thn (persist E k_r) (ret None))) h ?s1 = (Inr None, ?s2)" for h
    using kept_run [of ?s1 k_r k E] k assms(7) by (simp add: assms(6))
  have c: "get_contract k_r ?s2 = (Inr k', ?s2)" by (simp add: get_contract_ok)
  have "trades E Asks my_r ?s2"
    by (rule trades_cong [OF assms(4)]) (use assms(4) in \<open>simp_all add: oid_def fun_eq_iff trades_def\<close>)
  from payee_settles [OF this, of my txId "k_btcAmount k" hex] assms(5)
  obtain s' where s': "payee_settle E txId my_r (k_btcAmount k) hex ?s2 = (Inr ZR_FINISH, s')" "settled my_r my (k_btcAmount k) ?s2 s'"
    "t_heap s' = t_heap ?s2" "s_raw s' = s_raw ?s2 @ [hex]" by auto
  have n: "k_btcAmount k' = k_btcAmount k" "contract_row E k' = contract_row E k" by (simp_all add: assms(6) contract_row_def)
  have "TmContractCohortePayee_doCommit E r t (Some k_r) hex (Some my_r) i s = (Inr ZR_FINISH, s')"
    unfolding TmContractCohortePayee_doCommit_def t(3,4)
    by (simp only: simp_thms if_False bnd_need, rule thn_step, rule a, rule bnd_step, rule b,
        simp only: option.case, rule bnd_step, rule c, simp only: n(1), rule s'(1))
  then have "process_remote E r i s = (Inr ZR_FINISH, s')"
    using t by (simp add: process_remote_def bnd_def [of "get_tm _"] run_simps TmContractCohortePayee_processItem_def assms(3))
  moreover have "finish_tm r ZR_FINISH s' = (Inr ZR_FINISH, unregistered r txId s')"
    using s'(3) t(3,5) by (simp add: finish_tm_def thn_def whn_def bnd_def run_simps prog_apply)
  ultimately have "handleTxItem_remote E i s = (Inr ZR_FINISH, unregistered r txId s')"
    using t(1) unfolding assms(2) by (rule remote_run [rotated])
  then show ?thesis
    using s'(2,4) n(2) by (intro exI [of _ "unregistered r txId s'"]) (auto simp: settled_def unregistered_def)
qed

section \<open>The whole purchase\<close>

text \<open>Both nodes write and read fractions alike; a token can be part of a payload and of a statement.\<close>

definition same_format :: "ext \<Rightarrow> ext \<Rightarrow> bool" where
  "same_format A B \<longleftrightarrow> frac_io A \<and> x_show_rat B = x_show_rat A \<and> x_read_rat B = x_read_rat A"

definition token :: "string \<Rightarrow> bool" where
  "token t \<longleftrightarrow> t \<noteq> [] \<and> CHR '':'' \<notin> set t \<and> no_quote t"

text \<open>The buyer has a bid of its own and the seller's ask, and knows the seller as the way to it.\<close>

definition can_buy :: "ext \<Rightarrow> PeerAddress \<Rightarrow> 'z tmw_scheme \<Rightarrow> oref \<Rightarrow> Order \<Rightarrow> oref \<Rightarrow> Order \<Rightarrow> bool" where
  "can_buy E seller s other_r other my_r my \<longleftrightarrow> trades E Bids my_r s \<and> b_heap s my_r = Some my \<and> b_heap s other_r = Some other \<and>
     my_r \<noteq> other_r \<and> o_currency other < length (currencySymbols (x_build E)) \<and>
     TraceRouter_nextHop (n_router s) (o_order_id other) = seller \<and> seller \<noteq> [] \<and> no_quote seller"

text \<open>The seller has the ask, some of it uncommitted, and a credit line with something available.\<close>

definition can_sell :: "ext \<Rightarrow> PeerAddress \<Rightarrow> 'z tmw_scheme \<Rightarrow> oref \<Rightarrow> Order \<Rightarrow> string \<Rightarrow> ZR_Number \<Rightarrow> account \<Rightarrow> bool" where
  "can_sell E buyer s my_r my cur price acc \<longleftrightarrow> trades E Asks my_r s \<and> b_heap s my_r = Some my \<and>
     cur = currencySymbols (x_build E) ! o_currency my \<and> o_price my \<le> price \<and> 0 < price \<and> o_commitment my < o_amount my \<and>
     line_ok E buyer cur s acc \<and> 0 < available acc"

text \<open>The packets of transactions among the mail; orders travel beside them.\<close>

definition tx_mail :: "ext \<Rightarrow> ext \<Rightarrow> 'z tmw_scheme \<Rightarrow> 'z tmw_scheme \<Rightarrow> packet list" where
  "tx_mail A B s t = filter (\<lambda>pk. case pk_item pk of OrderBookItem addr ord \<Rightarrow> False | _ \<Rightarrow> True) (mail A B s t)"

lemma tx_mail_sent:
  assumes "s_sent t = s_sent s @ pks @ map (order_packet ord) ps"
    and "\<forall>pk\<in>set pks. pk_peer pk = x_own_id B \<and> (\<forall>addr ord. pk_item pk \<noteq> OrderBookItem addr ord)"
  shows "tx_mail A B s t = map (\<lambda>pk. pk\<lparr>pk_peer := x_own_id A\<rparr>) pks"
proof -
  have "filter (\<lambda>pk. case pk_item pk of OrderBookItem addr ord \<Rightarrow> False | _ \<Rightarrow> True) (map (\<lambda>pk. pk\<lparr>pk_peer := x_own_id A\<rparr>)
    (filter (\<lambda>pk. pk_peer pk = x_own_id B) (map (order_packet ord) ps))) = []"
    by (auto simp: filter_empty_conv order_packet_def)
  moreover have "filter (\<lambda>pk. pk_peer pk = x_own_id B) pks = pks" using assms(2) by (simp add: filter_id_conv)
  moreover have "filter (\<lambda>pk. case pk_item pk of OrderBookItem addr ord \<Rightarrow> False | _ \<Rightarrow> True) (map (\<lambda>pk. pk\<lparr>pk_peer := x_own_id A\<rparr>) pks)
    = map (\<lambda>pk. pk\<lparr>pk_peer := x_own_id A\<rparr>) pks"
    using assms(2) by (auto simp: filter_id_conv split: item.split)
  ultimately show ?thesis by (simp add: tx_mail_def mail_def assms(1))
qed

lemma tx_mail_none:
  assumes "s_sent t = s_sent s @ map (order_packet ord) ps"
  shows "tx_mail A B s t = []"
  using tx_mail_sent [of t s "[]" ord ps B A] assms by simp

lemma tx_mail_one:
  assumes "s_sent t = s_sent s @ \<lparr>pk_peer = x_own_id B, pk_item = RemoteTxItem addr ph dir pid pl\<rparr> # map (order_packet ord) ps"
  shows "tx_mail A B s t = [\<lparr>pk_peer = x_own_id A, pk_item = RemoteTxItem addr ph dir pid pl\<rparr>]"
  using tx_mail_sent [of t s "[\<lparr>pk_peer = x_own_id B, pk_item = RemoteTxItem addr ph dir pid pl\<rparr>]" ord ps B A] assms by simp

lemma receive_remote:
  assumes "handleTxItem_remote E \<lparr>rx_peer = p, rx_addr = addr, rx_phase = ph, rx_dir = dir, rx_payerId = pid, rx_payload = pl\<rparr> s = (Inr v, s')"
  shows "for_each [\<lparr>pk_peer = p, pk_item = RemoteTxItem addr ph dir pid pl\<rparr>] (receive_item E) s = (Inr (), s')"
  by (rule deliver_one) (simp add: receive_item_def bnd_def assms prog_apply)

lemma query_serves:
  assumes "same_format A B" and "can_sell B buyer s my_r my cur price acc" and "0 < amount"
    and "k = (fresh_contract amount 0 price cur SENDER seller now)\<lparr>k_destAddress := dest\<rparr>" and "token dest" and "CHR '':'' \<notin> set cur"
    and "zr_fits amount" and "zr_fits (amount * price)"
    and "n = min (min amount (available acc / price)) (o_amount my - o_commitment my)"
    and "db_exact B (a_allocation acc + min amount (available acc / price) * price)" and "db_exact B (a_allocation acc + n * price)"
  shows "serves B \<lparr>rx_peer = buyer, rx_addr = o_order_id my, rx_phase = QUERY, rx_dir = SERVER, rx_payerId = pid,
      rx_payload = query_payload A k dest 0\<rparr> s my_r my cur price amount dest acc n"
proof -
  have io: "frac_io A" "\<And>q. fromFractionString B q = fromFractionString A q"
    using assms(1) by (simp_all add: same_format_def fromFractionString_def)
  have k: "k_currencySym k = cur" "getFiatAmount k = amount * price" "k_btcAmount k = amount"
    by (simp_all add: assms(4) fresh_contract_def getFiatAmount_def)
  have "zr_fits 0" by (simp add: zr_fits_def in_i64_def)
  then have "\<exists>f a z. TransactionManager_split (query_payload A k dest 0) = [f, cur, dest, a, z] \<and>
      fromFractionString B f = Inr (amount * price) \<and> fromFractionString B a = Inr amount \<and> fromFractionString B z = Inr 0"
    using split_query_payload [OF io(1), of k dest 0] assms(5-8) k by (simp add: token_def io(2) fraction_back [OF io(1)])
  moreover have "o_currency my < length (currencySymbols (x_build B))" using assms(2) by (auto simp: can_sell_def trades_def)
  ultimately show ?thesis
    using assms(2,3,9-11) unfolding serves_def can_sell_def trades_def remote_tx.select_convs by blast
qed

lemma vote_read:
  assumes "same_format A B" and "token btcTxId" and "zr_fits n"
  shows "TransactionManager_split (vote_payload B n btcTxId) = [toStdString B n, btcTxId]"
    and "fromFractionString A (toStdString B n) = Inr n"
proof -
  have io: "frac_io A" "frac_io B" "toStdString B n = toStdString A n"
    using assms(1) by (simp_all add: same_format_def frac_io_def toStdString_def)
  then show "TransactionManager_split (vote_payload B n btcTxId) = [toStdString B n, btcTxId]"
      "fromFractionString A (toStdString B n) = Inr n"
    using split_vote_payload [OF io(2)] assms(2) fraction_back [OF io(1) assms(3)] by (simp_all add: token_def)
qed

lemma buyer_asks:
  assumes "can_buy A (x_own_id B) a other_r other my_r my" and "cur = currencySymbols (x_build A) ! o_currency other"
    and "txId = o_order_id other @ '':'' @ o_order_id my" and "dest = x_new_address A (w_rpc a)" and "token dest"
    and "k = (fresh_contract amount 0 (o_price other) cur SENDER (x_own_id B) (w_now a))\<lparr>k_destAddress := dest\<rparr>"
  shows "\<exists>a1. MyOrders_buy A other_r my_r amount a = (Inr (), a1) \<and> buying a1 txId other_r my_r (k_next a) k \<and>
    k_contracts a1 = k_contracts a @ [k_next a] \<and> t_current a1 = map_put txId (t_next a) (t_current a) \<and>
    b_heap a1 other_r = Some other \<and> b_heap a1 my_r = Some (my\<lparr>o_locked := True\<rparr>) \<and> trades A Bids my_r a1 \<and>
    db_tables a1 = db_tables a \<and> tx_mail A B a a1 = [\<lparr>pk_peer = x_own_id A,
      pk_item = RemoteTxItem (o_order_id other) QUERY SERVER (o_order_id my) (query_payload A k dest 0)\<rparr>]"
proof -
  have cb: "b_heap a other_r = Some other" "b_heap a my_r = Some my" "my_r \<noteq> other_r"
    "o_currency other < length (currencySymbols (x_build A))" "TraceRouter_nextHop (n_router a) (o_order_id other) = x_own_id B"
    "x_own_id B \<noteq> []" "trades A Bids my_r a" using assms(1) by (simp_all add: can_buy_def)
  have p: "peers_ok (db_tables a)" using cb(7) by (simp add: trades_def)
  have d: "x_new_address A (w_rpc a) = dest" "dest \<noteq> []" using assms(4,5) by (simp_all add: token_def)
  obtain a1 where a1: "MyOrders_buy A other_r my_r amount a = (Inr (), a1)" "buying a1 txId other_r my_r (k_next a) k"
    "k_contracts a1 = k_contracts a @ [k_next a]" "t_current a1 = map_put txId (t_next a) (t_current a)"
    "b_heap a1 = (b_heap a)(my_r \<mapsto> my\<lparr>o_locked := True\<rparr>)" "b_book a1 = b_book a" "b_next a1 = b_next a"
    "db_tables a1 = db_tables a" "w_online a1 = w_online a" "s_sent a1 = s_sent a @ [\<lparr>pk_peer = x_own_id B,
       pk_item = RemoteTxItem (o_order_id other) QUERY SERVER (o_order_id my) (query_payload A k dest 0)\<rparr>]"
    using buy_runs [OF cb(1-4) assms(2) cb(5,6) d assms(6,3)] by blast
  have "trades A Bids my_r a1"
    by (rule trades_cong [OF cb(7) a1(6,7,9)]) (use cb(2) p a1(5,8) in \<open>auto simp: oid_def fun_eq_iff split: if_splits\<close>)
  moreover have "tx_mail A B a a1 = [\<lparr>pk_peer = x_own_id A,
      pk_item = RemoteTxItem (o_order_id other) QUERY SERVER (o_order_id my) (query_payload A k dest 0)\<rparr>]"
    by (rule tx_mail_one [of _ _ _ _ _ _ _ _ undefined "[]"]) (simp add: a1(10))
  ultimately show ?thesis using a1 cb(1,3) by (intro exI [of _ a1]) simp
qed

lemma seller_answers:
  assumes "manager_of txId b = None" and "txId = addr @ '':'' @ pid" and "trades B Asks sell_r b" and "b_heap b sell_r = Some sell"
    and "serves B \<lparr>rx_peer = x_own_id A, rx_addr = addr, rx_phase = QUERY, rx_dir = SERVER, rx_payerId = pid, rx_payload = pl\<rparr>
      b sell_r sell cur price amount dest acc n"
    and "x_mk_raw_tx B (w_rpc b) n (o_btcAddr sell) dest = (change, Some (hex, tid))"
    and "k = (fresh_contract n 0 price cur RECEIVER (x_own_id A) (w_now b))\<lparr>k_destAddress := dest, k_btcTxId := tid\<rparr>"
  shows "\<exists>b1. for_each [\<lparr>pk_peer = x_own_id A, pk_item = RemoteTxItem addr QUERY SERVER pid pl\<rparr>] (receive_item B) b = (Inr (), b1) \<and>
    selling b1 txId sell_r (k_next b) k hex \<and> t_current b1 = map_put txId (t_next b) (t_current b) \<and>
    k_contracts b1 = k_contracts b @ [k_next b] \<and>
    b_heap b1 sell_r = Some (sell\<lparr>o_commitment := o_commitment sell + n, o_btcAddr := change\<rparr>) \<and> trades B Asks sell_r b1 \<and>
    s_raw b1 = s_raw b \<and> t_btccontracts (db_tables b1) = t_btccontracts (db_tables b) \<and>
    abs_peers (db_tables b1) = (abs_peers (db_tables b))((x_own_id A, cur) \<mapsto> acc\<lparr>a_allocation := a_allocation acc + n * price\<rparr>) \<and>
    tx_mail B A b b1 = [\<lparr>pk_peer = x_own_id B, pk_item = RemoteTxItem addr VOTE_YES CLIENT pid (vote_payload B n tid)\<rparr>]"
proof -
  let ?i = "\<lparr>rx_peer = x_own_id A, rx_addr = addr, rx_phase = QUERY, rx_dir = SERVER, rx_payerId = pid, rx_payload = pl\<rparr>"
  have i: "txId = rx_addr ?i @ '':'' @ rx_payerId ?i" "rx_phase ?i = QUERY"
    "k = (fresh_contract n 0 price cur RECEIVER (rx_peer ?i) (w_now b))\<lparr>k_destAddress := dest, k_btcTxId := tid\<rparr>"
    using assms(2,7) by simp_all
  obtain b1 where b1: "handleTxItem_remote B ?i b = (Inr ZR_SUCCESS, b1)"
    "selling b1 txId sell_r (k_next b) k hex" "t_current b1 = map_put txId (t_next b) (t_current b)"
    "k_contracts b1 = k_contracts b @ [k_next b]"
    "b_heap b1 = (b_heap b)(sell_r \<mapsto> sell\<lparr>o_commitment := o_commitment sell + n, o_btcAddr := change\<rparr>)" "b_book b1 = b_book b"
    "b_next b1 = b_next b" "w_online b1 = w_online b" "s_raw b1 = s_raw b" "t_btccontracts (db_tables b1) = t_btccontracts (db_tables b)"
    "peers_ok (db_tables b1)" "abs_peers (db_tables b1) = (abs_peers (db_tables b))((rx_peer ?i, cur) \<mapsto>
       acc\<lparr>a_allocation := a_allocation acc + n * price\<rparr>)"
    "s_sent b1 = s_sent b @ [\<lparr>pk_peer = rx_peer ?i, pk_item = RemoteTxItem (rx_addr ?i) VOTE_YES CLIENT (rx_payerId ?i)
       (vote_payload B n tid)\<rparr>]"
    using seller_votes [OF assms(1) i(1,2) assms(5,6) i(3)] by blast
  have "trades B Asks sell_r b1"
    by (rule trades_cong [OF assms(3) b1(6-8,11)]) (use assms(4) b1(5) in \<open>auto simp: oid_def fun_eq_iff split: if_splits\<close>)
  moreover have "tx_mail B A b b1 = [\<lparr>pk_peer = x_own_id B, pk_item = RemoteTxItem addr VOTE_YES CLIENT pid (vote_payload B n tid)\<rparr>]"
    by (rule tx_mail_one [of _ _ _ _ _ _ _ _ undefined "[]"]) (simp add: b1(13))
  ultimately show ?thesis using b1 receive_remote [OF b1(1)] by (intro exI [of _ b1]) simp
qed

text \<open>What the query says, in the format all the nodes share.\<close>

definition query_text :: "ext \<Rightarrow> string \<Rightarrow> BitcoinAddress \<Rightarrow> ZR_Number \<Rightarrow> ZR_Number \<Rightarrow> string" where
  "query_text A cur dest price m = query_payload A (fresh_contract m 0 price cur SENDER [] 0) dest 0"

lemma query_text:
  assumes "same_format A E" and "k_btcAmount k = m" and "k_price k = price" and "k_currencySym k = cur"
  shows "query_payload E k dest 0 = query_text A cur dest price m"
  using assms by (simp add: query_text_def query_payload_def same_format_def toStdString_def getFiatAmount_def fresh_contract_def)

text \<open>What a node keeps of a purchase: its activated contract.\<close>

definition kept_contract :: "TransactionId \<Rightarrow> ZR_Number \<Rightarrow> ZR_Number \<Rightarrow> string \<Rightarrow> BitcoinAddress \<Rightarrow> Party \<Rightarrow> PeerAddress \<Rightarrow> int \<Rightarrow> BtcContract" where
  "kept_contract tid n price cur dest party cp now = \<lparr>k_btcTxId = tid, k_btcAmount = n, k_price = price, k_currencySym = cur, k_party = party,
     k_counterParty = cp, k_activated = True, k_destAddress = dest, k_creationtime = now, k_fee = 0\<rparr>"

text \<open>The three items of a purchase.\<close>

definition query_item :: "ext \<Rightarrow> VirtualAddress \<Rightarrow> string \<Rightarrow> string \<Rightarrow> BitcoinAddress \<Rightarrow> ZR_Number \<Rightarrow> ZR_Number \<Rightarrow> item" where
  "query_item A addr pid cur dest price m = RemoteTxItem addr QUERY SERVER pid (query_text A cur dest price m)"

definition vote_item :: "ext \<Rightarrow> VirtualAddress \<Rightarrow> string \<Rightarrow> TransactionId \<Rightarrow> ZR_Number \<Rightarrow> item" where
  "vote_item A addr pid tid n = RemoteTxItem addr VOTE_YES CLIENT pid (vote_payload A n tid)"

definition commit_item :: "VirtualAddress \<Rightarrow> string \<Rightarrow> item" where
  "commit_item addr pid = RemoteTxItem addr COMMIT SERVER pid []"

text \<open>What is left of an order of which an amount has been traded.\<close>

definition traded :: "oref \<Rightarrow> ZR_Number \<Rightarrow> ZR_Number \<Rightarrow> 'z bookw_scheme \<Rightarrow> bool" where
  "traded r before n t \<longleftrightarrow> (if n < before then \<exists>x. b_heap t r = Some x \<and> o_amount x = before - n
     else b_heap t r = None \<and> (\<forall>sd. r \<notin> set (refs t sd)))"

text \<open>The buyer's side of a purchase, whoever passes its packets on: it asks, and commits when the vote comes.\<close>

lemma buyer_side:
  assumes "same_format A A" and "can_buy A (x_own_id N) a other_r other my_r my"
    and "cur = currencySymbols (x_build A) ! o_currency other" and "txId = o_order_id other @ '':'' @ o_order_id my"
    and "manager_of txId a = None" and "dest = x_new_address A (w_rpc a)" and "token dest" and "token tid" and "zr_fits n"
    and "n \<le> amount" and "k' = kept_contract tid n (o_price other) cur dest SENDER (x_own_id N) (w_now a)"
  shows "\<exists>a1 a2. MyOrders_buy A other_r my_r amount a = (Inr (), a1) \<and>
    tx_mail A N a a1 = [\<lparr>pk_peer = x_own_id A,
      pk_item = query_item A (o_order_id other) (o_order_id my) cur dest (o_price other) amount\<rparr>] \<and>
    for_each [\<lparr>pk_peer = x_own_id N, pk_item = vote_item A (o_order_id other) (o_order_id my) tid n\<rparr>] (receive_item A) a1 = (Inr (), a2) \<and>
    tx_mail A N a1 a2 = [\<lparr>pk_peer = x_own_id A, pk_item = commit_item (o_order_id other) (o_order_id my)\<rparr>] \<and>
    t_current a2 = t_current a \<and> k_contracts a2 = k_contracts a @ [k_next a] \<and> k_heap a2 (k_next a) = Some k' \<and>
    t_btccontracts (db_tables a2) = t_btccontracts (db_tables a) @ [contract_row A k'] \<and>
    abs_peers (db_tables a2) = abs_peers (db_tables a) \<and> traded my_r (o_amount my) n a2"
proof -
  let ?k = "(fresh_contract amount 0 (o_price other) cur SENDER (x_own_id N) (w_now a))\<lparr>k_destAddress := dest\<rparr>"
  let ?v = "\<lparr>rx_peer = x_own_id N, rx_addr = o_order_id other, rx_phase = VOTE_YES, rx_dir = CLIENT,
    rx_payerId = o_order_id my, rx_payload = vote_payload A n tid\<rparr>"
  let ?my = "my\<lparr>o_locked := True\<rparr>"
  have cb: "my_r \<noteq> other_r" using assms(2) unfolding can_buy_def by blast+
  obtain a1 where a1: "MyOrders_buy A other_r my_r amount a = (Inr (), a1)" "buying a1 txId other_r my_r (k_next a) ?k"
    "k_contracts a1 = k_contracts a @ [k_next a]" "t_current a1 = map_put txId (t_next a) (t_current a)"
    "b_heap a1 other_r = Some other" "b_heap a1 my_r = Some ?my" "trades A Bids my_r a1" "db_tables a1 = db_tables a"
    "tx_mail A N a a1 = [\<lparr>pk_peer = x_own_id A,
      pk_item = RemoteTxItem (o_order_id other) QUERY SERVER (o_order_id my) (query_payload A ?k dest 0)\<rparr>]"
    using buyer_asks [OF assms(2-4,6,7) refl] by blast
  have q: "query_payload A ?k dest 0 = query_text A cur dest (o_price other) amount"
    by (rule query_text [OF assms(1)]) (simp_all add: fresh_contract_def)
  have k: "k' = ?k\<lparr>k_btcAmount := n, k_btcTxId := tid, k_activated := True\<rparr>" "k_party ?k = SENDER" "n \<le> k_btcAmount ?k"
    and f: "k_counterParty ?k = x_own_id N" "o_order_id ?my = o_order_id my" "o_amount ?my = o_amount my"
    using assms(10) by (simp_all add: assms(11) kept_contract_def fresh_contract_def)
  have st: "storable A k'" using assms(2,7,8) known_no_quote [of A cur]
    by (auto simp: storable_def known_currency_def assms(3,11) kept_contract_def token_def trades_def can_buy_def)
  have v: "txId = rx_addr ?v @ '':'' @ rx_payerId ?v" "rx_phase ?v = VOTE_YES"
    "TransactionManager_split (rx_payload ?v) = [toStdString A n, tid]" "fromFractionString A (toStdString A n) = Inr n"
    using vote_read [OF assms(1,8,9)] by (simp_all add: assms(4))
  obtain a2 ord ps where h: "handleTxItem_remote A ?v a1 = (Inr ZR_FINISH, a2)" and a2:
    "k_heap a2 = (k_heap a1)(k_next a \<mapsto> k')" "k_contracts a2 = k_contracts a1" "t_current a2 = map_erase txId (t_current a1)"
    "abs_peers (db_tables a2) = abs_peers (db_tables a1)"
    "t_btccontracts (db_tables a2) = t_btccontracts (db_tables a1) @ [contract_row A k']" "traded my_r (o_amount ?my) n a2"
    "s_sent a2 = s_sent a1 @ \<lparr>pk_peer = k_counterParty ?k, pk_item = RemoteTxItem (o_order_id other) COMMIT SERVER (o_order_id ?my) []\<rparr>
       # map (order_packet ord) ps"
    using buyer_commits [OF a1(2) v(1,2) k(2,3) v(3,4) a1(5,6) cb a1(7) k(1) st] unfolding traded_def by blast
  have "map_erase txId (t_current a1) = t_current a" using assms(5) a1(4) by (simp add: erase_put manager_of_def)
  with a1(1,3,8,9) a2 [unfolded f] receive_remote [OF h] tx_mail_one [OF a2(7) [unfolded f]] show ?thesis
    by (intro exI [of _ a1] exI [of _ a2]) (simp add: q query_item_def vote_item_def commit_item_def)
qed

text \<open>The seller's side: it votes when it is asked, and settles when the commit comes.\<close>

lemma seller_side:
  assumes "same_format A B" and "can_sell B (x_own_id N) b sell_r sell cur price acc" and "CHR '':'' \<notin> set cur"
    and "txId = o_order_id sell @ '':'' @ pid" and "manager_of txId b = None" and "0 < m"
    and "n = min (min m (available acc / price)) (o_amount sell - o_commitment sell)"
    and "x_mk_raw_tx B (w_rpc b) n (o_btcAddr sell) dest = (change, Some (hex, tid))"
    and "token dest" and "token tid" and "zr_fits m" and "zr_fits (m * price)"
    and "db_exact B (a_allocation acc + min m (available acc / price) * price)" and "db_exact B (a_allocation acc + n * price)"
    and "k' = kept_contract tid n price cur dest RECEIVER (x_own_id N) (w_now b)"
  shows "\<exists>b1 b2. for_each [\<lparr>pk_peer = x_own_id N, pk_item = query_item A (o_order_id sell) pid cur dest price m\<rparr>] (receive_item B) b = (Inr (), b1) \<and>
    tx_mail B N b b1 = [\<lparr>pk_peer = x_own_id B, pk_item = vote_item A (o_order_id sell) pid tid n\<rparr>] \<and>
    for_each [\<lparr>pk_peer = x_own_id N, pk_item = commit_item (o_order_id sell) pid\<rparr>] (receive_item B) b1 = (Inr (), b2) \<and>
    tx_mail B N b1 b2 = [] \<and>
    t_current b2 = t_current b \<and> k_contracts b2 = k_contracts b @ [k_next b] \<and> k_heap b2 (k_next b) = Some k' \<and>
    t_btccontracts (db_tables b2) = t_btccontracts (db_tables b) @ [contract_row B k'] \<and>
    abs_peers (db_tables b2) = (abs_peers (db_tables b))((x_own_id N, cur) \<mapsto> acc\<lparr>a_allocation := a_allocation acc + n * price\<rparr>) \<and>
    s_raw b2 = s_raw b @ [hex] \<and> traded sell_r (o_amount sell) n b2"
proof -
  let ?k = "(fresh_contract n 0 price cur RECEIVER (x_own_id N) (w_now b))\<lparr>k_destAddress := dest, k_btcTxId := tid\<rparr>"
  let ?km = "(fresh_contract m 0 price cur SENDER [] 0)\<lparr>k_destAddress := dest\<rparr>"
  let ?w = "\<lparr>rx_peer = x_own_id N, rx_addr = o_order_id sell, rx_phase = COMMIT, rx_dir = SERVER, rx_payerId = pid, rx_payload = []\<rparr>"
  let ?sell = "sell\<lparr>o_commitment := o_commitment sell + n, o_btcAddr := change\<rparr>"
  have cs: "trades B Asks sell_r b" "b_heap b sell_r = Some sell" "line_ok B (x_own_id N) cur b acc"
    using assms(2) unfolding can_sell_def by blast+
  have AA: "same_format A A" using assms(1) by (simp add: same_format_def)
  have km: "?km = (fresh_contract m 0 price cur SENDER [] 0)\<lparr>k_destAddress := dest\<rparr>" by (rule refl)
  have q: "query_payload A ?km dest 0 = query_text A cur dest price m" by (rule query_text [OF AA]) (simp_all add: fresh_contract_def)
  have sv: "serves B \<lparr>rx_peer = x_own_id N, rx_addr = o_order_id sell, rx_phase = QUERY, rx_dir = SERVER, rx_payerId = pid,
      rx_payload = query_text A cur dest price m\<rparr> b sell_r sell cur price m dest acc n"
    using query_serves [OF assms(1,2,6) km assms(9,3,11,12,7,13,14), of pid] by (simp only: q)
  have vp: "vote_payload B n tid = vote_payload A n tid" using assms(1) by (simp add: vote_payload_def same_format_def toStdString_def)
  obtain b1 where b1: "for_each [\<lparr>pk_peer = x_own_id N, pk_item = query_item A (o_order_id sell) pid cur dest price m\<rparr>] (receive_item B) b = (Inr (), b1)"
    "selling b1 txId sell_r (k_next b) ?k hex" "t_current b1 = map_put txId (t_next b) (t_current b)"
    "k_contracts b1 = k_contracts b @ [k_next b]" "b_heap b1 sell_r = Some ?sell" "trades B Asks sell_r b1" "s_raw b1 = s_raw b"
    "t_btccontracts (db_tables b1) = t_btccontracts (db_tables b)"
    "abs_peers (db_tables b1) = (abs_peers (db_tables b))((x_own_id N, cur) \<mapsto> acc\<lparr>a_allocation := a_allocation acc + n * price\<rparr>)"
    "tx_mail B N b b1 = [\<lparr>pk_peer = x_own_id B, pk_item = vote_item A (o_order_id sell) pid tid n\<rparr>]"
    using seller_answers [OF assms(5,4) cs(1,2) sv assms(8) refl] unfolding query_item_def vote_item_def vp by blast
  have k: "k' = ?k\<lparr>k_activated := True\<rparr>" and f: "k_btcAmount ?k = n" "o_amount ?sell = o_amount sell"
    by (simp_all add: assms(15) kept_contract_def fresh_contract_def)
  have st: "storable B ?k" using assms(9,10) cs(3) known_no_quote
    by (auto simp: storable_def fresh_contract_def token_def line_ok_def)
  have w: "txId = rx_addr ?w @ '':'' @ rx_payerId ?w" "rx_phase ?w = COMMIT" by (simp_all add: assms(4))
  obtain b2 ord ps where h: "handleTxItem_remote B ?w b1 = (Inr ZR_FINISH, b2)" and b2:
    "k_heap b2 = (k_heap b1)(k_next b \<mapsto> k')" "k_contracts b2 = k_contracts b1" "t_current b2 = map_erase txId (t_current b1)"
    "abs_peers (db_tables b2) = abs_peers (db_tables b1)"
    "t_btccontracts (db_tables b2) = t_btccontracts (db_tables b1) @ [contract_row B k']" "s_raw b2 = s_raw b1 @ [hex]"
    "traded sell_r (o_amount ?sell) (k_btcAmount ?k) b2" "s_sent b2 = s_sent b1 @ map (order_packet ord) ps"
    using seller_settles [OF b1(2) w b1(6,5) k st] unfolding traded_def by blast
  have "map_erase txId (t_current b1) = t_current b" using assms(5) b1(3) by (simp add: erase_put manager_of_def)
  with b1(1,4,7-10) b2 [unfolded f] receive_remote [OF h] tx_mail_none [OF b2(8)] show ?thesis
    by (intro exI [of _ b1] exI [of _ b2]) (simp add: commit_item_def)
qed

text \<open>
  C5: A purchase between two friends is carried through. When the buyer's node matches its bid with
  the seller's ask, four steps follow, each node handling the packets the other one sent: the
  buyer asks, the seller votes, the buyer commits, the seller settles. Then no packet of the
  transaction is left and neither node keeps its manager. Both have registered and stored an
  activated contract with the same transaction id, amount, price and currency, each naming the other
  party. The amount is what was asked for, cut down to what the buyer's credit line with
  the seller can pay and to what is left of the order; the seller has reserved exactly its price on
  that line, no other account has changed, and the seller has sent the signed transaction.
  Both orders are smaller by the amount, or gone.
\<close>

theorem purchase_settles:
  assumes "same_format A B" and "can_buy A (x_own_id B) a other_r other my_r my"
    and "can_sell B (x_own_id A) b sell_r sell cur (o_price other) acc"
    and "o_order_id sell = o_order_id other" and "cur = currencySymbols (x_build A) ! o_currency other" and "CHR '':'' \<notin> set cur"
    and "txId = o_order_id other @ '':'' @ o_order_id my" and "manager_of txId a = None" and "manager_of txId b = None"
    and "0 < amount" and "n = min (min amount (available acc / o_price other)) (o_amount sell - o_commitment sell)"
    and "dest = x_new_address A (w_rpc a)" and "x_mk_raw_tx B (w_rpc b) n (o_btcAddr sell) dest = (change, Some (hex, btcTxId))"
    and "token dest" and "token btcTxId" and "zr_fits amount" and "zr_fits (amount * o_price other)" and "zr_fits n"
    and "db_exact B (a_allocation acc + min amount (available acc / o_price other) * o_price other)"
    and "db_exact B (a_allocation acc + n * o_price other)"
    and "kA = \<lparr>k_btcTxId = btcTxId, k_btcAmount = n, k_price = o_price other, k_currencySym = cur, k_party = SENDER,
      k_counterParty = x_own_id B, k_activated = True, k_destAddress = dest, k_creationtime = w_now a, k_fee = 0\<rparr>"
    and "kB = kA\<lparr>k_party := RECEIVER, k_counterParty := x_own_id A, k_creationtime := w_now b\<rparr>"
  shows "\<exists>a1 a2 b1 b2. MyOrders_buy A other_r my_r amount a = (Inr (), a1) \<and>
    for_each (tx_mail A B a a1) (receive_item B) b = (Inr (), b1) \<and>
    for_each (tx_mail B A b b1) (receive_item A) a1 = (Inr (), a2) \<and>
    for_each (tx_mail A B a1 a2) (receive_item B) b1 = (Inr (), b2) \<and> tx_mail B A b1 b2 = [] \<and>
    t_current a2 = t_current a \<and> t_current b2 = t_current b \<and>
    k_contracts a2 = k_contracts a @ [k_next a] \<and> k_heap a2 (k_next a) = Some kA \<and>
    k_contracts b2 = k_contracts b @ [k_next b] \<and> k_heap b2 (k_next b) = Some kB \<and>
    t_btccontracts (db_tables a2) = t_btccontracts (db_tables a) @ [contract_row A kA] \<and>
    t_btccontracts (db_tables b2) = t_btccontracts (db_tables b) @ [contract_row B kB] \<and>
    abs_peers (db_tables a2) = abs_peers (db_tables a) \<and>
    abs_peers (db_tables b2) = (abs_peers (db_tables b))((x_own_id A, cur) \<mapsto> acc\<lparr>a_allocation := a_allocation acc + getFiatAmount kB\<rparr>) \<and>
    s_raw b2 = s_raw b @ [hex] \<and>
    (if n < o_amount my then \<exists>x. b_heap a2 my_r = Some x \<and> o_amount x = o_amount my - n else b_heap a2 my_r = None \<and> (\<forall>sd. my_r \<notin> set (refs a2 sd))) \<and>
    (if n < o_amount sell then \<exists>x. b_heap b2 sell_r = Some x \<and> o_amount x = o_amount sell - n else b_heap b2 sell_r = None \<and> (\<forall>sd. sell_r \<notin> set (refs b2 sd)))"
proof -
  let ?addr = "o_order_id other" and ?pid = "o_order_id my" and ?price = "o_price other"
  have AA: "same_format A A" "same_format A B" using assms(1) by (simp_all add: same_format_def)
  have k: "kA = kept_contract btcTxId n ?price cur dest SENDER (x_own_id B) (w_now a)"
    "kB = kept_contract btcTxId n ?price cur dest RECEIVER (x_own_id A) (w_now b)"
    by (simp_all add: assms(21,22) kept_contract_def)
  have "n \<le> amount" by (simp add: assms(11))
  then obtain a1 a2 where A: "MyOrders_buy A other_r my_r amount a = (Inr (), a1)"
    "tx_mail A B a a1 = [\<lparr>pk_peer = x_own_id A, pk_item = query_item A ?addr ?pid cur dest ?price amount\<rparr>]"
    "for_each [\<lparr>pk_peer = x_own_id B, pk_item = vote_item A ?addr ?pid btcTxId n\<rparr>] (receive_item A) a1 = (Inr (), a2)"
    "tx_mail A B a1 a2 = [\<lparr>pk_peer = x_own_id A, pk_item = commit_item ?addr ?pid\<rparr>]"
    "t_current a2 = t_current a" "k_contracts a2 = k_contracts a @ [k_next a]" "k_heap a2 (k_next a) = Some kA"
    "t_btccontracts (db_tables a2) = t_btccontracts (db_tables a) @ [contract_row A kA]"
    "abs_peers (db_tables a2) = abs_peers (db_tables a)" "traded my_r (o_amount my) n a2"
    using buyer_side [OF AA(1) assms(2,5,7,8,12,14,15,18) _ k(1)] by blast
  obtain b1 b2 where B: "for_each [\<lparr>pk_peer = x_own_id A, pk_item = query_item A ?addr ?pid cur dest ?price amount\<rparr>] (receive_item B) b = (Inr (), b1)"
    "tx_mail B A b b1 = [\<lparr>pk_peer = x_own_id B, pk_item = vote_item A ?addr ?pid btcTxId n\<rparr>]"
    "for_each [\<lparr>pk_peer = x_own_id A, pk_item = commit_item ?addr ?pid\<rparr>] (receive_item B) b1 = (Inr (), b2)" "tx_mail B A b1 b2 = []"
    "t_current b2 = t_current b" "k_contracts b2 = k_contracts b @ [k_next b]" "k_heap b2 (k_next b) = Some kB"
    "t_btccontracts (db_tables b2) = t_btccontracts (db_tables b) @ [contract_row B kB]"
    "abs_peers (db_tables b2) = (abs_peers (db_tables b))((x_own_id A, cur) \<mapsto> acc\<lparr>a_allocation := a_allocation acc + n * ?price\<rparr>)"
    "s_raw b2 = s_raw b @ [hex]" "traded sell_r (o_amount sell) n b2"
    using seller_side [OF AA(2) assms(3,6) _ assms(9-11,13-17,19,20) k(2), of ?pid] assms(4,7) by auto
  have "getFiatAmount kB = n * ?price" by (simp add: assms(21,22) getFiatAmount_def)
  then show ?thesis
    using A(1,3-9) B(1,3-10) A(10) [unfolded traded_def] B(11) [unfolded traded_def]
    by (intro exI [of _ a1] exI [of _ a2] exI [of _ b1] exI [of _ b2]) (simp add: A(2,4) B(2))
qed

section \<open>Witness\<close>

text \<open>A buyer with a bid of its own and the ask of a friend, and the friend, whose line with the buyer pays for a part.\<close>

definition demo_buyer :: tmw where
  "demo_buyer = (svcw.extend (demo_svcw [] [] [demo_order ''b'' BID 20 5, (demo_order ''x'' ASK 15 4)\<lparr>o_isMyOrder := False\<rparr>]
     [0] [1] [0]) \<lparr>t_heap = Map.empty, t_next = 0, t_current = [], t_sequence = 0\<rparr>)
     \<lparr>n_router := TraceRouter_addRoute ''x'' ''bo'' demo_router\<rparr>"

definition demo_seller :: tmw where
  "demo_seller = svcw.extend (demo_svcw [demo_peer ''me'' 20 0 0 0] [] [demo_order ''x'' ASK 15 4] [] [0] [0])
     \<lparr>t_heap = Map.empty, t_next = 0, t_current = [], t_sequence = 0\<rparr>"

lemma demo_buyer_simps [simp]:
  "b_heap demo_buyer = [0 \<mapsto> demo_order ''b'' BID 20 5, Suc 0 \<mapsto> (demo_order ''x'' ASK 15 4)\<lparr>o_isMyOrder := False\<rparr>]"
  "b_next demo_buyer = 2" "w_online demo_buyer = []" "w_now demo_buyer = 0" "t_current demo_buyer = []" "k_contracts demo_buyer = []"
  "b_book demo_buyer = (\<lambda>sd. demo_book (case sd of Bids \<Rightarrow> [0] | Asks \<Rightarrow> [Suc 0] | Mine \<Rightarrow> [0]))"
  "db_tables demo_buyer = demo_tables\<lparr>t_peers := []\<rparr>" "n_router demo_buyer = TraceRouter_addRoute ''x'' ''bo'' demo_router"
  by (simp_all add: demo_buyer_def svcw.defs demo_svcw_def fun_eq_iff)

lemma demo_seller_simps [simp]:
  "b_heap demo_seller = [0 \<mapsto> demo_order ''x'' ASK 15 4]" "b_next demo_seller = 1" "w_online demo_seller = []"
  "w_now demo_seller = 0" "t_current demo_seller = []" "k_contracts demo_seller = []" "s_raw demo_seller = []"
  "b_book demo_seller = (\<lambda>sd. demo_book (case sd of Bids \<Rightarrow> [] | Asks \<Rightarrow> [0] | Mine \<Rightarrow> [0]))"
  "db_tables demo_seller = demo_tables\<lparr>t_peers := [demo_peer ''me'' 20 0 0 0]\<rparr>"
  by (simp_all add: demo_seller_def svcw.defs demo_svcw_def fun_eq_iff)

lemma demo_trades: "trades demo Bids 0 demo_buyer" "trades demo_friend Asks 0 demo_seller"
  using demo_db_up by (auto simp: trades_def books_inv_def book_inv_def oid_def demo_order_simps no_quote_def peers_ok_def
    db_up_def row_ok_account demo_peer_account in_i64_def)

lemma demo_seller_line: "line_ok demo_friend ''me'' ''GPM'' demo_seller
   \<lparr>a_credit = 20, a_our_credit = 0, a_balance = 0, a_allocation = 0\<rparr>"
  using demo_db_up by (simp add: line_ok_def db_up_def known_currency_def currencySymbols_testnet_def no_quote_def peers_ok_def
    row_ok_account abs_peers_def demo_peer_account in_i64_def)

theorem purchase_settles_witness:
  "\<exists>a1 a2 b1 b2. MyOrders_buy demo 1 0 9 demo_buyer = (Inr (), a1) \<and>
    for_each (tx_mail demo demo_friend demo_buyer a1) (receive_item demo_friend) demo_seller = (Inr (), b1) \<and>
    for_each (tx_mail demo_friend demo demo_seller b1) (receive_item demo) a1 = (Inr (), a2) \<and>
    for_each (tx_mail demo demo_friend a1 a2) (receive_item demo_friend) b1 = (Inr (), b2) \<and>
    k_contracts a2 = [k_next demo_buyer] \<and> s_raw b2 = [''hex''] \<and>
    (\<exists>x. b_heap a2 0 = Some x \<and> o_amount x = 15) \<and> (\<exists>x. b_heap b2 0 = Some x \<and> o_amount x = 10)"
proof -
  let ?acc = "\<lparr>a_credit = 20, a_our_credit = 0, a_balance = 0, a_allocation = 0\<rparr>" and ?o = "demo_order ''x'' ASK 15 4"
  let ?x = "?o\<lparr>o_isMyOrder := False\<rparr>" and ?b = "demo_order ''b'' BID 20 5"
  have f: "same_format demo demo_friend" using demo_frac_io by (simp add: same_format_def demo_friend_def)
  have b: "can_buy demo (x_own_id demo_friend) demo_buyer 1 ?x 0 ?b"
    using demo_trades(1) by (simp add: can_buy_def demo_order_simps no_quote_def TraceRouter_nextHop_def TraceRouter_addRoute_def
        demo_router_def currencySymbols_testnet_def)
  have s: "can_sell demo_friend (x_own_id demo) demo_seller 0 ?o ''GPM'' (o_price ?x) ?acc"
    using demo_trades(2) demo_seller_line
    by (simp add: can_sell_def demo_order_simps demo_def available_def currencySymbols_testnet_def)
  have k: "o_order_id ?o = o_order_id ?x" "''GPM'' = currencySymbols (x_build demo) ! o_currency ?x" "CHR '':'' \<notin> set ''GPM''"
    "''x:b'' = o_order_id ?x @ '':'' @ o_order_id ?b" "manager_of ''x:b'' demo_buyer = None" "manager_of ''x:b'' demo_seller = None"
    by (simp_all add: demo_order_simps currencySymbols_testnet_def manager_of_def)
  have n: "(5 :: rat) = min (min 9 (available ?acc / o_price ?x)) (o_amount ?o - o_commitment ?o)" "(0 :: rat) < 9"
    by (simp_all add: available_def demo_order_simps)
  have z: "zr_fits 9" "zr_fits (9 * o_price ?x)" "zr_fits 5" by (simp_all add: zr_fits_def in_i64_def demo_order_simps)
  have e: "db_exact demo_friend (a_allocation ?acc + min 9 (available ?acc / o_price ?x) * o_price ?x)"
    "db_exact demo_friend (a_allocation ?acc + 5 * o_price ?x)"
    using demo_db_exact [of 20] by (simp_all add: in_i64_def available_def demo_order_simps)
  have t: "token ''addr''" "token ''txid''" by (simp_all add: token_def no_quote_def)
  have x: "''addr'' = x_new_address demo (w_rpc demo_buyer)"
    "x_mk_raw_tx demo_friend (w_rpc demo_seller) 5 (o_btcAddr ?o) ''addr'' = (o_btcAddr ?o, Some (''hex'', ''txid''))"
    by (simp_all add: demo_friend_def demo_def)
  obtain a1 a2 b1 b2 where r: "MyOrders_buy demo 1 0 9 demo_buyer = (Inr (), a1)"
    "for_each (tx_mail demo demo_friend demo_buyer a1) (receive_item demo_friend) demo_seller = (Inr (), b1)"
    "for_each (tx_mail demo_friend demo demo_seller b1) (receive_item demo) a1 = (Inr (), a2)"
    "for_each (tx_mail demo demo_friend a1 a2) (receive_item demo_friend) b1 = (Inr (), b2)"
    "k_contracts a2 = k_contracts demo_buyer @ [k_next demo_buyer]" "s_raw b2 = s_raw demo_seller @ [''hex'']"
    "if 5 < o_amount ?b then \<exists>x. b_heap a2 0 = Some x \<and> o_amount x = o_amount ?b - 5
     else b_heap a2 0 = None \<and> (\<forall>sd. 0 \<notin> set (refs a2 sd))"
    "if 5 < o_amount ?o then \<exists>x. b_heap b2 0 = Some x \<and> o_amount x = o_amount ?o - 5
     else b_heap b2 0 = None \<and> (\<forall>sd. 0 \<notin> set (refs b2 sd))"
    using purchase_settles [OF f b s k n(2,1) x t z e refl refl] by blast
  have "o_amount ?b = 20" "o_amount ?o = 15" by (simp_all add: demo_order_simps)
  then show ?thesis using r by (intro exI [of _ a1] exI [of _ a2] exI [of _ b1] exI [of _ b2]) simp
qed

end
