(* ===== verification/Hops.thy ===== *)
theory Hops
  imports Purchase
begin

text \<open>
  A purchase over friends in between: what a hop does with a query, a vote and a commit, and the run of
  a whole chain of nodes, from the bid of the buyer over any number of hops to the seller and back.
\<close>

section \<open>The steps of a hop\<close>

text \<open>The manager of a purchase that goes through this node, with its two contracts.\<close>

definition relaying :: "'z tmw_scheme \<Rightarrow> TransactionId \<Rightarrow> cref \<Rightarrow> cref \<Rightarrow> BtcContract \<Rightarrow> BtcContract \<Rightarrow> TxPhase \<Rightarrow> bool" where
  "relaying s txId payer payee kp ke ph \<longleftrightarrow> (\<exists>r t. manager_of txId s = Some r \<and> t_heap s r = Some t \<and> tm_TxId t = txId \<and>
     tm_Phase t = ph \<and> tm_class t = TmContractCohorteHop (Some payer) (Some payee)) \<and>
     k_heap s payer = Some kp \<and> k_heap s payee = Some ke \<and> payer \<noteq> payee"

text \<open>A query that the node can pass on, and the amount it passes on.\<close>

definition passes :: "ext \<Rightarrow> remote_tx \<Rightarrow> 'z tmw_scheme \<Rightarrow> PeerAddress \<Rightarrow> string \<Rightarrow> ZR_Number \<Rightarrow> ZR_Number
    \<Rightarrow> BitcoinAddress \<Rightarrow> account \<Rightarrow> ZR_Number \<Rightarrow> bool" where
  "passes E i s q cur price amount dest acc m \<longleftrightarrow>
     books_inv s \<and> with_id s Mine (rx_addr i) = None \<and> TraceRouter_nextHop (n_router s) (rx_addr i) = q \<and>
     line_ok E (rx_peer i) cur s acc \<and> 0 < available acc \<and> 0 < price \<and> 0 < amount \<and>
     (\<exists>f a z. TransactionManager_split (rx_payload i) = [f, cur, dest, a, z] \<and> fromFractionString E f = Inr (amount * price) \<and>
        fromFractionString E a = Inr amount \<and> fromFractionString E z = Inr 0) \<and>
     m = min amount (available acc / price) \<and> db_exact E (a_allocation acc + m * price)"

definition tunnel :: "VirtualAddress \<Rightarrow> 'z netw_scheme \<Rightarrow> (PeerAddress \<times> PeerAddress) option" where
  "tunnel addr s = m_Tunnels (n_router s) addr"

lemma tunnel_cong [simp]:
  "tunnel addr (s\<lparr>k_heap := h\<rparr>) = tunnel addr s" "tunnel addr (with_tm r t u) = tunnel addr u"
  "tunnel addr (sent_to p i v) = tunnel addr v" "tunnel addr (unregistered r txId u) = tunnel addr u"
  by (simp_all add: tunnel_def with_tm_def sent_to_def unregistered_def)

lemma forward_run:
  assumes "tunnel (rx_addr i) s = Some (p, q)"
  shows "forwardItem i pl s = (Inr ZR_SUCCESS, sent_to (if rx_dir i = SERVER then q else p)
    (RemoteTxItem (rx_addr i) (rx_phase i) (rx_dir i) (rx_payerId i) pl) s)"
  using assms by (simp add: forwardItem_def tunnel_def Router_getTunnel_def prog_step send_remote_def thn_def bnd_def run_simps prog_apply)

lemma mkTunnel_run:
  "mkTunnel i s = (Inr (), s\<lparr>n_router := Router_addTunnel (rx_addr i) (rx_peer i, TraceRouter_nextHop (n_router s) (rx_addr i)) (n_router s)\<rparr>)"
  by (simp add: mkTunnel_def prog_apply)

lemma query_passed:
  assumes "passes E i s q cur price amount dest acc m" and "t_heap s r = Some t" and "tm_Phase t = INIT" and "rx_dir i = SERVER"
    and "ke = (fresh_contract m 0 price cur RECEIVER (rx_peer i) (w_now s))\<lparr>k_destAddress := dest\<rparr>"
    and "kp = (fresh_contract amount 0 price cur SENDER q (w_now s))\<lparr>k_destAddress := dest\<rparr>"
  shows "\<exists>s'. TmContractCohorteHop_doQuery E r t i s = (Inr ZR_SUCCESS, s') \<and>
    t_heap s' = (t_heap s)(r \<mapsto> t\<lparr>tm_Phase := QUERY, tm_class := TmContractCohorteHop (Some (Suc (k_next s))) (Some (k_next s))\<rparr>) \<and>
    t_current s' = t_current s \<and> k_heap s' = (k_heap s)(k_next s \<mapsto> ke, Suc (k_next s) \<mapsto> kp) \<and>
    k_contracts s' = k_contracts s @ [k_next s, Suc (k_next s)] \<and> tunnel (rx_addr i) s' = Some (rx_peer i, q) \<and>
    t_btccontracts (db_tables s') = t_btccontracts (db_tables s) \<and> peers_ok (db_tables s') \<and>
    abs_peers (db_tables s') = (abs_peers (db_tables s))((rx_peer i, cur) \<mapsto> acc\<lparr>a_allocation := a_allocation acc + m * price\<rparr>) \<and>
    s_sent s' = s_sent s @ [\<lparr>pk_peer = q, pk_item = RemoteTxItem (rx_addr i) (rx_phase i) SERVER (rx_payerId i) (query_payload E ke dest 0)\<rparr>]"
proof -
  let ?cp = "rx_peer i" and ?k1 = "k_next s" and ?k2 = "Suc (k_next s)"
  let ?rt = "Router_addTunnel (rx_addr i) (?cp, q) (n_router s)"
  let ?s1 = "with_tm r (t\<lparr>tm_Phase := QUERY\<rparr>) s\<lparr>n_router := ?rt\<rparr>"
  let ?ke0 = "fresh_contract m 0 price cur RECEIVER ?cp (w_now s)" and ?kp0 = "fresh_contract amount 0 price cur SENDER q (w_now s)"
  have pa: "TraceRouter_nextHop (n_router s) (rx_addr i) = q" "line_ok E ?cp cur s acc" "0 < available acc" "0 < price" "0 < amount"
    "m = min amount (available acc / price)" "db_exact E (a_allocation acc + m * price)" using assms(1) unfolding passes_def by blast+
  obtain f a z where pl: "TransactionManager_split (rx_payload i) = [f, cur, dest, a, z]"
    "fromFractionString E f = Inr (amount * price)" "fromFractionString E a = Inr amount" "fromFractionString E z = Inr 0"
    using assms(1) by (auto simp: passes_def)
  have l1: "line_ok E ?cp cur ?s1 acc" using pa(2) by (simp add: line_ok_def with_tm_def)
  obtain s2 where s2: "new_BtcContract E amount 0 price cur RECEIVER ?cp 0 ?s1 = (Inr ?k1, ContractLaws.registered ?k1 ?ke0 s2)"
    "frame ?s1 s2" "k_heap s2 = k_heap s" "k_next s2 = k_next s"
    "line_ok E ?cp cur s2 (acc\<lparr>a_allocation := a_allocation acc + m * price\<rparr>)"
    "abs_peers (db_tables s2) = (abs_peers (db_tables s))((?cp, cur) \<mapsto> acc\<lparr>a_allocation := a_allocation acc + m * price\<rparr>)"
    using contract_runs [OF l1 pa(4,3) less_imp_le [OF pa(5)] pa(6,7)] by (auto simp: with_tm_def)
  let ?t1 = "t\<lparr>tm_Phase := QUERY, tm_class := TmContractCohorteHop None (Some ?k1)\<rparr>"
  let ?t2 = "t\<lparr>tm_Phase := QUERY, tm_class := TmContractCohorteHop (Some ?k2) (Some ?k1)\<rparr>"
  let ?s3 = "with_tm r ?t1 (ContractLaws.registered ?k1 ?ke0 s2)"
  let ?s4 = "with_tm r ?t2 (ContractLaws.registered ?k2 ?kp0 ?s3)"
  have h2: "t_heap s2 r = Some (t\<lparr>tm_Phase := QUERY\<rparr>)" "w_now s2 = w_now s" "n_router s2 = ?rt"
    using s2(2) by (simp_all add: frame_def with_tm_def)
  have c1: "set_class r (TmContractCohorteHop None (Some ?k1)) (ContractLaws.registered ?k1 ?ke0 s2) = (Inr (), ?s3)"
    using h2(1) by (simp add: set_class_def run_simps)
  have n2: "new_BtcContract E amount 0 price cur SENDER q 0 ?s3 = (Inr ?k2, ContractLaws.registered ?k2 ?kp0 ?s3)"
    using new_sender_ok [of E amount 0 price cur q ?s3] s2(4) h2(2) by (simp add: ContractLaws.registered_def with_tm_def)
  have c2: "set_class r (TmContractCohorteHop (Some ?k2) (Some ?k1)) (ContractLaws.registered ?k2 ?kp0 ?s3) = (Inr (), ?s4)"
    by (simp add: set_class_def run_simps with_tm_def ContractLaws.registered_def)
  have made: "try_catch catch_runtime_error (bnd (new_BtcContract E amount 0 price cur RECEIVER ?cp 0) (\<lambda>payee.
      thn (set_class r (TmContractCohorteHop None (Some payee)))
      (bnd (new_BtcContract E amount 0 price cur SENDER q 0) (\<lambda>payer.
       thn (set_class r (TmContractCohorteHop (Some payer) (Some payee))) (ret (Some (payer, payee))))))) h ?s1
    = (Inr (Some (?k2, ?k1)), ?s4)" for h
    by (rule try_catch_Inr, rule bnd_step, rule s2(1), rule thn_step, rule c1, rule bnd_step, rule n2, rule thn_step, rule c2)
      (simp add: prog_apply)
  have k4: "k_heap ?s4 ?k1 = Some ?ke0" "k_heap ?s4 ?k2 = Some ?kp0" by (simp_all add: ContractLaws.registered_def with_tm_def)
  obtain s4 where s4: "s4 = ?s4" by blast
  let ?s5 = "s4\<lparr>k_heap := (k_heap s4)(?k1 \<mapsto> ke)\<rparr>"
  let ?s6 = "s4\<lparr>k_heap := (k_heap s4)(?k1 \<mapsto> ke, ?k2 \<mapsto> kp)\<rparr>"
  have k5: "k_heap s4 ?k1 = Some ?ke0" "k_heap ?s5 ?k2 = Some ?kp0" using k4 by (simp_all add: s4)
  have b1: "setBtcAddress ?k1 dest s4 = (Inr (), ?s5)" using upd_contract_ok [OF k5(1)] by (simp add: setBtcAddress_def assms(5))
  have b2: "setBtcAddress ?k2 dest ?s5 = (Inr (), ?s6)" using upd_contract_ok [OF k5(2)] by (simp add: setBtcAddress_def assms(6))
  have g: "get_contract ?k1 ?s6 = (Inr ke, ?s6)" by (rule get_contract_ok) simp
  have tn: "tunnel (rx_addr i) ?s6 = Some (?cp, q)"
    by (simp add: s4 h2(3) tunnel_def Router_addTunnel_def with_tm_def ContractLaws.registered_def)
  let ?s7 = "sent_to q (RemoteTxItem (rx_addr i) (rx_phase i) SERVER (rx_payerId i) (query_payload E ke dest 0)) ?s6"
  have fw: "forwardItem i (query_payload E ke dest 0) ?s6 = (Inr ZR_SUCCESS, ?s7)"
    using forward_run [OF tn] assms(4) by simp
  have ph: "set_phase r QUERY s = (Inr (), with_tm r (t\<lparr>tm_Phase := QUERY\<rparr>) s)" using assms(2) by (simp add: set_phase_def run_simps)
  have mk: "mkTunnel i (with_tm r (t\<lparr>tm_Phase := QUERY\<rparr>) s) = (Inr (), ?s1)" using pa(1) by (simp add: mkTunnel_run)
  have pr: "zr_div (amount * price) amount = Inr price" using pa(5) by (simp add: zr_div_def)
  have gt: "Router_getTunnel ?rt (rx_addr i) d = (ZR_SUCCESS, (?cp, q))" for d by (simp add: Router_getTunnel_def Router_addTunnel_def)
  have qp: "toStdString E (getFiatAmount ke) @ '':'' @ cur @ '':'' @ dest @ '':'' @ toStdString E (k_btcAmount ke) @ '':'' @ toStdString E 0
    = query_payload E ke dest 0" by (simp add: query_payload_def assms(5) fresh_contract_def)
  have tail: "thn (setBtcAddress ?k1 dest) (thn (setBtcAddress ?k2 dest) (bnd (get_contract ?k1) (\<lambda>k.
      thn (forwardItem i (toStdString E (getFiatAmount k) @ '':'' @ cur @ '':'' @ dest @ '':'' @ toStdString E (k_btcAmount k) @ '':'' @
        toStdString E 0)) (ret ZR_SUCCESS)))) s4 = (Inr ZR_SUCCESS, ?s7)"
    by (rule thn_step, rule b1, rule thn_step, rule b2, rule bnd_step, rule g, rule thn_step, unfold qp, rule fw) (simp add: prog_apply)
  have "TmContractCohorteHop_doQuery E r t i s = (Inr ZR_SUCCESS, ?s7)"
    unfolding TmContractCohorteHop_doQuery_def Let_def pl(1) assms(3)
    by (simp only: refl if_False not_True_eq_False, rule thn_step, rule ph, rule thn_step, rule mk)
      (use tail in \<open>simp add: prog_step pl(2-4) pr gt bnd_def [of "try_catch _ _ _"] made [unfolded prog_step(9), folded s4]\<close>)
  moreover have "k_contracts s2 = k_contracts s" "t_current s2 = t_current s" "t_heap s2 = (t_heap s)(r \<mapsto> t\<lparr>tm_Phase := QUERY\<rparr>)"
    "s_sent s2 = s_sent s" "t_btccontracts (db_tables s2) = t_btccontracts (db_tables s)"
    using s2(2) by (simp_all add: frame_def with_tm_def)
  moreover have "peers_ok (db_tables s2)" using s2(5) by (simp add: line_ok_def)
  ultimately show ?thesis
    using s2(3,6) tn s4 by (intro exI [of _ ?s7]) (simp add: with_tm_def ContractLaws.registered_def sent_to_def tunnel_def fun_upd_twist)
qed

section \<open>The handlers of a hop\<close>

lemma hop_new_run:
  assumes "manager_of (rx_addr i @ '':'' @ rx_payerId i) s = None" and "OrderBook_find Mine (rx_addr i) s = (Inr None, s)"
    and "process_remote E (t_next s) i (registered (TmContract_id (rx_addr i) (rx_payerId i)) (TmContractCohorteHop None None) s)
      = (Inr ZR_SUCCESS, s')"
  shows "handleTxItem_remote E i s = (Inr ZR_SUCCESS, s')"
  using assms by (simp add: handleTxItem_remote_def Let_def prog_step bnd_def [of "OrderBook_find _ _"]
      bnd_def [of "new_TransactionManager _ _"] run_simps bnd_def [of "try_catch _ _ _"] try_catch_def
      bnd_def [of "process_remote _ _ _"] finish_tm_def whn_def prog_apply)

lemma hop_queries:
  assumes "manager_of txId s = None" and "txId = rx_addr i @ '':'' @ rx_payerId i" and "rx_phase i = QUERY" and "rx_dir i = SERVER"
    and "passes E i s q cur price amount dest acc m"
    and "ke = (fresh_contract m 0 price cur RECEIVER (rx_peer i) (w_now s))\<lparr>k_destAddress := dest\<rparr>"
    and "kp = (fresh_contract amount 0 price cur SENDER q (w_now s))\<lparr>k_destAddress := dest\<rparr>"
  shows "\<exists>s'. handleTxItem_remote E i s = (Inr ZR_SUCCESS, s') \<and> relaying s' txId (Suc (k_next s)) (k_next s) kp ke QUERY \<and>
    t_current s' = map_put txId (t_next s) (t_current s) \<and> (\<forall>r. r \<noteq> t_next s \<longrightarrow> t_heap s' r = t_heap s r) \<and>
    k_heap s' = (k_heap s)(k_next s \<mapsto> ke, Suc (k_next s) \<mapsto> kp) \<and> k_contracts s' = k_contracts s @ [k_next s, Suc (k_next s)] \<and>
    tunnel (rx_addr i) s' = Some (rx_peer i, q) \<and> t_btccontracts (db_tables s') = t_btccontracts (db_tables s) \<and>
    line_ok E (rx_peer i) cur s' (acc\<lparr>a_allocation := a_allocation acc + m * price\<rparr>) \<and>
    abs_peers (db_tables s') = (abs_peers (db_tables s))((rx_peer i, cur) \<mapsto> acc\<lparr>a_allocation := a_allocation acc + m * price\<rparr>) \<and>
    s_sent s' = s_sent s @ [\<lparr>pk_peer = q, pk_item = RemoteTxItem (rx_addr i) QUERY SERVER (rx_payerId i) (query_payload E ke dest 0)\<rparr>]"
proof -
  let ?t = "\<lparr>tm_TxId = txId, tm_Phase = INIT, tm_startOfPhase = w_now s, tm_class = TmContractCohorteHop None None\<rparr>"
  let ?s = "registered txId (TmContractCohorteHop None None) s"
  have b: "books_inv s" "with_id s Mine (rx_addr i) = None" "line_ok E (rx_peer i) cur s acc" using assms(5) unfolding passes_def by blast+
  have f: "OrderBook_find Mine (rx_addr i) s = (Inr None, s)"
    using find_oid [OF books_inv_book [OF b(1)], of Mine] b(2) by (simp add: with_id_def)
  have o: "oid ?s = oid s" by (simp add: oid_def fun_eq_iff)
  have "books_inv ?s" "with_id ?s Mine (rx_addr i) = None" using b(1,2) o by (simp_all add: books_inv_def book_inv_def with_id_def)
  moreover have l: "line_ok E cp cur ?s acc = line_ok E cp cur s acc" for cp by (simp add: line_ok_def)
  ultimately have ps: "passes E i ?s q cur price amount dest acc m"
    using assms(5) unfolding passes_def l update_fields by blast
  have t: "t_heap ?s (t_next s) = Some ?t" "tm_Phase ?t = INIT" by simp_all
  have k: "ke = (fresh_contract m 0 price cur RECEIVER (rx_peer i) (w_now ?s))\<lparr>k_destAddress := dest\<rparr>"
    "kp = (fresh_contract amount 0 price cur SENDER q (w_now ?s))\<lparr>k_destAddress := dest\<rparr>" using assms(6,7) by simp_all
  from query_passed [OF ps t assms(4) k] obtain s' where
    s': "TmContractCohorteHop_doQuery E (t_next s) ?t i ?s = (Inr ZR_SUCCESS, s')"
    and fields: "t_heap s' = (t_heap ?s)(t_next s \<mapsto> ?t\<lparr>tm_Phase := QUERY,
        tm_class := TmContractCohorteHop (Some (Suc (k_next s))) (Some (k_next s))\<rparr>)"
      "t_current s' = t_current ?s" "k_heap s' = (k_heap s)(k_next s \<mapsto> ke, Suc (k_next s) \<mapsto> kp)"
      "k_contracts s' = k_contracts s @ [k_next s, Suc (k_next s)]" "tunnel (rx_addr i) s' = Some (rx_peer i, q)"
      "t_btccontracts (db_tables s') = t_btccontracts (db_tables s)" "peers_ok (db_tables s')"
      "abs_peers (db_tables s') = (abs_peers (db_tables s))((rx_peer i, cur) \<mapsto> acc\<lparr>a_allocation := a_allocation acc + m * price\<rparr>)"
      "s_sent s' = s_sent s @ [\<lparr>pk_peer = q, pk_item = RemoteTxItem (rx_addr i) (rx_phase i) SERVER (rx_payerId i) (query_payload E ke dest 0)\<rparr>]"
    by auto
  have "process_remote E (t_next s) i ?s = (Inr ZR_SUCCESS, s')"
    using s' by (simp add: process_remote_def bnd_def [of "get_tm _"] run_simps TmContractCohorteHop_processItem_def assms(3))
  then have "handleTxItem_remote E i s = (Inr ZR_SUCCESS, s')"
    by (intro hop_new_run [OF assms(1) [unfolded assms(2)] f]) (simp add: TmContract_id_def assms(2))
  then show ?thesis
    using fields b(3) assms(3) by (simp add: relaying_def manager_of_def look_put line_ok_def)
qed

lemma sender_amount:
  assumes "k_heap s r = Some k" and "k_party k = SENDER"
  shows "setBtcAmount E r n s = (Inr (), s\<lparr>k_heap := (k_heap s)(r \<mapsto> k\<lparr>k_btcAmount := n\<rparr>)\<rparr>)"
  using assms by (simp add: setBtcAmount_def Let_def bnd_def [of "get_contract r"] get_contract_ok thn_def
      bnd_def [of "upd_contract _ _"] upd_contract_ok whn_def prog_apply)

lemma hop_votes:
  assumes "relaying s txId payer payee kp ke QUERY" and "txId = rx_addr i @ '':'' @ rx_payerId i" and "rx_phase i = VOTE_YES"
    and "rx_dir i = CLIENT" and "tunnel (rx_addr i) s = Some (p, q)" and "k_party kp = SENDER" and "k_party ke = RECEIVER"
    and "TransactionManager_split (rx_payload i) = [f, tid]" and "fromFractionString E f = Inr n" and "n \<le> k_btcAmount kp"
    and "line_ok E (k_counterParty ke) (k_currencySym ke) s acc" and "v = a_allocation acc - (k_btcAmount ke - n) * k_price ke"
    and "db_exact E v"
    and "kp' = kp\<lparr>k_btcTxId := tid, k_btcAmount := n\<rparr>" and "ke' = ke\<lparr>k_btcTxId := tid, k_btcAmount := n\<rparr>"
  shows "\<exists>s'. handleTxItem_remote E i s = (Inr ZR_SUCCESS, s') \<and> relaying s' txId payer payee kp' ke' VOTE_YES \<and>
    t_current s' = t_current s \<and> k_contracts s' = k_contracts s \<and> tunnel (rx_addr i) s' = Some (p, q) \<and>
    t_btccontracts (db_tables s') = t_btccontracts (db_tables s) \<and>
    abs_peers (db_tables s') = (abs_peers (db_tables s))((k_counterParty ke, k_currencySym ke) \<mapsto> acc\<lparr>a_allocation := v\<rparr>) \<and>
    s_sent s' = s_sent s @ [\<lparr>pk_peer = p, pk_item = RemoteTxItem (rx_addr i) VOTE_YES CLIENT (rx_payerId i) (rx_payload i)\<rparr>]"
proof -
  obtain r t where t: "manager_of txId s = Some r" "t_heap s r = Some t" "tm_TxId t = txId" "tm_Phase t = QUERY"
    "tm_class t = TmContractCohorteHop (Some payer) (Some payee)" and k: "k_heap s payer = Some kp" "k_heap s payee = Some ke" "payer \<noteq> payee"
    using assms(1) by (auto simp: relaying_def)
  let ?t = "t\<lparr>tm_Phase := VOTE_YES\<rparr>" and ?kp1 = "kp\<lparr>k_btcTxId := tid\<rparr>" and ?ke1 = "ke\<lparr>k_btcTxId := tid\<rparr>"
  obtain s1 where s1: "s1 = with_tm r ?t s" by blast
  obtain s2 where s2: "s2 = s1\<lparr>k_heap := (k_heap s1)(payer \<mapsto> ?kp1)\<rparr>" by blast
  obtain s3 where s3: "s3 = s2\<lparr>k_heap := (k_heap s2)(payee \<mapsto> ?ke1)\<rparr>" by blast
  obtain s4 where s4: "s4 = s3\<lparr>k_heap := (k_heap s3)(payer \<mapsto> kp')\<rparr>" by blast
  obtain s5 where s5: "s5 = alloc_set E (k_counterParty ke) (k_currencySym ke) v (s4\<lparr>k_heap := (k_heap s4)(payee \<mapsto> ke')\<rparr>)" by blast
  have a: "set_phase r VOTE_YES s = (Inr (), s1)" using t(2) by (simp add: set_phase_def run_simps s1)
  have b: "setBtcTxId payer tid s1 = (Inr (), s2)" using upd_contract_ok [of s1 payer kp] k by (simp add: setBtcTxId_def s1 s2)
  have c: "setBtcTxId payee tid s2 = (Inr (), s3)" using upd_contract_ok [of s2 payee ke] k by (simp add: setBtcTxId_def s1 s2 s3)
  have k3: "k_heap s3 payer = Some ?kp1" "k_heap s4 payee = Some ?ke1" using k by (simp_all add: s1 s2 s3 s4)
  have d: "get_contract payer s3 = (Inr ?kp1, s3)" by (rule get_contract_ok [OF k3(1)])
  have e: "setBtcAmount E payer n s3 = (Inr (), s4)"
    using sender_amount [OF k3(1)] assms(6) by (simp add: s4 assms(14))
  have l: "line_ok E (k_counterParty ?ke1) (k_currencySym ?ke1) s4 acc" using assms(11) by (simp add: line_ok_def s1 s2 s3 s4)
  have ke: "ke' = ?ke1\<lparr>k_btcAmount := n\<rparr>" by (simp add: assms(15))
  have v: "a_allocation acc - (getFiatAmount ?ke1 - getFiatAmount ke') = v"
    by (simp add: assms(12,15) getFiatAmount_def algebra_simps)
  have g: "setBtcAmount E payee n s4 = (Inr (), s5)"
    using setBtcAmount_ok [OF k3(2) l, of n, folded ke] assms(7) by (simp add: s5 v [symmetric])
  have tn: "tunnel (rx_addr i) s5 = Some (p, q)" using assms(5) by (simp add: s1 s2 s3 s4 s5 tunnel_def with_tm_def alloc_set_def)
  let ?s6 = "sent_to p (RemoteTxItem (rx_addr i) VOTE_YES CLIENT (rx_payerId i) (rx_payload i)) s5"
  have fw: "forwardItem i (rx_payload i) s5 = (Inr ZR_SUCCESS, ?s6)"
    using forward_run [OF tn] assms(3,4) by simp
  have n: "(length [f, tid] \<noteq> 2) = False" "[f, tid] ! 0 = f" "[f, tid] ! 1 = tid" "(k_btcAmount ?kp1 < n) = False"
    using assms(10) by simp_all
  have "TmContractCohorteHop_doVote E r t (Some payer) (Some payee) i s = (Inr ZR_SUCCESS, ?s6)"
    unfolding TmContractCohorteHop_doVote_def Let_def assms(8) t(4) assms(3)
    by (simp only: simp_thms if_False n, rule thn_step, rule a, rule bnd_step, simp only: lift_def assms(9) sum.case,
        simp only: bnd_need, rule thn_step, rule b, rule thn_step, rule c, rule bnd_step, rule d, simp only: n if_False,
        rule thn_step, rule e, rule thn_step, rule g, rule thn_step, rule fw) (simp add: prog_apply)
  then have "process_remote E r i s = (Inr ZR_SUCCESS, ?s6)"
    using t by (simp add: process_remote_def bnd_def [of "get_tm _"] run_simps TmContractCohorteHop_processItem_def assms(3))
  moreover have "finish_tm r ZR_SUCCESS ?s6 = (Inr ZR_SUCCESS, ?s6)" by (simp add: finish_tm_def thn_def whn_def bnd_def prog_apply)
  ultimately have "handleTxItem_remote E i s = (Inr ZR_SUCCESS, ?s6)"
    using t(1) unfolding assms(2) by (rule remote_run [rotated])
  moreover have "relaying ?s6 txId payer payee kp' ke' VOTE_YES"
    using t k by (simp add: relaying_def s1 s2 s3 s4 s5 manager_of_def)
  moreover have "abs_peers (db_tables s5) = (abs_peers (db_tables s))((k_counterParty ke, k_currencySym ke) \<mapsto> acc\<lparr>a_allocation := v\<rparr>)"
    using abs_alloc(1) [OF l assms(13)] by (simp add: s1 s2 s3 s4 s5)
  ultimately show ?thesis
    using tn by (intro exI [of _ ?s6]) (simp add: s1 s2 s3 s4 s5)
qed

lemma persist_run:
  assumes "k_heap s r = Some k" and "storable E k"
  shows "persist E r s = (Inr (), s\<lparr>db_stmts := Suc (db_stmts s),
    db_tables := (db_tables s)\<lparr>t_btccontracts := t_btccontracts (db_tables s) @ [contract_row E k]\<rparr>\<rparr>)"
  using assms by (simp add: persist_def bnd_def [of "get_contract _"] get_contract_ok addBtcContract_def runQuery_ok
      storable_def contract_row_def)

lemma hop_commits:
  assumes "relaying s txId payer payee kp ke VOTE_YES" and "txId = rx_addr i @ '':'' @ rx_payerId i" and "rx_phase i = COMMIT"
    and "rx_dir i = SERVER" and "tunnel (rx_addr i) s = Some (p, q)"
    and "kp' = kp\<lparr>k_activated := True\<rparr>" and "ke' = ke\<lparr>k_activated := True\<rparr>" and "storable E kp'" and "storable E ke'"
  shows "\<exists>s'. handleTxItem_remote E i s = (Inr ZR_FINISH, s') \<and> k_heap s' payer = Some kp' \<and> k_heap s' payee = Some ke' \<and>
    t_current s' = map_erase txId (t_current s) \<and> k_contracts s' = k_contracts s \<and>
    t_btccontracts (db_tables s') = t_btccontracts (db_tables s) @ [contract_row E kp', contract_row E ke'] \<and>
    abs_peers (db_tables s') = abs_peers (db_tables s) \<and>
    s_sent s' = s_sent s @ [\<lparr>pk_peer = q, pk_item = RemoteTxItem (rx_addr i) COMMIT SERVER (rx_payerId i) (rx_payload i)\<rparr>]"
proof -
  obtain r t where t: "manager_of txId s = Some r" "t_heap s r = Some t" "tm_TxId t = txId" "tm_Phase t = VOTE_YES"
    "tm_class t = TmContractCohorteHop (Some payer) (Some payee)" and k: "k_heap s payer = Some kp" "k_heap s payee = Some ke" "payer \<noteq> payee"
    using assms(1) by (auto simp: relaying_def)
  let ?kept = "\<lambda>k u. u\<lparr>db_stmts := Suc (db_stmts u),
    db_tables := (db_tables u)\<lparr>t_btccontracts := t_btccontracts (db_tables u) @ [contract_row E k]\<rparr>\<rparr>"
  let ?t = "t\<lparr>tm_Phase := COMMIT\<rparr>"
  obtain s1 where s1: "s1 = with_tm r ?t s" by blast
  obtain s2 where s2: "s2 = s1\<lparr>k_heap := (k_heap s1)(payer \<mapsto> kp')\<rparr>" by blast
  obtain s3 where s3: "s3 = s2\<lparr>k_heap := (k_heap s2)(payee \<mapsto> ke')\<rparr>" by blast
  obtain s5 where s5: "s5 = ?kept ke' (?kept kp' s3)" by blast
  have a: "set_phase r COMMIT s = (Inr (), s1)" using t(2) by (simp add: set_phase_def run_simps s1)
  have b: "activate payer s1 = (Inr (), s2)" using upd_contract_ok [of s1 payer kp] k by (simp add: activate_def s1 s2 assms(6))
  have c: "activate payee s2 = (Inr (), s3)" using upd_contract_ok [of s2 payee ke] k by (simp add: activate_def s1 s2 s3 assms(7))
  have k3: "k_heap s3 payer = Some kp'" "k_heap (?kept kp' s3) payee = Some ke'" using k(3) by (simp_all add: s2 s3)
  have d: "persist E payer s3 = (Inr (), ?kept kp' s3)" by (rule persist_run [OF k3(1) assms(8)])
  have e: "persist E payee (?kept kp' s3) = (Inr (), s5)" unfolding s5 by (rule persist_run [OF k3(2) assms(9)])
  have kept: "try_catch catch_runtime_error (thn (activate payer) (thn (activate payee) (thn (persist E payer)
      (thn (persist E payee) (ret None))))) h s1 = (Inr None, s5)" for h
    by (rule try_catch_Inr, rule thn_step, rule b, rule thn_step, rule c, rule thn_step, rule d, rule thn_step, rule e) (simp add: prog_apply)
  have tn: "tunnel (rx_addr i) s5 = Some (p, q)" using assms(5) by (simp add: s1 s2 s3 s5 tunnel_def with_tm_def)
  let ?s6 = "sent_to q (RemoteTxItem (rx_addr i) COMMIT SERVER (rx_payerId i) (rx_payload i)) s5"
  have fw: "forwardItem i (rx_payload i) s5 = (Inr ZR_SUCCESS, ?s6)"
    using forward_run [OF tn] assms(3,4) by simp
  have "TmContractCohorteHop_doCommit E r t (Some payer) (Some payee) i s = (Inr ZR_FINISH, ?s6)"
    unfolding TmContractCohorteHop_doCommit_def t(4)
    by (simp only: simp_thms if_False bnd_need, rule thn_step, rule a, rule bnd_step, rule kept, simp only: option.case,
        rule thn_step, rule fw) (simp add: prog_apply)
  then have "process_remote E r i s = (Inr ZR_FINISH, ?s6)"
    using t by (simp add: process_remote_def bnd_def [of "get_tm _"] run_simps TmContractCohorteHop_processItem_def assms(3))
  moreover have "finish_tm r ZR_FINISH ?s6 = (Inr ZR_FINISH, unregistered r txId ?s6)"
    using t(3,5) by (simp add: finish_tm_def thn_def whn_def bnd_def run_simps prog_apply s1 s2 s3 s5)
  ultimately have "handleTxItem_remote E i s = (Inr ZR_FINISH, unregistered r txId ?s6)"
    using t(1) unfolding assms(2) by (rule remote_run [rotated])
  moreover have "k_heap s5 payer = Some kp'" "k_heap s5 payee = Some ke'" using k3 by (simp_all add: s5)
  ultimately show ?thesis
    by (intro exI [of _ "unregistered r txId ?s6"]) (simp add: unregistered_def sent_to_def s1 s2 s3 s5 with_tm_def)
qed

section \<open>A wave along a chain of nodes\<close>

text \<open>The first node has gone from \<open>a\<close> to \<open>a'\<close>; each node on the way handles what the one before it sent it.\<close>

fun pass_along :: "ext \<Rightarrow> 'z tmw_scheme \<Rightarrow> 'z tmw_scheme \<Rightarrow> (ext \<times> 'z tmw_scheme) list \<Rightarrow> 'z tmw_scheme list" where
  "pass_along A a a' [] = []"
| "pass_along A a a' ((B, b) # rest) = (case for_each (tx_mail A B a a') (receive_item B) b of
     (Inr u, b') \<Rightarrow> b' # pass_along B b b' rest
   | (Inl e, b') \<Rightarrow> [])"

text \<open>Each node of a chain handles the item that arrives, and sends one on to the next.\<close>

abbreviation id_of :: "ext \<times> 'b \<Rightarrow> PeerAddress" where
  "id_of x \<equiv> x_own_id (fst x)"

fun relayed :: "PeerAddress \<Rightarrow> item \<Rightarrow> (ext \<times> 'z tmw_scheme \<times> 'z tmw_scheme) list \<Rightarrow> PeerAddress \<Rightarrow> item \<Rightarrow> bool" where
  "relayed p i [] q j \<longleftrightarrow> j = i"
| "relayed p i ((E, s, s') # xs) q j \<longleftrightarrow> (\<exists>i'. for_each [\<lparr>pk_peer = p, pk_item = i\<rparr>] (receive_item E) s = (Inr (), s') \<and>
     s_sent s' = s_sent s @ [\<lparr>pk_peer = hd (map id_of xs @ [q]), pk_item = i'\<rparr>] \<and>
     (\<forall>addr ord. i' \<noteq> OrderBookItem addr ord) \<and> relayed (x_own_id E) i' xs q j)"

lemma relayed_append:
  "relayed p i (xs @ ys) q j \<longleftrightarrow>
     (\<exists>k. relayed p i xs (hd (map id_of ys @ [q])) k \<and> relayed (last (p # map id_of xs)) k ys q j)"
proof (induction xs arbitrary: p i)
  case (Cons x xs)
  obtain E s s' where "x = (E, s, s')" by (cases x)
  moreover have "hd (map id_of (xs @ ys) @ [q]) = hd (map id_of xs @ [hd (map id_of ys @ [q])])" by (cases xs) auto
  ultimately show ?case using Cons.IH by auto
qed simp

lemma tx_mail_item:
  assumes "s_sent t = s_sent s @ [\<lparr>pk_peer = x_own_id B, pk_item = i\<rparr>]" and "\<forall>addr ord. i \<noteq> OrderBookItem addr ord"
  shows "tx_mail A B s t = [\<lparr>pk_peer = x_own_id A, pk_item = i\<rparr>]"
  using tx_mail_sent [of t s "[\<lparr>pk_peer = x_own_id B, pk_item = i\<rparr>]" undefined "[]" B A] assms by simp

lemma wave_stops:
  assumes "relayed (x_own_id A) i xs (x_own_id B) j"
    and "tx_mail A (fst (hd (map (\<lambda>(E, s, s'). (E, s)) xs @ [(B, b)]))) a a' = [\<lparr>pk_peer = x_own_id A, pk_item = i\<rparr>]"
    and "for_each [\<lparr>pk_peer = last (x_own_id A # map id_of xs), pk_item = j\<rparr>] (receive_item B) b = (Inr (), b')"
  shows "pass_along A a a' (map (\<lambda>(E, s, s'). (E, s)) xs @ [(B, b)]) = map (\<lambda>(E, s, s'). s') xs @ [b']"
  using assms
proof (induction xs arbitrary: A i a a')
  case (Cons x xs)
  obtain E s s' where x: "x = (E, s, s')" by (cases x)
  let ?F = "fst (hd (map (\<lambda>(E, s, s'). (E, s)) xs @ [(B, b)]))"
  obtain i' where i': "for_each [\<lparr>pk_peer = x_own_id A, pk_item = i\<rparr>] (receive_item E) s = (Inr (), s')"
    "s_sent s' = s_sent s @ [\<lparr>pk_peer = hd (map id_of xs @ [x_own_id B]), pk_item = i'\<rparr>]"
    "\<forall>addr ord. i' \<noteq> OrderBookItem addr ord" "relayed (x_own_id E) i' xs (x_own_id B) j"
    using Cons.prems(1) by (auto simp: x)
  have "hd (map id_of xs @ [x_own_id B]) = x_own_id ?F" by (cases xs) (auto split: prod.split)
  with i'(2,3) have "tx_mail E ?F s s' = [\<lparr>pk_peer = x_own_id E, pk_item = i'\<rparr>]" by (simp add: tx_mail_item)
  moreover have "last (x_own_id A # map id_of (x # xs)) = last (x_own_id E # map id_of xs)" by (simp add: x)
  ultimately have "pass_along E s s' (map (\<lambda>(E, s, s'). (E, s)) xs @ [(B, b)]) = map (\<lambda>(E, s, s'). s') xs @ [b']"
    using Cons.IH i'(4) Cons.prems(3) by simp
  then show ?case using Cons.prems(2) i'(1) by (simp add: x)
qed simp

section \<open>The hops of a purchase\<close>

text \<open>
  A hop, as it is before the purchase: its neighbours towards the buyer and towards the seller, the
  line with the neighbour that is to pay it, and the amount it is asked for.
\<close>

record 'z hop =
  hop_env :: ext
  hop_node :: "'z tmw_scheme"
  hop_prev :: PeerAddress
  hop_next :: PeerAddress
  hop_line :: account
  hop_asked :: ZR_Number

abbreviation hop_id :: "'z hop \<Rightarrow> PeerAddress" where
  "hop_id h \<equiv> x_own_id (hop_env h)"

definition hop_asks :: "ZR_Number \<Rightarrow> 'z hop \<Rightarrow> ZR_Number" where
  "hop_asks price h = min (hop_asked h) (available (hop_line h) / price)"

text \<open>The hops lead from one node to another, and narrow the amount down.\<close>

fun route :: "ZR_Number \<Rightarrow> PeerAddress \<Rightarrow> ZR_Number \<Rightarrow> 'z hop list \<Rightarrow> PeerAddress \<Rightarrow> ZR_Number \<Rightarrow> bool" where
  "route price p m [] q n \<longleftrightarrow> n = m"
| "route price p m (h # hs) q n \<longleftrightarrow> hop_prev h = p \<and> hop_asked h = m \<and> hop_next h = hd (map hop_id hs @ [q]) \<and>
     route price (hop_id h) (hop_asks price h) hs q n"

definition can_relay :: "ext \<Rightarrow> VirtualAddress \<Rightarrow> TransactionId \<Rightarrow> string \<Rightarrow> ZR_Number \<Rightarrow> ZR_Number \<Rightarrow> 'z hop \<Rightarrow> bool" where
  "can_relay A addr txId cur price n h \<longleftrightarrow> (let E = hop_env h; s = hop_node h; acc = hop_line h in
     same_format A E \<and> books_inv s \<and> with_id s Mine addr = None \<and> manager_of txId s = None \<and>
     TraceRouter_nextHop (n_router s) addr = hop_next h \<and> no_quote (hop_next h) \<and>
     line_ok E (hop_prev h) cur s acc \<and> 0 < available acc \<and> zr_fits (hop_asked h) \<and> zr_fits (hop_asked h * price) \<and>
     db_exact E (a_allocation acc + hop_asks price h * price) \<and> db_exact E (a_allocation acc + n * price))"

lemma route_amounts:
  assumes "route price p k hs q m" and "\<forall>h\<in>set hs. 0 < available (hop_line h)" and "0 < price" and "0 < k"
  shows "0 < m \<and> m \<le> k \<and> (\<forall>h\<in>set hs. 0 < hop_asked h \<and> m \<le> hop_asks price h)"
  using assms
proof (induction hs arbitrary: p k)
  case (Cons h hs)
  have k: "hop_asked h = k" "route price (hop_id h) (hop_asks price h) hs q m" using Cons.prems(1) by simp_all
  have "0 < hop_asks price h" "hop_asks price h \<le> k" using Cons.prems by (simp_all add: hop_asks_def)
  with Cons.IH [OF k(2)] Cons.prems(2,3) k(1) Cons.prems(4) show ?case by fastforce
qed simp

lemma query_read:
  assumes "same_format A E" and "token dest" and "CHR '':'' \<notin> set cur" and "zr_fits m" and "zr_fits (m * price)"
  shows "\<exists>f a z. TransactionManager_split (query_text A cur dest price m) = [f, cur, dest, a, z] \<and>
    fromFractionString E f = Inr (m * price) \<and> fromFractionString E a = Inr m \<and> fromFractionString E z = Inr 0"
proof -
  have io: "frac_io A" "\<And>q. fromFractionString E q = fromFractionString A q"
    using assms(1) by (simp_all add: same_format_def fromFractionString_def)
  have k: "k_currencySym (fresh_contract m 0 price cur SENDER [] 0) = cur" "getFiatAmount (fresh_contract m 0 price cur SENDER [] 0) = m * price"
    "k_btcAmount (fresh_contract m 0 price cur SENDER [] 0) = m"
    by (simp_all add: fresh_contract_def getFiatAmount_def)
  have "zr_fits 0" by (simp add: zr_fits_def in_i64_def)
  then show ?thesis
    using split_query_payload [OF io(1), of "fresh_contract m 0 price cur SENDER [] 0" dest 0] assms(2-5) k
    by (simp add: query_text_def token_def io(2) fraction_back [OF io(1)])
qed

text \<open>A hop has a contract with either neighbour, its line with the one that pays is used for the price.\<close>

definition brokered :: "TransactionId \<Rightarrow> ZR_Number \<Rightarrow> ZR_Number \<Rightarrow> string \<Rightarrow> BitcoinAddress \<Rightarrow> 'z hop \<Rightarrow> 'z tmw_scheme \<Rightarrow> bool" where
  "brokered tid n price cur dest h t \<longleftrightarrow> (let E = hop_env h; s = hop_node h; acc = hop_line h; r = k_next s;
       ke = kept_contract tid n price cur dest RECEIVER (hop_prev h) (w_now s);
       kp = kept_contract tid n price cur dest SENDER (hop_next h) (w_now s) in
     t_current t = t_current s \<and> k_contracts t = k_contracts s @ [r, Suc r] \<and> k_heap t r = Some ke \<and> k_heap t (Suc r) = Some kp \<and>
     t_btccontracts (db_tables t) = t_btccontracts (db_tables s) @ [contract_row E kp, contract_row E ke] \<and>
     abs_peers (db_tables t) = (abs_peers (db_tables s))((hop_prev h, cur) \<mapsto> acc\<lparr>a_allocation := a_allocation acc + n * price\<rparr>))"

text \<open>From a query to the commit: what a hop receives from either side, and sends on.\<close>

definition carried :: "'z hop \<Rightarrow> PeerAddress \<Rightarrow> item \<Rightarrow> 'z tmw_scheme \<Rightarrow> 'z tmw_scheme \<Rightarrow> PeerAddress \<Rightarrow> item \<Rightarrow> bool" where
  "carried h p i s s' q j \<longleftrightarrow> for_each [\<lparr>pk_peer = p, pk_item = i\<rparr>] (receive_item (hop_env h)) s = (Inr (), s') \<and>
     s_sent s' = s_sent s @ [\<lparr>pk_peer = q, pk_item = j\<rparr>] \<and> (\<forall>addr ord. j \<noteq> OrderBookItem addr ord)"

lemma wave_down:
  assumes "route price p m hs q n"
    and "\<forall>h\<in>set hs. carried h (hop_prev h) (Q (hop_asked h)) (f h) (g h) (hop_next h) (Q (hop_asks price h))"
  shows "relayed p (Q m) (map (\<lambda>h. (hop_env h, f h, g h)) hs) q (Q n)"
  using assms
proof (induction hs arbitrary: p m)
  case (Cons h hs)
  have "hd (map id_of (map (\<lambda>h. (hop_env h, f h, g h)) hs) @ [q]) = hop_next h" using Cons.prems(1) by (simp add: o_def)
  then show ?case using Cons by (auto simp: carried_def)
qed simp

lemma wave_up:
  assumes "route price p m hs q n" and "\<forall>h\<in>set hs. carried h (hop_next h) i (f h) (g h) (hop_prev h) i"
  shows "relayed q i (map (\<lambda>h. (hop_env h, f h, g h)) (rev hs)) p i"
  using assms
proof (induction hs arbitrary: p m)
  case (Cons h hs)
  have "last (q # map id_of (map (\<lambda>h. (hop_env h, f h, g h)) (rev hs))) = hop_next h"
    using Cons.prems(1) by (cases hs) (auto simp: o_def last_rev)
  then show ?case using Cons by (auto simp: carried_def relayed_append)
qed simp

lemma hop_is_asked:
  fixes h :: "'z hop"
  assumes "can_relay A addr txId cur price n h" and "txId = addr @ '':'' @ pid" and "0 < price" and "0 < hop_asked h"
    and "token dest" and "CHR '':'' \<notin> set cur" and "s = hop_node h" and "acc = hop_line h" and "m = hop_asks price h"
    and "ke = (fresh_contract m 0 price cur RECEIVER (hop_prev h) (w_now s))\<lparr>k_destAddress := dest\<rparr>"
    and "kp = (fresh_contract (hop_asked h) 0 price cur SENDER (hop_next h) (w_now s))\<lparr>k_destAddress := dest\<rparr>"
  shows "\<exists>s1. handleTxItem_remote (hop_env h) \<lparr>rx_peer = hop_prev h, rx_addr = addr, rx_phase = QUERY, rx_dir = SERVER, rx_payerId = pid,
      rx_payload = query_text A cur dest price (hop_asked h)\<rparr> s = (Inr ZR_SUCCESS, s1) \<and>
    relaying s1 txId (Suc (k_next s)) (k_next s) kp ke QUERY \<and> t_current s1 = map_put txId (t_next s) (t_current s) \<and>
    k_heap s1 = (k_heap s)(k_next s \<mapsto> ke, Suc (k_next s) \<mapsto> kp) \<and> k_contracts s1 = k_contracts s @ [k_next s, Suc (k_next s)] \<and>
    tunnel addr s1 = Some (hop_prev h, hop_next h) \<and> t_btccontracts (db_tables s1) = t_btccontracts (db_tables s) \<and>
    line_ok (hop_env h) (hop_prev h) cur s1 (acc\<lparr>a_allocation := a_allocation acc + m * price\<rparr>) \<and>
    abs_peers (db_tables s1) = (abs_peers (db_tables s))((hop_prev h, cur) \<mapsto> acc\<lparr>a_allocation := a_allocation acc + m * price\<rparr>) \<and>
    s_sent s1 = s_sent s @ [\<lparr>pk_peer = hop_next h, pk_item = query_item A addr pid cur dest price m\<rparr>]"
proof -
  let ?Q = "\<lparr>rx_peer = hop_prev h, rx_addr = addr, rx_phase = QUERY, rx_dir = SERVER, rx_payerId = pid,
      rx_payload = query_text A cur dest price (hop_asked h)\<rparr>"
  have cr: "same_format A (hop_env h)" "books_inv s" "with_id s Mine addr = None" "manager_of txId s = None"
    "TraceRouter_nextHop (n_router s) addr = hop_next h" "line_ok (hop_env h) (hop_prev h) cur s acc" "0 < available acc"
    "zr_fits (hop_asked h)" "zr_fits (hop_asked h * price)" "db_exact (hop_env h) (a_allocation acc + m * price)"
    using assms(1) by (simp_all add: can_relay_def Let_def assms(7-9))
  have ps: "passes (hop_env h) ?Q s (hop_next h) cur price (hop_asked h) dest acc m"
    using cr query_read [OF cr(1) assms(5,6) cr(8,9)] assms(3,4) by (simp add: passes_def hop_asks_def assms(8,9))
  have q: "query_payload (hop_env h) ke dest 0 = query_text A cur dest price m"
    by (rule query_text [OF cr(1)]) (simp_all add: assms(10) fresh_contract_def)
  have i: "txId = rx_addr ?Q @ '':'' @ rx_payerId ?Q" "rx_phase ?Q = QUERY" "rx_dir ?Q = SERVER"
    "ke = (fresh_contract m 0 price cur RECEIVER (rx_peer ?Q) (w_now s))\<lparr>k_destAddress := dest\<rparr>" using assms(2,10) by simp_all
  show ?thesis
    using hop_queries [OF cr(4) i(1-3) ps i(4) assms(11)] by (auto simp: query_item_def q)
qed

lemma hop_carries:
  fixes h :: "'z hop"
  assumes "can_relay A addr txId cur price n h" and "txId = addr @ '':'' @ pid" and "0 < price" and "0 < hop_asked h"
    and "n \<le> hop_asks price h" and "token dest" and "token tid" and "CHR '':'' \<notin> set cur" and "zr_fits n"
  shows "\<exists>s1 s2 s3. carried h (hop_prev h) (query_item A addr pid cur dest price (hop_asked h)) (hop_node h) s1
      (hop_next h) (query_item A addr pid cur dest price (hop_asks price h)) \<and>
    carried h (hop_next h) (vote_item A addr pid tid n) s1 s2 (hop_prev h) (vote_item A addr pid tid n) \<and>
    carried h (hop_prev h) (commit_item addr pid) s2 s3 (hop_next h) (commit_item addr pid) \<and>
    brokered tid n price cur dest h s3"
proof -
  let ?E = "hop_env h" and ?s = "hop_node h" and ?acc = "hop_line h" and ?m = "hop_asks price h" and ?p = "hop_prev h" and ?q = "hop_next h"
  let ?i = "\<lambda>p ph dir pl. \<lparr>rx_peer = p, rx_addr = addr, rx_phase = ph, rx_dir = dir, rx_payerId = pid, rx_payload = pl\<rparr>"
  let ?Q = "?i ?p QUERY SERVER (query_text A cur dest price (hop_asked h))" and ?V = "?i ?q VOTE_YES CLIENT (vote_payload A n tid)"
    and ?C = "?i ?p COMMIT SERVER []"
  let ?ke = "(fresh_contract ?m 0 price cur RECEIVER ?p (w_now ?s))\<lparr>k_destAddress := dest\<rparr>"
  let ?kp = "(fresh_contract (hop_asked h) 0 price cur SENDER ?q (w_now ?s))\<lparr>k_destAddress := dest\<rparr>"
  have cr: "same_format A ?E" "books_inv ?s" "with_id ?s Mine addr = None" "manager_of txId ?s = None"
    "TraceRouter_nextHop (n_router ?s) addr = ?q" "no_quote ?q" "line_ok ?E ?p cur ?s ?acc" "0 < available ?acc"
    "zr_fits (hop_asked h)" "zr_fits (hop_asked h * price)" "db_exact ?E (a_allocation ?acc + ?m * price)"
    "db_exact ?E (a_allocation ?acc + n * price)"
    using assms(1) by (simp_all add: can_relay_def Let_def)
  have tx: "txId = rx_addr ?V @ '':'' @ rx_payerId ?V" "txId = rx_addr ?C @ '':'' @ rx_payerId ?C" using assms(2) by simp_all
  obtain s1 where h1: "handleTxItem_remote ?E ?Q ?s = (Inr ZR_SUCCESS, s1)"
    and s1: "relaying s1 txId (Suc (k_next ?s)) (k_next ?s) ?kp ?ke QUERY" "t_current s1 = map_put txId (t_next ?s) (t_current ?s)"
    "k_contracts s1 = k_contracts ?s @ [k_next ?s, Suc (k_next ?s)]"
    "tunnel addr s1 = Some (?p, ?q)" "t_btccontracts (db_tables s1) = t_btccontracts (db_tables ?s)"
    "line_ok ?E ?p cur s1 (?acc\<lparr>a_allocation := a_allocation ?acc + ?m * price\<rparr>)"
    "abs_peers (db_tables s1) = (abs_peers (db_tables ?s))((?p, cur) \<mapsto> ?acc\<lparr>a_allocation := a_allocation ?acc + ?m * price\<rparr>)"
    "s_sent s1 = s_sent ?s @ [\<lparr>pk_peer = ?q, pk_item = query_item A addr pid cur dest price ?m\<rparr>]"
    using hop_is_asked [OF assms(1-4,6,8) refl refl refl refl refl] by blast
  let ?kp2 = "?kp\<lparr>k_btcTxId := tid, k_btcAmount := n\<rparr>" and ?ke2 = "?ke\<lparr>k_btcTxId := tid, k_btcAmount := n\<rparr>"
  have k: "k_party ?kp = SENDER" "k_party ?ke = RECEIVER" "k_counterParty ?ke = ?p" "k_currencySym ?ke = cur" "k_btcAmount ?ke = ?m"
    "k_price ?ke = price" "k_btcAmount ?kp = hop_asked h" by (simp_all add: fresh_contract_def)
  have n: "n \<le> k_btcAmount ?kp" using assms(5) by (simp add: k hop_asks_def)
  have v: "a_allocation ?acc + n * price = a_allocation (?acc\<lparr>a_allocation := a_allocation ?acc + ?m * price\<rparr>) - (k_btcAmount ?ke - n) * k_price ?ke"
    by (simp add: k algebra_simps)
  have vr: "TransactionManager_split (rx_payload ?V) = [toStdString A n, tid]" "fromFractionString ?E (toStdString A n) = Inr n"
  proof -
    have "frac_io A" "fromFractionString ?E = fromFractionString A" using cr(1) by (simp_all add: same_format_def fromFractionString_def fun_eq_iff)
    then show "TransactionManager_split (rx_payload ?V) = [toStdString A n, tid]" "fromFractionString ?E (toStdString A n) = Inr n"
      using split_vote_payload [of A tid n] fraction_back [of A n] assms(7,9) by (simp_all add: token_def)
  qed
  obtain s2 where h2: "handleTxItem_remote ?E ?V s1 = (Inr ZR_SUCCESS, s2)"
    and s2: "relaying s2 txId (Suc (k_next ?s)) (k_next ?s) ?kp2 ?ke2 VOTE_YES" "t_current s2 = t_current s1" "k_contracts s2 = k_contracts s1"
    "tunnel addr s2 = Some (?p, ?q)" "t_btccontracts (db_tables s2) = t_btccontracts (db_tables s1)"
    "abs_peers (db_tables s2) = (abs_peers (db_tables s1))((?p, cur) \<mapsto> ?acc\<lparr>a_allocation := a_allocation ?acc + n * price\<rparr>)"
    "s_sent s2 = s_sent s1 @ [\<lparr>pk_peer = ?p, pk_item = vote_item A addr pid tid n\<rparr>]"
    using hop_votes [OF s1(1) tx(1) _ _ _ k(1,2) vr n _ v cr(12) refl refl, of ?p ?q] s1(4,6) by (auto simp: vote_item_def k)
  let ?K = "\<lambda>party cp. kept_contract tid n price cur dest party cp (w_now ?s)"
  have kk: "?K SENDER ?q = ?kp2\<lparr>k_activated := True\<rparr>" "?K RECEIVER ?p = ?ke2\<lparr>k_activated := True\<rparr>"
    by (simp_all add: kept_contract_def fresh_contract_def)
  have st: "storable ?E (?K SENDER ?q)" "storable ?E (?K RECEIVER ?p)"
    using cr(6,7) assms(6,7) known_no_quote by (auto simp: storable_def kept_contract_def token_def line_ok_def)
  obtain s3 where h3: "handleTxItem_remote ?E ?C s2 = (Inr ZR_FINISH, s3)"
    and s3: "k_heap s3 (Suc (k_next ?s)) = Some (?K SENDER ?q)" "k_heap s3 (k_next ?s) = Some (?K RECEIVER ?p)"
    "t_current s3 = map_erase txId (t_current s2)" "k_contracts s3 = k_contracts s2"
    "t_btccontracts (db_tables s3) = t_btccontracts (db_tables s2) @ [contract_row ?E (?K SENDER ?q), contract_row ?E (?K RECEIVER ?p)]"
    "abs_peers (db_tables s3) = abs_peers (db_tables s2)"
    "s_sent s3 = s_sent s2 @ [\<lparr>pk_peer = ?q, pk_item = commit_item addr pid\<rparr>]"
    using hop_commits [OF s2(1) tx(2) _ _ _ kk st, of ?p ?q] s2(4) by (auto simp: commit_item_def)
  have "map_erase txId (t_current s1) = t_current ?s" using s1(2) cr(4) by (simp add: erase_put manager_of_def)
  then have "brokered tid n price cur dest h s3"
    using s1(3,5,7) s2(2,3,5,6) s3(1-6) by (simp add: brokered_def Let_def)
  then show ?thesis
    using s1(8) s2(7) s3(7) receive_remote [OF h1] receive_remote [OF h2] receive_remote [OF h3]
    by (intro exI [of _ s1] exI [of _ s2] exI [of _ s3]) (simp add: carried_def query_item_def vote_item_def commit_item_def)
qed

section \<open>The whole purchase\<close>

lemma wave_passes:
  assumes "relayed (x_own_id A) i (map (\<lambda>h. (hop_env h, f h, g h)) hs) (x_own_id B) j"
    and "tx_mail A (hd (map hop_env hs @ [B])) a a' = [\<lparr>pk_peer = x_own_id A, pk_item = i\<rparr>]"
    and "for_each [\<lparr>pk_peer = x_own_id (last (A # map hop_env hs)), pk_item = j\<rparr>] (receive_item B) b = (Inr (), b')"
  shows "pass_along A a a' (map (\<lambda>h. (hop_env h, f h)) hs @ [(B, b)]) = map g hs @ [b']"
proof -
  have "fst (hd (map (\<lambda>(E, s, s'). (E, s)) (map (\<lambda>h. (hop_env h, f h, g h)) hs) @ [(B, b)])) = hd (map hop_env hs @ [B])"
    by (cases hs) auto
  moreover have "last (x_own_id A # map id_of (map (\<lambda>h. (hop_env h, f h, g h)) hs)) = x_own_id (last (A # map hop_env hs))"
    by (cases hs rule: rev_cases) auto
  ultimately show ?thesis
    using wave_stops [OF assms(1), of b a a' b'] assms(2,3) by (simp add: o_def)
qed

text \<open>The three waves of a purchase: down to the seller, back to the buyer, and down again.\<close>

lemma three_waves:
  assumes "route price (x_own_id A) k hs (x_own_id B) m" and "F = hd (map hop_env hs @ [B])" and "Z = last (A # map hop_env hs)"
    and hop: "\<forall>h\<in>set hs. carried h (hop_prev h) (Q (hop_asked h)) (s0 h) (s1 h) (hop_next h) (Q (hop_asks price h)) \<and>
      carried h (hop_next h) V (s1 h) (s2 h) (hop_prev h) V \<and> carried h (hop_prev h) C (s2 h) (s3 h) (hop_next h) C"
    and "tx_mail A F a a1 = [\<lparr>pk_peer = x_own_id A, pk_item = Q k\<rparr>]"
    and "for_each [\<lparr>pk_peer = x_own_id Z, pk_item = Q m\<rparr>] (receive_item B) b = (Inr (), b1)"
    and "tx_mail B Z b b1 = [\<lparr>pk_peer = x_own_id B, pk_item = V\<rparr>]"
    and "for_each [\<lparr>pk_peer = x_own_id F, pk_item = V\<rparr>] (receive_item A) a1 = (Inr (), a2)"
    and "tx_mail A F a1 a2 = [\<lparr>pk_peer = x_own_id A, pk_item = C\<rparr>]"
    and "for_each [\<lparr>pk_peer = x_own_id Z, pk_item = C\<rparr>] (receive_item B) b1 = (Inr (), b2)"
  shows "pass_along A a a1 (map (\<lambda>h. (hop_env h, s0 h)) hs @ [(B, b)]) = map s1 hs @ [b1]"
    and "pass_along B b b1 (map (\<lambda>h. (hop_env h, s1 h)) (rev hs) @ [(A, a1)]) = map s2 (rev hs) @ [a2]"
    and "pass_along A a1 a2 (map (\<lambda>h. (hop_env h, s2 h)) hs @ [(B, b1)]) = map s3 hs @ [b2]"
proof -
  note runs = assms(5-10) [unfolded assms(2,3)]
  show "pass_along A a a1 (map (\<lambda>h. (hop_env h, s0 h)) hs @ [(B, b)]) = map s1 hs @ [b1]"
    by (rule wave_passes [OF wave_down [OF assms(1), of Q] runs(1,2)]) (use hop in blast)
  have ids: "last (B # map hop_env (rev hs)) = hd (map hop_env hs @ [B])" "hd (map hop_env (rev hs) @ [A]) = last (A # map hop_env hs)"
    by (cases hs; simp add: rev_map [symmetric] last_rev hd_rev)+
  show "pass_along B b b1 (map (\<lambda>h. (hop_env h, s1 h)) (rev hs) @ [(A, a1)]) = map s2 (rev hs) @ [a2]"
    by (rule wave_passes [OF wave_up [OF assms(1), of V]], use hop in blast) (use runs(3,4) in \<open>simp_all only: ids\<close>)
  show "pass_along A a1 a2 (map (\<lambda>h. (hop_env h, s2 h)) hs @ [(B, b1)]) = map s3 hs @ [b2]"
    by (rule wave_passes [OF wave_down [OF assms(1), of "\<lambda>_. C"] runs(5,6)], use hop in blast)
qed

text \<open>
  C1: A purchase over any number of friends in between is carried through. The buyer's node asks the
  first of the hops its route names; three waves of packets run along the chain, each node handling
  what the one before it sent: the query to the seller, narrowed at every hop to what that hop's line
  with the node before it can pay, the vote back to the buyer, the commit to the seller. Then nothing
  of the transaction is under way and no node keeps its manager. All nodes have stored
  activated contracts with the same transaction id, amount, price and currency: the buyer as sender,
  the seller as receiver, and every hop one of each, with its two neighbours. Every hop and the seller
  have reserved exactly the price on the line with the node before them, whatever they had reserved for
  the query; the seller has sent the signed transaction; both orders are smaller by the amount, or gone.
\<close>

theorem purchase_over_hops:
  fixes hops :: "'z hop list"
  assumes "same_format A B" and "can_buy A (x_own_id (hd (map hop_env hops @ [B]))) a other_r other my_r my"
    and "price = o_price other" and "route price (x_own_id A) amount hops (x_own_id B) m"
    and "can_sell B (x_own_id (last (A # map hop_env hops))) b sell_r sell cur price acc"
    and "o_order_id sell = o_order_id other" and "cur = currencySymbols (x_build A) ! o_currency other" and "CHR '':'' \<notin> set cur"
    and "txId = o_order_id other @ '':'' @ o_order_id my" and "manager_of txId a = None" and "manager_of txId b = None"
    and "0 < amount" and "n = min (min m (available acc / price)) (o_amount sell - o_commitment sell)"
    and "\<forall>h\<in>set hops. can_relay A (o_order_id other) txId cur price n h"
    and "dest = x_new_address A (w_rpc a)" and "x_mk_raw_tx B (w_rpc b) n (o_btcAddr sell) dest = (change, Some (hex, tid))"
    and "token dest" and "token tid" and "zr_fits m" and "zr_fits (m * price)" and "zr_fits n"
    and "db_exact B (a_allocation acc + min m (available acc / price) * price)" and "db_exact B (a_allocation acc + n * price)"
    and "kA = kept_contract tid n price cur dest SENDER (x_own_id (hd (map hop_env hops @ [B]))) (w_now a)"
    and "kB = kept_contract tid n price cur dest RECEIVER (x_own_id (last (A # map hop_env hops))) (w_now b)"
  shows "\<exists>a1 a2 b1 b2 s1 s2 s3. MyOrders_buy A other_r my_r amount a = (Inr (), a1) \<and>
    pass_along A a a1 (map (\<lambda>h. (hop_env h, hop_node h)) hops @ [(B, b)]) = map s1 hops @ [b1] \<and>
    pass_along B b b1 (map (\<lambda>h. (hop_env h, s1 h)) (rev hops) @ [(A, a1)]) = map s2 (rev hops) @ [a2] \<and>
    pass_along A a1 a2 (map (\<lambda>h. (hop_env h, s2 h)) hops @ [(B, b1)]) = map s3 hops @ [b2] \<and>
    tx_mail B (last (A # map hop_env hops)) b1 b2 = [] \<and> (\<forall>h\<in>set hops. brokered tid n price cur dest h (s3 h)) \<and>
    t_current a2 = t_current a \<and> t_current b2 = t_current b \<and>
    k_contracts a2 = k_contracts a @ [k_next a] \<and> k_heap a2 (k_next a) = Some kA \<and>
    k_contracts b2 = k_contracts b @ [k_next b] \<and> k_heap b2 (k_next b) = Some kB \<and>
    t_btccontracts (db_tables a2) = t_btccontracts (db_tables a) @ [contract_row A kA] \<and>
    t_btccontracts (db_tables b2) = t_btccontracts (db_tables b) @ [contract_row B kB] \<and>
    abs_peers (db_tables a2) = abs_peers (db_tables a) \<and>
    abs_peers (db_tables b2) = (abs_peers (db_tables b))((x_own_id (last (A # map hop_env hops)), cur) \<mapsto>
      acc\<lparr>a_allocation := a_allocation acc + n * price\<rparr>) \<and> s_raw b2 = s_raw b @ [hex] \<and>
    (if n < o_amount my then \<exists>x. b_heap a2 my_r = Some x \<and> o_amount x = o_amount my - n else b_heap a2 my_r = None \<and> (\<forall>sd. my_r \<notin> set (refs a2 sd))) \<and>
    (if n < o_amount sell then \<exists>x. b_heap b2 sell_r = Some x \<and> o_amount x = o_amount sell - n else b_heap b2 sell_r = None \<and> (\<forall>sd. sell_r \<notin> set (refs b2 sd)))"
proof -
  let ?F = "hd (map hop_env hops @ [B])" and ?Z = "last (A # map hop_env hops)" and ?addr = "o_order_id other" and ?pid = "o_order_id my"
  let ?Q = "query_item A ?addr ?pid cur dest price" and ?V = "vote_item A ?addr ?pid tid n" and ?C = "commit_item ?addr ?pid"
  have AA: "same_format A A" using assms(1) by (simp add: same_format_def)
  have p: "0 < price" using assms(5) by (simp add: can_sell_def)
  have rt: "0 < m" "m \<le> amount" "\<forall>h\<in>set hops. 0 < hop_asked h \<and> m \<le> hop_asks price h"
    using route_amounts [OF assms(4) _ p assms(12)] assms(14) by (auto simp: can_relay_def Let_def)
  have nm: "n \<le> m" and na: "n \<le> amount" using rt(2) by (simp_all add: assms(13))
  have "\<exists>s1 s2 s3. carried h (hop_prev h) (?Q (hop_asked h)) (hop_node h) s1 (hop_next h) (?Q (hop_asks price h)) \<and>
      carried h (hop_next h) ?V s1 s2 (hop_prev h) ?V \<and> carried h (hop_prev h) ?C s2 s3 (hop_next h) ?C \<and>
      brokered tid n price cur dest h s3" if "h \<in> set hops" for h
    using rt(3) assms(14) that nm by (intro hop_carries [OF _ assms(9) p _ _ assms(17,18,8,21)]) auto
  then obtain s1 s2 s3 where hop: "\<forall>h\<in>set hops. carried h (hop_prev h) (?Q (hop_asked h)) (hop_node h) (s1 h) (hop_next h) (?Q (hop_asks price h)) \<and>
      carried h (hop_next h) ?V (s1 h) (s2 h) (hop_prev h) ?V \<and> carried h (hop_prev h) ?C (s2 h) (s3 h) (hop_next h) ?C \<and>
      brokered tid n price cur dest h (s3 h)" by metis
  obtain a1 a2 where A: "MyOrders_buy A other_r my_r amount a = (Inr (), a1)"
    "tx_mail A ?F a a1 = [\<lparr>pk_peer = x_own_id A, pk_item = ?Q amount\<rparr>]"
    "for_each [\<lparr>pk_peer = x_own_id ?F, pk_item = ?V\<rparr>] (receive_item A) a1 = (Inr (), a2)"
    "tx_mail A ?F a1 a2 = [\<lparr>pk_peer = x_own_id A, pk_item = ?C\<rparr>]"
    "t_current a2 = t_current a" "k_contracts a2 = k_contracts a @ [k_next a]" "k_heap a2 (k_next a) = Some kA"
    "t_btccontracts (db_tables a2) = t_btccontracts (db_tables a) @ [contract_row A kA]"
    "abs_peers (db_tables a2) = abs_peers (db_tables a)" "traded my_r (o_amount my) n a2"
    using buyer_side [OF AA assms(2,7,9,10,15,17,18,21) na assms(24) [unfolded assms(3)]] unfolding assms(3) [symmetric] by blast
  obtain b1 b2 where B: "for_each [\<lparr>pk_peer = x_own_id ?Z, pk_item = ?Q m\<rparr>] (receive_item B) b = (Inr (), b1)"
    "tx_mail B ?Z b b1 = [\<lparr>pk_peer = x_own_id B, pk_item = ?V\<rparr>]"
    "for_each [\<lparr>pk_peer = x_own_id ?Z, pk_item = ?C\<rparr>] (receive_item B) b1 = (Inr (), b2)" "tx_mail B ?Z b1 b2 = []"
    "t_current b2 = t_current b" "k_contracts b2 = k_contracts b @ [k_next b]" "k_heap b2 (k_next b) = Some kB"
    "t_btccontracts (db_tables b2) = t_btccontracts (db_tables b) @ [contract_row B kB]"
    "abs_peers (db_tables b2) = (abs_peers (db_tables b))((x_own_id ?Z, cur) \<mapsto> acc\<lparr>a_allocation := a_allocation acc + n * price\<rparr>)"
    "s_raw b2 = s_raw b @ [hex]" "traded sell_r (o_amount sell) n b2"
    using seller_side [OF assms(1,5,8) _ assms(11) rt(1) assms(13,16-20,22,23,25), of ?pid] assms(6,9) by auto
  have waves: "pass_along A a a1 (map (\<lambda>h. (hop_env h, hop_node h)) hops @ [(B, b)]) = map s1 hops @ [b1]"
    "pass_along B b b1 (map (\<lambda>h. (hop_env h, s1 h)) (rev hops) @ [(A, a1)]) = map s2 (rev hops) @ [a2]"
    "pass_along A a1 a2 (map (\<lambda>h. (hop_env h, s2 h)) hops @ [(B, b1)]) = map s3 hops @ [b2]"
    using three_waves [OF assms(4) refl refl _ A(2) B(1,2) A(3,4) B(3)] hop by blast+
  have kept: "\<forall>h\<in>set hops. brokered tid n price cur dest h (s3 h)" using hop by blast
  show ?thesis
    by (intro exI [of _ a1] exI [of _ a2] exI [of _ b1] exI [of _ b2] exI [of _ s1] exI [of _ s2] exI [of _ s3] conjI
        A(1,5-9) A(10) [unfolded traded_def] B(4-10) B(11) [unfolded traded_def] waves kept)
qed

section \<open>Two purchases over the same hop\<close>

text \<open>
  C32: A hop keeps one tunnel for an order, not one for a purchase. When it has passed on one friend's
  query for an order and, before the vote, a second friend asks for the same order, the second query
  replaces the tunnel. The vote for the first purchase is then passed on to the second friend: the
  first buyer never gets it, and the hop counts the first purchase as voted for.
\<close>

theorem second_query_diverts_vote:
  assumes "relaying s tx1 payer payee kp ke QUERY" and "tx1 = addr @ '':'' @ pid1" and "sorted_map (t_current s)"
    and "t_heap s (t_next s) = None" and "k_heap s (k_next s) = None" and "k_heap s (Suc (k_next s)) = None"
    and "k_party kp = SENDER" and "k_party ke = RECEIVER" and "frac_io E" and "zr_fits n" and "token tid" and "n \<le> k_btcAmount kp"
    and "line_ok E (k_counterParty ke) (k_currencySym ke) s acc1" and "db_exact E (a_allocation acc1 - (k_btcAmount ke - n) * k_price ke)"
    and "manager_of (addr @ '':'' @ pid2) s = None" and "k_counterParty ke \<noteq> p2"
    and "passes E \<lparr>rx_peer = p2, rx_addr = addr, rx_phase = QUERY, rx_dir = SERVER, rx_payerId = pid2, rx_payload = pl\<rparr> s q cur price amount dest acc m"
  shows "\<exists>s1 s2 pl'. for_each [\<lparr>pk_peer = p2, pk_item = RemoteTxItem addr QUERY SERVER pid2 pl\<rparr>] (receive_item E) s = (Inr (), s1) \<and>
    for_each [\<lparr>pk_peer = q, pk_item = RemoteTxItem addr VOTE_YES CLIENT pid1 (vote_payload E n tid)\<rparr>] (receive_item E) s1 = (Inr (), s2) \<and>
    s_sent s2 = s_sent s @ [\<lparr>pk_peer = q, pk_item = RemoteTxItem addr QUERY SERVER pid2 pl'\<rparr>,
      \<lparr>pk_peer = p2, pk_item = RemoteTxItem addr VOTE_YES CLIENT pid1 (vote_payload E n tid)\<rparr>] \<and>
    relaying s2 tx1 payer payee (kp\<lparr>k_btcTxId := tid, k_btcAmount := n\<rparr>) (ke\<lparr>k_btcTxId := tid, k_btcAmount := n\<rparr>) VOTE_YES"
proof -
  let ?i2 = "\<lparr>rx_peer = p2, rx_addr = addr, rx_phase = QUERY, rx_dir = SERVER, rx_payerId = pid2, rx_payload = pl\<rparr>"
  let ?i1 = "\<lparr>rx_peer = q, rx_addr = addr, rx_phase = VOTE_YES, rx_dir = CLIENT, rx_payerId = pid1, rx_payload = vote_payload E n tid\<rparr>"
  let ?ke = "(fresh_contract m 0 price cur RECEIVER (rx_peer ?i2) (w_now s))\<lparr>k_destAddress := dest\<rparr>"
  let ?kp = "(fresh_contract amount 0 price cur SENDER q (w_now s))\<lparr>k_destAddress := dest\<rparr>"
  obtain s1 where s1: "handleTxItem_remote E ?i2 s = (Inr ZR_SUCCESS, s1)" "t_current s1 = map_put (addr @ '':'' @ pid2) (t_next s) (t_current s)"
    "\<forall>r. r \<noteq> t_next s \<longrightarrow> t_heap s1 r = t_heap s r" "k_heap s1 = (k_heap s)(k_next s \<mapsto> ?ke, Suc (k_next s) \<mapsto> ?kp)"
    "tunnel addr s1 = Some (p2, q)" "line_ok E p2 cur s1 (acc\<lparr>a_allocation := a_allocation acc + m * price\<rparr>)"
    "abs_peers (db_tables s1) = (abs_peers (db_tables s))((p2, cur) \<mapsto> acc\<lparr>a_allocation := a_allocation acc + m * price\<rparr>)"
    "s_sent s1 = s_sent s @ [\<lparr>pk_peer = q, pk_item = RemoteTxItem addr QUERY SERVER pid2 (query_payload E ?ke dest 0)\<rparr>]"
    using hop_queries [of "addr @ '':'' @ pid2" s ?i2, OF assms(15) _ _ _ assms(17) refl refl] by auto
  obtain r t where r: "map_of (t_current s) tx1 = Some r" "t_heap s r = Some t" "tm_TxId t = tx1" "tm_Phase t = QUERY"
    "tm_class t = TmContractCohorteHop (Some payer) (Some payee)" and k: "k_heap s payer = Some kp" "k_heap s payee = Some ke" "payer \<noteq> payee"
    using assms(1) by (auto simp: relaying_def manager_of_def)
  have "tx1 \<noteq> addr @ '':'' @ pid2" using r(1) assms(15) by (auto simp: manager_of_def)
  then have "map_of (t_current s1) tx1 = Some r" using r(1) by (simp add: s1(2) map_of_put [OF assms(3)])
  moreover have "r \<noteq> t_next s" using r(2) assms(4) by auto
  then have "t_heap s1 r = Some t" using s1(3) r(2) by simp
  moreover have "k_heap s1 payer = Some kp" "k_heap s1 payee = Some ke" using s1(4) k assms(5,6) by auto
  ultimately have rl: "relaying s1 tx1 payer payee kp ke QUERY" using r(3-5) k(3) by (simp add: relaying_def manager_of_def)
  have l: "line_ok E (k_counterParty ke) (k_currencySym ke) s1 acc1"
    using assms(13,16) s1(6,7) by (simp add: line_ok_def)
  have sp: "TransactionManager_split (rx_payload ?i1) = [toStdString E n, tid]" "fromFractionString E (toStdString E n) = Inr n"
    using split_vote_payload [OF assms(9), of tid n] fraction_back [OF assms(9,10)] assms(11) by (simp_all add: token_def)
  obtain s2 where "handleTxItem_remote E ?i1 s1 = (Inr ZR_SUCCESS, s2)"
    "relaying s2 tx1 payer payee (kp\<lparr>k_btcTxId := tid, k_btcAmount := n\<rparr>) (ke\<lparr>k_btcTxId := tid, k_btcAmount := n\<rparr>) VOTE_YES"
    "s_sent s2 = s_sent s1 @ [\<lparr>pk_peer = p2, pk_item = RemoteTxItem addr VOTE_YES CLIENT pid1 (vote_payload E n tid)\<rparr>]"
    using hop_votes [OF rl, of ?i1 p2 q, OF _ _ _ _ assms(7,8) sp assms(12) l refl assms(14) refl refl] assms(2) s1(5) by auto
  then show ?thesis
    using s1(8) receive_remote [OF s1(1)] receive_remote by (intro exI [of _ s1] exI [of _ s2]) auto
qed

section \<open>Witness\<close>

text \<open>
  The buyer of before, whose way to the ask is now a hop, and a seller that knows only the hop. The
  line of the hop with the buyer pays for seven, that of the seller with the hop for five.
\<close>

definition demo_far :: ext where
  "demo_far = demo\<lparr>x_own_id := ''so''\<rparr>"

definition demo_far_seller :: tmw where
  "demo_far_seller = svcw.extend (demo_svcw [demo_peer ''bo'' 20 0 0 0] [] [demo_order ''x'' ASK 15 4] [] [0] [0])
     \<lparr>t_heap = Map.empty, t_next = 0, t_current = [], t_sequence = 0\<rparr>"

definition demo_middle :: tmw where
  "demo_middle = (demo_tmw [demo_peer ''me'' 28 0 0 0])\<lparr>n_router := TraceRouter_addRoute ''x'' ''so'' demo_router\<rparr>"

abbreviation demo_account :: "int \<Rightarrow> account" where
  "demo_account cr \<equiv> \<lparr>a_credit = of_int cr, a_our_credit = 0, a_balance = 0, a_allocation = 0\<rparr>"

definition demo_hop :: "unit hop" where
  "demo_hop = \<lparr>hop_env = demo_friend, hop_node = demo_middle, hop_prev = ''me'', hop_next = ''so'', hop_line = demo_account 28, hop_asked = 9\<rparr>"

lemma far_simps [simp]: "x_own_id demo_far = ''so''" "x_build demo_far = Testnet" "x_sql_ok demo_far = x_sql_ok demo" "db_exact demo_far = db_exact demo"
  by (simp_all add: demo_far_def demo_def db_exact_def [abs_def] db_value_def)

lemma demo_far_seller_simps [simp]:
  "b_heap demo_far_seller = [0 \<mapsto> demo_order ''x'' ASK 15 4]" "b_next demo_far_seller = 1" "w_online demo_far_seller = []"
  "w_now demo_far_seller = 0" "t_current demo_far_seller = []" "k_contracts demo_far_seller = []" "s_raw demo_far_seller = []"
  "b_book demo_far_seller = (\<lambda>sd. demo_book (case sd of Bids \<Rightarrow> [] | Asks \<Rightarrow> [0] | Mine \<Rightarrow> [0]))"
  "db_tables demo_far_seller = demo_tables\<lparr>t_peers := [demo_peer ''bo'' 20 0 0 0]\<rparr>"
  by (simp_all add: demo_far_seller_def svcw.defs demo_svcw_def fun_eq_iff)

lemma demo_middle_simps [simp]:
  "b_heap demo_middle = Map.empty" "b_next demo_middle = 0" "t_current demo_middle = []" "k_contracts demo_middle = []" "k_next demo_middle = 0"
  "b_book demo_middle = (\<lambda>sd. demo_book [])" "n_router demo_middle = TraceRouter_addRoute ''x'' ''so'' demo_router"
  "db_tables demo_middle = demo_tables\<lparr>t_peers := [demo_peer ''me'' 28 0 0 0]\<rparr>"
  by (simp_all add: demo_middle_def demo_tmw_def svcw.defs demo_svcw_def fun_eq_iff split: side.split)

lemma demo_far_trades: "trades demo_far Asks 0 demo_far_seller"
  using demo_db_up by (auto simp: trades_def books_inv_def book_inv_def oid_def demo_order_simps no_quote_def peers_ok_def
    db_up_def row_ok_account demo_peer_account in_i64_def)

lemma demo_hop_lines:
  "line_ok demo_friend ''me'' ''GPM'' demo_middle (demo_account 28)" "line_ok demo_far ''bo'' ''GPM'' demo_far_seller (demo_account 20)"
  using demo_db_up by (simp_all add: line_ok_def db_up_def known_currency_def currencySymbols_testnet_def no_quote_def peers_ok_def
    row_ok_account abs_peers_def demo_peer_account in_i64_def)

lemma demo_formats: "same_format demo demo_friend" "same_format demo demo_far"
  using demo_frac_io by (simp_all add: same_format_def demo_friend_def demo_far_def)

lemma demo_hop_relays: "can_relay demo ''x'' ''x:b'' ''GPM'' 4 5 demo_hop"
  using demo_hop_lines(1) demo_formats(1) demo_db_exact [of 28] demo_db_exact [of 20]
  by (auto simp: can_relay_def Let_def demo_hop_def books_inv_def book_inv_def with_id_def
      manager_of_def TraceRouter_nextHop_def TraceRouter_addRoute_def no_quote_def available_def zr_fits_def in_i64_def hop_asks_def)

theorem purchase_over_hops_witness:
  "\<exists>a1 a2 b1 b2 h1 h2 h3. MyOrders_buy demo 1 0 9 demo_buyer = (Inr (), a1) \<and>
    pass_along demo demo_buyer a1 [(demo_friend, demo_middle), (demo_far, demo_far_seller)] = [h1, b1] \<and>
    pass_along demo_far demo_far_seller b1 [(demo_friend, h1), (demo, a1)] = [h2, a2] \<and>
    pass_along demo a1 a2 [(demo_friend, h2), (demo_far, b1)] = [h3, b2] \<and>
    k_contracts a2 = [k_next demo_buyer] \<and> k_contracts h3 = [0, 1] \<and> s_raw b2 = [''hex''] \<and>
    map_option a_allocation (abs_peers (db_tables h3) (''me'', ''GPM'')) = Some 20 \<and>
    (\<exists>x. b_heap a2 0 = Some x \<and> o_amount x = 15) \<and> (\<exists>x. b_heap b2 0 = Some x \<and> o_amount x = 10)"
proof -
  let ?o = "demo_order ''x'' ASK 15 4"
  let ?x = "?o\<lparr>o_isMyOrder := False\<rparr>" and ?b = "demo_order ''b'' BID 20 5"
  have ids: "hd (map hop_env [demo_hop] @ [demo_far]) = demo_friend" "last (demo # map hop_env [demo_hop]) = demo_friend"
    by (simp_all add: demo_hop_def)
  have b: "can_buy demo (x_own_id (hd (map hop_env [demo_hop] @ [demo_far]))) demo_buyer 1 ?x 0 ?b"
    unfolding ids using demo_trades(1) by (simp add: can_buy_def demo_order_simps no_quote_def TraceRouter_nextHop_def TraceRouter_addRoute_def
        demo_router_def currencySymbols_testnet_def)
  have p: "(4 :: rat) = o_price ?x" by (simp add: demo_order_simps)
  have r: "route 4 (x_own_id demo) 9 [demo_hop] (x_own_id demo_far) 7"
    by (simp add: demo_hop_def hop_asks_def available_def demo_def)
  have s: "can_sell demo_far (x_own_id (last (demo # map hop_env [demo_hop]))) demo_far_seller 0 ?o ''GPM'' 4 (demo_account 20)"
    unfolding ids using demo_far_trades demo_hop_lines(2)
    by (simp add: can_sell_def demo_order_simps available_def currencySymbols_testnet_def)
  have k: "o_order_id ?o = o_order_id ?x" "''GPM'' = currencySymbols (x_build demo) ! o_currency ?x" "CHR '':'' \<notin> set ''GPM''"
    "''x:b'' = o_order_id ?x @ '':'' @ o_order_id ?b" "manager_of ''x:b'' demo_buyer = None" "manager_of ''x:b'' demo_far_seller = None"
    by (simp_all add: demo_order_simps currencySymbols_testnet_def manager_of_def)
  have n: "(5 :: rat) = min (min 7 (available (demo_account 20) / 4)) (o_amount ?o - o_commitment ?o)" "(0 :: rat) < 9"
    by (simp_all add: available_def demo_order_simps)
  have h: "\<forall>h\<in>set [demo_hop]. can_relay demo (o_order_id ?x) ''x:b'' ''GPM'' 4 5 h"
    using demo_hop_relays by (simp add: demo_order_simps)
  have z: "zr_fits 7" "zr_fits (7 * 4)" "zr_fits 5" by (simp_all add: zr_fits_def in_i64_def)
  have e: "db_exact demo_far (a_allocation (demo_account 20) + min 7 (available (demo_account 20) / 4) * 4)"
    "db_exact demo_far (a_allocation (demo_account 20) + 5 * 4)"
    using demo_db_exact [of 20] by (simp_all add: in_i64_def available_def)
  have t: "token ''addr''" "token ''txid''" by (simp_all add: token_def no_quote_def)
  have x: "''addr'' = x_new_address demo (w_rpc demo_buyer)"
    "x_mk_raw_tx demo_far (w_rpc demo_far_seller) 5 (o_btcAddr ?o) ''addr'' = (o_btcAddr ?o, Some (''hex'', ''txid''))"
    by (simp_all add: demo_far_def demo_def)
  obtain a1 a2 b1 b2 s1 s2 s3 where w: "MyOrders_buy demo 1 0 9 demo_buyer = (Inr (), a1)"
    "pass_along demo demo_buyer a1 (map (\<lambda>h. (hop_env h, hop_node h)) [demo_hop] @ [(demo_far, demo_far_seller)]) = map s1 [demo_hop] @ [b1]"
    "pass_along demo_far demo_far_seller b1 (map (\<lambda>h. (hop_env h, s1 h)) (rev [demo_hop]) @ [(demo, a1)]) = map s2 (rev [demo_hop]) @ [a2]"
    "pass_along demo a1 a2 (map (\<lambda>h. (hop_env h, s2 h)) [demo_hop] @ [(demo_far, b1)]) = map s3 [demo_hop] @ [b2]"
    "\<forall>h\<in>set [demo_hop]. brokered ''txid'' 5 4 ''GPM'' ''addr'' h (s3 h)"
    "k_contracts a2 = k_contracts demo_buyer @ [k_next demo_buyer]" "s_raw b2 = s_raw demo_far_seller @ [''hex'']"
    "if 5 < o_amount ?b then \<exists>x. b_heap a2 0 = Some x \<and> o_amount x = o_amount ?b - 5
     else b_heap a2 0 = None \<and> (\<forall>sd. 0 \<notin> set (refs a2 sd))"
    "if 5 < o_amount ?o then \<exists>x. b_heap b2 0 = Some x \<and> o_amount x = o_amount ?o - 5
     else b_heap b2 0 = None \<and> (\<forall>sd. 0 \<notin> set (refs b2 sd))"
    using purchase_over_hops [OF demo_formats(2) b p r s k n(2,1) h x t z e refl refl] by blast
  have f: "hop_env demo_hop = demo_friend" "hop_node demo_hop = demo_middle" "hop_prev demo_hop = ''me''" "k_next demo_middle = 0"
    by (simp_all add: demo_hop_def)
  note runs = w(2-4) [unfolded list.map append.simps rev.simps f]
  have "k_contracts (s3 demo_hop) = [0, 1]" "map_option a_allocation (abs_peers (db_tables (s3 demo_hop)) (''me'', ''GPM'')) = Some 20"
    using w(5) by (simp_all add: brokered_def Let_def f demo_hop_def)
  moreover have "k_contracts a2 = [k_next demo_buyer]" "s_raw b2 = [''hex'']" using w(6,7) by simp_all
  moreover have "\<exists>x. b_heap a2 0 = Some x \<and> o_amount x = 15" "\<exists>x. b_heap b2 0 = Some x \<and> o_amount x = 10"
    using w(8,9) by (simp_all add: demo_order_simps)
  ultimately show ?thesis using w(1) runs by blast
qed

text \<open>The hop of before, with a purchase under way for the buyer, and a second friend with a line of its own.\<close>

definition demo_busy :: tmw where
  "demo_busy = (demo_tmw [demo_peer ''me'' 28 0 0 20, demo_peer ''al'' 28 0 0 0])
     \<lparr>n_router := Router_addTunnel ''x'' (''me'', ''so'') (TraceRouter_addRoute ''x'' ''so'' demo_router),
      k_heap := [0 \<mapsto> fresh_contract 5 0 4 ''GPM'' RECEIVER ''me'' 0, Suc 0 \<mapsto> fresh_contract 5 0 4 ''GPM'' SENDER ''so'' 0], k_next := 2,
      t_heap := [0 \<mapsto> \<lparr>tm_TxId = ''x:b'', tm_Phase = QUERY, tm_startOfPhase = 0, tm_class = TmContractCohorteHop (Some (Suc 0)) (Some 0)\<rparr>],
      t_next := 1, t_current := [(''x:b'', 0)]\<rparr>"

lemma demo_busy_simps [simp]:
  "b_heap demo_busy = Map.empty" "b_next demo_busy = 0" "t_current demo_busy = [(''x:b'', 0)]" "k_next demo_busy = 2" "t_next demo_busy = 1"
  "k_heap demo_busy = [0 \<mapsto> fresh_contract 5 0 4 ''GPM'' RECEIVER ''me'' 0, Suc 0 \<mapsto> fresh_contract 5 0 4 ''GPM'' SENDER ''so'' 0]"
  "t_heap demo_busy = [0 \<mapsto> \<lparr>tm_TxId = ''x:b'', tm_Phase = QUERY, tm_startOfPhase = 0, tm_class = TmContractCohorteHop (Some (Suc 0)) (Some 0)\<rparr>]"
  "b_book demo_busy = (\<lambda>sd. demo_book [])" "s_sent demo_busy = []"
  "n_router demo_busy = Router_addTunnel ''x'' (''me'', ''so'') (TraceRouter_addRoute ''x'' ''so'' demo_router)"
  "db_tables demo_busy = demo_tables\<lparr>t_peers := [demo_peer ''me'' 28 0 0 20, demo_peer ''al'' 28 0 0 0]\<rparr>"
  by (simp_all add: demo_busy_def demo_tmw_def svcw.defs demo_svcw_def fun_eq_iff split: side.split)

lemma demo_busy_lines:
  "line_ok demo_friend ''me'' ''GPM'' demo_busy \<lparr>a_credit = 28, a_our_credit = 0, a_balance = 0, a_allocation = 20\<rparr>"
  "line_ok demo_friend ''al'' ''GPM'' demo_busy (demo_account 28)"
  using demo_db_up by (simp_all add: line_ok_def db_up_def known_currency_def currencySymbols_testnet_def no_quote_def peers_ok_def
    row_ok_account abs_peers_def demo_peer_account in_i64_def)

theorem second_query_diverts_vote_witness:
  "\<exists>s1 s2 pl'. for_each [\<lparr>pk_peer = ''al'', pk_item = RemoteTxItem ''x'' QUERY SERVER ''c'' (query_text demo ''GPM'' ''addr'' 4 3)\<rparr>]
      (receive_item demo_friend) demo_busy = (Inr (), s1) \<and>
    for_each [\<lparr>pk_peer = ''so'', pk_item = RemoteTxItem ''x'' VOTE_YES CLIENT ''b'' (vote_payload demo_friend 5 ''txid'')\<rparr>]
      (receive_item demo_friend) s1 = (Inr (), s2) \<and>
    s_sent s2 = [\<lparr>pk_peer = ''so'', pk_item = RemoteTxItem ''x'' QUERY SERVER ''c'' pl'\<rparr>,
      \<lparr>pk_peer = ''al'', pk_item = RemoteTxItem ''x'' VOTE_YES CLIENT ''b'' (vote_payload demo_friend 5 ''txid'')\<rparr>]"
proof -
  let ?ke = "fresh_contract 5 0 4 ''GPM'' RECEIVER ''me'' 0" and ?kp = "fresh_contract 5 0 4 ''GPM'' SENDER ''so'' 0"
  let ?acc = "\<lparr>a_credit = 28, a_our_credit = 0, a_balance = 0, a_allocation = 20\<rparr>"
  have a: "relaying demo_busy ''x:b'' (Suc 0) 0 ?kp ?ke QUERY" "''x:b'' = ''x'' @ '':'' @ ''b''" "sorted_map (t_current demo_busy)"
    "t_heap demo_busy (t_next demo_busy) = None" "k_heap demo_busy (k_next demo_busy) = None" "k_heap demo_busy (Suc (k_next demo_busy)) = None"
    by (simp_all add: relaying_def manager_of_def sorted_map_def)
  have k: "k_party ?kp = SENDER" "k_party ?ke = RECEIVER" "token ''txid''" "5 \<le> k_btcAmount ?kp"
    "manager_of (''x'' @ '':'' @ ''c'') demo_busy = None" "k_counterParty ?ke \<noteq> ''al''"
    by (simp_all add: fresh_contract_def manager_of_def token_def no_quote_def)
  have z: "zr_fits 5" "zr_fits 3" "zr_fits (3 * 4)" by (simp_all add: zr_fits_def in_i64_def)
  have io: "frac_io demo_friend" using demo_frac_io by (simp add: frac_io_def demo_friend_def)
  have l: "line_ok demo_friend (k_counterParty ?ke) (k_currencySym ?ke) demo_busy ?acc"
    "db_exact demo_friend (a_allocation ?acc - (k_btcAmount ?ke - 5) * k_price ?ke)"
    using demo_busy_lines(1) demo_db_exact [of 20] by (simp_all add: fresh_contract_def in_i64_def)
  have t: "token ''addr''" "CHR '':'' \<notin> set ''GPM''" by (simp_all add: token_def no_quote_def)
  have p: "passes demo_friend \<lparr>rx_peer = ''al'', rx_addr = ''x'', rx_phase = QUERY, rx_dir = SERVER, rx_payerId = ''c'',
      rx_payload = query_text demo ''GPM'' ''addr'' 4 3\<rparr> demo_busy ''so'' ''GPM'' 4 3 ''addr'' (demo_account 28) 3"
    using query_read [OF demo_formats(1) t z(2,3)] demo_busy_lines(2) demo_db_exact [of 12]
    by (auto simp: passes_def books_inv_def book_inv_def with_id_def TraceRouter_nextHop_def TraceRouter_addRoute_def
        Router_addTunnel_def available_def in_i64_def)
  show ?thesis
    using second_query_diverts_vote [OF a k(1,2) io z(1) k(3,4) l k(5,6) p] by (simp only: demo_busy_simps append_Nil) blast
qed

end
