(* ===== verification/Rollback.thy ===== *)
theory Rollback
  imports Hops
begin

text \<open>
  Purchases that fail: what becomes of the contracts, the reserved funds and the commitments, over a
  whole chain of nodes, and where giving up one purchase harms another.
\<close>

section \<open>Removing a contract\<close>

definition dropped :: "cref \<Rightarrow> 'z conw_scheme \<Rightarrow> 'z conw_scheme" where
  "dropped r s = s\<lparr>k_heap := (k_heap s)(r := None), k_contracts := remove1 r (k_contracts s)\<rparr>"

lemma dropped_fields [simp]:
  "k_heap (dropped r s) = (k_heap s)(r := None)" "k_contracts (dropped r s) = remove1 r (k_contracts s)"
  "k_next (dropped r s) = k_next s" "b_heap (dropped r s) = b_heap s" "b_book (dropped r s) = b_book s" "b_next (dropped r s) = b_next s"
  "n_router (dropped r s) = n_router s" "w_online (dropped r s) = w_online s" "db_tables (dropped r s) = db_tables s"
  "s_sent (dropped r v) = s_sent v" "s_raw (dropped r v) = s_raw v" "t_heap (dropped r u) = t_heap u"
  "t_current (dropped r u) = t_current u" "t_next (dropped r u) = t_next u"
  by (simp_all add: dropped_def)

text \<open>The list is searched for the counterparty and the transaction id, which a contract lacks until the vote.\<close>

definition alike :: "BtcContract \<Rightarrow> BtcContract \<Rightarrow> bool" where
  "alike k c \<longleftrightarrow> k_counterParty c = k_counterParty k \<and> k_btcTxId c = k_btcTxId k"

lemma find_contract_first:
  assumes "\<forall>r\<in>set ks. \<exists>c. k_heap s r = Some c \<and> \<not> p c" and "k_heap s x = Some k" and "p k"
  shows "find_contract p (ks @ x # rest) s = (Inr (Some x), s)"
  using assms by (induction ks) (auto simp: bnd_def get_contract_ok prog_apply)

lemma rmContract_run:
  assumes "k_heap s k_r = Some k" and "k_btcTxId k = []" and "k_contracts s = ks @ c_r # rest"
    and "\<forall>r\<in>set ks. \<exists>c. k_heap s r = Some c \<and> \<not> alike k c" and "k_heap s c_r = Some c" and "alike k c"
    and "k_party k = RECEIVER \<Longrightarrow> line_ok E (k_counterParty c) (k_currencySym c) s acc"
  shows "rmContract E k_r s = (Inr (), dropped c_r (if k_party k = RECEIVER
    then alloc_set E (k_counterParty c) (k_currencySym c) (a_allocation acc - getFiatAmount c) s else s))"
proof -
  have f: "find_contract (\<lambda>c. k_counterParty c = k_counterParty k \<and> k_btcTxId c = k_btcTxId k) (k_contracts s) s = (Inr (Some c_r), s)"
    using find_contract_first [of ks s "alike k" c_r c rest] assms(3-6) unfolding alike_def by simp
  have d: "drop_contract c_r u = (Inr (), dropped c_r u)" if "k_heap u c_r = Some c" for u :: "'a conw_scheme"
    using that by (simp add: drop_contract_def dropped_def bnd_def get_contract_ok prog_apply)
  let ?u = "if k_party k = RECEIVER then alloc_set E (k_counterParty c) (k_currencySym c) (a_allocation acc - getFiatAmount c) s else s"
  have w: "whn (k_party k = RECEIVER) (deallocateFunds E c (getFiatAmount c)) s = (Inr (), ?u)"
    using deallocateFunds_ok [OF assms(7)] by (cases "k_party k = RECEIVER") (simp_all add: whn_def prog_apply)
  show ?thesis
    unfolding rmContract_def
    by (rule bnd_step, rule prog_apply(3), subst if_not_P, simp add: assms(3), rule bnd_step, rule get_contract_ok [OF assms(1)],
        rule bnd_step, rule f, simp only: option.case, rule bnd_step, rule get_contract_ok [OF assms(5)], rule thn_step [where x = "()" and t = s], simp add: assms(2) whn_def prog_apply,
        rule thn_step, rule w, rule d) (simp add: assms(5))
qed

text \<open>No contract with these friends waits for a vote.\<close>

definition no_pending :: "'z conw_scheme \<Rightarrow> PeerAddress set \<Rightarrow> bool" where
  "no_pending s cps \<longleftrightarrow> (\<forall>r\<in>set (k_contracts s). r < k_next s \<and>
     (\<exists>k. k_heap s r = Some k \<and> (k_counterParty k \<in> cps \<longrightarrow> k_btcTxId k \<noteq> [])))"

section \<open>The seller\<close>

text \<open>The manager of a purchase at the seller's node, whatever its phase.\<close>

definition holding :: "'z tmw_scheme \<Rightarrow> TransactionId \<Rightarrow> oref \<Rightarrow> cref \<Rightarrow> BtcContract \<Rightarrow> bool" where
  "holding s txId my_r k_r k \<longleftrightarrow> (\<exists>r t hex. manager_of txId s = Some r \<and> t_heap s r = Some t \<and> tm_TxId t = txId \<and>
     tm_class t = TmContractCohortePayee (Some k_r) hex (Some my_r)) \<and> k_heap s k_r = Some k"

text \<open>When the Bitcoin client makes no transaction, the seller's node asks for the purchase to be given up.\<close>

lemma seller_refuses:
  assumes "manager_of txId s = None" and "txId = rx_addr i @ '':'' @ rx_payerId i" and "rx_phase i = QUERY"
    and "serves E i s my_r my cur price amount dest acc n"
    and "x_mk_raw_tx E (w_rpc s) n (o_btcAddr my) dest = (sendAddr, None)"
    and "k = fresh_contract n 0 price cur RECEIVER (rx_peer i) (w_now s)"
  shows "\<exists>s'. handleTxItem_remote E i s = (Inr ZR_SUCCESS, s') \<and> holding s' txId my_r (k_next s) k \<and>
    t_current s' = map_put txId (t_next s) (t_current s) \<and> k_contracts s' = k_contracts s @ [k_next s] \<and>
    k_heap s' = (k_heap s)(k_next s \<mapsto> k) \<and>
    b_heap s' = (b_heap s)(my_r \<mapsto> my\<lparr>o_commitment := o_commitment my + n, o_btcAddr := sendAddr\<rparr>) \<and> s_raw s' = s_raw s \<and>
    t_btccontracts (db_tables s') = t_btccontracts (db_tables s) \<and> peers_ok (db_tables s') \<and>
    abs_peers (db_tables s') = (abs_peers (db_tables s))((rx_peer i, cur) \<mapsto> acc\<lparr>a_allocation := a_allocation acc + n * price\<rparr>) \<and>
    s_sent s' = s_sent s @ [\<lparr>pk_peer = rx_peer i, pk_item = RemoteTxItem (rx_addr i) ABORT_REQUEST CLIENT (rx_payerId i) []\<rparr>]"
proof -
  let ?t = "\<lparr>tm_TxId = txId, tm_Phase = INIT, tm_startOfPhase = w_now s, tm_class = TmContractCohortePayee None [] None\<rparr>"
  let ?s = "registered txId (TmContractCohortePayee None [] None) s" and ?my = "my\<lparr>o_commitment := o_commitment my + n\<rparr>"
  let ?t3 = "?t\<lparr>tm_Phase := QUERY, tm_class := TmContractCohortePayee (Some (k_next s)) [] (Some my_r)\<rparr>"
  have b: "books_inv s" "my_r \<in> set (refs s Mine)" "b_heap s my_r = Some my" "o_order_id my = rx_addr i"
    using assms(4) by (simp_all add: serves_def)
  have sv: "serves E i ?s my_r my cur price amount dest acc n" using assms(4) by simp
  have t: "t_heap ?s (t_next s) = Some ?t" "tm_Phase ?t = INIT" by simp_all
  have k: "k = fresh_contract n 0 price cur RECEIVER (rx_peer i) (w_now ?s)" using assms(6) by simp
  from query_prepared [OF sv t k] obtain s6 where
    s6: "TmContractCohortePayee_doQuery E (t_next s) ?t None [] None i ?s = payee_vote E (t_next s) my_r (k_next s) n dest i s6"
    and f: "t_heap s6 = (t_heap ?s)(t_next s \<mapsto> ?t3)" "t_current s6 = t_current ?s" "k_heap s6 = (k_heap s)(k_next s \<mapsto> k)"
      "k_contracts s6 = k_contracts s @ [k_next s]" "b_heap s6 = (b_heap s)(my_r \<mapsto> ?my)" "w_rpc s6 = w_rpc s" "s_raw s6 = s_raw s"
      "s_sent s6 = s_sent s" "t_btccontracts (db_tables s6) = t_btccontracts (db_tables s)" "peers_ok (db_tables s6)"
      "abs_peers (db_tables s6) = (abs_peers (db_tables s))((rx_peer i, cur) \<mapsto> acc\<lparr>a_allocation := a_allocation acc + n * price\<rparr>)"
    by auto
  let ?u = "sent_to (rx_peer i) (RemoteTxItem (rx_addr i) ABORT_REQUEST CLIENT (rx_payerId i) [])
    (with_tm (t_next s) (?t3\<lparr>tm_Phase := ABORT_REQUEST\<rparr>) (s6\<lparr>w_rpc := Suc (w_rpc s6), b_heap := (b_heap s6)(my_r \<mapsto> ?my\<lparr>o_btcAddr := sendAddr\<rparr>)\<rparr>))"
  have "payee_vote E (t_next s) my_r (k_next s) n dest i s6 = (Inr ZR_SUCCESS, ?u)"
    using assms(5) f(1,5,6) b(4) by (simp add: payee_vote_def bnd_def [of "get_order _"] get_order_run [of _ _ ?my] bnd_def [of "rpc_call _"]
      rpc_call_apply thn_def bnd_def [of "upd_order _ _"] upd_order_run [of _ _ ?my] TmContractCohortePayee_abortTx_def set_phase_def
      bnd_def [of "upd_tm _ _"] run_simps bnd_need get_order_run send_remote_def bnd_def [of "sendItem _ _"] prog_apply)
  then have "handleTxItem_remote E i s = (Inr ZR_SUCCESS, ?u)"
    by (intro query_handled [OF assms(1-3) b refl]) (simp_all add: s6 finish_run)
  then show ?thesis
    using f by (intro exI [of _ ?u]) (simp add: holding_def manager_of_def look_put)
qed

lemma seller_releases:
  assumes "holding s txId my_r k_r k" and "txId = rx_addr i @ '':'' @ rx_payerId i" and "rx_phase i = ABORT"
    and "b_heap s my_r = Some my" and "k_party k = RECEIVER" and "k_btcTxId k = []" and "k_contracts s = ks @ [k_r]"
    and "\<forall>r\<in>set ks. r \<noteq> k_r \<and> (\<exists>c. k_heap s r = Some c \<and> \<not> alike k c)"
    and "line_ok E (k_counterParty k) (k_currencySym k) s acc" and "v = a_allocation acc - getFiatAmount k" and "db_exact E v"
  shows "\<exists>s'. handleTxItem_remote E i s = (Inr ZR_FAILURE, s') \<and> t_current s' = map_erase txId (t_current s) \<and>
    k_contracts s' = ks \<and> k_heap s' = (k_heap s)(k_r := None) \<and>
    b_heap s' = (b_heap s)(my_r \<mapsto> my\<lparr>o_commitment := o_commitment my - k_btcAmount k\<rparr>) \<and>
    t_btccontracts (db_tables s') = t_btccontracts (db_tables s) \<and>
    abs_peers (db_tables s') = (abs_peers (db_tables s))((k_counterParty k, k_currencySym k) \<mapsto> acc\<lparr>a_allocation := v\<rparr>) \<and>
    s_sent s' = s_sent s \<and> s_raw s' = s_raw s"
proof -
  obtain r t hex where t: "manager_of txId s = Some r" "t_heap s r = Some t" "tm_TxId t = txId"
    "tm_class t = TmContractCohortePayee (Some k_r) hex (Some my_r)" and k: "k_heap s k_r = Some k"
    using assms(1) by (auto simp: holding_def)
  let ?s1 = "s\<lparr>b_heap := (b_heap s)(my_r \<mapsto> my\<lparr>o_commitment := o_commitment my - k_btcAmount k\<rparr>)\<rparr>"
  let ?s2 = "dropped k_r (alloc_set E (k_counterParty k) (k_currencySym k) v ?s1)"
  have l: "line_ok E (k_counterParty k) (k_currencySym k) ?s1 acc" using assms(9) by (simp add: line_ok_def)
  have m: "rmContract E k_r ?s1 = (Inr (), ?s2)"
    using rmContract_run [of ?s1 k_r k ks k_r "[]" k E acc] k l assms(5-8) by (simp add: alike_def assms(10))
  have "TmContractCohortePayee_rollback E (Some k_r) (Some my_r) s = (Inr (), ?s2)"
    unfolding TmContractCohortePayee_rollback_def option.case bnd_need
    by (rule bnd_step, rule get_contract_ok [OF k], rule thn_step, rule upd_order_run [OF assms(4)], rule m)
  then have "process_remote E r i s = (Inr ZR_FAILURE, ?s2)"
    using t by (simp add: process_remote_def bnd_def [of "get_tm _"] run_simps TmContractCohortePayee_processItem_def assms(3)
        thn_def bnd_def [of "TmContractCohortePayee_rollback _ _ _"] prog_apply)
  moreover have "finish_tm r ZR_FAILURE ?s2 = (Inr ZR_FAILURE, unregistered r txId ?s2)"
    using t(2-4) finish_run(2) [of ?s2 r t ZR_FAILURE] by simp
  ultimately have "handleTxItem_remote E i s = (Inr ZR_FAILURE, unregistered r txId ?s2)"
    using t(1) unfolding assms(2) by (rule remote_run [rotated])
  moreover have "remove1 k_r (ks @ [k_r]) = ks" using assms(8) by (auto simp: remove1_append)
  ultimately show ?thesis
    using abs_alloc(1) [OF l assms(11)] by (intro exI [of _ "unregistered r txId ?s2"]) (simp add: assms(7) unregistered_def)
qed

section \<open>The buyer\<close>

lemma buyer_gives_up:
  assumes "buying s txId other_r my_r k_r k" and "txId = rx_addr i @ '':'' @ rx_payerId i"
    and "rx_phase i = ABORT_REQUEST \<or> rx_phase i = VOTE_NO" and "b_heap s other_r = Some other" and "b_heap s my_r = Some my"
    and "my_r \<noteq> other_r" and "k_party k = SENDER" and "k_btcTxId k = []" and "k_contracts s = ks @ c_r # rest"
    and "\<forall>r\<in>set ks. \<exists>c. k_heap s r = Some c \<and> \<not> alike k c" and "k_heap s c_r = Some c" and "alike k c"
    and "db_up E" and "books_inv s" and "other_r \<in> set (refs s Asks)"
    and "TraceRouter_nextHop (n_router s) (o_order_id other) = q" and "q \<noteq> []"
  shows "\<exists>s'. handleTxItem_remote E i s = (Inr ZR_FAILURE, s') \<and> t_current s' = map_erase txId (t_current s) \<and>
    t_heap s' = (t_heap s)(the (manager_of txId s) := None) \<and>
    k_contracts s' = remove1 c_r (k_contracts s) \<and> k_heap s' = (k_heap s)(c_r := None) \<and>
    b_heap s' = (b_heap s)(other_r \<mapsto> other\<lparr>o_ignored := True\<rparr>) \<and> refs s' Asks = remove1 other_r (refs s Asks) \<and>
    t_btccontracts (db_tables s') = t_btccontracts (db_tables s) \<and> abs_peers (db_tables s') = abs_peers (db_tables s) \<and>
    s_sent s' = s_sent s @ [\<lparr>pk_peer = q, pk_item = RemoteTxItem (o_order_id other) ABORT SERVER (o_order_id my) []\<rparr>]"
proof -
  obtain r t where t: "manager_of txId s = Some r" "t_heap s r = Some t" "tm_TxId t = txId"
    "tm_class t = TmContractCoordinator other_r (Some my_r) (Some k_r)" and k: "k_heap s k_r = Some k"
    using assms(1) by (auto simp: buying_def)
  let ?o = "other\<lparr>o_ignored := True\<rparr>" and ?s1 = "dropped c_r s"
  let ?s2 = "?s1\<lparr>b_heap := (b_heap s)(other_r \<mapsto> ?o)\<rparr>"
  let ?s3 = "removed E Asks other_r ?s2"
  let ?s4 = "sent_to q (RemoteTxItem (o_order_id other) ABORT SERVER (o_order_id my) []) ?s3"
  have a: "rmContract E k_r s = (Inr (), ?s1)"
    using rmContract_run [OF k assms(8-12), of E] assms(7) by simp
  have b: "upd_order other_r (\<lambda>x. x\<lparr>o_ignored := True\<rparr>) ?s1 = (Inr (), ?s2)"
    using upd_order_run [of ?s1 other_r other] assms(4) by simp
  have c: "get_order other_r ?s2 = (Inr ?o, ?s2)" by (rule get_order_run) simp
  have o: "oid ?s2 = oid s" using assms(4) by (auto simp: oid_def fun_eq_iff)
  have "dom (b_heap ?s2) = dom (b_heap s)" using assms(4) by auto
  then have "book_inv ?s2 Asks" using books_inv_book [OF assms(14), of Asks] o by (simp add: book_inv_def)
  from remove_Some [OF assms(13) this, of other_r]
  have d: "OrderBook_remove E Asks (o_order_id ?o) ?s2 = (Inr (Some other_r), ?s3)" using assms(15) by (simp add: oid_def)
  have "TmContractCoordinator_rollback E other_r (Some k_r) s = (Inr (), ?s3)"
    unfolding TmContractCoordinator_rollback_def option.case
    by (rule thn_step, rule a, rule thn_step, rule b, rule bnd_step, rule c, rule bnd_step, rule d) (simp add: prog_apply)
  moreover have "TmContractCoordinator_abortTx other_r (Some my_r) ?s3 = (Inr ZR_FAILURE, ?s4)"
    unfolding TmContractCoordinator_abortTx_def bnd_need
    by (rule bnd_step, rule get_order_run [where x = ?o], simp, rule bnd_step, rule get_order_run [where x = my], use assms(5,6) in simp)
      (use assms(16,17) in \<open>simp add: prog_step send_remote_def thn_def bnd_def [of "sendItem _ _"] run_simps prog_apply\<close>)
  ultimately have "process_remote E r i s = (Inr ZR_FAILURE, ?s4)"
    using t assms(3) by (auto simp: process_remote_def bnd_def [of "get_tm _"] run_simps TmContractCoordinator_processItem_def Let_def
        thn_def bnd_def [of "TmContractCoordinator_rollback _ _ _"])
  moreover have "finish_tm r ZR_FAILURE ?s4 = (Inr ZR_FAILURE, unregistered r txId ?s4)"
    using t(2-4) finish_run(2) [of ?s4 r t ZR_FAILURE] by simp
  ultimately have "handleTxItem_remote E i s = (Inr ZR_FAILURE, unregistered r txId ?s4)"
    using t(1) unfolding assms(2) by (rule remote_run [rotated])
  then show ?thesis
    using t(1) by (intro exI [of _ "unregistered r txId ?s4"]) (simp add: unregistered_def sent_to_def)
qed

section \<open>A hop\<close>

text \<open>A request to give up is passed on to the buyer's side.\<close>

lemma hop_passes:
  assumes "relaying s txId payer payee kp ke ph" and "txId = rx_addr i @ '':'' @ rx_payerId i" and "rx_phase i = ABORT_REQUEST"
    and "rx_dir i = CLIENT" and "tunnel (rx_addr i) s = Some (p, q)"
  shows "handleTxItem_remote E i s = (Inr ZR_SUCCESS, sent_to p (RemoteTxItem (rx_addr i) ABORT_REQUEST CLIENT (rx_payerId i) (rx_payload i)) s)"
proof -
  obtain r t where t: "manager_of txId s = Some r" "t_heap s r = Some t" "tm_class t = TmContractCohorteHop (Some payer) (Some payee)"
    using assms(1) by (auto simp: relaying_def)
  have "process_remote E r i s = (Inr ZR_SUCCESS, sent_to p (RemoteTxItem (rx_addr i) ABORT_REQUEST CLIENT (rx_payerId i) (rx_payload i)) s)"
    using t forward_run [OF assms(5)] assms(3,4)
    by (simp add: process_remote_def bnd_def [of "get_tm _"] run_simps TmContractCohorteHop_processItem_def)
  then show ?thesis using remote_run [OF t(1) [unfolded assms(2)] _ finish_run(1)] by blast
qed

lemma hop_releases:
  assumes "relaying s txId payer payee kp ke ph" and "txId = rx_addr i @ '':'' @ rx_payerId i" and "rx_phase i = ABORT"
    and "rx_dir i = SERVER" and "tunnel (rx_addr i) s = Some (p, q)" and "k_party kp = SENDER" and "k_party ke = RECEIVER"
    and "k_btcTxId kp = []" and "k_btcTxId ke = []" and "k_counterParty kp \<noteq> k_counterParty ke" and "k_contracts s = ks @ [payee, payer]"
    and "\<forall>r\<in>set ks. r \<noteq> payee \<and> r \<noteq> payer \<and> (\<exists>c. k_heap s r = Some c \<and> \<not> alike kp c \<and> \<not> alike ke c)"
    and "line_ok E (k_counterParty ke) (k_currencySym ke) s acc" and "v = a_allocation acc - getFiatAmount ke" and "db_exact E v"
  shows "\<exists>s'. handleTxItem_remote E i s = (Inr ZR_FAILURE, s') \<and> t_current s' = map_erase txId (t_current s) \<and>
    k_contracts s' = ks \<and> k_heap s' = (k_heap s)(payer := None, payee := None) \<and>
    t_btccontracts (db_tables s') = t_btccontracts (db_tables s) \<and>
    abs_peers (db_tables s') = (abs_peers (db_tables s))((k_counterParty ke, k_currencySym ke) \<mapsto> acc\<lparr>a_allocation := v\<rparr>) \<and>
    s_sent s' = s_sent s @ [\<lparr>pk_peer = q, pk_item = RemoteTxItem (rx_addr i) ABORT SERVER (rx_payerId i) (rx_payload i)\<rparr>]"
proof -
  obtain r t where t: "manager_of txId s = Some r" "t_heap s r = Some t" "tm_TxId t = txId"
    "tm_class t = TmContractCohorteHop (Some payer) (Some payee)" and k: "k_heap s payer = Some kp" "k_heap s payee = Some ke" "payer \<noteq> payee"
    using assms(1) by (auto simp: relaying_def)
  let ?s1 = "sent_to q (RemoteTxItem (rx_addr i) ABORT SERVER (rx_payerId i) (rx_payload i)) s"
  let ?s2 = "dropped payer ?s1"
  let ?s3 = "dropped payee (alloc_set E (k_counterParty ke) (k_currencySym ke) v ?s2)"
  have fw: "forwardItem i (rx_payload i) s = (Inr ZR_SUCCESS, ?s1)" using forward_run [OF assms(5)] assms(3,4) by simp
  have "rmContract E payer ?s1 = (Inr (), dropped payer (if k_party kp = RECEIVER
    then alloc_set E (k_counterParty kp) (k_currencySym kp) (a_allocation acc - getFiatAmount kp) ?s1 else ?s1))"
    by (rule rmContract_run [where ks = "ks @ [payee]" and rest = "[]"])
      (use k assms(6,8-12) in \<open>auto simp: alike_def\<close>)
  then have a: "rmContract E payer ?s1 = (Inr (), ?s2)" using assms(6) by simp
  have ks: "k_contracts ?s2 = ks @ [payee]" "remove1 payee (ks @ [payee]) = ks"
    using assms(11,12) k(3) by (auto simp: remove1_append)
  have l: "line_ok E (k_counterParty ke) (k_currencySym ke) ?s2 acc" using assms(13) by (simp add: line_ok_def)
  have "rmContract E payee ?s2 = (Inr (), dropped payee (if k_party ke = RECEIVER
    then alloc_set E (k_counterParty ke) (k_currencySym ke) (a_allocation acc - getFiatAmount ke) ?s2 else ?s2))"
    by (rule rmContract_run [OF _ assms(9) ks(1) _ _ _ l]) (use k assms(12) in \<open>auto simp: alike_def\<close>)
  then have b: "rmContract E payee ?s2 = (Inr (), ?s3)" using assms(7) by (simp add: assms(14))
  have "TmContractCohorteHop_rollback E (Some payer) (Some payee) ?s1 = (Inr (), ?s3)"
    unfolding TmContractCohorteHop_rollback_def option.case by (rule thn_step, rule a, rule b)
  then have "process_remote E r i s = (Inr ZR_FAILURE, ?s3)"
    using t fw by (simp add: process_remote_def bnd_def [of "get_tm _"] run_simps TmContractCohorteHop_processItem_def assms(3)
        thn_def bnd_def [of "forwardItem _ _"] bnd_def [of "TmContractCohorteHop_rollback _ _ _"] prog_apply)
  moreover have "finish_tm r ZR_FAILURE ?s3 = (Inr ZR_FAILURE, unregistered r txId ?s3)"
    using t(2-4) finish_run(2) [of ?s3 r t ZR_FAILURE] by simp
  ultimately have "handleTxItem_remote E i s = (Inr ZR_FAILURE, unregistered r txId ?s3)"
    using t(1) unfolding assms(2) by (rule remote_run [rotated])
  then show ?thesis
    using abs_alloc(1) [OF l assms(15)] ks by (intro exI [of _ "unregistered r txId ?s3"]) (simp add: unregistered_def)
qed

section \<open>A purchase that fails\<close>

text \<open>Nothing is left of a purchase: no manager, no contract, no reserved funds.\<close>

definition unwound :: "'z tmw_scheme \<Rightarrow> 'z tmw_scheme \<Rightarrow> bool" where
  "unwound s t \<longleftrightarrow> t_current t = t_current s \<and> k_contracts t = k_contracts s \<and> (\<forall>r\<in>set (k_contracts s). k_heap t r = k_heap s r) \<and>
     t_btccontracts (db_tables t) = t_btccontracts (db_tables s) \<and> abs_peers (db_tables t) = abs_peers (db_tables s)"

definition give_up_item :: "VirtualAddress \<Rightarrow> string \<Rightarrow> item" where
  "give_up_item addr pid = RemoteTxItem addr ABORT_REQUEST CLIENT pid []"

definition abort_item :: "VirtualAddress \<Rightarrow> string \<Rightarrow> item" where
  "abort_item addr pid = RemoteTxItem addr ABORT SERVER pid []"

lemma account_back:
  assumes "abs_peers t key = Some acc"
  shows "(abs_peers t)(key \<mapsto> acc\<lparr>a_allocation := v\<rparr>, key \<mapsto> acc\<lparr>a_allocation := a_allocation acc\<rparr>) = abs_peers t"
  using assms by (auto simp: fun_eq_iff)

lemma buyer_side_refused:
  assumes "same_format A A" and "can_buy A (x_own_id N) a other_r other my_r my"
    and "cur = currencySymbols (x_build A) ! o_currency other" and "txId = o_order_id other @ '':'' @ o_order_id my"
    and "manager_of txId a = None" and "dest = x_new_address A (w_rpc a)" and "token dest"
    and "other_r \<in> set (refs a Asks)" and "no_pending a {x_own_id N}"
  shows "\<exists>a1 a2. MyOrders_buy A other_r my_r amount a = (Inr (), a1) \<and>
    tx_mail A N a a1 = [\<lparr>pk_peer = x_own_id A,
      pk_item = query_item A (o_order_id other) (o_order_id my) cur dest (o_price other) amount\<rparr>] \<and>
    for_each [\<lparr>pk_peer = x_own_id N, pk_item = give_up_item (o_order_id other) (o_order_id my)\<rparr>] (receive_item A) a1 = (Inr (), a2) \<and>
    tx_mail A N a1 a2 = [\<lparr>pk_peer = x_own_id A, pk_item = abort_item (o_order_id other) (o_order_id my)\<rparr>] \<and> unwound a a2 \<and>
    b_heap a2 my_r = Some (my\<lparr>o_locked := True\<rparr>) \<and> b_heap a2 other_r = Some (other\<lparr>o_ignored := True\<rparr>) \<and> other_r \<notin> set (refs a2 Asks)"
proof -
  let ?k = "(fresh_contract amount 0 (o_price other) cur SENDER (x_own_id N) (w_now a))\<lparr>k_destAddress := dest\<rparr>"
  let ?i = "\<lparr>rx_peer = x_own_id N, rx_addr = o_order_id other, rx_phase = ABORT_REQUEST, rx_dir = CLIENT,
    rx_payerId = o_order_id my, rx_payload = []\<rparr>"
  let ?my = "my\<lparr>o_locked := True\<rparr>"
  have cb: "b_heap a other_r = Some other" "b_heap a my_r = Some my" "my_r \<noteq> other_r"
    "o_currency other < length (currencySymbols (x_build A))" "TraceRouter_nextHop (n_router a) (o_order_id other) = x_own_id N"
    "x_own_id N \<noteq> []" "db_up A" "books_inv a" using assms(2) by (simp_all add: can_buy_def trades_def)
  have d: "x_new_address A (w_rpc a) = dest" "dest \<noteq> []" using assms(6,7) by (simp_all add: token_def)
  obtain a1 where a1: "MyOrders_buy A other_r my_r amount a = (Inr (), a1)" "buying a1 txId other_r my_r (k_next a) ?k"
    "k_contracts a1 = k_contracts a @ [k_next a]" "t_current a1 = map_put txId (t_next a) (t_current a)"
    "b_heap a1 = (b_heap a)(my_r \<mapsto> ?my)" "b_book a1 = b_book a" "b_next a1 = b_next a" "db_tables a1 = db_tables a"
    "n_router a1 = n_router a" "s_sent a1 = s_sent a @ [\<lparr>pk_peer = x_own_id N,
       pk_item = RemoteTxItem (o_order_id other) QUERY SERVER (o_order_id my) (query_payload A ?k dest 0)\<rparr>]"
    and h1: "\<And>r. r \<noteq> k_next a \<Longrightarrow> k_heap a1 r = k_heap a r"
    using buy_runs [OF cb(1-4) assms(3) cb(5,6) d refl assms(4)] by blast
  have q: "query_payload A ?k dest 0 = query_text A cur dest (o_price other) amount"
    by (rule query_text [OF assms(1)]) (simp_all add: fresh_contract_def)
  have b: "b_heap a1 other_r = Some other" "b_heap a1 my_r = Some ?my" "TraceRouter_nextHop (n_router a1) (o_order_id other) = x_own_id N"
    using a1(5,9) cb(1,3,5) by simp_all
  have "oid a1 = oid a" using a1(5) cb(2) by (auto simp: oid_def fun_eq_iff)
  moreover have "dom (b_heap a1) = dom (b_heap a)" using a1(5) cb(2) by auto
  ultimately have inv: "books_inv a1" "other_r \<in> set (refs a1 Asks)" "distinct (refs a1 Asks)"
    using cb(8) assms(8) a1(6,7) distinct_refs [OF cb(8)] by (simp_all add: books_inv_def book_inv_def)
  have kc: "k_party ?k = SENDER" "k_btcTxId ?k = []" "k_counterParty ?k = x_own_id N" by (simp_all add: fresh_contract_def)
  have old: "\<forall>r\<in>set (k_contracts a). r \<noteq> k_next a \<and> (\<exists>c. k_heap a1 r = Some c \<and> \<not> alike ?k c)"
    using assms(9) h1 kc by (fastforce simp: no_pending_def alike_def)
  then have old': "\<forall>r\<in>set (k_contracts a). \<exists>c. k_heap a1 r = Some c \<and> \<not> alike ?k c" by blast
  have kr: "k_heap a1 (k_next a) = Some ?k" using a1(2) by (simp add: buying_def)
  have tx: "txId = rx_addr ?i @ '':'' @ rx_payerId ?i" "rx_phase ?i = ABORT_REQUEST \<or> rx_phase ?i = VOTE_NO" by (simp_all add: assms(4))
  obtain a2 where h: "handleTxItem_remote A ?i a1 = (Inr ZR_FAILURE, a2)" and a2: "t_current a2 = map_erase txId (t_current a1)"
    "k_contracts a2 = remove1 (k_next a) (k_contracts a1)" "k_heap a2 = (k_heap a1)(k_next a := None)"
    "b_heap a2 = (b_heap a1)(other_r \<mapsto> other\<lparr>o_ignored := True\<rparr>)" "refs a2 Asks = remove1 other_r (refs a1 Asks)"
    "t_btccontracts (db_tables a2) = t_btccontracts (db_tables a1)" "abs_peers (db_tables a2) = abs_peers (db_tables a1)"
    "s_sent a2 = s_sent a1 @ [\<lparr>pk_peer = x_own_id N, pk_item = RemoteTxItem (o_order_id other) ABORT SERVER (o_order_id ?my) []\<rparr>]"
    using buyer_gives_up [OF a1(2) tx b(1,2) cb(3) kc(1,2) a1(3) old' kr _ cb(7) inv(1,2) b(3) cb(6)] by (auto simp: alike_def)
  have "map_erase txId (t_current a1) = t_current a" using assms(5) a1(4) by (simp add: erase_put manager_of_def)
  moreover have "remove1 (k_next a) (k_contracts a1) = k_contracts a" using old a1(3) by (auto simp: remove1_append)
  ultimately have "unwound a a2" using a2 a1(8) old h1 by (auto simp: unwound_def)
  moreover have "tx_mail A N a a1 = [\<lparr>pk_peer = x_own_id A,
      pk_item = query_item A (o_order_id other) (o_order_id my) cur dest (o_price other) amount\<rparr>]"
    by (rule tx_mail_item) (simp_all add: a1(10) q query_item_def)
  moreover have "tx_mail A N a1 a2 = [\<lparr>pk_peer = x_own_id A, pk_item = abort_item (o_order_id other) (o_order_id my)\<rparr>]"
    by (rule tx_mail_item) (simp_all add: a2(8) abort_item_def)
  ultimately show ?thesis
    using a1(1) receive_remote [OF h] b(2) a2(4,5) inv(3) cb(3) by (intro exI [of _ a1] exI [of _ a2]) (simp add: give_up_item_def)
qed

lemma seller_side_refused:
  assumes "same_format A B" and "can_sell B (x_own_id N) b sell_r sell cur price acc" and "CHR '':'' \<notin> set cur"
    and "txId = o_order_id sell @ '':'' @ pid" and "manager_of txId b = None" and "0 < m"
    and "n = min (min m (available acc / price)) (o_amount sell - o_commitment sell)"
    and "x_mk_raw_tx B (w_rpc b) n (o_btcAddr sell) dest = (change, None)"
    and "token dest" and "zr_fits m" and "zr_fits (m * price)"
    and "db_exact B (a_allocation acc + min m (available acc / price) * price)" and "db_exact B (a_allocation acc + n * price)"
    and "db_exact B (a_allocation acc)" and "no_pending b {x_own_id N}"
  shows "\<exists>b1 b2. for_each [\<lparr>pk_peer = x_own_id N, pk_item = query_item A (o_order_id sell) pid cur dest price m\<rparr>] (receive_item B) b = (Inr (), b1) \<and>
    tx_mail B N b b1 = [\<lparr>pk_peer = x_own_id B, pk_item = give_up_item (o_order_id sell) pid\<rparr>] \<and>
    for_each [\<lparr>pk_peer = x_own_id N, pk_item = abort_item (o_order_id sell) pid\<rparr>] (receive_item B) b1 = (Inr (), b2) \<and>
    tx_mail B N b1 b2 = [] \<and> unwound b b2 \<and> b_heap b2 sell_r = Some (sell\<lparr>o_btcAddr := change\<rparr>) \<and> s_raw b2 = s_raw b"
proof -
  let ?k = "fresh_contract n 0 price cur RECEIVER (x_own_id N) (w_now b)"
  let ?km = "(fresh_contract m 0 price cur SENDER [] 0)\<lparr>k_destAddress := dest\<rparr>"
  let ?q = "\<lparr>rx_peer = x_own_id N, rx_addr = o_order_id sell, rx_phase = QUERY, rx_dir = SERVER, rx_payerId = pid,
      rx_payload = query_text A cur dest price m\<rparr>"
  let ?w = "\<lparr>rx_peer = x_own_id N, rx_addr = o_order_id sell, rx_phase = ABORT, rx_dir = SERVER, rx_payerId = pid, rx_payload = []\<rparr>"
  let ?sell = "sell\<lparr>o_commitment := o_commitment sell + n, o_btcAddr := change\<rparr>"
  have l: "line_ok B (x_own_id N) cur b acc" using assms(2) unfolding can_sell_def by blast
  have AA: "same_format A A" using assms(1) by (simp add: same_format_def)
  have km: "?km = (fresh_contract m 0 price cur SENDER [] 0)\<lparr>k_destAddress := dest\<rparr>" by (rule refl)
  have q: "query_payload A ?km dest 0 = query_text A cur dest price m" by (rule query_text [OF AA]) (simp_all add: fresh_contract_def)
  have sv: "serves B ?q b sell_r sell cur price m dest acc n"
    using query_serves [OF assms(1,2,6) km assms(9,3,10,11,7,12,13), of pid] by (simp only: q)
  have tx: "txId = rx_addr ?q @ '':'' @ rx_payerId ?q" "rx_phase ?q = QUERY" "txId = rx_addr ?w @ '':'' @ rx_payerId ?w" "rx_phase ?w = ABORT"
    "?k = fresh_contract n 0 price cur RECEIVER (rx_peer ?q) (w_now b)" by (simp_all add: assms(4))
  obtain b1 where h1: "handleTxItem_remote B ?q b = (Inr ZR_SUCCESS, b1)" and b1: "holding b1 txId sell_r (k_next b) ?k"
    "t_current b1 = map_put txId (t_next b) (t_current b)" "k_contracts b1 = k_contracts b @ [k_next b]" "k_heap b1 = (k_heap b)(k_next b \<mapsto> ?k)"
    "b_heap b1 = (b_heap b)(sell_r \<mapsto> ?sell)" "s_raw b1 = s_raw b" "t_btccontracts (db_tables b1) = t_btccontracts (db_tables b)"
    "peers_ok (db_tables b1)"
    "abs_peers (db_tables b1) = (abs_peers (db_tables b))((x_own_id N, cur) \<mapsto> acc\<lparr>a_allocation := a_allocation acc + n * price\<rparr>)"
    "s_sent b1 = s_sent b @ [\<lparr>pk_peer = x_own_id N, pk_item = RemoteTxItem (o_order_id sell) ABORT_REQUEST CLIENT pid []\<rparr>]"
    using seller_refuses [OF assms(5) tx(1,2) sv assms(8) tx(5)] by auto
  have k: "k_party ?k = RECEIVER" "k_btcTxId ?k = []" "k_counterParty ?k = x_own_id N" "k_currencySym ?k = cur" "k_btcAmount ?k = n"
    "getFiatAmount ?k = n * price" by (simp_all add: fresh_contract_def getFiatAmount_def)
  have old: "\<forall>r\<in>set (k_contracts b). r \<noteq> k_next b \<and> (\<exists>c. k_heap b1 r = Some c \<and> \<not> alike ?k c)"
    using assms(15) b1(4) k by (fastforce simp: no_pending_def alike_def)
  have l1: "line_ok B (k_counterParty ?k) (k_currencySym ?k) b1 (acc\<lparr>a_allocation := a_allocation acc + n * price\<rparr>)"
    using l b1(8,9) by (simp add: line_ok_def k)
  have v: "a_allocation acc = a_allocation (acc\<lparr>a_allocation := a_allocation acc + n * price\<rparr>) - getFiatAmount ?k" by (simp add: k)
  have s1: "b_heap b1 sell_r = Some ?sell" by (simp add: b1(5))
  obtain b2 where h2: "handleTxItem_remote B ?w b1 = (Inr ZR_FAILURE, b2)" and b2: "t_current b2 = map_erase txId (t_current b1)"
    "k_contracts b2 = k_contracts b" "k_heap b2 = (k_heap b1)(k_next b := None)"
    "b_heap b2 = (b_heap b1)(sell_r \<mapsto> ?sell\<lparr>o_commitment := o_commitment ?sell - n\<rparr>)"
    "t_btccontracts (db_tables b2) = t_btccontracts (db_tables b1)"
    "abs_peers (db_tables b2) = (abs_peers (db_tables b1))((x_own_id N, cur) \<mapsto> acc\<lparr>a_allocation := a_allocation acc\<rparr>)"
    "s_sent b2 = s_sent b1" "s_raw b2 = s_raw b1"
    using seller_releases [OF b1(1) tx(3,4) s1 k(1,2) b1(3) old l1 v assms(14)] by (auto simp: k)
  have "map_erase txId (t_current b1) = t_current b" using assms(5) b1(2) by (simp add: erase_put manager_of_def)
  moreover have "abs_peers (db_tables b2) = abs_peers (db_tables b)"
    unfolding b2(6) b1(9) by (rule account_back) (use l in \<open>simp add: line_ok_def\<close>)
  ultimately have "unwound b b2" using b2 b1(4,7) old by (auto simp: unwound_def)
  moreover have "tx_mail B N b b1 = [\<lparr>pk_peer = x_own_id B, pk_item = give_up_item (o_order_id sell) pid\<rparr>]"
    by (rule tx_mail_item) (simp_all add: b1(10) give_up_item_def)
  moreover have "tx_mail B N b1 b2 = []" by (rule tx_mail_none [of _ _ undefined "[]"]) (simp add: b2(7))
  ultimately show ?thesis
    using receive_remote [OF h1] receive_remote [OF h2] b2(4,8) b1(6)
    by (intro exI [of _ b1] exI [of _ b2]) (simp add: query_item_def abort_item_def)
qed

lemma hop_unwinds:
  fixes h :: "'z hop"
  assumes "can_relay A addr txId cur price n h" and "txId = addr @ '':'' @ pid" and "0 < price" and "0 < hop_asked h"
    and "token dest" and "CHR '':'' \<notin> set cur" and "no_pending (hop_node h) {hop_prev h, hop_next h}" and "hop_prev h \<noteq> hop_next h"
    and "db_exact (hop_env h) (a_allocation (hop_line h))"
  shows "\<exists>s1 s2 s3. carried h (hop_prev h) (query_item A addr pid cur dest price (hop_asked h)) (hop_node h) s1
      (hop_next h) (query_item A addr pid cur dest price (hop_asks price h)) \<and>
    carried h (hop_next h) (give_up_item addr pid) s1 s2 (hop_prev h) (give_up_item addr pid) \<and>
    carried h (hop_prev h) (abort_item addr pid) s2 s3 (hop_next h) (abort_item addr pid) \<and> unwound (hop_node h) s3"
proof -
  let ?E = "hop_env h" and ?s = "hop_node h" and ?acc = "hop_line h" and ?m = "hop_asks price h" and ?p = "hop_prev h" and ?q = "hop_next h"
  let ?i = "\<lambda>p ph dir pl. \<lparr>rx_peer = p, rx_addr = addr, rx_phase = ph, rx_dir = dir, rx_payerId = pid, rx_payload = pl\<rparr>"
  let ?Q = "?i ?p QUERY SERVER (query_text A cur dest price (hop_asked h))" and ?V = "?i ?q ABORT_REQUEST CLIENT []" and ?C = "?i ?p ABORT SERVER []"
  let ?ke = "(fresh_contract ?m 0 price cur RECEIVER ?p (w_now ?s))\<lparr>k_destAddress := dest\<rparr>"
  let ?kp = "(fresh_contract (hop_asked h) 0 price cur SENDER ?q (w_now ?s))\<lparr>k_destAddress := dest\<rparr>"
  have tx: "txId = rx_addr ?V @ '':'' @ rx_payerId ?V" "txId = rx_addr ?C @ '':'' @ rx_payerId ?C" using assms(2) by simp_all
  have cr: "manager_of txId ?s = None" "line_ok ?E ?p cur ?s ?acc" using assms(1) by (simp_all add: can_relay_def Let_def)
  obtain s1 where h1: "handleTxItem_remote ?E ?Q ?s = (Inr ZR_SUCCESS, s1)"
    and s1: "relaying s1 txId (Suc (k_next ?s)) (k_next ?s) ?kp ?ke QUERY" "t_current s1 = map_put txId (t_next ?s) (t_current ?s)"
    "k_heap s1 = (k_heap ?s)(k_next ?s \<mapsto> ?ke, Suc (k_next ?s) \<mapsto> ?kp)" "k_contracts s1 = k_contracts ?s @ [k_next ?s, Suc (k_next ?s)]"
    "tunnel addr s1 = Some (?p, ?q)" "t_btccontracts (db_tables s1) = t_btccontracts (db_tables ?s)"
    "line_ok ?E ?p cur s1 (?acc\<lparr>a_allocation := a_allocation ?acc + ?m * price\<rparr>)"
    "abs_peers (db_tables s1) = (abs_peers (db_tables ?s))((?p, cur) \<mapsto> ?acc\<lparr>a_allocation := a_allocation ?acc + ?m * price\<rparr>)"
    "s_sent s1 = s_sent ?s @ [\<lparr>pk_peer = ?q, pk_item = query_item A addr pid cur dest price ?m\<rparr>]"
    using hop_is_asked [OF assms(1-6) refl refl refl refl refl] by blast
  let ?s2 = "sent_to ?p (give_up_item addr pid) s1"
  have h2: "handleTxItem_remote ?E ?V s1 = (Inr ZR_SUCCESS, ?s2)"
    using hop_passes [OF s1(1) tx(1), of ?p ?q ?E] s1(5) by (simp add: give_up_item_def)
  have k: "k_party ?kp = SENDER" "k_party ?ke = RECEIVER" "k_btcTxId ?kp = []" "k_btcTxId ?ke = []" "k_counterParty ?kp = ?q"
    "k_counterParty ?ke = ?p" "k_currencySym ?ke = cur" "getFiatAmount ?ke = ?m * price"
    by (simp_all add: fresh_contract_def getFiatAmount_def)
  have old: "\<forall>r\<in>set (k_contracts ?s). r \<noteq> k_next ?s \<and> r \<noteq> Suc (k_next ?s) \<and>
      (\<exists>c. k_heap ?s2 r = Some c \<and> \<not> alike ?kp c \<and> \<not> alike ?ke c)"
    using assms(7) s1(3) k by (fastforce simp: no_pending_def alike_def)
  have rl: "relaying ?s2 txId (Suc (k_next ?s)) (k_next ?s) ?kp ?ke QUERY" using s1(1) by (simp add: relaying_def manager_of_def)
  have l: "line_ok ?E (k_counterParty ?ke) (k_currencySym ?ke) ?s2 (?acc\<lparr>a_allocation := a_allocation ?acc + ?m * price\<rparr>)"
    using s1(7) by (simp add: line_ok_def k)
  have v: "a_allocation ?acc = a_allocation (?acc\<lparr>a_allocation := a_allocation ?acc + ?m * price\<rparr>) - getFiatAmount ?ke" by (simp add: k)
  have pq: "k_counterParty ?kp \<noteq> k_counterParty ?ke" using assms(8) by (simp add: k)
  obtain s3 where h3: "handleTxItem_remote ?E ?C ?s2 = (Inr ZR_FAILURE, s3)"
    and s3: "t_current s3 = map_erase txId (t_current ?s2)" "k_contracts s3 = k_contracts ?s"
    "k_heap s3 = (k_heap ?s2)(Suc (k_next ?s) := None, k_next ?s := None)" "t_btccontracts (db_tables s3) = t_btccontracts (db_tables ?s2)"
    "abs_peers (db_tables s3) = (abs_peers (db_tables ?s2))((?p, cur) \<mapsto> ?acc\<lparr>a_allocation := a_allocation ?acc\<rparr>)"
    "s_sent s3 = s_sent ?s2 @ [\<lparr>pk_peer = ?q, pk_item = abort_item addr pid\<rparr>]"
    using hop_releases [OF rl tx(2) _ _ _ k(1-4) pq _ old l v assms(9), of ?p ?q] s1(4,5) by (auto simp: k abort_item_def)
  have "map_erase txId (t_current s1) = t_current ?s" using s1(2) cr(1) by (simp add: erase_put manager_of_def)
  moreover have "abs_peers (db_tables s3) = abs_peers (db_tables ?s)"
    unfolding s3(5) state_simps s1(8) by (rule account_back) (use cr(2) in \<open>simp add: line_ok_def\<close>)
  ultimately have "unwound ?s s3" using s3(1-4) s1(3,6) old by (auto simp: unwound_def)
  then show ?thesis
    using s1(9) s3(6) receive_remote [OF h1] receive_remote [OF h2] receive_remote [OF h3]
    by (intro exI [of _ s1] exI [of _ ?s2] exI [of _ s3]) (simp add: carried_def query_item_def give_up_item_def abort_item_def)
qed

text \<open>
  C3: A purchase that the seller's Bitcoin client cannot make is undone on every node. Over any
  number of hops, the query reaches the seller, the request to give up travels back, and the abort
  to the seller again. Then nothing of the transaction is under way, no node keeps a manager, a contract or a
  stored contract of it, and every credit line has the funds reserved that it had before. The
  seller's order has nothing committed for it and only its change address may differ; but the
  buyer's order stays locked, and the seller's order is ignored and gone from the buyer's book.
\<close>

theorem refused_purchase_unwinds:
  fixes hops :: "'z hop list"
  assumes "same_format A B" and "can_buy A (x_own_id (hd (map hop_env hops @ [B]))) a other_r other my_r my"
    and "price = o_price other" and "route price (x_own_id A) amount hops (x_own_id B) m"
    and "can_sell B (x_own_id (last (A # map hop_env hops))) b sell_r sell cur price acc"
    and "o_order_id sell = o_order_id other" and "cur = currencySymbols (x_build A) ! o_currency other" and "CHR '':'' \<notin> set cur"
    and "txId = o_order_id other @ '':'' @ o_order_id my" and "manager_of txId a = None" and "manager_of txId b = None"
    and "0 < amount" and "n = min (min m (available acc / price)) (o_amount sell - o_commitment sell)"
    and "\<forall>h\<in>set hops. can_relay A (o_order_id other) txId cur price n h \<and> no_pending (hop_node h) {hop_prev h, hop_next h} \<and>
      hop_prev h \<noteq> hop_next h \<and> db_exact (hop_env h) (a_allocation (hop_line h))"
    and "dest = x_new_address A (w_rpc a)" and "x_mk_raw_tx B (w_rpc b) n (o_btcAddr sell) dest = (change, None)"
    and "token dest" and "zr_fits m" and "zr_fits (m * price)"
    and "db_exact B (a_allocation acc + min m (available acc / price) * price)" and "db_exact B (a_allocation acc + n * price)"
    and "db_exact B (a_allocation acc)" and "other_r \<in> set (refs a Asks)"
    and "no_pending a {x_own_id (hd (map hop_env hops @ [B]))}" and "no_pending b {x_own_id (last (A # map hop_env hops))}"
  shows "\<exists>a1 a2 b1 b2 s1 s2 s3. MyOrders_buy A other_r my_r amount a = (Inr (), a1) \<and>
    pass_along A a a1 (map (\<lambda>h. (hop_env h, hop_node h)) hops @ [(B, b)]) = map s1 hops @ [b1] \<and>
    pass_along B b b1 (map (\<lambda>h. (hop_env h, s1 h)) (rev hops) @ [(A, a1)]) = map s2 (rev hops) @ [a2] \<and>
    pass_along A a1 a2 (map (\<lambda>h. (hop_env h, s2 h)) hops @ [(B, b1)]) = map s3 hops @ [b2] \<and>
    tx_mail B (last (A # map hop_env hops)) b1 b2 = [] \<and>
    (\<forall>h\<in>set hops. unwound (hop_node h) (s3 h)) \<and> unwound a a2 \<and> unwound b b2 \<and>
    b_heap b2 sell_r = Some (sell\<lparr>o_btcAddr := change\<rparr>) \<and> s_raw b2 = s_raw b \<and>
    b_heap a2 my_r = Some (my\<lparr>o_locked := True\<rparr>) \<and> b_heap a2 other_r = Some (other\<lparr>o_ignored := True\<rparr>) \<and>
    other_r \<notin> set (refs a2 Asks)"
proof -
  let ?F = "hd (map hop_env hops @ [B])" and ?Z = "last (A # map hop_env hops)" and ?addr = "o_order_id other" and ?pid = "o_order_id my"
  let ?Q = "query_item A ?addr ?pid cur dest price" and ?V = "give_up_item ?addr ?pid" and ?C = "abort_item ?addr ?pid"
  have AA: "same_format A A" using assms(1) by (simp add: same_format_def)
  have p: "0 < price" using assms(5) by (simp add: can_sell_def)
  have rt: "0 < m" "\<forall>h\<in>set hops. 0 < hop_asked h"
    using route_amounts [OF assms(4) _ p assms(12)] assms(14) by (auto simp: can_relay_def Let_def)
  have "\<exists>s1 s2 s3. carried h (hop_prev h) (?Q (hop_asked h)) (hop_node h) s1 (hop_next h) (?Q (hop_asks price h)) \<and>
      carried h (hop_next h) ?V s1 s2 (hop_prev h) ?V \<and> carried h (hop_prev h) ?C s2 s3 (hop_next h) ?C \<and>
      unwound (hop_node h) s3" if "h \<in> set hops" for h
    using rt(2) assms(14) that by (intro hop_unwinds [OF _ assms(9) p _ assms(17,8)]) auto
  then obtain s1 s2 s3 where hop: "\<forall>h\<in>set hops. carried h (hop_prev h) (?Q (hop_asked h)) (hop_node h) (s1 h) (hop_next h) (?Q (hop_asks price h)) \<and>
      carried h (hop_next h) ?V (s1 h) (s2 h) (hop_prev h) ?V \<and> carried h (hop_prev h) ?C (s2 h) (s3 h) (hop_next h) ?C \<and>
      unwound (hop_node h) (s3 h)" by metis
  obtain a1 a2 where A: "MyOrders_buy A other_r my_r amount a = (Inr (), a1)"
    "tx_mail A ?F a a1 = [\<lparr>pk_peer = x_own_id A, pk_item = ?Q amount\<rparr>]"
    "for_each [\<lparr>pk_peer = x_own_id ?F, pk_item = ?V\<rparr>] (receive_item A) a1 = (Inr (), a2)"
    "tx_mail A ?F a1 a2 = [\<lparr>pk_peer = x_own_id A, pk_item = ?C\<rparr>]" "unwound a a2" "b_heap a2 my_r = Some (my\<lparr>o_locked := True\<rparr>)"
    "b_heap a2 other_r = Some (other\<lparr>o_ignored := True\<rparr>)" "other_r \<notin> set (refs a2 Asks)"
    using buyer_side_refused [OF AA assms(2,7,9,10,15,17,23,24)] unfolding assms(3) [symmetric] by blast
  obtain b1 b2 where B: "for_each [\<lparr>pk_peer = x_own_id ?Z, pk_item = ?Q m\<rparr>] (receive_item B) b = (Inr (), b1)"
    "tx_mail B ?Z b b1 = [\<lparr>pk_peer = x_own_id B, pk_item = ?V\<rparr>]"
    "for_each [\<lparr>pk_peer = x_own_id ?Z, pk_item = ?C\<rparr>] (receive_item B) b1 = (Inr (), b2)" "tx_mail B ?Z b1 b2 = []" "unwound b b2"
    "b_heap b2 sell_r = Some (sell\<lparr>o_btcAddr := change\<rparr>)" "s_raw b2 = s_raw b"
    using seller_side_refused [OF assms(1,5,8) _ assms(11) rt(1) assms(13,16,17,18-22,25), of ?pid] assms(6,9) by auto
  have waves: "pass_along A a a1 (map (\<lambda>h. (hop_env h, hop_node h)) hops @ [(B, b)]) = map s1 hops @ [b1]"
    "pass_along B b b1 (map (\<lambda>h. (hop_env h, s1 h)) (rev hops) @ [(A, a1)]) = map s2 (rev hops) @ [a2]"
    "pass_along A a1 a2 (map (\<lambda>h. (hop_env h, s2 h)) hops @ [(B, b1)]) = map s3 hops @ [b2]"
    using three_waves [OF assms(4) refl refl _ A(2) B(1,2) A(3,4) B(3)] hop by blast+
  have kept: "\<forall>h\<in>set hops. unwound (hop_node h) (s3 h)" using hop by blast
  show ?thesis
    by (intro exI [of _ a1] exI [of _ a2] exI [of _ b1] exI [of _ b2] exI [of _ s1] exI [of _ s2] exI [of _ s3] conjI
        A(1,5-8) B(4-7) waves kept)
qed

section \<open>Where giving up does harm\<close>

text \<open>
  C31: Giving up one purchase takes another's contract. A node that has asked the same friend twice
  and waits for both votes has two contracts with that friend and without a transaction id. When
  the second purchase is refused, the contract that is removed is the first one's: the
  other stays registered, and the vote for the first purchase, when it comes, reads a deleted contract.
\<close>

theorem refusal_takes_other_contract:
  assumes "buying s tx1 o1 m1 k1 c1" and "buying s tx2 o2 m2 k2 c2" and "k1 \<noteq> k2" and "tx1 \<noteq> tx2"
    and "k_counterParty c1 = k_counterParty c2" and "k_btcTxId c1 = []" and "k_btcTxId c2 = []" and "k_party c2 = SENDER"
    and "k_contracts s = ks @ k1 # rest" and "k2 \<in> set rest" and "\<forall>r\<in>set ks. \<exists>c. k_heap s r = Some c \<and> \<not> alike c2 c"
    and "tx2 = rx_addr i2 @ '':'' @ rx_payerId i2" and "rx_phase i2 = ABORT_REQUEST \<or> rx_phase i2 = VOTE_NO"
    and "b_heap s o2 = Some other" and "b_heap s m2 = Some my" and "m2 \<noteq> o2" and "db_up E" and "books_inv s" and "o2 \<in> set (refs s Asks)"
    and "TraceRouter_nextHop (n_router s) (o_order_id other) \<noteq> []"
    and "tx1 = rx_addr i1 @ '':'' @ rx_payerId i1" and "rx_phase i1 = VOTE_YES"
    and "TransactionManager_split (rx_payload i1) = [f, tid]" and "fromFractionString E f = Inr n"
  shows "\<exists>s'. handleTxItem_remote E i2 s = (Inr ZR_FAILURE, s') \<and> k_heap s' k1 = None \<and> k_heap s' k2 = Some c2 \<and>
    k2 \<in> set (k_contracts s') \<and> fst (handleTxItem_remote E i1 s') = Inl (Undefined Dangling_pointer)"
proof -
  obtain r1 t1 where t1: "manager_of tx1 s = Some r1" "t_heap s r1 = Some t1" "tm_TxId t1 = tx1"
    "tm_class t1 = TmContractCoordinator o1 (Some m1) (Some k1)" and k1: "k_heap s k1 = Some c1"
    using assms(1) by (auto simp: buying_def)
  obtain r2 t2 where t2: "manager_of tx2 s = Some r2" "t_heap s r2 = Some t2" "tm_TxId t2 = tx2" and k2: "k_heap s k2 = Some c2"
    using assms(2) by (auto simp: buying_def)
  have al: "alike c2 c1" using assms(5-7) by (simp add: alike_def)
  obtain s' where s': "handleTxItem_remote E i2 s = (Inr ZR_FAILURE, s')" "t_current s' = map_erase tx2 (t_current s)"
    "t_heap s' = (t_heap s)(the (manager_of tx2 s) := None)" "k_contracts s' = remove1 k1 (k_contracts s)" "k_heap s' = (k_heap s)(k1 := None)"
    using buyer_gives_up [OF assms(2,12-16,8,7,9,11) k1 al assms(17-19) refl assms(20)] by blast
  have "manager_of tx1 s' = Some r1" using t1(1) assms(4) s'(2) by (simp add: manager_of_def map_of_erase)
  moreover have "r1 \<noteq> r2" using t1(2,3) t2(2,3) assms(4) by auto
  ultimately have m: "manager_of (rx_addr i1 @ '':'' @ rx_payerId i1) s' = Some r1" "t_heap s' r1 = Some t1"
    using t1(2) t2(1) s'(3) unfolding assms(21) by simp_all
  have "get_contract k1 s' = (Inl (Undefined Dangling_pointer), s')" using s'(5) by (simp add: get_contract_def deref_def)
  then have "process_remote E r1 i1 s' = (Inl (Undefined Dangling_pointer), s')"
    using m(2) t1(4) assms(22-24)
    by (simp add: process_remote_def bnd_def [of "get_tm _"] run_simps TmContractCoordinator_processItem_def TmContractCoordinator_doTx_def
        Let_def prog_step bnd_need bnd_def [of "get_contract _"])
  then have "fst (handleTxItem_remote E i1 s') = Inl (Undefined Dangling_pointer)"
    using m(1) by (simp add: handleTxItem_remote_def Let_def prog_step try_catch_def bnd_def [of "try_catch _ _ _"]
        bnd_def [of "process_remote _ _ _"])
  moreover have "k2 \<in> set (remove1 k1 (k_contracts s))" using assms(3,9,10) by (auto simp: in_set_remove1)
  ultimately show ?thesis using s' k2 assms(3) by (intro exI [of _ s']) simp
qed

text \<open>
  C33: A query that is voted against for its price keeps its funds. When a friend offers less than
  the order asks, or the order has nothing left, the vote is no and the manager is gone, but the contract that
  was made for the query stays registered, without a transaction, and its price stays reserved on
  the friend's credit line.
\<close>

theorem low_offer_keeps_funds:
  assumes "manager_of txId s = None" and "txId = rx_addr i @ '':'' @ rx_payerId i" and "rx_phase i = QUERY"
    and "tenders E i s my_r my cur price amount dest acc m" and "price < o_price my \<or> o_amount my = o_commitment my"
    and "k = fresh_contract m 0 price cur RECEIVER (rx_peer i) (w_now s)"
  shows "\<exists>s'. handleTxItem_remote E i s = (Inr ZR_FINISH, s') \<and> t_current s' = t_current s \<and>
    s_sent s' = s_sent s @ [\<lparr>pk_peer = rx_peer i, pk_item = RemoteTxItem (rx_addr i) VOTE_NO CLIENT (rx_payerId i) ''0/1:VOTE_NO''\<rparr>] \<and>
    k_contracts s' = k_contracts s @ [k_next s] \<and> k_heap s' (k_next s) = Some k \<and>
    abs_peers (db_tables s') = (abs_peers (db_tables s))((rx_peer i, cur) \<mapsto> acc\<lparr>a_allocation := a_allocation acc + getFiatAmount k\<rparr>)"
proof -
  let ?t = "\<lparr>tm_TxId = txId, tm_Phase = INIT, tm_startOfPhase = w_now s, tm_class = TmContractCohortePayee None [] None\<rparr>"
  let ?s = "registered txId (TmContractCohortePayee None [] None) s"
  let ?t3 = "?t\<lparr>tm_Phase := QUERY, tm_class := TmContractCohortePayee (Some (k_next s)) [] (Some my_r)\<rparr>"
  have b: "books_inv s" "my_r \<in> set (refs s Mine)" "b_heap s my_r = Some my" "o_order_id my = rx_addr i"
    using assms(4) by (simp_all add: tenders_def)
  have sv: "tenders E i ?s my_r my cur price amount dest acc m" using assms(4) by simp
  have t: "t_heap ?s (t_next s) = Some ?t" "tm_Phase ?t = INIT" by simp_all
  have k: "k = fresh_contract m 0 price cur RECEIVER (rx_peer i) (w_now ?s)" using assms(6) by simp
  from query_contracted [OF sv t k refl] obtain s5 where
    s5: "TmContractCohortePayee_doQuery E (t_next s) ?t None [] None i ?s = TmContractCohortePayee_voteNo my_r i s5"
    and f: "t_heap s5 = (t_heap ?s)(t_next s \<mapsto> ?t3)" "t_current s5 = t_current ?s" "k_heap s5 = (k_heap s)(k_next s \<mapsto> k)"
      "k_contracts s5 = k_contracts s @ [k_next s]" "b_heap s5 = b_heap s" "s_sent s5 = s_sent s"
      "abs_peers (db_tables s5) = (abs_peers (db_tables s))((rx_peer i, cur) \<mapsto> acc\<lparr>a_allocation := a_allocation acc + m * price\<rparr>)"
    using assms(5) by auto
  let ?u = "sent_to (rx_peer i) (RemoteTxItem (rx_addr i) VOTE_NO CLIENT (rx_payerId i) ''0/1:VOTE_NO'') s5"
  have "TmContractCohortePayee_voteNo my_r i s5 = (Inr ZR_FINISH, ?u)"
    using f(5) b(3,4) by (simp add: TmContractCohortePayee_voteNo_def bnd_def [of "get_order _"] get_order_run [of _ _ my]
        send_remote_def thn_def bnd_def run_simps prog_apply)
  moreover have "finish_tm (t_next s) ZR_FINISH ?u = (Inr ZR_FINISH, unregistered (t_next s) txId ?u)"
    using finish_run(2) [of ?u "t_next s" ?t3 ZR_FINISH] f(1) by simp
  ultimately have "handleTxItem_remote E i s = (Inr ZR_FINISH, unregistered (t_next s) txId ?u)"
    by (intro query_handled [OF assms(1-3) b refl]) (simp_all add: s5)
  moreover have "map_erase txId (map_put txId (t_next s) (t_current s)) = t_current s"
    using assms(1) by (simp add: erase_put manager_of_def)
  moreover have "getFiatAmount k = m * price" by (simp add: assms(6) fresh_contract_def getFiatAmount_def)
  ultimately show ?thesis
    using f by (intro exI [of _ "unregistered (t_next s) txId ?u"]) (simp add: unregistered_def sent_to_def)
qed

section \<open>Witnesses\<close>

text \<open>The seller of before, with a Bitcoin client that makes no transaction.\<close>

definition demo_poor :: ext where
  "demo_poor = demo_far\<lparr>x_mk_raw_tx := \<lambda>n a s r. (s, None)\<rparr>"

lemma poor_simps [simp]: "x_own_id demo_poor = ''so''" "x_build demo_poor = Testnet" "x_sql_ok demo_poor = x_sql_ok demo"
  "db_exact demo_poor = db_exact demo"
  by (simp_all add: demo_poor_def demo_far_def demo_def db_exact_def [abs_def] db_value_def)

theorem refused_purchase_unwinds_witness:
  "\<exists>a1 a2 b1 b2 h1 h2 h3. MyOrders_buy demo 1 0 9 demo_buyer = (Inr (), a1) \<and>
    pass_along demo demo_buyer a1 [(demo_friend, demo_middle), (demo_poor, demo_far_seller)] = [h1, b1] \<and>
    pass_along demo_poor demo_far_seller b1 [(demo_friend, h1), (demo, a1)] = [h2, a2] \<and>
    pass_along demo a1 a2 [(demo_friend, h2), (demo_poor, b1)] = [h3, b2] \<and>
    k_contracts a2 = [] \<and> k_contracts h3 = [] \<and> k_contracts b2 = [] \<and> s_raw b2 = [] \<and>
    map_option a_allocation (abs_peers (db_tables h3) (''me'', ''GPM'')) = Some 0 \<and> b_heap b2 0 = Some (demo_order ''x'' ASK 15 4)"
proof -
  let ?o = "demo_order ''x'' ASK 15 4"
  let ?x = "?o\<lparr>o_isMyOrder := False\<rparr>" and ?b = "demo_order ''b'' BID 20 5"
  have ids: "hd (map hop_env [demo_hop] @ [demo_poor]) = demo_friend" "last (demo # map hop_env [demo_hop]) = demo_friend"
    by (simp_all add: demo_hop_def)
  have b: "can_buy demo (x_own_id (hd (map hop_env [demo_hop] @ [demo_poor]))) demo_buyer 1 ?x 0 ?b"
    unfolding ids using demo_trades(1) by (simp add: can_buy_def demo_order_simps no_quote_def TraceRouter_nextHop_def TraceRouter_addRoute_def
        demo_router_def currencySymbols_testnet_def)
  have p: "(4 :: rat) = o_price ?x" by (simp add: demo_order_simps)
  have r: "route 4 (x_own_id demo) 9 [demo_hop] (x_own_id demo_poor) 7"
    by (simp add: demo_hop_def hop_asks_def available_def demo_def)
  have "trades demo_poor Asks 0 demo_far_seller" "line_ok demo_poor ''bo'' ''GPM'' demo_far_seller (demo_account 20)"
    using demo_far_trades demo_hop_lines(2) by (simp_all add: trades_def line_ok_def known_currency_def db_up_def)
  then have s: "can_sell demo_poor (x_own_id (last (demo # map hop_env [demo_hop]))) demo_far_seller 0 ?o ''GPM'' 4 (demo_account 20)"
    unfolding ids by (simp add: can_sell_def demo_order_simps available_def currencySymbols_testnet_def)
  have f: "same_format demo demo_poor" using demo_formats(2) by (simp add: same_format_def demo_poor_def)
  have k: "o_order_id ?o = o_order_id ?x" "''GPM'' = currencySymbols (x_build demo) ! o_currency ?x" "CHR '':'' \<notin> set ''GPM''"
    "''x:b'' = o_order_id ?x @ '':'' @ o_order_id ?b" "manager_of ''x:b'' demo_buyer = None" "manager_of ''x:b'' demo_far_seller = None"
    by (simp_all add: demo_order_simps currencySymbols_testnet_def manager_of_def)
  have n: "(0 :: rat) < 9" "(5 :: rat) = min (min 7 (available (demo_account 20) / 4)) (o_amount ?o - o_commitment ?o)"
    by (simp_all add: available_def demo_order_simps)
  have h: "\<forall>h\<in>set [demo_hop]. can_relay demo (o_order_id ?x) ''x:b'' ''GPM'' 4 5 h \<and> no_pending (hop_node h) {hop_prev h, hop_next h} \<and>
      hop_prev h \<noteq> hop_next h \<and> db_exact (hop_env h) (a_allocation (hop_line h))"
    using demo_hop_relays demo_db_exact [of 0] by (simp add: demo_order_simps demo_hop_def no_pending_def in_i64_def)
  have x: "''addr'' = x_new_address demo (w_rpc demo_buyer)"
    "x_mk_raw_tx demo_poor (w_rpc demo_far_seller) 5 (o_btcAddr ?o) ''addr'' = (o_btcAddr ?o, None)"
    by (simp_all add: demo_poor_def demo_def)
  have z: "token ''addr''" "zr_fits 7" "zr_fits (7 * 4)" by (simp_all add: token_def no_quote_def zr_fits_def in_i64_def)
  have e: "db_exact demo_poor (a_allocation (demo_account 20) + min 7 (available (demo_account 20) / 4) * 4)"
    "db_exact demo_poor (a_allocation (demo_account 20) + 5 * 4)" "db_exact demo_poor (a_allocation (demo_account 20))"
    using demo_db_exact [of 20] demo_db_exact [of 0] by (simp_all add: in_i64_def available_def)
  have l: "1 \<in> set (refs demo_buyer Asks)" "no_pending demo_buyer {x_own_id (hd (map hop_env [demo_hop] @ [demo_poor]))}"
    "no_pending demo_far_seller {x_own_id (last (demo # map hop_env [demo_hop]))}" by (simp_all add: no_pending_def)
  obtain a1 a2 b1 b2 s1 s2 s3 where w: "MyOrders_buy demo 1 0 9 demo_buyer = (Inr (), a1)"
    "pass_along demo demo_buyer a1 (map (\<lambda>h. (hop_env h, hop_node h)) [demo_hop] @ [(demo_poor, demo_far_seller)]) = map s1 [demo_hop] @ [b1]"
    "pass_along demo_poor demo_far_seller b1 (map (\<lambda>h. (hop_env h, s1 h)) (rev [demo_hop]) @ [(demo, a1)]) = map s2 (rev [demo_hop]) @ [a2]"
    "pass_along demo a1 a2 (map (\<lambda>h. (hop_env h, s2 h)) [demo_hop] @ [(demo_poor, b1)]) = map s3 [demo_hop] @ [b2]"
    "\<forall>h\<in>set [demo_hop]. unwound (hop_node h) (s3 h)" "unwound demo_buyer a2" "unwound demo_far_seller b2"
    "b_heap b2 0 = Some (?o\<lparr>o_btcAddr := o_btcAddr ?o\<rparr>)" "s_raw b2 = s_raw demo_far_seller"
    using refused_purchase_unwinds [OF f b p r s k n h x z e l] by blast
  have q: "hop_env demo_hop = demo_friend" "hop_node demo_hop = demo_middle" by (simp_all add: demo_hop_def)
  note runs = w(2-4) [unfolded list.map append.simps rev.simps q]
  have "unwound demo_middle (s3 demo_hop)" using w(5) q by simp
  then have "k_contracts (s3 demo_hop) = []" "map_option a_allocation (abs_peers (db_tables (s3 demo_hop)) (''me'', ''GPM'')) = Some 0"
    using demo_hop_lines(1) by (simp_all add: unwound_def line_ok_def)
  moreover have "k_contracts a2 = []" "k_contracts b2 = []" "s_raw b2 = []" using w(6,7,9) by (simp_all add: unwound_def)
  moreover have "b_heap b2 0 = Some ?o" using w(8) by simp
  ultimately show ?thesis using w(1) runs by blast
qed

text \<open>A node that buys from two asks, which both came over the same friend, and waits for the votes.\<close>

definition demo_two :: tmw where
  "demo_two = (svcw.extend (demo_svcw [] [] [demo_order ''b'' BID 20 5, (demo_order ''x'' ASK 15 4)\<lparr>o_isMyOrder := False\<rparr>,
       demo_order ''c'' BID 20 5, (demo_order ''y'' ASK 15 4)\<lparr>o_isMyOrder := False\<rparr>] [0, 2] [1, 3] [0, 2])
     \<lparr>t_heap = [0 \<mapsto> \<lparr>tm_TxId = ''x:b'', tm_Phase = INIT, tm_startOfPhase = 0, tm_class = TmContractCoordinator 1 (Some 0) (Some 0)\<rparr>,
        1 \<mapsto> \<lparr>tm_TxId = ''y:c'', tm_Phase = INIT, tm_startOfPhase = 0, tm_class = TmContractCoordinator 3 (Some 2) (Some 1)\<rparr>],
      t_next = 2, t_current = [(''x:b'', 0), (''y:c'', 1)], t_sequence = 0\<rparr>)
     \<lparr>n_router := TraceRouter_addRoute ''y'' ''bo'' demo_router, k_next := 2, k_contracts := [0, 1],
      k_heap := [0 \<mapsto> fresh_contract 9 0 4 ''GPM'' SENDER ''bo'' 0, 1 \<mapsto> fresh_contract 7 0 4 ''GPM'' SENDER ''bo'' 0]\<rparr>"

lemma demo_two_simps [simp]:
  "b_heap demo_two = [0 \<mapsto> demo_order ''b'' BID 20 5, 1 \<mapsto> (demo_order ''x'' ASK 15 4)\<lparr>o_isMyOrder := False\<rparr>,
     2 \<mapsto> demo_order ''c'' BID 20 5, 3 \<mapsto> (demo_order ''y'' ASK 15 4)\<lparr>o_isMyOrder := False\<rparr>]"
  "b_next demo_two = 4" "t_current demo_two = [(''x:b'', 0), (''y:c'', 1)]" "k_contracts demo_two = [0, 1]"
  "t_heap demo_two = [0 \<mapsto> \<lparr>tm_TxId = ''x:b'', tm_Phase = INIT, tm_startOfPhase = 0, tm_class = TmContractCoordinator 1 (Some 0) (Some 0)\<rparr>,
     1 \<mapsto> \<lparr>tm_TxId = ''y:c'', tm_Phase = INIT, tm_startOfPhase = 0, tm_class = TmContractCoordinator 3 (Some 2) (Some 1)\<rparr>]"
  "k_heap demo_two = [0 \<mapsto> fresh_contract 9 0 4 ''GPM'' SENDER ''bo'' 0, 1 \<mapsto> fresh_contract 7 0 4 ''GPM'' SENDER ''bo'' 0]"
  "b_book demo_two = (\<lambda>sd. demo_book (case sd of Bids \<Rightarrow> [0, 2] | Asks \<Rightarrow> [1, 3] | Mine \<Rightarrow> [0, 2]))"
  "n_router demo_two = TraceRouter_addRoute ''y'' ''bo'' demo_router"
  by (simp_all add: demo_two_def svcw.defs demo_svcw_def fun_eq_iff numeral_eq_Suc split: side.split)

theorem refusal_takes_other_contract_witness:
  "\<exists>s. handleTxItem_remote demo \<lparr>rx_peer = ''bo'', rx_addr = ''y'', rx_phase = VOTE_NO, rx_dir = CLIENT, rx_payerId = ''c'',
      rx_payload = ''0/1:VOTE_NO''\<rparr> demo_two = (Inr ZR_FAILURE, s) \<and> k_heap s 0 = None \<and> 1 \<in> set (k_contracts s) \<and>
    fst (handleTxItem_remote demo \<lparr>rx_peer = ''bo'', rx_addr = ''x'', rx_phase = VOTE_YES, rx_dir = CLIENT, rx_payerId = ''b'',
      rx_payload = vote_payload demo 5 ''txid''\<rparr> s) = Inl (Undefined Dangling_pointer)"
proof -
  let ?c1 = "fresh_contract 9 0 4 ''GPM'' SENDER ''bo'' 0" and ?c2 = "fresh_contract 7 0 4 ''GPM'' SENDER ''bo'' 0"
  let ?y = "(demo_order ''y'' ASK 15 4)\<lparr>o_isMyOrder := False\<rparr>" and ?m = "demo_order ''c'' BID 20 5"
  let ?i2 = "\<lparr>rx_peer = ''bo'', rx_addr = ''y'', rx_phase = VOTE_NO, rx_dir = CLIENT, rx_payerId = ''c'', rx_payload = ''0/1:VOTE_NO''\<rparr>"
  let ?i1 = "\<lparr>rx_peer = ''bo'', rx_addr = ''x'', rx_phase = VOTE_YES, rx_dir = CLIENT, rx_payerId = ''b'',
      rx_payload = vote_payload demo 5 ''txid''\<rparr>"
  have b: "buying demo_two ''x:b'' 1 0 0 ?c1" "buying demo_two ''y:c'' 3 2 1 ?c2" "(0 :: nat) \<noteq> 1" "''x:b'' \<noteq> ''y:c''"
    "k_counterParty ?c1 = k_counterParty ?c2" "k_btcTxId ?c1 = []" "k_btcTxId ?c2 = []" "k_party ?c2 = SENDER"
    "k_contracts demo_two = [] @ 0 # [1]" "1 \<in> set [1 :: nat]" "\<forall>r\<in>set []. \<exists>c. k_heap demo_two r = Some c \<and> \<not> alike ?c2 c"
    by (simp_all add: buying_def manager_of_def fresh_contract_def)
  have i: "''y:c'' = rx_addr ?i2 @ '':'' @ rx_payerId ?i2" "rx_phase ?i2 = ABORT_REQUEST \<or> rx_phase ?i2 = VOTE_NO"
    "''x:b'' = rx_addr ?i1 @ '':'' @ rx_payerId ?i1" "rx_phase ?i1 = VOTE_YES" by simp_all
  have o: "b_heap demo_two 3 = Some ?y" "b_heap demo_two 2 = Some ?m" "(2 :: nat) \<noteq> 3" "books_inv demo_two" "3 \<in> set (refs demo_two Asks)"
    "TraceRouter_nextHop (n_router demo_two) (o_order_id ?y) \<noteq> []"
    by (auto simp: books_inv_def book_inv_def oid_def demo_order_simps no_quote_def dom_def TraceRouter_nextHop_def TraceRouter_addRoute_def
        split: side.split)
  have v: "TransactionManager_split (rx_payload ?i1) = [toStdString demo 5, ''txid'']" "fromFractionString demo (toStdString demo 5) = Inr 5"
    using split_vote_payload [OF demo_frac_io, of "''txid''" 5] fraction_back [OF demo_frac_io, of 5]
    by (simp_all add: zr_fits_def in_i64_def)
  show ?thesis
    using refusal_takes_other_contract [OF b i(1,2) o(1-3) demo_db_up o(4-6) i(3,4) v] by blast
qed

theorem low_offer_keeps_funds_witness:
  "\<exists>s. handleTxItem_remote demo_friend \<lparr>rx_peer = ''me'', rx_addr = ''x'', rx_phase = QUERY, rx_dir = SERVER, rx_payerId = ''b'',
      rx_payload = query_text demo ''GPM'' ''addr'' 3 5\<rparr> demo_seller = (Inr ZR_FINISH, s) \<and> k_contracts s = [k_next demo_seller] \<and>
    map_option a_allocation (abs_peers (db_tables s) (''me'', ''GPM'')) = Some 15"
proof -
  let ?i = "\<lparr>rx_peer = ''me'', rx_addr = ''x'', rx_phase = QUERY, rx_dir = SERVER, rx_payerId = ''b'',
      rx_payload = query_text demo ''GPM'' ''addr'' 3 5\<rparr>" and ?o = "demo_order ''x'' ASK 15 4"
  have t: "token ''addr''" "CHR '':'' \<notin> set ''GPM''" "zr_fits 5" "zr_fits (5 * 3)"
    by (simp_all add: token_def no_quote_def zr_fits_def in_i64_def)
  have d: "tenders demo_friend ?i demo_seller 0 ?o ''GPM'' 3 5 ''addr'' (demo_account 20) 5"
    using query_read [OF demo_formats(1) t] demo_seller_line demo_trades(2) demo_db_exact [of 15]
    by (auto simp: tenders_def trades_def available_def demo_order_simps currencySymbols_testnet_def in_i64_def)
  have m: "manager_of ''x:b'' demo_seller = None" "''x:b'' = rx_addr ?i @ '':'' @ rx_payerId ?i" "rx_phase ?i = QUERY"
    "3 < o_price ?o \<or> o_amount ?o = o_commitment ?o" by (simp_all add: manager_of_def demo_order_simps)
  show ?thesis
    using low_offer_keeps_funds [OF m(1-3) d m(4) refl] by (auto simp: fresh_contract_def getFiatAmount_def)
qed

end
