(* ===== verification/Settlement.thy ===== *)
theory Settlement
  imports ContractLaws
begin

text \<open>
  The periodic work on the contracts as a whole. The abstract till has the accounts, the stored
  rows, the contracts that are open, the calls made to the Bitcoin client and the messages; what
  happens to one contract is a function on it. \<open>pollContracts\<close> implements the run of that
  function over the open contracts, and the contracts a purchase leaves along its chain settle so
  that both ends of every credit line keep agreeing.
\<close>

section \<open>The abstract till\<close>

datatype fate = Waits | Expires | Settles | Lapses

definition contract_fate :: "ext \<Rightarrow> int \<Rightarrow> nat \<Rightarrow> BtcContract \<Rightarrow> account \<Rightarrow> fate" where
  "contract_fate E now n k a =
     (if now - k_creationtime k > contract_timeout then Expires
      else if \<not> k_activated k \<or> x_confirmations E n (k_btcTxId k) < reqConfirmations (x_build E) then Waits
      else if can_settle k a then Settles else Lapses)"

record till =
  ti_accounts :: ledger
  ti_rows :: "contract_row list"
  ti_open :: "BtcContract list"
  ti_calls :: nat
  ti_shown :: "string list"

definition line_of :: "BtcContract \<Rightarrow> string \<times> string" where
  "line_of k = (k_counterParty k, k_currencySym k)"

text \<open>A contract that has not expired costs one call, when it is active.\<close>

definition asked_for :: "int \<Rightarrow> BtcContract \<Rightarrow> nat" where
  "asked_for now k = (if k_activated k \<and> now - k_creationtime k \<le> contract_timeout then 1 else 0)"

definition till_step :: "ext \<Rightarrow> int \<Rightarrow> BtcContract \<Rightarrow> till \<Rightarrow> till" where
  "till_step E now k T = (let a = the (ti_accounts T (line_of k)); T' = T\<lparr>ti_calls := ti_calls T + asked_for now k\<rparr> in
     case contract_fate E now (ti_calls T) k a of
       Waits \<Rightarrow> T'\<lparr>ti_open := ti_open T @ [k]\<rparr>
     | Expires \<Rightarrow> T'\<lparr>ti_rows := if k_btcTxId k = [] then ti_rows T else contract_removed k (ti_rows T)\<rparr>
     | Settles \<Rightarrow> T'\<lparr>ti_rows := contract_removed k (ti_rows T), ti_accounts := (ti_accounts T)(line_of k \<mapsto> settled k a)\<rparr>
     | Lapses \<Rightarrow> T'\<lparr>ti_rows := contract_removed k (ti_rows T), ti_accounts := (ti_accounts T)(line_of k \<mapsto> unsettled k a),
         ti_shown := ti_shown T @ [cannot_execute E (getFiatAmount k) (k_counterParty k)]\<rparr>)"

definition till_run :: "ext \<Rightarrow> int \<Rightarrow> till \<Rightarrow> till" where
  "till_run E now T = fold (till_step E now) (ti_open T) (T\<lparr>ti_open := []\<rparr>)"

text \<open>What the contract asks for: a line it knows, and results the database gives back unchanged.\<close>

definition till_fit :: "ext \<Rightarrow> int \<Rightarrow> BtcContract \<Rightarrow> till \<Rightarrow> bool" where
  "till_fit E now k T \<longleftrightarrow> known_currency E (k_currencySym k) \<and> no_quote (k_counterParty k) \<and> no_quote (k_btcTxId k) \<and>
     (k_activated k \<longrightarrow> k_btcTxId k \<noteq> []) \<and> (case ti_accounts T (line_of k) of None \<Rightarrow> False
       | Some a \<Rightarrow> (case contract_fate E now (ti_calls T) k a of
           Settles \<Rightarrow> settle_exact E k a | Lapses \<Rightarrow> db_exact E (a_allocation (unsettled k a)) | _ \<Rightarrow> True))"

fun till_fits :: "ext \<Rightarrow> int \<Rightarrow> BtcContract list \<Rightarrow> till \<Rightarrow> bool" where
  "till_fits E now [] T = True"
| "till_fits E now (k # ks) T \<longleftrightarrow> till_fit E now k T \<and> till_fits E now ks (till_step E now k T)"

section \<open>The till of a node\<close>

definition till_with :: "'z conw_scheme \<Rightarrow> cref list \<Rightarrow> till" where
  "till_with s rs = \<lparr>ti_accounts = abs_peers (db_tables s), ti_rows = t_btccontracts (db_tables s),
     ti_open = map (\<lambda>r. the (k_heap s r)) rs, ti_calls = w_rpc s, ti_shown = w_messages s\<rparr>"

abbreviation till_of :: "'z conw_scheme \<Rightarrow> till" where
  "till_of s \<equiv> till_with s (k_contracts s)"

definition open_for :: "ext \<Rightarrow> 'z conw_scheme \<Rightarrow> bool" where
  "open_for E s \<longleftrightarrow> db_up E \<and> peers_ok (db_tables s) \<and> db_saved s = None"

lemma polled_eq: "polled t = (h, ks, now, n) \<longleftrightarrow> k_heap t = h \<and> k_contracts t = ks \<and> w_now t = now \<and> w_rpc t = n"
  by (auto simp: polled_def)

text \<open>One contract, without the removal from the list.\<close>

lemma poll_refines:
  fixes s :: "'z conw_scheme"
  assumes h: "k_heap s r = Some k" and o: "open_for E s" and f: "till_fit E (w_now s) k (till_with s rs)"
  shows "\<exists>t. contract_poll E r s = (Inr (contract_fate E (w_now s) (w_rpc s) k (the (abs_peers (db_tables s) (line_of k))) \<noteq> Waits), t) \<and>
    open_for E t \<and> k_heap t = k_heap s \<and> k_contracts t = k_contracts s \<and> w_now t = w_now s \<and>
    (till_with t rs)\<lparr>ti_open := []\<rparr> = (till_step E (w_now s) k (till_with s rs))\<lparr>ti_open := []\<rparr>"
proof -
  obtain a where a: "abs_peers (db_tables s) (line_of k) = Some a"
    using f by (auto simp: till_fit_def till_with_def split: option.splits)
  have up: "db_up E" "peers_ok (db_tables s)" "db_saved s = None" using o by (simp_all add: open_for_def)
  have q: "known_currency E (k_currencySym k)" "no_quote (k_counterParty k)" "no_quote (k_btcTxId k)" "k_activated k \<Longrightarrow> k_btcTxId k \<noteq> []"
    using f by (simp_all add: till_fit_def)
  let ?fate = "contract_fate E (w_now s) (w_rpc s) k a"
  let ?s1 = "tick (s\<lparr>w_rpc := Suc (w_rpc s)\<rparr>)\<lparr>db_saved := Some (db_tables s)\<rparr>"
  have l: "line_ok E (k_counterParty k) (k_currencySym k) ?s1 a"
    using up q a by (simp add: line_ok_def line_of_def)
  show ?thesis
  proof (cases ?fate)
    case Waits
    then show ?thesis using h o a
      by (auto simp: contract_poll_def contract_fate_def get_contract_def deref_def bnd_def prog_apply rpc_call_apply Let_def
          till_with_def till_step_def open_for_def asked_for_def split: if_splits)
  next
    case Expires
    then show ?thesis using h up q a
      by (auto simp: contract_poll_def contract_fate_def get_contract_def deref_def bnd_def prog_apply thn_def whn_def
          try_catch_def rmBtcContract_ok contract_removed_def Let_def till_with_def till_step_def open_for_def asked_for_def
          split: if_splits)
  next
    case Settles
    have c: "can_settle k a" "k_activated k" "w_now s - k_creationtime k \<le> contract_timeout"
      "reqConfirmations (x_build E) \<le> x_confirmations E (w_rpc s) (k_btcTxId k)"
      using Settles by (auto simp: contract_fate_def split: if_splits)
    have e: "settle_exact E k a" using f a Settles by (simp add: till_fit_def till_with_def)
    from execute_ok [OF l c(1) e] obtain t where x: "execute E k ?s1 = (Inr (), t)"
      and t: "abs_peers (db_tables t) = (abs_peers (db_tables s))(line_of k \<mapsto> settled k a)" "peers_ok (db_tables t)"
        "t_btccontracts (db_tables t) = t_btccontracts (db_tables s)" "db_saved t = Some (db_tables s)"
        "polled t = polled ?s1" "w_messages t = w_messages s" by (auto simp: line_of_def)
    from poll_confirmed [OF h up(1) c(2-4) up(3) q(4) [OF c(2)] q(3) x t(4)] t up a Settles c(2,3) show ?thesis
      by (auto simp: till_with_def till_step_def open_for_def Let_def polled_def asked_for_def)
  next
    case Lapses
    have c: "\<not> can_settle k a" "k_activated k" "w_now s - k_creationtime k \<le> contract_timeout"
      "reqConfirmations (x_build E) \<le> x_confirmations E (w_rpc s) (k_btcTxId k)"
      using Lapses by (auto simp: contract_fate_def split: if_splits)
    have e: "db_exact E (a_allocation (unsettled k a))" using f a Lapses by (simp add: till_fit_def till_with_def)
    from execute_unpaid [OF l c(1) e] obtain t where x: "execute E k ?s1 = (Inr (), t)"
      and t: "abs_peers (db_tables t) = (abs_peers (db_tables s))(line_of k \<mapsto> unsettled k a)" "peers_ok (db_tables t)"
        "t_btccontracts (db_tables t) = t_btccontracts (db_tables s)" "db_saved t = Some (db_tables s)"
        "polled t = polled ?s1" "w_messages t = w_messages s @ [cannot_execute E (getFiatAmount k) (k_counterParty k)]"
      by (auto simp: line_of_def)
    from poll_confirmed [OF h up(1) c(2-4) up(3) q(4) [OF c(2)] q(3) x t(4)] t up a Lapses c(2,3) show ?thesis
      by (auto simp: till_with_def till_step_def open_for_def Let_def polled_def asked_for_def)
  qed
qed

text \<open>The step of the loop, and the loop: the contracts before the current one have been kept.\<close>

definition poll_entry :: "ext \<Rightarrow> cref \<Rightarrow> ('z conw_scheme, unit) prog" where
  "poll_entry E r = bnd (contract_poll E r) (\<lambda>done. whn done (drop_contract r))"

definition listed :: "'z conw_scheme \<Rightarrow> bool" where
  "listed s \<longleftrightarrow> distinct (k_contracts s) \<and> set (k_contracts s) = dom (k_heap s)"

lemma till_step_open:
  "ti_open (till_step E now k T) = (if contract_fate E now (ti_calls T) k (the (ti_accounts T (line_of k))) = Waits
     then ti_open T @ [k] else ti_open T)"
  by (simp add: till_step_def Let_def split: fate.split)

lemma till_eqI: "T\<lparr>ti_open := []\<rparr> = T'\<lparr>ti_open := []\<rparr> \<Longrightarrow> ti_open T = ti_open T' \<Longrightarrow> T = T'"
  by (cases T; cases T') simp

lemma poll_entry_refines:
  fixes s :: "'z conw_scheme"
  assumes k: "k_contracts s = ps @ r # rs" "k_heap s r = Some k" and s: "listed s" "open_for E s" 
    and f: "till_fit E (w_now s) k (till_with s ps)"
  shows "\<exists>t qs. poll_entry E r s = (Inr (), t) \<and> k_contracts t = qs @ rs \<and> listed t \<and> open_for E t \<and> w_now t = w_now s \<and>
    (\<forall>q\<in>set rs. k_heap t q = k_heap s q) \<and> till_with t qs = till_step E (w_now s) k (till_with s ps)"
proof -
  let ?done = "contract_fate E (w_now s) (w_rpc s) k (the (abs_peers (db_tables s) (line_of k))) \<noteq> Waits"
  from poll_refines [OF k(2) s(2) f] obtain t where t: "contract_poll E r s = (Inr ?done, t)" "open_for E t"
    "k_heap t = k_heap s" "k_contracts t = k_contracts s" "w_now t = w_now s"
    "(till_with t ps)\<lparr>ti_open := []\<rparr> = (till_step E (w_now s) k (till_with s ps))\<lparr>ti_open := []\<rparr>" by blast
  have d: "r \<notin> set ps" "r \<notin> set rs" using s(1) k(1) by (simp_all add: listed_def)
  have c: "ti_calls (till_with s ps) = w_rpc s" "ti_accounts (till_with s ps) = abs_peers (db_tables s)"
    "ti_open (till_with u xs) = map (\<lambda>r. the (k_heap u r)) xs" for u :: "'z conw_scheme" and xs by (simp_all add: till_with_def)
  show ?thesis
  proof (cases ?done)
    case True
    let ?u = "t\<lparr>k_heap := (k_heap t)(r := None), k_contracts := ps @ rs\<rparr>"
    have "drop_contract r t = (Inr (), ?u)"
      using k d(1) t(3,4) by (simp add: drop_contract_def get_contract_def deref_def bnd_def prog_apply remove1_append)
    then have "poll_entry E r s = (Inr (), ?u)" using t(1) True by (simp add: poll_entry_def bnd_def whn_def)
    moreover have "listed ?u" using s(1) k(1) t(3) d by (auto simp: listed_def)
    moreover have "till_with ?u ps = till_step E (w_now s) k (till_with s ps)"
    proof (rule till_eqI)
      show "ti_open (till_with ?u ps) = ti_open (till_step E (w_now s) k (till_with s ps))"
        using d True t(3) by (simp add: till_step_open c)
    qed (use t(6) in \<open>simp add: till_with_def\<close>)
    ultimately show ?thesis using t d by (intro exI [of _ ?u] exI [of _ ps]) (auto simp: open_for_def)
  next
    case False
    have "poll_entry E r s = (Inr (), t)" using t(1) False by (simp add: poll_entry_def bnd_def whn_def ret_def)
    moreover have "till_with t (ps @ [r]) = till_step E (w_now s) k (till_with s ps)"
    proof (rule till_eqI)
      show "ti_open (till_with t (ps @ [r])) = ti_open (till_step E (w_now s) k (till_with s ps))"
        using k False t(3) by (simp add: till_step_open c)
    qed (use t(6) in \<open>simp add: till_with_def\<close>)
    ultimately show ?thesis using t s(1) k(1) by (intro exI [of _ t] exI [of _ "ps @ [r]"]) (auto simp: listed_def)
  qed
qed

lemma poll_list_refines:
  fixes s :: "'z conw_scheme"
  assumes "k_contracts s = ps @ rs" and "listed s" and "open_for E s" and "ks = map (\<lambda>r. the (k_heap s r)) rs"
    and "till_fits E (w_now s) ks (till_with s ps)"
  shows "\<exists>t. for_each rs (poll_entry E) s = (Inr (), t) \<and> listed t \<and> open_for E t \<and>
    till_of t = fold (till_step E (w_now s)) ks (till_with s ps)"
  using assms
proof (induction rs arbitrary: ps s ks)
  case Nil
  then show ?case by (simp add: prog_apply)
next
  case (Cons r rs)
  obtain k where k: "k_heap s r = Some k" using Cons.prems(1,2) by (auto simp: listed_def)
  let ?ks = "map (\<lambda>r. the (k_heap s r)) rs"
  have ks: "ks = k # ?ks" using Cons.prems(4) k by simp
  have f: "till_fit E (w_now s) k (till_with s ps)" using Cons.prems(5) ks by simp
  from poll_entry_refines [OF Cons.prems(1) k Cons.prems(2,3) f] obtain t qs where
    t: "poll_entry E r s = (Inr (), t)" "k_contracts t = qs @ rs" "listed t" "open_for E t" "w_now t = w_now s"
      "\<forall>q\<in>set rs. k_heap t q = k_heap s q" "till_with t qs = till_step E (w_now s) k (till_with s ps)" by blast
  have e: "?ks = map (\<lambda>r. the (k_heap t r)) rs" using t(6) by simp
  have "till_fits E (w_now t) ?ks (till_with t qs)" using Cons.prems(5) ks t(5,7) by simp
  from Cons.IH [OF t(2-4) e this] show ?case using t(1,5,7) ks by (auto simp: bnd_def thn_def)
qed

lemma pollContracts_till:
  fixes s :: "'z conw_scheme"
  assumes "distinct (k_contracts s)" and "set (k_contracts s) = dom (k_heap s)"
    and "db_up E" and "peers_ok (db_tables s)" and "db_saved s = None"
    and "till_fits E (w_now s) (ti_open (till_of s)) ((till_of s)\<lparr>ti_open := []\<rparr>)"
  shows "\<exists>t. pollContracts E s = (Inr (), t) \<and> till_of t = till_run E (w_now s) (till_of s) \<and>
    distinct (k_contracts t) \<and> set (k_contracts t) = dom (k_heap t) \<and> peers_ok (db_tables t) \<and> db_saved t = None"
proof -
  have "pollContracts E s = for_each (k_contracts s) (poll_entry E) s"
    by (simp add: pollContracts_def poll_entry_def [abs_def] bnd_def prog_apply)
  moreover have "\<exists>t. for_each (k_contracts s) (poll_entry E) s = (Inr (), t) \<and> listed t \<and> open_for E t \<and>
      till_of t = fold (till_step E (w_now s)) (ti_open (till_of s)) (till_with s [])"
    using assms by (intro poll_list_refines) (simp_all add: listed_def open_for_def till_with_def)
  moreover have "till_with s [] = (till_of s)\<lparr>ti_open := []\<rparr>" by (simp add: till_with_def)
  ultimately show ?thesis by (auto simp: till_run_def listed_def open_for_def)
qed

text \<open>
  C9: The periodic work on the contracts does, on the accounts, the stored contracts, the open ones and
  the messages, exactly the run of the abstract till: each open contract in the order of the list
  has one fate, from the time, the answer of the Bitcoin client and what its credit line has left
  after the contracts before it. It expires after a day and takes its row along, waits without its
  confirmations, is settled when its line can pay it, and otherwise lapses with a message. Those that
  wait are the ones left, in their order; every other one is deleted; no database transaction stays open.
\<close>

theorem pollContracts_runs_till:
  fixes s :: "'z conw_scheme"
  assumes "distinct (k_contracts s)" and "set (k_contracts s) = dom (k_heap s)"
    and "db_up E" and "peers_ok (db_tables s)" and "db_saved s = None"
    and "till_fits E (w_now s) (ti_open (till_of s)) ((till_of s)\<lparr>ti_open := []\<rparr>)"
  shows "\<exists>t. pollContracts E s = (Inr (), t) \<and> till_of t = till_run E (w_now s) (till_of s) \<and>
    distinct (k_contracts t) \<and> set (k_contracts t) = dom (k_heap t) \<and> peers_ok (db_tables t) \<and> db_saved t = None"
  by (rule pollContracts_till [OF assms])

section \<open>Contracts that settle\<close>

text \<open>A contract whose transaction is confirmed, at whatever call the client is asked for it.\<close>

definition due :: "ext \<Rightarrow> 'z conw_scheme \<Rightarrow> BtcContract \<Rightarrow> bool" where
  "due E s k \<longleftrightarrow> k_activated k \<and> w_now s - k_creationtime k \<le> contract_timeout \<and>
     (\<forall>n. reqConfirmations (x_build E) \<le> x_confirmations E n (k_btcTxId k)) \<and> known_currency E (k_currencySym k) \<and>
     no_quote (k_counterParty k) \<and> no_quote (k_btcTxId k) \<and> k_btcTxId k \<noteq> []"

text \<open>The accounts after contracts on different lines were settled.\<close>

fun settle_lines :: "BtcContract list \<Rightarrow> ledger \<Rightarrow> ledger" where
  "settle_lines [] L = L"
| "settle_lines (k # ks) L = settle_lines ks (L(line_of k \<mapsto> settled k (the (L (line_of k)))))"

lemma distinct_head: "distinct (map f (x # xs)) \<Longrightarrow> y \<in> set xs \<Longrightarrow> f y \<noteq> f x"
  by (simp add: image_iff) metis

lemma settle_lines_other: "i \<notin> line_of ` set ks \<Longrightarrow> settle_lines ks L i = L i"
  by (induction ks arbitrary: L) auto

lemma settle_lines_at:
  "distinct (map line_of ks) \<Longrightarrow> k \<in> set ks \<Longrightarrow> settle_lines ks L (line_of k) = Some (settled k (the (L (line_of k))))"
proof (induction ks arbitrary: L)
  case (Cons q ks)
  then show ?case
  proof (cases "k = q")
    case True
    have "line_of k \<notin> line_of ` set ks" using Cons.prems(1) True by simp
    then show ?thesis using True by (simp add: settle_lines_other)
  next
    case False
    then have "k \<in> set ks" "line_of k \<noteq> line_of q" using Cons.prems distinct_head [OF Cons.prems(1)] by auto
    then show ?thesis using Cons by simp
  qed
qed simp

definition can_all :: "ext \<Rightarrow> ledger \<Rightarrow> BtcContract \<Rightarrow> bool" where
  "can_all E L k \<longleftrightarrow> (\<exists>a. L (line_of k) = Some a \<and> can_settle k a \<and> settle_exact E k a)"

lemma till_settles:
  assumes "\<forall>k\<in>set ks. due E s k \<and> can_all E (ti_accounts T) k" and "distinct (map line_of ks)" and "now = w_now s"
  shows "till_fits E now ks T \<and> fold (till_step E now) ks T = T\<lparr>ti_accounts := settle_lines ks (ti_accounts T),
    ti_rows := fold contract_removed ks (ti_rows T), ti_calls := ti_calls T + length ks\<rparr>"
  using assms
proof (induction ks arbitrary: T)
  case (Cons k ks)
  have d: "due E s k" using Cons.prems(1) by simp
  obtain a where a: "ti_accounts T (line_of k) = Some a" "can_settle k a" "settle_exact E k a"
    using Cons.prems(1) by (auto simp: can_all_def)
  have f: "contract_fate E now n k a = Settles" for n using d a(2) Cons.prems(3) by (auto simp: contract_fate_def due_def not_less)
  let ?T = "T\<lparr>ti_accounts := (ti_accounts T)(line_of k \<mapsto> settled k a), ti_rows := contract_removed k (ti_rows T), ti_calls := Suc (ti_calls T)\<rparr>"
  have st: "till_step E now k T = ?T" using a f d Cons.prems(3) by (simp add: till_step_def asked_for_def due_def Let_def)
  have "\<forall>q\<in>set ks. due E s q \<and> can_all E (ti_accounts ?T) q" using Cons.prems(1) distinct_head [OF Cons.prems(2)] by (simp add: can_all_def)
  from Cons.IH [OF this _ Cons.prems(3)]
  show ?case using Cons.prems(2) a f d by (simp add: st till_fit_def due_def fun_upd_def)
qed simp

section \<open>The chain of a purchase\<close>

text \<open>
  A node of the chain: what it is to get from the node before it and what it is to give to the node
  after it. The buyer only gives, the seller only gets.
\<close>

record 'z site =
  site_env :: ext
  site_node :: "'z conw_scheme"
  site_gets :: "BtcContract option"
  site_gives :: "BtcContract option"

definition site_contracts :: "'z site \<Rightarrow> BtcContract list" where
  "site_contracts x = (case site_gets x of None \<Rightarrow> [] | Some k \<Rightarrow> [k]) @ (case site_gives x of None \<Rightarrow> [] | Some k \<Rightarrow> [k])"

abbreviation site_id :: "'z site \<Rightarrow> PeerAddress" where
  "site_id x \<equiv> x_own_id (site_env x)"

definition site_line :: "'z conw_scheme \<Rightarrow> PeerAddress \<Rightarrow> string \<Rightarrow> account option" where
  "site_line s p cur = abs_peers (db_tables s) (p, cur)"

text \<open>The node has these contracts and no others, all confirmed and for the same price.\<close>

definition site_ready :: "string \<Rightarrow> ZR_Number \<Rightarrow> 'z site \<Rightarrow> bool" where
  "site_ready cur f x \<longleftrightarrow> (let E = site_env x; s = site_node x in
     listed s \<and> open_for E s \<and> ti_open (till_of s) = site_contracts x \<and> distinct (map line_of (site_contracts x)) \<and>
     (\<forall>k. site_gets x = Some k \<longrightarrow> k_party k = RECEIVER) \<and> (\<forall>k. site_gives x = Some k \<longrightarrow> k_party k = SENDER) \<and>
     (\<forall>k\<in>set (site_contracts x). due E s k \<and> k_currencySym k = cur \<and> getFiatAmount k = f \<and>
       (\<forall>a. abs_peers (db_tables s) (line_of k) = Some a \<longrightarrow> settle_exact E k a)))"

text \<open>Two ends of a credit line agree on it.\<close>

definition agree :: "account \<Rightarrow> account \<Rightarrow> bool" where
  "agree a b \<longleftrightarrow> a_balance a + a_balance b = 0 \<and> a_our_credit a = a_credit b \<and> a_credit a = a_our_credit b"

definition bonded :: "string \<Rightarrow> ZR_Number \<Rightarrow> 'z site \<Rightarrow> 'z site \<Rightarrow> bool" where
  "bonded cur f x y \<longleftrightarrow> (\<exists>kx ky a b. site_gives x = Some kx \<and> site_gets y = Some ky \<and>
     k_counterParty kx = site_id y \<and> k_counterParty ky = site_id x \<and>
     site_line (site_node x) (site_id y) cur = Some a \<and> site_line (site_node y) (site_id x) cur = Some b \<and>
     agree a b \<and> f \<le> a_allocation b \<and> 0 \<le> available b)"

text \<open>What the poll makes of a node.\<close>

definition site_after :: "'z site \<Rightarrow> 'z conw_scheme" where
  "site_after x = snd (pollContracts (site_env x) (site_node x))"

definition site_balance :: "'z conw_scheme \<Rightarrow> PeerAddress \<Rightarrow> string \<Rightarrow> ZR_Number" where
  "site_balance s p cur = (case site_line s p cur of None \<Rightarrow> 0 | Some a \<Rightarrow> a_balance a)"

lemma neighbours:
  assumes "successively R xs" and "x \<in> set xs"
  shows "x = last xs \<or> (\<exists>y\<in>set xs. R x y)" "x = hd xs \<or> (\<exists>y\<in>set xs. R y x)"
  using assms by (induction R xs rule: successively.induct) auto

lemma site_settles:
  fixes x :: "'z site"
  assumes r: "site_ready cur f x" and "\<forall>k\<in>set (site_contracts x). can_all (site_env x) (abs_peers (db_tables (site_node x))) k"
  shows "pollContracts (site_env x) (site_node x) = (Inr (), site_after x) \<and> k_contracts (site_after x) = [] \<and>
    db_saved (site_after x) = None \<and> w_messages (site_after x) = w_messages (site_node x) \<and>
    abs_peers (db_tables (site_after x)) = settle_lines (site_contracts x) (abs_peers (db_tables (site_node x)))"
proof -
  let ?E = "site_env x" and ?s = "site_node x" and ?T = "(till_of (site_node x))\<lparr>ti_open := []\<rparr>"
  have q: "distinct (k_contracts ?s)" "set (k_contracts ?s) = dom (k_heap ?s)" "db_up ?E" "peers_ok (db_tables ?s)" "db_saved ?s = None"
    "ti_open (till_of ?s) = site_contracts x" "distinct (map line_of (site_contracts x))"
    using r by (simp_all add: site_ready_def listed_def open_for_def Let_def)
  have d: "\<forall>k\<in>set (site_contracts x). due ?E ?s k \<and> can_all ?E (ti_accounts ?T) k"
    using r assms(2) by (simp add: site_ready_def Let_def till_with_def)
  note w = till_settles [OF d q(7) refl]
  then have "till_fits ?E (w_now ?s) (ti_open (till_of ?s)) ?T" by (simp add: q(6))
  from pollContracts_till [OF q(1-5) this] obtain t where
    t: "pollContracts ?E ?s = (Inr (), t)" "till_of t = till_run ?E (w_now ?s) (till_of ?s)" "db_saved t = None" by blast
  have "till_of t = ?T\<lparr>ti_accounts := settle_lines (site_contracts x) (ti_accounts ?T),
      ti_rows := fold contract_removed (site_contracts x) (ti_rows ?T), ti_calls := ti_calls ?T + length (site_contracts x)\<rparr>"
    unfolding t(2) till_run_def q(6) using w by blast
  then show ?thesis using t(1,3) by (simp add: site_after_def till_with_def)
qed

text \<open>Where the receiver's end has the price reserved, both ends can settle.\<close>

lemma bonded_can:
  assumes "bonded cur f x y" and "site_ready cur f x" and "site_ready cur f y"
  shows "\<exists>k. site_gives x = Some k \<and> line_of k = (site_id y, cur) \<and> can_all (site_env x) (abs_peers (db_tables (site_node x))) k"
    and "\<exists>k. site_gets y = Some k \<and> line_of k = (site_id x, cur) \<and> can_all (site_env y) (abs_peers (db_tables (site_node y))) k"
proof -
  obtain kx ky a b where b: "site_gives x = Some kx" "site_gets y = Some ky" "k_counterParty kx = site_id y" "k_counterParty ky = site_id x"
    "site_line (site_node x) (site_id y) cur = Some a" "site_line (site_node y) (site_id x) cur = Some b"
    "agree a b" "f \<le> a_allocation b" "0 \<le> available b" using assms(1) by (auto simp: bonded_def)
  have i: "kx \<in> set (site_contracts x)" "ky \<in> set (site_contracts y)" using b(1,2) by (simp_all add: site_contracts_def)
  have x: "k_party kx = SENDER" "k_currencySym kx = cur" "getFiatAmount kx = f" "settle_exact (site_env x) kx a"
    using assms(2) b(1,3,5) i(1) by (auto simp: site_ready_def Let_def site_line_def line_of_def)
  have y: "k_party ky = RECEIVER" "k_currencySym ky = cur" "getFiatAmount ky = f" "settle_exact (site_env y) ky b"
    using assms(3) b(2,4,6) i(2) by (auto simp: site_ready_def Let_def site_line_def line_of_def)
  have "can_settle kx a" "can_settle ky b"
    using b(7-9) x(1,3) y(1) by (simp_all add: can_settle_def agree_def available_def)
  then show "\<exists>k. site_gives x = Some k \<and> line_of k = (site_id y, cur) \<and> can_all (site_env x) (abs_peers (db_tables (site_node x))) k"
    "\<exists>k. site_gets y = Some k \<and> line_of k = (site_id x, cur) \<and> can_all (site_env y) (abs_peers (db_tables (site_node y))) k"
    using b(1-6) x y by (auto simp: can_all_def line_of_def site_line_def)
qed

lemma chain_can_all:
  assumes "successively (bonded cur f) xs" and "site_gets (hd xs) = None" and "site_gives (last xs) = None"
    and "\<forall>x\<in>set xs. site_ready cur f x" and "x \<in> set xs" and "k \<in> set (site_contracts x)"
  shows "can_all (site_env x) (abs_peers (db_tables (site_node x))) k"
proof (cases "site_gives x = Some k")
  case True
  then obtain y where "y \<in> set xs" "bonded cur f x y" using neighbours(1) [OF assms(1,5)] assms(3) by auto
  then show ?thesis using bonded_can(1) [of cur f x y] assms(4,5) True by auto
next
  case False
  then have g: "site_gets x = Some k" using assms(6) by (auto simp: site_contracts_def split: option.splits)
  then obtain y where "y \<in> set xs" "bonded cur f y x" using neighbours(2) [OF assms(1,5)] assms(2) by auto
  then show ?thesis using bonded_can(2) [of cur f y x] assms(4,5) g by auto
qed

lemma settled_line:
  assumes "site_ready cur f x" and "k \<in> set (site_contracts x)"
    and "abs_peers (db_tables (site_after x)) = settle_lines (site_contracts x) (abs_peers (db_tables (site_node x)))"
    and "site_line (site_node x) (k_counterParty k) cur = Some a"
  shows "site_line (site_after x) (k_counterParty k) cur = Some (settled k a)"
proof -
  have "line_of k = (k_counterParty k, cur)" "distinct (map line_of (site_contracts x))"
    using assms(1,2) by (auto simp: site_ready_def Let_def line_of_def)
  then show ?thesis using settle_lines_at [of "site_contracts x" k] assms(2-4) by (simp add: site_line_def)
qed

text \<open>What is still to be had on the way: the price moved on one credit line.\<close>

definition moved :: "string \<Rightarrow> ZR_Number \<Rightarrow> 'z site \<Rightarrow> 'z site \<Rightarrow> bool" where
  "moved cur f x y \<longleftrightarrow> (\<exists>a b a' b'. site_line (site_node x) (site_id y) cur = Some a \<and> site_line (site_node y) (site_id x) cur = Some b \<and>
     site_line (site_after x) (site_id y) cur = Some a' \<and> site_line (site_after y) (site_id x) cur = Some b' \<and>
     a_balance a' = a_balance a - f \<and> a_balance b' = a_balance b + f \<and> a_allocation b' = a_allocation b - f \<and>
     available b' = available b \<and> agree a' b')"

definition position :: "'z conw_scheme \<Rightarrow> BtcContract list \<Rightarrow> ZR_Number" where
  "position s ks = (\<Sum>k\<leftarrow>ks. case abs_peers (db_tables s) (line_of k) of None \<Rightarrow> 0 | Some a \<Rightarrow> a_balance a)"

lemma bonded_moves:
  assumes "bonded cur f x y" and "site_ready cur f x" and "site_ready cur f y"
    and "abs_peers (db_tables (site_after x)) = settle_lines (site_contracts x) (abs_peers (db_tables (site_node x)))"
    and "abs_peers (db_tables (site_after y)) = settle_lines (site_contracts y) (abs_peers (db_tables (site_node y)))"
  shows "moved cur f x y"
proof -
  obtain kx ky a b where b: "site_gives x = Some kx" "site_gets y = Some ky" "k_counterParty kx = site_id y" "k_counterParty ky = site_id x"
    "site_line (site_node x) (site_id y) cur = Some a" "site_line (site_node y) (site_id x) cur = Some b"
    "agree a b" using assms(1) by (auto simp: bonded_def)
  have i: "kx \<in> set (site_contracts x)" "ky \<in> set (site_contracts y)" using b(1,2) by (simp_all add: site_contracts_def)
  have k: "k_party kx = SENDER" "getFiatAmount kx = f" "k_party ky = RECEIVER" "getFiatAmount ky = f"
    using assms(2,3) b(1,2) i by (auto simp: site_ready_def Let_def)
  have "site_line (site_after x) (site_id y) cur = Some (settled kx a)" "site_line (site_after y) (site_id x) cur = Some (settled ky b)"
    using settled_line [OF assms(2) i(1) assms(4)] settled_line [OF assms(3) i(2) assms(5)] b(3-6) by simp_all
  then show ?thesis
    unfolding moved_def using b(5-7) k
    by (intro exI [of _ a] exI [of _ b] exI [of _ "settled kx a"] exI [of _ "settled ky b"])
      (simp add: settled_def agree_def available_def)
qed

lemma site_position:
  assumes "site_ready cur f x" and "\<forall>k\<in>set (site_contracts x). can_all E (abs_peers (db_tables (site_node x))) k"
    and "abs_peers (db_tables (site_after x)) = settle_lines (site_contracts x) (abs_peers (db_tables (site_node x)))"
  shows "position (site_after x) (site_contracts x) = position (site_node x) (site_contracts x) +
    (if site_gets x = None then 0 else f) - (if site_gives x = None then 0 else f)"
proof -
  let ?v = "\<lambda>s k. case abs_peers (db_tables s) (line_of k) of None \<Rightarrow> 0 | Some a \<Rightarrow> a_balance a"
  have v: "?v (site_after x) k = ?v (site_node x) k + (if k_party k = RECEIVER then f else - f)" if k: "k \<in> set (site_contracts x)" for k
  proof -
    obtain a where "abs_peers (db_tables (site_node x)) (line_of k) = Some a" using assms(2) k by (auto simp: can_all_def)
    moreover have "distinct (map line_of (site_contracts x))" "getFiatAmount k = f" using assms(1) k by (auto simp: site_ready_def Let_def)
    ultimately show ?thesis using settle_lines_at [of "site_contracts x" k] k assms(3) by (simp add: settled_def split: Party.split)
  qed
  have "\<forall>k. site_gets x = Some k \<longrightarrow> k_party k = RECEIVER" "\<forall>k. site_gives x = Some k \<longrightarrow> k_party k = SENDER"
    using assms(1) by (simp_all add: site_ready_def Let_def)
  with v show ?thesis by (cases "site_gets x"; cases "site_gives x") (simp_all add: position_def site_contracts_def)
qed

lemma successively_weaken:
  "successively P xs \<Longrightarrow> (\<And>x y. x \<in> set xs \<Longrightarrow> y \<in> set xs \<Longrightarrow> P x y \<Longrightarrow> Q x y) \<Longrightarrow> successively Q xs"
  by (induction P xs rule: successively.induct) auto

text \<open>
  C2: The contracts of a purchase, once confirmed, pay it out along the whole chain. Where every node but
  the buyer has reserved the price on its line with the node before it, and the two ends of each line
  agree, no node can fail to pay, although the paying end reserves nothing: each poll succeeds, shows
  no message and leaves no contract. On every line the price has moved from the paying to the paid end,
  the reservation is used up, what is available stays, and both ends still agree. The buyer's balances have
  fallen by the price, the seller's have risen by it, those of a hop are in sum what they
  were; no other account of any node has changed.
\<close>

theorem confirmed_purchase_is_paid:
  fixes xs :: "'z site list"
  assumes "successively (bonded cur f) xs" and "site_gets (hd xs) = None" and "site_gives (last xs) = None"
    and "\<forall>x\<in>set xs. site_ready cur f x"
  shows "(\<forall>x\<in>set xs. pollContracts (site_env x) (site_node x) = (Inr (), site_after x) \<and> k_contracts (site_after x) = [] \<and>
      w_messages (site_after x) = w_messages (site_node x) \<and>
      position (site_after x) (site_contracts x) = position (site_node x) (site_contracts x) +
        (if site_gets x = None then 0 else f) - (if site_gives x = None then 0 else f) \<and>
      (\<forall>i. i \<notin> line_of ` set (site_contracts x) \<longrightarrow> abs_peers (db_tables (site_after x)) i = abs_peers (db_tables (site_node x)) i)) \<and>
    successively (moved cur f) xs"
proof -
  have can: "\<forall>k\<in>set (site_contracts x). can_all (site_env x) (abs_peers (db_tables (site_node x))) k" if "x \<in> set xs" for x
    using chain_can_all [OF assms that] by blast
  have run: "pollContracts (site_env x) (site_node x) = (Inr (), site_after x)" "k_contracts (site_after x) = []"
    "w_messages (site_after x) = w_messages (site_node x)"
    "abs_peers (db_tables (site_after x)) = settle_lines (site_contracts x) (abs_peers (db_tables (site_node x)))" if "x \<in> set xs" for x
    using site_settles [OF assms(4) [rule_format, OF that] can [OF that]] by simp_all
  have "moved cur f x y" if "x \<in> set xs" "y \<in> set xs" "bonded cur f x y" for x y
    using bonded_moves [OF that(3) _ _ run(4) [OF that(1)] run(4) [OF that(2)]] assms(4) that(1,2) by simp
  moreover have "position (site_after x) (site_contracts x) = position (site_node x) (site_contracts x) +
        (if site_gets x = None then 0 else f) - (if site_gives x = None then 0 else f)" if "x \<in> set xs" for x
    by (rule site_position [OF assms(4) [rule_format, OF that] can [OF that] run(4) [OF that]])
  ultimately show ?thesis using run assms(1) by (auto simp: settle_lines_other intro!: successively_weaken [OF assms(1)])
qed

section \<open>Witnesses\<close>

definition demo_holding :: "BtcContract list \<Rightarrow> peer_row list \<Rightarrow> conw" where
  "demo_holding ks rows = (demo_conw rows)\<lparr>k_heap := (\<lambda>r. if r < length ks then Some (ks ! r) else None), k_next := length ks,
     k_contracts := [0..<length ks]\<rparr>"

lemma demo_holding_simps [simp]:
  "db_tables (demo_holding ks rows) = demo_tables\<lparr>t_peers := rows\<rparr>" "w_now (demo_holding ks rows) = 0"
  "db_saved (demo_holding ks rows) = None" "k_contracts (demo_holding ks rows) = [0..<length ks]"
  "w_messages (demo_holding ks rows) = []"
  by (simp_all add: demo_holding_def)

lemma demo_holding_listed: "distinct (k_contracts (demo_holding ks rows))" "set (k_contracts (demo_holding ks rows)) = dom (k_heap (demo_holding ks rows))"
  by (auto simp: demo_holding_def split: if_splits)

lemma demo_holding_open: "ti_open (till_of (demo_holding ks rows)) = ks"
proof -
  have "map (\<lambda>r. the (k_heap (demo_holding ks rows) r)) [0..<length ks] = ks"
    by (rule nth_equalityI) (simp_all add: demo_holding_def)
  then show ?thesis by (simp add: till_with_def)
qed

text \<open>One contract of each fate on the same line.\<close>

definition demo_fates :: "BtcContract list" where
  "demo_fates = [(demo_contract RECEIVER)\<lparr>k_creationtime := - 99999999\<rparr>, demo_contract RECEIVER,
     (demo_contract SENDER)\<lparr>k_activated := False\<rparr>, (demo_contract SENDER)\<lparr>k_btcAmount := 4\<rparr>]"

lemma demo_fate_parts:
  "k_activated (demo_contract p)" "k_creationtime (demo_contract p) = 0" "k_party (demo_contract p) = p" "k_btcAmount (demo_contract p) = 2"
  "k_price (demo_contract p) = 3" "k_btcTxId (demo_contract p) = ''tx''" "k_counterParty (demo_contract p) = ''bo''" "k_currencySym (demo_contract p) = ''GPM''"
  by (simp_all add: demo_contract_def)

lemma demo_confirmations: "\<not> x_confirmations demo n i < reqConfirmations (x_build demo)" "reqConfirmations (x_build demo) \<le> x_confirmations demo n i"
  by (simp_all add: demo_def reqConfirmations_def)

lemmas demo_till_defs = demo_fate_parts demo_confirmations till_fit_def till_step_def contract_fate_def line_of_def contract_timeout_def
  asked_for_def can_settle_def settled_def unsettled_def settle_exact_def available_def getFiatAmount_def

lemma demo_fates_run:
  assumes "ti_accounts T (''bo'', ''GPM'') = Some \<lparr>a_credit = 9, a_our_credit = 2, a_balance = 1, a_allocation = 6\<rparr>"
  shows "till_fits demo 0 demo_fates T" and "\<exists>rows shown. fold (till_step demo 0) demo_fates T = \<lparr>ti_accounts = (ti_accounts T)((''bo'', ''GPM'') \<mapsto>
      \<lparr>a_credit = 9, a_our_credit = 2, a_balance = 7, a_allocation = 0\<rparr>), ti_rows = rows,
    ti_open = ti_open T @ [(demo_contract SENDER)\<lparr>k_activated := False\<rparr>], ti_calls = Suc (Suc (ti_calls T)), ti_shown = ti_shown T @ [shown]\<rparr>"
proof -
  let ?a = "\<lparr>a_credit = 9, a_our_credit = 2, a_balance = 7, a_allocation = 0\<rparr> :: account"
  let ?T1 = "till_step demo 0 (demo_fates ! 0) T" and ?k = "\<lambda>i. demo_fates ! i"
  let ?T2 = "till_step demo 0 (?k 1) ?T1" and ?T3 = "till_step demo 0 (?k 2) (till_step demo 0 (?k 1) ?T1)"
  have g: "known_currency demo ''GPM''" "no_quote ''bo''" "no_quote ''tx''"
    by (simp_all add: known_currency_def demo_def currencySymbols_testnet_def no_quote_def)
  have e: "db_exact demo 7" "db_exact demo 0" using demo_db_exact [of 7] demo_db_exact [of 0] by (simp_all add: in_i64_def)
  have s1: "?T1 = T\<lparr>ti_rows := contract_removed (?k 0) (ti_rows T)\<rparr>" "till_fit demo 0 (?k 0) T"
    using assms g by (simp_all add: demo_fates_def demo_till_defs)
  have s2: "?T2 = ?T1\<lparr>ti_rows := contract_removed (?k 1) (ti_rows ?T1), ti_accounts := (ti_accounts T)((''bo'', ''GPM'') \<mapsto> ?a),
      ti_calls := Suc (ti_calls T)\<rparr>" "till_fit demo 0 (?k 1) ?T1"
    unfolding s1(1) using assms g e by (simp_all add: demo_fates_def demo_till_defs)
  have s3: "?T3 = ?T2\<lparr>ti_open := ti_open T @ [?k 2]\<rparr>" "till_fit demo 0 (?k 2) ?T2"
    unfolding s2(1) s1(1) using assms g by (simp_all add: demo_fates_def demo_till_defs)
  have s4: "till_step demo 0 (?k 3) ?T3 = ?T3\<lparr>ti_rows := contract_removed (?k 3) (ti_rows ?T3), ti_calls := Suc (Suc (ti_calls T)),
      ti_shown := ti_shown T @ [cannot_execute demo 12 ''bo'']\<rparr>" "till_fit demo 0 (?k 3) ?T3"
    unfolding s3(1) s2(1) s1(1) using assms g e by (simp_all add: demo_fates_def demo_till_defs fun_upd_idem)
  have l: "demo_fates = [?k 0, ?k 1, ?k 2, ?k 3]" by (simp add: demo_fates_def)
  show "till_fits demo 0 demo_fates T" by (subst l) (simp add: s1(2) s2(2) s3(2) s4(2) del: One_nat_def)
  have r: "fold (till_step demo 0) demo_fates T = till_step demo 0 (?k 3) ?T3" by (subst l) (simp del: One_nat_def)
  show "\<exists>rows shown. fold (till_step demo 0) demo_fates T = \<lparr>ti_accounts = (ti_accounts T)((''bo'', ''GPM'') \<mapsto> ?a), ti_rows = rows,
    ti_open = ti_open T @ [(demo_contract SENDER)\<lparr>k_activated := False\<rparr>], ti_calls = Suc (Suc (ti_calls T)), ti_shown = ti_shown T @ [shown]\<rparr>"
    unfolding r unfolding s4(1) unfolding s3(1) unfolding s2(1) unfolding s1(1) by (cases T) (simp add: demo_fates_def)
qed

theorem pollContracts_runs_till_witness:
  "\<exists>t. pollContracts demo (demo_holding demo_fates [demo_peer ''bo'' 9 2 1 6]) = (Inr (), t) \<and>
      ti_open (till_of t) = [(demo_contract SENDER)\<lparr>k_activated := False\<rparr>] \<and> length (w_messages t) = 1 \<and>
      abs_peers (db_tables t) (''bo'', ''GPM'') = Some \<lparr>a_credit = 9, a_our_credit = 2, a_balance = 7, a_allocation = 0\<rparr>"
proof -
  let ?s = "demo_holding demo_fates [demo_peer ''bo'' 9 2 1 6]"
  let ?T = "(till_of ?s)\<lparr>ti_open := []\<rparr>"
  have "line_ok demo ''bo'' ''GPM'' ?s \<lparr>a_credit = 9, a_our_credit = 2, a_balance = 1, a_allocation = 6\<rparr>"
    using demo_line [of 9 2 1 6] by (simp add: in_i64_def line_ok_def)
  then have q: "peers_ok (db_tables ?s)" "ti_accounts ?T (''bo'', ''GPM'') = Some \<lparr>a_credit = 9, a_our_credit = 2, a_balance = 1, a_allocation = 6\<rparr>"
    by (simp_all add: line_ok_def till_with_def)
  have f: "till_fits demo (w_now ?s) (ti_open (till_of ?s)) ?T"
    unfolding demo_holding_open using demo_fates_run(1) [OF q(2)] by simp
  from pollContracts_runs_till [OF demo_holding_listed demo_db_up q(1) _ f] obtain t where
    t: "pollContracts demo ?s = (Inr (), t)" "till_of t = till_run demo (w_now ?s) (till_of ?s)" by auto
  from demo_fates_run(2) [OF q(2)] obtain rows shown where
    "till_of t = \<lparr>ti_accounts = (ti_accounts ?T)((''bo'', ''GPM'') \<mapsto> \<lparr>a_credit = 9, a_our_credit = 2, a_balance = 7, a_allocation = 0\<rparr>),
      ti_rows = rows, ti_open = [(demo_contract SENDER)\<lparr>k_activated := False\<rparr>], ti_calls = Suc (Suc (ti_calls ?T)), ti_shown = [shown]\<rparr>"
    unfolding t(2) till_run_def demo_holding_open by (auto simp: till_with_def)
  with t(1) show ?thesis by (auto simp: till_with_def)
qed

text \<open>A buyer, one hop and a seller.\<close>

definition demo_at :: "PeerAddress \<Rightarrow> ext" where
  "demo_at i = demo\<lparr>x_own_id := i\<rparr>"

lemma demo_at_simps [simp]: "x_own_id (demo_at i) = i" "db_exact (demo_at i) v = db_exact demo v" "x_build (demo_at i) = x_build demo"
    "x_confirmations (demo_at i) = x_confirmations demo" "x_sql_ok (demo_at i) = x_sql_ok demo"
  by (simp_all add: demo_at_def db_exact_def db_value_def)

definition demo_debt :: "Party \<Rightarrow> PeerAddress \<Rightarrow> BtcContract" where
  "demo_debt p cp = (demo_contract p)\<lparr>k_counterParty := cp\<rparr>"

lemma demo_debt_simps [simp]: "k_counterParty (demo_debt p c) = c" "line_of (demo_debt p c) = (c, ''GPM'')"
    "demo_debt p c = demo_debt q d \<longleftrightarrow> p = q \<and> c = d"
  by (auto simp: demo_debt_def demo_fate_parts line_of_def demo_contract_def)

definition demo_site :: "PeerAddress \<Rightarrow> peer_row list \<Rightarrow> BtcContract option \<Rightarrow> BtcContract option \<Rightarrow> unit site" where
  "demo_site i rows g h = \<lparr>site_env = demo_at i, site_node = demo_holding ((case g of None \<Rightarrow> [] | Some k \<Rightarrow> [k]) @
     (case h of None \<Rightarrow> [] | Some k \<Rightarrow> [k])) rows, site_gets = g, site_gives = h\<rparr>"

lemma demo_site_simps [simp]: "site_env (demo_site i rows g h) = demo_at i" "site_gets (demo_site i rows g h) = g"
    "site_gives (demo_site i rows g h) = h" "db_tables (site_node (demo_site i rows g h)) = demo_tables\<lparr>t_peers := rows\<rparr>"
    "site_node (demo_site i rows g h) = demo_holding (site_contracts (demo_site i rows g h)) rows"
  by (simp_all add: demo_site_def site_contracts_def)

definition demo_chain :: "unit site list" where
  "demo_chain = [demo_site ''me'' [demo_peer ''bo'' 9 28 0 0] None (Some (demo_debt SENDER ''bo'')),
     demo_site ''bo'' [demo_peer ''me'' 28 9 0 6, demo_peer ''so'' 9 20 0 0] (Some (demo_debt RECEIVER ''me'')) (Some (demo_debt SENDER ''so'')),
     demo_site ''so'' [demo_peer ''bo'' 20 9 0 6] (Some (demo_debt RECEIVER ''bo'')) None]"

lemma demo_accounts:
  assumes "in_i64 a" "in_i64 b" "in_i64 c" "in_i64 d"
  shows "abs_peers (demo_tables\<lparr>t_peers := demo_peer p a b c d # rs\<rparr>) (q, ''GPM'') =
    (if p = q then Some \<lparr>a_credit = of_int a, a_our_credit = of_int b, a_balance = of_int c, a_allocation = of_int d\<rparr>
     else abs_peers (demo_tables\<lparr>t_peers := rs\<rparr>) (q, ''GPM''))"
  using demo_peer_account [OF assms] by (simp add: abs_peers_def demo_peer_def row_key_def)

lemma demo_row_fits: "in_i64 a \<Longrightarrow> in_i64 b \<Longrightarrow> in_i64 c \<Longrightarrow> in_i64 d \<Longrightarrow> row_ok (demo_peer p a b c d)"
  by (simp add: row_ok_account demo_peer_account)

lemma demo_site_ready:
  assumes "\<forall>k. g = Some k \<longrightarrow> (\<exists>p. k = demo_debt RECEIVER p \<and> no_quote p)" and "\<forall>k. h = Some k \<longrightarrow> (\<exists>p. k = demo_debt SENDER p \<and> no_quote p)"
    and "\<forall>k q. g = Some k \<and> h = Some q \<longrightarrow> k_counterParty k \<noteq> k_counterParty q" and "peers_ok (demo_tables\<lparr>t_peers := rows\<rparr>)"
    and "\<forall>k\<in>set (site_contracts (demo_site i rows g h)). \<forall>a. abs_peers (demo_tables\<lparr>t_peers := rows\<rparr>) (line_of k) = Some a \<longrightarrow>
      a_balance a = 0 \<and> a_allocation a \<in> {0, 6}"
  shows "site_ready ''GPM'' 6 (demo_site i rows g h)"
proof -
  let ?ks = "site_contracts (demo_site i rows g h)" and ?L = "abs_peers (demo_tables\<lparr>t_peers := rows\<rparr>)"
  have e: "db_exact demo 6" "db_exact demo (- 6)" "db_exact demo 0"
    using demo_db_exact [of 6] demo_db_exact [of "- 6"] demo_db_exact [of 0] by (simp_all add: in_i64_def)
  have each: "due (demo_at i) s k \<and> k_currencySym k = ''GPM'' \<and> getFiatAmount k = 6 \<and> settle_exact (demo_at i) k a"
    if "k = demo_debt pa p" "no_quote p" "a_balance a = 0 \<and> a_allocation a \<in> {0, 6}" "w_now s = 0" for pa p k a and s :: conw
    using that e demo_confirmations by (cases pa) (auto simp: due_def demo_debt_def demo_fate_parts getFiatAmount_def contract_timeout_def known_currency_def
        demo_at_def demo_def currencySymbols_testnet_def no_quote_def settle_exact_def settled_def db_exact_def db_value_def reqConfirmations_def)
  have ks: "\<forall>k\<in>set ?ks. \<exists>pa p. k = demo_debt pa p \<and> no_quote p" using assms(1,2) by (fastforce simp: site_contracts_def split: option.splits)
  have "distinct (map line_of ?ks)" using assms(3) by (auto simp: site_contracts_def line_of_def split: option.split)
  moreover have "\<forall>k. g = Some k \<longrightarrow> k_party k = RECEIVER" "\<forall>k. h = Some k \<longrightarrow> k_party k = SENDER"
    using assms(1,2) by (auto simp: demo_debt_def demo_fate_parts)
  moreover have "due (demo_at i) (demo_holding ?ks rows) k \<and> k_currencySym k = ''GPM'' \<and> getFiatAmount k = 6 \<and>
      (\<forall>a. ?L (line_of k) = Some a \<longrightarrow> settle_exact (demo_at i) k a)" if "k \<in> set ?ks" for k
  proof -
    let ?z = "\<lparr>a_credit = 0, a_our_credit = 0, a_balance = 0, a_allocation = 0\<rparr>"
    obtain pa p where p: "k = demo_debt pa p" "no_quote p" using ks \<open>k \<in> set ?ks\<close> by blast
    show ?thesis using each [OF p, of ?z "demo_holding ?ks rows"] each [OF p, of _ "demo_holding ?ks rows"] assms(5) \<open>k \<in> set ?ks\<close> by auto
  qed
  moreover have "listed (demo_holding ?ks rows)" unfolding listed_def using demo_holding_listed by blast
  ultimately show ?thesis
    using assms(4) demo_db_up unfolding site_ready_def Let_def demo_site_simps(1-3,5) demo_holding_open
    by (simp add: open_for_def db_up_def)
qed

theorem confirmed_purchase_is_paid_witness:
  "\<exists>t. pollContracts (demo_at ''bo'') (site_node (demo_chain ! 1)) = (Inr (), t) \<and> k_contracts t = [] \<and> site_balance t ''me'' ''GPM'' = 6 \<and>
     site_balance t ''so'' ''GPM'' = - 6"
proof -
  have b: "successively (bonded ''GPM'' 6) demo_chain"
    by (simp add: demo_chain_def bonded_def site_line_def demo_accounts in_i64_def agree_def available_def demo_debt_def del: demo_site_simps(5))
  have r: "\<forall>x\<in>set demo_chain. site_ready ''GPM'' 6 x"
    unfolding demo_chain_def
    by (auto intro!: demo_site_ready simp: peers_ok_def demo_row_fits in_i64_def site_contracts_def no_quote_def demo_accounts)
  have e: "site_gets (hd demo_chain) = None" "site_gives (last demo_chain) = None" by (simp_all add: demo_chain_def)
  let ?x = "demo_chain ! 1" and ?y = "demo_chain ! 2" and ?w = "demo_chain ! 0"
  have m: "?x \<in> set demo_chain" by (simp add: demo_chain_def)
  have s: "successively (moved ''GPM'' 6) demo_chain" using confirmed_purchase_is_paid [OF b e r] by blast
  then have "moved ''GPM'' 6 ?w ?x" "moved ''GPM'' 6 ?x ?y" by (simp_all add: demo_chain_def)
  moreover have "site_id ?w = ''me''" "site_id ?y = ''so''" "site_env ?x = demo_at ''bo''" by (simp_all add: demo_chain_def)
  moreover have "pollContracts (site_env ?x) (site_node ?x) = (Inr (), site_after ?x) \<and> k_contracts (site_after ?x) = []"
    using confirmed_purchase_is_paid [OF b e r] m by blast
  moreover have "site_line (site_node ?x) ''me'' ''GPM'' = Some \<lparr>a_credit = 28, a_our_credit = 9, a_balance = 0, a_allocation = 6\<rparr>"
    "site_line (site_node ?x) ''so'' ''GPM'' = Some \<lparr>a_credit = 9, a_our_credit = 20, a_balance = 0, a_allocation = 0\<rparr>"
    by (simp_all add: demo_chain_def site_line_def demo_accounts in_i64_def)
  ultimately show ?thesis by (auto simp: moved_def site_balance_def)
qed

end
