(* ===== verification/Typing.thy ===== *)
theory Typing
  imports Managers
begin

text \<open>
  Two typings of the state of a node that every run keeps: the numbers in the table of the peers can be
  read and its keys are unique; and, of the model alone, a transaction manager keeps its class.
\<close>

section \<open>The class of a manager\<close>

text \<open>
  In the model the fields of a manager are rewritten with its class (\<open>set_class\<close>); in the code an
  object cannot change its class. The invariant says that of one address.
\<close>

definition object_as :: "tref \<Rightarrow> string \<Rightarrow> TransactionId \<Rightarrow> 'z tmw_scheme \<Rightarrow> bool" where
  "object_as r c i s \<longleftrightarrow> r < t_next s \<and> (\<forall>x. t_heap s r = Some x \<longrightarrow> class_name (tm_class x) = c \<and> tm_TxId x = i)"

lemma leaves_object: "leaves core m \<Longrightarrow> keeps (object_as r c i) m"
  by (auto simp: keeps_def leaves_def object_as_def core_def)

lemma object_changes:
  "(\<And>x. class_name (tm_class (f x)) = class_name (tm_class x) \<or> (class_name (tm_class (f x)) = c \<and> q = r) \<or> q \<noteq> r) \<Longrightarrow>
    (\<And>x. tm_TxId (f x) = tm_TxId x) \<Longrightarrow> keeps (object_as r c i) (upd_tm q f)"
  by (rule keepsI) (auto simp: upd_tm_def get_tm_def object_as_def prog_defs split: option.splits)

lemma object_life: "keeps (object_as r c i) (new_TransactionManager j cl)" "keeps (object_as r c i) (delete_tm q)"
  by (rule keepsI; auto simp: new_TransactionManager_def delete_tm_def get_tm_def object_as_def prog_defs split: option.splits)+

lemma blind_objects: "contract_blind (\<lambda>s. (t_heap s, t_next s))" "db_blind (\<lambda>s. (t_heap s, t_next s))"
  by (simp_all add: blind_defs)

lemma leaves_objects: "leaves (\<lambda>s. (t_heap s, t_next s)) m \<Longrightarrow> keeps (object_as r c i) m"
  by (auto simp: keeps_def leaves_def object_as_def)

interpretation object: core_invariant E "object_as r c i" "\<lambda>q cl. q = r \<longrightarrow> class_name cl = c" for E r c i
proof unfold_locales
  fix s t :: nodew and x and cl
  show "object_as r c i s \<Longrightarrow> core t = core s \<Longrightarrow> object_as r c i t" by (auto simp: object_as_def core_def)
  show "object_as r c i s \<Longrightarrow> t_next s = r \<longrightarrow> class_name cl = c" by (auto simp: object_as_def)
  show "object_as r c i s \<Longrightarrow> t_heap s q = Some x \<Longrightarrow> q = r \<longrightarrow> class_name (tm_class x) = c" for q
    by (auto simp: object_as_def)
next
  fix k k_r g
  show "keeps (object_as r c i) (enlisted k)" "keeps (object_as r c i) (upd_contract k_r g)" "keeps (object_as r c i) (drop_contract k_r)"
    by (intro leaves_objects leaves_enlisted leave_intros blind_objects)+
next
  fix q ph cl
  show "keeps (object_as r c i) (set_phase q ph)" unfolding set_phase_def by (rule object_changes) simp_all
  show "q = r \<longrightarrow> class_name cl = c \<Longrightarrow> keeps (object_as r c i) (set_class q cl)"
    unfolding set_class_def by (rule object_changes) auto
qed (rule object_life | simp)+

text \<open>
  So \<open>set_class\<close> stands for assignments to the members of an object: in no run does it give a manager
  another class, which no object of the code can have, nor another transaction.
\<close>

lemma manager_keeps_class:
  assumes "reachable E s" and "runs E s s'" and "t_heap s r = Some x" and "t_heap s' r = Some y"
  shows "class_name (tm_class y) = class_name (tm_class x)" and "tm_TxId y = tm_TxId x"
proof -
  have "tms_ok s" by (rule tms.reachable_inv [OF assms(1)])
  then have "r < t_next s" using assms(3) by (cases "r < t_next s") (auto simp: view_ok_def tm_view_def)
  then have "object_as r (class_name (tm_class x)) (tm_TxId x) s" using assms(3) by (simp add: object_as_def)
  from object.runs_inv [OF assms(2) this] show "class_name (tm_class y) = class_name (tm_class x)" and "tm_TxId y = tm_TxId x"
    using assms(4) by (simp_all add: object_as_def)
qed

section \<open>The rows of the peers\<close>

text \<open>Whatever number is stored, what the database gives back for it can be read.\<close>

definition db_readable :: "ext \<Rightarrow> bool" where
  "db_readable E \<longleftrightarrow> db_zero E \<and> (\<forall>v. \<exists>x. db_value E v = Inr x)"

definition readable :: "ext \<Rightarrow> 'z dbw_scheme \<Rightarrow> bool" where
  "readable E s \<longleftrightarrow> (db_readable E \<longrightarrow> peers_ok (db_tables s) \<and> (\<forall>t. db_saved s = Some t \<longrightarrow> peers_ok t))"

lemma keeps_readable_query:
  assumes "\<And>t t'. db_readable E \<Longrightarrow> peers_ok t \<Longrightarrow> f t = Some t' \<Longrightarrow> peers_ok t'"
  shows "keeps (readable E) (runQuery E sp f)"
  by (rule keeps_runQuery) (use assms in \<open>auto simp: readable_def\<close>)

lemma same_peers: "t_peers t' = t_peers t \<Longrightarrow> peers_ok t' = peers_ok t"
  by (simp add: peers_ok_def)

lemma readable_others:
  "keeps (readable E) (ZrDB_addOrder E ord)" "keeps (readable E) (updateOrder E ord)" "keeps (readable E) (deleteOrder E ord)"
  "keeps (readable E) (addBtcContract E k)" "keeps (readable E) (rmBtcContract E i n)" "keeps (readable E) (updateConfig E key val)"
  unfolding ZrDB_addOrder_def updateOrder_def deleteOrder_def addBtcContract_def rmBtcContract_def updateConfig_def symbol_of_def
  by (intro keep_intros keeps_readable_query; auto simp: peers_ok_def)+

lemma readable_peers:
  "keeps (readable E) (createPeerRecord E c)" "keeps (readable E) (updatePeerCredit E c col v)" "keeps (readable E) (deletePeerRecord E p sy)"
proof -
  show "keeps (readable E) (createPeerRecord E c)"
    unfolding createPeerRecord_def
    by (rule keeps_readable_query) (auto simp: peers_ok_def db_readable_def db_zero_def row_ok_def row_account_def ebind_def
        row_key_def peer_is_def list_ex_iff split: if_splits; metis)
  show "keeps (readable E) (updatePeerCredit E c col v)"
    unfolding updatePeerCredit_def
    by (rule keeps_readable_query) (use peers_ok_updated [where k = "(c_id c, c_currency c)" and E = E and v = v and col = col] in
        \<open>fastforce simp: db_readable_def updated_peers_def peer_is_key\<close>)
  show "keeps (readable E) (deletePeerRecord E p sy)"
    unfolding deletePeerRecord_def symbol_of_def
    by (intro keep_intros keeps_readable_query) (auto simp: peers_ok_def list_all_iff intro: distinct_map_filter)
qed

lemma leaves_readable: "leaves (\<lambda>s. (db_tables s, db_saved s)) m \<Longrightarrow> keeps (readable E) m"
  by (auto simp: keeps_def leaves_def readable_def)

lemma readable_transactions:
  "keeps (readable E) (beginTx E)" "keeps (readable E) (commitTx E)" "keeps (readable E) (rollbackTx E)"
  by (rule keepsI; auto simp: beginTx_def commitTx_def rollbackTx_def sql_statement_apply readable_def prog_defs
      split: option.splits)+

interpretation readable: node_invariant E "readable E" "\<lambda>_ _. True" for E
proof unfold_locales
  fix s t :: nodew
  show "readable E s \<Longrightarrow> holdings t = holdings s \<Longrightarrow> readable E t" by (simp add: readable_def holdings_def)
next
  fix k k_r g i cl r ph
  have l: "contract_blind (\<lambda>s. (db_tables s, db_saved s))" "manager_blind (\<lambda>s. (db_tables s, db_saved s))"
    by (simp_all add: blind_defs)
  show "keeps (readable E) (enlisted k)" "keeps (readable E) (upd_contract k_r g)" "keeps (readable E) (drop_contract k_r)"
    "keeps (readable E) (new_TransactionManager i cl)" "keeps (readable E) (set_phase r ph)" "keeps (readable E) (delete_tm r)"
    "keeps (readable E) (set_class r cl)"
    unfolding set_phase_def set_class_def by (rule leaves_readable, intro leaves_enlisted leave_intros l)+
qed (rule readable_transactions readable_others readable_peers TrueI)+

text \<open>
  C17: Where SQLite gives back for a stored number a text that is a number, no operation, no error of
  the database and no rollback makes the table of the peers unreadable: in every state that follows
  from one where every friend has one row per currency and the four numbers of each row can be read,
  this is so, and so it is in the copy a rollback would restore.
\<close>

theorem peers_stay_readable:
  assumes "db_readable E" and "runs E s s'"
    and "peers_ok (db_tables s)" and "\<forall>t. db_saved s = Some t \<longrightarrow> peers_ok t"
  shows "distinct (map row_key (t_peers (db_tables s'))) \<and>
    (\<forall>r\<in>set (t_peers (db_tables s')). \<exists>a. row_account r = Inr a) \<and> (\<forall>t. db_saved s' = Some t \<longrightarrow> peers_ok t)"
proof -
  have "readable E s" using assms(3,4) by (simp add: readable_def)
  from readable.runs_inv [OF assms(2) this] assms(1) show ?thesis
    by (simp add: readable_def peers_ok_def list_all_iff row_ok_account)
qed

text \<open>The witness: the numbers are stored whole and within 64 bits, and a line of credit is given to a friend.\<close>

definition demo_whole :: ext where
  "demo_whole = demo\<lparr>x_show_double := (\<lambda>q. show_int (max (- (2 ^ 62)) (min (2 ^ 62) \<lfloor>q\<rfloor>)))\<rparr>"

lemma demo_whole_readable: "db_readable demo_whole"
proof -
  have "in_i64 (max (- (2 ^ 62)) (min (2 ^ 62) i))" for i by (simp add: in_i64_def max_def min_def)
  then show ?thesis
    using demo_db_zero by (simp add: db_readable_def demo_whole_def db_zero_def db_value_def demo_simps fromDecimalString_show_int)
qed

lemma demo_whole_parts:
  "x_build demo_whole = Testnet" "x_sql_text demo_whole = (\<lambda>v. v)" "x_sql_ok demo_whole = (\<lambda>n. True)"
  "x_show_double demo_whole 5 = show_int 5"
  by (simp_all add: demo_whole_def demo_simps)

lemma demo_five: "fromDecimalString ''5'' = Inr 5"
  using fromDecimalString_show_int [of 5] by (simp add: in_i64_def show_int_def show_nat.simps char_of_def bit_simps)

lemma demo_whole_start:
  "getCurrencyByName demo_whole (currencyNames_testnet ! 0) s = (Inr 0, s)" "symbol_of demo_whole 0 s = (Inr ''FAU'', s)"
  "new_Credit demo_whole p ''FAU'' s = (Inr \<lparr>c_id = p, c_currency = ''FAU'', c_our_credit = 0, c_credit = 0,
     c_balance = 0, c_allocated = 0, c_fee = 0\<rparr>, s)"
proof -
  have "currencyNames_testnet \<noteq> []" by (simp add: currencyNames_testnet_def)
  then show "getCurrencyByName demo_whole (currencyNames_testnet ! 0) s = (Inr 0, s)"
    by (simp add: getCurrencyByName_def table_index_first demo_whole_parts prog_defs)
qed (simp_all add: symbol_of_def new_Credit_def getCurrencyBySymbol_def demo_whole_parts INVALID_def prog_defs
    currencySymbols_testnet_def enumerators_testnet_def)

theorem peers_stay_readable_witness:
  "\<exists>s r a. runs demo_whole (demo_node []) s \<and> t_peers (db_tables s) = [r] \<and> row_account r = Inr a \<and> a_credit a = 5"
proof -
  let ?ev = "Edit_friend ''cy'' (currencyNames_testnet ! 0) ''5''"
  define s where "s = snd (perform demo_whole ?ev (demo_node []))"
  have "perform demo_whole ?ev (demo_node []) = (Inr (), s) \<and> map pr_credit (t_peers (db_tables s)) = [show_int 5]"
    unfolding s_def by (simp add: demo_node_def quietly_def FriendDetailsDialog_editFriend_def demo_whole_start
        Credit_loadPeer_def ZrDB_loadPeer_def Credit_updateCredit_def peerExists_def createPeerRecord_def updatePeerCredit_def
        Credit_publish_def sendCredit_def sendItem_def demo_whole_parts demo_five sql_number_def db_up_def
        peer_is_def prog_defs Let_def demo_tables_def no_quote_def)
  then have r: "runs demo_whole (demo_node []) s" "map pr_credit (t_peers (db_tables s)) = [show_int 5]" using runs.step [OF runs.stay] by blast+
  then obtain x where x: "t_peers (db_tables s) = [x]" "pr_credit x = show_int 5" by auto
  then obtain y where y: "row_account x = Inr y"
    using peers_stay_readable [OF demo_whole_readable r(1)] by (auto simp: demo_node_def peers_ok_def demo_tables_def)
  then have "a_credit y = 5"
    using x(2) by (auto simp: row_account_def ebind_def fromDecimalString_show_int in_i64_def split: sum.splits)
  then show ?thesis using x(1) y r(1) by blast
qed

end
