(* ===== verification/Flood.thy ===== *)
theory Flood
  imports ServiceLaws "HOL-Library.Multiset"
begin

text \<open>
  How an order spreads over a network of nodes: every node runs \<open>handleOrder\<close> on what its friends
  send it, packets arrive in any order. The spreading comes to an end after at most one packet per
  link, it reaches exactly the nodes a chain of credit lines that are not overdrawn leads to, and the routes it leaves
  behind lead back to the node that placed the order.
\<close>

section \<open>One node\<close>

definition side_of :: "Order \<Rightarrow> side" where
  "side_of ord = (if o_orderType ord = ASK then Asks else Bids)"

definition knows :: "Order \<Rightarrow> 'z bookw_scheme \<Rightarrow> bool" where
  "knows ord s \<longleftrightarrow> with_id s Mine (o_order_id ord) \<noteq> None \<or> with_id s (side_of ord) (o_order_id ord) \<noteq> None"

text \<open>A node in working order, whose clock accepts the order.\<close>

definition node_ok :: "ext \<Rightarrow> PeerAddress \<Rightarrow> Order \<Rightarrow> 'z svcw_scheme \<Rightarrow> bool" where
  "node_ok E p ord s \<longleftrightarrow> db_up E \<and> x_own_id E = p \<and> books_inv s \<and> peers_ok (db_tables s) \<and>
     (\<forall>q\<in>set (w_online s). no_quote q) \<and> o_currency ord < length (currencySymbols (x_build E)) \<and>
     clock_ok s ord \<and> in_time E s ord"

text \<open>The friends a node offers the order to.\<close>

definition offers :: "ext \<Rightarrow> Order \<Rightarrow> 'z svcw_scheme \<Rightarrow> PeerAddress list" where
  "offers E ord s = filter (\<lambda>q. q \<noteq> x_own_id E \<and> not_overdrawn E (db_tables s) ord q) (w_online s)"

text \<open>What the spreading of the order leaves alone in a node.\<close>

definition settings :: "'z svcw_scheme \<Rightarrow> PeerAddress list \<times> int \<times> tables" where
  "settings s = (w_online s, w_now s, db_tables s)"

lemma settings_cong:
  assumes "settings t = settings s"
  shows "offers E ord t = offers E ord s" "node_ok E p ord s \<Longrightarrow> books_inv t \<Longrightarrow> node_ok E p ord t"
  using assms by (auto simp: settings_def offers_def node_ok_def clock_ok_def in_time_def)

lemma unseen_not_known:
  assumes "node_ok E p ord s" and "o_purpose ord = NEW" and "\<not> knows ord s"
  shows "unseen E ord s"
  using assms by (auto simp: unseen_def node_ok_def knows_def side_of_def)

lemma settings_received:
  "settings (added E sd r (received ord peer s)) = settings s"
  "settings (published E ord' origin ps s) = settings s" "settings (received ord peer s) = settings s"
  by (simp_all add: settings_def received_def published_def)

lemma knows_added:
  assumes "books_inv s"
  shows "knows ord (added E (side_of ord) (b_next s) (received ord peer s))"
proof -
  let ?t = "added E (side_of ord) (b_next s) (received ord peer s)"
  have "oid ?t (b_next s) = o_order_id ord" "b_next s \<in> set (refs ?t (side_of ord))"
    by (simp_all add: oid_def received_def)
  then show ?thesis by (force simp: knows_def with_id_None)
qed

lemma same_book_knows:
  assumes "b_heap t = b_heap s" and "b_book t = b_book s"
  shows "knows ord t = knows ord s"
  unfolding knows_def with_id_def oid_def assms by (rule refl)

text \<open>A node that has the order gets it again: nothing is sent on.\<close>

lemma known_step:
  assumes "node_ok E p ord s" and "o_purpose ord = NEW" and "knows ord s"
  shows "\<exists>t. handleOrder E peer ord s = (Inr (), t) \<and> settings t = settings s \<and> books_inv t \<and> knows ord t \<and>
    s_sent t = s_sent s \<and> n_router t = n_router (with_route (o_order_id ord) peer s)"
proof -
  let ?u = "received ord peer s"
  let ?t = "freed (b_next s) ?u"
  have n: "db_up E" "books_inv s" "clock_ok s ord" using assms(1) by (simp_all add: node_ok_def)
  note r = received_ok [OF n(2), where ord = ord and peer = peer]
  have "fst (processed E (side_of ord) (b_next s) ?u) \<noteq> ZR_SUCCESS" "snd (processed E (side_of ord) (b_next s) ?u) = ?u"
    using assms(2,3) by (auto simp: processed_def Let_def r(3,4) knows_def)
  moreover have d: "delete_order (b_next s) ?u = (Inr (), ?t)"
    using r(2) get_order_ok [of "b_next s" ?u] by (simp add: delete_order_def fresh_ref_def freed_def prog_apply bnd_def)
  ultimately have "handleOrder E peer ord s = (Inr (), ?t)"
    by (simp add: handleOrder_steps [OF n] Let_def side_of_def [symmetric] case_prod_beta)
  moreover have "books_inv ?t" using r(1,2) by (intro books_inv_freed) (simp_all add: fresh_ref_def)
  moreover have w: "with_id ?t sd i = with_id s sd i" for sd i
  proof -
    have "refs ?t sd = refs s sd" by (simp add: received_def)
    moreover have "\<forall>q\<in>set (refs s sd). oid ?t q = oid s q"
      using in_refs_less [OF n(2)] by (auto simp: oid_def received_def)
    ultimately show ?thesis by (simp add: with_id_def cong: find_cong)
  qed
  then have "knows ord ?t" using assms(3) by (simp add: knows_def)
  moreover have "settings ?t = settings s" "s_sent ?t = s_sent s" "n_router ?t = n_router (with_route (o_order_id ord) peer s)"
    by (simp_all add: settings_def received_def freed_def with_route_def arrive_def)
  ultimately show ?thesis by blast
qed

text \<open>A node that does not have it keeps it and offers it to its friends, but not back.\<close>

lemma unknown_step:
  assumes "node_ok E p ord s" and "o_purpose ord = NEW" and "no_quote (o_order_id ord)" and "\<not> knows ord s"
  shows "\<exists>t. handleOrder E peer ord s = (Inr (), t) \<and> settings t = settings s \<and> books_inv t \<and> knows ord t \<and>
    s_sent t = s_sent s @ map (order_packet ord) (filter (\<lambda>q. q \<noteq> peer) (offers E ord s)) \<and>
    n_router t = n_router (with_route (o_order_id ord) peer s)"
proof -
  let ?u = "added E (side_of ord) (b_next s) (received ord peer s)"
  let ?t = "published E ord (Some peer) (w_online s) ?u"
  have n: "db_up E" "books_inv s" "peers_ok (db_tables s)" "\<forall>q\<in>set (w_online s). no_quote q"
    "o_currency ord < length (currencySymbols (x_build E))" using assms(1) by (simp_all add: node_ok_def)
  note r = received_ok [OF n(2), where ord = ord and peer = peer]
  have "handleOrder E peer ord s = (Inr (), ?t)"
    by (rule relayed_run [OF n(1-3) unseen_not_known [OF assms(1,2,4)] n(5,4) side_of_def])
  moreover have i: "oid (received ord peer s) (b_next s) = o_order_id ord" using r(3) by (simp add: oid_def)
  have "books_inv ?u"
    using assms(3,4) by (intro books_inv_added [OF r(1,2)]) (simp_all add: i r(4) knows_def)
  then have "books_inv ?t" by (simp add: same_books(1) [of ?t ?u])
  moreover have "knows ord ?t"
    using knows_added [OF n(2)] by (simp add: same_book_knows [of ?t ?u])
  moreover have "filter (\<lambda>q. concerned E (Some peer) q \<and> not_overdrawn E (db_tables ?u) ord q) (w_online s) =
      filter (\<lambda>q. q \<noteq> peer) (offers E ord s)"
    by (auto simp: offers_def concerned_def received_def intro!: filter_cong)
  then have "s_sent ?t = s_sent s @ map (order_packet ord) (filter (\<lambda>q. q \<noteq> peer) (offers E ord s))"
    by (simp add: published_def received_def with_route_def arrive_def)
  moreover have "n_router ?t = n_router (with_route (o_order_id ord) peer s)"
    by (simp add: received_def with_route_def)
  ultimately show ?thesis using settings_received by metis
qed

section \<open>The network\<close>

text \<open>An order on its way: the addressee, the sender and the order. Packets arrive in any order.\<close>

type_synonym flight = "PeerAddress \<times> PeerAddress \<times> Order"

definition flights :: "PeerAddress \<Rightarrow> 'z svcw_scheme \<Rightarrow> 'z svcw_scheme \<Rightarrow> flight multiset" where
  "flights p s t = mset (concat (map (\<lambda>pk. case pk_item pk of OrderBookItem addr ord \<Rightarrow> [(pk_peer pk, p, ord)] | _ \<Rightarrow> [])
     (drop (length (s_sent s)) (s_sent t))))"

inductive deliver :: "(PeerAddress \<Rightarrow> ext) \<Rightarrow> (PeerAddress \<Rightarrow> 'z svcw_scheme) \<times> flight multiset
    \<Rightarrow> (PeerAddress \<Rightarrow> 'z svcw_scheme) \<times> flight multiset \<Rightarrow> bool" for E where
  arrives: "(q, p, ord) \<in># F \<Longrightarrow> handleOrder (E q) p ord (S q) = (Inr (), t) \<Longrightarrow>
     deliver E (S, F) (S(q := t), F - {#(q, p, ord)#} + flights q (S q) t)"

inductive_cases deliverE: "deliver E (S, F) c"

definition network :: "(PeerAddress \<Rightarrow> ext) \<Rightarrow> PeerAddress set \<Rightarrow> Order \<Rightarrow> (PeerAddress \<Rightarrow> 'z svcw_scheme) \<Rightarrow> bool" where
  "network E N ord S \<longleftrightarrow> finite N \<and> o_purpose ord = NEW \<and> no_quote (o_order_id ord) \<and>
     (\<forall>p\<in>N. node_ok (E p) p ord (S p) \<and> set (w_online (S p)) \<subseteq> N)"

definition link :: "(PeerAddress \<Rightarrow> ext) \<Rightarrow> Order \<Rightarrow> (PeerAddress \<Rightarrow> 'z svcw_scheme) \<Rightarrow> PeerAddress \<Rightarrow> PeerAddress \<Rightarrow> bool" where
  "link E ord S p q \<longleftrightarrow> q \<in> set (offers (E p) ord (S p))"

text \<open>A node that has the order of somebody else points to where it came from.\<close>

definition leads :: "Order \<Rightarrow> (PeerAddress \<Rightarrow> 'z svcw_scheme) \<Rightarrow> PeerAddress \<Rightarrow> PeerAddress \<Rightarrow> bool" where
  "leads ord S p q \<longleftrightarrow> knows ord (S p) \<and> TraceRouter_hasRoute (n_router (S p)) (o_order_id ord) \<and>
     TraceRouter_nextHop (n_router (S p)) (o_order_id ord) = q"

lemma flights_sent:
  assumes "s_sent t = s_sent s @ map (order_packet ord) qs"
  shows "flights p s t = mset (map (\<lambda>q. (q, p, ord)) qs)"
proof -
  have "concat (map (\<lambda>pk. case pk_item pk of OrderBookItem addr ord \<Rightarrow> [(pk_peer pk, p, ord)] | _ \<Rightarrow> []) (map (order_packet ord) qs))
    = map (\<lambda>q. (q, p, ord)) qs"
    by (induction qs) (simp_all add: order_packet_def)
  then show ?thesis by (simp add: flights_def assms)
qed

text \<open>
  While the order spreads from \<open>p0\<close>: what is on its way was sent along a link by a node that has the
  order; behind a link from a node that has it, the order is there or on its way; whoever has it was
  reached from \<open>p0\<close>, and its routes lead back.
\<close>

definition spreading :: "(PeerAddress \<Rightarrow> ext) \<Rightarrow> PeerAddress set \<Rightarrow> Order \<Rightarrow> PeerAddress \<Rightarrow> (PeerAddress \<Rightarrow> PeerAddress \<Rightarrow> bool)
    \<Rightarrow> (PeerAddress \<Rightarrow> 'z svcw_scheme) \<Rightarrow> flight multiset \<Rightarrow> bool" where
  "spreading E N ord p0 L S F \<longleftrightarrow> network E N ord S \<and> link E ord S = L \<and> p0 \<in> N \<and> knows ord (S p0) \<and>
     (\<forall>(q, p, x)\<in>#F. x = ord \<and> p \<in> N \<and> L p q \<and> knows ord (S p)) \<and>
     (\<forall>p\<in>N. \<forall>q. knows ord (S p) \<longrightarrow> L p q \<longrightarrow> knows ord (S q) \<or> (\<exists>r. (q, r, ord) \<in># F)) \<and>
     (\<forall>p\<in>N. knows ord (S p) \<longrightarrow> L\<^sup>*\<^sup>* p0 p) \<and>
     (\<forall>p\<in>N - {p0}. TraceRouter_hasRoute (n_router (S p)) (o_order_id ord) = knows ord (S p)) \<and>
     (\<forall>p\<in>N. knows ord (S p) \<longrightarrow> (\<lambda>x y. x \<noteq> p0 \<and> leads ord S x y)\<^sup>*\<^sup>* p p0)"

lemma link_in: "network E N ord S \<Longrightarrow> p \<in> N \<Longrightarrow> link E ord S p q \<Longrightarrow> q \<in> N \<and> q \<noteq> p"
  by (auto simp: network_def link_def offers_def node_ok_def)

text \<open>A step of one node in a network.\<close>

lemma node_step:
  assumes "network E N ord S" and "q \<in> N"
  shows "\<exists>t. handleOrder (E q) p ord (S q) = (Inr (), t) \<and> network E N ord (S(q := t)) \<and> link E ord (S(q := t)) = link E ord S \<and>
    knows ord t \<and> w_online t = w_online (S q) \<and> n_router t = n_router (with_route (o_order_id ord) p (S q)) \<and>
    flights q (S q) t = (if knows ord (S q) then {#} else mset (map (\<lambda>r. (r, q, ord)) (filter (\<lambda>r. r \<noteq> p) (offers (E q) ord (S q)))))"
proof -
  have n: "node_ok (E q) q ord (S q)" "o_purpose ord = NEW" "no_quote (o_order_id ord)" using assms by (simp_all add: network_def)
  obtain t where t: "handleOrder (E q) p ord (S q) = (Inr (), t)" "settings t = settings (S q)" "books_inv t" "knows ord t"
    "n_router t = n_router (with_route (o_order_id ord) p (S q))"
    "s_sent t = s_sent (S q) @ map (order_packet ord) (if knows ord (S q) then [] else filter (\<lambda>r. r \<noteq> p) (offers (E q) ord (S q)))"
    using known_step [OF n(1,2), of p] unknown_step [OF n, of p] by (cases "knows ord (S q)") auto
  have "network E N ord (S(q := t))"
    using assms settings_cong(2) [OF t(2) n(1) t(3)] t(2) by (auto simp: network_def settings_def)
  moreover have "link E ord (S(q := t)) = link E ord S"
    using settings_cong(1) [OF t(2)] by (auto simp: link_def fun_eq_iff)
  ultimately show ?thesis using t flights_sent [OF t(6), of q] by (auto simp: settings_def)
qed

lemma path_mono: "R\<^sup>*\<^sup>* a b \<Longrightarrow> (\<And>x y. R x y \<Longrightarrow> R' x y) \<Longrightarrow> R'\<^sup>*\<^sup>* a b"
  by (induction rule: rtranclp_induct) (auto intro: rtranclp.rtrancl_into_rtrancl)

lemma length_offers: "length (offers E ord s) \<le> length (w_online s)" "length (filter P (offers E ord s)) \<le> length (w_online s)"
proof -
  show "length (offers E ord s) \<le> length (w_online s)" by (simp only: offers_def length_filter_le)
  then show "length (filter P (offers E ord s)) \<le> length (w_online s)" using length_filter_le order_trans by blast
qed

lemma with_route_leads:
  "TraceRouter_hasRoute (n_router s) i \<Longrightarrow> n_router (with_route i p s) = n_router s"
  "TraceRouter_hasRoute (n_router (with_route i p s)) i"
  "\<not> TraceRouter_hasRoute (n_router s) i \<Longrightarrow> TraceRouter_nextHop (n_router (with_route i p s)) i = p"
  by (simp_all add: with_route_def TraceRouter_hasRoute_def TraceRouter_addRoute_def TraceRouter_nextHop_def)

lemma spreading_delivers:
  assumes "spreading E N ord p0 L S F" and "deliver E (S, F) (S', F')"
  shows "\<exists>q p t. (q, p, ord) \<in># F \<and> q \<in> N \<and> p \<in> N \<and> L p q \<and> knows ord (S p) \<and> S' = S(q := t) \<and>
    network E N ord S' \<and> link E ord S' = L \<and> knows ord t \<and> w_online t = w_online (S q) \<and>
    n_router t = n_router (with_route (o_order_id ord) p (S q)) \<and>
    F' = F - {#(q, p, ord)#} +
      (if knows ord (S q) then {#} else mset (map (\<lambda>r. (r, q, ord)) (filter (\<lambda>r. r \<noteq> p) (offers (E q) ord (S q)))))"
proof -
  obtain q p x t where f: "(q, p, x) \<in># F" "handleOrder (E q) p x (S q) = (Inr (), t)" "S' = S(q := t)"
    "F' = F - {#(q, p, x)#} + flights q (S q) t" using assms(2) by (auto elim: deliverE)
  have s: "network E N ord S" "link E ord S = L" "x = ord" "p \<in> N" "L p q" "knows ord (S p)"
    using assms(1) f(1) by (auto simp: spreading_def)
  have q: "q \<in> N" using link_in [OF s(1,4)] s(2,5) by blast
  from node_step [OF s(1) q, of p] f(2) s(3) obtain
    "network E N ord (S(q := t))" "link E ord (S(q := t)) = link E ord S" "knows ord t" "w_online t = w_online (S q)"
    "n_router t = n_router (with_route (o_order_id ord) p (S q))"
    "flights q (S q) t = (if knows ord (S q) then {#} else mset (map (\<lambda>r. (r, q, ord)) (filter (\<lambda>r. r \<noteq> p) (offers (E q) ord (S q)))))"
    by auto
  then show ?thesis using f s q by (intro exI [of _ q] exI [of _ p] exI [of _ t]) simp
qed

lemma spreading_step:
  assumes "spreading E N ord p0 L S F" and "deliver E (S, F) (S', F')"
  shows "spreading E N ord p0 L S' F'"
proof -
  obtain q p t where st: "(q, p, ord) \<in># F" "q \<in> N" "p \<in> N" "L p q" "knows ord (S p)" "S' = S(q := t)"
    "network E N ord S'" "link E ord S' = L" "knows ord t"
    "n_router t = n_router (with_route (o_order_id ord) p (S q))"
    "F' = F - {#(q, p, ord)#} +
      (if knows ord (S q) then {#} else mset (map (\<lambda>r. (r, q, ord)) (filter (\<lambda>r. r \<noteq> p) (offers (E q) ord (S q)))))"
    using spreading_delivers [OF assms] by blast
  have sp: "link E ord S = L" "p0 \<in> N" "knows ord (S p0)"
    "\<forall>(q, p, x)\<in>#F. x = ord \<and> p \<in> N \<and> L p q \<and> knows ord (S p)"
    "\<forall>p\<in>N. \<forall>q. knows ord (S p) \<longrightarrow> L p q \<longrightarrow> knows ord (S q) \<or> (\<exists>r. (q, r, ord) \<in># F)"
    "\<forall>p\<in>N. knows ord (S p) \<longrightarrow> L\<^sup>*\<^sup>* p0 p"
    "\<forall>p\<in>N - {p0}. TraceRouter_hasRoute (n_router (S p)) (o_order_id ord) = knows ord (S p)"
    "\<forall>p\<in>N. knows ord (S p) \<longrightarrow> (\<lambda>x y. x \<noteq> p0 \<and> leads ord S x y)\<^sup>*\<^sup>* p p0"
    using assms(1) unfolding spreading_def by blast+
  have k: "knows ord (S' r) \<longleftrightarrow> r = q \<or> knows ord (S r)" for r using st(6,9) by simp
  have l: "L q r \<longleftrightarrow> r \<in> set (offers (E q) ord (S q))" for r using sp(1) by (auto simp: link_def)
  have c1: "\<forall>(q, p, x)\<in>#F'. x = ord \<and> p \<in> N \<and> L p q \<and> knows ord (S' p)"
    using sp(4) st(2) by (auto simp: st(11) k l dest: in_diffD)
  have c2: "\<forall>a\<in>N. \<forall>b. knows ord (S' a) \<longrightarrow> L a b \<longrightarrow> knows ord (S' b) \<or> (\<exists>r. (b, r, ord) \<in># F')"
  proof (intro ballI allI impI)
    fix a b assume a: "a \<in> N" "knows ord (S' a)" "L a b"
    show "knows ord (S' b) \<or> (\<exists>r. (b, r, ord) \<in># F')"
    proof (cases "knows ord (S a)")
      case True
      then consider "knows ord (S b)" | r where "(b, r, ord) \<in># F" using sp(5) a by blast
      then show ?thesis
      proof cases
        case 2
        show ?thesis
        proof (cases "b = q")
          case False
          then have "(b, r, ord) \<in># F - {#(q, p, ord)#}" using 2 False by (simp add: in_diff_count)
          then show ?thesis unfolding st(11) by (auto intro!: exI [of _ r])
        qed (simp add: k)
      qed (simp add: k)
    next
      case False
      then have q: "a = q" "\<not> knows ord (S q)" using a(2) k [of a] by auto
      show ?thesis
      proof (cases "b = p")
        case False
        then have "(b, q, ord) \<in># F'" using a(3) q l by (auto simp: st(11))
        then show ?thesis by blast
      qed (use st(5) k in blast)
    qed
  qed
  have c3: "\<forall>r\<in>N. knows ord (S' r) \<longrightarrow> L\<^sup>*\<^sup>* p0 r"
    using sp(6) st(3-5) k by (metis rtranclp.rtrancl_into_rtrancl)
  have c4: "\<forall>r\<in>N - {p0}. TraceRouter_hasRoute (n_router (S' r)) (o_order_id ord) = knows ord (S' r)"
    using sp(7) k st(6,9,10) with_route_leads(2) by auto
  have c5: "\<forall>r\<in>N. knows ord (S' r) \<longrightarrow> (\<lambda>x y. x \<noteq> p0 \<and> leads ord S' x y)\<^sup>*\<^sup>* r p0"
  proof -
    have m: "x \<noteq> p0 \<and> leads ord S x y \<Longrightarrow> x \<noteq> p0 \<and> leads ord S' x y" for x y
      using st(6,9,10) with_route_leads(1) [where s = "S q"] by (auto simp: leads_def)
    have up: "(\<lambda>x y. x \<noteq> p0 \<and> leads ord S x y)\<^sup>*\<^sup>* a b \<Longrightarrow> (\<lambda>x y. x \<noteq> p0 \<and> leads ord S' x y)\<^sup>*\<^sup>* a b" for a b
      by (erule path_mono) (rule m)
    have new: "(\<lambda>x y. x \<noteq> p0 \<and> leads ord S' x y)\<^sup>*\<^sup>* q p0" if "\<not> knows ord (S q)"
    proof -
      have "q \<noteq> p0" using that sp(3) by blast
      moreover from this have "leads ord S' q p"
        using that sp(7) st(2,6,9,10) with_route_leads(2,3) [where s = "S q" and i = "o_order_id ord" and p = p] by (auto simp: leads_def)
      moreover have "(\<lambda>x y. x \<noteq> p0 \<and> leads ord S' x y)\<^sup>*\<^sup>* p p0" using up sp(8) st(3,5) by blast
      ultimately show ?thesis by (simp add: converse_rtranclp_into_rtranclp)
    qed
    show ?thesis
    proof (intro ballI impI)
      fix r assume "r \<in> N" "knows ord (S' r)"
      then show "(\<lambda>x y. x \<noteq> p0 \<and> leads ord S' x y)\<^sup>*\<^sup>* r p0"
        using up [of r p0] sp(8) new k [of r] by (cases "knows ord (S r)") auto
    qed
  qed
  have "knows ord (S' p0)" using sp(3) k by blast
  then show ?thesis unfolding spreading_def by (intro conjI st(7,8) sp(2) c1 c2 c3 c4 c5)
qed

lemma spreading_run:
  assumes "(deliver E)\<^sup>*\<^sup>* (S, F) (S', F')" and "spreading E N ord p0 L S F"
  shows "spreading E N ord p0 L S' F'"
  using assms by (induction rule: rtranclp_induct2) (auto intro: spreading_step)

section \<open>The measure\<close>

text \<open>What is on its way, and the friends of the nodes that do not have the order yet.\<close>

definition potential :: "PeerAddress set \<Rightarrow> Order \<Rightarrow> (PeerAddress \<Rightarrow> 'z svcw_scheme) \<Rightarrow> flight multiset \<Rightarrow> nat" where
  "potential N ord S F = size F + (\<Sum>p\<in>{p \<in> N. \<not> knows ord (S p)}. length (w_online (S p)))"

lemma potential_step:
  assumes "spreading E N ord p0 L S F" and "deliver E (S, F) (S', F')"
  shows "Suc (potential N ord S' F') \<le> potential N ord S F"
proof -
  obtain q p t where st: "(q, p, ord) \<in># F" "q \<in> N" "S' = S(q := t)" "knows ord t" "w_online t = w_online (S q)"
    "F' = F - {#(q, p, ord)#} +
      (if knows ord (S q) then {#} else mset (map (\<lambda>r. (r, q, ord)) (filter (\<lambda>r. r \<noteq> p) (offers (E q) ord (S q)))))"
    using spreading_delivers [OF assms] by blast
  have fin: "finite N" using assms(1) by (simp add: spreading_def network_def)
  let ?U = "\<lambda>S. {p \<in> N. \<not> knows ord (S p)}"
  have F: "Suc (size (F - {#(q, p, ord)#})) = size F" using st(1) by (metis size_Suc_Diff1)
  have w: "(\<Sum>p\<in>?U S'. length (w_online (S' p))) = (\<Sum>p\<in>?U S'. length (w_online (S p)))"
    using st(3,5) by (intro sum.cong) auto
  show ?thesis
  proof (cases "knows ord (S q)")
    case True
    then have "?U S' = ?U S" using st(3,4) by auto
    then show ?thesis using F w st(6) True by (simp add: potential_def)
  next
    case False
    then have "?U S = insert q (?U S')" "q \<notin> ?U S'" using st(2,3,4) by auto
    then have "(\<Sum>p\<in>?U S. length (w_online (S p))) = length (w_online (S q)) + (\<Sum>p\<in>?U S'. length (w_online (S p)))"
      using fin by simp
    moreover have "length (filter (\<lambda>r. r \<noteq> p) (offers (E q) ord (S q))) \<le> length (w_online (S q))"
      by (rule length_offers)
    moreover have "size F' = size (F - {#(q, p, ord)#}) + length (filter (\<lambda>r. r \<noteq> p) (offers (E q) ord (S q)))"
      using False unfolding st(6) by (simp only: if_False size_union size_mset length_map)
    ultimately show ?thesis using F w by (simp add: potential_def)
  qed
qed

lemma potential_run:
  assumes "(deliver E ^^ n) (S, F) (S', F')" and "spreading E N ord p0 L S F"
  shows "n + potential N ord S' F' \<le> potential N ord S F \<and> spreading E N ord p0 L S' F'"
  using assms(1)
proof (induction n arbitrary: S' F')
  case (Suc n)
  then obtain T G where "(deliver E ^^ n) (S, F) (T, G)" "deliver E (T, G) (S', F')" by auto
  with Suc.IH [of T G] potential_step [of E N ord p0 L T G S' F'] spreading_step [of E N ord p0 L T G S' F']
  show ?case by simp
qed (use assms(2) in simp)

lemma never_stuck:
  assumes "spreading E N ord p0 L S F" and "F \<noteq> {#}"
  shows "\<exists>c. deliver E (S, F) c"
proof -
  obtain f where "f \<in># F" using assms(2) by blast
  moreover obtain q p x where f: "f = (q, p, x)" by (cases f)
  ultimately have s: "(q, p, x) \<in># F" "x = ord" "p \<in> N" "L p q" "network E N ord S" "link E ord S = L"
    using assms(1) by (auto simp: spreading_def)
  then have "q \<in> N" using link_in by metis
  with node_step [OF s(5), of q p] s deliver.arrives [of q p x F E S] show ?thesis by blast
qed

section \<open>Placing an order\<close>

text \<open>The author stores the order, lists it twice and offers it to all friends.\<close>

lemma placed_run:
  assumes "node_ok E p ord s" and "no_quote (o_order_id ord)" and "fresh_ref s r" and "obj s r = ord" and "\<not> knows ord s"
  shows "\<exists>t. OrderBook_processMyOrder E (side_of ord) r s = (Inr ZR_SUCCESS, t) \<and> node_ok E p ord t \<and> knows ord t \<and>
    w_online t = w_online s \<and> offers E ord t = offers E ord s \<and>
    s_sent t = s_sent s @ map (order_packet ord) (offers E ord s)"
proof -
  have n: "db_up E" "books_inv s" "peers_ok (db_tables s)" "\<forall>q\<in>set (w_online s). no_quote q"
    "o_currency ord < length (currencySymbols (x_build E))" "o_currency ord < INVALID (x_build E)"
    using assms(1) by (simp_all add: node_ok_def INVALID_def tables_aligned)
  have r: "r \<in> dom (b_heap s)" "r \<notin> set (refs s sd)" "oid s r = o_order_id ord" "no_quote (oid s r)" for sd
    using assms(2-4) by (simp_all add: fresh_ref_side oid_def) (simp add: fresh_ref_def)
  obtain rows where db: "ZrDB_addOrder E ord s = (Inr (), tick s\<lparr>db_tables := (db_tables s)\<lparr>t_myorders := rows\<rparr>\<rparr>)"
    using ZrDB_addOrder_ok [OF n(1) assms(2) n(6)] by blast
  let ?s1 = "tick s\<lparr>db_tables := (db_tables s)\<lparr>t_myorders := rows\<rparr>\<rparr>"
  let ?s2 = "added E Mine r ?s1"
  let ?s3 = "added E (side_of ord) r ?s2"
  let ?t = "published E ord None (w_online s) ?s3"
  have o: "oid ?s1 = oid s" "oid ?s2 = oid s" "oid ?s3 = oid s" "oid ?t = oid s" by (simp_all add: oid_def fun_eq_iff)
  have i: "o_order_id ord \<notin> oid s ` set (refs s Mine)" "o_order_id ord \<notin> oid s ` set (refs s (side_of ord))"
    using assms(5) by (simp_all add: knows_def with_id_None)
  have b1: "book_inv ?s1 sd" for sd using books_inv_book [OF n(2), of sd] by (simp add: book_inv_def o)
  have b2: "book_inv ?s2 sd" for sd by (rule book_inv_added [OF b1]) (use r i in \<open>simp_all add: o\<close>)
  have b3: "book_inv ?s3 sd" for sd by (rule book_inv_added [OF b2]) (use r i in \<open>auto simp: o side_of_def\<close>)
  have "book_inv ?t sd" for sd using b3 [of sd] by (simp add: book_inv_def o)
  moreover have "set (refs ?t Bids) \<inter> set (refs ?t Asks) = {}"
    using n(2) r(2) by (auto simp: books_inv_def side_of_def)
  moreover have "\<forall>x\<in>dom (b_heap ?t). x < b_next ?t" using n(2) by (simp add: books_inv_def)
  ultimately have bt: "books_inv ?t" by (simp add: books_inv_def)
  have pb: "publishable E r ?s3" using n r(1) assms(4) by (simp add: publishable_def)
  have "get_order r s = (Inr ord, s)" using get_order_ok [OF r(1)] assms(4) by simp
  then have "OrderBook_processMyOrder E (side_of ord) r s = (Inr ZR_SUCCESS, ?t)"
    using addOrder_ok [OF b1, of r E Mine] addOrder_ok [OF b2, of r E "side_of ord"] publish_all [OF pb, of "w_online s" None] n(4) r(1) assms(4)
    by (simp add: OrderBook_processMyOrder_def bnd_def [of "try_catch _ _ _"] try_catch_def bnd_def [of "get_order _"] db thn_def
        bnd_def [of "ZrDB_addOrder _ _"] bnd_def [of "OrderBook_addOrder _ _ _"] publishOrder_def prog_step prog_apply
        bnd_def [of "for_each _ _"])
  moreover have "node_ok E p ord ?t" using assms(1) bt by (simp add: node_ok_def clock_ok_def in_time_def published_def)
  moreover have "knows ord ?t"
  proof -
    have "r \<in> set (refs ?t Mine)" "oid ?t r = o_order_id ord" using r(3) by (simp_all add: o)
    then show ?thesis by (force simp: knows_def with_id_None)
  qed
  moreover have "s_sent ?t = s_sent s @ map (order_packet ord) (offers E ord s)"
    by (simp add: published_def offers_def concerned_def not_overdrawn_def account_at_def cong: conj_cong)
  moreover have "offers E ord ?t = offers E ord s" by (simp add: offers_def not_overdrawn_def account_at_def cong: conj_cong)
  ultimately show ?thesis by (intro exI [of _ ?t]) simp
qed

text \<open>Nobody has heard of the order yet.\<close>

definition unheard :: "PeerAddress set \<Rightarrow> Order \<Rightarrow> (PeerAddress \<Rightarrow> 'z svcw_scheme) \<Rightarrow> bool" where
  "unheard N ord S \<longleftrightarrow> (\<forall>q\<in>N. \<not> knows ord (S q) \<and> \<not> TraceRouter_hasRoute (n_router (S q)) (o_order_id ord))"

lemma spreading_start:
  assumes "network E N ord S" and "p \<in> N" and "unheard N ord S" and "fresh_ref (S p) r" and "obj (S p) r = ord"
  shows "\<exists>t. OrderBook_processMyOrder (E p) (side_of ord) r (S p) = (Inr ZR_SUCCESS, t) \<and>
    spreading E N ord p (link E ord S) (S(p := t)) (flights p (S p) t) \<and>
    potential N ord (S(p := t)) (flights p (S p) t) \<le> (\<Sum>q\<in>N. length (w_online (S q)))"
proof -
  let ?L = "link E ord S"
  have n: "finite N" "node_ok (E p) p ord (S p)" "no_quote (o_order_id ord)" "\<not> knows ord (S p)"
    using assms(1-3) by (simp_all add: network_def unheard_def)
  obtain t where t: "OrderBook_processMyOrder (E p) (side_of ord) r (S p) = (Inr ZR_SUCCESS, t)" "node_ok (E p) p ord t"
    "knows ord t" "w_online t = w_online (S p)" "offers (E p) ord t = offers (E p) ord (S p)"
    "s_sent t = s_sent (S p) @ map (order_packet ord) (offers (E p) ord (S p))"
    using placed_run [OF n(2,3) assms(4,5) n(4)] by blast
  let ?S = "S(p := t)" and ?F = "flights p (S p) t"
  have F: "?F = mset (map (\<lambda>q. (q, p, ord)) (offers (E p) ord (S p)))" by (rule flights_sent [OF t(6)])
  have k: "knows ord (?S q) \<longleftrightarrow> q = p" if "q \<in> N" for q using that assms(3) t(3) by (simp add: unheard_def)
  have c1: "network E N ord ?S" using assms(1) t(2,4) by (simp add: network_def)
  have c2: "link E ord ?S = ?L" using t(5) by (auto simp: link_def fun_eq_iff)
  have c3: "\<forall>(q, p', x)\<in>#?F. x = ord \<and> p' \<in> N \<and> ?L p' q \<and> knows ord (?S p')"
    using assms(2) t(3) by (auto simp: F link_def)
  have c4: "\<forall>a\<in>N. \<forall>b. knows ord (?S a) \<longrightarrow> ?L a b \<longrightarrow> knows ord (?S b) \<or> (\<exists>r. (b, r, ord) \<in># ?F)"
    using k by (auto simp: F link_def)
  have c5: "\<forall>a\<in>N. knows ord (?S a) \<longrightarrow> ?L\<^sup>*\<^sup>* p a" using k by auto
  have c6: "\<forall>q\<in>N - {p}. TraceRouter_hasRoute (n_router (?S q)) (o_order_id ord) = knows ord (?S q)"
    using assms(3) by (simp add: unheard_def)
  have c7: "\<forall>a\<in>N. knows ord (?S a) \<longrightarrow> (\<lambda>x y. x \<noteq> p \<and> leads ord ?S x y)\<^sup>*\<^sup>* a p" using k by auto
  have k0: "knows ord (?S p)" using t(3) by simp
  have "spreading E N ord p ?L ?S ?F" unfolding spreading_def by (intro conjI c1 c2 assms(2) k0 c3 c4 c5 c6 c7)
  moreover have "potential N ord ?S ?F \<le> (\<Sum>q\<in>N. length (w_online (S q)))"
  proof -
    have u: "{q \<in> N. \<not> knows ord (?S q)} = N - {p}" using k by blast
    have "size ?F \<le> length (w_online (S p))" by (simp only: F size_mset length_map length_offers)
    moreover have "(\<Sum>q\<in>N. length (w_online (S q))) = length (w_online (S p)) + (\<Sum>q\<in>N - {p}. length (w_online (S q)))"
      by (rule sum.remove [OF n(1) assms(2)])
    ultimately show ?thesis unfolding potential_def u by simp
  qed
  ultimately show ?thesis using t(1) by blast
qed

section \<open>The order reaches everyone it can\<close>

text \<open>
  C22: A new order stops spreading. Placed on one node of a network in which nobody has heard of it,
  it is accepted, and whatever order the packets arrive in, there are at most as many deliveries as
  there are friends online, counted over all nodes; as long as a packet is on its way, the node it
  goes to can handle it.
\<close>

theorem order_spread_ends:
  assumes "network E N ord S" and "p \<in> N" and "unheard N ord S" and "fresh_ref (S p) r" and "obj (S p) r = ord"
  shows "\<exists>t. OrderBook_processMyOrder (E p) (side_of ord) r (S p) = (Inr ZR_SUCCESS, t) \<and>
    (\<forall>n S' F'. (deliver E ^^ n) (S(p := t), flights p (S p) t) (S', F') \<longrightarrow>
       n \<le> (\<Sum>q\<in>N. length (w_online (S q))) \<and> (F' \<noteq> {#} \<longrightarrow> (\<exists>c. deliver E (S', F') c)))"
proof -
  obtain t where t: "OrderBook_processMyOrder (E p) (side_of ord) r (S p) = (Inr ZR_SUCCESS, t)"
    "spreading E N ord p (link E ord S) (S(p := t)) (flights p (S p) t)"
    "potential N ord (S(p := t)) (flights p (S p) t) \<le> (\<Sum>q\<in>N. length (w_online (S q)))"
    using spreading_start [OF assms] by blast
  then show ?thesis using potential_run [OF _ t(2)] never_stuck by (fastforce intro!: exI [of _ t])
qed

text \<open>
  C4: A new order reaches exactly the nodes it can reach. When no packet is left, a node has the
  order just when a chain of friends leads to it from the author's node, each online for the one
  before it and with a credit line there that is not overdrawn.
\<close>

theorem order_reaches_everyone:
  assumes "network E N ord S" and "p \<in> N" and "unheard N ord S" and "fresh_ref (S p) r" and "obj (S p) r = ord"
  shows "\<exists>t. OrderBook_processMyOrder (E p) (side_of ord) r (S p) = (Inr ZR_SUCCESS, t) \<and>
    (\<forall>S'. (deliver E)\<^sup>*\<^sup>* (S(p := t), flights p (S p) t) (S', {#}) \<longrightarrow>
       (\<forall>q\<in>N. knows ord (S' q) \<longleftrightarrow> (\<lambda>a b. b \<in> set (w_online (S a)) \<and> b \<noteq> a \<and>
          not_overdrawn (E a) (db_tables (S a)) ord b)\<^sup>*\<^sup>* p q))"
proof -
  let ?L = "link E ord S" and ?R = "\<lambda>a b. b \<in> set (w_online (S a)) \<and> b \<noteq> a \<and> not_overdrawn (E a) (db_tables (S a)) ord b"
  obtain t where t: "OrderBook_processMyOrder (E p) (side_of ord) r (S p) = (Inr ZR_SUCCESS, t)"
    "spreading E N ord p ?L (S(p := t)) (flights p (S p) t)"
    using spreading_start [OF assms] by blast
  have R: "a \<in> N \<Longrightarrow> ?R a b \<longleftrightarrow> ?L a b" for a b
    using assms(1) by (auto simp: network_def link_def offers_def node_ok_def)
  have sound: "?L\<^sup>*\<^sup>* p q \<Longrightarrow> ?R\<^sup>*\<^sup>* p q \<and> q \<in> N" for q
    by (induction rule: rtranclp_induct) (use R link_in [OF assms(1)] assms(2) in \<open>auto intro: rtranclp.rtrancl_into_rtrancl\<close>)
  have "knows ord (S' q) \<longleftrightarrow> ?R\<^sup>*\<^sup>* p q"
    if run: "(deliver E)\<^sup>*\<^sup>* (S(p := t), flights p (S p) t) (S', {#})" and q: "q \<in> N" for S' q
  proof
    have s: "spreading E N ord p ?L S' {#}" by (rule spreading_run [OF run t(2)])
    then have "knows ord (S' q) \<Longrightarrow> ?L\<^sup>*\<^sup>* p q" using q unfolding spreading_def by blast
    then show "knows ord (S' q) \<Longrightarrow> ?R\<^sup>*\<^sup>* p q" using sound by blast
    have "?R\<^sup>*\<^sup>* p q \<Longrightarrow> q \<in> N \<and> knows ord (S' q)" for q
    proof (induction rule: rtranclp_induct)
      case (step a b)
      then have "?L a b" using R by blast
      with step s link_in [OF assms(1)] show ?case by (auto simp: spreading_def)
    qed (use s in \<open>simp add: spreading_def\<close>)
    then show "?R\<^sup>*\<^sup>* p q \<Longrightarrow> knows ord (S' q)" by blast
  qed
  with t(1) show ?thesis by blast
qed

text \<open>
  C6: The routes an order leaves behind lead back to its author. At any time while a new order
  spreads, following the next hop towards it from any node that has it goes through nodes that have
  it and ends at the node that placed it.
\<close>

theorem routes_lead_to_author:
  assumes "network E N ord S" and "p \<in> N" and "unheard N ord S" and "fresh_ref (S p) r" and "obj (S p) r = ord"
  shows "\<exists>t. OrderBook_processMyOrder (E p) (side_of ord) r (S p) = (Inr ZR_SUCCESS, t) \<and>
    (\<forall>S' F'. (deliver E)\<^sup>*\<^sup>* (S(p := t), flights p (S p) t) (S', F') \<longrightarrow>
       (\<forall>q\<in>N. knows ord (S' q) \<longrightarrow>
          (\<lambda>a b. a \<noteq> p \<and> knows ord (S' a) \<and> TraceRouter_nextHop (n_router (S' a)) (o_order_id ord) = b)\<^sup>*\<^sup>* q p))"
proof -
  obtain t where t: "OrderBook_processMyOrder (E p) (side_of ord) r (S p) = (Inr ZR_SUCCESS, t)"
    "spreading E N ord p (link E ord S) (S(p := t)) (flights p (S p) t)"
    using spreading_start [OF assms] by blast
  let ?H = "\<lambda>S' a b. a \<noteq> p \<and> knows ord (S' a) \<and> TraceRouter_nextHop (n_router (S' a)) (o_order_id ord) = b"
  have "(\<lambda>x y. x \<noteq> p \<and> leads ord S' x y)\<^sup>*\<^sup>* a b \<Longrightarrow> (?H S')\<^sup>*\<^sup>* a b" for S' :: "PeerAddress \<Rightarrow> 'a svcw_scheme" and a b
    by (erule path_mono) (simp add: leads_def)
  then show ?thesis using t(1) spreading_run [OF _ t(2)] unfolding spreading_def by blast
qed

section \<open>Witnesses\<close>

text \<open>Three nodes in a row: me, bo and cy; the order is an object of the first.\<close>

definition demo_env :: "PeerAddress \<Rightarrow> ext" where
  "demo_env p = demo\<lparr>x_own_id := p\<rparr>"

definition demo_net :: "PeerAddress \<Rightarrow> svcw" where
  "demo_net p =
     (if p = ''me'' then demo_svcw [demo_peer ''bo'' 9 0 0 0] [''bo''] [demo_order ''x'' BID 20 1] [] [] []
      else if p = ''bo'' then demo_svcw [demo_peer ''cy'' 9 0 0 0] [''me'', ''cy''] [] [] [] []
      else demo_svcw [] [''bo''] [] [] [] [])"

abbreviation demo_names :: "PeerAddress set" where
  "demo_names \<equiv> {''me'', ''bo'', ''cy''}"

lemma demo_env_simps [simp]: "x_own_id (demo_env p) = p" "x_build (demo_env p) = Testnet"
  "db_up (demo_env p)"
  using demo_db_up by (simp_all add: demo_env_def db_up_def)

lemma demo_network: "network demo_env demo_names (demo_order ''x'' BID 20 1) demo_net"
proof -
  have "peers_ok (demo_tables\<lparr>t_peers := [demo_peer p 9 0 0 0]\<rparr>)" for p using demo_peers_ok [of 9 0 0 0 p] by (simp add: in_i64_def)
  moreover have "peers_ok (demo_tables\<lparr>t_peers := []\<rparr>)" by (simp add: peers_ok_def)
  ultimately show ?thesis
    by (simp add: network_def node_ok_def demo_net_def books_inv_def book_inv_def no_quote_def clock_ok_def in_time_def
        demo_order_simps in_i64_def Order_timeout_def)
qed

lemma demo_unheard: "unheard demo_names (demo_order ''x'' BID 20 1) demo_net"
  "fresh_ref (demo_net ''me'') 0" "obj (demo_net ''me'') 0 = demo_order ''x'' BID 20 1"
  by (simp_all add: unheard_def demo_net_def knows_def with_id_def side_of_def demo_order_simps fresh_ref_def
      TraceRouter_hasRoute_def demo_router_def)

theorem order_spread_ends_witness:
  "\<exists>t. OrderBook_processMyOrder (demo_env ''me'') (side_of (demo_order ''x'' BID 20 1)) 0 (demo_net ''me'') = (Inr ZR_SUCCESS, t) \<and>
    (\<forall>n S' F'. (deliver demo_env ^^ n) (demo_net(''me'' := t), flights ''me'' (demo_net ''me'') t) (S', F') \<longrightarrow> n \<le> 4)"
proof -
  have "(\<Sum>q\<in>demo_names. length (w_online (demo_net q))) = 4" by (simp add: demo_net_def)
  then show ?thesis using order_spread_ends [OF demo_network _ demo_unheard] by fastforce
qed

theorem order_reaches_everyone_witness:
  "\<exists>t. OrderBook_processMyOrder (demo_env ''me'') (side_of (demo_order ''x'' BID 20 1)) 0 (demo_net ''me'') = (Inr ZR_SUCCESS, t) \<and>
    (\<forall>S'. (deliver demo_env)\<^sup>*\<^sup>* (demo_net(''me'' := t), flights ''me'' (demo_net ''me'') t) (S', {#}) \<longrightarrow>
       knows (demo_order ''x'' BID 20 1) (S' ''cy''))"
proof -
  let ?o = "demo_order ''x'' BID 20 1"
  let ?R = "\<lambda>a b. b \<in> set (w_online (demo_net a)) \<and> b \<noteq> a \<and> not_overdrawn (demo_env a) (db_tables (demo_net a)) ?o b"
  have r: "?R ''me'' ''bo''" "?R ''bo'' ''cy''"
    using demo_peers_ok [of 9 0 0 0 "''bo''"] demo_peers_ok [of 9 0 0 0 "''cy''"]
    by (simp_all add: demo_net_def not_overdrawn_def Let_def demo_order_simps available_def in_i64_def)
  have "?R\<^sup>*\<^sup>* ''me'' ''cy''"
    by (rule converse_rtranclp_into_rtranclp [of ?R, OF r(1)], rule r_into_rtranclp [of ?R, OF r(2)])
  moreover obtain t where "OrderBook_processMyOrder (demo_env ''me'') (side_of ?o) 0 (demo_net ''me'') = (Inr ZR_SUCCESS, t)"
    "\<forall>S'. (deliver demo_env)\<^sup>*\<^sup>* (demo_net(''me'' := t), flights ''me'' (demo_net ''me'') t) (S', {#}) \<longrightarrow>
       (\<forall>q\<in>demo_names. knows ?o (S' q) \<longleftrightarrow> ?R\<^sup>*\<^sup>* ''me'' q)"
    using order_reaches_everyone [OF demo_network _ demo_unheard] by blast
  ultimately show ?thesis by blast
qed

theorem routes_lead_to_author_witness:
  "\<exists>t. OrderBook_processMyOrder (demo_env ''me'') (side_of (demo_order ''x'' BID 20 1)) 0 (demo_net ''me'') = (Inr ZR_SUCCESS, t) \<and>
    (\<forall>S' F'. (deliver demo_env)\<^sup>*\<^sup>* (demo_net(''me'' := t), flights ''me'' (demo_net ''me'') t) (S', F') \<longrightarrow>
       knows (demo_order ''x'' BID 20 1) (S' ''bo'') \<longrightarrow>
       (\<lambda>a b. a \<noteq> ''me'' \<and> knows (demo_order ''x'' BID 20 1) (S' a) \<and>
          TraceRouter_nextHop (n_router (S' a)) (o_order_id (demo_order ''x'' BID 20 1)) = b)\<^sup>*\<^sup>* ''bo'' ''me'')"
  using routes_lead_to_author [OF demo_network _ demo_unheard] by blast

end
