(* ===== verification/Rpc.thy ===== *)
theory Rpc
  imports Transactions
begin

text \<open>
  \<^verbatim>\<open>src/satoshi/RpcSettings.cpp\<close> and \<^verbatim>\<open>src/satoshi/JsonRpc.cpp\<close> with their headers: the
  connection to a Satoshi client. JSON values, their parser and writer (jsoncpp) and the HTTP
  request (cURL) are third-party functions, the fields of \<open>rpclib\<close>.
\<close>

section \<open>Connection settings\<close>

record RpcSettings =
  rs_host :: string
  rs_port :: nat
  rs_username :: string
  rs_password :: string

definition new_RpcSettings :: RpcSettings where
  "new_RpcSettings = \<lparr>rs_host = ''localhost'', rs_port = 0, rs_username = [], rs_password = []\<rparr>"

definition defaultTestnetPort :: nat where "defaultTestnetPort = 18332"

definition defaultPort :: nat where "defaultPort = 8332"

text \<open>
  A number read from a stream into a variable of type \<^verbatim>\<open>unsigned\<close>, whose value is the first argument. When
  the text ends after its white space nothing is read and the variable keeps its value; else it
  gets 0 when no number follows, the greatest value when the number is too large; a number after a minus
  sign is negated in the 32 bits.
\<close>

definition unsigned_value :: "string \<Rightarrow> nat" where
  "unsigned_value s1 =
     (let neg = (s1 \<noteq> [] \<and> hd s1 = CHR ''-'');
          s2 = (if s1 \<noteq> [] \<and> (hd s1 = CHR ''-'' \<or> hd s1 = CHR ''+'') then tl s1 else s1);
          v = nat (digits_value (takeWhile is_digit s2))
      in if v \<ge> 2 ^ 32 then 2 ^ 32 - 1 else if neg then nat ((- int v) mod 2 ^ 32) else v)"

definition read_unsigned :: "nat \<Rightarrow> string \<Rightarrow> nat" where
  "read_unsigned old s = (let s1 = dropWhile is_space s in if s1 = [] then old else unsigned_value s1)"

text \<open>One line of the file, blanks removed.\<close>

definition config_line :: "string \<Rightarrow> RpcSettings \<Rightarrow> RpcSettings" where
  "config_line raw st =
     (let line = filter (\<lambda>c. c \<noteq> CHR '' '') raw in
      if line = [] \<or> hd line = CHR ''#'' then st
      else if CHR ''='' \<notin> set line then st
      else case getline CHR ''='' line of (before, after) \<Rightarrow>
        if before = ''rpcport'' then st\<lparr>rs_port := read_unsigned (rs_port st) after\<rparr>
        else if before = ''rpcuser'' then st\<lparr>rs_username := after\<rparr>
        else if before = ''rpcpassword'' then st\<lparr>rs_password := after\<rparr>
        else if before = ''testnet'' then
          (if rs_port st = 0 then st\<lparr>rs_port := if after = ''0'' then defaultPort else defaultTestnetPort\<rparr> else st)
        else st)"

text \<open>The content of the file, none when it cannot be opened.\<close>

definition readConfig :: "string \<Rightarrow> string option \<Rightarrow> RpcSettings \<Rightarrow> exn + RpcSettings" where
  "readConfig filename content st0 =
     (case content of
        None \<Rightarrow> Inl (Runtime_error (''Cannot open file '' @ filename))
      | Some s \<Rightarrow>
          let st = fold config_line (split_at (CHR 0x0A) s) (st0\<lparr>rs_port := 0\<rparr>)
          in Inr (if rs_port st = 0 then st\<lparr>rs_port := defaultPort\<rparr> else st))"

section \<open>Third-party functions\<close>

record http_request =
  h_url :: string
  h_headers :: "string list"
  h_agent :: string
  h_data :: string

text \<open>
  \<^item> \<open>j_string\<close> to \<open>j_object\<close>: the constructors of a JSON value; a number is written from
    an integer or from the \<^verbatim>\<open>double\<close> of a \<open>ZR_Number\<close>;
  \<^item> \<open>j_get\<close>, \<open>j_at\<close>: selection by name and by index, null for what is missing, a
    \<^verbatim>\<open>std::runtime_error\<close> for a value of the wrong kind; the \<^verbatim>\<open>as\<close> conversions throw the same;
  \<^item> \<open>j_isNull\<close>, \<open>j_isArray\<close>, \<open>j_items\<close>: tests, and the values an iterator runs over;
  \<^item> \<open>j_parse\<close>, \<open>j_write\<close>: the reader, none for a text that is no JSON, and the writer;
  \<^item> \<open>h_init\<close>, \<open>h_perform\<close>: cURL; the first argument counts the requests of the process, an
    answer is the text of an error or the status code and the body.
\<close>

record 'j rpclib =
  j_string :: "string \<Rightarrow> 'j"
  j_int :: "int \<Rightarrow> 'j"
  j_double :: "ZR_Number \<Rightarrow> 'j"
  j_bool :: "bool \<Rightarrow> 'j"
  j_array :: "'j list \<Rightarrow> 'j"
  j_object :: "(string \<times> 'j) list \<Rightarrow> 'j"
  j_get :: "'j \<Rightarrow> string \<Rightarrow> exn + 'j"
  j_at :: "'j \<Rightarrow> nat \<Rightarrow> exn + 'j"
  j_asString :: "'j \<Rightarrow> exn + string"
  j_asInt :: "'j \<Rightarrow> exn + int"
  j_asUInt :: "'j \<Rightarrow> exn + nat"
  j_asDouble :: "'j \<Rightarrow> exn + rat"
  j_asBool :: "'j \<Rightarrow> exn + bool"
  j_isNull :: "'j \<Rightarrow> bool"
  j_isArray :: "'j \<Rightarrow> bool"
  j_items :: "'j \<Rightarrow> 'j list"
  j_parse :: "string \<Rightarrow> 'j option"
  j_write :: "'j \<Rightarrow> string"
  h_init :: "nat \<Rightarrow> bool"
  h_perform :: "nat \<Rightarrow> http_request \<Rightarrow> string + nat \<times> string"

section \<open>Queries\<close>

definition CurlPost_url :: "RpcSettings \<Rightarrow> string" where
  "CurlPost_url st = ''http://'' @ rs_username st @ '':'' @ rs_password st @ ''@'' @ rs_host st @ '':'' @
     show_nat (rs_port st)"

definition queryHttp :: "'j rpclib \<Rightarrow> RpcSettings \<Rightarrow> string \<Rightarrow> ('z world_scheme, nat \<times> string) prog" where
  "queryHttp J st query =
     bnd (rpc_call (\<lambda>n. if \<not> h_init J n then Inl (Runtime_error ''Initialisation of cURL failed.'')
       else case h_perform J n \<lparr>h_url = CurlPost_url st,
              h_headers = [''Content-Type: application/json'', ''Accept: application/json''],
              h_agent = ''libnmcrpc'', h_data = query\<rparr> of
           Inl msg \<Rightarrow> Inl (Runtime_error (''Error in cURL: '' @ msg))
         | Inr answer \<Rightarrow> Inr answer)) lift"

definition decodeJson :: "'j rpclib \<Rightarrow> string \<Rightarrow> exn + 'j" where
  "decodeJson J str =
     (case j_parse J str of None \<Rightarrow> Inl (Runtime_error ''Error decoding the JSON value.'') | Some v \<Rightarrow> Inr v)"

text \<open>The error of an answer: its constructor reads a code and a message from it.\<close>

definition RpcError :: "'j rpclib \<Rightarrow> 'j \<Rightarrow> exn" where
  "RpcError J err =
     (case ebind (j_get J err ''code'') (\<lambda>c. ebind (j_asInt J c) (\<lambda>_.
           ebind (j_get J err ''message'') (j_asString J))) of
        Inl e \<Rightarrow> e
      | Inr _ \<Rightarrow> Runtime_error ''RPC returned an error response.'')"

definition rpc_status :: "nat \<Rightarrow> exn + unit" where
  "rpc_status respCode =
     (if respCode = 200 \<or> respCode = 404 \<or> respCode = 500 then Inr ()
      else if respCode = 401 then Inl (Runtime_error ''Login credentials not accepted.'')
      else Inl (Runtime_error ''Invalid HTTP status code returned.''))"

definition rpc_result :: "'j rpclib \<Rightarrow> nat \<Rightarrow> nat \<times> string \<Rightarrow> exn + 'j" where
  "rpc_result J qid answer =
     ebind (rpc_status (fst answer)) (\<lambda>_.
     ebind (decodeJson J (snd answer)) (\<lambda>response.
     ebind (j_get J response ''id'') (\<lambda>rid.
     ebind (j_asInt J rid) (\<lambda>i.
     if i \<noteq> int qid then Inl (Runtime_error ''IDs don't match for JSON-RPC response.'')
     else
       ebind (j_get J response ''result'') (\<lambda>result.
       ebind (j_get J response ''error'') (\<lambda>err.
         if \<not> j_isNull J err then Inl (RpcError J err) else Inr result))))))"

record JsonRpc =
  jr_settings :: RpcSettings
  jr_nextId :: nat

definition new_JsonRpc :: "RpcSettings \<Rightarrow> JsonRpc" where
  "new_JsonRpc st = \<lparr>jr_settings = st, jr_nextId = 0\<rparr>"

definition rpc_query :: "'j rpclib \<Rightarrow> nat \<Rightarrow> string \<Rightarrow> 'j list \<Rightarrow> 'j" where
  "rpc_query J qid method params =
     j_object J [(''id'', j_int J (int qid)), (''method'', j_string J method), (''params'', j_array J params)]"

text \<open>The object with its next id is returned with the result; an exception drops it.\<close>

definition executeRpc :: "'j rpclib \<Rightarrow> JsonRpc \<Rightarrow> string \<Rightarrow> 'j list \<Rightarrow> ('z world_scheme, 'j \<times> JsonRpc) prog" where
  "executeRpc J rpc method params =
     bnd (queryHttp J (jr_settings rpc) (j_write J (rpc_query J (jr_nextId rpc) method params))) (\<lambda>answer.
     bnd (lift (rpc_result J (jr_nextId rpc) answer)) (\<lambda>res.
       ret (res, rpc\<lparr>jr_nextId := Suc (jr_nextId rpc)\<rparr>)))"

definition rpc_once :: "'j rpclib \<Rightarrow> RpcSettings \<Rightarrow> string \<Rightarrow> 'j list \<Rightarrow> ('z world_scheme, 'j) prog" where
  "rpc_once J st method params = bnd (executeRpc J (new_JsonRpc st) method params) (\<lambda>(res, _). ret res)"

end
