(* ===== verification/Satoshi.thy ===== *)
theory Satoshi
  imports Rpc
begin

text \<open>
  \<^verbatim>\<open>src/satoshi/ZrSatoshiBitcoin.cpp\<close>: the implementation of the Bitcoin client interface over
  the JSON-RPC service of the Satoshi client, with its wallet class, and the implementation that
  does nothing (\<^verbatim>\<open>src/ZrDummyBitcoin.cpp\<close>). The branch of the constructor for Windows is left
  out. A local variable the code leaves half written when an exception comes is returned as the
  exception leaves it.
\<close>

definition caught_at :: "string \<Rightarrow> exn \<Rightarrow> string" where
  "caught_at func e = ''Exception caught at '' @ func @ '': '' @ what e"

section \<open>Construction and the trivial operations\<close>

text \<open>The environment variable may be missing: then the code makes a string from a null pointer.\<close>

definition new_ZrSatoshiBitcoin :: "string option \<Rightarrow> (string \<Rightarrow> string option) \<Rightarrow> ('z world_scheme, RpcSettings) prog" where
  "new_ZrSatoshiBitcoin home files =
     bnd (need Null_pointer home) (\<lambda>h.
     let filename = h @ ''/.bitcoin/bitcoin.conf'' in
     try_catch catch_runtime_error
       (lift (readConfig filename (files filename) new_RpcSettings))
       (\<lambda>e. thn (placeMsg (caught_at ''ZrSatoshiBitcoin'' e)) (ret new_RpcSettings)))"

definition Satoshi_commit :: RetVal where "Satoshi_commit = ZR_SUCCESS"

definition Satoshi_start :: RetVal where "Satoshi_start = ZR_SUCCESS"

definition Satoshi_stop :: RetVal where "Satoshi_stop = ZR_SUCCESS"

section \<open>Queries\<close>

definition Satoshi_getinfo :: "ext \<Rightarrow> 'j rpclib \<Rightarrow> RpcSettings \<Rightarrow> ('z world_scheme, BtcInfo option) prog" where
  "Satoshi_getinfo E J st =
     try_catch catch_runtime_error
       (bnd (rpc_once J st ''getinfo'' []) (\<lambda>res.
        bnd (lift (ebind (j_get J res ''testnet'') (j_asBool J))) (\<lambda>testnet.
        bnd (lift (ebind (j_get J res ''balance'') (j_asDouble J))) (\<lambda>d.
        bnd (lift (fromDouble E d)) (\<lambda>balance.
        bnd (lift (ebind (j_get J res ''version'') (j_asUInt J))) (\<lambda>version.
        bnd (lift (ebind (j_get J res ''connections'') (j_asUInt J))) (\<lambda>connections.
          ret (Some \<lparr>bi_version = version, bi_testnet = testnet, bi_balance = balance,
                 bi_connections = connections\<rparr>))))))))
       (\<lambda>e. ret None)"

definition Satoshi_getBalance :: "'j rpclib \<Rightarrow> RpcSettings \<Rightarrow> ('z world_scheme, ZR_Number) prog" where
  "Satoshi_getBalance J st =
     bnd (rpc_once J st ''getinfo'' []) (\<lambda>res.
     bnd (lift (ebind (j_get J res ''balance'') (j_asDouble J))) (\<lambda>d. ret (zr_of_double_implicit d)))"

definition Satoshi_getConfirmations :: "'j rpclib \<Rightarrow> RpcSettings \<Rightarrow> string \<Rightarrow> ('z world_scheme, nat) prog" where
  "Satoshi_getConfirmations J st txId =
     try_catch catch_runtime_error
       (bnd (rpc_once J st ''getrawtransaction'' [j_string J txId, j_int J 1]) (\<lambda>res.
        lift (ebind (j_get J res ''confirmations'') (j_asUInt J))))
       (\<lambda>e. ret 0)"

section \<open>Wallets\<close>

record SatoshiWallet =
  sw_Address :: BitcoinAddress
  sw_Balance :: ZR_Number

datatype WalletType = BRAINWALLET | ELECTRUMSEED | WIFIMPORT | CASASCIUS | INVALID_WALLET

definition Satoshi_mkWallet :: "'j rpclib \<Rightarrow> RpcSettings \<Rightarrow> WalletType \<Rightarrow> ('z world_scheme, SatoshiWallet option) prog" where
  "Satoshi_mkWallet J st wType =
     try_catch catch_runtime_error
       (if wType = WIFIMPORT then
          bnd (rpc_once J st ''getnewaddress'' []) (\<lambda>res.
          bnd (lift (j_asString J res)) (\<lambda>address. ret (Some \<lparr>sw_Address = address, sw_Balance = 0\<rparr>)))
        else ret None)
       (\<lambda>e. ret None)"

definition wallet_entry :: "'j rpclib \<Rightarrow> 'j \<Rightarrow> exn + SatoshiWallet" where
  "wallet_entry J res1 =
     ebind (ebind (j_at J res1 0) (j_asString J)) (\<lambda>address.
     ebind (ebind (j_at J res1 1) (j_asDouble J)) (\<lambda>d.
       Inr \<lparr>sw_Address = address, sw_Balance = zr_of_double_implicit d\<rparr>))"

text \<open>The wallets read before an exception stay in the list.\<close>

fun wallet_entries :: "'j rpclib \<Rightarrow> 'j list \<Rightarrow> SatoshiWallet list \<Rightarrow> SatoshiWallet list \<times> exn option" where
  "wallet_entries J [] ws = (ws, None)"
| "wallet_entries J (res1 # es) ws =
     (case wallet_entry J res1 of Inl e \<Rightarrow> (ws, Some e) | Inr v \<Rightarrow> wallet_entries J es (ws @ [v]))"

fun wallet_groups :: "'j rpclib \<Rightarrow> 'j list \<Rightarrow> SatoshiWallet list \<Rightarrow> SatoshiWallet list \<times> exn option" where
  "wallet_groups J [] ws = (ws, None)"
| "wallet_groups J (res0 # gs) ws =
     (if \<not> j_isArray J res0 then (ws, Some (Undefined Aborted))
      else case wallet_entries J (j_items J res0) ws of
          (ws', Some e) \<Rightarrow> (ws', Some e)
        | (ws', None) \<Rightarrow> wallet_groups J gs ws')"

definition Satoshi_loadWallets :: "'j rpclib \<Rightarrow> RpcSettings \<Rightarrow> SatoshiWallet list
    \<Rightarrow> ('z world_scheme, SatoshiWallet list) prog" where
  "Satoshi_loadWallets J st ws =
     bnd (try_catch catch_runtime_error
       (bnd (rpc_once J st ''listaddressgroupings'' []) (\<lambda>res. ret (Some res))) (\<lambda>e. ret None)) (\<lambda>answer. case answer of
         None \<Rightarrow> ret ws
       | Some res \<Rightarrow> (case wallet_groups J (j_items J res) ws of
             (ws', None) \<Rightarrow> ret ws'
           | (ws', Some e) \<Rightarrow> if catch_runtime_error e then ret ws' else throw e))"

definition SatoshiWallet_getPubKey :: "'j rpclib \<Rightarrow> RpcSettings \<Rightarrow> SatoshiWallet \<Rightarrow> ('z world_scheme, string) prog" where
  "SatoshiWallet_getPubKey J st w =
     bnd (rpc_once J st ''validateaddress'' [j_string J (sw_Address w)]) (\<lambda>res1.
       lift (ebind (j_get J res1 ''pubkey'') (j_asString J)))"

section \<open>Sending\<close>

definition Satoshi_newAddress :: "'j rpclib \<Rightarrow> RpcSettings \<Rightarrow> ('z world_scheme, BitcoinAddress) prog" where
  "Satoshi_newAddress J st =
     try_catch catch_runtime_error
       (bnd (rpc_once J st ''getnewaddress'' []) (\<lambda>resAddr. lift (j_asString J resAddr)))
       (\<lambda>e. thn (placeMsg (caught_at ''newAddress'' e @ '' Cannot create new Bitcoin address.'')) (ret []))"

definition Satoshi_send :: "'j rpclib \<Rightarrow> RpcSettings \<Rightarrow> string \<Rightarrow> ZR_Number \<Rightarrow> ('z world_scheme, unit) prog" where
  "Satoshi_send J st dest amount =
     try_catch catch_runtime_error
       (bnd (rpc_once J st ''sendtoaddress'' [j_string J dest, j_double J amount]) (\<lambda>_. ret ()))
       (\<lambda>e. ret ())"

definition Satoshi_sendRaw :: "'j rpclib \<Rightarrow> RpcSettings \<Rightarrow> BitcoinTxHex \<Rightarrow> ('z world_scheme, RetVal) prog" where
  "Satoshi_sendRaw J st txHex =
     try_catch catch_runtime_error
       (bnd (rpc_once J st ''sendrawtransaction'' [j_string J txHex]) (\<lambda>_. ret ZR_SUCCESS))
       (\<lambda>e. thn (placeMsg (caught_at ''sendRaw'' e @ '' Cannot send raw TX'')) (ret ZR_FAILURE))"

definition list_unspent :: "'j rpclib \<Rightarrow> BitcoinAddress \<Rightarrow> 'j list" where
  "list_unspent J addr = [j_int J 0, j_int J 999999, j_array J [j_string J addr]]"

definition outpoint :: "'j rpclib \<Rightarrow> TransactionId \<Rightarrow> nat \<Rightarrow> 'j" where
  "outpoint J txId vout = j_object J [(''txid'', j_string J txId), (''vout'', j_int J (int vout))]"

definition no_order_address :: "exn \<Rightarrow> string" where
  "no_order_address e = caught_at ''mkOrderAddress'' e @ '' Cannot make an order address. Insufficient funds? '' @
     ''If you have enough, try restarting the Satoshi Client.''"

definition Satoshi_mkOrderAddress :: "'j rpclib \<Rightarrow> RpcSettings \<Rightarrow> ZR_Number \<Rightarrow> ('z world_scheme, BitcoinAddress) prog" where
  "Satoshi_mkOrderAddress J st amount =
     bnd (Satoshi_newAddress J st) (\<lambda>addr.
     if addr = [] then ret addr
     else try_catch catch_runtime_error
       (bnd (executeRpc J (new_JsonRpc st) ''sendtoaddress'' [j_string J addr, j_double J amount]) (\<lambda>(res, rpc).
        bnd (lift (j_asString J res)) (\<lambda>tid.
        bnd (executeRpc J rpc ''listunspent'' (list_unspent J addr)) (\<lambda>(res2, rpc).
        bnd (lift (ebind (j_at J res2 0) (\<lambda>o0. ebind (j_get J o0 ''vout'') (j_asUInt J)))) (\<lambda>vout.
        bnd (executeRpc J rpc ''lockunspent'' [j_bool J True, j_array J [outpoint J tid vout]]) (\<lambda>_. ret addr))))))
       (\<lambda>e. thn (placeMsg (no_order_address e)) (ret [])))"

section \<open>Raw transactions\<close>

text \<open>The output to spend, and what is left of it after the amount.\<close>

definition spendable :: "ext \<Rightarrow> 'j rpclib \<Rightarrow> 'j \<Rightarrow> ZR_Number \<Rightarrow> exn + TransactionId \<times> nat \<times> ZR_Number" where
  "spendable E J res btcAmount =
     ebind (j_at J res 0) (\<lambda>o0.
     ebind (ebind (j_get J o0 ''txid'') (j_asString J)) (\<lambda>txId.
     ebind (ebind (j_get J o0 ''vout'') (j_asUInt J)) (\<lambda>vout.
     ebind (ebind (j_get J o0 ''amount'') (j_asDouble J)) (\<lambda>d.
     ebind (fromDouble E d) (\<lambda>addrBalance. Inr (txId, vout, addrBalance - btcAmount))))))"

text \<open>
  Signing: the answer counts as complete unless its entry is null, which is what negating a
  JSON value tests. The id is that of the signed transaction.
\<close>

definition sign_tx :: "'j rpclib \<Rightarrow> JsonRpc \<Rightarrow> string \<Rightarrow> ('z world_scheme, (BitcoinTxHex \<times> TransactionId) option) prog" where
  "sign_tx J rpc rawTx =
     bnd (executeRpc J rpc ''signrawtransaction'' [j_string J rawTx]) (\<lambda>(res2, rpc).
     bnd (lift (j_get J res2 ''complete'')) (\<lambda>complete.
     if j_isNull J complete then ret None
     else
       bnd (lift (ebind (j_get J res2 ''hex'') (j_asString J))) (\<lambda>outTx.
       bnd (executeRpc J rpc ''decoderawtransaction'' [j_string J outTx]) (\<lambda>(res3, rpc).
       bnd (lift (ebind (j_get J res3 ''txid'') (j_asString J))) (\<lambda>outId. ret (Some (outTx, outId)))))))"

definition destinations :: "'j rpclib \<Rightarrow> BitcoinAddress \<Rightarrow> ZR_Number \<Rightarrow> BitcoinAddress \<Rightarrow> ZR_Number \<Rightarrow> 'j" where
  "destinations J recvAddr btcAmount changeAddr change =
     j_object J ((recvAddr, j_double J btcAmount) # (if change > 0 then [(changeAddr, j_double J change)] else []))"

definition raw_failed :: "exn \<Rightarrow> ('z world_scheme, 'a option) prog" where
  "raw_failed e = thn (placeMsg (caught_at ''mkRawTx'' e)) (ret None)"

definition Satoshi_mkRawTx :: "ext \<Rightarrow> 'j rpclib \<Rightarrow> RpcSettings \<Rightarrow> ZR_Number \<Rightarrow> BitcoinAddress \<Rightarrow> BitcoinAddress
    \<Rightarrow> ('z world_scheme, BitcoinAddress \<times> (BitcoinTxHex \<times> TransactionId) option) prog" where
  "Satoshi_mkRawTx E J st btcAmount sendAddr recvAddr =
     bnd (try_catch catch_runtime_error
       (bnd (executeRpc J (new_JsonRpc st) ''listunspent'' (list_unspent J sendAddr)) (\<lambda>(res, rpc).
        bnd (lift (spendable E J res btcAmount)) (\<lambda>sp. ret (Some (sp, rpc))))) raw_failed) (\<lambda>found. case found of
         None \<Rightarrow> ret (sendAddr, None)
       | Some ((txId, vout, change), rpc) \<Rightarrow>
           if change < 0 then ret (sendAddr, None)
           else
             bnd (if change > 0 then Satoshi_newAddress J st else ret sendAddr) (\<lambda>addr.
             bnd (try_catch catch_runtime_error
               (bnd (executeRpc J rpc ''createrawtransaction''
                  [j_array J [outpoint J txId vout], destinations J recvAddr btcAmount addr change]) (\<lambda>(res1, rpc).
                bnd (lift (j_asString J res1)) (sign_tx J rpc))) raw_failed) (\<lambda>made. ret (addr, made))))"

section \<open>The client that does nothing\<close>

definition Dummy_getBalance :: ZR_Number where "Dummy_getBalance = 0"

definition Dummy_mkWallet :: "WalletType \<Rightarrow> SatoshiWallet option" where "Dummy_mkWallet wType = None"

definition Dummy_loadWallets :: "SatoshiWallet list \<Rightarrow> SatoshiWallet list" where "Dummy_loadWallets ws = ws"

end
