(* ===== verification/SatoshiLaws.thy ===== *)
theory SatoshiLaws
  imports Satoshi
begin

text \<open>
  What the Satoshi client promises: the port the configuration file selects, the answers of the
  JSON-RPC service that are taken as results, and the making of a raw transaction. The check that
  a transaction was signed completely tests for a missing entry instead of its value.
\<close>

section \<open>The configured port\<close>

text \<open>What a line of the file sets, if it sets something: a key and a value.\<close>

definition config_entry :: "string \<Rightarrow> (string \<times> string) option" where
  "config_entry raw = (let line = filter (\<lambda>c. c \<noteq> CHR '' '') raw in
     if line = [] \<or> hd line = CHR ''#'' \<or> CHR ''='' \<notin> set line then None else Some (getline CHR ''='' line))"

definition config_entries :: "string \<Rightarrow> (string \<times> string) list" where
  "config_entries s = List.map_filter config_entry (split_at (CHR 0x0A) s)"

definition values_of :: "string \<Rightarrow> (string \<times> string) list \<Rightarrow> string list" where
  "values_of k es = map snd (filter (\<lambda>e. fst e = k) es)"

fun apply_entry :: "string \<times> string \<Rightarrow> nat \<Rightarrow> nat" where
  "apply_entry (k, v) p =
     (if k = ''rpcport'' then read_unsigned p v
      else if k = ''testnet'' \<and> p = 0 then (if v = ''0'' then defaultPort else defaultTestnetPort) else p)"

text \<open>
  The rule the entries follow, without a running port: the last \<open>rpcport\<close> entry that is not blank gives its
  number. When there is none, or the number is 0, the first \<open>testnet\<close> entry after it decides, or after the start.
\<close>

fun gives_port :: "string \<times> string \<Rightarrow> bool" where
  "gives_port (k, v) \<longleftrightarrow> k = ''rpcport'' \<and> \<not> list_all is_space v"

definition given_port :: "(string \<times> string) list \<Rightarrow> nat" where
  "given_port es = (case List.find gives_port (rev es) of
     None \<Rightarrow> 0 | Some (k, v) \<Rightarrow> unsigned_value (dropWhile is_space v))"

definition entries_after :: "(string \<times> string) list \<Rightarrow> (string \<times> string) list" where
  "entries_after es = rev (takeWhile (\<lambda>e. \<not> gives_port e) (rev es))"

definition network_port :: "(string \<times> string) list \<Rightarrow> nat" where
  "network_port es = (case values_of ''testnet'' es of [] \<Rightarrow> 8332 | v # _ \<Rightarrow> if v = ''0'' then 8332 else 18332)"

definition configured_port :: "(string \<times> string) list \<Rightarrow> nat" where
  "configured_port es = (if given_port es \<noteq> 0 then given_port es else network_port (entries_after es))"

lemma config_line_port: "rs_port (config_line raw st) =
   (case config_entry raw of None \<Rightarrow> rs_port st | Some e \<Rightarrow> apply_entry e (rs_port st))"
  by (auto simp: config_line_def config_entry_def Let_def split: prod.splits)

lemma fold_port: "rs_port (fold config_line ls st) = fold apply_entry (List.map_filter config_entry ls) (rs_port st)"
  by (induction ls arbitrary: st) (auto simp: config_line_port map_filter_simps split: option.splits)

lemma read_unsigned_blank: "read_unsigned p v = (if list_all is_space v then p else unsigned_value (dropWhile is_space v))"
  by (simp add: read_unsigned_def Let_def dropWhile_eq_Nil_conv list_all_iff)

lemma entries_snoc:
  "gives_port (k, v) \<Longrightarrow> given_port (es @ [(k, v)]) = unsigned_value (dropWhile is_space v) \<and> entries_after (es @ [(k, v)]) = []"
  "\<not> gives_port e \<Longrightarrow> given_port (es @ [e]) = given_port es \<and> entries_after (es @ [e]) = entries_after es @ [e]"
  by (simp_all add: given_port_def entries_after_def)

text \<open>The port while the entries are read: 0 until something gives one.\<close>

lemma fold_apply_entry:
  "fold apply_entry es 0 = (if given_port es \<noteq> 0 then given_port es
     else if values_of ''testnet'' (entries_after es) = [] then 0 else network_port (entries_after es))"
proof (induction es rule: rev_induct)
  case Nil
  then show ?case by (simp add: given_port_def entries_after_def values_of_def)
next
  case (snoc e es)
  obtain k v where e: "e = (k, v)" by (cases e)
  show ?case
  proof (cases "gives_port e")
    case True
    then show ?thesis using e entries_snoc(1) [of k v es] by (simp add: read_unsigned_blank values_of_def)
  next
    case False
    note after = entries_snoc(2) [OF this, of es]
    show ?thesis
    proof (cases "k = ''testnet''")
      case True
      then show ?thesis using snoc after e
        by (auto simp: values_of_def network_port_def defaultPort_def defaultTestnetPort_def split: list.splits)
    next
      case other: False
      have "apply_entry e p = p" for p using False other e by (auto simp: read_unsigned_blank)
      moreover have "values_of ''testnet'' (entries_after es @ [e]) = values_of ''testnet'' (entries_after es)"
        using other e by (simp add: values_of_def)
      ultimately show ?thesis using snoc after by (simp add: network_port_def)
    qed
  qed
qed

lemma readConfig_value: "\<exists>st'. readConfig f (Some s) st = Inr st' \<and>
   rs_port st' = (let p = fold apply_entry (config_entries s) 0 in if p = 0 then defaultPort else p)"
  by (auto simp: readConfig_def Let_def fold_port config_entries_def)

lemma network_port_cases:
  "network_port es \<noteq> 0" "values_of ''testnet'' es = [] \<Longrightarrow> network_port es = defaultPort"
  by (simp_all add: network_port_def defaultPort_def split: list.split)

text \<open>
  C24: Reading a configuration file that opens never fails and always leaves a port to connect to. The last
  \<open>rpcport\<close> line with a value that is not blank decides, unless its number is 0, wherever the \<open>testnet\<close> lines
  are. When there is none, or its number is 0, the first \<open>testnet\<close> line after it, or in the whole
  file, chooses between the two defaults; without either it is the default of the production network.
\<close>

theorem readConfig_port:
  "\<exists>st'. readConfig f (Some s) st = Inr st' \<and> rs_port st' = configured_port (config_entries s) \<and> rs_port st' \<noteq> 0"
proof -
  let ?es = "config_entries s"
  obtain st' where st': "readConfig f (Some s) st = Inr st'"
    "rs_port st' = (let p = fold apply_entry ?es 0 in if p = 0 then defaultPort else p)"
    using readConfig_value by blast
  have "(let p = fold apply_entry ?es 0 in if p = 0 then defaultPort else p) = configured_port ?es \<and> configured_port ?es \<noteq> 0"
    using network_port_cases [of "entries_after ?es"] by (simp add: fold_apply_entry configured_port_def Let_def)
  then show ?thesis using st' by (simp add: Let_def)
qed

section \<open>Answers\<close>

text \<open>The n-th request of the process, with an id, a method and parameters, gives a result.\<close>

definition answers :: "'j rpclib \<Rightarrow> RpcSettings \<Rightarrow> nat \<Rightarrow> nat \<Rightarrow> string \<Rightarrow> 'j list \<Rightarrow> 'j \<Rightarrow> bool" where
  "answers J st n qid method params res \<longleftrightarrow> h_init J n \<and>
     (\<exists>code body. h_perform J n \<lparr>h_url = CurlPost_url st,
        h_headers = [''Content-Type: application/json'', ''Accept: application/json''],
        h_agent = ''libnmcrpc'', h_data = j_write J (rpc_query J qid method params)\<rparr> = Inr (code, body) \<and>
        rpc_result J qid (code, body) = Inr res)"

lemma executeRpc_answer:
  assumes "answers J (jr_settings rpc) (w_rpc s) (jr_nextId rpc) method params res"
  shows "executeRpc J rpc method params s =
    (Inr (res, rpc\<lparr>jr_nextId := Suc (jr_nextId rpc)\<rparr>), s\<lparr>w_rpc := Suc (w_rpc s)\<rparr>)"
  using assms by (auto simp: answers_def executeRpc_def queryHttp_def prog_defs)

section \<open>Raw transactions\<close>

text \<open>
  C25: A transaction that the client could not sign completely is taken as signed: when the answer to
  the signing request says \<open>complete\<close> is false, the raw transaction is made and its id returned as
  for a complete one, since the entry is there.
\<close>

theorem incomplete_signature_accepted:
  assumes "answers J st (w_rpc s) 0 ''listunspent'' (list_unspent J sendAddr) unspent"
    and "spendable E J unspent btcAmount = Inr (txId, vout, 0)"
    and "answers J st (w_rpc s + 1) 1 ''createrawtransaction''
           [j_array J [outpoint J txId vout], destinations J recvAddr btcAmount sendAddr 0] made"
    and "j_asString J made = Inr rawTx"
    and "answers J st (w_rpc s + 2) 2 ''signrawtransaction'' [j_string J rawTx] sg"
    and "j_get J sg ''complete'' = Inr flag" "j_asBool J flag = Inr False" "\<not> j_isNull J flag"
    and "ebind (j_get J sg ''hex'') (j_asString J) = Inr hex"
    and "answers J st (w_rpc s + 3) 3 ''decoderawtransaction'' [j_string J hex] decoded"
    and "ebind (j_get J decoded ''txid'') (j_asString J) = Inr tid"
  shows "Satoshi_mkRawTx E J st btcAmount sendAddr recvAddr s =
    (Inr (sendAddr, Some (hex, tid)), s\<lparr>w_rpc := w_rpc s + 4\<rparr>)"
proof -
  let ?s = "\<lambda>k. s\<lparr>w_rpc := w_rpc s + k\<rparr>" and ?r = "\<lambda>k. \<lparr>jr_settings = st, jr_nextId = k\<rparr>"
  have e: "executeRpc J (new_JsonRpc st) ''listunspent'' (list_unspent J sendAddr) s = (Inr (unspent, ?r 1), ?s 1)"
    "executeRpc J (?r 1) ''createrawtransaction''
       [j_array J [outpoint J txId vout], destinations J recvAddr btcAmount sendAddr 0] (?s 1) = (Inr (made, ?r 2), ?s 2)"
    "executeRpc J (?r 2) ''signrawtransaction'' [j_string J rawTx] (?s 2) = (Inr (sg, ?r 3), ?s 3)"
    "executeRpc J (?r 3) ''decoderawtransaction'' [j_string J hex] (?s 3) = (Inr (decoded, ?r 4), ?s 4)"
    using assms(1,3,5,10) by (simp_all add: executeRpc_answer new_JsonRpc_def numeral_eq_Suc)
  have "sign_tx J (?r 2) rawTx (?s 2) = (Inr (Some (hex, tid)), ?s 4)"
    unfolding sign_tx_def
    by (rule bnd_step, rule e(3), simp only: prod.case, rule bnd_lift, rule assms(6), simp only: assms(8) if_False,
      rule bnd_lift, rule assms(9), rule bnd_step, rule e(4), simp only: prod.case, rule bnd_lift, rule assms(11),
      rule prog_apply)
  then have m: "bnd (executeRpc J (?r 1) ''createrawtransaction''
       [j_array J [outpoint J txId vout], destinations J recvAddr btcAmount sendAddr 0])
       (\<lambda>(res1, rpc). bnd (lift (j_asString J res1)) (sign_tx J rpc)) (?s 1) = (Inr (Some (hex, tid)), ?s 4)"
    by (intro bnd_step [where x = "(made, ?r 2)"]) (simp_all only: e(2) prod.case prog_step(5) assms(4) sum.case)
  have u: "bnd (executeRpc J (new_JsonRpc st) ''listunspent'' (list_unspent J sendAddr)) (\<lambda>(res, rpc).
      bnd (lift (spendable E J res btcAmount)) (\<lambda>sp. ret (Some (sp, rpc)))) s = (Inr (Some ((txId, vout, 0), ?r 1)), ?s 1)"
    by (intro bnd_step [where x = "(unspent, ?r 1)"])
      (simp_all only: e(1) prod.case prog_step(5) assms(2) sum.case prog_apply)
  show ?thesis
    unfolding Satoshi_mkRawTx_def
    by (rule bnd_step, rule try_catch_Inr, rule u, simp only: option.case prod.case less_irrefl if_False bnd_ret,
      rule bnd_step, rule try_catch_Inr, rule m, rule prog_apply)
qed

section \<open>A concrete client\<close>

datatype json = JNull | JBool bool | JNum rat | JStr string | JArr "json list" | JObj "(string \<times> json) list"

definition kind_error :: exn where "kind_error = Runtime_error ''Type is not convertible''"

fun json_get :: "json \<Rightarrow> string \<Rightarrow> exn + json" where
  "json_get (JObj kvs) k = Inr (case map_of kvs k of None \<Rightarrow> JNull | Some v \<Rightarrow> v)"
| "json_get JNull k = Inr JNull"
| "json_get _ k = Inl kind_error"

fun json_at :: "json \<Rightarrow> nat \<Rightarrow> exn + json" where
  "json_at (JArr vs) i = Inr (if i < length vs then vs ! i else JNull)"
| "json_at JNull i = Inr JNull"
| "json_at _ i = Inl kind_error"

fun json_number :: "json \<Rightarrow> exn + rat" where
  "json_number (JNum q) = Inr q"
| "json_number JNull = Inr 0"
| "json_number (JBool b) = Inr (if b then 1 else 0)"
| "json_number _ = Inl kind_error"

fun json_string :: "json \<Rightarrow> exn + string" where
  "json_string (JStr s) = Inr s"
| "json_string JNull = Inr []"
| "json_string (JBool b) = Inr (if b then ''true'' else ''false'')"
| "json_string _ = Inl kind_error"

fun json_bool :: "json \<Rightarrow> exn + bool" where
  "json_bool (JBool b) = Inr b"
| "json_bool JNull = Inr False"
| "json_bool (JNum q) = Inr (q \<noteq> 0)"
| "json_bool _ = Inl kind_error"

text \<open>A client whose n-th answer is the n-th of a list; the body says which.\<close>

definition demo_rpc :: "json list \<Rightarrow> json rpclib" where
  "demo_rpc vs = \<lparr>j_string = JStr, j_int = (\<lambda>i. JNum (of_int i)), j_double = JNum, j_bool = JBool,
     j_array = JArr, j_object = JObj, j_get = json_get, j_at = json_at, j_asString = json_string,
     j_asInt = (\<lambda>v. ebind (json_number v) (\<lambda>q. Inr \<lfloor>q\<rfloor>)),
     j_asUInt = (\<lambda>v. ebind (json_number v) (\<lambda>q. Inr (nat \<lfloor>q\<rfloor>))), j_asDouble = json_number,
     j_asBool = json_bool, j_isNull = (\<lambda>v. v = JNull), j_isArray = (\<lambda>v. case v of JArr _ \<Rightarrow> True | _ \<Rightarrow> False),
     j_items = (\<lambda>v. case v of JArr vs \<Rightarrow> vs | _ \<Rightarrow> []),
     j_parse = (\<lambda>body. if length body < length vs then Some (vs ! length body) else None), j_write = (\<lambda>v. []),
     h_init = (\<lambda>n. True), h_perform = (\<lambda>n r. Inr (200, replicate n CHR ''.''))\<rparr>"

definition reply :: "nat \<Rightarrow> json \<Rightarrow> json" where
  "reply qid v = JObj [(''id'', JNum (of_nat qid)), (''result'', v)]"

lemma demo_answers: "n < length vs \<Longrightarrow> vs ! n = reply qid v \<Longrightarrow> answers (demo_rpc vs) st n qid method params v"
  by (simp add: answers_def demo_rpc_def rpc_result_def rpc_status_def decodeJson_def reply_def)

theorem incomplete_signature_accepted_witness:
  "fst (Satoshi_mkRawTx demo
     (demo_rpc [reply 0 (JArr [JObj [(''txid'', JStr ''ab''), (''vout'', JNum 1), (''amount'', JNum 5)]]),
        reply 1 (JStr ''raw''), reply 2 (JObj [(''hex'', JStr ''raw''), (''complete'', JBool False)]),
        reply 3 (JObj [(''txid'', JStr ''cd'')])]) new_RpcSettings 5 ''from'' ''to'' demo_world) =
   Inr (''from'', Some (''raw'', ''cd''))"
proof -
  let ?u = "JArr [JObj [(''txid'', JStr ''ab''), (''vout'', JNum 1), (''amount'', JNum 5)]]"
  let ?g = "JObj [(''hex'', JStr ''raw''), (''complete'', JBool False)]" and ?d = "JObj [(''txid'', JStr ''cd'')]"
  define vs where "vs = [reply 0 ?u, reply 1 (JStr ''raw''), reply 2 ?g, reply 3 ?d]"
  let ?J = "demo_rpc vs"
  have five: "fromDouble demo 5 = Inr 5"
    using fromDecimalString_show_int [of 5] by (simp add: fromDouble_def demo_def in_i64_def)
  have sp: "spendable demo ?J ?u 5 = Inr (''ab'', 1, 0)" by (simp add: spendable_def demo_rpc_def five)
  have w: "w_rpc demo_world = 0" by (simp add: demo_world_def)
  have js: "j_asString ?J (JStr ''raw'') = Inr ''raw''" "j_get ?J ?g ''complete'' = Inr (JBool False)"
    "j_asBool ?J (JBool False) = Inr False" "\<not> j_isNull ?J (JBool False)"
    "ebind (j_get ?J ?g ''hex'') (j_asString ?J) = Inr ''raw''" "ebind (j_get ?J ?d ''txid'') (j_asString ?J) = Inr ''cd''"
    by (simp_all add: demo_rpc_def)
  have a: "answers ?J st 0 0 m ps ?u" "answers ?J st 1 1 m ps (JStr ''raw'')"
    "answers ?J st 2 2 m ps ?g" "answers ?J st 3 3 m ps ?d" for st m ps
    by (rule demo_answers; simp add: vs_def)+
  have "Satoshi_mkRawTx demo ?J new_RpcSettings 5 ''from'' ''to'' demo_world =
      (Inr (''from'', Some (''raw'', ''cd'')), demo_world\<lparr>w_rpc := w_rpc demo_world + 4\<rparr>)"
    by (rule incomplete_signature_accepted [OF _ sp _ js(1) _ js(2-5) _ js(6)]) (simp_all only: w a add_0)
  then show ?thesis by (simp add: vs_def)
qed

end
