(* ===== verification/LibBitcoin.thy ===== *)
theory LibBitcoin
  imports Satoshi "HOL-Library.Word" "HOL-Library.AList"
begin

text \<open>
  \<^verbatim>\<open>src/ZrLibBitcoin.cpp\<close> and \<^verbatim>\<open>src/ZrLibBitcoin.h\<close>: the Bitcoin client over the libbitcoin library,
  an alternative the build can select, with the wallet that puts transactions together and signs
  them. The functions of the library are the fields of \<open>bclib\<close> and \<open>bcnode\<close>; amounts are 64-bit
  words as in the code. The threads of the library and its log files are left out: the calls the code
  makes to it are recorded in the order they are made.
\<close>

section \<open>Transactions\<close>

datatype opcode = Op_dup | Op_hash160 | Op_special | Op_equalverify | Op_checksig | Op_equal

type_synonym data_chunk = "8 word list"
type_synonym script = "(opcode \<times> data_chunk) list"

record 'pt tx_input =
  in_previous_output :: 'pt
  in_sequence :: "32 word"
  in_script :: script

record tx_output =
  out_value :: "64 word"
  out_script :: script

record 'pt bc_tx =
  tx_version :: "32 word"
  tx_locktime :: "32 word"
  tx_inputs :: "'pt tx_input list"
  tx_outputs :: "tx_output list"

text \<open>
  What the code uses of the library: addresses \<open>'a\<close>, points \<open>'pt\<close> (outputs of earlier transactions),
  secrets \<open>'s\<close> and hashes \<open>'h\<close>. The two defaults are the values a map makes up for a missing key.
\<close>

record ('a, 'pt, 's, 'h) bclib =
  bc_set_encoded :: "string \<Rightarrow> 'a option"
  bc_version :: "'a \<Rightarrow> nat"
  bc_pubkey_version :: nat
  bc_script_version :: nat
  bc_hash :: "'a \<Rightarrow> data_chunk"
  bc_address_of :: "data_chunk \<Rightarrow> 'a"
  bc_generate_public_key :: "nat \<Rightarrow> bool \<Rightarrow> data_chunk"
  bc_set_secret :: "'s \<Rightarrow> bool"
  bc_public_key :: "'s \<Rightarrow> data_chunk"
  bc_sign :: "'s \<Rightarrow> 'h \<Rightarrow> data_chunk"
  bc_signature_hash :: "'pt bc_tx \<Rightarrow> nat \<Rightarrow> script \<Rightarrow> 'h"
  bc_hash_transaction :: "'pt bc_tx \<Rightarrow> 'h"
  bc_null_hash :: 'h
  bc_null_point_hash :: "'pt \<Rightarrow> bool"
  bc_select_outputs :: "('pt \<times> 64 word) list \<Rightarrow> 64 word \<Rightarrow> 'pt list \<times> 64 word"
  bc_lexical_cast :: "string \<Rightarrow> 64 word option"
  bc_no_address :: 'a
  bc_no_secret :: 's

definition build_pubkey_hash_script :: "data_chunk \<Rightarrow> script" where
  "build_pubkey_hash_script pubkey_hash =
     [(Op_dup, []), (Op_hash160, []), (Op_special, pubkey_hash), (Op_equalverify, []), (Op_checksig, [])]"

definition build_script_hash_script :: "data_chunk \<Rightarrow> script" where
  "build_script_hash_script script_hash = [(Op_hash160, []), (Op_special, script_hash), (Op_equal, [])]"

definition build_output_script :: "('a, 'pt, 's, 'h) bclib \<Rightarrow> 'a \<Rightarrow> script option" where
  "build_output_script B payaddr =
     (if bc_version B payaddr = bc_pubkey_version B then Some (build_pubkey_hash_script (bc_hash B payaddr))
      else if bc_version B payaddr = bc_script_version B then Some (build_script_hash_script (bc_hash B payaddr))
      else None)"

text \<open>The signature and the public key are pushed on the script of the input; the result says whether they were.\<close>

definition make_signature :: "('a, 'pt, 's, 'h) bclib \<Rightarrow> 'pt bc_tx \<Rightarrow> nat \<Rightarrow> 's \<Rightarrow> script \<Rightarrow> 'pt bc_tx \<times> bool" where
  "make_signature B tx i key script_code =
     (let public_key = bc_public_key B key; tx_hash = bc_signature_hash B tx i script_code in
      if public_key = [] then (tx, False)
      else if tx_hash = bc_null_hash B then (tx, False)
      else (tx\<lparr>tx_inputs := (tx_inputs tx)[i := (tx_inputs tx ! i)\<lparr>in_script := in_script (tx_inputs tx ! i) @
              [(Op_special, bc_sign B key tx_hash @ [1]), (Op_special, public_key)]\<rparr>]\<rparr>, True))"

section \<open>The wallet\<close>

text \<open>
  The state of \<^verbatim>\<open>wallet_control\<close> with the counter of its address cycler, the lines of the console,
  a ring of \<open>l_capacity\<close> lines, and the transactions to be sent. The unspent outputs are a list,
  in the order they were added, where the code has a hash table.
\<close>

record ('a, 'pt, 's) wallet_control =
  l_n :: nat
  l_our_addrs :: "'a list"
  l_unspent :: "('pt \<times> ('a \<times> 64 word)) list"
  l_privkeys :: "('a \<times> 's) list"
  l_capacity :: nat
  l_console :: "string list"
  l_queue :: "'pt bc_tx list"

definition wc_next_address :: "(('a, 'pt, 's) wallet_control, unit) prog" where
  "wc_next_address = modify (\<lambda>w. w\<lparr>l_n := l_n w + 1\<rparr>)"

definition wc_previous_address :: "(('a, 'pt, 's) wallet_control, unit) prog" where
  "wc_previous_address = modify (\<lambda>w. if l_n w = 0 then w else w\<lparr>l_n := l_n w - 1\<rparr>)"

definition wc_add_address :: "'a \<Rightarrow> (('a, 'pt, 's) wallet_control, unit) prog" where
  "wc_add_address addr = modify (\<lambda>w. w\<lparr>l_our_addrs := List.insert addr (l_our_addrs w)\<rparr>)"

definition wc_is_ours :: "'a \<Rightarrow> (('a, 'pt, 's) wallet_control, bool) prog" where
  "wc_is_ours addr = gets (\<lambda>w. addr \<in> set (l_our_addrs w))"

definition wc_add_unspent :: "'pt \<Rightarrow> 'a \<Rightarrow> 64 word \<Rightarrow> (('a, 'pt, 's) wallet_control, unit) prog" where
  "wc_add_unspent prevout addr val = modify (\<lambda>w. w\<lparr>l_unspent := AList.update prevout (addr, val) (l_unspent w)\<rparr>)"

definition wc_find_unspent :: "('a, 'pt, 's, 'h) bclib \<Rightarrow> 64 word \<Rightarrow> (('a, 'pt, 's) wallet_control, 'pt list \<times> 64 word) prog" where
  "wc_find_unspent B val = gets (\<lambda>w. bc_select_outputs B (map (\<lambda>(p, a, v). (p, v)) (l_unspent w)) val)"

definition wc_lookup :: "('a, 'pt, 's, 'h) bclib \<Rightarrow> 'pt \<Rightarrow> (('a, 'pt, 's) wallet_control, 'a) prog" where
  "wc_lookup B prevout =
     bnd (gets (\<lambda>w. map_of (l_unspent w) prevout)) (\<lambda>r. case r of
         Some (addr, _) \<Rightarrow> ret addr
       | None \<Rightarrow> thn (modify (\<lambda>w. w\<lparr>l_unspent := l_unspent w @ [(prevout, bc_no_address B, 0)]\<rparr>)) (ret (bc_no_address B)))"

definition cycler_address :: "('a, 'pt, 's, 'h) bclib \<Rightarrow> nat \<Rightarrow> bool \<Rightarrow> 'a" where
  "cycler_address B n change = bc_address_of B (bc_generate_public_key B n change)"

definition wc_change_address :: "('a, 'pt, 's, 'h) bclib \<Rightarrow> (('a, 'pt, 's) wallet_control, 'a) prog" where
  "wc_change_address B = gets (\<lambda>w. cycler_address B (l_n w) True)"

definition wc_add_key :: "'a \<Rightarrow> 's \<Rightarrow> (('a, 'pt, 's) wallet_control, unit) prog" where
  "wc_add_key addr secret = modify (\<lambda>w. w\<lparr>l_privkeys := AList.update addr secret (l_privkeys w)\<rparr>)"

definition wc_lookup_key :: "('a, 'pt, 's, 'h) bclib \<Rightarrow> 'a \<Rightarrow> (('a, 'pt, 's) wallet_control, 's) prog" where
  "wc_lookup_key B addr =
     bnd (gets (\<lambda>w. map_of (l_privkeys w) addr)) (\<lambda>r. case r of
         Some secret \<Rightarrow> ret secret
       | None \<Rightarrow> thn (modify (\<lambda>w. w\<lparr>l_privkeys := l_privkeys w @ [(addr, bc_no_secret B)]\<rparr>)) (ret (bc_no_secret B)))"

text \<open>One row of the history of an address: the point, its value, and the point that spends it.\<close>

definition history_fetched :: "('a, 'pt, 's, 'h) bclib \<Rightarrow> bool \<Rightarrow> ('pt \<times> 64 word \<times> 'pt) list \<Rightarrow> string
    \<Rightarrow> (('a, 'pt, 's) wallet_control, unit) prog" where
  "history_fetched B ec history btc_address =
     (if ec then ret ()
      else for_each history (\<lambda>(out, val, spend). whn (bc_null_point_hash B spend)
        (wc_add_unspent out (case bc_set_encoded B btc_address of Some a \<Rightarrow> a | None \<Rightarrow> bc_no_address B) val)))"

definition console :: "string \<Rightarrow> (('a, 'pt, 's) wallet_control, unit) prog" where
  "console line = modify (\<lambda>w. let ls = l_console w @ [line] in w\<lparr>l_console := drop (length ls - l_capacity w) ls\<rparr>)"

section \<open>Sending\<close>

definition change_output :: "('a, 'pt, 's, 'h) bclib \<Rightarrow> 64 word \<Rightarrow> (('a, 'pt, 's) wallet_control, tx_output) prog" where
  "change_output B change =
     bnd (wc_change_address B) (\<lambda>change_addr.
     bnd (need Aborted (build_output_script B change_addr)) (\<lambda>s. ret \<lparr>out_value = change, out_script = s\<rparr>))"

text \<open>The result of signing an input is not looked at.\<close>

definition sign_input :: "('a, 'pt, 's, 'h) bclib \<Rightarrow> 'pt bc_tx \<Rightarrow> nat \<Rightarrow> (('a, 'pt, 's) wallet_control, 'pt bc_tx) prog" where
  "sign_input B tx i =
     bnd (wc_lookup B (in_previous_output (tx_inputs tx ! i))) (\<lambda>addr.
     bnd (wc_lookup_key B addr) (\<lambda>secret.
     if \<not> bc_set_secret B secret then throw (Undefined Aborted)
     else bnd (need Aborted (build_output_script B (bc_address_of B (bc_public_key B secret)))) (\<lambda>script_code.
       ret (fst (make_signature B tx i secret script_code)))))"

fun sign_inputs :: "('a, 'pt, 's, 'h) bclib \<Rightarrow> nat list \<Rightarrow> 'pt bc_tx \<Rightarrow> (('a, 'pt, 's) wallet_control, 'pt bc_tx) prog" where
  "sign_inputs B [] tx = ret tx"
| "sign_inputs B (i # is) tx = bnd (sign_input B tx i) (sign_inputs B is)"

definition send_amount :: "('a, 'pt, 's, 'h) bclib \<Rightarrow> 'a \<Rightarrow> 64 word \<Rightarrow> 64 word \<Rightarrow> (('a, 'pt, 's) wallet_control, 'h) prog" where
  "send_amount B dest_addr amount fee =
     thn (console ''Sending...'')
     (bnd (wc_find_unspent B (amount + fee)) (\<lambda>(points, change).
      if points = [] then thn (console ''send: Not enough funds.'') (ret (bc_null_hash B))
      else case build_output_script B dest_addr of
          None \<Rightarrow> thn (console ''send: Unsupported address type.'') (ret (bc_null_hash B))
        | Some s \<Rightarrow>
            bnd (change_output B change) (\<lambda>out2.
            bnd (sign_inputs B [0..<length points]
                  \<lparr>tx_version = 1, tx_locktime = 0,
                   tx_inputs = map (\<lambda>p. \<lparr>in_previous_output = p, in_sequence = 4294967295, in_script = []\<rparr>) points,
                   tx_outputs = [\<lparr>out_value = amount, out_script = s\<rparr>, out2]\<rparr>) (\<lambda>tx.
            thn (modify (\<lambda>w. w\<lparr>l_queue := l_queue w @ [tx]\<rparr>)) (ret (bc_hash_transaction B tx))))))"

definition bc_send :: "('a, 'pt, 's, 'h) bclib \<Rightarrow> string list \<Rightarrow> (('a, 'pt, 's) wallet_control, 'h) prog" where
  "bc_send B strs =
     (let fail = (\<lambda>line. thn (console line) (ret (bc_null_hash B))) in
      if length strs \<noteq> 3 \<and> length strs \<noteq> 4 then fail ''send: Wrong number of arguments.''
      else case bc_set_encoded B (strs ! 1) of None \<Rightarrow> fail ''send: Invalid address.''
        | Some dest_addr \<Rightarrow> (case bc_lexical_cast B (strs ! 2) of None \<Rightarrow> fail ''send: Invalid amount.''
        | Some amount \<Rightarrow>
            if length strs = 4 then
              (case bc_lexical_cast B (strs ! 3) of None \<Rightarrow> fail ''send: Invalid fee.''
               | Some fee \<Rightarrow> send_amount B dest_addr amount fee)
            else send_amount B dest_addr amount 10000))"

text \<open>One turn of the loop that sends: the newest transaction first.\<close>

definition broadcast_turn :: "(('a, 'pt, 's) wallet_control, 'pt bc_tx option) prog" where
  "broadcast_turn =
     bnd (gets l_queue) (\<lambda>q. if q = [] then ret None
       else thn (modify (\<lambda>w. w\<lparr>l_queue := butlast q\<rparr>)) (ret (Some (last q))))"

fun broadcast_turns :: "nat \<Rightarrow> (('a, 'pt, 's) wallet_control, 'pt bc_tx list) prog" where
  "broadcast_turns 0 = ret []"
| "broadcast_turns (Suc n) = bnd broadcast_turn (\<lambda>tx. bnd (broadcast_turns n) (\<lambda>txs.
     ret (case tx of None \<Rightarrow> txs | Some x \<Rightarrow> x # txs)))"

lemma broadcast_turns_all:
  "length (l_queue w) \<le> n \<Longrightarrow> broadcast_turns n w = (Inr (rev (l_queue w)), w\<lparr>l_queue := []\<rparr>)"
proof (induction n arbitrary: w)
  case (Suc n)
  then show ?case
  proof (cases "l_queue w" rule: rev_cases)
    case (snoc q tx)
    with Suc show ?thesis by (simp add: broadcast_turn_def bnd_def thn_def prog_apply)
  qed (simp add: broadcast_turn_def bnd_def prog_apply)
qed (simp add: prog_apply)

text \<open>
  The thread that sends: it logs to a file, starts the network with at most four connections and loops
  until the flag is set, which the turn with the given number reads; then it takes the network down.
  Nothing in the program sets the flag, so that no number of turns gets past the loop.
\<close>

datatype 'tx net_call = Net_log string | Net_outbound nat | Net_start | Net_broadcast 'tx | Net_stop | Net_join

definition bc_stopped :: bool where "bc_stopped = False"

fun broadcast_loop :: "(nat \<Rightarrow> bool) \<Rightarrow> nat \<Rightarrow> nat \<Rightarrow> (('a, 'pt, 's) wallet_control, 'pt bc_tx list \<times> bool) prog" where
  "broadcast_loop stop 0 i = ret ([], False)"
| "broadcast_loop stop (Suc n) i =
     (if stop i then ret ([], True)
      else bnd broadcast_turn (\<lambda>tx. bnd (broadcast_loop stop n (Suc i)) (\<lambda>(txs, ended).
        ret (case tx of None \<Rightarrow> txs | Some x \<Rightarrow> x # txs, ended))))"

definition broadcast_subsystem :: "(nat \<Rightarrow> bool) \<Rightarrow> nat \<Rightarrow> (('a, 'pt, 's) wallet_control, 'pt bc_tx net_call list) prog" where
  "broadcast_subsystem stop n =
     bnd (broadcast_loop stop n 0) (\<lambda>(txs, ended).
       ret ([Net_log ''wallet.log'', Net_outbound 4, Net_start] @ map Net_broadcast txs @ (if ended then [Net_stop, Net_join] else [])))"

lemma loop_is_turns: "broadcast_loop (\<lambda>_. bc_stopped) n i = bnd (broadcast_turns n) (\<lambda>txs. ret (txs, False))"
  by (induction n arbitrary: i) (simp_all add: bc_stopped_def fun_eq_iff bnd_def prog_apply split: prod.split sum.split)

lemma broadcast_never_ends:
  "broadcast_subsystem (\<lambda>_. bc_stopped) n w = (Inr calls, w') \<Longrightarrow> Net_stop \<notin> set calls \<and> Net_join \<notin> set calls"
  by (auto simp: broadcast_subsystem_def loop_is_turns bnd_def prog_apply split: prod.splits sum.splits)

lemma broadcast_sends_all:
  "length (l_queue w) \<le> n \<Longrightarrow> broadcast_subsystem (\<lambda>_. bc_stopped) n w =
    (Inr ([Net_log ''wallet.log'', Net_outbound 4, Net_start] @ map Net_broadcast (rev (l_queue w))), w\<lparr>l_queue := []\<rparr>)"
  by (simp add: broadcast_subsystem_def loop_is_turns bnd_def broadcast_turns_all prog_apply)

text \<open>
  The key of the hash table of the unspent outputs: the bytes of the hash and of the index, which the
  library writes as four bytes. Two outputs have the same key only when they are the same.
\<close>

definition output_point_key :: "(32 word \<Rightarrow> 8 word list) \<Rightarrow> 8 word list \<times> 32 word \<Rightarrow> 8 word list" where
  "output_point_key write_4_bytes outpt = fst outpt @ write_4_bytes (snd outpt)"

definition output_point_hash :: "(8 word list \<Rightarrow> 64 word) \<Rightarrow> (32 word \<Rightarrow> 8 word list) \<Rightarrow> 8 word list \<times> 32 word \<Rightarrow> 64 word" where
  "output_point_hash hash_fn write_4_bytes outpt = hash_fn (output_point_key write_4_bytes outpt)"

lemma output_point_key_inj:
  assumes "\<And>i. length (wr i) = 4" and "inj wr"
    and "output_point_key wr a = output_point_key wr b"
  shows "a = b"
  using assms by (cases a; cases b) (auto simp: output_point_key_def dest: injD)

text \<open>What is written to the log of the library, with the name of the level.\<close>

definition log_line :: "string \<Rightarrow> string \<Rightarrow> string \<Rightarrow> string" where
  "log_line level domain body =
     (if body = [] then [] else level @ (if domain \<noteq> [] then '' ['' @ domain @ '']'' else []) @ '': '' @ body @ [CHR 0x0A])"

section \<open>The node\<close>

text \<open>What the code asks of the library, with the name of the channel it came from.\<close>

datatype 'tx lib_call =
    Chain_start string
  | Chain_import_genesis
  | Subscribe_channel
  | Subscribe_transaction string
  | Txpool_start
  | Txpool_store 'tx
  | Txidx_index 'tx
  | Txidx_deindex 'tx
  | Session_start
  | Pools_stop
  | Chain_stop

record 'tx libw = dbw +
  l_started :: bool
  l_calls :: "'tx lib_call list"

text \<open>What the library and the file system answer: errors are texts.\<close>

record bcnode =
  bn_config_dir :: string
  bn_exists :: "string \<Rightarrow> bool"
  bn_mkpath :: "string \<Rightarrow> bool"
  bn_chain_start :: "string \<Rightarrow> string option"
  bn_import :: "string option"

definition lib_call :: "'tx lib_call \<Rightarrow> (('tx, 'z) libw_scheme, unit) prog" where
  "lib_call c = modify (\<lambda>w. w\<lparr>l_calls := l_calls w @ [c]\<rparr>)"

definition initChain :: "bcnode \<Rightarrow> string \<Rightarrow> (('tx, 'z) libw_scheme, RetVal) prog" where
  "initChain L pathname =
     thn (lib_call (Chain_start pathname))
     (if bn_chain_start L pathname \<noteq> None then ret ZR_FAILURE
      else thn (lib_call Chain_import_genesis)
        (ret (if bn_import L \<noteq> None then ZR_FAILURE else ZR_SUCCESS)))"

text \<open>Started is what a client is that tried to start.\<close>

definition ZrLibBitcoin_start :: "ext \<Rightarrow> bcnode \<Rightarrow> (('tx, 'z) libw_scheme, RetVal) prog" where
  "ZrLibBitcoin_start E L =
     bnd (gets l_started) (\<lambda>started.
     if started then ret ZR_FINISH
     else
       let pathname = bn_config_dir L @ ''/'' @ x_own_id E @ ''/zeroreserve/blockchain'';
           go = thn (lib_call Subscribe_channel) (thn (lib_call Txpool_start) (thn (lib_call Session_start) (ret ZR_SUCCESS))) in
       thn (modify (\<lambda>w. w\<lparr>l_started := True\<rparr>))
       (if \<not> bn_exists L pathname then
          (if \<not> bn_mkpath L pathname then ret ZR_FAILURE
           else bnd (initChain L pathname) (\<lambda>r. if r \<noteq> ZR_SUCCESS then ret ZR_FAILURE else go))
        else thn (lib_call (Chain_start pathname))
          (if bn_chain_start L pathname \<noteq> None then ret ZR_FAILURE else go)))"

text \<open>Functions that end without returning the value they announce.\<close>

definition ZrLibBitcoin_stop :: "(('tx, 'z) libw_scheme, RetVal) prog" where
  "ZrLibBitcoin_stop = thn (lib_call Pools_stop) (thn (lib_call Chain_stop) (throw (Undefined Uninitialised)))"

definition ZrLibBitcoin_commit :: "(('tx, 'z) libw_scheme, RetVal) prog" where
  "ZrLibBitcoin_commit = throw (Undefined Uninitialised)"

definition ZrLibBitcoin_getBalance :: "(('tx, 'z) libw_scheme, ZR_Number) prog" where
  "ZrLibBitcoin_getBalance = throw (Undefined Uninitialised)"

definition connection_started :: "bool \<Rightarrow> string \<Rightarrow> (('tx, 'z) libw_scheme, unit) prog" where
  "connection_started ec node =
     (if ec then ret () else thn (lib_call (Subscribe_transaction node)) (lib_call Subscribe_channel))"

definition recv_tx :: "bool \<Rightarrow> 'tx \<Rightarrow> string \<Rightarrow> (('tx, 'z) libw_scheme, unit) prog" where
  "recv_tx ec tx node =
     (if ec then ret () else thn (lib_call (Txpool_store tx)) (lib_call (Subscribe_transaction node)))"

text \<open>The two callbacks of a transaction in the pool: it is confirmed, with an error or not, or it is valid.\<close>

definition handle_confirm :: "bool \<Rightarrow> 'tx \<Rightarrow> (('tx, 'z) libw_scheme, unit) prog" where
  "handle_confirm ec tx = lib_call (Txidx_deindex tx)"

definition new_unconfirm_valid_tx :: "bool \<Rightarrow> 'tx \<Rightarrow> (('tx, 'z) libw_scheme, unit) prog" where
  "new_unconfirm_valid_tx ec tx = (if ec then ret () else lib_call (Txidx_index tx))"

section \<open>Wallets\<close>

record LibBitcoinWallet =
  lw_walletType :: WalletType
  lw_nick :: string
  lw_seed :: string

fun WalletType_code :: "WalletType \<Rightarrow> nat" where
  "WalletType_code BRAINWALLET = 0"
| "WalletType_code ELECTRUMSEED = 1"
| "WalletType_code WIFIMPORT = 2"
| "WalletType_code CASASCIUS = 3"
| "WalletType_code INVALID_WALLET = 4"

text \<open>The deterministic wallet: a new seed, its public key and its secret with a number.\<close>

record detwallet =
  dw_new_seed :: string
  dw_address :: "string \<Rightarrow> nat \<Rightarrow> string"
  dw_secret :: "string \<Rightarrow> nat \<Rightarrow> string"

definition ZrLibBitcoin_mkWallet :: "WalletType \<Rightarrow> LibBitcoinWallet" where
  "ZrLibBitcoin_mkWallet wType = \<lparr>lw_walletType = wType, lw_nick = [], lw_seed = []\<rparr>"

definition LibBitcoinWallet_seed :: "detwallet \<Rightarrow> LibBitcoinWallet \<Rightarrow> string \<times> LibBitcoinWallet" where
  "LibBitcoinWallet_seed D w =
     (let w = (if lw_seed w = [] then w\<lparr>lw_seed := dw_new_seed D\<rparr> else w) in (lw_seed w, w))"

definition LibBitcoinWallet_setSeed :: "string \<Rightarrow> LibBitcoinWallet \<Rightarrow> LibBitcoinWallet" where
  "LibBitcoinWallet_setSeed sd w = w\<lparr>lw_walletType := ELECTRUMSEED, lw_seed := sd\<rparr>"

definition LibBitcoinWallet_getAddress :: "detwallet \<Rightarrow> LibBitcoinWallet \<Rightarrow> string" where
  "LibBitcoinWallet_getAddress D w = dw_address D (lw_seed w) 2"

definition LibBitcoinWallet_getBalance :: "LibBitcoinWallet \<Rightarrow> ZR_Number" where
  "LibBitcoinWallet_getBalance w = 0"

definition LibBitcoinWallet_getSecret :: "detwallet \<Rightarrow> LibBitcoinWallet \<Rightarrow> string option" where
  "LibBitcoinWallet_getSecret D w =
     (if lw_walletType w = ELECTRUMSEED then
        (if lw_seed w = [] then None else Some (dw_secret D (lw_seed w) 2))
      else None)"

text \<open>A secret that could not be had is stored as the empty text; other types end without a value.\<close>

definition LibBitcoinWallet_persist :: "ext \<Rightarrow> detwallet \<Rightarrow> LibBitcoinWallet \<Rightarrow> ('z dbw_scheme, RetVal) prog" where
  "LibBitcoinWallet_persist E D w =
     (case lw_walletType w of
        ELECTRUMSEED \<Rightarrow> storeMyWallet E (lw_seed w) (WalletType_code (lw_walletType w)) (lw_nick w)
      | WIFIMPORT \<Rightarrow> storeMyWallet E (case LibBitcoinWallet_getSecret D w of Some x \<Rightarrow> x | None \<Rightarrow> [])
            (WalletType_code (lw_walletType w)) (lw_nick w)
      | _ \<Rightarrow> throw (Undefined Uninitialised))"

text \<open>A row of another type deletes a pointer that was never set.\<close>

fun load_wallets :: "MyWallet_row list \<Rightarrow> LibBitcoinWallet list \<Rightarrow> exn + LibBitcoinWallet list" where
  "load_wallets [] ws = Inr ws"
| "load_wallets (r # rs) ws =
     (if mw_type r = WalletType_code ELECTRUMSEED then
        load_wallets rs (ws @ [(LibBitcoinWallet_setSeed (mw_secret r) (ZrLibBitcoin_mkWallet ELECTRUMSEED))\<lparr>lw_nick := mw_nick r\<rparr>])
      else Inl (Undefined Uninitialised))"

definition ZrLibBitcoin_loadWallets :: "ext \<Rightarrow> LibBitcoinWallet list \<Rightarrow> ('z dbw_scheme, LibBitcoinWallet list) prog" where
  "ZrLibBitcoin_loadWallets E ws = bnd (loadMyWallets E) (\<lambda>rows. lift (load_wallets rows ws))"

section \<open>What sending does\<close>

definition key_of :: "('a, 'pt, 's) wallet_control \<Rightarrow> 'pt \<Rightarrow> 's option" where
  "key_of w p = (case map_of (l_unspent w) p of None \<Rightarrow> None | Some (a, v) \<Rightarrow> map_of (l_privkeys w) a)"

definition value_of :: "('a, 'pt, 's) wallet_control \<Rightarrow> 'pt \<Rightarrow> 64 word" where
  "value_of w p = (case map_of (l_unspent w) p of None \<Rightarrow> 0 | Some (a, v) \<Rightarrow> v)"

text \<open>A key of the wallet for the point, of which an address can be made that scripts are known for.\<close>

definition signable :: "('a, 'pt, 's, 'h) bclib \<Rightarrow> ('a, 'pt, 's) wallet_control \<Rightarrow> 'pt \<Rightarrow> bool" where
  "signable B w p \<longleftrightarrow> (\<exists>s. key_of w p = Some s \<and> bc_set_secret B s \<and>
     build_output_script B (bc_address_of B (bc_public_key B s)) \<noteq> None)"

text \<open>
  What signing adds to the script of an input: the signature of the hash of the transaction and the key, or nothing
  when there is no public key or the library gives the null hash, with which it reports an error.
\<close>

definition signature_script :: "('a, 'pt, 's, 'h) bclib \<Rightarrow> 'pt bc_tx \<Rightarrow> nat \<Rightarrow> 's \<Rightarrow> script \<Rightarrow> script" where
  "signature_script B tx i key c = (let h = bc_signature_hash B tx i c in
     if bc_public_key B key = [] \<or> h = bc_null_hash B then []
     else [(Op_special, bc_sign B key h @ [1]), (Op_special, bc_public_key B key)])"

definition signed_by :: "('a, 'pt, 's, 'h) bclib \<Rightarrow> ('a, 'pt, 's) wallet_control \<Rightarrow> 'pt bc_tx \<Rightarrow> nat \<Rightarrow> 'pt tx_input \<Rightarrow> bool" where
  "signed_by B w tx i x \<longleftrightarrow> (\<exists>s c. key_of w (in_previous_output (tx_inputs tx ! i)) = Some s \<and>
     build_output_script B (bc_address_of B (bc_public_key B s)) = Some c \<and>
     x = (tx_inputs tx ! i)\<lparr>in_script := in_script (tx_inputs tx ! i) @ signature_script B tx i s c\<rparr>)"

text \<open>The transaction as it is when an input is signed: those before it are signed, it and those after it are as they were.\<close>

definition so_far :: "'pt tx_input list \<Rightarrow> 'pt bc_tx \<Rightarrow> nat \<Rightarrow> 'pt bc_tx" where
  "so_far inputs tx i = tx\<lparr>tx_inputs := take i (tx_inputs tx) @ drop i inputs\<rparr>"

lemma key_of_console [simp]: "key_of (w\<lparr>l_console := c\<rparr>) = key_of w"
  by (simp add: key_of_def fun_eq_iff split: option.split)

lemma sign_input_ok:
  assumes "signable B w (in_previous_output (tx_inputs tx ! i))" and "i < length (tx_inputs tx)"
  shows "\<exists>x. signed_by B w tx i x \<and> sign_input B tx i w = (Inr (tx\<lparr>tx_inputs := (tx_inputs tx)[i := x]\<rparr>), w)"
proof -
  obtain a v s c where s: "map_of (l_unspent w) (in_previous_output (tx_inputs tx ! i)) = Some (a, v)" "map_of (l_privkeys w) a = Some s"
    "bc_set_secret B s" "build_output_script B (bc_address_of B (bc_public_key B s)) = Some c"
    using assms(1) by (auto simp: signable_def key_of_def split: option.splits)
  let ?x = "(tx_inputs tx ! i)\<lparr>in_script := in_script (tx_inputs tx ! i) @ signature_script B tx i s c\<rparr>"
  have "fst (make_signature B tx i s c) = tx\<lparr>tx_inputs := (tx_inputs tx)[i := ?x]\<rparr>"
    by (simp add: make_signature_def signature_script_def Let_def)
  moreover have "signed_by B w tx i ?x" using s by (auto simp: signed_by_def key_of_def)
  ultimately show ?thesis
    using s by (intro exI [of _ ?x]) (simp add: sign_input_def wc_lookup_def wc_lookup_key_def prog_defs)
qed

lemma sign_inputs_ok:
  assumes "\<forall>p\<in>set ps. signable B w p" and "map in_previous_output (tx_inputs tx) = ps" and "k + n = length ps"
  shows "\<exists>tx'. sign_inputs B [k..<length ps] tx w = (Inr tx', w) \<and> tx\<lparr>tx_inputs := tx_inputs tx'\<rparr> = tx' \<and>
    map in_previous_output (tx_inputs tx') = ps \<and> take k (tx_inputs tx') = take k (tx_inputs tx) \<and>
    (\<forall>i. k \<le> i \<and> i < length ps \<longrightarrow> signed_by B w (so_far (tx_inputs tx) tx' i) i (tx_inputs tx' ! i))"
  using assms(2,3)
proof (induction n arbitrary: k tx)
  case 0
  then show ?case by (auto simp: prog_apply)
next
  case (Suc n)
  have len: "length (tx_inputs tx) = length ps" using Suc.prems(1) by (metis length_map)
  have k: "k < length ps" "[k..<length ps] = k # [Suc k..<length ps]" using Suc.prems(2) by (auto simp: upt_conv_Cons)
  have pt: "in_previous_output (tx_inputs tx ! k) = ps ! k" using Suc.prems(1) k len by (metis nth_map)
  then have "signable B w (in_previous_output (tx_inputs tx ! k))" using assms(1) k by simp
  from sign_input_ok [OF this] k len obtain x where x: "signed_by B w tx k x"
    "sign_input B tx k w = (Inr (tx\<lparr>tx_inputs := (tx_inputs tx)[k := x]\<rparr>), w)" by auto
  let ?tx1 = "tx\<lparr>tx_inputs := (tx_inputs tx)[k := x]\<rparr>"
  have "in_previous_output x = ps ! k" using x(1) pt by (auto simp: signed_by_def)
  then have "map in_previous_output (tx_inputs ?tx1) = ps" using Suc.prems(1) by (simp add: map_update)
  with Suc.IH [of ?tx1 "Suc k"] Suc.prems(2) obtain tx' where
    tx': "sign_inputs B [Suc k..<length ps] ?tx1 w = (Inr tx', w)" "?tx1\<lparr>tx_inputs := tx_inputs tx'\<rparr> = tx'"
    "map in_previous_output (tx_inputs tx') = ps" "take (Suc k) (tx_inputs tx') = take (Suc k) (tx_inputs ?tx1)"
    "\<forall>i. Suc k \<le> i \<and> i < length ps \<longrightarrow> signed_by B w (so_far (tx_inputs ?tx1) tx' i) i (tx_inputs tx' ! i)" by auto
  have len': "length (tx_inputs tx') = length ps" using tx'(3) by (metis length_map)
  have eq: "tx\<lparr>tx_inputs := tx_inputs tx'\<rparr> = tx'" using tx'(2) by simp
  have head: "take k (tx_inputs tx') = take k (tx_inputs tx)"
    using tx'(4) by (metis take_take take_update_cancel bc_tx.select_convs(3) bc_tx.update_convs(3) min.absorb1 bc_tx.surjective order_refl Suc_leD)
  have at_k: "tx_inputs tx' ! k = x"
    using tx'(4) k len by (metis bc_tx.select_convs(3) bc_tx.surjective bc_tx.update_convs(3) lessI nth_list_update_eq nth_take)
  have "so_far (tx_inputs tx) tx' k = tx\<lparr>tx_inputs := take k (tx_inputs tx) @ drop k (tx_inputs tx)\<rparr>"
    unfolding so_far_def head [symmetric] by (subst (2) eq [symmetric]) simp
  then have "so_far (tx_inputs tx) tx' k = tx" by simp
  then have "signed_by B w (so_far (tx_inputs tx) tx' i) i (tx_inputs tx' ! i)" if "k \<le> i" "i < length ps" for i
    using that tx'(5) x(1) at_k by (cases "i = k") (auto simp: so_far_def)
  with tx'(1,3) x(2) eq head show ?case unfolding k(2) by (intro exI [of _ tx']) (simp add: bnd_def)
qed

text \<open>
  What the library documents: of unspent outputs, each listed once and worth no more than 64 bits in all, it selects some
  that sum up to the amount and the change.
\<close>

definition selects :: "('a, 'pt, 's, 'h) bclib \<Rightarrow> bool" where
  "selects B \<longleftrightarrow> (\<forall>outs v ps c. distinct (map fst outs) \<and> (\<Sum>x\<leftarrow>outs. unat (snd x)) < 2 ^ 64 \<and>
     bc_select_outputs B outs v = (ps, c) \<and> ps \<noteq> [] \<longrightarrow>
     set ps \<subseteq> fst ` set outs \<and> (\<Sum>p\<leftarrow>ps. unat (the (map_of outs p))) = unat v + unat c)"

definition wallet_fits :: "('a, 'pt, 's) wallet_control \<Rightarrow> bool" where
  "wallet_fits w \<longleftrightarrow> distinct (map fst (l_unspent w)) \<and> (\<Sum>x\<leftarrow>l_unspent w. unat (snd (snd x))) < 2 ^ 64"

lemma selected_values:
  assumes "selects B" and "bc_select_outputs B (map (\<lambda>(p, a, v). (p, v)) (l_unspent w)) (amount + fee) = (ps, change)" and "ps \<noteq> []"
    and "wallet_fits w"
  shows "set ps \<subseteq> fst ` set (l_unspent w)"
    and "(\<Sum>p\<leftarrow>ps. unat (value_of w p)) + 2 ^ 64 * ((unat amount + unat fee) div 2 ^ 64) = unat amount + unat fee + unat change"
proof -
  let ?outs = "map (\<lambda>(p, a, v). (p, v)) (l_unspent w)"
  have m: "?outs = map (\<lambda>(k, z). (k, snd z)) (l_unspent w)" by (auto simp: fun_eq_iff)
  have fits: "distinct (map fst ?outs)" "(\<Sum>x\<leftarrow>?outs. unat (snd x)) < 2 ^ 64"
    using assms(4) by (simp_all add: wallet_fits_def case_prod_beta o_def)
  have s: "set ps \<subseteq> fst ` set ?outs" "(\<Sum>p\<leftarrow>ps. unat (the (map_of ?outs p))) = unat (amount + fee) + unat change"
    using assms(1-3) fits unfolding selects_def by blast+
  have "fst ` set ?outs = fst ` set (l_unspent w)" by (simp add: image_image case_prod_beta)
  with s(1) show i: "set ps \<subseteq> fst ` set (l_unspent w)" by simp
  have "unat (the (map_of ?outs p)) = unat (value_of w p)" if p: "p \<in> set ps" for p
  proof -
    from p i obtain z where "map_of (l_unspent w) p = Some z" by (metis map_of_eq_None_iff not_Some_eq subsetD)
    then show ?thesis unfolding m by (cases z) (simp add: map_of_map value_of_def)
  qed
  then have "(\<Sum>p\<leftarrow>ps. unat (value_of w p)) = unat (amount + fee) + unat change"
    using s(2) by (metis (no_types, lifting) map_eq_conv)
  moreover have "unat (amount + fee) + 2 ^ 64 * ((unat amount + unat fee) div 2 ^ 64) = unat amount + unat fee"
    by (simp add: unat_word_ariths)
  ultimately show "(\<Sum>p\<leftarrow>ps. unat (value_of w p)) + 2 ^ 64 * ((unat amount + unat fee) div 2 ^ 64) = unat amount + unat fee + unat change"
    by simp
qed

text \<open>
  C23: Sending with the libbitcoin wallet, when it has the funds and the keys, queues one transaction:
  its outputs pay the amount and the change, and the inputs are worth the amount, the fee and the change, unless the
  amount and the fee overflow 64 bits: then the inputs fall short by 2 to the 64. Every input carries the signature, with
  the key of the output it spends, of the hash the library makes of the transaction as it is then, with the inputs before
  it signed. An input for which there is no hash or no public key carries nothing, and the transaction is queued all the
  same. The outputs that were spent stay listed as unspent.
\<close>

theorem sent_transaction_balances:
  assumes "selects B" and "bc_set_encoded B dest = Some d" and "bc_lexical_cast B amt = Some amount" and "bc_lexical_cast B f = Some fee"
    and "bc_select_outputs B (map (\<lambda>(p, a, v). (p, v)) (l_unspent w)) (amount + fee) = (ps, change)" and "ps \<noteq> []"
    and "build_output_script B d = Some s1" and "build_output_script B (cycler_address B (l_n w) True) = Some s2"
    and "\<forall>p\<in>fst ` set (l_unspent w). signable B w p" and "wallet_fits w"
  shows "\<exists>tx w'. bc_send B [cmd, dest, amt, f] w = (Inr (bc_hash_transaction B tx), w') \<and> l_queue w' = l_queue w @ [tx] \<and>
    l_unspent w' = l_unspent w \<and> tx_outputs tx = [\<lparr>out_value = amount, out_script = s1\<rparr>, \<lparr>out_value = change, out_script = s2\<rparr>] \<and>
    map in_previous_output (tx_inputs tx) = ps \<and>
    (\<forall>i<length ps. \<exists>s c. key_of w (ps ! i) = Some s \<and> build_output_script B (bc_address_of B (bc_public_key B s)) = Some c \<and>
       in_script (tx_inputs tx ! i) = signature_script B
         (so_far (map (\<lambda>p. \<lparr>in_previous_output = p, in_sequence = 4294967295, in_script = []\<rparr>) ps) tx i) i s c) \<and>
    (\<Sum>i\<leftarrow>tx_inputs tx. unat (value_of w (in_previous_output i))) + 2 ^ 64 * ((unat amount + unat fee) div 2 ^ 64) =
      unat amount + unat fee + unat change"
proof -
  note sel = selected_values [OF assms(1,5,6,10)]
  let ?w = "w\<lparr>l_console := drop (length (l_console w @ [''Sending...'']) - l_capacity w) (l_console w @ [''Sending...''])\<rparr>"
  let ?in = "\<lambda>p. \<lparr>in_previous_output = p, in_sequence = 4294967295, in_script = []\<rparr>"
  let ?tx = "\<lparr>tx_version = 1, tx_locktime = 0, tx_inputs = map ?in ps,
    tx_outputs = [\<lparr>out_value = amount, out_script = s1\<rparr>, \<lparr>out_value = change, out_script = s2\<rparr>]\<rparr>"
  have sg: "\<forall>p\<in>set ps. signable B ?w p" using assms(9) sel(1) by (auto simp: signable_def)
  obtain tx where tx: "sign_inputs B [0..<length ps] ?tx ?w = (Inr tx, ?w)" "?tx\<lparr>tx_inputs := tx_inputs tx\<rparr> = tx"
    "map in_previous_output (tx_inputs tx) = ps"
    "\<forall>i. 0 \<le> i \<and> i < length ps \<longrightarrow> signed_by B ?w (so_far (map ?in ps) tx i) i (tx_inputs tx ! i)"
    using sign_inputs_ok [OF sg, of ?tx 0 "length ps"] by (auto simp: o_def)
  have len: "length (tx_inputs tx) = length ps" using tx(3) by (metis length_map)
  have "\<exists>s c. key_of w (ps ! i) = Some s \<and> build_output_script B (bc_address_of B (bc_public_key B s)) = Some c \<and>
      in_script (tx_inputs tx ! i) = signature_script B (so_far (map ?in ps) tx i) i s c" if i: "i < length ps" for i
  proof -
    have "tx_inputs (so_far (map ?in ps) tx i) ! i = ?in (ps ! i)" using i len by (simp add: so_far_def nth_append)
    then show ?thesis using tx(4) i by (auto simp: signed_by_def)
  qed
  moreover have "(\<Sum>x\<leftarrow>tx_inputs tx. unat (value_of w (in_previous_output x))) = (\<Sum>p\<leftarrow>ps. unat (value_of w p))"
    unfolding tx(3) [symmetric] by (simp add: o_def)
  moreover have "bc_send B [cmd, dest, amt, f] w = (Inr (bc_hash_transaction B tx), ?w\<lparr>l_queue := l_queue w @ [tx]\<rparr>)"
    using assms(2-8) tx(1)
    by (simp add: bc_send_def send_amount_def console_def Let_def wc_find_unspent_def change_output_def wc_change_address_def
        bnd_def thn_def prog_apply need_def)
  moreover have "tx_outputs tx = tx_outputs ?tx" by (subst tx(2) [symmetric]) simp
  ultimately show ?thesis
    using sel(2) tx(3) by (intro exI [of _ tx] exI [of _ "?w\<lparr>l_queue := l_queue w @ [tx]\<rparr>"]) simp
qed

text \<open>
  The wallets the libbitcoin client loads are the stored ones, in their order, with their seeds
  and names; but a stored wallet of any other type than a seed stops the node, which then deletes a
  pointer it never set.
\<close>

theorem loaded_wallets_are_seeds:
  assumes "db_up E"
  shows "fst (ZrLibBitcoin_loadWallets E ws s) =
    (if \<forall>r\<in>set (t_mywallet (db_tables s)). mw_type r = 1
     then Inr (ws @ map (\<lambda>r. \<lparr>lw_walletType = ELECTRUMSEED, lw_nick = mw_nick r, lw_seed = mw_secret r\<rparr>) (t_mywallet (db_tables s)))
     else Inl (Undefined Uninitialised))"
proof -
  have "load_wallets rs ws = (if \<forall>r\<in>set rs. mw_type r = 1
      then Inr (ws @ map (\<lambda>r. \<lparr>lw_walletType = ELECTRUMSEED, lw_nick = mw_nick r, lw_seed = mw_secret r\<rparr>) rs)
      else Inl (Undefined Uninitialised))" for rs
    by (induction rs arbitrary: ws) (simp_all add: LibBitcoinWallet_setSeed_def ZrLibBitcoin_mkWallet_def)
  moreover have "\<exists>t. loadMyWallets E s = (Inr (t_mywallet (db_tables s)), t)"
    using assms by (simp add: loadMyWallets_def prog_defs list_rows_pure)
  ultimately show ?thesis by (auto simp: ZrLibBitcoin_loadWallets_def prog_defs)
qed

section \<open>Witnesses\<close>

definition demo_lib :: "(nat, nat, nat, nat) bclib" where
  "demo_lib = \<lparr>bc_set_encoded = (\<lambda>s. if s = ''dest'' then Some 7 else None), bc_version = (\<lambda>a. 0), bc_pubkey_version = 0,
     bc_script_version = 5, bc_hash = (\<lambda>a. [3]), bc_address_of = length, bc_generate_public_key = (\<lambda>n c. [1, 2]),
     bc_set_secret = (\<lambda>s. True), bc_public_key = (\<lambda>s. [4]), bc_sign = (\<lambda>s h. [5]), bc_signature_hash = (\<lambda>tx i c. if i < length (tx_inputs tx) then 1 else 0),
     bc_hash_transaction = (\<lambda>tx. length (tx_inputs tx)), bc_null_hash = 0, bc_null_point_hash = (\<lambda>p. p = 0),
     bc_select_outputs = (\<lambda>outs v. case List.find (\<lambda>(p, x). v \<le> x) outs of None \<Rightarrow> ([], 0)
       | Some (p, x) \<Rightarrow> (if map_of outs p = Some x then [p] else [], x - v)),
     bc_lexical_cast = (\<lambda>s. if s = ''30'' then Some 30 else if s = ''2'' then Some 2 else None), bc_no_address = 0, bc_no_secret = 0\<rparr>"

lemma demo_selects: "selects demo_lib"
proof -
  have "set ps \<subseteq> fst ` set outs \<and> (\<Sum>p\<leftarrow>ps. unat (the (map_of outs p))) = unat v + unat c"
    if sel: "bc_select_outputs demo_lib outs v = (ps, c)" and ne: "ps \<noteq> []" for outs v ps c
  proof -
    obtain p x where f: "List.find (\<lambda>(p, x). v \<le> x) outs = Some (p, x)" "map_of outs p = Some x" "ps = [p]" "c = x - v"
      using sel ne by (auto simp: demo_lib_def split: option.splits if_splits)
    then have "v \<le> x" "(p, x) \<in> set outs" by (auto simp: find_Some_iff dest: map_of_SomeD)
    then show ?thesis using f by (force simp: unat_sub word_le_nat_alt)
  qed
  then show ?thesis unfolding selects_def by blast
qed

theorem sent_transaction_balances_witness:
  "\<exists>tx w'. bc_send demo_lib [''send'', ''dest'', ''30'', ''2'']
      \<lparr>l_n = 0, l_our_addrs = [], l_unspent = [(8, 7, 50)], l_privkeys = [(7, 6)], l_capacity = 9, l_console = [], l_queue = []\<rparr>
      = (Inr 1, w') \<and> l_queue w' = [tx] \<and> map out_value (tx_outputs tx) = [30, 18] \<and> length (tx_inputs tx) = 1 \<and>
      in_script (tx_inputs tx ! 0) = [(Op_special, [5, 1]), (Op_special, [4])]"
proof -
  let ?w = "\<lparr>l_n = 0, l_our_addrs = [], l_unspent = [(8, 7, 50)], l_privkeys = [(7, 6)], l_capacity = 9, l_console = [], l_queue = []\<rparr>
    :: (nat, nat, nat) wallet_control"
  have a: "bc_set_encoded demo_lib ''dest'' = Some 7" "bc_lexical_cast demo_lib ''30'' = Some 30" "bc_lexical_cast demo_lib ''2'' = Some 2"
    "bc_select_outputs demo_lib (map (\<lambda>(p, a, v). (p, v)) (l_unspent ?w)) (30 + 2) = ([8], 18)"
    "build_output_script demo_lib 7 = Some (build_pubkey_hash_script [3])"
    "build_output_script demo_lib (cycler_address demo_lib (l_n ?w) True) = Some (build_pubkey_hash_script [3])"
    "\<forall>p\<in>fst ` set (l_unspent ?w). signable demo_lib ?w p" "wallet_fits ?w"
    by (simp_all add: demo_lib_def build_output_script_def signable_def key_of_def cycler_address_def wallet_fits_def)
  obtain tx w' where r: "bc_send demo_lib [''send'', ''dest'', ''30'', ''2''] ?w = (Inr (bc_hash_transaction demo_lib tx), w')"
    "l_queue w' = l_queue ?w @ [tx]" "map in_previous_output (tx_inputs tx) = [8]"
    "tx_outputs tx = [\<lparr>out_value = 30, out_script = build_pubkey_hash_script [3]\<rparr>, \<lparr>out_value = 18, out_script = build_pubkey_hash_script [3]\<rparr>]"
    "\<forall>i<length [8::nat]. \<exists>s c. key_of ?w ([8] ! i) = Some s \<and> build_output_script demo_lib (bc_address_of demo_lib (bc_public_key demo_lib s)) = Some c \<and>
       in_script (tx_inputs tx ! i) = signature_script demo_lib
         (so_far (map (\<lambda>p. \<lparr>in_previous_output = p, in_sequence = 4294967295, in_script = []\<rparr>) [8]) tx i) i s c"
    using sent_transaction_balances [OF demo_selects a(1-4) not_Cons_self2 a(5-8), of "''send''"] by (elim exE conjE) (rule that)
  from r(3) have "length (tx_inputs tx) = 1" by (metis length_map length_Cons list.size(3) One_nat_def)
  moreover have "in_script (tx_inputs tx ! 0) = [(Op_special, [5, 1]), (Op_special, [4])]"
    using r(5) [rule_format, of 0] by (auto simp: signature_script_def so_far_def demo_lib_def)
  ultimately show ?thesis using r by (intro exI [of _ tx] exI [of _ w']) (simp add: demo_lib_def)
qed

theorem loaded_wallets_are_seeds_witness:
  "fst (ZrLibBitcoin_loadWallets demo [] (demo_dbw\<lparr>db_tables := demo_tables\<lparr>t_mywallet := [\<lparr>mw_secret = ''s'', mw_type = 2, mw_nick = ''n''\<rparr>]\<rparr>\<rparr>))
     = Inl (Undefined Uninitialised)"
  using loaded_wallets_are_seeds [OF demo_db_up, of "[]" "demo_dbw\<lparr>db_tables := demo_tables\<lparr>t_mywallet := [\<lparr>mw_secret = ''s'', mw_type = 2, mw_nick = ''n''\<rparr>]\<rparr>\<rparr>"]
  by simp

end
