(* ===== verification/Lifecycle.thy ===== *)
theory Lifecycle
  imports Dialog Satoshi
begin

text \<open>
  The beginning and the end of the plug-in: the one instance of the database with its mutex and its two
  sqlite handles (\<^verbatim>\<open>ZrDB::Instance\<close>, \<^verbatim>\<open>init\<close> and \<^verbatim>\<open>close\<close> of \<^verbatim>\<open>src/zrdb.cpp\<close>), the service
  and \<^verbatim>\<open>stop\<close> of \<^verbatim>\<open>src/ZeroReservePlugin.cpp\<close>, and the two small dialogues for wallets. Elsewhere the
  database is always there; \<open>ZrDb.ZrDB_init\<close> is what its initialisation does to the tables.
\<close>

section \<open>Handles and the mutex\<close>

datatype handle = Unset | Opened | Closed

datatype btc_call = Btc_start | Btc_stop

record lifew = dbw +
  h_instance :: bool
  h_locked :: bool
  h_db :: handle
  h_txlog :: handle
  h_stopped :: bool
  h_service :: bool
  h_btc :: "btc_call list"

text \<open>
  What the file system and sqlite answer, and whether the mutex of RetroShare lets the thread
  that holds it in again.
\<close>

record site =
  st_pathname :: string
  st_mkpath :: bool
  st_exists :: bool
  st_open :: bool
  st_txlog :: bool
  st_reentrant :: bool

definition set_db :: "handle \<Rightarrow> ('z lifew_scheme, unit) prog" where
  "set_db h = modify (\<lambda>w. w\<lparr>h_db := h\<rparr>)"

definition set_txlog :: "handle \<Rightarrow> ('z lifew_scheme, unit) prog" where
  "set_txlog h = modify (\<lambda>w. w\<lparr>h_txlog := h\<rparr>)"

text \<open>Closing needs an open handle.\<close>

fun close_handle :: "handle \<Rightarrow> exn + handle" where
  "close_handle Opened = Inr Closed"
| "close_handle Unset = Inl (Undefined Uninitialised)"
| "close_handle Closed = Inl (Undefined Dangling_pointer)"

definition closeTxLog :: "('z lifew_scheme, unit) prog" where
  "closeTxLog = bnd (gets h_txlog) (\<lambda>h. bnd (lift (close_handle h)) set_txlog)"

definition ZrDB_close :: "('z lifew_scheme, unit) prog" where
  "ZrDB_close = thn (bnd (gets h_db) (\<lambda>h. bnd (lift (close_handle h)) set_db)) closeTxLog"

text \<open>The service is made on the first call, which starts the Bitcoin client.\<close>

definition rs_pqi_service :: "('z lifew_scheme, unit) prog" where
  "rs_pqi_service = bnd (gets h_service) (\<lambda>made. whn (\<not> made)
     (modify (\<lambda>w. w\<lparr>h_service := True, h_btc := h_btc w @ [Btc_start]\<rparr>)))"

text \<open>A handle that could not be opened is closed before the exception.\<close>

definition open_txlog :: "ext \<Rightarrow> site \<Rightarrow> ('z lifew_scheme, unit) prog" where
  "open_txlog E K =
     bnd (getConfig E ''TXLOGPATH'') (\<lambda>txLog.
       thn (set_txlog Opened)
       (if \<not> st_txlog K then thn closeTxLog (throw (Runtime_error ''SQL Error: Cannot open database''))
        else sql_statement E [] ''SQL Error: Cannot create table''))"

definition init_database :: "ext \<Rightarrow> site \<Rightarrow> ('z lifew_scheme, unit) prog" where
  "init_database E K =
     thn rs_pqi_service
     (if \<not> st_mkpath K then throw (Undefined Invalid_iterator)
      else
       thn (whn (\<not> st_exists K) (placeMsg (''Creating DB: '' @ st_pathname K @ ''/zeroreserve.db'')))
       (thn (set_db Opened)
       (if \<not> st_open K
        then thn (set_db Closed) (throw (Runtime_error (''SQL Error: Cannot open database: '' @ st_pathname K @ ''/zeroreserve.db'')))
        else thn (whn (\<not> st_exists K) (populate E (st_pathname K))) (thn (open_txlog E K) (check_version E)))))"

section \<open>The instance and the end\<close>

text \<open>The mutex is held while the body runs; who comes back to it waits, for ever when it is the same thread.\<close>

definition locked :: "site \<Rightarrow> ('z lifew_scheme, unit) prog \<Rightarrow> ('z lifew_scheme, unit) prog" where
  "locked K m =
     bnd (gets h_locked) (\<lambda>l.
     if l \<and> \<not> st_reentrant K then throw (Undefined Deadlock)
     else thn (modify (\<lambda>w. w\<lparr>h_locked := True\<rparr>)) (thn m (modify (\<lambda>w. w\<lparr>h_locked := l\<rparr>))))"

definition stop_with :: "('z lifew_scheme, unit) prog \<Rightarrow> ('z lifew_scheme, unit) prog" where
  "stop_with inst =
     bnd (gets h_stopped) (\<lambda>stopped.
     if stopped then ret ()
     else thn (modify (\<lambda>w. w\<lparr>h_stopped := True\<rparr>))
       (thn inst (thn ZrDB_close (modify (\<lambda>w. w\<lparr>h_btc := h_btc w @ [Btc_stop]\<rparr>)))))"

text \<open>
  The instance is there before it is initialised, so the call that \<^verbatim>\<open>stop\<close> makes in the handler
  only takes the mutex.
\<close>

definition ZrDB_Instance :: "ext \<Rightarrow> site \<Rightarrow> ('z lifew_scheme, unit) prog" where
  "ZrDB_Instance E K =
     locked K (bnd (gets h_instance) (\<lambda>made. whn (\<not> made)
       (thn (modify (\<lambda>w. w\<lparr>h_instance := True\<rparr>))
       (try_catch catch_exception (init_database E K) (\<lambda>e.
          thn (placeMsg (what_sliced e @ '' STOPPING PLUGIN'')) (stop_with (locked K (ret ()))))))))"

definition plugin_stop :: "ext \<Rightarrow> site \<Rightarrow> ('z lifew_scheme, unit) prog" where
  "plugin_stop E K = stop_with (ZrDB_Instance E K)"

section \<open>Small parts of the plug-in\<close>

definition getPluginVersion :: "int \<Rightarrow> int \<times> int \<times> int" where
  "getPluginVersion SVN_REVISION_NUMBER = (5, 5, SVN_REVISION_NUMBER)"

text \<open>The file with the translation, first beside the plug-in and then inside it; English needs none.\<close>

definition qt_translator :: "(string \<Rightarrow> bool) \<Rightarrow> string \<Rightarrow> string \<Rightarrow> string option" where
  "qt_translator loads languageCode externalDir =
     (let outside = externalDir @ ''/ZeroReserve_'' @ languageCode @ ''.qm''; inside = '':/lang/ZeroReserve_'' @ languageCode @ ''.qm'' in
      if languageCode = ''en'' then None
      else if loads outside then Some outside
      else if loads inside then Some inside
      else None)"

section \<open>Wallet dialogues\<close>

text \<open>The buttons of the dialogue, whether each can be used, and its text.\<close>

record NewWallet =
  nw_brainWallet :: bool
  nw_importElectrum :: bool
  nw_newElectrum :: bool
  nw_text :: string
  nw_walletType :: WalletType
  nw_seed :: string

definition NewWallet_wallet :: "NewWallet \<Rightarrow> NewWallet" where
  "NewWallet_wallet d = d\<lparr>nw_seed := nw_text d, nw_walletType :=
     (if nw_brainWallet d then BRAINWALLET
      else if nw_importElectrum d \<or> nw_newElectrum d then ELECTRUMSEED
      else INVALID_WALLET)\<rparr>"

text \<open>The client makes the wallet, or gives a null pointer; the argument \<open>seed\<close> is the call on the wallet.\<close>

definition NewWallet_makeSeed :: "(WalletType \<Rightarrow> ('z world_scheme, 'w option) prog) \<Rightarrow> ('w \<Rightarrow> string) \<Rightarrow> bool \<Rightarrow> NewWallet
    \<Rightarrow> ('z world_scheme, NewWallet) prog" where
  "NewWallet_makeSeed mkWallet seed enabled d =
     (if \<not> enabled then ret (d\<lparr>nw_text := []\<rparr>)
      else bnd (mkWallet ELECTRUMSEED) (\<lambda>m. bnd (need Null_pointer m) (\<lambda>wallet. ret (d\<lparr>nw_text := seed wallet\<rparr>))))"

record PeerAddressDialog =
  pa_nick :: string
  pa_address :: string

definition setPeerAddress :: "string \<Rightarrow> string \<Rightarrow> PeerAddressDialog \<Rightarrow> PeerAddressDialog" where
  "setPeerAddress nickText addressText d = d\<lparr>pa_nick := nickText, pa_address := addressText\<rparr>"

text \<open>The wallet of a friend is stored with its name.\<close>

definition PeerWallet_persist :: "ext \<Rightarrow> BitcoinAddress \<Rightarrow> string \<Rightarrow> ('z dbw_scheme, RetVal) prog" where
  "PeerWallet_persist E address nick = addPeerWallet E address nick"

lemma makeSeed_satoshi:
  "NewWallet_makeSeed (Satoshi_mkWallet J st) seed True d s = (Inl (Undefined Null_pointer), s)"
  by (simp add: NewWallet_makeSeed_def Satoshi_mkWallet_def prog_defs)

section \<open>What becomes of the handles\<close>

text \<open>The operations on the tables neither see nor change the handles.\<close>

definition put :: "bool \<Rightarrow> bool \<Rightarrow> handle \<Rightarrow> handle \<Rightarrow> bool \<Rightarrow> bool \<Rightarrow> btc_call list \<Rightarrow> 'z lifew_scheme \<Rightarrow> 'z lifew_scheme" where
  "put i l d t st sv b w = w\<lparr>h_instance := i, h_locked := l, h_db := d, h_txlog := t, h_stopped := st, h_service := sv, h_btc := b\<rparr>"

definition blind :: "('z lifew_scheme, 'a) prog \<Rightarrow> bool" where
  "blind m \<longleftrightarrow> (\<forall>i l d t st sv b s. m (put i l d t st sv b s) = (fst (m s), put i l d t st sv b (snd (m s))))"

named_theorems blind_intros \<open>operations that neither see nor change the handles\<close>

lemma put_simps [simp]:
  "h_instance (put i l d t st sv b s) = i" "h_locked (put i l d t st sv b s) = l" "h_db (put i l d t st sv b s) = d"
  "h_txlog (put i l d t st sv b s) = t" "h_stopped (put i l d t st sv b s) = st" "h_service (put i l d t st sv b s) = sv"
  "h_btc (put i l d t st sv b s) = b" "db_stmts (put i l d t st sv b s) = db_stmts s" "db_tables (put i l d t st sv b s) = db_tables s"
  "w_messages (put i l d t st sv b s) = w_messages s"
  "put i l d t st sv b (put i' l' d' t' st' sv' b' s) = put i l d t st sv b s"
  "(put i l d t st sv b s)\<lparr>h_db := d'\<rparr> = put i l d' t st sv b s" "(put i l d t st sv b s)\<lparr>h_txlog := t'\<rparr> = put i l d t' st sv b s"
  "(put i l d t st sv b s)\<lparr>h_locked := l'\<rparr> = put i l' d t st sv b s" "(put i l d t st sv b s)\<lparr>h_instance := i'\<rparr> = put i' l d t st sv b s"
  "(put i l d t st sv b s)\<lparr>h_stopped := st'\<rparr> = put i l d t st' sv b s"
  "(put i l d t st sv b s)\<lparr>h_service := True, h_btc := b'\<rparr> = put i l d t st True b' s"
  by (simp_all add: put_def)

lemma put_same: "put (h_instance s) (h_locked s) (h_db s) (h_txlog s) (h_stopped s) (h_service s) (h_btc s) s = s"
  by (simp add: put_def)

lemma blind_basic [blind_intros]:
  "blind (ret x)" "blind (throw e)" "blind (gets db_stmts)" "blind (gets db_tables)" "blind (placeMsg msg)"
  "blind (modify (\<lambda>w. w\<lparr>db_stmts := n\<rparr>))" "blind (modify (\<lambda>w. w\<lparr>db_tables := ts\<rparr>))"
  by (simp_all add: blind_def put_def prog_apply placeMsg_apply)

lemma blind_bnd [blind_intros]:
  assumes "blind m" and "\<And>x. blind (f x)"
  shows "blind (bnd m f)"
  unfolding blind_def
proof (intro allI)
  fix i l d t st sv b and s :: "'a lifew_scheme"
  obtain r u where m: "m s = (r, u)" by (cases "m s")
  then have "m (put i l d t st sv b s) = (r, put i l d t st sv b u)" using assms(1) by (simp add: blind_def)
  then show "bnd m f (put i l d t st sv b s) = (fst (bnd m f s), put i l d t st sv b (snd (bnd m f s)))"
    using m assms(2) by (cases r) (simp_all add: bnd_def blind_def)
qed

lemma blind_thn [blind_intros]: "blind m \<Longrightarrow> blind n \<Longrightarrow> blind (thn m n)"
  by (simp add: thn_def blind_bnd)

lemma blind_whn [blind_intros]: "blind m \<Longrightarrow> blind (whn c m)"
  by (simp add: whn_def blind_basic)

lemma blind_for_each [blind_intros]: "(\<And>x. blind (g x)) \<Longrightarrow> blind (for_each xs g)"
  by (induction xs) (auto intro: blind_intros)

lemma blind_statement [blind_intros]: "blind (sql_statement E sp err)"
  by (auto simp: sql_statement_def intro!: blind_intros)

lemma blind_query [blind_intros]: "blind (runQuery E sp f)"
  unfolding runQuery_def by (auto intro!: blind_intros split: option.split)

lemma blind_select [blind_intros]: "blind (sql_select E sp err g)"
  unfolding sql_select_def by (intro blind_intros) (simp add: blind_def prog_apply)

lemma blind_database [blind_intros]:
  "blind (getConfig E key)" "blind (populate E p)" "blind (check_version E)"
  by (auto simp: getConfig_def populate_def check_version_def create_tables_def setConfig_def intro!: blind_intros)

lemma blindD: "blind m \<Longrightarrow> m s = (r, u) \<Longrightarrow> m (put i l d t st sv b s) = (r, put i l d t st sv b u)"
  by (simp add: blind_def)

lemma open_txlog_run:
  "\<exists>t'. open_txlog E K (put i l d t st sv b s) =
      (fst (openTxLog E (st_txlog K) s), put i l d t' st sv b (snd (openTxLog E (st_txlog K) s))) \<and>
    (fst (openTxLog E (st_txlog K) s) = Inr () \<longrightarrow> t' = Opened)"
proof -
  obtain r u where g: "getConfig E ''TXLOGPATH'' s = (r, u)" by (cases "getConfig E ''TXLOGPATH'' s")
  note g' = blindD [OF blind_database(1) g]
  obtain r' u' where q: "sql_statement E [] ''SQL Error: Cannot create table'' u = (r', u')"
    by (cases "sql_statement E [] ''SQL Error: Cannot create table'' u")
  note q' = blindD [OF blind_statement q]
  show ?thesis
  proof (cases r)
    case (Inr x)
    then show ?thesis using g g' q q'
      by (intro exI [of _ "if st_txlog K then Opened else Closed"]; cases "st_txlog K") (simp_all add: open_txlog_def openTxLog_def bnd_def thn_def set_txlog_def closeTxLog_def prog_apply)
  qed (use g g' in \<open>simp add: open_txlog_def openTxLog_def bnd_def, blast\<close>)
qed

definition initialised :: "ext \<Rightarrow> site \<Rightarrow> 'z lifew_scheme \<Rightarrow> (exn + unit) \<times> 'z lifew_scheme" where
  "initialised E K = ZrDB_init E (st_pathname K) (st_mkpath K) (st_exists K) (st_open K) (st_txlog K)"

text \<open>The initialisation with its handles is the one without them; when it succeeds, both are open.\<close>

lemma init_handles:
  "\<exists>d t b. init_database E K s = (fst (initialised E K s), put (h_instance s) (h_locked s) d t (h_stopped s) True b (snd (initialised E K s))) \<and>
    (fst (initialised E K s) = Inr () \<longrightarrow> d = Opened \<and> t = Opened)"
proof -
  let ?put = "\<lambda>d t b. put (h_instance s) (h_locked s) d t (h_stopped s) True b"
  have sv: "\<exists>b. rs_pqi_service s = (Inr (), ?put (h_db s) (h_txlog s) b s)"
    by (rule exI [of _ "if h_service s then h_btc s else h_btc s @ [Btc_start]"]) (simp add: rs_pqi_service_def bnd_def whn_def prog_apply put_def)
  then obtain b where sv: "rs_pqi_service s = (Inr (), ?put (h_db s) (h_txlog s) b s)" by blast
  let ?msg = "whn (\<not> st_exists K) (placeMsg (''Creating DB: '' @ st_pathname K @ ''/zeroreserve.db''))"
  obtain s1 where m: "?msg s = (Inr (), s1)" by (cases "st_exists K") (simp_all add: whn_def prog_apply placeMsg_apply)
  have m': "?msg (?put d t b s) = (Inr (), ?put d t b s1)" for d t by (rule blindD [of ?msg, OF _ m]) (intro blind_intros)
  let ?pop = "whn (\<not> st_exists K) (populate E (st_pathname K))"
  obtain r2 s2 where p: "?pop s1 = (r2, s2)" by (cases "?pop s1")
  have p': "?pop (?put d t b s1) = (r2, ?put d t b s2)" for d t by (rule blindD [of ?pop, OF _ p]) (intro blind_intros)
  obtain r3 s3 where o: "openTxLog E (st_txlog K) s2 = (r3, s3)" by (cases "openTxLog E (st_txlog K) s2")
  obtain t' where o': "open_txlog E K (?put Opened (h_txlog s) b s2) = (r3, ?put Opened t' b s3)" "r3 = Inr () \<longrightarrow> t' = Opened"
    using open_txlog_run [of E K "h_instance s" "h_locked s" Opened "h_txlog s" "h_stopped s" True b s2] o by auto
  obtain r4 s4 where c: "check_version E s3 = (r4, s4)" by (cases "check_version E s3")
  have c': "check_version E (?put d t b s3) = (r4, ?put d t b s4)" for d t by (rule blindD [OF blind_database(3) c])
  have db: "set_db h (?put d t b u) = (Inr (), ?put h t b u)" for h d t and u :: "'a lifew_scheme" by (simp add: set_db_def prog_apply)
  show ?thesis
  proof (cases "st_mkpath K \<and> st_open K")
    case False
    then show ?thesis
      using sv m m' db by (auto simp: init_database_def initialised_def ZrDB_init_def thn_def bnd_def prog_apply)
  next
    case True
    then have i: "initialised E K s = (case r2 of Inl e \<Rightarrow> (Inl e, s2) | Inr _ \<Rightarrow> (case r3 of Inl e \<Rightarrow> (Inl e, s3) | Inr _ \<Rightarrow> (r4, s4)))"
      using m p o c by (simp add: initialised_def ZrDB_init_def thn_def bnd_def split: sum.split)
    have "init_database E K s = (case r2 of Inl e \<Rightarrow> (Inl e, ?put Opened (h_txlog s) b s2)
        | Inr _ \<Rightarrow> (case r3 of Inl e \<Rightarrow> (Inl e, ?put Opened t' b s3) | Inr _ \<Rightarrow> (r4, ?put Opened t' b s4)))"
      using True sv m' p' o'(1) c' db by (simp add: init_database_def thn_def bnd_def split: sum.split)
    then show ?thesis unfolding i using o'(2) by (auto split: sum.split)
  qed
qed

lemma blind_init: "blind (initialised E K)"
  by (auto simp: initialised_def ZrDB_init_def openTxLog_def intro!: blind_intros)

text \<open>
  C34: The database is there, or the node stands still. The first call for the instance returns just when
  the initialisation succeeds, with both sqlite handles open and the mutex free. Whatever exception the
  initialisation throws, the handler does not stop the plug-in, as its message says, but calls for the
  instance again under the mutex it holds: with a mutex that is not reentrant the thread waits
  for itself. What has no defined behaviour in the initialisation has none here.
\<close>

theorem instance_or_standstill:
  assumes "\<not> h_instance s" and "\<not> h_locked s" and "\<not> h_stopped s" and "\<not> st_reentrant K"
  shows "case (fst (ZrDB_init E (st_pathname K) (st_mkpath K) (st_exists K) (st_open K) (st_txlog K) s), ZrDB_Instance E K s) of
      (Inr _, r, t) \<Rightarrow> r = Inr () \<and> h_instance t \<and> \<not> h_locked t \<and> h_db t = Opened \<and> h_txlog t = Opened
    | (Inl (Undefined u), r, t) \<Rightarrow> r = Inl (Undefined u)
    | (Inl e, r, t) \<Rightarrow> r = Inl (Undefined Deadlock) \<and> last (w_messages t) = ''std::exception STOPPING PLUGIN''"
proof -
  let ?s = "put True True (h_db s) (h_txlog s) False (h_service s) (h_btc s) s"
  have s: "s\<lparr>h_locked := True, h_instance := True\<rparr> = ?s" using assms(3) by (simp add: put_def)
  obtain r u where r: "initialised E K s = (r, u)" by (cases "initialised E K s")
  have r': "initialised E K ?s = (r, put True True (h_db s) (h_txlog s) False (h_service s) (h_btc s) u)"
    by (rule blindD [OF blind_init r])
  then obtain d t b where i: "init_database E K ?s = (r, put True True d t False True b u)" "r = Inr () \<longrightarrow> d = Opened \<and> t = Opened"
    using init_handles [of E K ?s] by auto
  have run: "ZrDB_Instance E K s = thn (try_catch catch_exception (init_database E K) (\<lambda>e.
      thn (placeMsg (what_sliced e @ '' STOPPING PLUGIN'')) (stop_with (locked K (ret ()))))) (modify (\<lambda>w. w\<lparr>h_locked := False\<rparr>)) ?s"
    using assms by (simp add: ZrDB_Instance_def locked_def thn_def bnd_def prog_apply whn_def s)
  have h: "stop_with (locked K (ret ())) (put True True d t False True b v) = (Inl (Undefined Deadlock), put True True d t True True b v)" for v :: "'a lifew_scheme"
    using assms(4) by (simp add: stop_with_def locked_def thn_def bnd_def prog_apply)
  have m: "placeMsg msg (put True True d t False True b u) = (Inr (), put True True d t False True b (u\<lparr>w_messages := w_messages u @ [msg]\<rparr>))" for msg
    by (simp add: placeMsg_apply put_def)
  show ?thesis
  proof (cases r)
    case (Inl e)
    then show ?thesis
      using r i(1) unfolding run initialised_def
      by (cases e) (simp_all add: try_catch_def thn_def bnd_def prog_apply m h what_sliced_def)
  next
    case (Inr x)
    then show ?thesis
      using r i unfolding run initialised_def by (simp add: try_catch_def thn_def bnd_def prog_apply)
  qed
qed

text \<open>Stopping closes the handles and the Bitcoin client once; stopping again does nothing.\<close>

lemma stop_once:
  assumes "h_instance s" and "\<not> h_locked s" and "\<not> h_stopped s" and "h_db s = Opened" and "h_txlog s = Opened"
  shows "\<exists>t. plugin_stop E K s = (Inr (), t) \<and> h_db t = Closed \<and> h_txlog t = Closed \<and> h_btc t = h_btc s @ [Btc_stop] \<and>
    plugin_stop E K t = (Inr (), t)"
  using assms by (simp add: plugin_stop_def stop_with_def ZrDB_Instance_def locked_def thn_def bnd_def whn_def prog_apply
      ZrDB_close_def closeTxLog_def set_db_def set_txlog_def)

definition demo_life :: lifew where
  "demo_life = dbw.extend demo_dbw \<lparr>h_instance = False, h_locked = False, h_db = Unset, h_txlog = Unset, h_stopped = False,
     h_service = False, h_btc = []\<rparr>"

theorem instance_or_standstill_witness:
  "fst (ZrDB_Instance demo \<lparr>st_pathname = ''zr'', st_mkpath = True, st_exists = False, st_open = False, st_txlog = True,
     st_reentrant = False\<rparr> demo_life) = Inl (Undefined Deadlock)"
proof -
  let ?K = "\<lparr>st_pathname = ''zr'', st_mkpath = True, st_exists = False, st_open = False, st_txlog = True, st_reentrant = False\<rparr>"
  have d: "\<not> h_instance demo_life" "\<not> h_locked demo_life" "\<not> h_stopped demo_life" "\<not> st_reentrant ?K"
    by (simp_all add: demo_life_def dbw.defs)
  have "fst (ZrDB_init demo (st_pathname ?K) (st_mkpath ?K) (st_exists ?K) (st_open ?K) (st_txlog ?K) demo_life)
      = Inl (Runtime_error ''SQL Error: Cannot open database: zr/zeroreserve.db'')"
    by (simp add: ZrDB_init_def thn_def bnd_def whn_def prog_apply placeMsg_apply)
  with instance_or_standstill [OF d, of demo] show ?thesis by (auto split: prod.splits)
qed

end
