(* ===== verification/Callbacks.thy ===== *)
theory Callbacks
  imports ContractLaws
begin

text \<open>
  The callbacks of \<^verbatim>\<open>src/zrdb.cpp\<close> as \<^verbatim>\<open>sqlite3_exec\<close> calls them: with the number of columns and their
  texts, of which any may be null, once for every row, until one reports an error. They fill members of the database
  object that the loaders hand out afterwards. On the columns the loaders select this is what \<open>ZrDb\<close> does with the rows.
\<close>

section \<open>Rows as texts\<close>

type_synonym argv = "string option list"

datatype sql_code = SQLITE_OK | SQLITE_ERROR

text \<open>The members of the database object the callbacks write.\<close>

record cbw = conw +
  m_peer_record_exists :: bool
  m_config_value :: string
  m_grandTotal :: GrandTotal
  m_credit :: Credit
  m_creditList :: "Credit list"
  m_txList :: "TxLogItem list"
  m_orderList :: "Order list"
  m_wallets :: "MyWallet_row list"

text \<open>A string made of a null pointer is undefined, and so is a number read from one.\<close>

definition arg :: "argv \<Rightarrow> nat \<Rightarrow> ('s, string) prog" where
  "arg argv i = (case argv ! i of None \<Rightarrow> throw (Undefined Null_pointer) | Some t \<Rightarrow> ret t)"

definition arg_number :: "argv \<Rightarrow> nat \<Rightarrow> ('s, ZR_Number) prog" where
  "arg_number argv i = bnd (arg argv i) (\<lambda>t. lift (fromDecimalString t))"

text \<open>\<^verbatim>\<open>atoi\<close> cuts the value of \<^verbatim>\<open>strtol\<close> to 32 bits; the enumerations and the type of a wallet are unsigned.\<close>

definition enum_arg :: "string \<Rightarrow> nat" where
  "enum_arg t = nat (strtoll t mod 2 ^ 32)"

definition fits_int :: "nat \<Rightarrow> bool" where
  "fits_int k \<longleftrightarrow> k < 2 ^ 31"

lemma enum_arg_shown: "fits_int k \<Longrightarrow> enum_arg (show_int (int k)) = k"
proof -
  assume k: "fits_int k"
  then have "in_i64 (int k)" by (simp add: fits_int_def in_i64_def)
  with k show ?thesis by (simp add: enum_arg_def fits_int_def strtoll_show_int)
qed

definition columns :: "nat \<Rightarrow> argv \<Rightarrow> ('s, unit) prog \<Rightarrow> ('s, sql_code) prog" where
  "columns n argv m = (if length argv = n then thn m (ret SQLITE_OK) else ret SQLITE_ERROR)"

section \<open>The callbacks\<close>

definition mywallets_callback :: "argv \<Rightarrow> ('z cbw_scheme, sql_code) prog" where
  "mywallets_callback argv = columns 3 argv
     (bnd (arg argv 0) (\<lambda>secret. bnd (arg argv 1) (\<lambda>typ. bnd (arg argv 2) (\<lambda>nick.
       modify (\<lambda>w. w\<lparr>m_wallets := m_wallets w @ [\<lparr>mw_secret = secret, mw_type = enum_arg typ, mw_nick = nick\<rparr>]\<rparr>)))))"

definition orders_argv_callback :: "ext \<Rightarrow> argv \<Rightarrow> ('z cbw_scheme, sql_code) prog" where
  "orders_argv_callback E argv = columns 7 argv
     (bnd (arg argv 0) (\<lambda>i. bnd (arg argv 1) (\<lambda>typ.
      bnd (arg_number argv 2) (\<lambda>amount. bnd (arg_number argv 3) (\<lambda>price.
      bnd (arg argv 4) (\<lambda>cur. bnd (getCurrencyBySymbol E cur) (\<lambda>currency.
      bnd (arg argv 5) (\<lambda>time. bnd (arg argv 6) (\<lambda>purpose.
        modify (\<lambda>w. w\<lparr>m_orderList := m_orderList w @ [new_Order True i (OrderType_of (enum_arg typ)) amount price currency
          (strtoll time) (Purpose_of (enum_arg purpose))]\<rparr>))))))))))"

text \<open>The time of an entry of the log is read by Qt.\<close>

definition txlog_callback :: "(string \<Rightarrow> int) \<Rightarrow> argv \<Rightarrow> ('z cbw_scheme, sql_code) prog" where
  "txlog_callback fromString argv = columns 4 argv
     (bnd (arg argv 0) (\<lambda>i. bnd (arg argv 1) (\<lambda>cur. bnd (arg_number argv 2) (\<lambda>amount. bnd (arg argv 3) (\<lambda>time.
       modify (\<lambda>w. w\<lparr>m_txList := m_txList w @ [\<lparr>ti_id = i, ti_currency = cur, ti_amount = amount, ti_timestamp = fromString time\<rparr>]\<rparr>))))))"

definition store_peer_callback :: "argv \<Rightarrow> ('z cbw_scheme, sql_code) prog" where
  "store_peer_callback argv = thn (modify (\<lambda>w. w\<lparr>m_peer_record_exists := True\<rparr>)) (ret SQLITE_OK)"

text \<open>The texts are made strings first; the fields are then set one after the other.\<close>

definition peer_credit_callback :: "argv \<Rightarrow> ('z cbw_scheme, sql_code) prog" where
  "peer_credit_callback argv = columns 4 argv
     (bnd (arg argv 0) (\<lambda>credit. bnd (arg argv 1) (\<lambda>our. bnd (arg argv 2) (\<lambda>balance. bnd (arg argv 3) (\<lambda>allocation.
      bnd (lift (fromDecimalString credit)) (\<lambda>v. thn (modify (\<lambda>w. w\<lparr>m_credit := (m_credit w)\<lparr>c_credit := v\<rparr>\<rparr>))
      (bnd (lift (fromDecimalString our)) (\<lambda>v. thn (modify (\<lambda>w. w\<lparr>m_credit := (m_credit w)\<lparr>c_our_credit := v\<rparr>\<rparr>))
      (bnd (lift (fromDecimalString balance)) (\<lambda>v. thn (modify (\<lambda>w. w\<lparr>m_credit := (m_credit w)\<lparr>c_balance := v\<rparr>\<rparr>))
      (bnd (lift (fromDecimalString allocation)) (\<lambda>v. modify (\<lambda>w. w\<lparr>m_credit := (m_credit w)\<lparr>c_allocated := v\<rparr>\<rparr>)))))))))))))"

definition peer_credits_callback :: "ext \<Rightarrow> argv \<Rightarrow> ('z cbw_scheme, sql_code) prog" where
  "peer_credits_callback E argv = columns 6 argv
     (bnd (arg argv 0) (\<lambda>i. bnd (arg argv 1) (\<lambda>cur. bnd (new_Credit E i cur) (\<lambda>c.
      bnd (arg_number argv 2) (\<lambda>credit. bnd (arg_number argv 3) (\<lambda>our.
      bnd (arg_number argv 4) (\<lambda>balance. bnd (arg_number argv 5) (\<lambda>allocation.
        modify (\<lambda>w. w\<lparr>m_creditList := m_creditList w @
          [c\<lparr>c_credit := credit, c_our_credit := our, c_balance := balance, c_allocated := allocation\<rparr>]\<rparr>)))))))))"

definition grandtotal_callback :: "argv \<Rightarrow> ('z cbw_scheme, sql_code) prog" where
  "grandtotal_callback argv =
     (let upd = (\<lambda>f. modify (\<lambda>w. w\<lparr>m_grandTotal := f (m_grandTotal w)\<rparr>)) in
      columns 3 argv
       (bnd (arg_number argv 0) (\<lambda>v. thn (upd (\<lambda>g. g\<lparr>gt_our_credit := gt_our_credit g + v\<rparr>))
        (bnd (arg_number argv 1) (\<lambda>v. thn (upd (\<lambda>g. g\<lparr>gt_credit := gt_credit g + v\<rparr>))
        (bnd (arg_number argv 2) (\<lambda>peerbalance. thn (upd (\<lambda>g. g\<lparr>gt_balance := gt_balance g + peerbalance\<rparr>))
          (if peerbalance > 0 then upd (\<lambda>g. g\<lparr>gt_outstanding := gt_outstanding g + peerbalance\<rparr>)
           else upd (\<lambda>g. g\<lparr>gt_debt := gt_debt g - peerbalance\<rparr>)))))))))"

definition peer_config_callback :: "argv \<Rightarrow> ('z cbw_scheme, sql_code) prog" where
  "peer_config_callback argv = columns 1 argv (bnd (arg argv 0) (\<lambda>v. modify (\<lambda>w. w\<lparr>m_config_value := v\<rparr>)))"

definition btccontracts_argv_callback :: "ext \<Rightarrow> argv \<Rightarrow> ('z cbw_scheme, sql_code) prog" where
  "btccontracts_argv_callback E argv = columns 9 argv
     (bnd (arg_number argv 1) (\<lambda>btcAmount. bnd (arg_number argv 2) (\<lambda>price. bnd (arg argv 3) (\<lambda>currencySym.
      bnd (arg argv 4) (\<lambda>party. bnd (arg argv 5) (\<lambda>counterParty. bnd (arg argv 7) (\<lambda>time. bnd (arg_number argv 8) (\<lambda>fee.
      bnd (new_BtcContract E btcAmount fee price currencySym (Party_of (enum_arg party)) counterParty (strtoll time)) (\<lambda>r.
      bnd (arg argv 0) (\<lambda>txId. thn (setBtcTxId r txId)
      (bnd (arg argv 6) (\<lambda>dest. thn (setBtcAddress r dest) (activate r)))))))))))))"

section \<open>Executing a statement\<close>

text \<open>A callback that reports an error ends the rows, and the statement fails.\<close>

fun exec_rows :: "(argv \<Rightarrow> ('s, sql_code) prog) \<Rightarrow> argv list \<Rightarrow> ('s, bool) prog" where
  "exec_rows cb [] = ret True"
| "exec_rows cb (row # rows) = bnd (cb row) (\<lambda>c. case c of SQLITE_OK \<Rightarrow> exec_rows cb rows | SQLITE_ERROR \<Rightarrow> ret False)"

definition sqlite3_exec :: "ext \<Rightarrow> string list \<Rightarrow> string \<Rightarrow> ('z dbw_scheme \<Rightarrow> argv list) \<Rightarrow> (argv \<Rightarrow> ('z dbw_scheme, sql_code) prog)
    \<Rightarrow> ('z dbw_scheme, unit) prog" where
  "sqlite3_exec E spliced err select cb =
     thn (sql_statement E spliced err) (bnd (gets select) (\<lambda>rows. bnd (exec_rows cb rows) (\<lambda>ok.
       if ok then ret () else throw (Runtime_error err))))"

text \<open>The columns of the rows, in the order of the statements.\<close>

definition wallet_cols :: "MyWallet_row \<Rightarrow> argv" where
  "wallet_cols r = [Some (mw_secret r), Some (show_int (int (mw_type r))), Some (mw_nick r)]"

definition order_cols :: "order_row \<Rightarrow> argv" where
  "order_cols r = map Some [or_orderid r, show_int (int (or_ordertype r)), or_amount r, or_price r, or_currency r,
     show_int (or_creationtime r), show_int (int (or_purpose r))]"

definition credit_cols :: "peer_row \<Rightarrow> argv" where
  "credit_cols r = map Some [pr_credit r, pr_our_credit r, pr_balance r, pr_allocation r]"

definition total_cols :: "peer_row \<Rightarrow> argv" where
  "total_cols r = map Some [pr_our_credit r, pr_credit r, pr_balance r]"

definition credits_cols :: "peer_row \<Rightarrow> argv" where
  "credits_cols r = map Some [pr_id r, pr_currency r, pr_credit r, pr_our_credit r, pr_balance r, pr_allocation r]"

definition contract_cols :: "contract_row \<Rightarrow> argv" where
  "contract_cols r = map Some [cr_btcTxId r, cr_btcAmount r, cr_price r, cr_currency r, show_int (int (cr_party r)),
     cr_counterparty r, cr_destAddress r, show_int (cr_creationtime r), cr_fee r]"

lemmas col_defs = arg_def arg_number_def columns_def wallet_cols_def order_cols_def credit_cols_def credits_cols_def total_cols_def contract_cols_def

section \<open>What the callbacks make of the rows\<close>

lemma exec_config:
  "exec_rows peer_config_callback (map (\<lambda>(k, v). [Some v]) rows) s =
    (Inr True, s\<lparr>m_config_value := foldl (\<lambda>_ (k, v). v) (m_config_value s) rows\<rparr>)"
  by (induction rows arbitrary: s) (auto simp: peer_config_callback_def col_defs bnd_def thn_def prog_apply)

lemma exec_exists:
  "exec_rows store_peer_callback (map f rows) s =
    (Inr True, s\<lparr>m_peer_record_exists := foldl (\<lambda>_ _. True) (m_peer_record_exists s) rows\<rparr>)"
  by (induction rows arbitrary: s) (auto simp: store_peer_callback_def bnd_def thn_def prog_apply)

lemma exec_wallets:
  "\<forall>r\<in>set rows. fits_int (mw_type r) \<Longrightarrow> exec_rows mywallets_callback (map wallet_cols rows) s =
    (Inr True, s\<lparr>m_wallets := m_wallets s @ rows\<rparr>)"
proof (induction rows arbitrary: s)
  case (Cons r rows)
  have "mywallets_callback (wallet_cols r) s = (Inr SQLITE_OK, s\<lparr>m_wallets := m_wallets s @ [r]\<rparr>)"
    using Cons.prems by (cases r) (simp add: mywallets_callback_def col_defs bnd_def thn_def prog_apply enum_arg_shown)
  then show ?case using Cons by (simp add: bnd_def)
qed (simp add: prog_apply)

lemma exec_credit:
  "\<exists>b. exec_rows peer_credit_callback (map credit_cols rows) s = (case efold setPeerCredit rows (m_credit s) of
    Inl e \<Rightarrow> (Inl e, s\<lparr>m_credit := b\<rparr>) | Inr c \<Rightarrow> (Inr True, s\<lparr>m_credit := c\<rparr>))"
proof (induction rows arbitrary: s)
  case (Cons r rows)
  have step: "\<exists>b. peer_credit_callback (credit_cols r) s = (case setPeerCredit r (m_credit s) of
      Inl e \<Rightarrow> (Inl e, s\<lparr>m_credit := b\<rparr>) | Inr c \<Rightarrow> (Inr SQLITE_OK, s\<lparr>m_credit := c\<rparr>))"
    by (cases "fromDecimalString (pr_credit r)"; cases "fromDecimalString (pr_our_credit r)"; cases "fromDecimalString (pr_balance r)";
        cases "fromDecimalString (pr_allocation r)"; simp add: peer_credit_callback_def setPeerCredit_def col_defs bnd_def thn_def prog_apply ebind_def)
      (rule exI [of _ "m_credit s"], simp; fail | rule exI, rule refl)+
  show ?case
  proof (cases "setPeerCredit r (m_credit s)")
    case (Inl e)
    with step show ?thesis by (auto simp: bnd_def ebind_def)
  next
    case (Inr c)
    with step Cons.IH [of "s\<lparr>m_credit := c\<rparr>"] show ?thesis by (auto simp: bnd_def ebind_def split: sum.split)
  qed
qed (simp add: prog_apply)

lemma exec_total:
  "\<exists>b. exec_rows grandtotal_callback (map total_cols rows) s = (case efold addToGrandTotal rows (m_grandTotal s) of
    Inl e \<Rightarrow> (Inl e, s\<lparr>m_grandTotal := b\<rparr>) | Inr g \<Rightarrow> (Inr True, s\<lparr>m_grandTotal := g\<rparr>))"
proof (induction rows arbitrary: s)
  case (Cons r rows)
  have step: "\<exists>b. grandtotal_callback (total_cols r) s = (case addToGrandTotal r (m_grandTotal s) of
      Inl e \<Rightarrow> (Inl e, s\<lparr>m_grandTotal := b\<rparr>) | Inr g \<Rightarrow> (Inr SQLITE_OK, s\<lparr>m_grandTotal := g\<rparr>))"
    by (cases "fromDecimalString (pr_our_credit r)"; cases "fromDecimalString (pr_credit r)"; cases "fromDecimalString (pr_balance r)";
        simp add: grandtotal_callback_def addToGrandTotal_def col_defs bnd_def thn_def prog_apply ebind_def Let_def)
      (rule exI [of _ "m_grandTotal s"], simp; fail | rule exI, rule refl)+
  show ?case
  proof (cases "addToGrandTotal r (m_grandTotal s)")
    case (Inl e)
    with step show ?thesis by (auto simp: bnd_def ebind_def)
  next
    case (Inr g)
    with step Cons.IH [of "s\<lparr>m_grandTotal := g\<rparr>"] show ?thesis by (auto simp: bnd_def ebind_def split: sum.split)
  qed
qed (simp add: prog_apply)

lemma exec_txlog:
  assumes "\<And>v. fromString (toString v) = v"
  shows "\<exists>b. exec_rows (txlog_callback fromString) (map (\<lambda>r. map Some [tl_uid r, tl_currency r, tl_amount r, toString (tl_txtime r)]) rows) s =
    (case efold addToTxList rows (m_txList s) of Inl e \<Rightarrow> (Inl e, s\<lparr>m_txList := b\<rparr>) | Inr g \<Rightarrow> (Inr True, s\<lparr>m_txList := g\<rparr>))"
proof (induction rows arbitrary: s)
  case (Cons r rows)
  have step: "txlog_callback fromString (map Some [tl_uid r, tl_currency r, tl_amount r, toString (tl_txtime r)]) s =
      (case addToTxList r (m_txList s) of Inl e \<Rightarrow> (Inl e, s) | Inr g \<Rightarrow> (Inr SQLITE_OK, s\<lparr>m_txList := g\<rparr>))"
    using assms by (cases "fromDecimalString (tl_amount r)") (simp_all add: txlog_callback_def addToTxList_def col_defs bnd_def thn_def
        prog_apply ebind_def)
  show ?case
  proof (cases "addToTxList r (m_txList s)")
    case (Inl e)
    with step show ?thesis by (intro exI [of _ "m_txList s"]) (simp add: bnd_def ebind_def)
  next
    case (Inr g)
    with step Cons.IH [of "s\<lparr>m_txList := g\<rparr>"] show ?thesis by (auto simp: bnd_def ebind_def split: sum.split)
  qed
qed (simp add: prog_apply)

text \<open>Rows from which objects are made, one after the other: the making neither reads nor writes the list they go to.\<close>

locale collector =
  fixes get :: "'s \<Rightarrow> 'a list" and put :: "'a list \<Rightarrow> 's \<Rightarrow> 's" and make :: "'r \<Rightarrow> ('s, 'a) prog"
    and cb :: "argv \<Rightarrow> ('s, sql_code) prog" and cols :: "'r \<Rightarrow> argv" and fits :: "'r \<Rightarrow> bool"
  assumes put_put: "put b (put c s) = put b s" and get_put: "get (put b s) = b" and put_get: "put (get s) s = s"
    and make_ignores: "make r (put b s) = (fst (make r s), put b (snd (make r s)))"
    and on_row: "fits r \<Longrightarrow> cb (cols r) s = (case make r s of (Inl e, t) \<Rightarrow> (Inl e, t) | (Inr x, t) \<Rightarrow> (Inr SQLITE_OK, put (get s @ [x]) t))"
begin

lemma list_ignores: "list_rows make rows acc (put b s) = (fst (list_rows make rows acc s), put b (snd (list_rows make rows acc s)))"
  by (induction rows arbitrary: acc s) (auto simp: bnd_def prog_apply make_ignores split: prod.split sum.split)

lemma exec_collects:
  "\<forall>r\<in>set rows. fits r \<Longrightarrow> \<exists>b. exec_rows cb (map cols rows) s =
    (case list_rows make rows (get s) s of (Inl e, t) \<Rightarrow> (Inl e, put b t) | (Inr xs, t) \<Rightarrow> (Inr True, put xs t))"
proof (induction rows arbitrary: s)
  case Nil
  then show ?case by (simp add: prog_apply put_get)
next
  case (Cons r rows)
  obtain v t where m: "make r s = (v, t)" by (cases "make r s")
  have t: "get t = get s" using make_ignores [of r "get s" s] m by (metis get_put put_get snd_conv)
  show ?case
  proof (cases v)
    case (Inl e)
    then show ?thesis using m on_row [of r s] Cons.prems by (intro exI [of _ "get t"]) (simp add: bnd_def put_get)
  next
    case (Inr x)
    let ?s = "put (get s @ [x]) t"
    from Cons.IH [of ?s] Cons.prems obtain b where
      "exec_rows cb (map cols rows) ?s = (case list_rows make rows (get ?s) ?s of (Inl e, t) \<Rightarrow> (Inl e, put b t) | (Inr xs, t) \<Rightarrow> (Inr True, put xs t))"
      by auto
    then show ?thesis using m Inr on_row [of r s] Cons.prems
      by (intro exI [of _ b]) (auto simp: bnd_def get_put list_ignores put_put split: prod.split sum.split)
  qed
qed

lemma exec_from_empty:
  assumes "\<forall>r\<in>set rows. fits r"
  shows "\<exists>b. exec_rows cb (map cols rows) (put [] t) =
    (case list_rows make rows [] t of (Inl e, u) \<Rightarrow> (Inl e, put b u) | (Inr xs, u) \<Rightarrow> (Inr True, put xs u))"
proof -
  obtain v u where l: "list_rows make rows [] t = (v, u)" by (cases "list_rows make rows [] t")
  from exec_collects [OF assms, of "put [] t"] obtain b where "exec_rows cb (map cols rows) (put [] t) =
    (case list_rows make rows (get (put [] t)) (put [] t) of (Inl e, t) \<Rightarrow> (Inl e, put b t) | (Inr xs, t) \<Rightarrow> (Inr True, put xs t))"
    by blast
  then show ?thesis using l by (intro exI [of _ b], cases v) (simp_all add: get_put list_ignores put_put)
qed

end

lemma currency_collects: "getCurrencyBySymbol E cur (s\<lparr>m_orderList := b\<rparr>) =
    (fst (getCurrencyBySymbol E cur s), snd (getCurrencyBySymbol E cur s)\<lparr>m_orderList := b\<rparr>)"
  "getCurrencyBySymbol E cur (s\<lparr>m_creditList := c\<rparr>) =
    (fst (getCurrencyBySymbol E cur s), snd (getCurrencyBySymbol E cur s)\<lparr>m_creditList := c\<rparr>)"
  "m_orderList (snd (getCurrencyBySymbol E cur s)) = m_orderList s" "m_creditList (snd (getCurrencyBySymbol E cur s)) = m_creditList s"
  by (simp_all add: getCurrencyBySymbol_def placeMsg_def thn_def bnd_def prog_apply split: option.split)

interpretation orders: collector m_orderList "\<lambda>b s. s\<lparr>m_orderList := b\<rparr>" "orders_callback E" "orders_argv_callback E" order_cols
    "\<lambda>r. fits_int (or_ordertype r) \<and> in_i64 (or_creationtime r) \<and> fits_int (or_purpose r)" for E
proof unfold_locales
  show "orders_callback E r (s\<lparr>m_orderList := b\<rparr>) = (fst (orders_callback E r s), snd (orders_callback E r s)\<lparr>m_orderList := b\<rparr>)" for r b s
    by (cases "getCurrencyBySymbol E (or_currency r) s")
      (auto simp: orders_callback_def bnd_def prog_apply currency_collects split: sum.split)
  show "orders_argv_callback E (order_cols r) s = (case orders_callback E r s of (Inl e, t) \<Rightarrow> (Inl e, t)
      | (Inr x, t) \<Rightarrow> (Inr SQLITE_OK, t\<lparr>m_orderList := m_orderList s @ [x]\<rparr>))"
    if "fits_int (or_ordertype r) \<and> in_i64 (or_creationtime r) \<and> fits_int (or_purpose r)" for r s
    using that currency_collects(3) [of E "or_currency r" s] by (cases "getCurrencyBySymbol E (or_currency r) s")
      (auto simp: orders_argv_callback_def orders_callback_def col_defs bnd_def thn_def prog_apply strtoll_show_int enum_arg_shown split: sum.split)
qed simp_all

interpretation credits: collector m_creditList "\<lambda>b s. s\<lparr>m_creditList := b\<rparr>" "addPeerCredit E" "peer_credits_callback E"
credits_cols "\<lambda>_. True" for E
proof unfold_locales
  show "addPeerCredit E r (s\<lparr>m_creditList := b\<rparr>) = (fst (addPeerCredit E r s), snd (addPeerCredit E r s)\<lparr>m_creditList := b\<rparr>)" for r b s
    by (cases "getCurrencyBySymbol E (pr_currency r) s")
      (auto simp: addPeerCredit_def new_Credit_def bnd_def prog_apply currency_collects split: sum.split)
  show "peer_credits_callback E (credits_cols r) s =
      (case addPeerCredit E r s of (Inl e, t) \<Rightarrow> (Inl e, t) | (Inr x, t) \<Rightarrow> (Inr SQLITE_OK, t\<lparr>m_creditList := m_creditList s @ [x]\<rparr>))" for r s
    using currency_collects(4) [of E "pr_currency r" s] by (cases "getCurrencyBySymbol E (pr_currency r) s")
      (auto simp: peer_credits_callback_def addPeerCredit_def new_Credit_def setPeerCredit_def ebind_def col_defs bnd_def thn_def
        prog_apply split: sum.split)
qed simp_all

lemma exec_contracts:
  "\<forall>r\<in>set rows. fits_int (cr_party r) \<and> in_i64 (cr_creationtime r) \<Longrightarrow>
    exec_rows (btccontracts_argv_callback E) (map contract_cols rows) s =
      (case list_rows (btccontracts_callback E) rows acc s of (Inl e, t) \<Rightarrow> (Inl e, t) | (Inr _, t) \<Rightarrow> (Inr True, t))"
proof (induction rows arbitrary: s acc)
  case (Cons r rows)
  have step: "btccontracts_argv_callback E (contract_cols r) s =
      (case btccontracts_callback E r s of (Inl e, t) \<Rightarrow> (Inl e, t) | (Inr _, t) \<Rightarrow> (Inr SQLITE_OK, t))"
    using Cons.prems by (auto simp: btccontracts_argv_callback_def btccontracts_callback_def col_defs bnd_def thn_def prog_apply
        strtoll_show_int enum_arg_shown split: sum.split prod.split)
  obtain v t where v: "btccontracts_callback E r s = (v, t)" by (cases "btccontracts_callback E r s")
  show ?case
  proof (cases v)
    case (Inl e)
    then show ?thesis using step v by (simp add: bnd_def)
  next
    case (Inr x)
    then show ?thesis using step v Cons.prems Cons.IH [of t "acc @ [x]"] by (simp add: bnd_def)
  qed
qed (simp add: prog_apply)

section \<open>The loaders over the callbacks\<close>

text \<open>A loader sets the member the callback writes, runs the statement and hands out the member. The lists the callers pass are empty.\<close>

definition exec_getConfig :: "ext \<Rightarrow> string \<Rightarrow> ('z cbw_scheme, string) prog" where
  "exec_getConfig E key = thn (modify (\<lambda>w. w\<lparr>m_config_value := []\<rparr>))
     (thn (sqlite3_exec E [key] (''SQL Error: Cannot get value '' @ key)
        (\<lambda>w. map (\<lambda>(k, v). [Some v]) (filter (\<lambda>(k, v). k = key) (t_config (db_tables w)))) peer_config_callback)
      (gets m_config_value))"

text \<open>\<^verbatim>\<open>select *\<close>: the callback looks at no column.\<close>

definition exec_peerExists :: "ext \<Rightarrow> Credit \<Rightarrow> ('z cbw_scheme, bool) prog" where
  "exec_peerExists E peer_in = thn (modify (\<lambda>w. w\<lparr>m_peer_record_exists := False\<rparr>))
     (thn (sqlite3_exec E [c_id peer_in, c_currency peer_in] ''SQL Error: Cannot store peer data''
        (\<lambda>w. map (\<lambda>r. map Some [pr_id r, pr_currency r, pr_our_credit r, pr_credit r, pr_balance r, pr_allocation r])
           (filter (peer_is (c_id peer_in) (c_currency peer_in)) (t_peers (db_tables w)))) store_peer_callback)
      (gets m_peer_record_exists))"

definition exec_loadPeer :: "ext \<Rightarrow> Credit \<Rightarrow> ('z cbw_scheme, Credit) prog" where
  "exec_loadPeer E peer_out = thn (modify (\<lambda>w. w\<lparr>m_credit := peer_out\<rparr>))
     (thn (sqlite3_exec E [c_id peer_out, c_currency peer_out] ''SQL Error: Cannot load peer data''
        (\<lambda>w. map credit_cols (filter (peer_is (c_id peer_out) (c_currency peer_out)) (t_peers (db_tables w)))) peer_credit_callback)
      (gets m_credit))"

definition exec_loadPeers :: "ext \<Rightarrow> string \<Rightarrow> ('z cbw_scheme, Credit list) prog" where
  "exec_loadPeers E cid = thn (modify (\<lambda>w. w\<lparr>m_creditList := []\<rparr>))
     (thn (sqlite3_exec E [cid] ''SQL Error: Cannot load peer data''
        (\<lambda>w. map credits_cols (filter (\<lambda>r. pr_id r = cid) (t_peers (db_tables w)))) (peer_credits_callback E))
      (gets m_creditList))"

definition exec_loadGrandTotal :: "ext \<Rightarrow> string \<Rightarrow> ('z cbw_scheme, GrandTotal) prog" where
  "exec_loadGrandTotal E currency = thn (modify (\<lambda>w. w\<lparr>m_grandTotal :=
       \<lparr>gt_currency = currency, gt_our_credit = 0, gt_credit = 0, gt_outstanding = 0, gt_debt = 0, gt_balance = 0\<rparr>\<rparr>))
     (thn (sqlite3_exec E [currency] ''SQL Error: Cannot store peer data''
        (\<lambda>w. map total_cols (filter (\<lambda>r. pr_currency r = currency) (t_peers (db_tables w)))) grandtotal_callback)
      (gets m_grandTotal))"

definition exec_loadOrders :: "ext \<Rightarrow> ('z cbw_scheme, Order list) prog" where
  "exec_loadOrders E = thn (modify (\<lambda>w. w\<lparr>m_orderList := []\<rparr>))
     (thn (sqlite3_exec E [] ''SQL Error: Cannot read Orders'' (\<lambda>w. map order_cols (t_myorders (db_tables w))) (orders_argv_callback E))
      (gets m_orderList))"

definition exec_loadMyWallets :: "ext \<Rightarrow> ('z cbw_scheme, MyWallet_row list) prog" where
  "exec_loadMyWallets E = thn (modify (\<lambda>w. w\<lparr>m_wallets := []\<rparr>))
     (thn (sqlite3_exec E [] ''SQL Error: Cannot store peer data'' (\<lambda>w. map wallet_cols (t_mywallet (db_tables w))) mywallets_callback)
      (gets m_wallets))"

definition exec_loadBtcContracts :: "ext \<Rightarrow> ('z cbw_scheme, unit) prog" where
  "exec_loadBtcContracts E = sqlite3_exec E [] ''SQL Error: Cannot load contract data''
     (\<lambda>w. map contract_cols (sort_key (\<lambda>r. - cr_creationtime r) (t_btccontracts (db_tables w)))) (btccontracts_argv_callback E)"

text \<open>What the members hold does not reach a statement.\<close>

locale buffer =
  fixes put :: "'b \<Rightarrow> 'z dbw_scheme \<Rightarrow> 'z dbw_scheme" and get :: "'z dbw_scheme \<Rightarrow> 'b"
  assumes put_put: "put b (put c s) = put b s" and get_put: "get (put b s) = b"
    and put_stmts: "(put b s)\<lparr>db_stmts := n\<rparr> = put b (s\<lparr>db_stmts := n\<rparr>)"
    and stmts_put: "db_stmts (put b s) = db_stmts s" and tables_put: "db_tables (put b s) = db_tables s"
begin

lemma statement_put: "sql_statement E sp err (put b s) = (fst (sql_statement E sp err s), put b (snd (sql_statement E sp err s)))"
  by (simp add: sql_statement_def bnd_def thn_def prog_apply stmts_put put_stmts)

text \<open>A loader that runs the statement and then the rows is one that selects the rows and makes values of them.\<close>

lemma loads:
  assumes rows: "\<And>t. sel t = map cols (f t)"
    and exec: "\<And>t. sql_statement E sp err s = (Inr (), t) \<Longrightarrow> \<exists>b. exec_rows cb (map cols (f (db_tables t))) (put b0 t) =
      (case g (f (db_tables t)) t of (Inl e, u) \<Rightarrow> (Inl e, put b u) | (Inr x, u) \<Rightarrow> (Inr True, put x u))"
  shows "\<exists>b. thn (modify (put b0)) (thn (sqlite3_exec E sp err (\<lambda>w. sel (db_tables w)) cb) (gets get)) s =
    (fst (bnd (sql_select E sp err f) g s), put b (snd (bnd (sql_select E sp err f) g s)))"
proof (cases "sql_statement E sp err s")
  case (Pair r t)
  show ?thesis
  proof (cases r)
    case (Inl e)
    then show ?thesis using Pair by (intro exI [of _ b0]) (simp add: thn_def bnd_def prog_apply sqlite3_exec_def sql_select_def statement_put)
  next
    case (Inr u)
    then obtain b where b: "exec_rows cb (map cols (f (db_tables t))) (put b0 t) =
        (case g (f (db_tables t)) t of (Inl e, u) \<Rightarrow> (Inl e, put b u) | (Inr x, u) \<Rightarrow> (Inr True, put x u))"
      using exec [of t] Pair by auto
    obtain v w where g: "g (f (db_tables t)) t = (v, w)" by (cases "g (f (db_tables t)) t")
    show ?thesis using Pair Inr b g
      by (cases v) (auto simp: thn_def bnd_def prog_apply sqlite3_exec_def sql_select_def statement_put rows tables_put get_put)
  qed
qed

end

interpretation config_buffer: buffer "\<lambda>b s. s\<lparr>m_config_value := b\<rparr>" m_config_value by unfold_locales simp_all
interpretation exists_buffer: buffer "\<lambda>b s. s\<lparr>m_peer_record_exists := b\<rparr>" m_peer_record_exists by unfold_locales simp_all
interpretation credit_buffer: buffer "\<lambda>b s. s\<lparr>m_credit := b\<rparr>" m_credit by unfold_locales simp_all
interpretation total_buffer: buffer "\<lambda>b s. s\<lparr>m_grandTotal := b\<rparr>" m_grandTotal by unfold_locales simp_all
interpretation credits_buffer: buffer "\<lambda>b s. s\<lparr>m_creditList := b\<rparr>" m_creditList by unfold_locales simp_all
interpretation orders_buffer: buffer "\<lambda>b s. s\<lparr>m_orderList := b\<rparr>" m_orderList by unfold_locales simp_all
interpretation wallets_buffer: buffer "\<lambda>b s. s\<lparr>m_wallets := b\<rparr>" m_wallets by unfold_locales simp_all

text \<open>The loaders of \<open>ZrDb\<close> give what those of the code give, and leave the same state outside the member.\<close>

lemma exec_getConfig_is: "\<exists>b. exec_getConfig E key s = (fst (getConfig E key s), (snd (getConfig E key s))\<lparr>m_config_value := b\<rparr>)"
  unfolding exec_getConfig_def getConfig_def
  by (rule config_buffer.loads) (rule refl, auto simp: exec_config prog_apply)

lemma exec_peerExists_is: "\<exists>b. exec_peerExists E c s = (fst (peerExists E c s), (snd (peerExists E c s))\<lparr>m_peer_record_exists := b\<rparr>)"
  unfolding exec_peerExists_def peerExists_def
  by (rule exists_buffer.loads) (rule refl, auto simp: exec_exists prog_apply)

lemma exec_loadPeer_is:
  fixes s :: "'z cbw_scheme"
  shows "\<exists>b. exec_loadPeer E c s = (fst (ZrDB_loadPeer E c s), (snd (ZrDB_loadPeer E c s))\<lparr>m_credit := b\<rparr>)"
  unfolding exec_loadPeer_def ZrDB_loadPeer_def
proof (rule credit_buffer.loads, rule refl)
  fix t :: "'z cbw_scheme"
  let ?rows = "filter (peer_is (c_id c) (c_currency c)) (t_peers (db_tables t))"
  obtain b where "exec_rows peer_credit_callback (map credit_cols ?rows) (t\<lparr>m_credit := c\<rparr>) =
      (case efold setPeerCredit ?rows (m_credit (t\<lparr>m_credit := c\<rparr>)) of Inl e \<Rightarrow> (Inl e, t\<lparr>m_credit := c\<rparr>\<lparr>m_credit := b\<rparr>)
        | Inr x \<Rightarrow> (Inr True, t\<lparr>m_credit := c\<rparr>\<lparr>m_credit := x\<rparr>))" using exec_credit by blast
  then show "\<exists>b. exec_rows peer_credit_callback (map credit_cols ?rows) (t\<lparr>m_credit := c\<rparr>) =
      (case lift (efold setPeerCredit ?rows c) t of (Inl e, u) \<Rightarrow> (Inl e, u\<lparr>m_credit := b\<rparr>) | (Inr x, u) \<Rightarrow> (Inr True, u\<lparr>m_credit := x\<rparr>))"
    by (intro exI [of _ b], cases "efold setPeerCredit ?rows c") (simp_all add: prog_apply)
qed

lemma exec_loadGrandTotal_is:
  fixes s :: "'z cbw_scheme"
  shows "\<exists>b. exec_loadGrandTotal E cur s = (fst (loadGrandTotal E cur s), (snd (loadGrandTotal E cur s))\<lparr>m_grandTotal := b\<rparr>)"
  unfolding exec_loadGrandTotal_def loadGrandTotal_def
proof (rule total_buffer.loads, rule refl)
  fix t :: "'z cbw_scheme"
  let ?rows = "filter (\<lambda>r. pr_currency r = cur) (t_peers (db_tables t))"
  let ?g = "\<lparr>gt_currency = cur, gt_our_credit = 0, gt_credit = 0, gt_outstanding = 0, gt_debt = 0, gt_balance = 0\<rparr>"
  obtain b where "exec_rows grandtotal_callback (map total_cols ?rows) (t\<lparr>m_grandTotal := ?g\<rparr>) =
      (case efold addToGrandTotal ?rows (m_grandTotal (t\<lparr>m_grandTotal := ?g\<rparr>)) of Inl e \<Rightarrow> (Inl e, t\<lparr>m_grandTotal := ?g\<rparr>\<lparr>m_grandTotal := b\<rparr>)
        | Inr x \<Rightarrow> (Inr True, t\<lparr>m_grandTotal := ?g\<rparr>\<lparr>m_grandTotal := x\<rparr>))" using exec_total by blast
  then show "\<exists>b. exec_rows grandtotal_callback (map total_cols ?rows) (t\<lparr>m_grandTotal := ?g\<rparr>) =
      (case lift (efold addToGrandTotal ?rows ?g) t of (Inl e, u) \<Rightarrow> (Inl e, u\<lparr>m_grandTotal := b\<rparr>)
        | (Inr x, u) \<Rightarrow> (Inr True, u\<lparr>m_grandTotal := x\<rparr>))"
    by (intro exI [of _ b], cases "efold addToGrandTotal ?rows ?g") (simp_all add: prog_apply)
qed

lemma exec_loadPeers_is:
  "\<exists>b. exec_loadPeers E cid s = (fst (ZrDB_loadPeers E cid s), (snd (ZrDB_loadPeers E cid s))\<lparr>m_creditList := b\<rparr>)"
  unfolding exec_loadPeers_def ZrDB_loadPeers_def
  by (rule credits_buffer.loads, rule refl, rule credits.exec_from_empty) simp

text \<open>The rows the database holds: their integers are ones a C++ variable was written from.\<close>

definition order_fits :: "order_row \<Rightarrow> bool" where
  "order_fits r \<longleftrightarrow> fits_int (or_ordertype r) \<and> in_i64 (or_creationtime r) \<and> fits_int (or_purpose r)"

definition contract_fits :: "contract_row \<Rightarrow> bool" where
  "contract_fits r \<longleftrightarrow> fits_int (cr_party r) \<and> in_i64 (cr_creationtime r)"

lemma statement_tables: "sql_statement E sp err s = (r, t) \<Longrightarrow> db_tables t = db_tables s"
  by (auto simp: sql_statement_def bnd_def thn_def prog_apply split: if_splits)

lemma exec_loadOrders_is:
  assumes "\<forall>r\<in>set (t_myorders (db_tables s)). order_fits r"
  shows "\<exists>b. exec_loadOrders E s = (fst (loadOrders E s), (snd (loadOrders E s))\<lparr>m_orderList := b\<rparr>)"
  unfolding exec_loadOrders_def loadOrders_def
  by (rule orders_buffer.loads, rule refl, rule orders.exec_from_empty)
    (use assms in \<open>auto dest!: statement_tables simp: order_fits_def\<close>)

lemma list_rows_ret: "list_rows ret rows acc s = (Inr (acc @ rows), s)"
  by (induction rows arbitrary: acc) (simp_all add: bnd_def prog_apply)

lemma exec_loadMyWallets_is:
  fixes s :: "'z cbw_scheme"
  assumes "\<forall>r\<in>set (t_mywallet (db_tables s)). fits_int (mw_type r)"
  shows "\<exists>b. exec_loadMyWallets E s = (fst (loadMyWallets E s), (snd (loadMyWallets E s))\<lparr>m_wallets := b\<rparr>)"
  unfolding exec_loadMyWallets_def loadMyWallets_def
  by (rule wallets_buffer.loads, rule refl)
    (use assms in \<open>auto dest!: statement_tables simp: exec_wallets list_rows_ret\<close>)

lemma exec_loadBtcContracts_is:
  fixes s :: "'z cbw_scheme"
  assumes "\<forall>r\<in>set (t_btccontracts (db_tables s)). contract_fits r"
  shows "exec_loadBtcContracts E s = loadBtcContracts E s"
proof (cases "sql_statement E [] ''SQL Error: Cannot load contract data'' s")
  case (Pair r t)
  show ?thesis
  proof (cases r)
    case (Inr u)
    let ?rows = "sort_key (\<lambda>r. - cr_creationtime r) (t_btccontracts (db_tables t))"
    have "\<forall>r\<in>set ?rows. fits_int (cr_party r) \<and> in_i64 (cr_creationtime r)"
      using assms statement_tables [OF Pair] by (auto simp: contract_fits_def)
    then show ?thesis using Pair Inr exec_contracts [of ?rows E t "[]"]
      by (auto simp: exec_loadBtcContracts_def loadBtcContracts_def sqlite3_exec_def select_btccontracts_def sql_select_def thn_def bnd_def
          prog_apply split: sum.split prod.split)
  qed (simp add: Pair exec_loadBtcContracts_def loadBtcContracts_def sqlite3_exec_def select_btccontracts_def sql_select_def thn_def bnd_def)
qed

definition rows_fit :: "tables \<Rightarrow> bool" where
  "rows_fit t \<longleftrightarrow> list_all order_fits (t_myorders t) \<and> list_all contract_fits (t_btccontracts t) \<and>
     list_all (\<lambda>r. fits_int (mw_type r)) (t_mywallet t)"

text \<open>
  C10: a loader that runs its statement with a callback, which parses one row of texts after the other into a member of the
  database object, returns what reading the selected rows of the table at once returns, the exceptions included, and leaves
  the same state but for that member; for the configuration, the record and the account of a friend, all accounts, the
  totals, the orders, the wallets and the contracts, when the integers in the rows have the width of the variables.
\<close>

theorem loaders_read_rows:
  fixes s :: "'z cbw_scheme"
  assumes "rows_fit (db_tables s)"
  shows "(\<exists>b. exec_getConfig E key s = (fst (getConfig E key s), (snd (getConfig E key s))\<lparr>m_config_value := b\<rparr>)) \<and>
    (\<exists>b. exec_peerExists E cr s = (fst (peerExists E cr s), (snd (peerExists E cr s))\<lparr>m_peer_record_exists := b\<rparr>)) \<and>
    (\<exists>b. exec_loadPeer E cr s = (fst (ZrDB_loadPeer E cr s), (snd (ZrDB_loadPeer E cr s))\<lparr>m_credit := b\<rparr>)) \<and>
    (\<exists>b. exec_loadPeers E cid s = (fst (ZrDB_loadPeers E cid s), (snd (ZrDB_loadPeers E cid s))\<lparr>m_creditList := b\<rparr>)) \<and>
    (\<exists>b. exec_loadGrandTotal E cur s = (fst (loadGrandTotal E cur s), (snd (loadGrandTotal E cur s))\<lparr>m_grandTotal := b\<rparr>)) \<and>
    (\<exists>b. exec_loadOrders E s = (fst (loadOrders E s), (snd (loadOrders E s))\<lparr>m_orderList := b\<rparr>)) \<and>
    (\<exists>b. exec_loadMyWallets E s = (fst (loadMyWallets E s), (snd (loadMyWallets E s))\<lparr>m_wallets := b\<rparr>)) \<and>
    exec_loadBtcContracts E s = loadBtcContracts E s"
proof -
  note fit = assms [unfolded rows_fit_def list_all_iff]
  show ?thesis
    by (intro conjI exec_getConfig_is exec_peerExists_is exec_loadPeer_is exec_loadPeers_is exec_loadGrandTotal_is
        exec_loadOrders_is exec_loadMyWallets_is exec_loadBtcContracts_is; use fit in blast)
qed

definition demo_order_row :: order_row where
  "demo_order_row = \<lparr>or_orderid = ''x'', or_ordertype = OrderType_code BID, or_amount = show_int 3, or_price = show_int 7,
     or_currency = ''GPM'', or_creationtime = 5, or_purpose = Purpose_code NEW\<rparr>"

definition demo_cbw :: cbw where
  "demo_cbw = conw.extend ((demo_conw [])\<lparr>db_tables := demo_tables\<lparr>t_myorders := [demo_order_row]\<rparr>\<rparr>)
     \<lparr>m_peer_record_exists = True, m_config_value = ''old'', m_grandTotal = \<lparr>gt_currency = [], gt_our_credit = 0, gt_credit = 0,
       gt_outstanding = 0, gt_debt = 0, gt_balance = 0\<rparr>, m_credit = demo_credit ''bo'' 9 5 2 0, m_creditList = [], m_txList = [],
      m_orderList = [], m_wallets = []\<rparr>"

theorem loaders_read_rows_witness:
  "fst (exec_loadOrders demo demo_cbw) = Inr [new_Order True ''x'' BID 3 7 1 5 NEW]"
proof -
  have t: "db_tables demo_cbw = demo_tables\<lparr>t_myorders := [demo_order_row]\<rparr>" by (simp add: demo_cbw_def conw.defs)
  have "rows_fit (db_tables demo_cbw)"
    by (simp add: t rows_fit_def demo_tables_def order_fits_def demo_order_row_def fits_int_def in_i64_def)
  from loaders_read_rows [OF this, of demo "[]" "demo_credit ''bo'' 0 0 0 0" "[]" "[]"]
  have "fst (exec_loadOrders demo demo_cbw) = fst (loadOrders demo demo_cbw)" by (elim conjE exE) simp
  also have "row_order demo demo_order_row = Some (new_Order True ''x'' BID 3 7 1 5 NEW)"
    by (simp add: row_order_def demo_order_row_def fromDecimalString_show_int in_i64_def demo_def currencySymbols_testnet_def OrderType_of_def
      Purpose_of_def)
  then have "fst (loadOrders demo demo_cbw) = Inr [new_Order True ''x'' BID 3 7 1 5 NEW]"
    using loadOrders_ok [OF demo_db_up, of demo_cbw] by (simp add: t orders_readable_def)
  finally show ?thesis .
qed

end
