(* ===== verification/Startup.thy ===== *)
theory Startup
  imports Satoshi Managers
begin

text \<open>
  How the plug-in comes into being (\<^verbatim>\<open>ZeroReservePlugin.cpp\<close>, and what its constructor and its hooks
  make): the plug-in object with its books, the page, the icon, the about box and the service, each
  made when RetroShare asks for it the first time, and the one Bitcoin client of the program. The
  plug-in that RetroShare gets is a node at its start in the sense of \<open>Runs\<close>.
\<close>

section \<open>The plug-in object\<close>

text \<open>
  The pointers of the plug-in, null or not: what RetroShare hands over are addresses, the
  service is what it was made of. \<open>p_bids\<close>, \<open>p_asks\<close> say whether a book knows the own orders.
\<close>

record 'c plugw = nodew +
  g_plugin :: bool
  g_myOrders :: bool
  p_bids :: bool
  p_asks :: bool
  p_page :: "started option"
  p_icon :: "string option"
  p_handler :: "nat option"
  p_peers :: "nat option"
  p_service :: "(nat \<times> nat option) option"
  p_about :: "string option"
  p_bitcoin :: "'c option"

text \<open>An empty book; the own orders tell both books of the plug-in about themselves.\<close>

definition new_OrderBook :: book where
  "new_OrderBook = \<lparr>m_orders = [], m_filteredOrders = [], m_currency = None\<rparr>"

definition new_MyOrders :: "(('c, 'z) plugw_scheme, unit) prog" where
  "new_MyOrders = thn (modify (\<lambda>w. w\<lparr>b_book := (b_book w)(Mine := new_OrderBook)\<rparr>))
     (modify (\<lambda>w. w\<lparr>p_bids := True, p_asks := True, g_myOrders := True\<rparr>))"

definition new_ZeroReservePlugin :: "(('c, 'z) plugw_scheme, unit) prog" where
  "new_ZeroReservePlugin =
     thn (modify (\<lambda>w. w\<lparr>p_page := None, w_messages := [], n_stopped := False, p_icon := None, p_handler := None,
        p_service := None, p_peers := None\<rparr>))
     (thn (modify (\<lambda>w. w\<lparr>b_book := (b_book w)(Asks := new_OrderBook), p_asks := False\<rparr>))
     (thn (modify (\<lambda>w. w\<lparr>b_book := (b_book w)(Bids := new_OrderBook), p_bids := False\<rparr>)) new_MyOrders))"

definition RETROSHARE_PLUGIN_provide :: "(('c, 'z) plugw_scheme, unit) prog" where
  "RETROSHARE_PLUGIN_provide = thn new_ZeroReservePlugin (modify (\<lambda>w. w\<lparr>g_plugin := True\<rparr>))"

definition setInterfaces :: "nat option \<Rightarrow> (('c, 'z) plugw_scheme, unit) prog" where
  "setInterfaces peers = modify (\<lambda>w. w\<lparr>p_peers := peers\<rparr>)"

definition setPlugInHandler :: "nat option \<Rightarrow> (('c, 'z) plugw_scheme, unit) prog" where
  "setPlugInHandler handler = modify (\<lambda>w. w\<lparr>p_handler := handler\<rparr>)"

section \<open>What is made on demand\<close>

text \<open>A pointer that is filled on the first call.\<close>

definition on_demand :: "('s \<Rightarrow> 'v option) \<Rightarrow> ('v \<Rightarrow> 's \<Rightarrow> 's) \<Rightarrow> ('s, 'v) prog \<Rightarrow> ('s, 'v) prog" where
  "on_demand get put mk = bnd (gets get) (\<lambda>p. case p of
       Some v \<Rightarrow> ret v
     | None \<Rightarrow> bnd mk (\<lambda>v. thn (modify (put v)) (ret v)))"

definition qt_page :: "ext \<Rightarrow> (('c, 'z) plugw_scheme, started) prog" where
  "qt_page E = on_demand p_page (\<lambda>v w. w\<lparr>p_page := Some v\<rparr>) (new_ZeroReserveDialog E)"

definition qt_icon :: "(('c, 'z) plugw_scheme, string) prog" where
  "qt_icon = on_demand p_icon (\<lambda>v w. w\<lparr>p_icon := Some v\<rparr>) (ret '':/images/bitcoin.png'')"

definition about_text :: "(string \<Rightarrow> string) \<Rightarrow> string" where
  "about_text tr = tr (''<h3>RetroShare Zero Reserve plugin</h3><br/>   * Author: R&uuml;diger Koch<br/>'') @
     tr (''<br/>Zero Reserve implements a distributed Bitcoin Exchange based on the Ripple idea.'') @
     tr (''Your friend needs to run the plugin to trade with you, of course.'') @
     tr (''<br/><br/>This is experimental software. Use at your own risk. Don't hesitate to send comments and suggestion to anu at zerostate dot net.'')"

definition qt_about_page :: "(string \<Rightarrow> string) \<Rightarrow> (('c, 'z) plugw_scheme, string) prog" where
  "qt_about_page tr = on_demand p_about (\<lambda>v w. w\<lparr>p_about := Some v\<rparr>) (ret (about_text tr))"

definition getShortPluginDescription :: "(string \<Rightarrow> string) \<Rightarrow> string" where
  "getShortPluginDescription tr = tr ''This plugin implements a distributed Bitcoin exchange.''"

definition getPluginName :: "(string \<Rightarrow> string) \<Rightarrow> string" where
  "getPluginName tr = tr ''Zero Reserve''"

section \<open>The Bitcoin client and the service\<close>

text \<open>The three clients differ in what their constructor does; one of them is linked.\<close>

definition Bitcoin_Instance :: "(('c, 'z) plugw_scheme, 'c) prog \<Rightarrow> (('c, 'z) plugw_scheme, 'c) prog" where
  "Bitcoin_Instance mk = on_demand p_bitcoin (\<lambda>v w. w\<lparr>p_bitcoin := Some v\<rparr>) mk"

definition Satoshi_Instance :: "string option \<Rightarrow> (string \<Rightarrow> string option) \<Rightarrow> ((RpcSettings, 'z) plugw_scheme, RpcSettings) prog" where
  "Satoshi_Instance home file = Bitcoin_Instance (new_ZrSatoshiBitcoin home file)"

definition Dummy_Instance :: "((unit, 'z) plugw_scheme, unit) prog" where
  "Dummy_Instance = Bitcoin_Instance (ret ())"

text \<open>The client over libbitcoin is made with nothing started.\<close>

definition LibBitcoin_Instance :: "((bool, 'z) plugw_scheme, bool) prog" where
  "LibBitcoin_Instance = Bitcoin_Instance (ret False)"

text \<open>
  The service watches the links of the handler, which it reads through: without a handler this
  is a null pointer. The friends are only kept.
\<close>

definition new_p3ZeroReserveRS :: "nat option \<Rightarrow> nat option \<Rightarrow> (('c, 'z) plugw_scheme, nat \<times> nat option) prog" where
  "new_p3ZeroReserveRS pgHandler peers =
     thn (modify (\<lambda>w. w\<lparr>s_initialized := 0\<rparr>))
     (case pgHandler of None \<Rightarrow> throw (Undefined Null_pointer) | Some h \<Rightarrow> ret (h, peers))"

definition plugin_service :: "(('c, 'z) plugw_scheme, 'c) prog \<Rightarrow> ('c \<Rightarrow> (('c, 'z) plugw_scheme, RetVal) prog)
    \<Rightarrow> (('c, 'z) plugw_scheme, nat \<times> nat option) prog" where
  "plugin_service mk start =
     bnd (gets p_service) (\<lambda>p. case p of
       Some v \<Rightarrow> ret v
     | None \<Rightarrow> bnd (gets p_handler) (\<lambda>h. bnd (gets p_peers) (\<lambda>ps.
         bnd (new_p3ZeroReserveRS h ps) (\<lambda>v. thn (modify (\<lambda>w. w\<lparr>p_service := Some v\<rparr>))
         (bnd (Bitcoin_Instance mk) (\<lambda>c. bnd (start c) (\<lambda>_. ret v)))))))"

section \<open>Call stacks\<close>

text \<open>
  At most a hundred frames; the first one, the function itself, is not printed. The symbols are
  those of the C library, which may have no memory for them.
\<close>

definition print_stacktrace :: "('f list \<Rightarrow> string list option) \<Rightarrow> 'f list \<Rightarrow> string list" where
  "print_stacktrace symbols frames = (let buffer = take 100 frames in
     case symbols buffer of
       None \<Rightarrow> [''Zero Reserve: print_stacktrace: Cannot print symbols'']
     | Some strings \<Rightarrow> ''Zero Reserve: Printing Stack Trace:'' #
         map (\<lambda>j. ''Zero Reserve: '' @ strings ! j) [1..<length buffer])"

section \<open>Facts\<close>

text \<open>What was made on demand is there ever after: a second call finds it and does nothing.\<close>

locale made_once =
  fixes get :: "'s \<Rightarrow> 'v option" and put :: "'v \<Rightarrow> 's \<Rightarrow> 's"
  assumes get_put: "get (put v s) = Some v"
begin

lemma found: "get s = Some v \<Longrightarrow> on_demand get put mk s = (Inr v, s)"
  by (simp add: on_demand_def prog_apply bnd_def)

lemma made: "on_demand get put mk s = (Inr v, t) \<Longrightarrow> get t = Some v"
  by (cases "get s"; cases "fst (mk s)"; cases "mk s") (auto simp: on_demand_def prog_apply bnd_def thn_def get_put)

lemma twice: "on_demand get put mk s = (Inr v, t) \<Longrightarrow> on_demand get put mk t = (Inr v, t)"
  by (rule found, rule made)

lemma not_made: "get s = None \<Longrightarrow> mk s = (Inl e, t) \<Longrightarrow> on_demand get put mk s = (Inl e, t)"
  by (simp add: on_demand_def prog_apply bnd_def)

end

interpretation page: made_once p_page "\<lambda>v (w :: ('c, 'z) plugw_scheme). w\<lparr>p_page := Some v\<rparr>"
  by unfold_locales simp

interpretation icon: made_once p_icon "\<lambda>v (w :: ('c, 'z) plugw_scheme). w\<lparr>p_icon := Some v\<rparr>"
  by unfold_locales simp

interpretation about: made_once p_about "\<lambda>v (w :: ('c, 'z) plugw_scheme). w\<lparr>p_about := Some v\<rparr>"
  by unfold_locales simp

interpretation bitcoin: made_once p_bitcoin "\<lambda>v (w :: ('c, 'z) plugw_scheme). w\<lparr>p_bitcoin := Some v\<rparr>"
  by unfold_locales simp

text \<open>
  Where the statics of the program are as they are when it is loaded, the plug-in that RetroShare is
  given is a node at its start, with both books connected to the own orders.
\<close>

definition just_loaded :: "('c, 'z) plugw_scheme \<Rightarrow> bool" where
  "just_loaded s \<longleftrightarrow> b_heap s = Map.empty \<and> b_next s = 0 \<and> k_heap s = Map.empty \<and> k_next s = 0 \<and> k_contracts s = [] \<and>
     s_sent s = [] \<and> s_received s = [] \<and> t_heap s = Map.empty \<and> t_next s = 0 \<and> t_current s = [] \<and> p_bitcoin s = None \<and> p_about s = None"

lemma provided_node_fresh:
  assumes "just_loaded s"
  shows "\<exists>t. RETROSHARE_PLUGIN_provide s = (Inr (), t) \<and> fresh_node (nodew.truncate t) \<and> g_plugin t \<and> g_myOrders t \<and>
    p_bids t \<and> p_asks t \<and> p_page t = None \<and> p_service t = None"
proof -
  let ?b = "((b_book s)(Asks := new_OrderBook, Bids := new_OrderBook, Mine := new_OrderBook))"
  have "?b = (\<lambda>sd. new_OrderBook)" using side.exhaust by (auto simp: fun_eq_iff)
  then show ?thesis
    using assms by (simp add: RETROSHARE_PLUGIN_provide_def new_ZeroReservePlugin_def new_MyOrders_def prog_apply
        thn_def bnd_def just_loaded_def fresh_node_def nodew.defs) (simp add: new_OrderBook_def)
qed

text \<open>RetroShare has to hand over its handler before it asks for the service, which it then gets again.\<close>

lemma service_needs_handler:
  "p_service s = None \<Longrightarrow> p_handler s = None \<Longrightarrow> fst (plugin_service mk start s) = Inl (Undefined Null_pointer)"
  "p_service s = None \<Longrightarrow> plugin_service mk start s = (Inr v, t) \<Longrightarrow> \<exists>h. p_handler s = Some h \<and> v = (h, p_peers s)"
  by (auto simp: plugin_service_def new_p3ZeroReserveRS_def prog_apply bnd_def thn_def split: option.splits prod.splits sum.splits)

end
