(* ===== verification/Curl.thy ===== *)
theory Curl
  imports Rpc
begin

text \<open>
  The HTTP request of \<^verbatim>\<open>src/satoshi/JsonRpc.cpp\<close> in the steps the code takes, on the object
  \<^verbatim>\<open>CurlPost\<close> with its assertions, and that together they are \<open>Rpc.queryHttp\<close>; with the calls of
  \<^verbatim>\<open>JsonRpc.hpp\<close> and \<^verbatim>\<open>RpcSettings.cpp\<close> for longer parameter lists and the default file.
\<close>

record CurlPost =
  cp_handle :: bool
  cp_headers :: "string list"
  cp_data :: string
  cp_response :: string
  cp_code :: nat

definition new_CurlPost :: CurlPost where
  "new_CurlPost = \<lparr>cp_handle = False, cp_headers = [], cp_data = [], cp_response = [], cp_code = 0\<rparr>"

text \<open>An assertion ends the process.\<close>

definition asserted :: "bool \<Rightarrow> exn + 'a \<Rightarrow> exn + 'a" where
  "asserted b r = (if b then r else Inl (Undefined Aborted))"

definition CurlPost_init :: "'j rpclib \<Rightarrow> nat \<Rightarrow> CurlPost \<Rightarrow> exn + CurlPost" where
  "CurlPost_init J n p =
     asserted (\<not> cp_handle p)
       (if h_init J n then Inr (p\<lparr>cp_handle := True\<rparr>) else Inl (Runtime_error ''Initialisation of cURL failed.''))"

definition CurlPost_addHeader :: "string \<Rightarrow> string \<Rightarrow> CurlPost \<Rightarrow> exn + CurlPost" where
  "CurlPost_addHeader header val p =
     asserted (cp_handle p) (Inr (p\<lparr>cp_headers := cp_headers p @ [header @ '': '' @ val]\<rparr>))"

definition CurlPost_setData :: "string \<Rightarrow> CurlPost \<Rightarrow> CurlPost" where
  "CurlPost_setData d p = p\<lparr>cp_data := d\<rparr>"

text \<open>cURL hands the body over piece by piece.\<close>

definition CurlPost_writeHandler :: "string \<Rightarrow> CurlPost \<Rightarrow> CurlPost" where
  "CurlPost_writeHandler buf p = p\<lparr>cp_response := cp_response p @ buf\<rparr>"

definition CurlPost_perform :: "'j rpclib \<Rightarrow> (string \<Rightarrow> string list) \<Rightarrow> nat \<Rightarrow> RpcSettings \<Rightarrow> CurlPost \<Rightarrow> exn + CurlPost" where
  "CurlPost_perform J pieces n st p =
     asserted (cp_handle p)
       (case h_perform J n \<lparr>h_url = CurlPost_url st, h_headers = cp_headers p, h_agent = ''libnmcrpc'', h_data = cp_data p\<rparr> of
          Inl msg \<Rightarrow> Inl (Runtime_error (''Error in cURL: '' @ msg))
        | Inr (code, body) \<Rightarrow> Inr (fold CurlPost_writeHandler (pieces body) (p\<lparr>cp_code := code\<rparr>)))"

definition CurlPost_getResponseCode :: "CurlPost \<Rightarrow> exn + nat" where
  "CurlPost_getResponseCode p = asserted (cp_handle p) (Inr (cp_code p))"

definition queryHttp_steps :: "'j rpclib \<Rightarrow> (string \<Rightarrow> string list) \<Rightarrow> RpcSettings \<Rightarrow> string \<Rightarrow> nat \<Rightarrow> exn + nat \<times> string" where
  "queryHttp_steps J pieces st query n =
     ebind (CurlPost_init J n new_CurlPost) (\<lambda>poster.
     ebind (CurlPost_addHeader ''Content-Type'' ''application/json'' (CurlPost_setData query poster)) (\<lambda>poster.
     ebind (CurlPost_addHeader ''Accept'' ''application/json'' poster) (\<lambda>poster.
     ebind (CurlPost_perform J pieces n st poster) (\<lambda>poster.
     ebind (CurlPost_getResponseCode poster) (\<lambda>responseCode.
       Inr (responseCode, cp_response poster))))))"

lemma written: "fold CurlPost_writeHandler bs p = p\<lparr>cp_response := cp_response p @ concat bs\<rparr>"
  by (induction bs arbitrary: p) (simp_all add: CurlPost_writeHandler_def)

text \<open>No assertion fails, and the pieces make up the body.\<close>

lemma queryHttp_in_steps:
  assumes "\<And>body. concat (pieces body) = body"
  shows "queryHttp J st query = bnd (rpc_call (queryHttp_steps J pieces st query)) lift"
proof -
  have "queryHttp_steps J pieces st query n = (if \<not> h_init J n then Inl (Runtime_error ''Initialisation of cURL failed.'')
      else case h_perform J n \<lparr>h_url = CurlPost_url st,
             h_headers = [''Content-Type: application/json'', ''Accept: application/json''],
             h_agent = ''libnmcrpc'', h_data = query\<rparr> of
          Inl msg \<Rightarrow> Inl (Runtime_error (''Error in cURL: '' @ msg))
        | Inr answer \<Rightarrow> Inr answer)" for n
    using assms by (auto simp: queryHttp_steps_def CurlPost_init_def new_CurlPost_def CurlPost_addHeader_def CurlPost_setData_def
        CurlPost_perform_def CurlPost_getResponseCode_def asserted_def written ebind_def split: sum.split)
  then show ?thesis by (simp add: queryHttp_def fun_eq_iff bnd_def rpc_call_apply)
qed

definition executeRpc2 :: "'j rpclib \<Rightarrow> JsonRpc \<Rightarrow> string \<Rightarrow> 'j \<Rightarrow> 'j \<Rightarrow> ('z world_scheme, 'j \<times> JsonRpc) prog" where
  "executeRpc2 J rpc call p1 p2 = executeRpc J rpc call [p1, p2]"

definition executeRpc3 :: "'j rpclib \<Rightarrow> JsonRpc \<Rightarrow> string \<Rightarrow> 'j \<Rightarrow> 'j \<Rightarrow> 'j \<Rightarrow> ('z world_scheme, 'j \<times> JsonRpc) prog" where
  "executeRpc3 J rpc call p1 p2 p3 = executeRpc J rpc call [p1, p2, p3]"

text \<open>The variable of the environment, if it is set, and the files that can be opened.\<close>

definition readDefaultConfig :: "string option \<Rightarrow> (string \<Rightarrow> string option) \<Rightarrow> RpcSettings \<Rightarrow> exn + RpcSettings" where
  "readDefaultConfig home files st =
     (case home of
        None \<Rightarrow> Inr st
      | Some h \<Rightarrow> let filename = h @ ''/.namecoin/namecoin.conf'' in readConfig filename (files filename) st)"

section \<open>The exceptions\<close>

text \<open>
  The classes of the exceptions with the members they have beside their text. All of them are runtime
  errors, and the handlers of the program ask for no more than the text: \<open>thrown\<close> is what \<open>Rpc\<close> has of them.
\<close>

datatype rpc_exception =
    Rpc_exception string
  | JsonParseError string
  | HttpError string nat
  | Rpc_error int string

fun rpc_what :: "rpc_exception \<Rightarrow> string" where
  "rpc_what (Rpc_exception msg) = msg"
| "rpc_what (JsonParseError msg) = msg"
| "rpc_what (HttpError msg code) = msg"
| "rpc_what (Rpc_error code message) = ''RPC returned an error response.''"

definition thrown :: "rpc_exception \<Rightarrow> exn" where
  "thrown e = Runtime_error (rpc_what e)"

definition status_error :: "nat \<Rightarrow> rpc_exception option" where
  "status_error respCode =
     (if respCode \<in> {200, 404, 500} then None
      else if respCode = 401 then Some (HttpError ''Login credentials not accepted.'' respCode)
      else Some (HttpError ''Invalid HTTP status code returned.'' respCode))"

definition new_RpcError :: "'j rpclib \<Rightarrow> 'j \<Rightarrow> exn + rpc_exception" where
  "new_RpcError J data =
     ebind (j_get J data ''code'') (\<lambda>c. ebind (j_asInt J c) (\<lambda>code.
     ebind (j_get J data ''message'') (\<lambda>m. ebind (j_asString J m) (\<lambda>message. Inr (Rpc_error code message)))))"

lemma exceptions_thrown:
  "rpc_status respCode = (case status_error respCode of None \<Rightarrow> Inr () | Some e \<Rightarrow> Inl (thrown e))"
  "RpcError J data = (case new_RpcError J data of Inl e \<Rightarrow> e | Inr e \<Rightarrow> thrown e)"
  "decodeJson J str = (case j_parse J str of None \<Rightarrow> Inl (thrown (JsonParseError ''Error decoding the JSON value.'')) | Some v \<Rightarrow> Inr v)"
  by (auto simp: rpc_status_def status_error_def RpcError_def new_RpcError_def decodeJson_def thrown_def ebind_def
      split: sum.split option.split)

section \<open>Writing under a locale\<close>

text \<open>
  The writer of jsoncpp writes numbers as the locale of the process has it, which is the state here;
  the code sets it to that of the language C for the time of the writing. What is written does not depend on
  the locale of the user, which is put back.
\<close>

definition encodeJson :: "(string \<Rightarrow> 'j \<Rightarrow> string) \<Rightarrow> 'j \<Rightarrow> (string, string) prog" where
  "encodeJson writer data =
     bnd (gets (\<lambda>l. l)) (\<lambda>lc_num. thn (modify (\<lambda>_. ''C''))
     (bnd (gets (\<lambda>l. writer l data)) (\<lambda>retval. thn (modify (\<lambda>_. lc_num)) (ret retval))))"

lemma encodeJson_any_locale: "encodeJson writer data lc = (Inr (writer ''C'' data), lc)"
  by (simp add: encodeJson_def bnd_def thn_def prog_apply)

end
