(* ===== verification/Widgets.thy ===== *)
theory Widgets
  imports Dialog ServiceLaws
begin

text \<open>
  What the user sees: the currency selectors and dialogues for a friend as they open
  (\<^verbatim>\<open>src/ZeroReserveDialog.cpp\<close>, \<^verbatim>\<open>src/paymentdialog.cpp\<close>, \<^verbatim>\<open>src/frienddetailsdialog.cpp\<close>,
  \<^verbatim>\<open>src/FriendResetDialog.cpp\<close>). What a dialogue does when it is accepted is in \<open>TmLocal\<close>.
\<close>

section \<open>Selectors\<close>

text \<open>One selector has every currency, the other, for the orders, leaves Bitcoin out.\<close>

definition bitcoin_name :: "build \<Rightarrow> string" where
  "bitcoin_name b = (case b of Testnet \<Rightarrow> ''Testnet Bitcoin'' | Prodnet \<Rightarrow> ''Bitcoin'')"

definition currencySelector1 :: "build \<Rightarrow> string list" where
  "currencySelector1 b = filter (\<lambda>n. n \<noteq> bitcoin_name b) (currencyNames b)"

definition currencySelector2 :: "build \<Rightarrow> string list" where
  "currencySelector2 b = currencyNames b"

section \<open>The dialogues for a friend\<close>

text \<open>A selector shows its first entry until another is chosen; choosing one loads again.\<close>

record 'v friend_dialog =
  fd_id :: PeerAddress
  fd_label :: string
  fd_selector :: "string list"
  fd_shown :: 'v

definition new_PaymentDialog :: "ext \<Rightarrow> PeerAddress \<Rightarrow> ('z tmw_scheme, (ZR_Number \<times> string option) friend_dialog) prog" where
  "new_PaymentDialog E payee =
     (let entries = currencyNames (x_build E) in
      bnd (PaymentDialog_loadAvailableFunds E payee (hd entries)) (\<lambda>v.
        ret \<lparr>fd_id = payee, fd_label = x_peer_name E payee, fd_selector = entries, fd_shown = v\<rparr>))"

definition new_FriendDetailsDialog :: "ext \<Rightarrow> PeerAddress \<Rightarrow> string
    \<Rightarrow> ('z tmw_scheme, ((ZR_Number \<times> ZR_Number \<times> ZR_Number \<times> ZR_Number) \<times> string option) friend_dialog) prog" where
  "new_FriendDetailsDialog E uid name =
     (let entries = currencyNames (x_build E) in
      bnd (FriendDetailsDialog_loadPeer E uid (hd entries)) (\<lambda>v.
        ret \<lparr>fd_id = uid, fd_label = name, fd_selector = entries, fd_shown = v\<rparr>))"

definition new_FriendResetDialog :: "ext \<Rightarrow> PeerAddress \<Rightarrow> string \<Rightarrow> unit friend_dialog" where
  "new_FriendResetDialog E uid name =
     \<lparr>fd_id = uid, fd_label = name, fd_selector = currencyNames (x_build E), fd_shown = ()\<rparr>"

text \<open>
  The menu of the friend list: what can be chosen for the selection. The list is not refreshed
  while the menu is open.
\<close>

definition contextMenuFriendList :: "nat \<Rightarrow> bool \<Rightarrow> (string \<times> bool) list" where
  "contextMenuFriendList selectedCount ssl =
     [(''Pay to...'', selectedCount \<noteq> 0),
      (''Friend Details...'', selectedCount = 1 \<and> ssl),
      (''Friend Reset...'', selectedCount = 1 \<and> ssl)]"

definition ZeroReserveDialog_friendDetails :: "ext \<Rightarrow> PeerAddress
    \<Rightarrow> ('z tmw_scheme, ((ZR_Number \<times> ZR_Number \<times> ZR_Number \<times> ZR_Number) \<times> string option) friend_dialog) prog" where
  "ZeroReserveDialog_friendDetails E selected = new_FriendDetailsDialog E selected (x_peer_name E selected)"

definition ZeroReserveDialog_friendReset :: "ext \<Rightarrow> PeerAddress \<Rightarrow> unit friend_dialog" where
  "ZeroReserveDialog_friendReset E selected = new_FriendResetDialog E selected (x_peer_name E selected)"

text \<open>
  Every entry of a selector is a currency with a symbol: no choice of the user ends in the
  message about an unknown currency, or past the table of the symbols.
\<close>

lemma selected_currency:
  assumes "n \<in> set (currencyNames (x_build E))"
  shows "\<exists>i cur. getCurrencyByName E n s = (Inr i, s) \<and> symbol_of E i s = (Inr cur, s) \<and> known_currency E cur"
proof -
  obtain i where i: "i < length (currencyNames (x_build E))" "n = currencyNames (x_build E) ! i"
    using assms by (auto simp: in_set_conv_nth)
  then have l: "i < length (currencySymbols (x_build E))" "i < INVALID (x_build E)"
    by (simp_all add: INVALID_def tables_aligned table_lengths)
  then show ?thesis using i(2)
    by (simp add: getCurrencyByName_def table_index_nth distinct_names table_lengths symbol_of_def known_currency_def prog_defs)
qed

text \<open>
  Whatever is chosen, the dialogues show what is on record for the friend in that currency: for a
  payment what we may still take, and the whole credit line.
\<close>

lemma dialogues_show_account:
  assumes "n \<in> set (currencyNames (x_build E))" and "db_up E" and "no_quote p" and "peers_ok (db_tables s)"
  shows "\<exists>cur. known_currency E cur \<and> (let a = account_at (db_tables s) p cur in
    fst (PaymentDialog_loadAvailableFunds E p n s) = Inr (getMyAvailable (loaded p cur a), None) \<and>
    fst (FriendDetailsDialog_loadPeer E p n s) = Inr ((a_credit a, a_our_credit a, a_balance a, a_allocation a), None))"
proof -
  obtain i cur where c: "getCurrencyByName E n s = (Inr i, s)" "symbol_of E i s = (Inr cur, s)" "known_currency E cur"
    using selected_currency [OF assms(1), of s] by blast
  let ?c0 = "\<lparr>c_id = p, c_currency = cur, c_our_credit = 0, c_credit = 0, c_balance = 0, c_allocated = 0, c_fee = 0\<rparr> :: Credit"
  have n: "new_Credit E p cur s = (Inr ?c0, s)" using c(3) by (simp add: new_Credit_known ret_def)
  have l: "Credit_loadPeer E ?c0 s = (Inr (loaded p cur (account_at (db_tables s) p cur)), tick s)"
    using load_any [OF assms(2) c(3) assms(3,4), of ret] by (simp add: bnd_def n ret_def split: sum.splits prod.splits)
  show ?thesis
    by (intro exI [of _ cur]) (simp add: c PaymentDialog_loadAvailableFunds_def FriendDetailsDialog_loadPeer_def
        bnd_def n l try_catch_def ret_def Let_def loaded_def)
qed

end
