(* ===== verification/Page.thy ===== *)
theory Page
  imports Widgets Managers
begin

text \<open>
  The signals of the main page (\<^verbatim>\<open>src/ZeroReserveDialog.cpp\<close>): which slots its constructor connects to
  which signal, what a slot does with what the widgets hold, and the menus. Qt calls the slots of a
  signal in the order they were connected. Every signal comes down to events of \<open>Runs\<close>.
\<close>

section \<open>Signals and slots\<close>

datatype page_signal = friendSelection_menu | friendSelection_doubleClicked | askButton_clicked | bidButton_clicked
  | selector2_changed | selector1_changed | history_itemChanged | currentTx_clicked | myOrders_menu | timer_timeout

datatype page_slot = slot_contextMenuFriendList | slot_friendDetails | slot_addAsk | slot_addBid | slot_loadGrandTotal
  | slot_setCurrency side | slot_showCurrentTx | slot_contextMenuMyOrders | slot_janitor

definition page_connections :: "(page_signal \<times> page_slot) list" where
  "page_connections =
     [(friendSelection_menu, slot_contextMenuFriendList),
      (friendSelection_doubleClicked, slot_friendDetails),
      (askButton_clicked, slot_addAsk),
      (bidButton_clicked, slot_addBid),
      (selector2_changed, slot_loadGrandTotal),
      (selector1_changed, slot_setCurrency Bids),
      (selector1_changed, slot_setCurrency Asks),
      (selector1_changed, slot_setCurrency Mine),
      (history_itemChanged, slot_loadGrandTotal),
      (currentTx_clicked, slot_showCurrentTx),
      (myOrders_menu, slot_contextMenuMyOrders),
      (timer_timeout, slot_janitor)]"

text \<open>What the widgets hold. The friend list is refreshed by the timer unless its menu is open.\<close>

datatype list_modus = MODUS_SINGLE | MODUS_MULTI

record page_ui =
  ui_selector1 :: string
  ui_selector2 :: string
  ui_ask_price :: string
  ui_ask_amount :: string
  ui_bid_price :: string
  ui_bid_amount :: string
  ui_selectedCount :: nat
  ui_selectedId :: PeerAddress
  ui_ssl :: bool
  ui_row :: "nat option"
  ui_modus :: list_modus
  m_update :: bool

definition updateFriendList :: "page_ui \<Rightarrow> page_ui" where
  "updateFriendList ui = (if \<not> m_update ui then ui else ui\<lparr>ui_modus := MODUS_SINGLE\<rparr>)"

text \<open>What a slot opens or shows.\<close>

datatype menu_item = Pay_item | Details_item | Reset_item | Cancel_item

datatype shown =
    Nothing
  | Box "string option"
  | Totals GrandTotal
  | Menu "(string \<times> bool) list"
  | Details "((ZR_Number \<times> ZR_Number \<times> ZR_Number \<times> ZR_Number) \<times> string option) friend_dialog"
  | Funds "(ZR_Number \<times> string option) friend_dialog"
  | Reset "unit friend_dialog"
  | Contract_rows "tx_row list"
  | Refreshed "string list \<times> GrandTotal \<times> (nat \<times> ZR_Number) option"

definition contextMenuMyOrders :: "(string \<times> bool) list" where
  "contextMenuMyOrders = [(''Cancel Order'', True)]"

definition ZeroReserveDialog_payTo :: "ext \<Rightarrow> PeerAddress \<Rightarrow> ('z tmw_scheme, (ZR_Number \<times> string option) friend_dialog) prog" where
  "ZeroReserveDialog_payTo E selected = new_PaymentDialog E selected"

fun run_slot :: "ext \<Rightarrow> page_ui \<Rightarrow> page_slot \<Rightarrow> (nodew, shown) prog" where
  "run_slot E ui slot_contextMenuFriendList = ret (Menu (contextMenuFriendList (ui_selectedCount ui) (ui_ssl ui)))"
| "run_slot E ui slot_friendDetails = bnd (ZeroReserveDialog_friendDetails E (ui_selectedId ui)) (\<lambda>d. ret (Details d))"
| "run_slot E ui slot_addAsk =
     bnd (ZeroReserveDialog_addAsk E (ui_selector1 ui) (ui_ask_price ui) (ui_ask_amount ui)) (\<lambda>b. ret (Box b))"
| "run_slot E ui slot_addBid =
     bnd (ZeroReserveDialog_addBid E (ui_selector1 ui) (ui_bid_price ui) (ui_bid_amount ui)) (\<lambda>b. ret (Box b))"
| "run_slot E ui slot_loadGrandTotal = bnd (ZeroReserveDialog_loadGrandTotal E (ui_selector2 ui)) (\<lambda>gt. ret (Totals gt))"
| "run_slot E ui (slot_setCurrency sd) = thn (OrderBook_setCurrency E sd (ui_selector1 ui)) (ret Nothing)"
| "run_slot E ui slot_showCurrentTx = bnd (CurrentTxList E) (\<lambda>rows. ret (Contract_rows rows))"
| "run_slot E ui slot_contextMenuMyOrders = ret (Menu contextMenuMyOrders)"
| "run_slot E ui slot_janitor = bnd (ZeroReserveDialog_janitor E (ui_selector2 ui)) (\<lambda>r. ret (Refreshed r))"

text \<open>The entries of the two menus, when they are chosen.\<close>

fun page_item :: "ext \<Rightarrow> page_ui \<Rightarrow> menu_item \<Rightarrow> (nodew, shown) prog" where
  "page_item E ui Pay_item = bnd (ZeroReserveDialog_payTo E (ui_selectedId ui)) (\<lambda>d. ret (Funds d))"
| "page_item E ui Details_item = bnd (ZeroReserveDialog_friendDetails E (ui_selectedId ui)) (\<lambda>d. ret (Details d))"
| "page_item E ui Reset_item = ret (Reset (ZeroReserveDialog_friendReset E (ui_selectedId ui)))"
| "page_item E ui Cancel_item = thn (ZeroReserveDialog_cancelOrder E (ui_row ui)) (ret Nothing)"

fun run_slots :: "ext \<Rightarrow> page_ui \<Rightarrow> page_slot list \<Rightarrow> (nodew, shown list) prog" where
  "run_slots E ui [] = ret []"
| "run_slots E ui (sl # sls) = bnd (run_slot E ui sl) (\<lambda>x. bnd (run_slots E ui sls) (\<lambda>xs. ret (x # xs)))"

definition page_emit :: "ext \<Rightarrow> page_ui \<Rightarrow> page_signal \<Rightarrow> (nodew, shown list) prog" where
  "page_emit E ui sg = run_slots E ui (map snd (filter (\<lambda>(g, _). g = sg) page_connections))"

section \<open>Signals as events\<close>

definition perform_all :: "ext \<Rightarrow> event list \<Rightarrow> (nodew, unit) prog" where
  "perform_all E evs = foldr (\<lambda>ev m. thn (perform E ev) m) evs (ret ())"

text \<open>
  The events a signal comes down to: none for a menu that only opens, and for the list of the
  contracts, which reads; a dialogue for a friend loads what its first selector entry stands for.
\<close>

fun signal_events :: "ext \<Rightarrow> page_ui \<Rightarrow> page_signal \<Rightarrow> event list" where
  "signal_events E ui friendSelection_doubleClicked = [Show_friend (ui_selectedId ui) (hd (currencyNames (x_build E)))]"
| "signal_events E ui askButton_clicked = [Add_ask (ui_selector1 ui) (ui_ask_price ui) (ui_ask_amount ui)]"
| "signal_events E ui bidButton_clicked = [Add_bid (ui_selector1 ui) (ui_bid_price ui) (ui_bid_amount ui)]"
| "signal_events E ui selector2_changed = [Select_total (ui_selector2 ui)]"
| "signal_events E ui history_itemChanged = [Select_total (ui_selector2 ui)]"
| "signal_events E ui selector1_changed = [Select_currency (ui_selector1 ui)]"
| "signal_events E ui timer_timeout = [Page_timer (ui_selector2 ui)]"
| "signal_events E ui _ = []"

fun item_events :: "ext \<Rightarrow> page_ui \<Rightarrow> menu_item \<Rightarrow> event list" where
  "item_events E ui Pay_item = [Show_funds (ui_selectedId ui) (hd (currencyNames (x_build E)))]"
| "item_events E ui Details_item = [Show_friend (ui_selectedId ui) (hd (currencyNames (x_build E)))]"
| "item_events E ui Reset_item = []"
| "item_events E ui Cancel_item = [Cancel_order (ui_row ui)]"

lemmas slot_prog = quietly_def thn_def bnd_def prog_apply

lemma insert_rows_reads: "insert_rows E rs rows s = (v, t) \<Longrightarrow> t = s"
  by (induction rs arbitrary: rows s) (auto simp: get_contract_def deref_def bnd_def prog_apply split: prod.splits sum.splits option.splits)

lemma CurrentTxList_reads: "CurrentTxList E s = (v, t) \<Longrightarrow> t = s"
  by (auto simp: CurrentTxList_def bnd_def prog_apply dest: insert_rows_reads)

text \<open>A signal whose slots return leaves what its events leave.\<close>

lemma signal_is_events:
  assumes "page_emit E ui sg s = (Inr xs, t)"
  shows "perform_all E (signal_events E ui sg) s = (Inr (), t)"
  using assms by (cases sg) (auto simp: page_emit_def page_connections_def perform_all_def slot_prog ZeroReserveDialog_friendDetails_def
      new_FriendDetailsDialog_def ZeroReserveDialog_selectCurrency_def Let_def dest!: CurrentTxList_reads split: prod.splits sum.splits)

lemma item_is_events:
  assumes "page_item E ui it s = (Inr x, t)"
  shows "perform_all E (item_events E ui it) s = (Inr (), t)"
  using assms by (cases it) (auto simp: perform_all_def slot_prog ZeroReserveDialog_friendDetails_def ZeroReserveDialog_payTo_def
      new_FriendDetailsDialog_def new_PaymentDialog_def Let_def split: prod.splits sum.splits)

lemma reachable_performs: "reachable E s \<Longrightarrow> perform_all E evs s = (Inr (), t) \<Longrightarrow> reachable E t"
proof (induction evs arbitrary: s)
  case (Cons ev evs)
  then show ?case by (auto simp: perform_all_def slot_prog dest: reachable.event split: prod.splits sum.splits)
qed (simp add: perform_all_def prog_apply)

text \<open>So what holds in every reachable state holds after every signal of the page and every choice from its menus.\<close>

lemma page_stays_reachable:
  "reachable E s \<Longrightarrow> page_emit E ui sg s = (Inr xs, t) \<Longrightarrow> reachable E t"
  "reachable E s \<Longrightarrow> page_item E ui it s = (Inr x, t) \<Longrightarrow> reachable E t"
  using reachable_performs signal_is_events item_is_events by blast+

lemma insert_rows_all:
  assumes "set rs \<subseteq> dom (k_heap s)"
  shows "insert_rows E rs rows s = (Inr (rev (map (tx_row_of E \<circ> the \<circ> k_heap s) rs) @ rows), s)"
  using assms by (induction rs arbitrary: rows) (auto simp: get_contract_def deref_def bnd_def prog_apply)

text \<open>
  C40: In every state a node reaches, the button for the current contracts opens their list, with one row for every
  contract that was made and not deleted, the last one first, and changes nothing: the page, which goes through the
  pointers the rest of the program keeps in a list, never reads a deleted contract.
\<close>

theorem contracts_shown:
  assumes "reachable E s"
  shows "page_emit E ui currentTx_clicked s =
      (Inr [Contract_rows (rev (map (tx_row_of E \<circ> the \<circ> k_heap s) (k_contracts s)))], s) \<and>
    distinct (k_contracts s) \<and> set (k_contracts s) = dom (k_heap s)"
  using contracts.reachable_inv [OF assms] by (simp add: page_emit_def page_connections_def slot_prog CurrentTxList_def
      insert_rows_all contract_view_def listed_once_def)

theorem contracts_shown_witness:
  "\<exists>s k ui. reachable demo s \<and> k_heap s 0 = Some k \<and> k_btcTxId k = ''tx'' \<and>
    page_emit demo ui currentTx_clicked s = (Inr [Contract_rows [tx_row_of demo k]], s)"
proof -
  obtain s k where s: "reachable demo s" "k_contracts s = [0]" "k_heap s 0 = Some k" "k_btcTxId k = ''tx''" using demo_loaded by blast
  with contracts_shown [OF s(1)] show ?thesis by auto
qed

text \<open>While the menu of the friend list is open the timer leaves the list, and with it the selection, alone.\<close>

lemma menu_keeps_selection: "updateFriendList (ui\<lparr>m_update := False\<rparr>) = ui\<lparr>m_update := False\<rparr>"
  by (simp add: updateFriendList_def)

end
