(* ===== verification/Printing.thy ===== *)
theory Printing
  imports ItemLaws
begin

text \<open>
  The text of the items, for logs: the \<^verbatim>\<open>print\<close> operations of \<^verbatim>\<open>src/RSZeroReserveItems.cpp\<close> and
  \<^verbatim>\<open>src/RSZRRemoteItems.cpp\<close>. RetroShare's frame around the text of an item and its indentation are parameters; enumerations
  print as their codes, numbers as on the wire. The indentation is a 16-bit number.
\<close>

record printer =
  pr_base :: "string \<Rightarrow> 16 word \<Rightarrow> string"
  pr_end :: "string \<Rightarrow> 16 word \<Rightarrow> string"
  pr_indent :: "16 word \<Rightarrow> string"

definition framed :: "printer \<Rightarrow> string \<Rightarrow> 16 word \<Rightarrow> string list \<Rightarrow> string" where
  "framed P name indent lines = pr_base P name indent @ concat (map (\<lambda>l. l @ [CHR 0x0A]) lines) @ pr_end P name indent"

definition MsgItem_print :: "printer \<Rightarrow> MsgType \<Rightarrow> string \<Rightarrow> 16 word \<Rightarrow> string" where
  "MsgItem_print P t msg indent = (let i = pr_indent P (indent + 2) in
     framed P ''RsZeroReserveMsgItem'' indent
      [i @ ''MsgType : '' @ show_nat (MsgType_code t), i @ ''Message : '' @ msg])"

definition CreditItem_print :: "printer \<Rightarrow> ext \<Rightarrow> Credit \<Rightarrow> 16 word \<Rightarrow> string" where
  "CreditItem_print P E c indent = (let i = pr_indent P (indent + 2) in
     framed P ''RsZeroReserveCreditItem'' indent
      [i @ ''Currency: '' @ c_currency c, i @ ''Credit: '' @ toStdString E (c_credit c),
       i @ ''Our Credit : '' @ toStdString E (c_our_credit c), i @ ''Balance : '' @ toStdString E (c_balance c)])"

definition TxItem_print :: "printer \<Rightarrow> TxPhase \<Rightarrow> TransactionId \<Rightarrow> 16 word \<Rightarrow> string" where
  "TxItem_print P phase txId indent =
     framed P ''RsZeroReserveTxItem'' indent
      [pr_indent P (indent + 2) @ ''TX Phase : '' @ show_nat (TxPhase_code phase), ''TX ID    : '' @ txId]"

text \<open>The role is not set in an item that this node made: printing it then has no defined result.\<close>

definition InitTxItem_print :: "printer \<Rightarrow> ext \<Rightarrow> Role option \<Rightarrow> Payment \<Rightarrow> 16 word \<Rightarrow> exn + string" where
  "InitTxItem_print P E role p indent = (let i = pr_indent P (indent + 2) in case role of
       None \<Rightarrow> Inl (Undefined Uninitialised)
     | Some r \<Rightarrow> Inr (framed P ''RsZeroReserveInitTxItem'' indent
        [i @ ''Role     : '' @ show_nat (Role_code r), i @ ''Amount   : '' @ toStdString E (p_amount p),
         i @ ''Currency : '' @ c_currency (p_credit p)]))"

definition RemoteTxItem_print :: "printer \<Rightarrow> 16 word \<Rightarrow> string" where
  "RemoteTxItem_print P indent =
     framed P ''RSZRRemoteTxItem'' indent [pr_indent P (indent + 2) @ ''Done a lot of travelling '']"

text \<open>The end of an order is indented itself.\<close>

definition OrderBookItem_print :: "printer \<Rightarrow> ext \<Rightarrow> Order \<Rightarrow> 16 word \<Rightarrow> string" where
  "OrderBookItem_print P E ord indent = (let i = pr_indent P (indent + 2) in
     pr_base P ''RsZeroReserveOrderBookItem'' indent @
     concat (map (\<lambda>l. i @ l @ [CHR 0x0A])
      [''Amount  : '' @ toStdString E (o_amount ord), ''ID      : '' @ o_order_id ord, ''Price   : '' @ toStdString E (o_price ord),
       ''Type    : '' @ (if o_orderType ord = ASK then ''ASK'' else ''BID''), ''Purpose : '' @ show_nat (Purpose_code (o_purpose ord))]) @
     i @ pr_end P ''RsZeroReserveOrderBookItem'' indent)"

definition print_item :: "printer \<Rightarrow> ext \<Rightarrow> item \<Rightarrow> 16 word \<Rightarrow> exn + string" where
  "print_item P E i indent = (case i of
       OrderBookItem addr ord \<Rightarrow> Inr (OrderBookItem_print P E ord indent)
     | TxItem phase txId \<Rightarrow> Inr (TxItem_print P phase txId indent)
     | InitTxItem phase txId role p \<Rightarrow> InitTxItem_print P E role p indent
     | CreditItem c \<Rightarrow> Inr (CreditItem_print P E c indent)
     | MsgItem t msg \<Rightarrow> Inr (MsgItem_print P t msg indent)
     | RemoteTxItem addr phase dir pid payload \<Rightarrow> Inr (RemoteTxItem_print P indent))"

end
