(* ===== verification/Spec2Isabelle.thy ===== *)
theory Spec2Isabelle
  imports MatchLaws Rollback Settlement Typing Flood SatoshiLaws LibBitcoin Lifecycle Callbacks Startup Curl Page Printing
begin

text \<open>
  \<^bold>\<open>The program.\<close> Zero Reserve is a plug-in for the friend-to-friend network RetroShare. Friends
  grant each other credit lines in some currency; orders to buy and to sell Bitcoin travel from
  friend to friend; a purchase pays the seller in IOUs along a chain of friends (\<^emph>\<open>hops\<close>) and in
  Bitcoin directly. A node keeps its credit lines, own orders and open contracts in sqlite and
  talks to a Bitcoin client over JSON-RPC. RetroShare calls the service over and over
  (\<^verbatim>\<open>p3ZeroReserveRS::tick\<close>); the user acts through dialogues.

  \<^bold>\<open>How the model is built.\<close> A C++ operation is a function of type \<open>prog\<close> (theory \<open>Prelude\<close>), from
  a state to an exception or a value and the next state. The state grows along the chain of the
  components, by record extension: \<open>world\<close> (clock, who is online, number of requests to the
  Bitcoin client, queued messages), \<open>netw\<close> (router), \<open>dbw\<close> (tables, open transaction, log,
  number of statements), \<open>payw\<close> (history view), \<open>bookw\<close> (order objects, three lists), \<open>conw\<close>
  (contract objects, list), \<open>svcw\<close> (packets sent and received), \<open>tmw\<close> (transaction managers,
  their table), \<open>nodew\<close> (stopped or not). An operation is typed on the smallest of these it needs
  and runs on every larger one. Objects behind pointers live in partial maps from addresses;
  reading a deleted one, a null pointer, an uninitialised member, an index out of a table, an
  iterator that was erased, a signed overflow or a mutex waiting for itself stops with \<open>Undefined\<close> and its kind, which no
  handler of the code catches. Every other exception is a value that the handlers of the code
  catch by their class.

  \<^bold>\<open>Theories and sources\<close> (all under \<^verbatim>\<open>src/\<close>; operations have the names of the code):
  \<^item> \<open>Prelude\<close>, \<open>ZrTypes\<close>: \<^verbatim>\<open>zrtypes.h\<close> and the shared machinery; \<open>ext\<close> is the record of the
    third-party functions, \<open>Instance\<close> states what is assumed of them and has an instance;
  \<^item> \<open>Plugin\<close>: the message queue of \<^verbatim>\<open>ZeroReservePlugin.cpp\<close>; \<open>Currency\<close>: \<^verbatim>\<open>Currency.{h,cpp}\<close>;
  \<^item> \<open>Routing\<close>: \<^verbatim>\<open>Router.{h,cpp}\<close>, \<^verbatim>\<open>TraceRouter.{h,cpp}\<close>; \<open>Records\<close>: the data classes of
    \<^verbatim>\<open>OrderBook.h\<close>, \<^verbatim>\<open>Credit.h\<close>, \<^verbatim>\<open>BtcContract.h\<close>;
  \<^item> \<open>ZrDb\<close>: \<^verbatim>\<open>zrdb.{h,cpp}\<close>; laws in \<open>Ledger\<close> (the credit lines) and \<open>Store\<close> (the rest); \<open>Callbacks\<close> has the
    callbacks as sqlite calls them, on texts, and shows that the loaders over them are those of \<open>ZrDb\<close>;
  \<^item> \<open>CreditOps\<close>: \<^verbatim>\<open>Credit.cpp\<close>; \<open>Payments\<close>: \<^verbatim>\<open>Payment.{h,cpp}\<close>, both with their laws;
  \<^item> \<open>OrderBook\<close>: \<^verbatim>\<open>OrderBook.cpp\<close>, laws in \<open>BookLaws\<close>; \<open>Contracts\<close>: \<^verbatim>\<open>BtcContract.cpp\<close>, laws in
    \<open>ContractLaws\<close>; \<open>Items\<close>: \<^verbatim>\<open>RSZeroReserveItems.cpp\<close>, \<^verbatim>\<open>RSZRRemoteItems.cpp\<close>, laws in \<open>ItemLaws\<close>;
  \<^item> \<open>Service\<close>: \<^verbatim>\<open>p3ZeroReserveRS.cpp\<close> but for its loops, laws in \<open>ServiceLaws\<close>;
  \<^item> \<open>Transactions\<close>: what all managers share of \<^verbatim>\<open>TransactionManager.{h,cpp}\<close>; \<open>TmLocal\<close>:
    \<^verbatim>\<open>TmLocalCoordinator.cpp\<close>, \<^verbatim>\<open>TmLocalCohorte.cpp\<close> and the dialogues for payments and credit;
    \<open>TmContract\<close>: \<^verbatim>\<open>TmContract.cpp\<close>; \<open>MyOrders\<close>: \<^verbatim>\<open>MyOrders.cpp\<close>;
  \<^item> \<open>Node\<close>: the virtual calls, both \<^verbatim>\<open>handleTxItem\<close>, the timeouts and the loops of the service;
    \<open>Dialog\<close>: the main page, the list of contracts, the settings, stopping;
  \<^item> \<open>Rpc\<close>, \<open>Curl\<close>, \<open>Satoshi\<close>: \<^verbatim>\<open>satoshi/\<close> and the client that does nothing, laws in \<open>SatoshiLaws\<close>; \<open>Curl\<close>
    has the transfer in the steps of cURL and shows that they are the one of \<open>Rpc\<close>;
  \<^item> \<open>LibBitcoin\<close>: \<^verbatim>\<open>ZrLibBitcoin.{h,cpp}\<close>, the other client, with its laws;
  \<^item> \<open>Lifecycle\<close>: how the database comes into being and is closed (\<^verbatim>\<open>ZrDB::Instance\<close>, \<^verbatim>\<open>init\<close>, \<^verbatim>\<open>close\<close>,
    \<^verbatim>\<open>ZeroReservePlugin::stop\<close>), with its mutex and handles; the dialogues for wallets and addresses;
  \<^item> \<open>Startup\<close>: how \<^verbatim>\<open>ZeroReservePlugin.cpp\<close> makes the books, the page, the service and the one Bitcoin
    client on demand; the call stacks of \<^verbatim>\<open>helpers.cpp\<close>;
  \<^item> \<open>Frames\<close>: for every operation, which part of the state it leaves alone; \<open>Runs\<close>: the
    runs of a node, and what makes an invariant hold in all of them, as locales from a component's
    operations up to whole runs; \<open>Managers\<close>, \<open>Typing\<close>, \<open>LocalTx\<close>,
    \<open>TxLaws\<close>, \<open>MatchLaws\<close>, \<open>Purchase\<close>: the laws of transactions, over runs of one node or of two;
    \<open>Hops\<close>: a purchase along a chain of any length; \<open>Rollback\<close>: purchases that fail; \<open>Settlement\<close>: how the
    contracts of a purchase are paid; \<open>Flood\<close>: an order in a network of any shape;
  \<^item> \<open>Widgets\<close>: the selectors, menus and dialogues as they open; \<open>Page\<close>: the signals of the main page, the slots
    they run, and the events of \<open>Runs\<close> they come down to; \<open>Printing\<close>: the text of the items.

  \<^bold>\<open>What the theorems show.\<close> The credit lines: the statements of the peers table implement a map
  from friend and currency to an account (\<open>Ledger.peers_simulation\<close>); \<open>Ledger\<close> uses it through
  the locale \<open>credit_store\<close>, on which allocation, payments and contracts rest. Funds are
  allocated exactly when available, accepted payments respect the line, commits move balances by
  their sums, a new contract reserves its price and keeps it in step with its amount, and is
  settled in one transaction. The book: its lists stay well-formed, the view is sorted by price,
  no order is accepted twice, timing out removes exactly the stale orders; matching carries out a
  plan computed beforehand that respects price and amount. The network: what is written is read
  back, an order goes to exactly the friends whose credit line is not overdrawn, whatever its amount; in a whole network, whatever order the
  packets arrive in, a new order stops spreading, has then reached exactly the nodes that friends whose
  credit lines are not overdrawn lead to, and the routes it leaves lead back to its author (\<open>Flood\<close>, over the relation
  \<open>deliver\<close> on the nodes and the multiset of packets under way). Transactions: the table of the managers
  leads to live managers in every state a node reaches and the list of contracts is that of the
  live ones (\<open>Managers.managers_consistent\<close>, \<open>Managers.contracts_listed\<close>, both from
  interpretations of the locale \<open>Runs.run_invariant\<close>, by rule induction over \<open>reachable\<close>), the peers table keeps
  its keys unique and its numbers readable in all that follows (\<open>Typing.peers_stay_readable\<close>), the main page never reads
  a deleted contract (\<open>Page.contracts_shown\<close>), a
  payment between friends is settled on both sides (\<open>LocalTx.local_payment_settles\<close>), a purchase
  between friends leaves both with the same stored contract and with orders that are smaller by its
  amount (\<open>Purchase.purchase_settles\<close>), and a purchase over any number of hops ends with the same
  contract at every node, each of which has reserved its price
  (\<open>Hops.purchase_over_hops\<close>), while one that the seller cannot make is undone at every node
  (\<open>Rollback.refused_purchase_unwinds\<close>), and once its Bitcoin are confirmed it is paid along the whole
  chain, both ends of every line in agreement (\<open>Settlement.confirmed_purchase_is_paid\<close>, from the refinement of an
  abstract till by \<^verbatim>\<open>pollContracts\<close>); no answer makes a buyer take more than was asked for. The Bitcoin
  clients: the port a configuration selects, and that a transaction of the libbitcoin wallet
  balances and which of its inputs are signed. The first call for the database returns it open or not at all.

  Where the code does something else than it means to, a theorem states what it does: negative
  payments and fees, the lost allocation of a timed-out contract, amounts rounded down, packets
  that are not checked, currencies and items that stop a node, the loop over the timeouts, the
  order that is deleted under a purchase, the tunnel of a hop that a second query takes over, the
  contract deleted for another purchase, the tenth of an order that is computed as 0, the funds kept for an offer voted against, the
  confirmed contract that cannot be paid and is forgotten, the
  signature taken as complete, the failed initialisation that waits for its own mutex, the sum
  of amount and fee that wraps around, the stored wallet that is not a seed.

  \<^bold>\<open>Bounds and fuel.\<close> \<open>LocalTx.talk n\<close> delivers the packets two nodes send each other for at most
  \<open>n\<close> rounds and gives none when they are not done; a payment needs four rounds (query, vote,
  commit, acknowledgement) and the theorem states that \<open>talk 4\<close> ends. A purchase
  between two is stated as its four steps, one after the other, and one over hops as three waves,
  each a recursion over the list of the hops. That an order stops spreading is a bound on the length
  of any run of \<open>deliver\<close>, with no fuel. \<open>LibBitcoin.broadcast_turns n\<close> is the first \<open>n\<close> turns of a loop
  that runs until the program ends (\<open>broadcast_loop\<close> has the flag that would end it, which nothing sets). No other definition has fuel: the loops run over lists,
  and \<^verbatim>\<open>pollContracts\<close> and \<^verbatim>\<open>timeout\<close> over the list as it is when they start. The
  decimal conversions have the 64 bits of the code and the time stamps that come from the
  network are subtracted with an overflow check; amounts in \<open>LibBitcoin\<close> are words of 64 bits.

  \<^bold>\<open>Abstractions.\<close>
  \<^item> \<open>ZR_Number\<close> is the exact rationals; the overflow of \<^verbatim>\<open>boost::rational<int64_t>\<close> arithmetic is
    not modelled (the conversions have \<open>zr_fits\<close> as a hypothesis where it matters).
  \<^item> An operation runs alone: the mutexes of the code have no counterpart but for the one of
    \<^verbatim>\<open>ZrDB::Instance\<close> in \<open>Lifecycle\<close>, and the events of \<open>Runs.event\<close> come one after the other.
  \<^item> Addresses of objects are not used again after a deletion, where \<^verbatim>\<open>new\<close> may use them; only a pointer to a
    deleted object could tell, and reading one stops with \<open>Undefined\<close>. What is proved of pointers is that they
    lead to live objects, or which operation reads a deleted one.
  \<^item> sqlite is the list of rows its statements select and change; a statement may fail
    (\<open>x_sql_ok\<close>), and one whose texts hold a quote stops with the kind \<open>Sql_injection\<close>.
  \<^item> Above \<open>Satoshi\<close> the Bitcoin client is its answers (\<open>x_btc_info\<close>, \<open>x_mk_raw_tx\<close> and the others
    of \<open>ext\<close>); the messages a failing client queues are in \<open>Satoshi\<close> alone. The transaction
    text a failed \<^verbatim>\<open>mkRawTx\<close> may leave behind is not returned.
  \<^item> The role on an item that starts a payment is never set by its sender; the item travels with
    its other fields (\<open>LocalTx.receive_item\<close>), and the receiver does not use the role.
  \<^item> Widgets are the texts they hold; a dialogue is the function that runs when it is accepted.

  \<^bold>\<open>Not modelled.\<close> How the threads of \<^verbatim>\<open>ZrLibBitcoin\<close> hand over to each other; the
  index functions of the Qt models, the drawing of the friend list, which keep no state of the program; the
  accessors of the classes, which are fields here; the Windows branches.
\<close>

end
